(* ===== verification/Go_Prelude.thy ===== *)
theory Go_Prelude
  imports Main "HOL-Library.Char_ord" "HOL-Library.List_Lexorder"
begin

text \<open>
  The vocabulary shared by all components: Go error values (sentinels, API-server and gRPC
  errors, wrapping by \<^verbatim>\<open>%w\<close> and \<^verbatim>\<open>errors.Is\<close>), the result of a fallible call, and the part
  of Go's standard library the operator computes with (\<^verbatim>\<open>strings.Split\<close>, \<^verbatim>\<open>Join\<close>, \<^verbatim>\<open>TrimPrefix\<close>,
  \<^verbatim>\<open>TrimSpace\<close>, \<^verbatim>\<open>strconv.Atoi\<close>, \<^verbatim>\<open>Itoa\<close>, the conversion to \<^verbatim>\<open>int32\<close>).  A Go string is a list
  of characters (bytes); \<^verbatim>\<open>TrimSpace\<close> trims the ASCII white space.
\<close>

named_theorems go_simps \<open>evaluation rules of the string and result functions\<close>
named_theorems op_defs \<open>definitions of operations that proofs unfold together\<close>

section \<open>Errors and results\<close>

text \<open>gRPC status codes the sources distinguish; every other code is \<open>CodeOther\<close>.\<close>

datatype grpc_code =
    CodeUnavailable | CodeDeadlineExceeded | CodeCanceled | CodeUnknown | CodeNotFound
  | CodeAlreadyExists | CodeInvalidArgument | CodeFailedPrecondition | CodeOther

text \<open>
  An error value: a fresh message, a message wrapping another error, an error the API server
  returned (classified the way \<^verbatim>\<open>apierrors.IsNotFound\<close> and its relatives read it), a gRPC
  status error, or one of the sentinels of the sources.  \<open>Panic\<close> is a run-time panic.
\<close>

datatype err =
    ErrMsg string
  | WrapErr string err
  | ApiNotFound string
  | ApiAlreadyExists string
  | ApiConflict string
  | ApiOther string
  | GrpcErr grpc_code string
  | ErrInspecting
  | ErrTargetNotFound
  | ErrNamespaceNotFound
  | ErrScheduleNotFound
  | ErrWorkflowNotFound
  | ErrNoSchema
  | Panic string

type_synonym 'a result = "err + 'a"

fun errorsIs :: "err \<Rightarrow> err \<Rightarrow> bool" where
  "errorsIs (WrapErr m e) t = (WrapErr m e = t \<or> errorsIs e t)"
| "errorsIs e t = (e = t)"

fun isNotFound :: "err \<Rightarrow> bool" where
  "isNotFound (ApiNotFound _) = True"
| "isNotFound (WrapErr _ e) = isNotFound e"
| "isNotFound _ = False"

fun isAlreadyExists :: "err \<Rightarrow> bool" where
  "isAlreadyExists (ApiAlreadyExists _) = True"
| "isAlreadyExists (WrapErr _ e) = isAlreadyExists e"
| "isAlreadyExists _ = False"

fun isConflict :: "err \<Rightarrow> bool" where
  "isConflict (ApiConflict _) = True"
| "isConflict (WrapErr _ e) = isConflict e"
| "isConflict _ = False"

text \<open>\<^verbatim>\<open>client.IgnoreNotFound\<close>: a NotFound error counts as success.\<close>

definition ignoreNotFound :: "err \<Rightarrow> err option" where
  "ignoreNotFound e = (if isNotFound e then None else Some e)"

text \<open>The text of an error (\<^verbatim>\<open>err.Error()\<close>).\<close>

fun err_text :: "err \<Rightarrow> string" where
  "err_text (ErrMsg m) = m"
| "err_text (WrapErr m e) = m @ '': '' @ err_text e"
| "err_text (ApiNotFound m) = m"
| "err_text (ApiAlreadyExists m) = m"
| "err_text (ApiConflict m) = m"
| "err_text (ApiOther m) = m"
| "err_text (GrpcErr c m) = ''rpc error: '' @ m"
| "err_text ErrInspecting = ''schema inspection in progress''"
| "err_text ErrTargetNotFound = ''temporal target not found''"
| "err_text ErrNamespaceNotFound = ''namespace not found''"
| "err_text ErrScheduleNotFound = ''schedule not found''"
| "err_text ErrWorkflowNotFound = ''workflow execution not found''"
| "err_text ErrNoSchema = ''schema version table not found''"
| "err_text (Panic m) = m"

text \<open>Wrapping the error a call returned; a panic is not returned, it unwinds.\<close>

definition wrapErr :: "string \<Rightarrow> err \<Rightarrow> err" where
  "wrapErr m e = (case e of Panic p \<Rightarrow> Panic p | _ \<Rightarrow> WrapErr m e)"

definition bindR :: "'a result \<Rightarrow> ('a \<Rightarrow> 'b result) \<Rightarrow> 'b result" where
  "bindR r f = (case r of Inl e \<Rightarrow> Inl e | Inr x \<Rightarrow> f x)"

section \<open>The standard library\<close>

text \<open>\<^verbatim>\<open>strings.Split\<close> with a one-character separator.\<close>

fun split_on :: "char \<Rightarrow> string \<Rightarrow> string list" where
  "split_on c [] = [[]]"
| "split_on c (x # xs) =
     (if x = c then [] # split_on c xs
      else case split_on c xs of [] \<Rightarrow> [[x]] | p # ps \<Rightarrow> (x # p) # ps)"

text \<open>\<^verbatim>\<open>strings.Join\<close>.\<close>

fun joinWith :: "string \<Rightarrow> string list \<Rightarrow> string" where
  "joinWith sep [] = []"
| "joinWith sep [p] = p"
| "joinWith sep (p # q # ps) = p @ sep @ joinWith sep (q # ps)"

definition hasPrefix :: "string \<Rightarrow> string \<Rightarrow> bool" where
  "hasPrefix s p = (take (length p) s = p)"

definition hasSuffix :: "string \<Rightarrow> string \<Rightarrow> bool" where
  "hasSuffix s p = hasPrefix (rev s) (rev p)"

text \<open>\<^verbatim>\<open>strings.CutPrefix\<close>: the rest and whether the prefix was there.\<close>

definition cutPrefix :: "string \<Rightarrow> string \<Rightarrow> string option" where
  "cutPrefix s p = (if hasPrefix s p then Some (drop (length p) s) else None)"

definition trimPrefix :: "string \<Rightarrow> string \<Rightarrow> string" where
  "trimPrefix s p = (if hasPrefix s p then drop (length p) s else s)"

definition trimSuffix :: "string \<Rightarrow> string \<Rightarrow> string" where
  "trimSuffix s p = rev (trimPrefix (rev s) (rev p))"

definition isSpace :: "char \<Rightarrow> bool" where
  "isSpace c = (c = CHR '' '' \<or> (9 \<le> (of_char c :: nat) \<and> (of_char c :: nat) \<le> 13))"

definition trimSpace :: "string \<Rightarrow> string" where
  "trimSpace s = rev (dropWhile isSpace (rev (dropWhile isSpace s)))"

definition isDigit :: "char \<Rightarrow> bool" where
  "isDigit c = (48 \<le> (of_char c :: nat) \<and> (of_char c :: nat) \<le> 57)"

definition digits_val :: "string \<Rightarrow> nat" where
  "digits_val = foldl (\<lambda>n c. 10 * n + ((of_char c :: nat) - 48)) 0"

definition digits_of :: "string \<Rightarrow> nat option" where
  "digits_of s = (if s \<noteq> [] \<and> list_all isDigit s then Some (digits_val s) else None)"

text \<open>
  \<^verbatim>\<open>strconv.Atoi\<close> on a 64-bit platform: an optional sign, at least one decimal digit, and a
  value that fits in an \<^verbatim>\<open>int\<close>.
\<close>

definition atoi :: "string \<Rightarrow> int option" where
  "atoi s =
     (let (neg, ds) = (case s of c # r \<Rightarrow>
              if c = CHR ''-'' then (True, r) else if c = CHR ''+'' then (False, r) else (False, s)
            | [] \<Rightarrow> (False, []))
      in case digits_of ds of
           None \<Rightarrow> None
         | Some n \<Rightarrow>
             (let v = (if neg then - int n else int n)
              in if - (2 ^ 63) \<le> v \<and> v < 2 ^ 63 then Some v else None))"

fun nat_str :: "nat \<Rightarrow> string" where
  "nat_str n = (if n < 10 then [char_of (48 + n)] else nat_str (n div 10) @ [char_of (48 + n mod 10)])"

declare nat_str.simps [simp del]

text \<open>\<^verbatim>\<open>strconv.Itoa\<close> and \<^verbatim>\<open>FormatInt\<close> in base ten.\<close>

definition itoa :: "int \<Rightarrow> string" where
  "itoa i = (if i < 0 then CHR ''-'' # nat_str (nat (- i)) else nat_str (nat i))"

text \<open>Go's conversion to \<^verbatim>\<open>int32\<close>, which wraps around.\<close>

definition to_int32 :: "int \<Rightarrow> int" where
  "to_int32 i = (i + 2 ^ 31) mod 2 ^ 32 - 2 ^ 31"

text \<open>
  \<^verbatim>\<open>time.Duration.String\<close>: hours, minutes and seconds with a fraction, or a smaller unit below one
  second (the micro sign is the two bytes of its UTF-8 encoding).
\<close>

definition fmtFrac :: "nat \<Rightarrow> nat \<Rightarrow> string" where
  "fmtFrac v prec =
     (let ds = nat_str (10 ^ prec + v mod 10 ^ prec);
          fr = rev (dropWhile (\<lambda>c. c = CHR ''0'') (rev (drop 1 ds)))
      in if fr = [] then [] else CHR ''.'' # fr)"

definition durationString :: "int \<Rightarrow> string" where
  "durationString d =
     (let u = nat (abs d); sgn = (if d < 0 then ''-'' else []) in
      if u = 0 then ''0s''
      else if u < 1000 then sgn @ nat_str u @ ''ns''
      else if u < 1000000 then sgn @ nat_str (u div 1000) @ fmtFrac u 3 @ [CHR 0xC2, CHR 0xB5, CHR ''s'']
      else if u < 1000000000 then sgn @ nat_str (u div 1000000) @ fmtFrac u 6 @ ''ms''
      else
        (let s = u div 1000000000; m = s div 60; h = m div 60;
             secs = nat_str (s mod 60) @ fmtFrac u 9 @ ''s''
         in sgn @ (if h > 0 then nat_str h @ ''h'' @ nat_str (m mod 60) @ ''m'' @ secs
                   else if m > 0 then nat_str m @ ''m'' @ secs else secs)))"

text \<open>A loop that returns the first element of a slice a test accepts.\<close>

abbreviation findFirst :: "('a \<Rightarrow> bool) \<Rightarrow> 'a list \<Rightarrow> 'a option" where
  "findFirst \<equiv> List.find"

text \<open>\<^verbatim>\<open>*p\<close> of a pointer that may be nil, with the value used instead.\<close>

definition derefOr :: "'a \<Rightarrow> 'a option \<Rightarrow> 'a" where
  "derefOr d p = (case p of None \<Rightarrow> d | Some x \<Rightarrow> x)"

section \<open>Laws\<close>

lemma errorsIs_refl [simp]: "errorsIs e e"
  by (cases e) auto

lemma errorsIs_wrap [simp, intro]: "errorsIs e t \<Longrightarrow> errorsIs (WrapErr m e) t"
  by simp

lemma bindR_simps [simp]:
  "bindR (Inl e) f = Inl e"
  "bindR (Inr x) f = f x"
  by (simp_all add: bindR_def)

lemma wrapErr_Panic [simp]: "wrapErr m (Panic p) = Panic p"
  by (simp add: wrapErr_def)

lemma bindR_eq_Inr: "bindR r f = Inr y \<longleftrightarrow> (\<exists>x. r = Inr x \<and> f x = Inr y)"
  by (cases r) auto

lemma derefOr_simps [simp]: "derefOr d None = d" "derefOr d (Some x) = x"
  by (simp_all add: derefOr_def)

subsection \<open>Split and Join\<close>

lemma split_on_ne [simp]: "split_on c s \<noteq> []"
  by (cases s) (auto split: list.splits)

lemma joinWith_Cons: "ps \<noteq> [] \<Longrightarrow> joinWith sep (p # ps) = p @ sep @ joinWith sep ps"
  by (cases ps) auto

lemma join_split [simp]: "joinWith [c] (split_on c s) = s"
proof (induction s)
  case Nil
  then show ?case by simp
next
  case (Cons x s)
  obtain p ps where e: "split_on c s = p # ps"
    by (cases "split_on c s") auto
  then show ?case
    using Cons by (cases ps) (auto simp: joinWith_Cons)
qed

lemma split_on_no_sep: "p \<in> set (split_on c s) \<Longrightarrow> c \<notin> set p"
proof (induction s arbitrary: p)
  case (Cons x s)
  then show ?case
    by (cases "split_on c s") (auto split: if_splits)
qed simp

lemma split_on_no [simp]: "c \<notin> set s \<Longrightarrow> split_on c s = [s]"
  by (induction s) auto

lemma split_on_append: "c \<notin> set p \<Longrightarrow> split_on c (p @ c # s) = p # split_on c s"
  by (induction p) auto

lemma split_join: "ps \<noteq> [] \<Longrightarrow> \<forall>p \<in> set ps. c \<notin> set p \<Longrightarrow> split_on c (joinWith [c] ps) = ps"
proof (induction ps)
  case (Cons p ps)
  then show ?case by (cases ps) (auto simp: split_on_append)
qed simp

subsection \<open>Prefixes\<close>

lemma hasPrefix_append [simp]: "hasPrefix (p @ s) p"
  by (simp add: hasPrefix_def)

lemma hasPrefixE: "hasPrefix s p \<Longrightarrow> \<exists>r. s = p @ r"
  unfolding hasPrefix_def by (metis append_take_drop_id)

lemma cutPrefix_append [simp]: "cutPrefix (p @ s) p = Some s"
  by (simp add: cutPrefix_def)

lemma cutPrefix_Some: "cutPrefix s p = Some r \<longleftrightarrow> s = p @ r"
  unfolding cutPrefix_def by (auto dest: hasPrefixE split: if_splits)

subsection \<open>Decimal numbers\<close>

lemma of_char_of_digit: "n < 10 \<Longrightarrow> (of_char (char_of (48 + n :: nat)) :: nat) = 48 + n"
  by simp

lemma isDigit_char_of: "n < 10 \<Longrightarrow> isDigit (char_of (48 + n :: nat))"
  by (simp add: isDigit_def)

lemma digits_val_snoc: "digits_val (s @ [c]) = 10 * digits_val s + ((of_char c :: nat) - 48)"
  by (simp add: digits_val_def)

lemmas nat_str_eval =
  nat_str.simps [of 0] nat_str.simps [of 1] nat_str.simps [of "numeral k" for k]

lemma nat_str_ne [simp]: "nat_str n \<noteq> []"
  by (subst nat_str.simps) simp

lemma nat_str_digits: "list_all isDigit (nat_str n)"
proof (induction n rule: nat_str.induct)
  case (1 n)
  then show ?case
    by (subst nat_str.simps) (auto simp: isDigit_char_of)
qed

lemma digits_val_nat_str: "digits_val (nat_str n) = n"
proof (induction n rule: nat_str.induct)
  case (1 n)
  show ?case
  proof (cases "n < 10")
    case True
    then show ?thesis by (subst nat_str.simps) (simp add: digits_val_def)
  next
    case False
    then show ?thesis
      using 1 by (subst nat_str.simps) (simp add: digits_val_snoc)
  qed
qed

lemma digits_of_nat_str [simp]: "digits_of (nat_str n) = Some n"
  by (simp add: digits_of_def nat_str_digits digits_val_nat_str)

lemma nat_str_hd: "\<exists>c r. nat_str n = c # r \<and> isDigit c"
  using nat_str_digits [of n] by (cases "nat_str n") auto

lemma sign_not_digit [simp]: "\<not> isDigit (CHR ''-'')" "\<not> isDigit (CHR ''+'')" "\<not> isDigit (CHR ''.'')"
  by (simp_all add: isDigit_def)

lemma atoi_nat_str: "int n < 2 ^ 63 \<Longrightarrow> atoi (nat_str n) = Some (int n)"
proof -
  assume n: "int n < 2 ^ 63"
  obtain c r where e: "nat_str n = c # r" and d: "isDigit c"
    using nat_str_hd [of n] by blast
  have "c \<noteq> CHR ''-''" "c \<noteq> CHR ''+''"
    using d by auto
  then show ?thesis
    using n digits_of_nat_str [of n] by (simp add: atoi_def e)
qed

lemma atoi_itoa: "- (2 ^ 63) \<le> i \<Longrightarrow> i < 2 ^ 63 \<Longrightarrow> atoi (itoa i) = Some i"
proof (cases "i < 0")
  case True
  then show "- (2 ^ 63) \<le> i \<Longrightarrow> i < 2 ^ 63 \<Longrightarrow> atoi (itoa i) = Some i"
    by (simp add: itoa_def atoi_def)
qed (simp add: itoa_def atoi_nat_str)

lemma dot_notin_nat_str [simp]: "CHR ''.'' \<notin> set (nat_str n)"
  using nat_str_digits [of n] by (auto simp: list_all_iff)

lemma dot_notin_itoa [simp]: "CHR ''.'' \<notin> set (itoa i)"
  by (simp add: itoa_def)

lemma to_int32_id: "- (2 ^ 31) \<le> i \<Longrightarrow> i < 2 ^ 31 \<Longrightarrow> to_int32 i = i"
  by (simp add: to_int32_def)

lemma to_int32_bounds: "- (2 ^ 31) \<le> to_int32 i \<and> to_int32 i < 2 ^ 31"
  using pos_mod_bound [of "2 ^ 32" "i + 2 ^ 31"] pos_mod_sign [of "2 ^ 32" "i + 2 ^ 31"]
  by (simp add: to_int32_def)

end
