(* ===== verification/Api_Types.thy ===== *)
theory Api_Types
  imports Go_Prelude
begin

text \<open>
  The data of the TemporalCluster API (\<^verbatim>\<open>src/api/v1alpha1\<close>): \<^verbatim>\<open>temporalcluster_types.go\<close>,
  \<^verbatim>\<open>persistence_types.go\<close>, \<^verbatim>\<open>shared_types.go\<close> and \<^verbatim>\<open>conditions.go\<close>.  A pointer is an option, a
  Go map that is only looked up is a HOL map, and a Go map the code iterates over is an association
  list with distinct keys.  Durations and times are integers (nanoseconds, seconds).  A value of a
  Kubernetes type that the operator only carries through (resource requirements, tolerations,
  affinity) is its serialised text, as is a raw JSON extension.  The condition helpers of
  \<^verbatim>\<open>k8s.io/apimachinery\<close> are the parameter \<open>meta_api\<close>, with their documented behaviour as the
  predicate \<open>meta_laws\<close>.
\<close>

type_synonym gomap = "string \<rightharpoonup> string"
type_synonym 'v goalist = "(string \<times> 'v) list"
type_synonym opaque = string
type_synonym raw_ext = "string option"
type_synonym duration = int
type_synonym gotime = int

section \<open>Object metadata\<close>

record ObjectMeta =
  om_Name :: string
  om_Namespace :: string
  om_Labels :: gomap
  om_Annotations :: gomap
  om_Generation :: int
  om_Finalizers :: "string list"
  om_DeletionTimestamp :: "gotime option"
  om_ResourceVersion :: string
  om_OwnerReferences :: "string list"

section \<open>Conditions\<close>

datatype ConditionStatus = ConditionTrue | ConditionFalse | ConditionUnknown

record Condition =
  c_Type :: string
  c_Status :: ConditionStatus
  c_Reason :: string
  c_Message :: string
  c_ObservedGeneration :: int

text \<open>Condition types and reasons of \<^verbatim>\<open>conditions.go\<close>.\<close>

abbreviation ConditionReady :: string where "ConditionReady \<equiv> ''Ready''"
abbreviation ConditionAvailable :: string where "ConditionAvailable \<equiv> ''Available''"
abbreviation ConditionDegraded :: string where "ConditionDegraded \<equiv> ''Degraded''"
abbreviation ConditionProgressing :: string where "ConditionProgressing \<equiv> ''Progressing''"
abbreviation ConditionPersistenceReachable :: string where
  "ConditionPersistenceReachable \<equiv> ''PersistenceReachable''"
abbreviation ConditionSchemaReady :: string where "ConditionSchemaReady \<equiv> ''SchemaReady''"
abbreviation ConditionMTLSReady :: string where "ConditionMTLSReady \<equiv> ''MTLSReady''"

text \<open>The condition functions of \<^verbatim>\<open>k8s.io/apimachinery/pkg/api/meta\<close> the sources call.\<close>

record meta_api =
  setStatusCondition :: "Condition list \<Rightarrow> Condition \<Rightarrow> Condition list"
  findStatusCondition :: "Condition list \<Rightarrow> string \<Rightarrow> Condition option"
  isStatusConditionTrue :: "Condition list \<Rightarrow> string \<Rightarrow> bool"

text \<open>
  Their documented behaviour: setting a condition makes it the one found under its type and leaves
  the others alone, and a condition is true when the one found has status True.
\<close>

definition meta_laws :: "meta_api \<Rightarrow> bool" where
  "meta_laws m \<longleftrightarrow>
     (\<forall>cs c t. findStatusCondition m (setStatusCondition m cs c) t =
        (if t = c_Type c then Some c else findStatusCondition m cs t)) \<and>
     (\<forall>cs t. isStatusConditionTrue m cs t \<longleftrightarrow>
        (\<exists>c. findStatusCondition m cs t = Some c \<and> c_Status c = ConditionTrue))"

section \<open>Shared types\<close>

record SecretKeyReference =
  skr_Name :: string
  skr_Key :: string

record IssuerReference =
  ir_Name :: string
  ir_Kind :: string
  ir_Group :: string

record CertificateAuthoritySpec =
  ca_SecretName :: string
  ca_Duration :: "duration option"

record FrontendMTLSSpec =
  fm_SecretName :: string
  fm_DNSNames :: "string list"

record MTLSSpec =
  mtls_Provider :: string
  mtls_IssuerRef :: "IssuerReference option"
  mtls_InternodeCA :: "CertificateAuthoritySpec option"
  mtls_Frontend :: "FrontendMTLSSpec option"
  mtls_RefreshInterval :: "duration option"
  mtls_RenewBefore :: "duration option"

record DynamicConfigConstraints =
  dcc_Namespace :: string
  dcc_TaskQueueName :: string
  dcc_TaskQueueType :: string

record DynamicConfigValue =
  dcv_Value :: string
  dcv_Constraints :: "DynamicConfigConstraints option"

record DynamicConfigSpec =
  dc_Values :: "DynamicConfigValue list goalist"

record UIIngressSpec =
  ing_Enabled :: bool
  ing_IngressClassName :: string
  ing_Host :: string
  ing_Annotations :: gomap
  ing_TLSSecretName :: string

record UICodecServerSpec =
  codec_Endpoint :: string
  codec_PassAccessToken :: bool
  codec_IncludeCredentials :: bool

record EntraUIAuthSpec =
  entraui_TenantID :: string

record UIAuthSpec =
  uia_Enabled :: bool
  uia_Entra :: "EntraUIAuthSpec option"
  uia_ProviderURL :: string
  uia_ClientID :: string
  uia_ClientSecretRef :: "SecretKeyReference option"
  uia_Scopes :: "string list"
  uia_CallbackURL :: string
  uia_ExtraEnv :: raw_ext

record UISpec =
  ui_Enabled :: bool
  ui_Version :: string
  ui_Replicas :: "int option"
  ui_Ingress :: "UIIngressSpec option"
  ui_Auth :: "UIAuthSpec option"
  ui_CodecServer :: "UICodecServerSpec option"

record ServiceMonitorSpec =
  sm_Enabled :: bool
  sm_Interval :: "duration option"
  sm_Labels :: gomap

record MetricsSpec =
  met_Enabled :: bool
  met_Port :: int
  met_ServiceMonitor :: "ServiceMonitorSpec option"

record ArchivalSpec =
  arch_History :: raw_ext
  arch_Visibility :: raw_ext

record JWTKeyProviderSpec =
  jwt_KeySourceURIs :: "string list"
  jwt_RefreshInterval :: "duration option"

record EntraAuthSpec =
  entra_TenantID :: string

record AuthorizationSpec =
  auth_Authorizer :: "string option"
  auth_ClaimMapper :: string
  auth_PermissionsClaimName :: string
  auth_JWTKeyProvider :: "JWTKeyProviderSpec option"
  auth_Entra :: "EntraAuthSpec option"
  auth_Config :: raw_ext

record ClusterMetadataSpec =
  cm_EnableGlobalNamespace :: bool
  cm_FailoverVersionIncrement :: "int option"
  cm_CurrentClusterName :: string
  cm_InitialFailoverVersion :: "int option"
  cm_MasterClusterName :: string

record ClusterReference =
  cref_Name :: string
  cref_Kind :: string

definition ClusterKindTemporalCluster :: string where
  "ClusterKindTemporalCluster = ''TemporalCluster''"

definition ClusterKindTemporalDevServer :: string where
  "ClusterKindTemporalDevServer = ''TemporalDevServer''"

record SecretReference =
  sref_Name :: string
  sref_CAKey :: string
  sref_CertKey :: string
  sref_KeyKey :: string

section \<open>Persistence types\<close>

record PodTemplateOverride =
  pto_Labels :: "gomap"
  pto_Annotations :: "gomap"
  pto_Spec :: raw_ext

record SchemaJobSpec =
  sj_PodTemplate :: "PodTemplateOverride option"

record DatastoreTLSSpec =
  dtls_Enabled :: bool
  dtls_CASecretRef :: "SecretKeyReference option"
  dtls_CertSecretRef :: "SecretKeyReference option"
  dtls_KeySecretRef :: "SecretKeyReference option"
  dtls_EnableHostVerification :: bool
  dtls_ServerName :: string

record SQLDatastoreSpec =
  sql_PluginName :: string
  sql_Host :: string
  sql_Port :: int
  sql_Database :: string
  sql_User :: string
  sql_PasswordSecretRef :: "SecretKeyReference option"
  sql_PasswordCommandSecretRef :: "SecretKeyReference option"
  sql_ConnectAttributes :: "string goalist"
  sql_MaxConns :: int
  sql_MaxIdleConns :: int
  sql_MaxConnLifetime :: "duration option"
  sql_TLS :: "DatastoreTLSSpec option"

record CassandraDatastoreSpec =
  cas_Hosts :: "string list"
  cas_Port :: int
  cas_Keyspace :: string
  cas_User :: string
  cas_PasswordSecretRef :: "SecretKeyReference option"
  cas_Datacenter :: string
  cas_Replicas :: int
  cas_TLS :: "DatastoreTLSSpec option"

record ElasticsearchDatastoreSpec =
  es_URL :: string
  es_Version :: string
  es_Username :: string
  es_PasswordSecretRef :: "SecretKeyReference option"
  es_Indices :: "string goalist"
  es_TLS :: "DatastoreTLSSpec option"

record DatastoreSpec =
  ds_SQL :: "SQLDatastoreSpec option"
  ds_Cassandra :: "CassandraDatastoreSpec option"
  ds_Elasticsearch :: "ElasticsearchDatastoreSpec option"
  ds_SchemaVersion :: string

record AzureWorkloadIdentitySpec =
  azwi_ClientID :: string
  azwi_Scope :: string
  azwi_ServiceAccountName :: string
  azwi_Image :: string
  azwi_RefreshInterval :: "duration option"

record PersistenceSpec =
  pers_DefaultStore :: DatastoreSpec
  pers_VisibilityStore :: DatastoreSpec
  pers_SchemaJob :: "SchemaJobSpec option"
  pers_AzureWorkloadIdentity :: "AzureWorkloadIdentitySpec option"

record SchemaUpgradeRecord =
  sur_Store :: string
  sur_FromVersion :: string
  sur_ToVersion :: string
  sur_Time :: gotime

record PersistenceStatus =
  ps_SchemaVersions :: gomap
  ps_History :: "SchemaUpgradeRecord list"
  ps_Reachable :: bool

section \<open>TemporalCluster\<close>

record ServiceExposureSpec =
  se_Type :: string
  se_Annotations :: gomap

text \<open>The fields of a topology spread constraint the operator sets; the rest is carried through.\<close>

record TopologySpreadConstraint =
  tsc_MaxSkew :: int
  tsc_TopologyKey :: string
  tsc_WhenUnsatisfiable :: string
  tsc_LabelSelector :: "gomap option"
  tsc_Rest :: opaque

record ServiceSpec =
  ss_Replicas :: "int option"
  ss_Resources :: opaque
  ss_PodTemplate :: "PodTemplateOverride option"
  ss_Service :: "ServiceExposureSpec option"
  ss_NodeSelector :: gomap
  ss_Tolerations :: "opaque list"
  ss_Affinity :: "opaque option"
  ss_TopologySpreadConstraints :: "TopologySpreadConstraint list"

record InternalFrontendSpec =
  if_Enabled :: bool
  if_Replicas :: "int option"
  if_Resources :: opaque

record ServiceOverrides =
  so_PodTemplate :: "PodTemplateOverride option"

record ServicesSpec =
  svcs_Frontend :: "ServiceSpec option"
  svcs_History :: "ServiceSpec option"
  svcs_Matching :: "ServiceSpec option"
  svcs_Worker :: "ServiceSpec option"
  svcs_InternalFrontend :: "InternalFrontendSpec option"
  svcs_Overrides :: "ServiceOverrides option"

record WorkflowRunPolicy =
  wrp_Enabled :: bool
  wrp_AllowedNamespaces :: "string list"
  wrp_AllowedTaskQueues :: "string list"

record TemporalClusterSpec =
  spec_Version :: string
  spec_NumHistoryShards :: int
  spec_Image :: string
  spec_ImagePullSecrets :: "string list"
  spec_Services :: ServicesSpec
  spec_Persistence :: PersistenceSpec
  spec_MTLS :: "MTLSSpec option"
  spec_DynamicConfig :: "DynamicConfigSpec option"
  spec_UI :: "UISpec option"
  spec_Metrics :: "MetricsSpec option"
  spec_Archival :: "ArchivalSpec option"
  spec_Authorization :: "AuthorizationSpec option"
  spec_ClusterMetadata :: "ClusterMetadataSpec option"
  spec_PreventDeletion :: bool
  spec_WorkflowRunPolicy :: "WorkflowRunPolicy option"

record ServiceStatus =
  sst_Ready :: int
  sst_Desired :: int
  sst_Version :: string

record EndpointsStatus =
  ep_Frontend :: string
  ep_UI :: string
  ep_Metrics :: string

record UpgradeStatus =
  us_FromVersion :: string
  us_ToVersion :: string
  us_Phase :: string
  us_Rollbackable :: bool
  us_StartedAt :: "gotime option"

record TemporalClusterStatus =
  st_Phase :: string
  st_ObservedGeneration :: int
  st_Conditions :: "Condition list"
  st_Version :: string
  st_NumHistoryShards :: int
  st_Services :: "string \<rightharpoonup> ServiceStatus"
  st_Persistence :: PersistenceStatus
  st_Endpoints :: EndpointsStatus
  st_Upgrade :: "UpgradeStatus option"

record TemporalCluster =
  tc_Meta :: ObjectMeta
  tc_Spec :: TemporalClusterSpec
  tc_Status :: TemporalClusterStatus

end
