(* ===== verification/Kube_Objects.thy ===== *)
theory Kube_Objects
  imports Api_Types
begin

text \<open>
  The Kubernetes objects the operator builds and reads, restricted to the fields the sources set or
  read: pods, Deployments, Services, Jobs, Secrets, certificates and the rest of the managed kinds.
  These types belong to the Kubernetes API; they carry no behaviour of their own.
\<close>

datatype EnvSource = FieldRef string | SecretKeyRef string string

record EnvVar =
  env_Name :: string
  env_Value :: string
  env_ValueFrom :: "EnvSource option"

record ContainerPort =
  cp_Name :: string
  cp_ContainerPort :: int

datatype ProbeHandler = ProbeGRPC int | ProbeTCP int | ProbeHTTP string int

record Probe =
  pr_Handler :: ProbeHandler
  pr_FailureThreshold :: int
  pr_PeriodSeconds :: int
  pr_TimeoutSeconds :: int

record VolumeMount =
  vm_Name :: string
  vm_MountPath :: string
  vm_ReadOnly :: bool

datatype VolumeSource = VolSecret string | VolConfigMap string | VolEmptyDir | VolPVC string

record Volume =
  vol_Name :: string
  vol_Source :: VolumeSource

record Container =
  ct_Name :: string
  ct_Image :: string
  ct_Command :: "string list"
  ct_Args :: "string list"
  ct_Env :: "EnvVar list"
  ct_Ports :: "ContainerPort list"
  ct_Resources :: opaque
  ct_VolumeMounts :: "VolumeMount list"
  ct_LivenessProbe :: "Probe option"
  ct_ReadinessProbe :: "Probe option"
  ct_StartupProbe :: "Probe option"
  ct_TerminationMessagePolicy :: string

record PodSpec =
  pod_ServiceAccountName :: string
  pod_RestartPolicy :: string
  pod_FSGroup :: "int option"
  pod_ImagePullSecrets :: "string list"
  pod_NodeSelector :: gomap
  pod_Tolerations :: "opaque list"
  pod_Affinity :: "opaque option"
  pod_TopologySpreadConstraints :: "TopologySpreadConstraint list"
  pod_InitContainers :: "Container list"
  pod_Containers :: "Container list"
  pod_Volumes :: "Volume list"
  pod_Rest :: opaque

record PodTemplateSpec =
  pt_Labels :: gomap
  pt_Annotations :: gomap
  pt_Spec :: PodSpec

record Deployment =
  dep_Meta :: ObjectMeta
  dep_Replicas :: "int option"
  dep_Selector :: gomap
  dep_Strategy :: string
  dep_Template :: PodTemplateSpec
  dep_ObservedGeneration :: int
  dep_StatusReplicas :: int
  dep_UpdatedReplicas :: int
  dep_ReadyReplicas :: int

record ServicePortSpec =
  sp_Name :: string
  sp_Port :: int
  sp_TargetPort :: int

record KService =
  svc_Meta :: ObjectMeta
  svc_Type :: string
  svc_ClusterIP :: string
  svc_PublishNotReady :: bool
  svc_Selector :: gomap
  svc_Ports :: "ServicePortSpec list"

record Secret =
  sec_Meta :: ObjectMeta
  sec_Data :: gomap

record ConfigMap =
  cfg_Meta :: ObjectMeta
  cfg_Data :: gomap

record PodDisruptionBudget =
  pdb_Meta :: ObjectMeta
  pdb_MaxUnavailable :: int
  pdb_Selector :: gomap

record JobCondition =
  jc_Type :: string
  jc_Status :: ConditionStatus

record Job =
  job_Meta :: ObjectMeta
  job_BackoffLimit :: int
  job_TTLSecondsAfterFinished :: int
  job_Template :: PodTemplateSpec
  job_Conditions :: "JobCondition list"
  job_Active :: int

text \<open>The part of a pod the inspector reads: container names with their termination message.\<close>

record ContainerState =
  cst_Name :: string
  cst_Terminated :: "string option"

record Pod =
  po_ContainerStatuses :: "ContainerState list"

record CertCondition =
  cc_Type :: string
  cc_Status :: ConditionStatus
  cc_Reason :: string

datatype KeyUsage = UsageServerAuth | UsageClientAuth

record Certificate =
  crt_Meta :: ObjectMeta
  crt_SecretName :: string
  crt_CommonName :: string
  crt_DNSNames :: "string list"
  crt_Duration :: "duration option"
  crt_RenewBefore :: "duration option"
  crt_IssuerRef :: IssuerReference
  crt_Usages :: "KeyUsage list"
  crt_Conditions :: "CertCondition list"

record ServiceAccount =
  sa_Meta :: ObjectMeta

record Ingress =
  ingr_Meta :: ObjectMeta
  ingr_Host :: string
  ingr_Path :: string
  ingr_BackendName :: string
  ingr_BackendPort :: int
  ingr_ClassName :: "string option"
  ingr_TLS :: "(string list \<times> string) list"

record ServiceMonitor =
  smon_Meta :: ObjectMeta
  smon_MatchLabels :: gomap
  smon_MatchNames :: "string list"
  smon_Port :: string
  smon_Path :: string
  smon_Interval :: string

record PersistentVolumeClaim =
  pvc_Meta :: ObjectMeta
  pvc_AccessModes :: "string list"
  pvc_StorageClassName :: "string option"
  pvc_Size :: string

text \<open>Any managed object.\<close>

datatype KObj =
    ODeployment Deployment
  | OService KService
  | OSecret Secret
  | OConfigMap ConfigMap
  | OPDB PodDisruptionBudget
  | OJob Job
  | OCertificate Certificate
  | OServiceAccount ServiceAccount
  | OIngress Ingress
  | OServiceMonitor ServiceMonitor
  | OPVC PersistentVolumeClaim

fun obj_kind :: "KObj \<Rightarrow> string" where
  "obj_kind (ODeployment _) = ''Deployment''"
| "obj_kind (OService _) = ''Service''"
| "obj_kind (OSecret _) = ''Secret''"
| "obj_kind (OConfigMap _) = ''ConfigMap''"
| "obj_kind (OPDB _) = ''PodDisruptionBudget''"
| "obj_kind (OJob _) = ''Job''"
| "obj_kind (OCertificate _) = ''Certificate''"
| "obj_kind (OServiceAccount _) = ''ServiceAccount''"
| "obj_kind (OIngress _) = ''Ingress''"
| "obj_kind (OServiceMonitor _) = ''ServiceMonitor''"
| "obj_kind (OPVC _) = ''PersistentVolumeClaim''"

fun obj_meta :: "KObj \<Rightarrow> ObjectMeta" where
  "obj_meta (ODeployment x) = dep_Meta x"
| "obj_meta (OService x) = svc_Meta x"
| "obj_meta (OSecret x) = sec_Meta x"
| "obj_meta (OConfigMap x) = cfg_Meta x"
| "obj_meta (OPDB x) = pdb_Meta x"
| "obj_meta (OJob x) = job_Meta x"
| "obj_meta (OCertificate x) = crt_Meta x"
| "obj_meta (OServiceAccount x) = sa_Meta x"
| "obj_meta (OIngress x) = ingr_Meta x"
| "obj_meta (OServiceMonitor x) = smon_Meta x"
| "obj_meta (OPVC x) = pvc_Meta x"

text \<open>What identifies an object in the API server: kind, namespace and name.\<close>

definition obj_key :: "KObj \<Rightarrow> string \<times> string \<times> string" where
  "obj_key ob = (obj_kind ob, om_Namespace (obj_meta ob), om_Name (obj_meta ob))"

text \<open>The metadata of an object the operator is about to create.\<close>

definition newMeta :: "string \<Rightarrow> string \<Rightarrow> gomap \<Rightarrow> gomap \<Rightarrow> ObjectMeta" where
  "newMeta name ns labels annotations =
     \<lparr>om_Name = name, om_Namespace = ns, om_Labels = labels, om_Annotations = annotations,
      om_Generation = 0, om_Finalizers = [], om_DeletionTimestamp = None,
      om_ResourceVersion = [], om_OwnerReferences = []\<rparr>"

text \<open>The zero values of Go for a container and a pod specification.\<close>

definition zeroContainer :: Container where
  "zeroContainer =
     \<lparr>ct_Name = [], ct_Image = [], ct_Command = [], ct_Args = [], ct_Env = [], ct_Ports = [],
      ct_Resources = [], ct_VolumeMounts = [], ct_LivenessProbe = None, ct_ReadinessProbe = None,
      ct_StartupProbe = None, ct_TerminationMessagePolicy = []\<rparr>"

definition zeroPodSpec :: PodSpec where
  "zeroPodSpec =
     \<lparr>pod_ServiceAccountName = [], pod_RestartPolicy = [], pod_FSGroup = None,
      pod_ImagePullSecrets = [], pod_NodeSelector = Map.empty, pod_Tolerations = [],
      pod_Affinity = None, pod_TopologySpreadConstraints = [], pod_InitContainers = [],
      pod_Containers = [], pod_Volumes = [], pod_Rest = []\<rparr>"

definition envVal :: "string \<Rightarrow> string \<Rightarrow> EnvVar" where
  "envVal n v = \<lparr>env_Name = n, env_Value = v, env_ValueFrom = None\<rparr>"

definition newDeployment :: "ObjectMeta \<Rightarrow> int \<Rightarrow> gomap \<Rightarrow> string \<Rightarrow> PodTemplateSpec \<Rightarrow> Deployment" where
  "newDeployment m replicas sel strategy tmpl =
     \<lparr>dep_Meta = m, dep_Replicas = Some replicas, dep_Selector = sel, dep_Strategy = strategy,
      dep_Template = tmpl, dep_ObservedGeneration = 0, dep_StatusReplicas = 0,
      dep_UpdatedReplicas = 0, dep_ReadyReplicas = 0\<rparr>"

definition newJob :: "ObjectMeta \<Rightarrow> int \<Rightarrow> int \<Rightarrow> PodTemplateSpec \<Rightarrow> Job" where
  "newJob m backoff ttl tmpl =
     \<lparr>job_Meta = m, job_BackoffLimit = backoff, job_TTLSecondsAfterFinished = ttl,
      job_Template = tmpl, job_Conditions = [], job_Active = 0\<rparr>"

end
