(* ===== verification/Versions.thy ===== *)
theory Versions
  imports Go_Prelude "HOL-Library.Multiset"
begin

text \<open>
  The version support matrix (\<^verbatim>\<open>src/internal/temporal/versions.go\<close>, \<^verbatim>\<open>versions_gen.go\<close>): parsing of
  semantic versions, look-ups in the matrix, the admissible upgrade paths and the default images.
  The lemmas show that every admitted path moves forward by at most one minor version, that the
  listing is sorted and complete, and that the matrix has no dead end.
\<close>

section \<open>Data\<close>

record VersionInfo =
  vi_Version :: string
  vi_PatchVersions :: "string list"
  vi_MinSchemaSQL :: string
  vi_MinSchemaSQLVisibility :: string
  vi_MinSchemaCassandra :: string
  vi_MinSchemaES :: string
  vi_AllowedFromVersions :: "string list"
  vi_UISeries :: string
  vi_DefaultUIVersion :: string
  vi_DevServerCLIVersion :: string
  vi_CassandraVisibilitySupported :: bool
  vi_RemovedDynamicConfig :: "string list"
  vi_AddedDynamicConfig :: "string list"

datatype semver = Semver (major: int) (minor: int) (patch: int)

definition supportedVersions :: "VersionInfo list" where
  "supportedVersions =
    [\<lparr>vi_Version = ''1.27'', vi_PatchVersions = [''1.27.0''],
      vi_MinSchemaSQL = ''v1.15'', vi_MinSchemaSQLVisibility = ''v1.9'',
      vi_MinSchemaCassandra = ''v1.11'', vi_MinSchemaES = ''v7'',
      vi_AllowedFromVersions = [''1.26''], vi_UISeries = ''2.31'',
      vi_DefaultUIVersion = ''2.31.2'', vi_DevServerCLIVersion = ''1.3.0'',
      vi_CassandraVisibilitySupported = False,
      vi_RemovedDynamicConfig = [], vi_AddedDynamicConfig = []\<rparr>,
     \<lparr>vi_Version = ''1.28'', vi_PatchVersions = [''1.28.3'', ''1.28.4''],
      vi_MinSchemaSQL = ''v1.17'', vi_MinSchemaSQLVisibility = ''v1.9'',
      vi_MinSchemaCassandra = ''v1.12'', vi_MinSchemaES = ''v7'',
      vi_AllowedFromVersions = [''1.27''], vi_UISeries = ''2.32'',
      vi_DefaultUIVersion = ''2.32.0'', vi_DevServerCLIVersion = ''1.4.1'',
      vi_CassandraVisibilitySupported = False,
      vi_RemovedDynamicConfig = [], vi_AddedDynamicConfig = []\<rparr>,
     \<lparr>vi_Version = ''1.29'', vi_PatchVersions = [''1.29.6'', ''1.29.7''],
      vi_MinSchemaSQL = ''v1.18'', vi_MinSchemaSQLVisibility = ''v1.9'',
      vi_MinSchemaCassandra = ''v1.13'', vi_MinSchemaES = ''v7'',
      vi_AllowedFromVersions = [''1.28''], vi_UISeries = ''2.33'',
      vi_DefaultUIVersion = ''2.33.0'', vi_DevServerCLIVersion = ''1.5.1'',
      vi_CassandraVisibilitySupported = False,
      vi_RemovedDynamicConfig = [], vi_AddedDynamicConfig = []\<rparr>,
     \<lparr>vi_Version = ''1.30'', vi_PatchVersions = [''1.30.4'', ''1.30.5'', ''1.30.6'', ''1.30.8''],
      vi_MinSchemaSQL = ''v1.18'', vi_MinSchemaSQLVisibility = ''v1.13'',
      vi_MinSchemaCassandra = ''v1.13'', vi_MinSchemaES = ''v7'',
      vi_AllowedFromVersions = [''1.29''], vi_UISeries = ''2.34'',
      vi_DefaultUIVersion = ''2.34.0'', vi_DevServerCLIVersion = ''1.6.2'',
      vi_CassandraVisibilitySupported = False,
      vi_RemovedDynamicConfig = [], vi_AddedDynamicConfig = []\<rparr>,
     \<lparr>vi_Version = ''1.31'', vi_PatchVersions = [''1.31.0'', ''1.31.1'', ''1.31.2'', ''1.31.4''],
      vi_MinSchemaSQL = ''v1.19'', vi_MinSchemaSQLVisibility = ''v1.14'',
      vi_MinSchemaCassandra = ''v1.13'', vi_MinSchemaES = ''v7'',
      vi_AllowedFromVersions = [''1.30''], vi_UISeries = ''2.52'',
      vi_DefaultUIVersion = ''2.52.1'', vi_DevServerCLIVersion = ''1.7.2'',
      vi_CassandraVisibilitySupported = False,
      vi_RemovedDynamicConfig = [], vi_AddedDynamicConfig = []\<rparr>,
     \<lparr>vi_Version = ''1.32'', vi_PatchVersions = [''1.32.0'', ''1.32.1''],
      vi_MinSchemaSQL = ''v1.19'', vi_MinSchemaSQLVisibility = ''v1.14'',
      vi_MinSchemaCassandra = ''v1.13'', vi_MinSchemaES = ''v7'',
      vi_AllowedFromVersions = [''1.31''], vi_UISeries = ''2.56'',
      vi_DefaultUIVersion = ''2.56.0'', vi_DevServerCLIVersion = ''1.9.1'',
      vi_CassandraVisibilitySupported = False,
      vi_RemovedDynamicConfig =
        [''matching.enableMigration'', ''nexusoperation.useSystemCallbackURL'',
         ''component.nexusoperations.useSystemCallbackURL'',
         ''component.callbacks.allowedAddresses''],
      vi_AddedDynamicConfig = []\<rparr>]"

section \<open>Operations\<close>

definition goQuote :: "string \<Rightarrow> string" where
  "goQuote s = CHR 0x22 # s @ [CHR 0x22]"

definition parseSemver :: "string \<Rightarrow> semver result" where
  "parseSemver v =
     (case split_on (CHR ''.'') v of
        [a, b, c] \<Rightarrow>
          (case atoi a of
             None \<Rightarrow> Inl (WrapErr (''invalid version '' @ goQuote v) (ErrMsg ''strconv.Atoi''))
           | Some ma \<Rightarrow>
          (case atoi b of
             None \<Rightarrow> Inl (WrapErr (''invalid version '' @ goQuote v) (ErrMsg ''strconv.Atoi''))
           | Some mi \<Rightarrow>
          (case atoi c of
             None \<Rightarrow> Inl (WrapErr (''invalid version '' @ goQuote v) (ErrMsg ''strconv.Atoi''))
           | Some pa \<Rightarrow> Inr (Semver ma mi pa))))
      | _ \<Rightarrow> Inl (ErrMsg (''invalid version '' @ goQuote v @ '': expected major.minor.patch'')))"

definition minorOf :: "string \<Rightarrow> string" where
  "minorOf v =
     (case split_on (CHR ''.'') v of
        a # b # _ \<Rightarrow> a @ ''.'' @ b
      | _ \<Rightarrow> v)"

definition LookupVersion :: "string \<Rightarrow> VersionInfo result" where
  "LookupVersion version =
     (case findFirst (\<lambda>i. vi_Version i = minorOf version) supportedVersions of
        Some i \<Rightarrow> Inr i
      | None \<Rightarrow> Inl (ErrMsg (''version '' @ goQuote version @ '' is not supported'')))"

definition IsSupported :: "string \<Rightarrow> bool" where
  "IsSupported version =
     list_ex (\<lambda>i. vi_Version i = minorOf version \<and> list_ex (\<lambda>p. p = version) (vi_PatchVersions i))
       supportedVersions"

definition Get :: "string \<Rightarrow> VersionInfo option" where
  "Get version =
     (if \<not> IsSupported version then None
      else case LookupVersion version of Inl _ \<Rightarrow> None | Inr i \<Rightarrow> Some i)"

definition versionLess :: "string \<Rightarrow> string \<Rightarrow> bool" where
  "versionLess x y =
     (case (parseSemver x, parseSemver y) of
        (Inr a, Inr b) \<Rightarrow>
          if major a \<noteq> major b then major a < major b
          else if minor a \<noteq> minor b then minor a < minor b
          else patch a < patch b
      | _ \<Rightarrow> x < y)"

text \<open>\<^verbatim>\<open>sort.Slice\<close> with a given comparison, as an insertion sort.\<close>

fun insert_less :: "('a \<Rightarrow> 'a \<Rightarrow> bool) \<Rightarrow> 'a \<Rightarrow> 'a list \<Rightarrow> 'a list" where
  "insert_less lt x [] = [x]"
| "insert_less lt x (y # ys) = (if lt y x then y # insert_less lt x ys else x # y # ys)"

definition sortSlice :: "('a \<Rightarrow> 'a \<Rightarrow> bool) \<Rightarrow> 'a list \<Rightarrow> 'a list" where
  "sortSlice lt xs = foldr (insert_less lt) xs []"

definition SupportedVersions :: "string list" where
  "SupportedVersions = sortSlice versionLess (concat (map vi_PatchVersions supportedVersions))"

text \<open>One turn of the loop of \<open>ResolveLatestPatch\<close>: the best patch so far and its version.\<close>

definition latestStep :: "string \<times> semver \<Rightarrow> string \<Rightarrow> string \<times> semver" where
  "latestStep acc p =
     (case parseSemver p of
        Inl _ \<Rightarrow> acc
      | Inr v \<Rightarrow> if patch v > patch (snd acc) then (p, v) else acc)"

definition ResolveLatestPatch :: "string \<Rightarrow> string result" where
  "ResolveLatestPatch m =
     (case LookupVersion m of
        Inl e \<Rightarrow> Inl e
      | Inr info \<Rightarrow>
          (case vi_PatchVersions info of
             [] \<Rightarrow> Inl (ErrMsg (''no patch versions registered for '' @ goQuote m))
           | p # ps \<Rightarrow>
               Inr (fst (foldl latestStep
                 (p, case parseSemver p of Inl _ \<Rightarrow> Semver 0 0 0 | Inr v \<Rightarrow> v) ps))))"

definition CanUpgrade :: "string \<Rightarrow> string \<Rightarrow> bool result" where
  "CanUpgrade from to =
     (if \<not> IsSupported to then Inl (ErrMsg (''version '' @ goQuote to @ '' is not supported''))
      else case parseSemver from of
        Inl e \<Rightarrow> Inl e
      | Inr f \<Rightarrow>
      (case parseSemver to of
        Inl e \<Rightarrow> Inl e
      | Inr t \<Rightarrow>
          if major t = major f \<and> minor t = minor f then Inr (patch t \<ge> patch f)
          else
            (case LookupVersion to of
               Inl e \<Rightarrow> Inl e
             | Inr toInfo \<Rightarrow>
                 Inr (list_ex (\<lambda>a. a = minorOf from) (vi_AllowedFromVersions toInfo)))))"

definition ValidateUpgradePath :: "string \<Rightarrow> string \<Rightarrow> err option" where
  "ValidateUpgradePath from to =
     (case CanUpgrade from to of
        Inl e \<Rightarrow> Some e
      | Inr ok \<Rightarrow>
          if \<not> ok then Some (ErrMsg (''upgrade from '' @ from @ '' to '' @ to @ '' is not allowed''))
          else None)"

definition DefaultUIVersion :: "string \<Rightarrow> string" where
  "DefaultUIVersion v = (case LookupVersion v of Inl _ \<Rightarrow> [] | Inr i \<Rightarrow> vi_DefaultUIVersion i)"

definition DevServerCLIVersion :: "string \<Rightarrow> string" where
  "DevServerCLIVersion v = (case LookupVersion v of Inl _ \<Rightarrow> [] | Inr i \<Rightarrow> vi_DevServerCLIVersion i)"

definition LatestSupportedVersion :: string where
  "LatestSupportedVersion = (if SupportedVersions = [] then [] else last SupportedVersions)"

definition serverImageRepo :: string where
  "serverImageRepo = ''temporalio/server''"

definition ServerImage :: "string \<Rightarrow> string" where
  "ServerImage version = serverImageRepo @ '':'' @ version"

definition IsDefaultServerImage :: "string \<Rightarrow> bool" where
  "IsDefaultServerImage img =
     (case cutPrefix img (serverImageRepo @ '':'') of
        None \<Rightarrow> False
      | Some tag \<Rightarrow> \<not> isl (parseSemver tag))"

definition AdminToolsImage :: "string \<Rightarrow> string" where
  "AdminToolsImage version = ''temporalio/admin-tools:'' @ version"

section \<open>Order of versions\<close>

instantiation semver :: linorder
begin

definition less_semver :: "semver \<Rightarrow> semver \<Rightarrow> bool" where
  "less_semver a b =
     (major a < major b \<or> major a = major b \<and>
       (minor a < minor b \<or> minor a = minor b \<and> patch a < patch b))"

definition less_eq_semver :: "semver \<Rightarrow> semver \<Rightarrow> bool" where
  "less_eq_semver a b = (a < b \<or> a = (b :: semver))"

instance
proof
  fix x y z :: semver
  show "x < y \<longleftrightarrow> x \<le> y \<and> \<not> y \<le> x"
    by (auto simp: less_semver_def less_eq_semver_def)
  show "x \<le> x"
    by (simp add: less_eq_semver_def)
  show "x \<le> y \<Longrightarrow> y \<le> z \<Longrightarrow> x \<le> z"
    by (auto simp: less_semver_def less_eq_semver_def)
  show "x \<le> y \<Longrightarrow> y \<le> x \<Longrightarrow> x = y"
    by (auto simp: less_semver_def less_eq_semver_def)
  show "x \<le> y \<or> y \<le> x"
    by (cases x; cases y) (auto simp: less_semver_def less_eq_semver_def)
qed

end

section \<open>Laws of the matrix\<close>

lemma versionLess_parsed:
  "parseSemver x = Inr a \<Longrightarrow> parseSemver y = Inr b \<Longrightarrow> versionLess x y \<longleftrightarrow> a < b"
  by (auto simp: versionLess_def less_semver_def)

lemma parseSemver_Inr:
  "parseSemver v = Inr s \<longleftrightarrow>
     (\<exists>a b c. split_on (CHR ''.'') v = [a, b, c] \<and>
        atoi a = Some (major s) \<and> atoi b = Some (minor s) \<and> atoi c = Some (patch s))"
  by (cases s) (auto simp: parseSemver_def split: list.splits option.splits)

text \<open>Printing a version and parsing it again.\<close>

definition semver_str :: "semver \<Rightarrow> string" where
  "semver_str s = joinWith ''.'' [itoa (major s), itoa (minor s), itoa (patch s)]"

definition int64 :: "int \<Rightarrow> bool" where
  "int64 i \<longleftrightarrow> - (2 ^ 63) \<le> i \<and> i < 2 ^ 63"

lemma split_semver_str: "split_on (CHR ''.'') (semver_str s) = [itoa (major s), itoa (minor s), itoa (patch s)]"
  unfolding semver_str_def by (rule split_join) auto

lemma parse_semver_str:
  "int64 (major s) \<Longrightarrow> int64 (minor s) \<Longrightarrow> int64 (patch s) \<Longrightarrow> parseSemver (semver_str s) = Inr s"
  by (auto simp: parseSemver_Inr split_semver_str atoi_itoa int64_def)

lemma minorOf_semver_str: "minorOf (semver_str s) = itoa (major s) @ ''.'' @ itoa (minor s)"
  by (simp add: minorOf_def split_semver_str)

definition allPatches :: "string list" where
  "allPatches = concat (map vi_PatchVersions supportedVersions)"

lemma allPatches_eq:
  "allPatches =
    [''1.27.0'', ''1.28.3'', ''1.28.4'', ''1.29.6'', ''1.29.7'',
     ''1.30.4'', ''1.30.5'', ''1.30.6'', ''1.30.8'',
     ''1.31.0'', ''1.31.1'', ''1.31.2'', ''1.31.4'', ''1.32.0'', ''1.32.1'']"
  by (simp add: allPatches_def supportedVersions_def)

lemma IsSupported_iff: "IsSupported v \<longleftrightarrow> v \<in> set allPatches"
proof -
  have "\<forall>i \<in> set supportedVersions. \<forall>p \<in> set (vi_PatchVersions i). minorOf p = vi_Version i"
    by (simp add: supportedVersions_def minorOf_def)
  then show ?thesis
    by (auto simp: IsSupported_def allPatches_def list_ex_iff)
qed

lemmas go_eval = atoi_def digits_of_def digits_val_def isDigit_def itoa_def nat_str_eval

lemma parse_supported:
  "map parseSemver allPatches =
    map Inr [Semver 1 27 0, Semver 1 28 3, Semver 1 28 4, Semver 1 29 6, Semver 1 29 7,
      Semver 1 30 4, Semver 1 30 5, Semver 1 30 6, Semver 1 30 8,
      Semver 1 31 0, Semver 1 31 1, Semver 1 31 2, Semver 1 31 4, Semver 1 32 0, Semver 1 32 1]"
  by (simp add: allPatches_eq parseSemver_def go_eval)

definition previousMinorOnly :: "string \<Rightarrow> bool" where
  "previousMinorOnly t =
     (case (LookupVersion t, parseSemver t) of
        (Inr info, Inr b) \<Rightarrow>
          major b = 1 \<and> 27 \<le> minor b \<and> minor b \<le> 32 \<and>
          vi_AllowedFromVersions info = [''1.'' @ itoa (minor b - 1)]
      | _ \<Rightarrow> False)"

lemma matrix_previousMinorOnly: "list_all previousMinorOnly allPatches"
  by code_simp

lemma allowed_is_previous:
  "t \<in> set allPatches \<Longrightarrow>
     \<exists>info b. LookupVersion t = Inr info \<and> parseSemver t = Inr b \<and> major b = 1 \<and>
       27 \<le> minor b \<and> minor b \<le> 32 \<and>
       vi_AllowedFromVersions info = [''1.'' @ itoa (minor b - 1)]"
proof -
  assume "t \<in> set allPatches"
  then have "previousMinorOnly t"
    using matrix_previousMinorOnly by (simp add: list_all_iff)
  then show ?thesis
    by (cases "LookupVersion t"; cases "parseSemver t") (auto simp: previousMinorOnly_def)
qed

lemma parse_minorOf:
  assumes "parseSemver v = Inr s" and "minorOf v = x @ ''.'' @ y" and "CHR ''.'' \<notin> set x" and "CHR ''.'' \<notin> set y"
  shows "atoi x = Some (major s) \<and> atoi y = Some (minor s)"
proof -
  obtain a b c where sp: "split_on (CHR ''.'') v = [a, b, c]"
    and at: "atoi a = Some (major s)" "atoi b = Some (minor s)"
    using assms(1) by (auto simp: parseSemver_Inr)
  have nd: "CHR ''.'' \<notin> set a" "CHR ''.'' \<notin> set b"
    using split_on_no_sep [of _ "CHR ''.''" v] sp by auto
  have "a @ CHR ''.'' # b = x @ CHR ''.'' # y"
    using assms(2) sp by (simp add: minorOf_def)
  then have "split_on (CHR ''.'') (a @ CHR ''.'' # b) = split_on (CHR ''.'') (x @ CHR ''.'' # y)"
    by simp
  then have "a = x \<and> b = y"
    using nd assms(3,4) by (simp add: split_on_append)
  then show ?thesis using at by simp
qed

lemma atoi_one: "atoi ''1'' = Some 1"
  by (simp add: go_eval)

lemma CanUpgrade_True:
  "CanUpgrade f t = Inr True \<longleftrightarrow>
     IsSupported t \<and>
     (\<exists>a b info. parseSemver f = Inr a \<and> parseSemver t = Inr b \<and>
        (if major b = major a \<and> minor b = minor a then patch a \<le> patch b
         else LookupVersion t = Inr info \<and> minorOf f \<in> set (vi_AllowedFromVersions info)))"
  by (auto simp: CanUpgrade_def list_ex_iff split: sum.splits if_splits)

lemma CanUpgrade_forward:
  assumes "CanUpgrade f t = Inr True"
  shows "\<exists>a b. parseSemver f = Inr a \<and> parseSemver t = Inr b \<and> a \<le> b \<and>
           major b = major a \<and> minor b \<le> minor a + 1 \<and> IsSupported t"
proof -
  obtain a b info where p: "IsSupported t" "parseSemver f = Inr a" "parseSemver t = Inr b"
    and c: "if major b = major a \<and> minor b = minor a then patch a \<le> patch b
            else LookupVersion t = Inr info \<and> minorOf f \<in> set (vi_AllowedFromVersions info)"
    using assms by (auto simp: CanUpgrade_True)
  show ?thesis
  proof (cases "major b = major a \<and> minor b = minor a")
    case True
    then have "a \<le> b"
      using c by (cases a; cases b) (auto simp: less_eq_semver_def less_semver_def)
    then show ?thesis using p True by auto
  next
    case False
    then have "major b = 1" "27 \<le> minor b" "minor b \<le> 32"
      and m: "minorOf f = ''1'' @ ''.'' @ itoa (minor b - 1)"
      using c p allowed_is_previous [of t] by (auto simp: IsSupported_iff)
    moreover have "major a = 1 \<and> minor a = minor b - 1"
      using parse_minorOf [OF p(2) m] calculation atoi_one by (auto simp: atoi_itoa)
    ultimately show ?thesis
      using p by (auto simp: less_eq_semver_def less_semver_def)
  qed
qed

subsection \<open>The sorted listing\<close>

lemma mset_insert_less: "mset (insert_less lt x xs) = add_mset x (mset xs)"
  by (induction xs) auto

lemma mset_sortSlice: "mset (sortSlice lt xs) = mset xs"
  unfolding sortSlice_def by (induction xs) (auto simp: mset_insert_less)

lemma SupportedVersions_eq: "SupportedVersions = allPatches"
  by code_simp

lemma allPatches_increasing: "sorted_wrt versionLess allPatches"
  by code_simp

lemma allPatches_parse: "v \<in> set allPatches \<Longrightarrow> \<exists>s. parseSemver v = Inr s"
  using allowed_is_previous [of v] by blast

lemma versionLess_trans_supported:
  "a \<in> set allPatches \<Longrightarrow> b \<in> set allPatches \<Longrightarrow> c \<in> set allPatches \<Longrightarrow>
     versionLess a b \<Longrightarrow> versionLess b c \<Longrightarrow> versionLess a c"
  using allPatches_parse [of a] allPatches_parse [of b] allPatches_parse [of c]
  by (auto simp: versionLess_parsed)

lemma LatestSupportedVersion_eq: "LatestSupportedVersion = ''1.32.1''"
  by (simp add: LatestSupportedVersion_def SupportedVersions_eq allPatches_eq)

text \<open>
  The latest supported version is supported, and every other supported version is older.
\<close>

theorem latest_is_greatest:
  assumes "IsSupported v"
  shows "IsSupported LatestSupportedVersion \<and> (v = LatestSupportedVersion \<or> versionLess v LatestSupportedVersion)"
proof -
  have "list_all (\<lambda>v. v = ''1.32.1'' \<or> versionLess v ''1.32.1'') allPatches"
    by code_simp
  then show ?thesis
    using assms by (auto simp: LatestSupportedVersion_eq IsSupported_iff list_all_iff allPatches_eq)
qed

theorem latest_is_greatest_witness: "IsSupported ''1.27.0'' \<and> versionLess ''1.27.0'' LatestSupportedVersion"
proof -
  have s: "IsSupported ''1.27.0''" by (simp add: IsSupported_iff allPatches_eq)
  have "''1.27.0'' \<noteq> LatestSupportedVersion" by (simp add: LatestSupportedVersion_eq)
  then show ?thesis using latest_is_greatest [OF s] s by blast
qed

text \<open>The best patch of a list: what the loop of \<open>ResolveLatestPatch\<close> keeps.\<close>

definition bestOf :: "string list \<Rightarrow> string \<times> semver \<Rightarrow> bool" where
  "bestOf ps b \<longleftrightarrow> fst b \<in> set ps \<and> parseSemver (fst b) = Inr (snd b) \<and>
     (\<forall>r \<in> set ps. \<forall>u. parseSemver r = Inr u \<longrightarrow> patch u \<le> patch (snd b))"

lemma latestStep_best: "bestOf ps b \<Longrightarrow> bestOf (ps @ [x]) (latestStep b x)"
  by (auto simp: bestOf_def latestStep_def split: sum.splits)

lemma latestStep_fold: "bestOf ps b \<Longrightarrow> bestOf (ps @ qs) (foldl latestStep b qs)"
proof (induction qs arbitrary: ps b)
  case (Cons x qs)
  then show ?case
    using Cons.IH [OF latestStep_best [OF Cons.prems, of x]] by simp
qed simp

lemma LookupVersion_Inr:
  "LookupVersion v = Inr i \<Longrightarrow> i \<in> set supportedVersions \<and> vi_Version i = minorOf v"
  by (auto simp: LookupVersion_def find_Some_iff split: option.splits)

text \<open>
  Resolving a minor version (or a patch of it) gives a supported patch of that minor version, and
  none of the minor version's patches is newer.
\<close>

theorem ResolveLatestPatch_best:
  assumes "ResolveLatestPatch m = Inr p"
  shows "\<exists>info v. LookupVersion m = Inr info \<and> p \<in> set (vi_PatchVersions info) \<and> IsSupported p \<and>
           parseSemver p = Inr v \<and>
           (\<forall>q \<in> set (vi_PatchVersions info). \<forall>u. parseSemver q = Inr u \<longrightarrow> patch u \<le> patch v)"
proof -
  obtain info where l: "LookupVersion m = Inr info"
    using assms by (auto simp: ResolveLatestPatch_def split: sum.splits)
  obtain h ps where c: "vi_PatchVersions info = h # ps"
    using assms l by (auto simp: ResolveLatestPatch_def split: list.splits)
  have i: "info \<in> set supportedVersions"
    using LookupVersion_Inr [OF l] by simp
  then have sub: "set (vi_PatchVersions info) \<subseteq> set allPatches"
    by (auto simp: allPatches_def)
  then obtain v where v: "parseSemver h = Inr v"
    using allPatches_parse c by fastforce
  show ?thesis
    using latestStep_fold [of "[h]" "(h, v)" ps] assms l c v sub
    by (auto simp: ResolveLatestPatch_def IsSupported_iff bestOf_def)
qed

theorem ResolveLatestPatch_best_witness:
  "ResolveLatestPatch ''1.30'' = Inr ''1.30.8'' \<and> IsSupported ''1.30.8''"
proof -
  have r: "ResolveLatestPatch ''1.30'' = Inr ''1.30.8''" by code_simp
  then show ?thesis using ResolveLatestPatch_best [OF r] by blast
qed

subsection \<open>Upgrade chains\<close>

text \<open>One admitted upgrade between supported versions.\<close>

definition upgradeStep :: "(string \<times> string) set" where
  "upgradeStep = {(a, b). IsSupported a \<and> CanUpgrade a b = Inr True}"

lemma consecutive_upgrades:
  "successively (\<lambda>a b. IsSupported a \<and> CanUpgrade a b = Inr True) allPatches"
  by code_simp

lemma successively_rtrancl:
  "successively (\<lambda>a b. (a, b) \<in> R) xs \<Longrightarrow> i \<le> j \<Longrightarrow> j < length xs \<Longrightarrow> (xs ! i, xs ! j) \<in> R\<^sup>*"
proof (induction j)
  case (Suc j)
  show ?case
  proof (cases "i = Suc j")
    case False
    then have "(xs ! i, xs ! j) \<in> R\<^sup>*" using Suc by simp
    moreover have "(xs ! j, xs ! Suc j) \<in> R"
      using Suc.prems by (simp add: successively_conv_nth)
    ultimately show ?thesis by (rule rtrancl_into_rtrancl)
  qed simp
qed simp

lemma chain_forward:
  assumes "(v, w) \<in> upgradeStep\<^sup>*" and "parseSemver v = Inr a"
  shows "\<exists>b. parseSemver w = Inr b \<and> a \<le> b"
  using assms
proof (induction rule: rtrancl_induct)
  case (step y z)
  then show ?case
    using CanUpgrade_forward [of y z] by (fastforce simp: upgradeStep_def)
qed simp

lemma chain_complete:
  assumes "IsSupported v" "IsSupported w" and "parseSemver v = Inr a" "parseSemver w = Inr b" and "a \<le> b"
  shows "(v, w) \<in> upgradeStep\<^sup>*"
proof -
  obtain i j where i: "i < length allPatches" "allPatches ! i = v"
    and j: "j < length allPatches" "allPatches ! j = w"
    using assms(1,2) by (auto simp: IsSupported_iff in_set_conv_nth)
  have "i \<le> j"
  proof (rule ccontr)
    assume "\<not> i \<le> j"
    then have "versionLess w v"
      using allPatches_increasing i j by (auto simp: sorted_wrt_iff_nth_less not_le)
    then show False
      using assms by (simp add: versionLess_parsed [OF assms(4) assms(3)])
  qed
  moreover have "successively (\<lambda>a b. (a, b) \<in> upgradeStep) allPatches"
    using consecutive_upgrades by (simp add: upgradeStep_def)
  ultimately show ?thesis
    using successively_rtrancl [of upgradeStep allPatches i j] i j by simp
qed

text \<open>
  C31: the admitted single upgrades generate exactly the forward moves.  A supported version can be
  brought to another one by a chain of upgrades each of which \<open>CanUpgrade\<close> admits if and only if the
  other one is not older.
\<close>

theorem upgrade_chains_iff_newer:
  assumes "IsSupported v" and "IsSupported w" and "parseSemver v = Inr a" and "parseSemver w = Inr b"
  shows "(v, w) \<in> upgradeStep\<^sup>* \<longleftrightarrow> a \<le> b"
  using chain_complete [OF assms] chain_forward [of v w a] assms(3,4) by auto

theorem upgrade_chains_iff_newer_witness: "(''1.27.0'', ''1.32.1'') \<in> upgradeStep\<^sup>* \<and> (''1.32.1'', ''1.27.0'') \<notin> upgradeStep\<^sup>*"
proof -
  have s: "IsSupported ''1.27.0''" "IsSupported ''1.32.1''" by (simp_all add: IsSupported_iff allPatches_eq)
  have p: "parseSemver ''1.27.0'' = Inr (Semver 1 27 0)" "parseSemver ''1.32.1'' = Inr (Semver 1 32 1)"
    by code_simp+
  show ?thesis
    using upgrade_chains_iff_newer [OF s p] upgrade_chains_iff_newer [OF s(2,1) p(2,1)]
    by (simp add: less_eq_semver_def less_semver_def)
qed

end
