(* ===== verification/Sha256.thy ===== *)
theory Sha256
  imports Go_Prelude "HOL-Library.Word"
begin

text \<open>
  \<^verbatim>\<open>crypto/sha256\<close> and \<^verbatim>\<open>encoding/hex\<close> of Go's standard library, as far as \<^verbatim>\<open>resources.ConfigHash\<close>
  (\<^verbatim>\<open>src/internal/resources/config.go\<close>) and the certificate hash use them: the SHA-256 digest on
  32-bit words and its hexadecimal text.
\<close>

unbundle bit_operations_syntax

type_synonym w32 = "32 word"

text \<open>
  The constants are the first 32 bits of the fractional parts of roots of primes: square roots of the
  first eight for the initial state, cube roots of the first sixty-four for the rounds.  \<open>root_bits k b a n\<close>
  extends the approximation \<open>a\<close> of the \<open>k\<close>-th root of \<open>n\<close> by its last \<open>b\<close> bits.
\<close>

definition sha_primes :: "nat list" where
  "sha_primes =
    [2, 3, 5, 7, 11, 13, 17, 19, 23, 29, 31, 37, 41, 43, 47, 53,
     59, 61, 67, 71, 73, 79, 83, 89, 97, 101, 103, 107, 109, 113, 127, 131,
     137, 139, 149, 151, 157, 163, 167, 173, 179, 181, 191, 193, 197, 199, 211, 223,
     227, 229, 233, 239, 241, 251, 257, 263, 269, 271, 277, 281, 283, 293, 307, 311]"

fun root_bits :: "nat \<Rightarrow> nat \<Rightarrow> nat \<Rightarrow> nat \<Rightarrow> nat" where
  "root_bits k 0 a n = a"
| "root_bits k (Suc b) a n =
     (let c = a + 2 ^ b in root_bits k b (if c ^ k \<le> n then c else a) n)"

definition root_fraction :: "nat \<Rightarrow> nat \<Rightarrow> nat" where
  "root_fraction k p = root_bits k 40 0 (p * 2 ^ (32 * k)) mod 2 ^ 32"

definition sha_k :: "w32 list" where
  "sha_k = map (\<lambda>p. word_of_nat (root_fraction 3 p)) sha_primes"

definition sha_init :: "w32 list" where
  "sha_init = map (\<lambda>p. word_of_nat (root_fraction 2 p)) (take 8 sha_primes)"

definition rotr :: "nat \<Rightarrow> w32 \<Rightarrow> w32" where
  "rotr n w = drop_bit n w OR push_bit (32 - n) w"

definition sha_s0 :: "w32 \<Rightarrow> w32" where
  "sha_s0 w = rotr 7 w XOR rotr 18 w XOR drop_bit 3 w"

definition sha_s1 :: "w32 \<Rightarrow> w32" where
  "sha_s1 w = rotr 17 w XOR rotr 19 w XOR drop_bit 10 w"

text \<open>The message schedule, latest word first: \<open>n\<close> more words.\<close>

fun sha_schedule :: "nat \<Rightarrow> w32 list \<Rightarrow> w32 list" where
  "sha_schedule 0 r = r"
| "sha_schedule (Suc n) r =
     sha_schedule n ((sha_s1 (r ! 1) + r ! 6 + sha_s0 (r ! 14) + r ! 15) # r)"

fun sha_round :: "w32 list \<Rightarrow> w32 \<times> w32 \<Rightarrow> w32 list" where
  "sha_round [a, b, c, d, e, f, g, h] (k, w) =
     (let t1 = h + (rotr 6 e XOR rotr 11 e XOR rotr 25 e) + ((e AND f) XOR (NOT e AND g)) + k + w;
          t2 = (rotr 2 a XOR rotr 13 a XOR rotr 22 a) + ((a AND b) XOR (a AND c) XOR (b AND c))
      in [t1 + t2, a, b, c, d + t1, e, f, g])"
| "sha_round st _ = st"

definition sha_block :: "w32 list \<Rightarrow> w32 list \<Rightarrow> w32 list" where
  "sha_block st ws =
     map2 (+) st (foldl sha_round st (zip sha_k (rev (sha_schedule 48 (rev ws)))))"

fun be_words :: "nat list \<Rightarrow> w32 list" where
  "be_words (a # b # c # d # r) =
     word_of_nat (a * 2 ^ 24 + b * 2 ^ 16 + c * 2 ^ 8 + d) # be_words r"
| "be_words _ = []"

definition be_bytes :: "nat \<Rightarrow> nat \<Rightarrow> nat list" where
  "be_bytes n v = map (\<lambda>i. v div 2 ^ (8 * i) mod 256) (rev [0 ..< n])"

definition sha_pad :: "nat list \<Rightarrow> nat list" where
  "sha_pad bs = bs @ [128] @ replicate ((119 - length bs mod 64) mod 64) 0 @ be_bytes 8 (8 * length bs)"

function sha_blocks :: "w32 list \<Rightarrow> w32 list \<Rightarrow> w32 list" where
  "sha_blocks st ws = (if length ws < 16 then st else sha_blocks (sha_block st (take 16 ws)) (drop 16 ws))"
  by pat_completeness auto
termination by (relation "measure (\<lambda>(st, ws). length ws)") auto

definition sha256 :: "string \<Rightarrow> nat list" where
  "sha256 s =
     concat (map (\<lambda>w. be_bytes 4 (unat w))
       (sha_blocks sha_init (be_words (sha_pad (map of_char s)))))"

definition hex_digit :: "nat \<Rightarrow> char" where
  "hex_digit n = char_of (if n < 10 then 48 + n else 87 + n)"

definition hexEncode :: "nat list \<Rightarrow> string" where
  "hexEncode bs = concat (map (\<lambda>b. [hex_digit (b div 16), hex_digit (b mod 16)]) bs)"

section \<open>The constants\<close>

lemma root_bits_bounds:
  "a ^ k \<le> n \<Longrightarrow> n < (a + 2 ^ b) ^ k \<Longrightarrow>
   root_bits k b a n ^ k \<le> n \<and> n < (root_bits k b a n + 1) ^ k"
proof (induction b arbitrary: a)
  case (Suc b)
  show ?case
  proof (cases "(a + 2 ^ b) ^ k \<le> n")
    case True
    then show ?thesis
      using Suc.IH [of "a + 2 ^ b"] Suc.prems(2) by (simp add: Let_def mult_2 add.assoc)
  next
    case False
    then show ?thesis using Suc.IH [of a] Suc.prems(1) by (simp add: Let_def)
  qed
qed simp

section \<open>The digest has 32 bytes\<close>

lemma length_sha_round: "length (sha_round st kw) = length st"
  by (cases "(st, kw)" rule: sha_round.cases) (simp_all add: Let_def)

lemma length_fold_round: "length (foldl sha_round st xs) = length st"
  by (induction xs arbitrary: st) (simp_all add: length_sha_round)

lemma length_sha_block: "length (sha_block st ws) = length st"
  by (simp add: sha_block_def length_fold_round)

lemma length_sha_blocks: "length (sha_blocks st ws) = length st"
proof (induction st ws rule: sha_blocks.induct)
  case (1 st ws)
  then show ?case by (subst sha_blocks.simps) (simp add: length_sha_block del: sha_blocks.simps)
qed

lemma length_concat_const: "(\<And>x. x \<in> set xs \<Longrightarrow> length (f x) = n) \<Longrightarrow> length (concat (map f xs)) = n * length xs"
  by (induction xs) auto

lemma length_sha256: "length (sha256 s) = 32"
  unfolding sha256_def
  by (subst length_concat_const [where n = 4]) (auto simp: length_sha_blocks sha_init_def sha_primes_def be_bytes_def simp del: sha_blocks.simps)

lemma length_hexEncode: "length (hexEncode bs) = 2 * length bs"
  unfolding hexEncode_def by (subst length_concat_const [where n = 2]) auto

end
