(* ===== verification/Resources.thy ===== *)
theory Resources
  imports Kube_Objects Versions Sha256
begin

text \<open>
  Builders of the managed objects (\<^verbatim>\<open>src/internal/resources\<close>): ports, labels, the list of enabled
  services, Services, disruption budgets, the configuration Secret and ConfigMap, certificates and
  the Deployments, with the pod template override.  The strategic merge patch of
  \<^verbatim>\<open>k8s.io/apimachinery\<close> is a parameter of the override.
\<close>

section \<open>Ports (configtemplate.go)\<close>

record ServicePort =
  port_GRPC :: int
  port_Membership :: int
  port_HTTP :: int

definition mkPorts :: "int \<Rightarrow> int \<Rightarrow> int \<Rightarrow> ServicePort" where
  "mkPorts g m h = \<lparr>port_GRPC = g, port_Membership = m, port_HTTP = h\<rparr>"

definition defaultServices :: "string \<rightharpoonup> ServicePort" where
  "defaultServices =
     [''frontend'' \<mapsto> mkPorts 7233 6933 7243,
      ''internalFrontend'' \<mapsto> mkPorts 7236 6936 7246,
      ''matching'' \<mapsto> mkPorts 7235 6935 0,
      ''history'' \<mapsto> mkPorts 7234 6934 0,
      ''worker'' \<mapsto> mkPorts 7239 6939 0]"

definition DefaultServicePorts :: "string \<rightharpoonup> ServicePort" where
  "DefaultServicePorts =
     [''frontend'' \<mapsto> mkPorts 7233 6933 7243,
      ''internal-frontend'' \<mapsto> mkPorts 7236 6936 7246,
      ''matching'' \<mapsto> mkPorts 7235 6935 0,
      ''history'' \<mapsto> mkPorts 7234 6934 0,
      ''worker'' \<mapsto> mkPorts 7239 6939 0]"

text \<open>A Go map read: the zero value for a missing key.\<close>

definition portsOf :: "string \<Rightarrow> ServicePort" where
  "portsOf c = (case DefaultServicePorts c of Some p \<Rightarrow> p | None \<Rightarrow> mkPorts 0 0 0)"

section \<open>Labels (labels.go)\<close>

abbreviation LabelName :: string where "LabelName \<equiv> ''app.kubernetes.io/name''"
abbreviation LabelInstance :: string where "LabelInstance \<equiv> ''app.kubernetes.io/instance''"
abbreviation LabelComponent :: string where "LabelComponent \<equiv> ''app.kubernetes.io/component''"
abbreviation LabelManagedBy :: string where "LabelManagedBy \<equiv> ''app.kubernetes.io/managed-by''"
abbreviation LabelCluster :: string where "LabelCluster \<equiv> ''temporal.bmor10.com/cluster''"
abbreviation LabelVersion :: string where "LabelVersion \<equiv> ''temporal.bmor10.com/version''"
abbreviation ConfigHashAnnotation :: string where "ConfigHashAnnotation \<equiv> ''temporal.bmor10.com/config-hash''"
abbreviation CertHashAnnotation :: string where "CertHashAnnotation \<equiv> ''temporal.bmor10.com/cert-hash''"
abbreviation DynamicConfigHashAnnotation :: string where
  "DynamicConfigHashAnnotation \<equiv> ''temporal.bmor10.com/dynamicconfig-hash''"

abbreviation tc_Name :: "TemporalCluster \<Rightarrow> string" where "tc_Name c \<equiv> om_Name (tc_Meta c)"
abbreviation tc_Namespace :: "TemporalCluster \<Rightarrow> string" where "tc_Namespace c \<equiv> om_Namespace (tc_Meta c)"

definition SelectorLabels :: "TemporalCluster \<Rightarrow> string \<Rightarrow> gomap" where
  "SelectorLabels cluster component =
     [LabelName \<mapsto> ''temporal'', LabelInstance \<mapsto> tc_Name cluster,
      LabelComponent \<mapsto> component, LabelCluster \<mapsto> tc_Name cluster]"

definition StandardLabels :: "TemporalCluster \<Rightarrow> string \<Rightarrow> gomap" where
  "StandardLabels cluster component =
     (let labels = (SelectorLabels cluster component)(LabelManagedBy \<mapsto> ''temporal-operator'')
      in if spec_Version (tc_Spec cluster) \<noteq> []
         then labels(LabelVersion \<mapsto> spec_Version (tc_Spec cluster)) else labels)"

section \<open>Enabled services (services.go)\<close>

abbreviation ServiceFrontend :: string where "ServiceFrontend \<equiv> ''frontend''"
abbreviation ServiceInternalFrontend :: string where "ServiceInternalFrontend \<equiv> ''internal-frontend''"
abbreviation ServiceHistory :: string where "ServiceHistory \<equiv> ''history''"
abbreviation ServiceMatching :: string where "ServiceMatching \<equiv> ''matching''"
abbreviation ServiceWorker :: string where "ServiceWorker \<equiv> ''worker''"

record ServiceInfo =
  si_Name :: string
  si_Spec :: "ServiceSpec option"
  si_Ports :: ServicePort
  si_HasHTTP :: bool

definition mkInfo :: "string \<Rightarrow> ServiceSpec option \<Rightarrow> bool \<Rightarrow> ServiceInfo" where
  "mkInfo n s http = \<lparr>si_Name = n, si_Spec = s, si_Ports = portsOf n, si_HasHTTP = http\<rparr>"

text \<open>The internal frontend is deployed when it is configured and enabled.\<close>

definition internalFrontendEnabled :: "TemporalClusterSpec \<Rightarrow> bool" where
  "internalFrontendEnabled s =
     (case svcs_InternalFrontend (spec_Services s) of None \<Rightarrow> False | Some i \<Rightarrow> if_Enabled i)"

definition EnabledServices :: "TemporalCluster \<Rightarrow> ServiceInfo list" where
  "EnabledServices cluster =
     (let svcs = spec_Services (tc_Spec cluster);
          infos =
            [mkInfo ServiceFrontend (svcs_Frontend svcs) True,
             mkInfo ServiceHistory (svcs_History svcs) False,
             mkInfo ServiceMatching (svcs_Matching svcs) False,
             mkInfo ServiceWorker (svcs_Worker svcs) False]
      in case svcs_InternalFrontend svcs of
           None \<Rightarrow> infos
         | Some i \<Rightarrow>
             if \<not> if_Enabled i then infos
             else
               (let spec = (case if_Replicas i of
                      None \<Rightarrow> None
                    | Some r \<Rightarrow> Some \<lparr>ss_Replicas = Some r, ss_Resources = if_Resources i,
                        ss_PodTemplate = None, ss_Service = None, ss_NodeSelector = Map.empty,
                        ss_Tolerations = [], ss_Affinity = None, ss_TopologySpreadConstraints = []\<rparr>)
                in infos @ [mkInfo ServiceInternalFrontend spec True]))"

section \<open>Services (service.go) and disruption budgets (pdb.go)\<close>

definition HeadlessServiceName :: "string \<Rightarrow> string \<Rightarrow> string" where
  "HeadlessServiceName clusterName component = clusterName @ ''-'' @ component @ ''-headless''"

definition FrontendServiceName :: "string \<Rightarrow> string" where
  "FrontendServiceName clusterName = clusterName @ ''-frontend''"

definition metricsPort :: int where
  "metricsPort = 9090"

definition mkSvcPort :: "string \<Rightarrow> int \<Rightarrow> ServicePortSpec" where
  "mkSvcPort n p = \<lparr>sp_Name = n, sp_Port = p, sp_TargetPort = p\<rparr>"

definition BuildHeadlessService :: "TemporalCluster \<Rightarrow> ServiceInfo \<Rightarrow> KService" where
  "BuildHeadlessService cluster svc =
     \<lparr>svc_Meta = newMeta (HeadlessServiceName (tc_Name cluster) (si_Name svc)) (tc_Namespace cluster)
        (StandardLabels cluster (si_Name svc)) Map.empty,
      svc_Type = [], svc_ClusterIP = ''None'', svc_PublishNotReady = True,
      svc_Selector = SelectorLabels cluster (si_Name svc),
      svc_Ports = [mkSvcPort ''grpc'' (port_GRPC (si_Ports svc)),
        mkSvcPort ''membership'' (port_Membership (si_Ports svc)), mkSvcPort ''metrics'' metricsPort]\<rparr>"

definition BuildFrontendService :: "TemporalCluster \<Rightarrow> ServiceInfo \<Rightarrow> KService" where
  "BuildFrontendService cluster frontend =
     \<lparr>svc_Meta = newMeta (FrontendServiceName (tc_Name cluster)) (tc_Namespace cluster)
        (StandardLabels cluster ServiceFrontend) Map.empty,
      svc_Type = ''ClusterIP'', svc_ClusterIP = [], svc_PublishNotReady = False,
      svc_Selector = SelectorLabels cluster ServiceFrontend,
      svc_Ports = mkSvcPort ''grpc'' (port_GRPC (si_Ports frontend)) #
        (if port_HTTP (si_Ports frontend) \<noteq> 0
         then [mkSvcPort ''http'' (port_HTTP (si_Ports frontend))] else [])\<rparr>"

definition PDBName :: "string \<Rightarrow> string \<Rightarrow> string" where
  "PDBName clusterName component = clusterName @ ''-'' @ component"

definition BuildPodDisruptionBudget :: "TemporalCluster \<Rightarrow> ServiceInfo \<Rightarrow> PodDisruptionBudget" where
  "BuildPodDisruptionBudget cluster svc =
     \<lparr>pdb_Meta = newMeta (PDBName (tc_Name cluster) (si_Name svc)) (tc_Namespace cluster)
        (StandardLabels cluster (si_Name svc)) Map.empty,
      pdb_MaxUnavailable = 1,
      pdb_Selector = SelectorLabels cluster (si_Name svc)\<rparr>"

section \<open>Configuration objects (config.go)\<close>

definition ConfigSecretName :: "string \<Rightarrow> string" where
  "ConfigSecretName clusterName = clusterName @ ''-config''"

definition DynamicConfigMapName :: "string \<Rightarrow> string" where
  "DynamicConfigMapName clusterName = clusterName @ ''-dynamicconfig''"

definition ConfigHash :: "string \<Rightarrow> string" where
  "ConfigHash content = take 16 (hexEncode (sha256 content))"

definition BuildConfigSecret :: "TemporalCluster \<Rightarrow> string \<Rightarrow> Secret" where
  "BuildConfigSecret cluster rendered =
     \<lparr>sec_Meta = newMeta (ConfigSecretName (tc_Name cluster)) (tc_Namespace cluster)
        (StandardLabels cluster ''config'') Map.empty,
      sec_Data = [''config.yaml'' \<mapsto> rendered]\<rparr>"

definition BuildDynamicConfigMap :: "TemporalCluster \<Rightarrow> string \<Rightarrow> ConfigMap" where
  "BuildDynamicConfigMap cluster rendered =
     \<lparr>cfg_Meta = newMeta (DynamicConfigMapName (tc_Name cluster)) (tc_Namespace cluster)
        (StandardLabels cluster ''dynamicconfig'') Map.empty,
      cfg_Data = [''dynamic_config.yaml'' \<mapsto> (if rendered = [] then ''{}'' @ [CHR 0x0A] else rendered)]\<rparr>"

section \<open>Certificates (certificates.go)\<close>

definition MTLSEnabled :: "TemporalCluster \<Rightarrow> bool" where
  "MTLSEnabled cluster =
     (case spec_MTLS (tc_Spec cluster) of None \<Rightarrow> False | Some m \<Rightarrow> mtls_Provider m = ''cert-manager'')"

definition InternodeCertName :: "string \<Rightarrow> string" where
  "InternodeCertName clusterName = clusterName @ ''-internode''"

definition FrontendCertName :: "string \<Rightarrow> string" where
  "FrontendCertName clusterName = clusterName @ ''-frontend-tls''"

text \<open>The reference is dereferenced: a nil reference panics.\<close>

definition issuerRef :: "IssuerReference option \<Rightarrow> IssuerReference result" where
  "issuerRef ref =
     (case ref of
        None \<Rightarrow> Inl (Panic ''nil issuerRef'')
      | Some r \<Rightarrow>
          Inr \<lparr>ir_Name = ir_Name r,
               ir_Kind = (if ir_Kind r = [] then ''Issuer'' else ir_Kind r),
               ir_Group = (if ir_Group r = [] then ''cert-manager.io'' else ir_Group r)\<rparr>)"

definition serviceDNSNames :: "TemporalCluster \<Rightarrow> string \<Rightarrow> string list" where
  "serviceDNSNames cluster component =
     (let ns = tc_Namespace cluster; headless = HeadlessServiceName (tc_Name cluster) component
      in [headless @ ''.'' @ ns @ ''.svc.cluster.local'',
          headless @ ''.'' @ ns @ ''.svc'',
          ''*.'' @ headless @ ''.'' @ ns @ ''.svc.cluster.local''])"

definition certDuration :: "TemporalCluster \<Rightarrow> duration option" where
  "certDuration cluster =
     (case spec_MTLS (tc_Spec cluster) of None \<Rightarrow> None | Some m \<Rightarrow> mtls_RefreshInterval m)"

definition certRenewBefore :: "TemporalCluster \<Rightarrow> duration option" where
  "certRenewBefore cluster =
     (case spec_MTLS (tc_Spec cluster) of None \<Rightarrow> None | Some m \<Rightarrow> mtls_RenewBefore m)"

text \<open>\<^verbatim>\<open>cluster.Spec.MTLS.IssuerRef\<close>, which panics when mTLS is not configured.\<close>

definition clusterIssuer :: "TemporalCluster \<Rightarrow> IssuerReference result" where
  "clusterIssuer cluster =
     (case spec_MTLS (tc_Spec cluster) of
        None \<Rightarrow> Inl (Panic ''nil mtls'')
      | Some m \<Rightarrow> issuerRef (mtls_IssuerRef m))"

definition BuildInternodeCertificate :: "TemporalCluster \<Rightarrow> Certificate result" where
  "BuildInternodeCertificate cluster =
     bindR (clusterIssuer cluster) (\<lambda>iss.
       Inr \<lparr>crt_Meta = newMeta (InternodeCertName (tc_Name cluster)) (tc_Namespace cluster)
              (StandardLabels cluster ''internode'') Map.empty,
            crt_SecretName = InternodeCertName (tc_Name cluster),
            crt_CommonName = tc_Name cluster @ ''-internode'',
            crt_DNSNames = InternodeCertName (tc_Name cluster) #
              concat (map (\<lambda>svc. serviceDNSNames cluster (si_Name svc)) (EnabledServices cluster)),
            crt_Duration = certDuration cluster,
            crt_RenewBefore = certRenewBefore cluster,
            crt_IssuerRef = iss,
            crt_Usages = [UsageServerAuth, UsageClientAuth],
            crt_Conditions = []\<rparr>)"

definition BuildFrontendCertificate :: "TemporalCluster \<Rightarrow> Certificate result" where
  "BuildFrontendCertificate cluster =
     bindR (clusterIssuer cluster) (\<lambda>iss.
       (let ns = tc_Namespace cluster; fe = FrontendServiceName (tc_Name cluster);
            extra = (case spec_MTLS (tc_Spec cluster) of
               None \<Rightarrow> []
             | Some m \<Rightarrow> (case mtls_Frontend m of None \<Rightarrow> [] | Some f \<Rightarrow> fm_DNSNames f))
        in Inr \<lparr>crt_Meta = newMeta (FrontendCertName (tc_Name cluster)) ns
                  (StandardLabels cluster ''frontend'') Map.empty,
                crt_SecretName = FrontendCertName (tc_Name cluster),
                crt_CommonName = tc_Name cluster @ ''-frontend'',
                crt_DNSNames = [fe @ ''.'' @ ns @ ''.svc.cluster.local'', fe @ ''.'' @ ns @ ''.svc''] @ extra,
                crt_Duration = certDuration cluster,
                crt_RenewBefore = certRenewBefore cluster,
                crt_IssuerRef = iss,
                crt_Usages = [UsageServerAuth, UsageClientAuth],
                crt_Conditions = []\<rparr>))"

end
