(* ===== verification/Deployments.thy ===== *)
theory Deployments
  imports Resources
begin

text \<open>
  The Deployments of the Temporal services and the pod wiring they share with the Jobs
  (\<^verbatim>\<open>src/internal/resources/deployment.go\<close>, \<^verbatim>\<open>azureidentity.go\<close>).  The parameter \<open>smp\<close> stands for
  \<^verbatim>\<open>strategicpatch.StrategicMergePatch\<close> with the JSON encoding around it.  The lemmas show that an
  override never drops a selector label, which container image runs, and that the Azure wiring
  is idempotent.
\<close>

type_synonym smp = "PodSpec \<Rightarrow> string \<Rightarrow> PodSpec result"

definition dq :: string where "dq = [CHR 0x22]"
definition nl :: string where "nl = [CHR 0x0A]"
definition bsl :: string where "bsl = [CHR 0x5C]"

section \<open>Deployments (deployment.go)\<close>

definition ServerContainerName :: string where
  "ServerContainerName = ''temporal''"

definition DeploymentName :: "string \<Rightarrow> string \<Rightarrow> string" where
  "DeploymentName clusterName component = clusterName @ ''-'' @ component"

definition int32OrDefault :: "int option \<Rightarrow> int \<Rightarrow> int" where
  "int32OrDefault p def = (case p of None \<Rightarrow> def | Some v \<Rightarrow> v)"

definition clusterServerImage :: "TemporalCluster \<Rightarrow> string \<Rightarrow> string" where
  "clusterServerImage cluster version =
     (let img = spec_Image (tc_Spec cluster) in
      if img \<noteq> [] \<and> \<not> IsDefaultServerImage img then img
      else ServerImage (if version = [] then spec_Version (tc_Spec cluster) else version))"

definition mkProbe :: "ProbeHandler \<Rightarrow> Probe" where
  "mkProbe h = \<lparr>pr_Handler = h, pr_FailureThreshold = 0, pr_PeriodSeconds = 0, pr_TimeoutSeconds = 0\<rparr>"

definition grpcProbe :: "int \<Rightarrow> Probe" where
  "grpcProbe port = mkProbe (ProbeGRPC port)"

definition tcpProbe :: "int \<Rightarrow> Probe" where
  "tcpProbe port = mkProbe (ProbeTCP port)"

definition serviceProbe :: "int \<Rightarrow> bool \<Rightarrow> Probe" where
  "serviceProbe port mtlsEnabled = (if mtlsEnabled then tcpProbe port else grpcProbe port)"

definition defaultTopologySpread :: "TemporalCluster \<Rightarrow> string \<Rightarrow> TopologySpreadConstraint list" where
  "defaultTopologySpread cluster component =
     [\<lparr>tsc_MaxSkew = 1, tsc_TopologyKey = ''topology.kubernetes.io/zone'',
       tsc_WhenUnsatisfiable = ''ScheduleAnyway'',
       tsc_LabelSelector = Some (SelectorLabels cluster component), tsc_Rest = []\<rparr>]"

definition mkCPort :: "string \<Rightarrow> int \<Rightarrow> ContainerPort" where
  "mkCPort n p = \<lparr>cp_Name = n, cp_ContainerPort = p\<rparr>"

definition containerPorts :: "ServiceInfo \<Rightarrow> ContainerPort list" where
  "containerPorts svc =
     [mkCPort ''grpc'' (port_GRPC (si_Ports svc)),
      mkCPort ''membership'' (port_Membership (si_Ports svc)),
      mkCPort ''metrics'' metricsPort] @
     (if si_HasHTTP svc \<and> port_HTTP (si_Ports svc) \<noteq> 0
      then [mkCPort ''http'' (port_HTTP (si_Ports svc))] else [])"

record MTLSMounts =
  mm_Enabled :: bool
  mm_InternodeSecret :: string
  mm_FrontendSecret :: string
  mm_CertHash :: string

definition mkMount :: "string \<Rightarrow> string \<Rightarrow> bool \<Rightarrow> VolumeMount" where
  "mkMount n p ro = \<lparr>vm_Name = n, vm_MountPath = p, vm_ReadOnly = ro\<rparr>"

definition mkVolume :: "string \<Rightarrow> VolumeSource \<Rightarrow> Volume" where
  "mkVolume n s = \<lparr>vol_Name = n, vol_Source = s\<rparr>"

definition configMountPath :: string where "configMountPath = ''/etc/temporal/config''"
definition dynamicConfigMountPath :: string where "dynamicConfigMountPath = ''/etc/temporal/dynamicconfig''"
definition InternodeCertMountPath :: string where "InternodeCertMountPath = ''/etc/temporal/certs/internode''"
definition FrontendCertMountPath :: string where "FrontendCertMountPath = ''/etc/temporal/certs/frontend''"

text \<open>
  \<open>applyPodTemplate\<close>: labels and annotations are merged with the override winning, the partial pod
  specification is patched onto the generated one, and the selector labels are written last.
\<close>

definition applyPodTemplate ::
  "smp \<Rightarrow> PodTemplateSpec \<Rightarrow> PodTemplateOverride option \<Rightarrow> gomap \<Rightarrow> PodTemplateSpec result" where
  "applyPodTemplate smp tmpl override selectorLabels =
     (case override of
        None \<Rightarrow> Inr tmpl
      | Some ov \<Rightarrow>
          (let labels = pt_Labels tmpl ++ pto_Labels ov;
               annotations = pt_Annotations tmpl ++ pto_Annotations ov;
               patched = (case pto_Spec ov of
                   None \<Rightarrow> Inr (pt_Spec tmpl)
                 | Some raw \<Rightarrow>
                     if raw = [] then Inr (pt_Spec tmpl)
                     else (case smp (pt_Spec tmpl) raw of
                             Inl e \<Rightarrow> Inl (WrapErr ''applying podTemplate spec patch'' e)
                           | Inr m \<Rightarrow> Inr m))
           in case patched of
                Inl e \<Rightarrow> Inl e
              | Inr spec \<Rightarrow>
                  Inr \<lparr>pt_Labels = labels ++ selectorLabels, pt_Annotations = annotations,
                       pt_Spec = spec\<rparr>))"

text \<open>The server container of a service, before the mTLS mounts.\<close>

definition serverCommand :: "string \<Rightarrow> string" where
  "serverCommand service =
     ''cp -r /etc/temporal/config /tmp/temporal/temporal-config && '' @
     ''sed -i '' @ dq @ ''s/'' @ bsl @ ''${POD_IP}/$POD_IP/g'' @ dq @
     '' /tmp/temporal/temporal-config/*.yaml && '' @
     ''exec temporal-server '' @
     ''--root /tmp/temporal --config temporal-config --env config '' @
     ''start --service '' @ service"

definition serverContainer :: "TemporalCluster \<Rightarrow> ServiceInfo \<Rightarrow> string \<Rightarrow> MTLSMounts option \<Rightarrow> Container" where
  "serverContainer cluster svc version mtls =
     (let mtlsEnabled = (case mtls of None \<Rightarrow> False | Some m \<Rightarrow> mm_Enabled m);
          probe = serviceProbe (port_GRPC (si_Ports svc)) mtlsEnabled;
          probed = si_Name svc \<noteq> ServiceWorker
      in zeroContainer \<lparr>
           ct_Name := ServerContainerName,
           ct_Image := clusterServerImage cluster version,
           ct_Command := [''/bin/sh'', ''-c''],
           ct_Args := [serverCommand (si_Name svc)],
           ct_Env := [\<lparr>env_Name = ''POD_IP'', env_Value = [], env_ValueFrom = Some (FieldRef ''status.podIP'')\<rparr>],
           ct_Ports := containerPorts svc,
           ct_Resources := (case si_Spec svc of None \<Rightarrow> [] | Some s \<Rightarrow> ss_Resources s),
           ct_VolumeMounts :=
             [mkMount ''config'' configMountPath True,
              mkMount ''dynamicconfig'' dynamicConfigMountPath True,
              mkMount ''processed-config'' ''/tmp/temporal'' False] @
             (if mtlsEnabled
              then [mkMount ''internode-certs'' InternodeCertMountPath True] @
                (if si_Name svc = ServiceFrontend \<or> si_Name svc = ServiceInternalFrontend
                 then [mkMount ''frontend-certs'' FrontendCertMountPath True] else [])
              else []),
           ct_LivenessProbe := (if probed then Some probe else None),
           ct_ReadinessProbe := (if probed then Some (probe \<lparr>pr_TimeoutSeconds := 3\<rparr>) else None),
           ct_StartupProbe := (if probed
             then Some (probe \<lparr>pr_FailureThreshold := 30, pr_PeriodSeconds := 5\<rparr>) else None)\<rparr>)"

definition serverVolumes :: "TemporalCluster \<Rightarrow> ServiceInfo \<Rightarrow> MTLSMounts option \<Rightarrow> Volume list" where
  "serverVolumes cluster svc mtls =
     [mkVolume ''config'' (VolSecret (ConfigSecretName (tc_Name cluster))),
      mkVolume ''dynamicconfig'' (VolConfigMap (DynamicConfigMapName (tc_Name cluster))),
      mkVolume ''processed-config'' VolEmptyDir] @
     (case mtls of
        None \<Rightarrow> []
      | Some m \<Rightarrow>
          if \<not> mm_Enabled m then []
          else [mkVolume ''internode-certs'' (VolSecret (mm_InternodeSecret m))] @
            (if si_Name svc = ServiceFrontend \<or> si_Name svc = ServiceInternalFrontend
             then [mkVolume ''frontend-certs'' (VolSecret (mm_FrontendSecret m))] else []))"

definition podAnnotationsOf :: "string \<Rightarrow> string \<Rightarrow> MTLSMounts option \<Rightarrow> gomap" where
  "podAnnotationsOf configHash dynamicConfigHash mtls =
     (let a = [ConfigHashAnnotation \<mapsto> configHash, DynamicConfigHashAnnotation \<mapsto> dynamicConfigHash]
      in case mtls of
           None \<Rightarrow> a
         | Some m \<Rightarrow>
             if mm_Enabled m \<and> mm_CertHash m \<noteq> [] then a(CertHashAnnotation \<mapsto> mm_CertHash m) else a)"

definition podLabelsOf :: "TemporalCluster \<Rightarrow> ServiceInfo \<Rightarrow> string \<Rightarrow> gomap" where
  "podLabelsOf cluster svc version =
     (let l = StandardLabels cluster (si_Name svc)
      in if version \<noteq> [] then l(LabelVersion \<mapsto> version) else l)"

text \<open>The pod template of a service before any override.\<close>

definition basePodTemplate ::
  "TemporalCluster \<Rightarrow> ServiceInfo \<Rightarrow> string \<Rightarrow> string \<Rightarrow> string \<Rightarrow> MTLSMounts option \<Rightarrow> PodTemplateSpec" where
  "basePodTemplate cluster svc configHash dynamicConfigHash version mtls =
     (let sp = si_Spec svc;
          topo = (case sp of
              None \<Rightarrow> defaultTopologySpread cluster (si_Name svc)
            | Some s \<Rightarrow> if ss_TopologySpreadConstraints s \<noteq> [] then ss_TopologySpreadConstraints s
                        else defaultTopologySpread cluster (si_Name svc))
      in \<lparr>pt_Labels = podLabelsOf cluster svc version,
          pt_Annotations = podAnnotationsOf configHash dynamicConfigHash mtls,
          pt_Spec = zeroPodSpec \<lparr>
            pod_ImagePullSecrets := spec_ImagePullSecrets (tc_Spec cluster),
            pod_NodeSelector := (case sp of None \<Rightarrow> Map.empty | Some s \<Rightarrow> ss_NodeSelector s),
            pod_Tolerations := (case sp of None \<Rightarrow> [] | Some s \<Rightarrow> ss_Tolerations s),
            pod_Affinity := (case sp of None \<Rightarrow> None | Some s \<Rightarrow> ss_Affinity s),
            pod_TopologySpreadConstraints := topo,
            pod_Containers := [serverContainer cluster svc version mtls],
            pod_Volumes := serverVolumes cluster svc mtls\<rparr>\<rparr>)"

text \<open>The overrides that apply to a service: the shared one and its own.\<close>

definition sharedOverride :: "TemporalCluster \<Rightarrow> PodTemplateOverride option" where
  "sharedOverride cluster =
     (case svcs_Overrides (spec_Services (tc_Spec cluster)) of None \<Rightarrow> None | Some o' \<Rightarrow> so_PodTemplate o')"

definition ownOverride :: "ServiceInfo \<Rightarrow> PodTemplateOverride option" where
  "ownOverride svc = (case si_Spec svc of None \<Rightarrow> None | Some s \<Rightarrow> ss_PodTemplate s)"

definition BuildDeployment ::
  "smp \<Rightarrow> TemporalCluster \<Rightarrow> ServiceInfo \<Rightarrow> string \<Rightarrow> string \<Rightarrow> string \<Rightarrow> MTLSMounts option \<Rightarrow> Deployment result" where
  "BuildDeployment smp cluster svc configHash dynamicConfigHash version mtls =
     (let replicas = (case si_Spec svc of None \<Rightarrow> 1 | Some s \<Rightarrow> int32OrDefault (ss_Replicas s) 1);
          selector = SelectorLabels cluster (si_Name svc);
          base = basePodTemplate cluster svc configHash dynamicConfigHash version mtls
      in case applyPodTemplate smp base (sharedOverride cluster) selector of
           Inl e \<Rightarrow> Inl (WrapErr (''applying shared podTemplate for '' @ si_Name svc) e)
         | Inr t1 \<Rightarrow>
         (case applyPodTemplate smp t1 (ownOverride svc) selector of
           Inl e \<Rightarrow> Inl (WrapErr (''applying podTemplate for '' @ si_Name svc) e)
         | Inr t2 \<Rightarrow>
             Inr (newDeployment
               (newMeta (DeploymentName (tc_Name cluster) (si_Name svc)) (tc_Namespace cluster)
                  (podLabelsOf cluster svc version) Map.empty)
               replicas selector [] t2)))"

text \<open>
  The Deployment and its pod template share one label map when no override built a new one, so a
  later write to the pod labels is seen in both.
\<close>

definition labelsShared :: "TemporalCluster \<Rightarrow> ServiceInfo \<Rightarrow> bool" where
  "labelsShared cluster svc = (sharedOverride cluster = None \<and> ownOverride svc = None)"

section \<open>Azure Workload Identity (azureidentity.go)\<close>

definition AzureWorkloadIdentityEnabled :: "TemporalCluster \<Rightarrow> bool" where
  "AzureWorkloadIdentityEnabled cluster =
     (pers_AzureWorkloadIdentity (spec_Persistence (tc_Spec cluster)) \<noteq> None)"

definition AzureServiceAccountName :: "TemporalCluster \<Rightarrow> string" where
  "AzureServiceAccountName cluster =
     (case pers_AzureWorkloadIdentity (spec_Persistence (tc_Spec cluster)) of
        None \<Rightarrow> tc_Name cluster @ ''-azure''
      | Some a \<Rightarrow> if azwi_ServiceAccountName a \<noteq> [] then azwi_ServiceAccountName a
                  else tc_Name cluster @ ''-azure'')"

definition AzurePasswordCommand :: string where
  "AzurePasswordCommand = ''until [ -s /azure/pgpass ]; do sleep 1; done; cat /azure/pgpass''"

definition AzureTokenVolumeName :: string where "AzureTokenVolumeName = ''azure-token''"
definition AzureTokenMountPath :: string where "AzureTokenMountPath = ''/azure''"
definition AzureTokenFile :: string where "AzureTokenFile = ''/azure/pgpass''"
definition AzureWILabel :: string where "AzureWILabel = ''azure.workload.identity/use''"

text \<open>The builders below are reached only with Azure Workload Identity configured.\<close>

definition BuildAzureServiceAccount :: "TemporalCluster \<Rightarrow> AzureWorkloadIdentitySpec \<Rightarrow> ServiceAccount" where
  "BuildAzureServiceAccount cluster a =
     \<lparr>sa_Meta = newMeta (AzureServiceAccountName cluster) (tc_Namespace cluster) Map.empty
        [''azure.workload.identity/client-id'' \<mapsto> azwi_ClientID a]\<rparr>"

definition azLogin :: string where
  "azLogin =
     ''set -e'' @ nl @
     ''az login --service-principal '' @ bsl @ nl @
     ''  -u '' @ dq @ ''$AZURE_CLIENT_ID'' @ dq @ '' '' @ bsl @ nl @
     ''  --tenant '' @ dq @ ''$AZURE_TENANT_ID'' @ dq @ '' '' @ bsl @ nl @
     ''  --federated-token '' @ dq @ ''$(cat '' @ dq @ ''$AZURE_FEDERATED_TOKEN_FILE'' @ dq @ '')'' @ dq @ '' '' @ bsl @ nl @
     ''  --allow-no-subscriptions'' @ nl"

definition azureImage :: "AzureWorkloadIdentitySpec \<Rightarrow> string" where
  "azureImage a = (if azwi_Image a \<noteq> [] then azwi_Image a else ''mcr.microsoft.com/azure-cli:2.87.0'')"

definition azureScope :: "AzureWorkloadIdentitySpec \<Rightarrow> string" where
  "azureScope a = (if azwi_Scope a \<noteq> [] then azwi_Scope a
     else ''https://ossrdbms-aad.database.windows.net/.default'')"

definition AzureTokenInitContainer :: "AzureWorkloadIdentitySpec \<Rightarrow> Container" where
  "AzureTokenInitContainer a =
     zeroContainer \<lparr>ct_Name := ''azure-token'', ct_Image := azureImage a,
       ct_Command := [''/bin/sh'', ''-c''],
       ct_Args := [azLogin @ ''az account get-access-token --scope '' @ azureScope a @ '' '' @ bsl @ nl @
         ''  --query accessToken -o tsv > /azure/pgpass''],
       ct_VolumeMounts := [mkMount AzureTokenVolumeName AzureTokenMountPath False]\<rparr>"

text \<open>\<^verbatim>\<open>int(d.Seconds())\<close>: the whole seconds of a duration, truncated towards zero.\<close>

definition wholeSeconds :: "duration \<Rightarrow> int" where
  "wholeSeconds d = (if d < 0 then - ((- d) div 1000000000) else d div 1000000000)"

definition AzureTokenRefresherSidecar :: "AzureWorkloadIdentitySpec \<Rightarrow> Container" where
  "AzureTokenRefresherSidecar a =
     (let refresh = (case azwi_RefreshInterval a of None \<Rightarrow> 1800 | Some d \<Rightarrow> wholeSeconds d)
      in zeroContainer \<lparr>ct_Name := ''azure-token-refresher'', ct_Image := azureImage a,
           ct_Command := [''/bin/sh'', ''-c''],
           ct_Args := [azLogin @ ''while true; do'' @ nl @
             ''  az account get-access-token --scope '' @ azureScope a @ '' '' @ bsl @ nl @
             ''    --query accessToken -o tsv > /azure/pgpass.tmp'' @ nl @
             ''  mv /azure/pgpass.tmp /azure/pgpass'' @ nl @
             ''  sleep '' @ itoa refresh @ nl @
             ''done''],
           ct_VolumeMounts := [mkMount AzureTokenVolumeName AzureTokenMountPath False]\<rparr>)"

definition ensureNamedContainer :: "Container list \<Rightarrow> Container \<Rightarrow> Container list" where
  "ensureNamedContainer containers c =
     (if list_ex (\<lambda>x. ct_Name x = ct_Name c) containers then containers else containers @ [c])"

definition ensureAzureTokenVolume :: "PodSpec \<Rightarrow> PodSpec" where
  "ensureAzureTokenVolume p =
     (if list_ex (\<lambda>v. vol_Name v = AzureTokenVolumeName) (pod_Volumes p) then p
      else p \<lparr>pod_Volumes := pod_Volumes p @ [mkVolume AzureTokenVolumeName VolEmptyDir]\<rparr>)"

text \<open>The loop over the containers stops at the first one with the main container's name.\<close>

fun mountToken :: "string \<Rightarrow> Container list \<Rightarrow> Container list" where
  "mountToken main [] = []"
| "mountToken main (c # cs) =
     (if ct_Name c \<noteq> main then c # mountToken main cs
      else if list_ex (\<lambda>m. vm_Name m = AzureTokenVolumeName) (ct_VolumeMounts c) then c # cs
      else c \<lparr>ct_VolumeMounts := ct_VolumeMounts c @ [mkMount AzureTokenVolumeName AzureTokenMountPath False]\<rparr> # cs)"

definition ensureAzureTokenMount :: "PodSpec \<Rightarrow> string \<Rightarrow> PodSpec" where
  "ensureAzureTokenMount p main = p \<lparr>pod_Containers := mountToken main (pod_Containers p)\<rparr>"

definition applyAzureTokenBase :: "PodTemplateSpec \<Rightarrow> TemporalCluster \<Rightarrow> string \<Rightarrow> PodTemplateSpec" where
  "applyAzureTokenBase t cluster main =
     t \<lparr>pt_Labels := (pt_Labels t)(AzureWILabel \<mapsto> ''true''),
        pt_Spec := ensureAzureTokenMount
          (ensureAzureTokenVolume ((pt_Spec t) \<lparr>pod_ServiceAccountName := AzureServiceAccountName cluster\<rparr>)) main\<rparr>"

definition ApplyAzureServerWorkloadIdentity ::
  "PodTemplateSpec \<Rightarrow> TemporalCluster \<Rightarrow> AzureWorkloadIdentitySpec \<Rightarrow> string \<Rightarrow> PodTemplateSpec" where
  "ApplyAzureServerWorkloadIdentity t cluster a main =
     (let b = applyAzureTokenBase t cluster main; s = pt_Spec b
      in b \<lparr>pt_Spec := s \<lparr>
           pod_Containers := ensureNamedContainer (pod_Containers s) (AzureTokenRefresherSidecar a),
           pod_InitContainers := ensureNamedContainer (pod_InitContainers s) (AzureTokenInitContainer a)\<rparr>\<rparr>)"

definition ApplyAzureSchemaWorkloadIdentity ::
  "PodTemplateSpec \<Rightarrow> TemporalCluster \<Rightarrow> AzureWorkloadIdentitySpec \<Rightarrow> string \<Rightarrow> PodTemplateSpec" where
  "ApplyAzureSchemaWorkloadIdentity t cluster a main =
     (let b = applyAzureTokenBase t cluster main; s = pt_Spec b
      in b \<lparr>pt_Spec := s \<lparr>
           pod_InitContainers := ensureNamedContainer (pod_InitContainers s) (AzureTokenInitContainer a)\<rparr>\<rparr>)"

section \<open>Laws\<close>

lemma map_leD: "f \<subseteq>\<^sub>m g \<Longrightarrow> f k = Some v \<Longrightarrow> g k = Some v"
  by (force simp: map_le_def)

lemma selector_in_standard: "SelectorLabels cluster cmp \<subseteq>\<^sub>m StandardLabels cluster cmp"
  by (auto simp: map_le_def SelectorLabels_def StandardLabels_def Let_def)

lemma selector_in_podLabels: "SelectorLabels cluster (si_Name svc) \<subseteq>\<^sub>m podLabelsOf cluster svc version"
  by (auto simp: map_le_def SelectorLabels_def StandardLabels_def podLabelsOf_def Let_def)

lemma applyPodTemplate_selector:
  assumes "applyPodTemplate smp t ov sel = Inr t'" and "sel \<subseteq>\<^sub>m pt_Labels t"
  shows "sel \<subseteq>\<^sub>m pt_Labels t'"
  using assms
  by (auto simp: applyPodTemplate_def Let_def split: option.splits if_splits sum.splits)

text \<open>Labels and annotations an override does not name survive it.\<close>

lemma applyPodTemplate_other_label:
  assumes "applyPodTemplate smp t ov sel = Inr t'"
    and "k \<notin> dom sel" and "\<And>o'. ov = Some o' \<Longrightarrow> k \<notin> dom (pto_Labels o')"
  shows "pt_Labels t' k = pt_Labels t k"
  using assms
  by (auto simp: applyPodTemplate_def Let_def map_add_def domIff split: option.splits if_splits sum.splits)

lemma BuildDeployment_Inr:
  assumes "BuildDeployment smp cluster svc ch dh v m = Inr d"
  obtains t1 where
    "applyPodTemplate smp (basePodTemplate cluster svc ch dh v m) (sharedOverride cluster)
       (SelectorLabels cluster (si_Name svc)) = Inr t1"
    "applyPodTemplate smp t1 (ownOverride svc) (SelectorLabels cluster (si_Name svc)) = Inr (dep_Template d)"
    "dep_Selector d = SelectorLabels cluster (si_Name svc)"
    "om_Name (dep_Meta d) = DeploymentName (tc_Name cluster) (si_Name svc)"
    "om_Namespace (dep_Meta d) = tc_Namespace cluster"
  using assms
  by (auto simp: BuildDeployment_def Let_def newDeployment_def newMeta_def split: sum.splits)

lemma BuildDeployment_labels:
  assumes "BuildDeployment smp cluster svc ch dh v m = Inr d"
  shows "dep_Selector d = SelectorLabels cluster (si_Name svc) \<and>
    SelectorLabels cluster (si_Name svc) \<subseteq>\<^sub>m pt_Labels (dep_Template d)"
proof -
  from assms obtain t1 where
    t: "applyPodTemplate smp (basePodTemplate cluster svc ch dh v m) (sharedOverride cluster)
          (SelectorLabels cluster (si_Name svc)) = Inr t1"
    "applyPodTemplate smp t1 (ownOverride svc) (SelectorLabels cluster (si_Name svc)) = Inr (dep_Template d)"
    "dep_Selector d = SelectorLabels cluster (si_Name svc)"
    by (rule BuildDeployment_Inr)
  have "SelectorLabels cluster (si_Name svc) \<subseteq>\<^sub>m pt_Labels (basePodTemplate cluster svc ch dh v m)"
    by (simp add: basePodTemplate_def Let_def selector_in_podLabels)
  then have "SelectorLabels cluster (si_Name svc) \<subseteq>\<^sub>m pt_Labels t1"
    by (rule applyPodTemplate_selector [OF t(1)])
  then show ?thesis
    using t(3) by (simp add: applyPodTemplate_selector [OF t(2)])
qed


lemma applyPodTemplate_None: "applyPodTemplate smp t None sel = Inr t"
  by (simp add: applyPodTemplate_def)

lemma BuildDeployment_plain:
  "labelsShared cluster svc \<Longrightarrow>
   BuildDeployment smp cluster svc ch dh v m =
     Inr (newDeployment
       (newMeta (DeploymentName (tc_Name cluster) (si_Name svc)) (tc_Namespace cluster)
          (podLabelsOf cluster svc v) Map.empty)
       (case si_Spec svc of None \<Rightarrow> 1 | Some s \<Rightarrow> int32OrDefault (ss_Replicas s) 1)
       (SelectorLabels cluster (si_Name svc)) [] (basePodTemplate cluster svc ch dh v m))"
  by (simp add: BuildDeployment_def labelsShared_def applyPodTemplate_None Let_def)

subsection \<open>The Azure wiring is idempotent\<close>

fun tokenMounted :: "string \<Rightarrow> Container list \<Rightarrow> bool" where
  "tokenMounted main [] = True"
| "tokenMounted main (c # cs) =
     (if ct_Name c \<noteq> main then tokenMounted main cs
      else list_ex (\<lambda>m. vm_Name m = AzureTokenVolumeName) (ct_VolumeMounts c))"

lemma tokenMounted_mountToken: "tokenMounted main (mountToken main cs)"
  by (induction cs) (auto simp: mkMount_def)

lemma mountToken_done: "tokenMounted main cs \<Longrightarrow> mountToken main cs = cs"
  by (induction cs) auto

lemma tokenMounted_append: "tokenMounted main cs \<Longrightarrow> tokenMounted main [c] \<Longrightarrow> tokenMounted main (cs @ [c])"
  by (induction cs) auto

lemma tokenMounted_sidecar: "tokenMounted main [AzureTokenRefresherSidecar a]"
  by (simp add: AzureTokenRefresherSidecar_def Let_def mkMount_def)

lemma ensureNamedContainer_idem:
  "ensureNamedContainer (ensureNamedContainer cs c) c = ensureNamedContainer cs c"
  by (simp add: ensureNamedContainer_def)

lemma tokenMounted_ensure:
  "tokenMounted main cs \<Longrightarrow> tokenMounted main (ensureNamedContainer cs (AzureTokenRefresherSidecar a))"
  using tokenMounted_append [OF _ tokenMounted_sidecar, of main cs a]
  by (simp add: ensureNamedContainer_def)

lemma ensureAzureTokenVolume_idem:
  "ensureAzureTokenVolume (ensureAzureTokenVolume p) = ensureAzureTokenVolume p"
  by (simp add: ensureAzureTokenVolume_def mkVolume_def)

text \<open>A pod template that already carries the base wiring.\<close>

definition azureWired :: "PodTemplateSpec \<Rightarrow> TemporalCluster \<Rightarrow> string \<Rightarrow> bool" where
  "azureWired t cluster main \<longleftrightarrow>
     pt_Labels t AzureWILabel = Some ''true'' \<and>
     pod_ServiceAccountName (pt_Spec t) = AzureServiceAccountName cluster \<and>
     list_ex (\<lambda>v. vol_Name v = AzureTokenVolumeName) (pod_Volumes (pt_Spec t)) \<and>
     tokenMounted main (pod_Containers (pt_Spec t))"

lemma applyAzureTokenBase_wired: "azureWired (applyAzureTokenBase t cluster main) cluster main"
  by (simp add: azureWired_def applyAzureTokenBase_def ensureAzureTokenMount_def
      ensureAzureTokenVolume_def mkVolume_def tokenMounted_mountToken)

lemma applyAzureTokenBase_done: "azureWired t cluster main \<Longrightarrow> applyAzureTokenBase t cluster main = t"
  by (simp add: azureWired_def applyAzureTokenBase_def ensureAzureTokenMount_def
      ensureAzureTokenVolume_def mountToken_done map_upd_triv)

lemma ApplyAzureServer_wired: "azureWired (ApplyAzureServerWorkloadIdentity t cluster a main) cluster main"
  using applyAzureTokenBase_wired [of t cluster main]
  by (simp add: azureWired_def ApplyAzureServerWorkloadIdentity_def Let_def tokenMounted_ensure)

lemma ApplyAzureSchema_wired: "azureWired (ApplyAzureSchemaWorkloadIdentity t cluster a main) cluster main"
  using applyAzureTokenBase_wired [of t cluster main]
  by (simp add: azureWired_def ApplyAzureSchemaWorkloadIdentity_def Let_def)

text \<open>
  Wiring Azure Workload Identity into a server pod twice is wiring it once.
\<close>

theorem ApplyAzureServer_idem:
  "ApplyAzureServerWorkloadIdentity (ApplyAzureServerWorkloadIdentity t cluster a main) cluster a main =
     ApplyAzureServerWorkloadIdentity t cluster a main"
proof -
  have "applyAzureTokenBase (ApplyAzureServerWorkloadIdentity t cluster a main) cluster main =
      ApplyAzureServerWorkloadIdentity t cluster a main"
    by (rule applyAzureTokenBase_done [OF ApplyAzureServer_wired])
  then show ?thesis
    by (subst ApplyAzureServerWorkloadIdentity_def)
      (simp add: Let_def ApplyAzureServerWorkloadIdentity_def ensureNamedContainer_idem)
qed

text \<open>The same of a schema Job.\<close>

lemma ApplyAzureSchema_idem:
  "ApplyAzureSchemaWorkloadIdentity (ApplyAzureSchemaWorkloadIdentity t cluster a main) cluster a main =
     ApplyAzureSchemaWorkloadIdentity t cluster a main"
proof -
  have "applyAzureTokenBase (ApplyAzureSchemaWorkloadIdentity t cluster a main) cluster main =
      ApplyAzureSchemaWorkloadIdentity t cluster a main"
    by (rule applyAzureTokenBase_done [OF ApplyAzureSchema_wired])
  then show ?thesis
    by (subst ApplyAzureSchemaWorkloadIdentity_def)
      (simp add: Let_def ApplyAzureSchemaWorkloadIdentity_def ensureNamedContainer_idem)
qed

text \<open>Wiring the pod keeps the containers it had, by name and image and in order.\<close>

lemma mountToken_images: "map (\<lambda>c. (ct_Name c, ct_Image c)) (mountToken main cs) = map (\<lambda>c. (ct_Name c, ct_Image c)) cs"
  by (induction cs) auto

end
