(* ===== verification/Schema_Jobs.thy ===== *)
theory Schema_Jobs
  imports Deployments
begin

text \<open>
  The schema and inspector Jobs (\<^verbatim>\<open>src/internal/resources/schemajob.go\<close>, \<^verbatim>\<open>inspectorjob.go\<close>).  The
  lemmas relate the quoting of the tool's arguments to a reader of POSIX single-quoted words: the
  shell that runs the script sees exactly the arguments the operator computed.
\<close>

section \<open>Schema Jobs\<close>

datatype SchemaStore = StoreDefault | StoreVisibility
datatype SchemaAction = ActionSetup | ActionUpdate

fun storeString :: "SchemaStore \<Rightarrow> string" where
  "storeString StoreDefault = ''default''"
| "storeString StoreVisibility = ''visibility''"

fun actionString :: "SchemaAction \<Rightarrow> string" where
  "actionString ActionSetup = ''setup''"
| "actionString ActionUpdate = ''update''"

definition SchemaContainerName :: string where "SchemaContainerName = ''schema''"
definition PostgresSchemaDir :: string where "PostgresSchemaDir = ''v12''"

record SchemaJobParams =
  sjp_Cluster :: TemporalCluster
  sjp_SQLSpec :: "SQLDatastoreSpec option"
  sjp_CassandraSpec :: "CassandraDatastoreSpec option"
  sjp_Store :: SchemaStore
  sjp_Action :: SchemaAction
  sjp_SchemaVersionDir :: string
  sjp_PasswordCommand :: string
  sjp_PodTemplate :: "PodTemplateOverride option"

definition isCassandra :: "SchemaJobParams \<Rightarrow> bool" where
  "isCassandra p = (sjp_CassandraSpec p \<noteq> None)"

definition SchemaJobName :: "string \<Rightarrow> SchemaStore \<Rightarrow> SchemaAction \<Rightarrow> string" where
  "SchemaJobName clusterName store action =
     clusterName @ ''-schema-'' @ storeString store @ ''-'' @ actionString action"

definition schemaSubdir :: "SchemaStore \<Rightarrow> string" where
  "schemaSubdir store = (if store = StoreVisibility then ''visibility'' else ''temporal'')"

definition sqlSchemaDir :: "string \<Rightarrow> SchemaStore \<Rightarrow> string" where
  "sqlSchemaDir version store =
     ''/etc/temporal/schema/postgresql/'' @ version @ ''/'' @ schemaSubdir store @ ''/versioned''"

definition cassandraSchemaDir :: "SchemaStore \<Rightarrow> string" where
  "cassandraSchemaDir store = ''/etc/temporal/schema/cassandra/'' @ schemaSubdir store @ ''/versioned''"

definition schemaCommand :: "SchemaJobParams \<Rightarrow> string" where
  "schemaCommand p = (if isCassandra p then ''temporal-cassandra-tool'' else ''temporal-sql-tool'')"

text \<open>\<^verbatim>\<open>p.SQLSpec\<close> is dereferenced whenever the store is not Cassandra: a nil pointer panics.\<close>

definition sqlToolArgs :: "SchemaJobParams \<Rightarrow> string list result" where
  "sqlToolArgs p =
     (case sjp_SQLSpec p of
        None \<Rightarrow> Inl (Panic ''nil SQLSpec'')
      | Some spec \<Rightarrow>
          Inr ([''--plugin'', (if sql_PluginName spec = [] then ''postgres12'' else sql_PluginName spec),
                ''--endpoint'', sql_Host spec,
                ''--port'', itoa (sql_Port spec),
                ''--user'', sql_User spec,
                ''--database'', sql_Database spec] @
               (case sql_TLS spec of
                  None \<Rightarrow> []
                | Some t \<Rightarrow>
                    if \<not> dtls_Enabled t then []
                    else ''--tls'' #
                      (if dtls_EnableHostVerification t then [] else [''--tls-disable-host-verification''])) @
               (case sjp_Action p of
                  ActionSetup \<Rightarrow> [''setup-schema'', ''-v'', ''0.0'']
                | ActionUpdate \<Rightarrow> [''update-schema'', ''-d'', sqlSchemaDir (sjp_SchemaVersionDir p) (sjp_Store p)])))"

definition cassandraToolArgs :: "SchemaJobParams \<Rightarrow> CassandraDatastoreSpec \<Rightarrow> string list" where
  "cassandraToolArgs p spec =
     [''--endpoint'', (case cas_Hosts spec of [] \<Rightarrow> [] | h # _ \<Rightarrow> h),
      ''--port'', itoa (cas_Port spec),
      ''--keyspace'', cas_Keyspace spec] @
     (if cas_User spec \<noteq> [] then [''--user'', cas_User spec] else []) @
     (case cas_TLS spec of None \<Rightarrow> [] | Some t \<Rightarrow> if dtls_Enabled t then [''--tls''] else []) @
     (case sjp_Action p of
        ActionSetup \<Rightarrow> [''setup-schema'', ''-v'', ''0.0'']
      | ActionUpdate \<Rightarrow> [''update-schema'', ''-d'', cassandraSchemaDir (sjp_Store p)])"

definition schemaToolArgs :: "SchemaJobParams \<Rightarrow> string list result" where
  "schemaToolArgs p =
     (case sjp_CassandraSpec p of
        Some c \<Rightarrow> Inr (cassandraToolArgs p c)
      | None \<Rightarrow> sqlToolArgs p)"

definition passwordEnv :: "SchemaJobParams \<Rightarrow> EnvVar list result" where
  "passwordEnv p =
     bindR
       (case sjp_CassandraSpec p of
          Some c \<Rightarrow> Inr (cas_PasswordSecretRef c, ''CASSANDRA_PASSWORD'')
        | None \<Rightarrow>
            (case sjp_SQLSpec p of
               None \<Rightarrow> Inl (Panic ''nil SQLSpec'')
             | Some s \<Rightarrow> Inr (sql_PasswordSecretRef s, ''SQL_PASSWORD'')))
       (\<lambda>(ref, envName).
         case ref of
           None \<Rightarrow> Inr []
         | Some r \<Rightarrow>
             Inr [\<lparr>env_Name = envName, env_Value = [],
                   env_ValueFrom = Some (SecretKeyRef (skr_Name r)
                     (if skr_Key r = [] then ''password'' else skr_Key r))\<rparr>])"

text \<open>\<^verbatim>\<open>strings.ReplaceAll\<close> of a single quote.\<close>

definition shellQuote :: "string \<Rightarrow> string" where
  "shellQuote s =
     CHR 0x27 # concat (map (\<lambda>c. if c = CHR 0x27 then [CHR 0x27, CHR 0x5C, CHR 0x27, CHR 0x27] else [c]) s) @ [CHR 0x27]"

definition schemaContainerExec :: "SchemaJobParams \<Rightarrow> (string list \<times> string list \<times> EnvVar list) result" where
  "schemaContainerExec p =
     bindR (schemaToolArgs p) (\<lambda>toolArgs.
       if sjp_PasswordCommand p \<noteq> [] \<and> \<not> isCassandra p then
         Inr ([''sh'', ''-c''],
              [''export SQL_PASSWORD='' @ dq @ ''$('' @ sjp_PasswordCommand p @ '')'' @ dq @ ''; exec '' @
                 schemaCommand p @ '' '' @ joinWith '' '' (map shellQuote toolArgs)],
              [])
       else bindR (passwordEnv p) (\<lambda>env. Inr ([schemaCommand p], toolArgs, env)))"

definition schemaJobLabels :: "SchemaJobParams \<Rightarrow> gomap" where
  "schemaJobLabels p =
     [''app.kubernetes.io/name'' \<mapsto> ''temporal'',
      ''app.kubernetes.io/instance'' \<mapsto> tc_Name (sjp_Cluster p),
      ''app.kubernetes.io/component'' \<mapsto> ''schema'',
      ''app.kubernetes.io/managed-by'' \<mapsto> ''temporal-operator'',
      ''temporal.bmor10.com/store'' \<mapsto> storeString (sjp_Store p),
      ''temporal.bmor10.com/action'' \<mapsto> actionString (sjp_Action p)]"

definition BuildSchemaJob :: "smp \<Rightarrow> SchemaJobParams \<Rightarrow> Job result" where
  "BuildSchemaJob smp p =
     (let cluster = sjp_Cluster p; labels = schemaJobLabels p in
      bindR (schemaContainerExec p) (\<lambda>(command, args, env).
        (let template =
               \<lparr>pt_Labels = labels, pt_Annotations = Map.empty,
                pt_Spec = zeroPodSpec \<lparr>
                  pod_RestartPolicy := ''Never'',
                  pod_ImagePullSecrets := spec_ImagePullSecrets (tc_Spec cluster),
                  pod_Containers := [zeroContainer \<lparr>
                    ct_Name := SchemaContainerName,
                    ct_Image := AdminToolsImage (spec_Version (tc_Spec cluster)),
                    ct_Command := command, ct_Args := args, ct_Env := env\<rparr>]\<rparr>\<rparr>
         in case applyPodTemplate smp template (sjp_PodTemplate p) labels of
              Inl e \<Rightarrow> Inl (WrapErr ''applying schema job podTemplate'' e)
            | Inr t \<Rightarrow>
                Inr (newJob
                  (newMeta (SchemaJobName (tc_Name cluster) (sjp_Store p) (sjp_Action p))
                     (tc_Namespace cluster) labels Map.empty) 3 600 t))))"

section \<open>Inspector Jobs\<close>

record InspectorJobParams =
  ijp_Cluster :: TemporalCluster
  ijp_Store :: SchemaStore
  ijp_SQLSpec :: SQLDatastoreSpec
  ijp_OperatorImage :: string

definition InspectorJobName :: "string \<Rightarrow> SchemaStore \<Rightarrow> string" where
  "InspectorJobName clusterName store = clusterName @ ''-inspect-'' @ storeString store"

definition inspectorLabels :: "InspectorJobParams \<Rightarrow> gomap" where
  "inspectorLabels p =
     [''app.kubernetes.io/name'' \<mapsto> ''temporal'',
      ''app.kubernetes.io/instance'' \<mapsto> tc_Name (ijp_Cluster p),
      ''app.kubernetes.io/component'' \<mapsto> ''inspector'',
      ''app.kubernetes.io/managed-by'' \<mapsto> ''temporal-operator'',
      ''temporal.bmor10.com/store'' \<mapsto> storeString (ijp_Store p)]"

definition inspectorArgs :: "InspectorJobParams \<Rightarrow> string list" where
  "inspectorArgs p =
     (let spec = ijp_SQLSpec p in
      [''inspect'', ''--host'', sql_Host spec, ''--port'', itoa (sql_Port spec),
       ''--db'', sql_Database spec, ''--user'', sql_User spec, ''--plugin'', sql_PluginName spec,
       ''--password-file'', AzureTokenFile] @
      (case sql_TLS spec of None \<Rightarrow> [] | Some t \<Rightarrow> if dtls_Enabled t then [''--tls''] else []))"

text \<open>
  The Job and its pod template share the label map, so the workload identity label written on the
  pod is on the Job as well.
\<close>

definition BuildInspectorJob :: "InspectorJobParams \<Rightarrow> AzureWorkloadIdentitySpec \<Rightarrow> Job" where
  "BuildInspectorJob p a =
     (let cluster = ijp_Cluster p; labels = inspectorLabels p;
          template =
            \<lparr>pt_Labels = labels, pt_Annotations = Map.empty,
             pt_Spec = zeroPodSpec \<lparr>
               pod_RestartPolicy := ''Never'',
               pod_ImagePullSecrets := spec_ImagePullSecrets (tc_Spec cluster),
               pod_Containers := [zeroContainer \<lparr>
                 ct_Name := ''inspect'', ct_Image := ijp_OperatorImage p, ct_Args := inspectorArgs p,
                 ct_TerminationMessagePolicy := ''FallbackToLogsOnError''\<rparr>]\<rparr>\<rparr>
      in newJob
           (newMeta (InspectorJobName (tc_Name cluster) (ijp_Store p)) (tc_Namespace cluster)
              (labels(AzureWILabel \<mapsto> ''true'')) Map.empty)
           0 300 (ApplyAzureSchemaWorkloadIdentity template cluster a ''inspect''))"

section \<open>Shell words\<close>

text \<open>
  A reader of shell words: single-quoted text is literal up to the next quote, a backslash outside
  quotes takes the next character literally, and a blank ends the word.
\<close>

fun shWord :: "bool \<Rightarrow> string \<Rightarrow> string \<Rightarrow> (string \<times> string) option" where
  "shWord True acc [] = None"
| "shWord True acc (c # cs) = (if c = CHR 0x27 then shWord False acc cs else shWord True (acc @ [c]) cs)"
| "shWord False acc [] = Some (acc, [])"
| "shWord False acc (c # cs) =
     (if c = CHR 0x27 then shWord True acc cs
      else if c = CHR '' '' then Some (acc, c # cs)
      else if c = CHR 0x5C then (case cs of [] \<Rightarrow> None | d # ds \<Rightarrow> shWord False (acc @ [d]) ds)
      else shWord False (acc @ [c]) cs)"

fun shWords :: "nat \<Rightarrow> string \<Rightarrow> string list option" where
  "shWords 0 s = None"
| "shWords (Suc n) s =
     (case shWord False [] s of
        None \<Rightarrow> None
      | Some (w, []) \<Rightarrow> Some [w]
      | Some (w, _ # rest) \<Rightarrow> map_option ((#) w) (shWords n rest))"

lemma shWord_quoted:
  "shWord True acc (concat (map (\<lambda>c. if c = CHR 0x27 then [CHR 0x27, CHR 0x5C, CHR 0x27, CHR 0x27] else [c]) s) @ CHR 0x27 # r) =
     shWord False (acc @ s) r"
  by (induction s arbitrary: acc) auto

lemma shWord_shellQuote: "shWord False acc (shellQuote s @ r) = shWord False (acc @ s) r"
  unfolding shellQuote_def by (simp add: shWord_quoted)

lemma shWords_join:
  "args \<noteq> [] \<Longrightarrow> length args \<le> n \<Longrightarrow> shWords n (joinWith '' '' (map shellQuote args)) = Some args"
proof (induction n arbitrary: args)
  case (Suc n)
  then obtain a as where args: "args = a # as" by (cases args) auto
  show ?case
  proof (cases as)
    case Nil
    then show ?thesis using args shWord_shellQuote [of "[]" a "[]"] by simp
  next
    case (Cons b bs)
    then have "joinWith '' '' (map shellQuote args) =
        shellQuote a @ CHR '' '' # joinWith '' '' (map shellQuote as)"
      using args by (simp add: joinWith_Cons)
    then show ?thesis
      using Suc.IH [of as] Suc.prems args Cons by (simp add: shWord_shellQuote)
  qed
qed simp


lemma BuildSchemaJob_template:
  assumes "BuildSchemaJob smp p = Inr j"
  shows "schemaJobLabels p \<subseteq>\<^sub>m pt_Labels (job_Template j) \<and>
         om_Name (job_Meta j) = SchemaJobName (tc_Name (sjp_Cluster p)) (sjp_Store p) (sjp_Action p)"
  using assms
  by (auto simp: BuildSchemaJob_def Let_def bindR_def newJob_def newMeta_def
      split: sum.splits elim!: applyPodTemplate_selector)

end
