(* ===== verification/Protos.thy ===== *)
theory Protos
  imports Api_Types Complex_Main
begin

text \<open>
  The messages the operator exchanges with a Temporal frontend: the fields of the protobuf requests
  that the sources set and of the responses that they read (\<^verbatim>\<open>go.temporal.io/api\<close>), and the type of
  the remote calls.  Durations and timestamps are integers, as everywhere; an absent message is
  \<open>None\<close>.  The random request id of a schedule call is left out.
\<close>

section \<open>Namespaces, search attributes, remote clusters\<close>

record ReplicationConfigProto =
  rcp_ActiveClusterName :: string
  rcp_Clusters :: "string list"

record RegisterNamespaceRequest =
  rnr_Namespace :: string
  rnr_Description :: string
  rnr_OwnerEmail :: string
  rnr_Retention :: duration
  rnr_IsGlobal :: bool
  rnr_Clusters :: "string list"
  rnr_ActiveClusterName :: string

text \<open>\<^verbatim>\<open>UpdateInfo\<close>, \<^verbatim>\<open>Config\<close> and \<^verbatim>\<open>ReplicationConfig\<close> are messages that may be absent.\<close>

record UpdateNamespaceRequest =
  unr_Namespace :: string
  unr_UpdateInfo :: "(string \<times> string) option"
  unr_Retention :: "duration option"
  unr_ReplicationConfig :: "ReplicationConfigProto option"

record NamespaceInfoProto =
  nip_Id :: string
  nip_Description :: string
  nip_OwnerEmail :: string

record DescribeNamespaceResponse =
  dnr_NamespaceInfo :: "NamespaceInfoProto option"
  dnr_Retention :: "duration option"
  dnr_IsGlobal :: bool
  dnr_ReplicationConfig :: "ReplicationConfigProto option"

text \<open>The indexed value types; \<open>IndexedOther\<close> is any value the sources have no name for.\<close>

datatype IndexedValueType =
    IndexedText | IndexedKeyword | IndexedInt | IndexedDouble | IndexedBool | IndexedDatetime
  | IndexedKeywordList | IndexedOther

record ClusterMetadataProto =
  cmp_ClusterName :: string
  cmp_Address :: string
  cmp_InitialFailoverVersion :: int
  cmp_IsConnectionEnabled :: bool
  cmp_HistoryShardCount :: int

record ListClustersResponse =
  lcr_Clusters :: "ClusterMetadataProto list"
  lcr_NextPageToken :: string

section \<open>Schedules and workflows\<close>

record Payload =
  pay_Encoding :: string
  pay_Data :: string

record RangeProto =
  rgp_Start :: int
  rgp_End :: int
  rgp_Step :: int

record StructuredCalendarProto =
  scp_Second :: "RangeProto list"
  scp_Minute :: "RangeProto list"
  scp_Hour :: "RangeProto list"
  scp_DayOfMonth :: "RangeProto list"
  scp_Month :: "RangeProto list"
  scp_Year :: "RangeProto list"
  scp_DayOfWeek :: "RangeProto list"
  scp_Comment :: string

record IntervalProto =
  itp_Interval :: duration
  itp_Phase :: "duration option"

record ScheduleSpecProto =
  ssp_CronString :: "string list"
  ssp_Interval :: "IntervalProto list"
  ssp_StructuredCalendar :: "StructuredCalendarProto list"
  ssp_ExcludeStructuredCalendar :: "StructuredCalendarProto list"
  ssp_StartTime :: "gotime option"
  ssp_EndTime :: "gotime option"
  ssp_Jitter :: "duration option"
  ssp_TimezoneName :: string

datatype OverlapPolicy =
    OverlapUnspecified | OverlapSkip | OverlapBufferOne | OverlapBufferAll | OverlapCancelOther
  | OverlapTerminateOther | OverlapAllowAll

datatype ReusePolicy =
    ReuseUnspecified | ReuseAllowDuplicate | ReuseAllowDuplicateFailedOnly | ReuseRejectDuplicate
  | ReuseTerminateIfRunning

text \<open>A float64 as \<^verbatim>\<open>strconv.ParseFloat\<close> gives it: a finite value, an infinity, or not a number.\<close>

datatype gofloat = FloatFinite rat | FloatInf bool | FloatNaN

record RetryPolicyProto =
  rtp_InitialInterval :: "duration option"
  rtp_BackoffCoefficient :: gofloat
  rtp_MaximumInterval :: "duration option"
  rtp_MaximumAttempts :: int
  rtp_NonRetryableErrorTypes :: "string list"

text \<open>The workflow to start, of a schedule action or of a start request; the task queue is normal.\<close>

record NewWorkflowProto =
  nwp_WorkflowId :: string
  nwp_WorkflowType :: string
  nwp_TaskQueue :: string
  nwp_Input :: "Payload list option"
  nwp_ExecutionTimeout :: "duration option"
  nwp_RunTimeout :: "duration option"
  nwp_TaskTimeout :: "duration option"
  nwp_ReusePolicy :: ReusePolicy
  nwp_Memo :: "Payload goalist option"
  nwp_SearchAttributes :: "Payload goalist option"
  nwp_RetryPolicy :: "RetryPolicyProto option"

record SchedulePoliciesProto =
  spp_OverlapPolicy :: OverlapPolicy
  spp_CatchupWindow :: "duration option"
  spp_PauseOnFailure :: bool
  spp_KeepOriginalWorkflowId :: bool

record ScheduleStateProto =
  stp_Notes :: string
  stp_Paused :: bool
  stp_LimitedActions :: bool
  stp_RemainingActions :: int

record ScheduleProto =
  sp_Spec :: ScheduleSpecProto
  sp_Action :: NewWorkflowProto
  sp_Policies :: SchedulePoliciesProto
  sp_State :: ScheduleStateProto

text \<open>Getters on a nil message give the zero value, so an absent schedule or state reads as one.\<close>

record DescribeScheduleResponse =
  dsr_Paused :: bool
  dsr_Notes :: string
  dsr_FutureActionTimes :: "gotime list"
  dsr_RunningWorkflows :: nat

datatype SchedulePatch = PatchPause string | PatchUnpause string

record StartWorkflowRequest =
  swr_Namespace :: string
  swr_RequestId :: string
  swr_Workflow :: NewWorkflowProto

datatype WorkflowExecutionStatus =
    StatusUnspecified | StatusRunning | StatusCompleted | StatusFailed | StatusCanceled
  | StatusTerminated | StatusContinuedAsNew | StatusTimedOut | StatusOther

record WorkflowExecutionInfoProto =
  wip_Status :: WorkflowExecutionStatus
  wip_RunId :: string
  wip_Type :: string
  wip_TaskQueue :: string
  wip_HistoryLength :: int
  wip_StartTime :: "gotime option"
  wip_CloseTime :: "gotime option"

text \<open>The close events whose attributes the sources read.\<close>

datatype HistoryEvent =
    EventFailed string string
  | EventTerminated string
  | EventTimedOut
  | EventOther

section \<open>TLS\<close>

text \<open>\<^verbatim>\<open>tls.Config\<close>: the key pair, the CA pool, the name to verify and the minimum version.\<close>

record TlsConfig =
  tls_Certificate :: string
  tls_RootCAs :: string
  tls_ServerName :: string
  tls_MinVersion :: string

section \<open>Remote calls\<close>

datatype rpc =
    DescribeNamespace string
  | RegisterNamespace RegisterNamespaceRequest
  | UpdateNamespace UpdateNamespaceRequest
  | DeleteNamespace string
  | ListSearchAttributes string
  | AddSearchAttributes string string IndexedValueType
  | RemoveSearchAttributes string string
  | ListClusters string
  | AddOrUpdateRemoteCluster string bool
  | RemoveRemoteClusterCall string
  | DescribeSchedule string string
  | CreateSchedule string string ScheduleProto
  | UpdateSchedule string string ScheduleProto
  | PatchSchedule string string SchedulePatch
  | DeleteSchedule string string
  | StartWorkflowExecution StartWorkflowRequest
  | DescribeWorkflowExecution string string string
  | GetWorkflowExecutionHistory string string string
  | RequestCancelWorkflowExecution string string string string
  | TerminateWorkflowExecution string string string string

text \<open>The calls that do not change the frontend's state.\<close>

fun isReadRpc :: "rpc \<Rightarrow> bool" where
  "isReadRpc (DescribeNamespace _) = True"
| "isReadRpc (ListSearchAttributes _) = True"
| "isReadRpc (ListClusters _) = True"
| "isReadRpc (DescribeSchedule _ _) = True"
| "isReadRpc (DescribeWorkflowExecution _ _ _) = True"
| "isReadRpc (GetWorkflowExecutionHistory _ _ _) = True"
| "isReadRpc _ = False"

end
