(* ===== verification/World.thy ===== *)
theory World
  imports Schema_Jobs Protos "HOL-Library.State_Monad"
begin

text \<open>
  The effects of a reconcile pass.  Every call the operator makes on the API server, a datastore or
  a Temporal frontend is recorded in a trace, and what the called side answers is a function of the
  trace so far, so that it may change between two calls.  An operation is a state monad over the
  trace (and the result cache of the inspector backend).  The combinator \<open>valid\<close> is the usual triple
  of a precondition, an operation and a postcondition; \<open>emits\<close> says that every call an operation
  makes satisfies a predicate.
\<close>

section \<open>Calls and the world\<close>

datatype call =
    CGet string string string
  | CList string string string
  | CCreate KObj
  | CApply KObj
  | CDelete string string string
  | CUpdate string string string "string list"
  | CStatusUpdate string string string
  | CEvent string string
  | CStore string string
  | CDial string
  | CTemporal string rpc

record InspectResult =
  ins_Reachable :: bool
  ins_Version :: string
  ins_Error :: string

record world =
  w_trace :: "call list"
  w_cache :: "SchemaStore \<rightharpoonup> InspectResult"

type_synonym 'a act = "(world, 'a) state"

text \<open>\<^verbatim>\<open>ctrl.Result\<close>.\<close>

record Result =
  res_Requeue :: bool
  res_RequeueAfter :: duration

definition noResult :: Result where
  "noResult = \<lparr>res_Requeue = False, res_RequeueAfter = 0\<rparr>"

definition requeueAfter :: "duration \<Rightarrow> Result" where
  "requeueAfter d = \<lparr>res_Requeue = False, res_RequeueAfter = d\<rparr>"

text \<open>A call: it is recorded, and answered from the trace before it.\<close>

definition perform :: "call \<Rightarrow> (call list \<Rightarrow> 'a) \<Rightarrow> 'a act" where
  "perform c answer =
     State (\<lambda>w. (answer (w_trace w), w \<lparr>w_trace := w_trace w @ [c]\<rparr>))"

definition getCache :: "SchemaStore \<Rightarrow> InspectResult option act" where
  "getCache s = State (\<lambda>w. (w_cache w s, w))"

definition setCache :: "SchemaStore \<Rightarrow> InspectResult \<Rightarrow> unit act" where
  "setCache s r = State (\<lambda>w. ((), w \<lparr>w_cache := (w_cache w)(s \<mapsto> r)\<rparr>))"

definition clearCache :: "SchemaStore \<Rightarrow> unit act" where
  "clearCache s = State (\<lambda>w. ((), w \<lparr>w_cache := (w_cache w)(s := None)\<rparr>))"

text \<open>
  What the API server, cert-manager, the datastore drivers and the clock answer.  These are the
  parts of the system the repository only calls.
\<close>

record kube =
  k_GetDeployment :: "call list \<Rightarrow> string \<Rightarrow> string \<Rightarrow> Deployment result"
  k_GetJob :: "call list \<Rightarrow> string \<Rightarrow> string \<Rightarrow> Job result"
  k_GetSecret :: "call list \<Rightarrow> string \<Rightarrow> string \<Rightarrow> Secret result"
  k_GetCertificate :: "call list \<Rightarrow> string \<Rightarrow> string \<Rightarrow> Certificate result"
  k_GetCluster :: "call list \<Rightarrow> string \<Rightarrow> string \<Rightarrow> TemporalCluster result"
  k_ListPods :: "call list \<Rightarrow> string \<Rightarrow> string \<Rightarrow> Pod list result"
  k_Create :: "call list \<Rightarrow> KObj \<Rightarrow> KObj result"
  k_Apply :: "call list \<Rightarrow> KObj \<Rightarrow> err option"
  k_Delete :: "call list \<Rightarrow> string \<Rightarrow> string \<Rightarrow> string \<Rightarrow> err option"
  k_StatusUpdate :: "call list \<Rightarrow> string \<Rightarrow> string \<Rightarrow> string \<Rightarrow> err option"
  k_SetControllerReference :: "ObjectMeta \<Rightarrow> KObj \<Rightarrow> KObj result"
  k_Now :: "call list \<Rightarrow> gotime"
  k_ServiceMonitorCRD :: "call list \<Rightarrow> bool"

definition getDeployment :: "kube \<Rightarrow> string \<Rightarrow> string \<Rightarrow> Deployment result act" where
  "getDeployment k ns n = perform (CGet ''Deployment'' ns n) (\<lambda>tr. k_GetDeployment k tr ns n)"

definition getJob :: "kube \<Rightarrow> string \<Rightarrow> string \<Rightarrow> Job result act" where
  "getJob k ns n = perform (CGet ''Job'' ns n) (\<lambda>tr. k_GetJob k tr ns n)"

definition getSecret :: "kube \<Rightarrow> string \<Rightarrow> string \<Rightarrow> Secret result act" where
  "getSecret k ns n = perform (CGet ''Secret'' ns n) (\<lambda>tr. k_GetSecret k tr ns n)"

definition getCertificate :: "kube \<Rightarrow> string \<Rightarrow> string \<Rightarrow> Certificate result act" where
  "getCertificate k ns n = perform (CGet ''Certificate'' ns n) (\<lambda>tr. k_GetCertificate k tr ns n)"

definition getCluster :: "kube \<Rightarrow> string \<Rightarrow> string \<Rightarrow> TemporalCluster result act" where
  "getCluster k ns n = perform (CGet ''TemporalCluster'' ns n) (\<lambda>tr. k_GetCluster k tr ns n)"

definition listPods :: "kube \<Rightarrow> string \<Rightarrow> string \<Rightarrow> Pod list result act" where
  "listPods k ns j = perform (CList ''Pod'' ns j) (\<lambda>tr. k_ListPods k tr ns j)"

definition createObj :: "kube \<Rightarrow> KObj \<Rightarrow> KObj result act" where
  "createObj k ob = perform (CCreate ob) (\<lambda>tr. k_Create k tr ob)"

definition applyObj :: "kube \<Rightarrow> KObj \<Rightarrow> err option act" where
  "applyObj k ob = perform (CApply ob) (\<lambda>tr. k_Apply k tr ob)"

definition deleteObj :: "kube \<Rightarrow> string \<Rightarrow> string \<Rightarrow> string \<Rightarrow> err option act" where
  "deleteObj k kind ns n = perform (CDelete kind ns n) (\<lambda>tr. k_Delete k tr kind ns n)"

definition statusUpdate :: "kube \<Rightarrow> string \<Rightarrow> string \<Rightarrow> string \<Rightarrow> err option act" where
  "statusUpdate k kind ns n = perform (CStatusUpdate kind ns n) (\<lambda>tr. k_StatusUpdate k tr kind ns n)"

definition emitEvent :: "string \<Rightarrow> string \<Rightarrow> unit act" where
  "emitEvent reason message = perform (CEvent reason message) (\<lambda>_. ())"

definition nowTime :: "kube \<Rightarrow> gotime act" where
  "nowTime k = State (\<lambda>w. (k_Now k (w_trace w), w))"

section \<open>Triples\<close>

definition valid :: "(world \<Rightarrow> bool) \<Rightarrow> 'a act \<Rightarrow> ('a \<Rightarrow> world \<Rightarrow> bool) \<Rightarrow> bool" where
  "valid P m Q \<longleftrightarrow> (\<forall>w a w'. P w \<longrightarrow> run_state m w = (a, w') \<longrightarrow> Q a w')"

lemma validI: "(\<And>w a w'. P w \<Longrightarrow> run_state m w = (a, w') \<Longrightarrow> Q a w') \<Longrightarrow> valid P m Q"
  by (simp add: valid_def)

lemma validD: "valid P m Q \<Longrightarrow> P w \<Longrightarrow> run_state m w = (a, w') \<Longrightarrow> Q a w'"
  by (simp add: valid_def)

lemma valid_return: "valid (Q a) (State_Monad.return a) Q"
  by (simp add: valid_def)

lemma valid_bind:
  "valid P m R \<Longrightarrow> (\<And>a. valid (R a) (f a) Q) \<Longrightarrow> valid P (State_Monad.bind m f) Q"
  by (auto simp: valid_def split: prod.splits)

lemma valid_weaken: "valid P' m Q' \<Longrightarrow> (\<And>w. P w \<Longrightarrow> P' w) \<Longrightarrow> (\<And>a w. Q' a w \<Longrightarrow> Q a w) \<Longrightarrow> valid P m Q"
  unfolding valid_def by blast

lemma valid_perform: "valid (\<lambda>w. Q (answer (w_trace w)) (w \<lparr>w_trace := w_trace w @ [c]\<rparr>)) (perform c answer) Q"
  by (simp add: valid_def perform_def)

text \<open>Every call an operation adds to the trace satisfies a predicate.\<close>

definition emits :: "(call \<Rightarrow> bool) \<Rightarrow> 'a act \<Rightarrow> bool" where
  "emits C m \<longleftrightarrow>
     (\<forall>w a w'. run_state m w = (a, w') \<longrightarrow> (\<exists>cs. w_trace w' = w_trace w @ cs \<and> list_all C cs))"

named_theorems emits_rules \<open>rules that decompose an emission claim\<close>

lemma emitsI:
  "(\<And>w a w'. run_state m w = (a, w') \<Longrightarrow> \<exists>cs. w_trace w' = w_trace w @ cs \<and> list_all C cs) \<Longrightarrow> emits C m"
  by (simp add: emits_def)

lemma emitsD:
  "emits C m \<Longrightarrow> run_state m w = (a, w') \<Longrightarrow> \<exists>cs. w_trace w' = w_trace w @ cs \<and> list_all C cs"
  by (simp add: emits_def)

lemma emits_return [emits_rules]: "emits C (State_Monad.return a)"
  by (rule emitsI) (auto intro: exI [of _ "[]"])

text \<open>The continuation may rely on what the first part can return.\<close>

lemma emits_bind_dep:
  assumes m: "emits C m" and f: "\<And>w a w'. run_state m w = (a, w') \<Longrightarrow> emits C (f a)"
  shows "emits C (State_Monad.bind m f)"
proof (rule emitsI)
  fix w b w'
  assume r: "run_state (State_Monad.bind m f) w = (b, w')"
  obtain a v where a: "run_state m w = (a, v)" and b: "run_state (f a) v = (b, w')"
    using r by (auto split: prod.splits)
  obtain cs ds where "w_trace v = w_trace w @ cs" "list_all C cs"
    "w_trace w' = w_trace v @ ds" "list_all C ds"
    using emitsD [OF m a] emitsD [OF f [OF a] b] by blast
  then show "\<exists>cs. w_trace w' = w_trace w @ cs \<and> list_all C cs"
    by (intro exI [of _ "cs @ ds"]) simp
qed

lemma emits_bind [emits_rules]: "emits C m \<Longrightarrow> (\<And>a. emits C (f a)) \<Longrightarrow> emits C (State_Monad.bind m f)"
  by (rule emits_bind_dep)

lemma emits_perform [emits_rules]: "C c \<Longrightarrow> emits C (perform c answer)"
  by (rule emitsI) (auto simp: perform_def)

lemma emits_cache [emits_rules]: "emits C (getCache s)" "emits C (setCache s r)" "emits C (clearCache s)" "emits C (nowTime k)"
  by (rule emitsI; force simp: getCache_def setCache_def clearCache_def nowTime_def)+

lemma emits_if [emits_rules]: "(b \<Longrightarrow> emits C m) \<Longrightarrow> (\<not> b \<Longrightarrow> emits C n) \<Longrightarrow> emits C (if b then m else n)"
  by simp

lemma emits_case_sum [emits_rules]:
  "(\<And>e. r = Inl e \<Longrightarrow> emits C (f e)) \<Longrightarrow> (\<And>x. r = Inr x \<Longrightarrow> emits C (g x)) \<Longrightarrow> emits C (case_sum f g r)"
  by (cases r) auto

lemma emits_case_option [emits_rules]:
  "(r = None \<Longrightarrow> emits C m) \<Longrightarrow> (\<And>x. r = Some x \<Longrightarrow> emits C (g x)) \<Longrightarrow> emits C (case_option m g r)"
  by (cases r) auto

lemma emits_case_prod [emits_rules]: "(\<And>a b. p = (a, b) \<Longrightarrow> emits C (f a b)) \<Longrightarrow> emits C (case_prod f p)"
  by (cases p) auto

lemma emits_let [emits_rules]: "(\<And>x. x = v \<Longrightarrow> emits C (f x)) \<Longrightarrow> emits C (Let v f)"
  by simp

lemma emits_mono: "emits C m \<Longrightarrow> (\<And>c. C c \<Longrightarrow> D c) \<Longrightarrow> emits D m"
  unfolding emits_def by (metis list.pred_mono_strong)

text \<open>The API calls as calls.\<close>

lemmas kube_ops = getDeployment_def getJob_def getSecret_def getCertificate_def getCluster_def
  listPods_def createObj_def applyObj_def deleteObj_def statusUpdate_def emitEvent_def

lemma emits_ops [emits_rules]:
  "C (CGet ''Deployment'' ns n) \<Longrightarrow> emits C (getDeployment k ns n)"
  "C (CGet ''Job'' ns n) \<Longrightarrow> emits C (getJob k ns n)"
  "C (CGet ''Secret'' ns n) \<Longrightarrow> emits C (getSecret k ns n)"
  "C (CGet ''Certificate'' ns n) \<Longrightarrow> emits C (getCertificate k ns n)"
  "C (CGet ''TemporalCluster'' ns n) \<Longrightarrow> emits C (getCluster k ns n)"
  "C (CList ''Pod'' ns n) \<Longrightarrow> emits C (listPods k ns n)"
  "C (CCreate ob) \<Longrightarrow> emits C (createObj k ob)"
  "C (CApply ob) \<Longrightarrow> emits C (applyObj k ob)"
  "C (CDelete kind ns n) \<Longrightarrow> emits C (deleteObj k kind ns n)"
  "C (CStatusUpdate kind ns n) \<Longrightarrow> emits C (statusUpdate k kind ns n)"
  "C (CEvent rs ms) \<Longrightarrow> emits C (emitEvent rs ms)"
  by (simp_all add: kube_ops emits_perform)

text \<open>The Kubernetes error classes and the calls that change the cluster.\<close>

fun isWrite :: "call \<Rightarrow> bool" where
  "isWrite (CCreate _) = True"
| "isWrite (CApply _) = True"
| "isWrite (CDelete _ _ _) = True"
| "isWrite (CUpdate _ _ _ _) = True"
| "isWrite (CStatusUpdate _ _ _) = True"
| "isWrite _ = False"

fun isApply :: "call \<Rightarrow> bool" where
  "isApply (CApply _) = True"
| "isApply _ = False"

end
