(* ===== verification/Backends.thy ===== *)
theory Backends
  imports World
begin

text \<open>
  Datastore backends (\<^verbatim>\<open>src/internal/persistence\<close>): credential resolution from Secrets, the Postgres
  connection string, and the four implementations of the \<open>Backend\<close> interface (SQL, Cassandra,
  Elasticsearch, Job inspector).  The drivers are the parameter \<open>drivers\<close>.  The locale
  \<open>backend_contract\<close> states what the interface's documentation promises its clients; every
  implementation is an interpretation of it.
\<close>

section \<open>The standard library: substrings and URL escaping\<close>

fun containsStr :: "string \<Rightarrow> string \<Rightarrow> bool" where
  "containsStr [] p = (p = [])"
| "containsStr (c # s) p = (hasPrefix (c # s) p \<or> containsStr s p)"

definition toLowerChar :: "char \<Rightarrow> char" where
  "toLowerChar c = (let n = (of_char c :: nat) in if 65 \<le> n \<and> n \<le> 90 then char_of (n + 32) else c)"

definition toLower :: "string \<Rightarrow> string" where
  "toLower = map toLowerChar"

definition trimRightChar :: "char \<Rightarrow> string \<Rightarrow> string" where
  "trimRightChar c s = rev (dropWhile (\<lambda>x. x = c) (rev s))"

definition isAlnum :: "char \<Rightarrow> bool" where
  "isAlnum c = (let n = (of_char c :: nat) in
     (48 \<le> n \<and> n \<le> 57) \<or> (65 \<le> n \<and> n \<le> 90) \<or> (97 \<le> n \<and> n \<le> 122))"

datatype urlMode = EncodeUserPassword | EncodePath | EncodeHost | EncodeQueryComponent

text \<open>\<^verbatim>\<open>net/url.shouldEscape\<close>.\<close>

definition shouldEscape :: "char \<Rightarrow> urlMode \<Rightarrow> bool" where
  "shouldEscape c mode =
     (if isAlnum c then False
      else if mode = EncodeHost \<and> c \<in> set (''!$&()*+,;=:[]<>'' @ [CHR 0x22, CHR 0x27]) then False
      else if c \<in> set ''-_.~'' then False
      else if c \<in> set ''$&+,/:;=?@'' then
        (case mode of
           EncodePath \<Rightarrow> c = CHR ''?''
         | EncodeUserPassword \<Rightarrow> c = CHR ''@'' \<or> c = CHR ''/'' \<or> c = CHR ''?'' \<or> c = CHR '':''
         | EncodeQueryComponent \<Rightarrow> True
         | EncodeHost \<Rightarrow> True)
      else True)"

definition upperHex :: "nat \<Rightarrow> char" where
  "upperHex n = char_of (if n < 10 then 48 + n else 55 + n)"

definition escapeChar :: "urlMode \<Rightarrow> char \<Rightarrow> string" where
  "escapeChar mode c =
     (if \<not> shouldEscape c mode then [c]
      else if c = CHR '' '' \<and> mode = EncodeQueryComponent then ''+''
      else [CHR ''%'', upperHex ((of_char c :: nat) div 16), upperHex ((of_char c :: nat) mod 16)])"

definition urlEscape :: "urlMode \<Rightarrow> string \<Rightarrow> string" where
  "urlEscape mode s = concat (map (escapeChar mode) s)"

section \<open>Credentials (secrets.go)\<close>

record ResolvedCredential =
  cred_Password :: string
  cred_PasswordCommand :: string

definition noCredential :: ResolvedCredential where
  "noCredential = \<lparr>cred_Password = [], cred_PasswordCommand = []\<rparr>"

definition defaultKey :: "string \<Rightarrow> string" where
  "defaultKey key = (if key = [] then ''password'' else key)"

definition getSecretValue :: "kube \<Rightarrow> string \<Rightarrow> SecretKeyReference \<Rightarrow> string result act" where
  "getSecretValue k ns ref = do {
     r \<leftarrow> getSecret k ns (skr_Name ref);
     State_Monad.return (case r of
       Inl e \<Rightarrow> Inl (WrapErr (''getting secret '' @ ns @ ''/'' @ skr_Name ref) e)
     | Inr s \<Rightarrow>
         (case sec_Data s (defaultKey (skr_Key ref)) of
            None \<Rightarrow> Inl (ErrMsg (''secret '' @ ns @ ''/'' @ skr_Name ref @ '' has no key '' @
                      goQuote (defaultKey (skr_Key ref))))
          | Some v \<Rightarrow> Inr v))
   }"

definition ResolveSQL :: "kube \<Rightarrow> string \<Rightarrow> SQLDatastoreSpec \<Rightarrow> ResolvedCredential result act" where
  "ResolveSQL k ns spec =
     (case sql_PasswordCommandSecretRef spec of
        Some ref \<Rightarrow> do {
          r \<leftarrow> getSecretValue k ns ref;
          State_Monad.return (map_sum id (\<lambda>v. noCredential \<lparr>cred_PasswordCommand := v\<rparr>) r)
        }
      | None \<Rightarrow>
      (case sql_PasswordSecretRef spec of
        Some ref \<Rightarrow> do {
          r \<leftarrow> getSecretValue k ns ref;
          State_Monad.return (map_sum id (\<lambda>v. noCredential \<lparr>cred_Password := v\<rparr>) r)
        }
      | None \<Rightarrow> State_Monad.return (Inr noCredential)))"

definition resolvePassword :: "kube \<Rightarrow> string \<Rightarrow> SecretKeyReference option \<Rightarrow> ResolvedCredential result act" where
  "resolvePassword k ns ref =
     (case ref of
        None \<Rightarrow> State_Monad.return (Inr noCredential)
      | Some rf \<Rightarrow> do {
          r \<leftarrow> getSecretValue k ns rf;
          State_Monad.return (map_sum id (\<lambda>v. noCredential \<lparr>cred_Password := v\<rparr>) r)
        })"

definition ResolveCassandra :: "kube \<Rightarrow> string \<Rightarrow> CassandraDatastoreSpec \<Rightarrow> ResolvedCredential result act" where
  "ResolveCassandra k ns spec = resolvePassword k ns (cas_PasswordSecretRef spec)"

definition ResolveElasticsearch :: "kube \<Rightarrow> string \<Rightarrow> ElasticsearchDatastoreSpec \<Rightarrow> ResolvedCredential result act" where
  "ResolveElasticsearch k ns spec = resolvePassword k ns (es_PasswordSecretRef spec)"

definition ResolveStore :: "kube \<Rightarrow> string \<Rightarrow> DatastoreSpec \<Rightarrow> ResolvedCredential result act" where
  "ResolveStore k ns store =
     (case ds_SQL store of
        Some s \<Rightarrow> ResolveSQL k ns s
      | None \<Rightarrow>
      (case ds_Cassandra store of
        Some c \<Rightarrow> ResolveCassandra k ns c
      | None \<Rightarrow>
      (case ds_Elasticsearch store of
        Some e \<Rightarrow> ResolveElasticsearch k ns e
      | None \<Rightarrow> State_Monad.return (Inl (ErrMsg ''datastore has no backend configured'')))))"

section \<open>The Backend interface (backend.go)\<close>

record backend =
  be_Probe :: "unit result act"
  be_SchemaVersion :: "string result act"
  be_EnsureSchema :: "string \<Rightarrow> bool result act"
  be_Kind :: string

text \<open>
  The drivers: what pgx, gocql and an HTTP client answer.  A session configuration of gocql is the
  record \<open>cqlConfig\<close>; an answer \<open>Inr None\<close> of a version query is \<^verbatim>\<open>sql.ErrNoRows\<close>.
\<close>

record cqlConfig =
  cql_Hosts :: "string list"
  cql_Port :: int
  cql_Keyspace :: string
  cql_Auth :: "(string \<times> string) option"
  cql_Datacenter :: string

record drivers =
  d_PgOpen :: "string \<Rightarrow> err option"
  d_PgPing :: "call list \<Rightarrow> string \<Rightarrow> err option"
  d_PgSelectOne :: "call list \<Rightarrow> string \<Rightarrow> err option"
  d_PgSchemaVersion :: "call list \<Rightarrow> string \<Rightarrow> string \<Rightarrow> string option result"
  d_CqlSession :: "call list \<Rightarrow> cqlConfig \<Rightarrow> err option"
  d_CqlLiveness :: "call list \<Rightarrow> cqlConfig \<Rightarrow> err option"
  d_CqlVersion :: "call list \<Rightarrow> cqlConfig \<Rightarrow> string \<Rightarrow> string result"
  d_HttpNewRequest :: "string \<Rightarrow> string \<Rightarrow> err option"
  d_HttpDo :: "call list \<Rightarrow> string \<Rightarrow> string \<Rightarrow> (string \<times> string) option \<Rightarrow> int result"
  d_DecodeInspect :: "string \<Rightarrow> InspectResult result"

subsection \<open>SQL (sql.go)\<close>

definition openPostgres :: "drivers \<Rightarrow> string \<Rightarrow> unit result" where
  "openPostgres d dsn = (case d_PgOpen d dsn of None \<Rightarrow> Inr () | Some e \<Rightarrow> Inl (WrapErr ''opening database'' e))"

definition SQLProber_Probe :: "drivers \<Rightarrow> string \<Rightarrow> unit result act" where
  "SQLProber_Probe d dsn =
     (case openPostgres d dsn of
        Inl e \<Rightarrow> State_Monad.return (Inl e)
      | Inr _ \<Rightarrow> do {
          p \<leftarrow> perform (CStore ''ping'' dsn) (\<lambda>tr. d_PgPing d tr dsn);
          case p of
            Some e \<Rightarrow> State_Monad.return (Inl (WrapErr ''pinging database'' e))
          | None \<Rightarrow> do {
              q \<leftarrow> perform (CStore ''SELECT 1'' dsn) (\<lambda>tr. d_PgSelectOne d tr dsn);
              State_Monad.return (case q of
                Some e \<Rightarrow> Inl (WrapErr ''running liveness query'' e)
              | None \<Rightarrow> Inr ())
            }
        })"

definition isUndefinedTable :: "err \<Rightarrow> bool" where
  "isUndefinedTable e =
     (containsStr (err_text e) ''42P01'' \<or> containsStr (toLower (err_text e)) ''does not exist'')"

definition SQLProber_CurrentSchemaVersion :: "drivers \<Rightarrow> string \<Rightarrow> string \<Rightarrow> string result act" where
  "SQLProber_CurrentSchemaVersion d dsn dbName =
     (case openPostgres d dsn of
        Inl e \<Rightarrow> State_Monad.return (Inl e)
      | Inr _ \<Rightarrow> do {
          q \<leftarrow> perform (CStore ''schema_version'' dsn) (\<lambda>tr. d_PgSchemaVersion d tr dsn dbName);
          State_Monad.return (case q of
            Inr None \<Rightarrow> Inr []
          | Inr (Some v) \<Rightarrow> Inr v
          | Inl e \<Rightarrow> if isUndefinedTable e then Inr [] else Inl (WrapErr ''querying schema version'' e))
        })"

definition BuildPostgresDSN :: "SQLDatastoreSpec \<Rightarrow> string \<Rightarrow> string \<Rightarrow> string" where
  "BuildPostgresDSN spec password dbName =
     (let db = (if dbName = [] then sql_Database spec else dbName);
          sslmode = (case sql_TLS spec of
            None \<Rightarrow> ''disable''
          | Some t \<Rightarrow>
              if \<not> dtls_Enabled t then ''disable''
              else if dtls_EnableHostVerification t then ''verify-full'' else ''require'')
      in ''postgres://'' @ urlEscape EncodeUserPassword (sql_User spec) @ '':'' @
         urlEscape EncodeUserPassword password @ ''@'' @
         urlEscape EncodeHost (sql_Host spec @ '':'' @ itoa (sql_Port spec)) @
         urlEscape EncodePath (''/'' @ db) @ ''?'' @
         urlEscape EncodeQueryComponent ''sslmode'' @ ''='' @ urlEscape EncodeQueryComponent sslmode)"

definition sqlBackend :: "drivers \<Rightarrow> SQLDatastoreSpec \<Rightarrow> ResolvedCredential \<Rightarrow> string \<Rightarrow> backend" where
  "sqlBackend d spec cred dbName =
     \<lparr>be_Probe = SQLProber_Probe d (BuildPostgresDSN spec (cred_Password cred) dbName),
      be_SchemaVersion =
        SQLProber_CurrentSchemaVersion d (BuildPostgresDSN spec (cred_Password cred) dbName) dbName,
      be_EnsureSchema = (\<lambda>_. State_Monad.return (Inr False)),
      be_Kind = ''sql''\<rparr>"

subsection \<open>Cassandra (cassandra.go)\<close>

definition clusterConfig :: "CassandraDatastoreSpec \<Rightarrow> ResolvedCredential \<Rightarrow> string \<Rightarrow> cqlConfig" where
  "clusterConfig spec cred keyspace =
     \<lparr>cql_Hosts = cas_Hosts spec, cql_Port = cas_Port spec, cql_Keyspace = keyspace,
      cql_Auth = (if cas_User spec \<noteq> [] then Some (cas_User spec, cred_Password cred) else None),
      cql_Datacenter = cas_Datacenter spec\<rparr>"

definition cassandra_Probe :: "drivers \<Rightarrow> CassandraDatastoreSpec \<Rightarrow> ResolvedCredential \<Rightarrow> unit result act" where
  "cassandra_Probe d spec cred =
     (let cfg = clusterConfig spec cred ''system'' in do {
        s \<leftarrow> perform (CStore ''session'' ''system'') (\<lambda>tr. d_CqlSession d tr cfg);
        case s of
          Some e \<Rightarrow> State_Monad.return (Inl (WrapErr ''connecting to cassandra'' e))
        | None \<Rightarrow> do {
            q \<leftarrow> perform (CStore ''now()'' ''system'') (\<lambda>tr. d_CqlLiveness d tr cfg);
            State_Monad.return (case q of
              Some e \<Rightarrow> Inl (WrapErr ''cassandra liveness query'' e)
            | None \<Rightarrow> Inr ())
          }
      })"

text \<open>Any failure to connect or to query reads as "no schema yet".\<close>

definition cassandra_SchemaVersion :: "drivers \<Rightarrow> CassandraDatastoreSpec \<Rightarrow> ResolvedCredential \<Rightarrow> string result act" where
  "cassandra_SchemaVersion d spec cred =
     (let cfg = clusterConfig spec cred (cas_Keyspace spec) in do {
        s \<leftarrow> perform (CStore ''session'' (cas_Keyspace spec)) (\<lambda>tr. d_CqlSession d tr cfg);
        case s of
          Some e \<Rightarrow> State_Monad.return (Inr [])
        | None \<Rightarrow> do {
            q \<leftarrow> perform (CStore ''schema_version'' (cas_Keyspace spec))
                  (\<lambda>tr. d_CqlVersion d tr cfg (cas_Keyspace spec));
            State_Monad.return (case q of Inl e \<Rightarrow> Inr [] | Inr v \<Rightarrow> Inr v)
          }
      })"

definition cassandraBackend :: "drivers \<Rightarrow> CassandraDatastoreSpec \<Rightarrow> ResolvedCredential \<Rightarrow> backend" where
  "cassandraBackend d spec cred =
     \<lparr>be_Probe = cassandra_Probe d spec cred,
      be_SchemaVersion = cassandra_SchemaVersion d spec cred,
      be_EnsureSchema = (\<lambda>_. State_Monad.return (Inr False)),
      be_Kind = ''cassandra''\<rparr>"

subsection \<open>Elasticsearch (elasticsearch.go)\<close>

definition es_baseURL :: "ElasticsearchDatastoreSpec \<Rightarrow> string" where
  "es_baseURL spec =
     (let scheme = (case es_TLS spec of None \<Rightarrow> ''http'' | Some t \<Rightarrow> if dtls_Enabled t then ''https'' else ''http'');
          u = es_URL spec
      in if hasPrefix u ''http://'' \<or> hasPrefix u ''https://'' then trimRightChar (CHR ''/'') u
         else scheme @ ''://'' @ trimRightChar (CHR ''/'') u)"

text \<open>A request: building it may fail (the outer error), and so may sending it (the inner one).\<close>

definition es_request ::
  "drivers \<Rightarrow> ElasticsearchDatastoreSpec \<Rightarrow> ResolvedCredential \<Rightarrow> string \<Rightarrow> string \<Rightarrow> int result result act" where
  "es_request d spec cred verb path =
     (let u = es_baseURL spec @ path;
          auth = (if es_Username spec \<noteq> [] then Some (es_Username spec, cred_Password cred) else None)
      in case d_HttpNewRequest d verb u of
           Some e \<Rightarrow> State_Monad.return (Inl e)
         | None \<Rightarrow> perform (CStore verb u) (\<lambda>tr. Inr (d_HttpDo d tr verb u auth)))"

definition indexTemplatePath :: string where
  "indexTemplatePath = ''/_index_template/temporal_visibility_v1_template''"

definition es_Probe :: "drivers \<Rightarrow> ElasticsearchDatastoreSpec \<Rightarrow> ResolvedCredential \<Rightarrow> unit result act" where
  "es_Probe d spec cred = do {
     r \<leftarrow> es_request d spec cred ''GET'' ''/_cluster/health'';
     State_Monad.return (case r of
       Inl e \<Rightarrow> Inl e
     | Inr (Inl e) \<Rightarrow> Inl (WrapErr ''connecting to elasticsearch'' e)
     | Inr (Inr code) \<Rightarrow>
         if code \<ge> 300 then Inl (ErrMsg (''elasticsearch health returned '' @ itoa code)) else Inr ())
   }"

definition es_SchemaVersion :: "drivers \<Rightarrow> ElasticsearchDatastoreSpec \<Rightarrow> ResolvedCredential \<Rightarrow> string result act" where
  "es_SchemaVersion d spec cred = do {
     r \<leftarrow> es_request d spec cred ''GET'' indexTemplatePath;
     State_Monad.return (case r of
       Inl e \<Rightarrow> Inl e
     | Inr (Inl e) \<Rightarrow> Inl (WrapErr ''checking elasticsearch index template'' e)
     | Inr (Inr code) \<Rightarrow>
         if code = 404 then Inr []
         else if code \<ge> 300 then Inl (ErrMsg (''elasticsearch template check returned '' @ itoa code))
         else Inr (es_Version spec))
   }"

definition es_EnsureSchema :: "drivers \<Rightarrow> ElasticsearchDatastoreSpec \<Rightarrow> ResolvedCredential \<Rightarrow> string \<Rightarrow> bool result act" where
  "es_EnsureSchema d spec cred minVersion = do {
     r \<leftarrow> es_request d spec cred ''PUT'' indexTemplatePath;
     State_Monad.return (case r of
       Inl e \<Rightarrow> Inl e
     | Inr (Inl e) \<Rightarrow> Inl (WrapErr ''applying elasticsearch index template'' e)
     | Inr (Inr code) \<Rightarrow>
         if code \<ge> 300 then Inl (ErrMsg (''elasticsearch template apply returned '' @ itoa code))
         else Inr True)
   }"

definition esBackend :: "drivers \<Rightarrow> ElasticsearchDatastoreSpec \<Rightarrow> ResolvedCredential \<Rightarrow> backend" where
  "esBackend d spec cred =
     \<lparr>be_Probe = es_Probe d spec cred,
      be_SchemaVersion = es_SchemaVersion d spec cred,
      be_EnsureSchema = es_EnsureSchema d spec cred,
      be_Kind = ''elasticsearch''\<rparr>"

definition DefaultBackendFactory :: "drivers \<Rightarrow> DatastoreSpec \<Rightarrow> ResolvedCredential \<Rightarrow> string \<Rightarrow> backend result" where
  "DefaultBackendFactory d store cred dbName =
     (case ds_SQL store of
        Some s \<Rightarrow> Inr (sqlBackend d s cred dbName)
      | None \<Rightarrow>
      (case ds_Cassandra store of
        Some c \<Rightarrow> Inr (cassandraBackend d c cred)
      | None \<Rightarrow>
      (case ds_Elasticsearch store of
        Some e \<Rightarrow> Inr (esBackend d e cred)
      | None \<Rightarrow> Inl (ErrMsg ''datastore has no backend configured''))))"

subsection \<open>The Job inspector (jobinspector.go)\<close>

definition jobIsTerminal :: "Job \<Rightarrow> bool" where
  "jobIsTerminal job =
     list_ex (\<lambda>c. jc_Status c = ConditionTrue \<and> (jc_Type c = ''Complete'' \<or> jc_Type c = ''Failed''))
       (job_Conditions job)"

text \<open>The first termination message of an inspect container that is not empty.\<close>

definition inspectMessage :: "Pod list \<Rightarrow> string option" where
  "inspectMessage pods =
     (case findFirst (\<lambda>cs. cst_Name cs = ''inspect'' \<and> cst_Terminated cs \<noteq> None \<and> cst_Terminated cs \<noteq> Some [])
             (concat (map po_ContainerStatuses pods)) of
        None \<Rightarrow> None
      | Some cs \<Rightarrow> cst_Terminated cs)"

definition inspectOnce :: "kube \<Rightarrow> drivers \<Rightarrow> SchemaStore \<Rightarrow> Job result act \<Rightarrow> InspectResult result act" where
  "inspectOnce k d store ensureJob = do {
     cached \<leftarrow> getCache store;
     case cached of
       Some r \<Rightarrow> State_Monad.return (Inr r)
     | None \<Rightarrow> do {
         j \<leftarrow> ensureJob;
         case j of
           Inl e \<Rightarrow> State_Monad.return (Inl e)
         | Inr job \<Rightarrow> do {
             pl \<leftarrow> listPods k (om_Namespace (job_Meta job)) (om_Name (job_Meta job));
             case pl of
               Inl e \<Rightarrow> State_Monad.return (Inl e)
             | Inr pods \<Rightarrow>
                 (case inspectMessage pods of
                    Some msg \<Rightarrow>
                      (case d_DecodeInspect d msg of
                         Inl e \<Rightarrow> State_Monad.return (Inl (WrapErr ''failed to unmarshal termination message'' e))
                       | Inr r \<Rightarrow> do { setCache store r; State_Monad.return (Inr r) })
                  | None \<Rightarrow>
                      if jobIsTerminal job then do {
                        de \<leftarrow> deleteObj k ''Job'' (om_Namespace (job_Meta job)) (om_Name (job_Meta job));
                        State_Monad.return (case de of
                          Some e \<Rightarrow>
                            if isNotFound e then Inl ErrInspecting
                            else Inl (WrapErr (''deleting spent inspector job '' @ om_Name (job_Meta job)) e)
                        | None \<Rightarrow> Inl ErrInspecting)
                      }
                      else State_Monad.return (Inl ErrInspecting))
           }
       }
   }"

definition inspector_Probe :: "kube \<Rightarrow> drivers \<Rightarrow> SchemaStore \<Rightarrow> Job result act \<Rightarrow> unit result act" where
  "inspector_Probe k d store ensureJob = do {
     r \<leftarrow> inspectOnce k d store ensureJob;
     State_Monad.return (case r of
       Inl e \<Rightarrow> Inl e
     | Inr res \<Rightarrow> if ins_Reachable res then Inr ()
                  else Inl (ErrMsg (''datastore unreachable: '' @ ins_Error res)))
   }"

definition inspector_SchemaVersion :: "kube \<Rightarrow> drivers \<Rightarrow> SchemaStore \<Rightarrow> Job result act \<Rightarrow> string result act" where
  "inspector_SchemaVersion k d store ensureJob = do {
     r \<leftarrow> inspectOnce k d store ensureJob;
     State_Monad.return (map_sum id ins_Version r)
   }"

definition jobInspectorBackend :: "kube \<Rightarrow> drivers \<Rightarrow> SchemaStore \<Rightarrow> Job result act \<Rightarrow> backend" where
  "jobInspectorBackend k d store ensureJob =
     \<lparr>be_Probe = inspector_Probe k d store ensureJob,
      be_SchemaVersion = inspector_SchemaVersion k d store ensureJob,
      be_EnsureSchema = (\<lambda>_. State_Monad.return (Inr False)),
      be_Kind = ''sql''\<rparr>"

text \<open>A new inspector backend has nothing cached.\<close>

definition NewJobInspectorBackend :: "kube \<Rightarrow> drivers \<Rightarrow> SchemaStore \<Rightarrow> Job result act \<Rightarrow> backend act" where
  "NewJobInspectorBackend k d store ensureJob = do {
     clearCache store;
     State_Monad.return (jobInspectorBackend k d store ensureJob)
   }"

subsection \<open>The inspector subcommand (inspect.go)\<close>

definition InspectSQL :: "drivers \<Rightarrow> SQLDatastoreSpec \<Rightarrow> string \<Rightarrow> string \<Rightarrow> InspectResult act" where
  "InspectSQL d spec password dbName =
     (let dsn = BuildPostgresDSN spec password dbName in do {
        p \<leftarrow> SQLProber_Probe d dsn;
        case p of
          Inl e \<Rightarrow> State_Monad.return \<lparr>ins_Reachable = False, ins_Version = [], ins_Error = err_text e\<rparr>
        | Inr _ \<Rightarrow> do {
            v \<leftarrow> SQLProber_CurrentSchemaVersion d dsn dbName;
            State_Monad.return (case v of
              Inl e \<Rightarrow> \<lparr>ins_Reachable = True, ins_Version = [], ins_Error = err_text e\<rparr>
            | Inr ver \<Rightarrow> \<lparr>ins_Reachable = True, ins_Version = ver, ins_Error = []\<rparr>)
          }
      })"

section \<open>The contract of a backend\<close>

text \<open>
  What the interface documents: three kinds, schema handled inline exactly by Elasticsearch, and
  Job-based backends whose \<open>EnsureSchema\<close> does nothing.  No backend applies objects.
\<close>

locale backend_contract =
  fixes b :: backend
  assumes kind: "be_Kind b \<in> {''sql'', ''cassandra'', ''elasticsearch''}"
    and inline_iff: "run_state (be_EnsureSchema b v) w = (Inr inline, w') \<Longrightarrow> inline \<longleftrightarrow> be_Kind b = ''elasticsearch''"
    and job_based: "be_Kind b \<noteq> ''elasticsearch'' \<Longrightarrow> be_EnsureSchema b v = State_Monad.return (Inr False)"
    and emits_probe: "emits (\<lambda>c. \<not> isApply c) (be_Probe b)"
    and emits_version: "emits (\<lambda>c. \<not> isApply c) (be_SchemaVersion b)"
    and emits_ensure: "emits (\<lambda>c. \<not> isApply c) (be_EnsureSchema b v)"

lemma emits_openPostgres_probe: "emits (\<lambda>c. \<not> isWrite c) (SQLProber_Probe d dsn)"
  unfolding SQLProber_Probe_def by (intro emits_rules) auto

lemma emits_openPostgres_version: "emits (\<lambda>c. \<not> isWrite c) (SQLProber_CurrentSchemaVersion d dsn db)"
  unfolding SQLProber_CurrentSchemaVersion_def by (intro emits_rules) auto

lemma not_write_not_apply: "\<not> isWrite c \<Longrightarrow> \<not> isApply c"
  by (cases c) auto

lemmas emits_no_apply = emits_mono [OF _ not_write_not_apply]

interpretation sql_contract: backend_contract "sqlBackend d spec cred db" for d spec cred db
  by unfold_locales
    (auto simp: sqlBackend_def intro: emits_rules emits_no_apply emits_openPostgres_probe emits_openPostgres_version)

interpretation cassandra_contract: backend_contract "cassandraBackend d spec cred" for d spec cred
proof
  show "emits (\<lambda>c. \<not> isApply c) (be_Probe (cassandraBackend d spec cred))"
    unfolding cassandraBackend_def cassandra_Probe_def by simp (intro emits_rules; simp)
  show "emits (\<lambda>c. \<not> isApply c) (be_SchemaVersion (cassandraBackend d spec cred))"
    unfolding cassandraBackend_def cassandra_SchemaVersion_def by simp (intro emits_rules; simp)
qed (auto simp: cassandraBackend_def intro: emits_rules)

lemma emits_es_request: "emits (\<lambda>c. \<not> isApply c) (es_request d spec cred verb path)"
  unfolding es_request_def by (intro emits_rules) auto

interpretation es_contract: backend_contract "esBackend d spec cred" for d spec cred
proof
  fix v w w' inline
  show "emits (\<lambda>c. \<not> isApply c) (be_Probe (esBackend d spec cred))"
    unfolding esBackend_def es_Probe_def by simp (intro emits_rules emits_es_request)
  show "emits (\<lambda>c. \<not> isApply c) (be_SchemaVersion (esBackend d spec cred))"
    unfolding esBackend_def es_SchemaVersion_def by simp (intro emits_rules emits_es_request)
  show "emits (\<lambda>c. \<not> isApply c) (be_EnsureSchema (esBackend d spec cred) v)"
    unfolding esBackend_def es_EnsureSchema_def by simp (intro emits_rules emits_es_request)
  show "run_state (be_EnsureSchema (esBackend d spec cred) v) w = (Inr inline, w') \<Longrightarrow>
      inline = (be_Kind (esBackend d spec cred) = ''elasticsearch'')"
    by (auto simp: esBackend_def es_EnsureSchema_def split: sum.splits prod.splits if_splits)
qed (auto simp: esBackend_def)

lemma DefaultBackendFactory_contract:
  "DefaultBackendFactory d store cred db = Inr b \<Longrightarrow> backend_contract b"
  by (auto simp: DefaultBackendFactory_def split: option.splits
      intro: sql_contract.backend_contract_axioms cassandra_contract.backend_contract_axioms
        es_contract.backend_contract_axioms)

section \<open>The connection string carries the credential intact\<close>

definition unhex :: "char \<Rightarrow> nat option" where
  "unhex c = (let n = (of_char c :: nat) in
     if 48 \<le> n \<and> n \<le> 57 then Some (n - 48) else if 65 \<le> n \<and> n \<le> 70 then Some (n - 55)
     else if 97 \<le> n \<and> n \<le> 102 then Some (n - 87) else None)"

fun urlUnescape :: "string \<Rightarrow> string option" where
  "urlUnescape [] = Some []"
| "urlUnescape (c # s) =
     (if c = CHR ''%'' then
        (case s of
           h # l # r \<Rightarrow>
             (case (unhex h, unhex l) of
                (Some x, Some y) \<Rightarrow> map_option ((#) (char_of (16 * x + y))) (urlUnescape r)
              | _ \<Rightarrow> None)
         | _ \<Rightarrow> None)
      else map_option ((#) c) (urlUnescape s))"

text \<open>A reader of the credential part of a connection string.\<close>

definition dsnUserinfo :: "string \<Rightarrow> (string \<times> string) option" where
  "dsnUserinfo dsn =
     (case cutPrefix dsn ''postgres://'' of
        None \<Rightarrow> None
      | Some r \<Rightarrow>
          (case split_on (CHR '':'') (takeWhile (\<lambda>c. c \<noteq> CHR ''@'') r) of
             [u, p] \<Rightarrow>
               (case (urlUnescape u, urlUnescape p) of (Some x, Some y) \<Rightarrow> Some (x, y) | _ \<Rightarrow> None)
           | _ \<Rightarrow> None))"

lemma unhex_upperHex: "n < 16 \<Longrightarrow> unhex (upperHex n) = Some n"
  by (auto simp: unhex_def upperHex_def Let_def)

lemma of_char_lt: "(of_char c :: nat) < 256"
  by (metis of_char_mod_256 mod_less_divisor zero_less_numeral)

lemma nibbles: "(of_char c :: nat) div 16 < 16" "(of_char c :: nat) mod 16 < 16"
  using of_char_lt [of c] by (simp_all add: less_mult_imp_div_less)

lemma urlUnescape_escape:
  "mode \<noteq> EncodeQueryComponent \<Longrightarrow> urlUnescape (urlEscape mode s) = Some s"
proof (induction s)
  case (Cons c s)
  have pct: "\<not> shouldEscape c mode \<Longrightarrow> c \<noteq> CHR ''%''"
    by (auto simp: shouldEscape_def isAlnum_def)
  have "unhex (upperHex ((of_char c :: nat) div 16)) = Some (of_char c div 16)"
    "unhex (upperHex ((of_char c :: nat) mod 16)) = Some (of_char c mod 16)"
    by (simp_all add: unhex_upperHex nibbles)
  then show ?case
    using Cons pct by (simp add: urlEscape_def escapeChar_def)
qed (simp add: urlEscape_def)

lemma upperHex_alnum: "n < 16 \<Longrightarrow> isAlnum (upperHex n)"
  by (auto simp: isAlnum_def upperHex_def Let_def)

lemma alnum_not_escaped: "isAlnum c \<Longrightarrow> \<not> shouldEscape c mode"
  by (simp add: shouldEscape_def)

lemma urlEscape_chars:
  assumes "c \<in> set (urlEscape mode s)"
  shows "\<not> shouldEscape c mode \<or> c = CHR ''%'' \<or> c = CHR ''+'' \<and> mode = EncodeQueryComponent"
proof -
  obtain x where x: "c \<in> set (escapeChar mode x)"
    using assms unfolding urlEscape_def by auto
  have hx: "\<not> shouldEscape (upperHex ((of_char x :: nat) div 16)) mode"
    "\<not> shouldEscape (upperHex ((of_char x :: nat) mod 16)) mode"
    by (simp_all add: alnum_not_escaped upperHex_alnum nibbles)
  show ?thesis
    using x hx by (auto simp: escapeChar_def split: if_splits)
qed

lemma userinfo_chars:
  "CHR ''@'' \<notin> set (urlEscape EncodeUserPassword s)" "CHR '':'' \<notin> set (urlEscape EncodeUserPassword s)"
proof -
  have "shouldEscape (CHR ''@'') EncodeUserPassword" "shouldEscape (CHR '':'') EncodeUserPassword"
    by (simp_all add: shouldEscape_def isAlnum_def)
  then show "CHR ''@'' \<notin> set (urlEscape EncodeUserPassword s)" "CHR '':'' \<notin> set (urlEscape EncodeUserPassword s)"
    using urlEscape_chars [of "CHR ''@''" EncodeUserPassword s] urlEscape_chars [of "CHR '':''" EncodeUserPassword s]
    by auto
qed

lemma takeWhile_stop: "c \<notin> set u \<Longrightarrow> takeWhile (\<lambda>x. x \<noteq> c) (u @ c # r) = u"
  by (subst takeWhile_append2) auto

text \<open>
  C35: the connection string carries the credential intact: whatever characters the user name and the
  password contain, the credential part splits at its colon into their escaped forms, and
  unescaping these gives them back.
\<close>

theorem dsnUserinfo_BuildPostgresDSN:
  "dsnUserinfo (BuildPostgresDSN spec password db) = Some (sql_User spec, password)"
proof -
  let ?u = "urlEscape EncodeUserPassword (sql_User spec)"
  let ?p = "urlEscape EncodeUserPassword password"
  obtain r where dsn: "BuildPostgresDSN spec password db = ''postgres://'' @ (?u @ CHR '':'' # ?p) @ CHR ''@'' # r"
    by (auto simp: BuildPostgresDSN_def Let_def)
  have "takeWhile (\<lambda>c. c \<noteq> CHR ''@'') ((?u @ CHR '':'' # ?p) @ CHR ''@'' # r) = ?u @ CHR '':'' # ?p"
    by (rule takeWhile_stop) (simp add: userinfo_chars)
  moreover have "split_on (CHR '':'') (?u @ CHR '':'' # ?p) = [?u, ?p]"
    by (simp add: split_on_append userinfo_chars)
  moreover have "cutPrefix (''postgres://'' @ (?u @ CHR '':'' # ?p) @ CHR ''@'' # r) ''postgres://'' =
      Some ((?u @ CHR '':'' # ?p) @ CHR ''@'' # r)"
    by (rule cutPrefix_append)
  ultimately show ?thesis
    unfolding dsn dsnUserinfo_def by (simp add: urlUnescape_escape)
qed

end
