(* ===== verification/Ui_Resources.thy ===== *)
theory Ui_Resources
  imports Deployments
begin

text \<open>
  The temporal-ui objects (\<^verbatim>\<open>src/internal/resources/ui.go\<close>) and the ServiceMonitor
  (\<^verbatim>\<open>servicemonitor.go\<close>).  The parameter \<open>ym\<close> stands for \<^verbatim>\<open>yaml.Unmarshal\<close> into a map of strings,
  whose entries are listed in the order Go's map iteration happens to take.
\<close>

type_synonym yaml_map = "string \<Rightarrow> string goalist result"

definition UIName :: "string \<Rightarrow> string" where
  "UIName clusterName = clusterName @ ''-ui''"

definition UIClientCertName :: "string \<Rightarrow> string" where
  "UIClientCertName clusterName = clusterName @ ''-ui-client''"

definition uiPort :: int where "uiPort = 8080"
definition uiClientCertDir :: string where "uiClientCertDir = ''/etc/temporal/certs/ui-client''"

text \<open>\<^verbatim>\<open>cluster.Spec.UI\<close> is read without a nil check here; the callers test it first.\<close>

definition uiImage :: "TemporalCluster \<Rightarrow> UISpec \<Rightarrow> string" where
  "uiImage cluster u =
     ''temporalio/ui:'' @
     (if ui_Version u = [] then DefaultUIVersion (spec_Version (tc_Spec cluster)) else ui_Version u)"

definition mtlsEnabledSpec :: "TemporalCluster \<Rightarrow> bool" where
  "mtlsEnabledSpec cluster =
     (case spec_MTLS (tc_Spec cluster) of None \<Rightarrow> False | Some m \<Rightarrow> mtls_Provider m = ''cert-manager'')"

definition uiAuthEnv :: "yaml_map \<Rightarrow> UIAuthSpec \<Rightarrow> EnvVar list" where
  "uiAuthEnv ym a =
     (let providerURL = (case uia_Entra a of
            None \<Rightarrow> uia_ProviderURL a
          | Some e \<Rightarrow> ''https://login.microsoftonline.com/'' @ entraui_TenantID e @ ''/v2.0'');
          scopes = (if uia_Scopes a = [] then [''openid'', ''profile'', ''email''] else uia_Scopes a)
      in [envVal ''TEMPORAL_AUTH_ENABLED'' ''true'',
          envVal ''TEMPORAL_AUTH_TYPE'' ''oidc'',
          envVal ''TEMPORAL_AUTH_PROVIDER_URL'' providerURL,
          envVal ''TEMPORAL_AUTH_CLIENT_ID'' (uia_ClientID a),
          envVal ''TEMPORAL_AUTH_SCOPES'' (joinWith '','' scopes),
          envVal ''TEMPORAL_AUTH_CALLBACK_URL'' (uia_CallbackURL a)] @
         (case uia_ClientSecretRef a of
            None \<Rightarrow> []
          | Some r \<Rightarrow>
              [\<lparr>env_Name = ''TEMPORAL_AUTH_CLIENT_SECRET'', env_Value = [],
                env_ValueFrom = Some (SecretKeyRef (skr_Name r)
                  (if skr_Key r = [] then ''password'' else skr_Key r))\<rparr>]) @
         (case uia_ExtraEnv a of
            None \<Rightarrow> []
          | Some raw \<Rightarrow>
              if raw = [] then []
              else (case ym raw of
                      Inl _ \<Rightarrow> []
                    | Inr extra \<Rightarrow> map (\<lambda>(k, v). envVal k v) extra)))"

definition uiEnv :: "yaml_map \<Rightarrow> TemporalCluster \<Rightarrow> EnvVar list" where
  "uiEnv ym cluster =
     (let fe = FrontendServiceName (tc_Name cluster); ns = tc_Namespace cluster in
      [envVal ''TEMPORAL_ADDRESS'' (fe @ ''.'' @ ns @ ''.svc:'' @ itoa (port_GRPC (portsOf ''frontend''))),
       envVal ''TEMPORAL_UI_PORT'' (itoa uiPort)] @
      (if mtlsEnabledSpec cluster then
         [envVal ''TEMPORAL_TLS_CA'' (uiClientCertDir @ ''/ca.crt''),
          envVal ''TEMPORAL_TLS_CERT'' (uiClientCertDir @ ''/tls.crt''),
          envVal ''TEMPORAL_TLS_KEY'' (uiClientCertDir @ ''/tls.key''),
          envVal ''TEMPORAL_TLS_ENABLE_HOST_VERIFICATION'' ''true'',
          envVal ''TEMPORAL_TLS_SERVER_NAME'' (fe @ ''.'' @ ns @ ''.svc'')]
       else []) @
      (case spec_UI (tc_Spec cluster) of
         None \<Rightarrow> []
       | Some u \<Rightarrow>
           (case ui_CodecServer u of
              None \<Rightarrow> []
            | Some cs \<Rightarrow> [envVal ''TEMPORAL_CODEC_ENDPOINT'' (codec_Endpoint cs)]) @
           (case ui_Auth u of
              None \<Rightarrow> []
            | Some a \<Rightarrow> if uia_Enabled a then uiAuthEnv ym a else [])))"

definition BuildUIClientCertificate :: "TemporalCluster \<Rightarrow> Certificate result" where
  "BuildUIClientCertificate cluster =
     bindR (clusterIssuer cluster) (\<lambda>iss.
       Inr \<lparr>crt_Meta = newMeta (UIClientCertName (tc_Name cluster)) (tc_Namespace cluster)
              (StandardLabels cluster ''ui'') Map.empty,
            crt_SecretName = UIClientCertName (tc_Name cluster),
            crt_CommonName = UIName (tc_Name cluster),
            crt_DNSNames = [],
            crt_Duration = None,
            crt_RenewBefore = None,
            crt_IssuerRef = iss,
            crt_Usages = [UsageClientAuth],
            crt_Conditions = []\<rparr>)"

definition BuildUIDeployment :: "yaml_map \<Rightarrow> TemporalCluster \<Rightarrow> UISpec \<Rightarrow> Deployment" where
  "BuildUIDeployment ym cluster u =
     (let labels = StandardLabels cluster ''ui'';
          httpProbe = mkProbe (ProbeHTTP ''/'' uiPort);
          container = zeroContainer \<lparr>
            ct_Name := ''ui'', ct_Image := uiImage cluster u, ct_Env := uiEnv ym cluster,
            ct_Ports := [mkCPort ''http'' uiPort],
            ct_LivenessProbe := Some httpProbe, ct_ReadinessProbe := Some httpProbe,
            ct_VolumeMounts := (if mtlsEnabledSpec cluster
              then [mkMount ''ui-client-certs'' uiClientCertDir True] else [])\<rparr>
      in newDeployment
           (newMeta (UIName (tc_Name cluster)) (tc_Namespace cluster) labels Map.empty)
           (derefOr 1 (ui_Replicas u)) (SelectorLabels cluster ''ui'') []
           \<lparr>pt_Labels = labels, pt_Annotations = Map.empty,
            pt_Spec = zeroPodSpec \<lparr>
              pod_ImagePullSecrets := spec_ImagePullSecrets (tc_Spec cluster),
              pod_Containers := [container],
              pod_Volumes := (if mtlsEnabledSpec cluster
                then [mkVolume ''ui-client-certs'' (VolSecret (UIClientCertName (tc_Name cluster)))] else [])\<rparr>\<rparr>)"

definition BuildUIService :: "TemporalCluster \<Rightarrow> KService" where
  "BuildUIService cluster =
     \<lparr>svc_Meta = newMeta (UIName (tc_Name cluster)) (tc_Namespace cluster)
        (StandardLabels cluster ''ui'') Map.empty,
      svc_Type = ''ClusterIP'', svc_ClusterIP = [], svc_PublishNotReady = False,
      svc_Selector = SelectorLabels cluster ''ui'',
      svc_Ports = [mkSvcPort ''http'' uiPort]\<rparr>"

definition BuildUIIngress :: "TemporalCluster \<Rightarrow> Ingress option" where
  "BuildUIIngress cluster =
     (case spec_UI (tc_Spec cluster) of
        None \<Rightarrow> None
      | Some u \<Rightarrow>
      (case ui_Ingress u of
        None \<Rightarrow> None
      | Some ing \<Rightarrow>
          if \<not> ing_Enabled ing then None
          else Some
            \<lparr>ingr_Meta = newMeta (UIName (tc_Name cluster)) (tc_Namespace cluster)
               (StandardLabels cluster ''ui'') (ing_Annotations ing),
             ingr_Host = ing_Host ing,
             ingr_Path = ''/'',
             ingr_BackendName = UIName (tc_Name cluster),
             ingr_BackendPort = uiPort,
             ingr_ClassName = (if ing_IngressClassName ing \<noteq> [] then Some (ing_IngressClassName ing) else None),
             ingr_TLS = (if ing_TLSSecretName ing \<noteq> [] \<and> ing_Host ing \<noteq> []
               then [([ing_Host ing], ing_TLSSecretName ing)] else [])\<rparr>))"

section \<open>ServiceMonitor (servicemonitor.go)\<close>

definition ServiceMonitorName :: "string \<Rightarrow> string" where
  "ServiceMonitorName clusterName = clusterName"

definition BuildServiceMonitor :: "TemporalCluster \<Rightarrow> ServiceMonitor" where
  "BuildServiceMonitor cluster =
     (let user = (case spec_Metrics (tc_Spec cluster) of
            None \<Rightarrow> Map.empty
          | Some m \<Rightarrow> (case met_ServiceMonitor m of None \<Rightarrow> Map.empty | Some s \<Rightarrow> sm_Labels s))
      in \<lparr>smon_Meta = newMeta (ServiceMonitorName (tc_Name cluster)) (tc_Namespace cluster)
             ([LabelName \<mapsto> ''temporal'', LabelInstance \<mapsto> tc_Name cluster,
               LabelManagedBy \<mapsto> ''temporal-operator'', LabelCluster \<mapsto> tc_Name cluster] ++ user)
             Map.empty,
          smon_MatchLabels = [LabelName \<mapsto> ''temporal'', LabelInstance \<mapsto> tc_Name cluster],
          smon_MatchNames = [tc_Namespace cluster],
          smon_Port = ''metrics'',
          smon_Path = ''/metrics'',
          smon_Interval = ''30s''\<rparr>)"

section \<open>Laws\<close>

lemma BuildUIDeployment_selects:
  "dep_Selector (BuildUIDeployment ym cluster u) \<subseteq>\<^sub>m pt_Labels (dep_Template (BuildUIDeployment ym cluster u))"
  by (simp add: BuildUIDeployment_def newDeployment_def Let_def selector_in_standard)

text \<open>The monitor selects every headless Service the operator builds for the cluster.\<close>

lemma ServiceMonitor_selects_headless:
  "smon_MatchLabels (BuildServiceMonitor cluster) \<subseteq>\<^sub>m om_Labels (svc_Meta (BuildHeadlessService cluster svc))"
  by (auto simp: map_le_def BuildServiceMonitor_def BuildHeadlessService_def newMeta_def
      StandardLabels_def SelectorLabels_def Let_def)

end
