(* ===== verification/Config_Data.thy ===== *)
theory Config_Data
  imports Resources
begin

text \<open>
  The server configuration (\<^verbatim>\<open>src/internal/temporal/configtemplate.go\<close>) and the dynamic configuration
  (\<^verbatim>\<open>dynamicconfig.go\<close>), up to the text: \<open>BuildConfigData\<close> resolves a cluster into the data of the
  template, \<open>RenderDynamicConfig\<close> into the document to print.  The template engine and the YAML and
  JSON libraries are parameters.
\<close>

section \<open>Data\<close>

record DatastoreTLS =
  dt_Enabled :: bool
  dt_CAFile :: string
  dt_CertFile :: string
  dt_KeyFile :: string
  dt_EnableHostVerification :: bool
  dt_ServerName :: string

record DatastoreConfig =
  dcf_Kind :: string
  dcf_PluginName :: string
  dcf_DatabaseName :: string
  dcf_ConnectAddr :: string
  dcf_User :: string
  dcf_Password :: string
  dcf_PasswordCommand :: string
  dcf_MaxConns :: int
  dcf_MaxIdleConns :: int
  dcf_MaxConnLifetime :: string
  dcf_Hosts :: string
  dcf_Keyspace :: string
  dcf_Port :: int
  dcf_Datacenter :: string
  dcf_ESVersion :: string
  dcf_URLScheme :: string
  dcf_URLHost :: string
  dcf_VisibilityIndex :: string
  dcf_TLS :: "DatastoreTLS option"

record MTLSConfig =
  mc_Enabled :: bool
  mc_RefreshInterval :: string
  mc_RequireClientAuth :: bool
  mc_InternodeServerCert :: string
  mc_InternodeServerKey :: string
  mc_InternodeClientCA :: string
  mc_InternodeServerName :: string
  mc_FrontendServerCert :: string
  mc_FrontendServerKey :: string
  mc_FrontendServerName :: string
  mc_SystemWorkerCert :: string
  mc_SystemWorkerKey :: string
  mc_SystemWorkerCA :: string
  mc_SystemWorkerName :: string

record MetricsConfig =
  mcf_Enabled :: bool
  mcf_ListenAddress :: string

record AuthConfig =
  ac_Authorizer :: string
  ac_EmitAuthorizer :: bool
  ac_ClaimMapper :: string
  ac_PermissionsClaimName :: string
  ac_KeySourceURIs :: "string list"
  ac_RefreshInterval :: string
  ac_ExtraConfig :: "gomap option"

record ArchivalConfig =
  arc_HistoryState :: string
  arc_VisibilityState :: string

record ConfigData =
  cd_Version :: string
  cd_LogLevel :: string
  cd_NumHistoryShards :: int
  cd_DefaultStoreName :: string
  cd_VisibilityStoreName :: string
  cd_DefaultStore :: DatastoreConfig
  cd_VisibilityStore :: DatastoreConfig
  cd_BindOnIP :: string
  cd_BroadcastAddress :: string
  cd_MTLS :: MTLSConfig
  cd_Metrics :: MetricsConfig
  cd_Authorization :: "AuthConfig option"
  cd_Services :: "string \<rightharpoonup> ServicePort"
  cd_UseInternalFrontend :: bool
  cd_EnableGlobalNamespace :: bool
  cd_CurrentClusterName :: string
  cd_MasterClusterName :: string
  cd_FailoverVersionIncrement :: int
  cd_InitialFailoverVersion :: int
  cd_DynamicConfigPath :: string
  cd_Archival :: "ArchivalConfig option"
  cd_PublicClient :: string

record BuildOptions =
  bo_BindOnIP :: string
  bo_BroadcastAddress :: string
  bo_DynamicConfigPath :: string
  bo_DefaultStorePassword :: string
  bo_VisibilityStorePassword :: string
  bo_DefaultStorePasswordCommand :: string
  bo_VisibilityStorePasswordCommand :: string
  bo_PublicClientHostPort :: string

text \<open>\<^verbatim>\<open>yaml.Unmarshal\<close> into a generic map: the keys with the text of their values.\<close>

type_synonym yaml_any = "string \<Rightarrow> gomap result"

section \<open>Operations\<close>

definition broadcastAddressOrDefault :: "string \<Rightarrow> string" where
  "broadcastAddressOrDefault addr = (if addr \<noteq> [] then addr else ''${POD_IP}'')"

definition sqlConnLifetime :: "SQLDatastoreSpec \<Rightarrow> string" where
  "sqlConnLifetime spec =
     (case sql_MaxConnLifetime spec of Some d \<Rightarrow> durationString d | None \<Rightarrow> ''1h'')"

definition orDefault :: "int \<Rightarrow> int \<Rightarrow> int" where
  "orDefault v def = (if v = 0 then def else v)"

definition datastoreTLS :: "DatastoreTLSSpec option \<Rightarrow> string \<Rightarrow> DatastoreTLS option" where
  "datastoreTLS spec dir =
     (case spec of
        None \<Rightarrow> None
      | Some t \<Rightarrow>
          if \<not> dtls_Enabled t then None
          else Some \<lparr>dt_Enabled = True, dt_CAFile = dir @ ''/ca.crt'', dt_CertFile = dir @ ''/tls.crt'',
                     dt_KeyFile = dir @ ''/tls.key'',
                     dt_EnableHostVerification = dtls_EnableHostVerification t,
                     dt_ServerName = dtls_ServerName t\<rparr>)"

definition zeroDatastore :: DatastoreConfig where
  "zeroDatastore =
     \<lparr>dcf_Kind = [], dcf_PluginName = [], dcf_DatabaseName = [], dcf_ConnectAddr = [], dcf_User = [],
      dcf_Password = [], dcf_PasswordCommand = [], dcf_MaxConns = 0, dcf_MaxIdleConns = 0,
      dcf_MaxConnLifetime = [], dcf_Hosts = [], dcf_Keyspace = [], dcf_Port = 0, dcf_Datacenter = [],
      dcf_ESVersion = [], dcf_URLScheme = [], dcf_URLHost = [], dcf_VisibilityIndex = [], dcf_TLS = None\<rparr>"

definition persistenceTLSdir :: string where "persistenceTLSdir = ''/etc/temporal/certs/persistence''"

definition buildDatastore :: "DatastoreSpec \<Rightarrow> string \<Rightarrow> string \<Rightarrow> string \<Rightarrow> (DatastoreConfig \<times> string) result" where
  "buildDatastore store storeName password passwordCommand =
     (case ds_SQL store of
        Some s \<Rightarrow>
          Inr (zeroDatastore \<lparr>
                 dcf_Kind := ''sql'', dcf_PluginName := sql_PluginName s,
                 dcf_DatabaseName := sql_Database s,
                 dcf_ConnectAddr := sql_Host s @ '':'' @ itoa (sql_Port s),
                 dcf_User := sql_User s, dcf_Password := password,
                 dcf_PasswordCommand := passwordCommand,
                 dcf_MaxConns := orDefault (sql_MaxConns s) 20,
                 dcf_MaxIdleConns := orDefault (sql_MaxIdleConns s) 20,
                 dcf_MaxConnLifetime := sqlConnLifetime s,
                 dcf_TLS := datastoreTLS (sql_TLS s) (persistenceTLSdir @ ''/'' @ storeName)\<rparr>, ''sql'')
      | None \<Rightarrow>
      (case ds_Cassandra store of
        Some c \<Rightarrow>
          Inr (zeroDatastore \<lparr>
                 dcf_Kind := ''cassandra'', dcf_Hosts := joinWith '','' (cas_Hosts c),
                 dcf_Keyspace := cas_Keyspace c, dcf_User := cas_User c, dcf_Password := password,
                 dcf_Port := cas_Port c, dcf_Datacenter := cas_Datacenter c, dcf_MaxConns := 20,
                 dcf_TLS := datastoreTLS (cas_TLS c) (persistenceTLSdir @ ''/'' @ storeName)\<rparr>, ''cassandra'')
      | None \<Rightarrow>
      (case ds_Elasticsearch store of
        Some e \<Rightarrow>
          Inr (zeroDatastore \<lparr>
                 dcf_Kind := ''elasticsearch'', dcf_ESVersion := es_Version e,
                 dcf_URLScheme := (case es_TLS e of
                     None \<Rightarrow> ''http'' | Some t \<Rightarrow> if dtls_Enabled t then ''https'' else ''http''),
                 dcf_URLHost := es_URL e, dcf_User := es_Username e, dcf_Password := password,
                 dcf_VisibilityIndex := (case map_of (es_Indices e) ''visibility'' of
                     Some v \<Rightarrow> v | None \<Rightarrow> ''temporal_visibility_v1'')\<rparr>, ''elasticsearch'')
      | None \<Rightarrow> Inl (ErrMsg (''datastore '' @ goQuote storeName @ '' has no backend configured'')))))"

definition buildMetrics :: "TemporalCluster \<Rightarrow> MetricsConfig" where
  "buildMetrics cluster =
     (let on = (\<lambda>port. \<lparr>mcf_Enabled = True, mcf_ListenAddress = ''0.0.0.0:'' @ itoa port\<rparr>) in
      case spec_Metrics (tc_Spec cluster) of
        None \<Rightarrow> on 9090
      | Some m \<Rightarrow>
          if \<not> met_Enabled m then \<lparr>mcf_Enabled = False, mcf_ListenAddress = []\<rparr>
          else on (if met_Port m \<noteq> 0 then met_Port m else 9090))"

definition zeroMTLS :: MTLSConfig where
  "zeroMTLS =
     \<lparr>mc_Enabled = False, mc_RefreshInterval = [], mc_RequireClientAuth = False,
      mc_InternodeServerCert = [], mc_InternodeServerKey = [], mc_InternodeClientCA = [],
      mc_InternodeServerName = [], mc_FrontendServerCert = [], mc_FrontendServerKey = [],
      mc_FrontendServerName = [], mc_SystemWorkerCert = [], mc_SystemWorkerKey = [],
      mc_SystemWorkerCA = [], mc_SystemWorkerName = []\<rparr>"

definition buildMTLS :: "TemporalCluster \<Rightarrow> MTLSConfig" where
  "buildMTLS cluster =
     (case spec_MTLS (tc_Spec cluster) of
        None \<Rightarrow> zeroMTLS
      | Some m \<Rightarrow>
          (let internodeCertDir = ''/etc/temporal/certs/internode'';
               frontendCertDir = ''/etc/temporal/certs/frontend'';
               frontendServerName =
                 tc_Name cluster @ ''-frontend.'' @ tc_Namespace cluster @ ''.svc.cluster.local''
           in \<lparr>mc_Enabled = True,
               mc_RefreshInterval = (case mtls_RefreshInterval m of
                  None \<Rightarrow> ''720h'' | Some d \<Rightarrow> durationString d),
               mc_RequireClientAuth = True,
               mc_InternodeServerCert = internodeCertDir @ ''/tls.crt'',
               mc_InternodeServerKey = internodeCertDir @ ''/tls.key'',
               mc_InternodeClientCA = internodeCertDir @ ''/ca.crt'',
               mc_InternodeServerName = tc_Name cluster @ ''-internode'',
               mc_FrontendServerCert = frontendCertDir @ ''/tls.crt'',
               mc_FrontendServerKey = frontendCertDir @ ''/tls.key'',
               mc_FrontendServerName = frontendServerName,
               mc_SystemWorkerCert = internodeCertDir @ ''/tls.crt'',
               mc_SystemWorkerKey = internodeCertDir @ ''/tls.key'',
               mc_SystemWorkerCA = internodeCertDir @ ''/ca.crt'',
               mc_SystemWorkerName = frontendServerName\<rparr>))"

definition buildAuthKeySourceURIs :: "AuthorizationSpec \<Rightarrow> AuthConfig \<Rightarrow> AuthConfig \<times> bool" where
  "buildAuthKeySourceURIs auth cfg =
     (let c1 = (case auth_JWTKeyProvider auth of
            None \<Rightarrow> cfg
          | Some j \<Rightarrow>
              (let c = cfg \<lparr>ac_KeySourceURIs := ac_KeySourceURIs cfg @ jwt_KeySourceURIs j\<rparr>
               in case jwt_RefreshInterval j of
                    None \<Rightarrow> c
                  | Some d \<Rightarrow> c \<lparr>ac_RefreshInterval := durationString d\<rparr>));
          c2 = (case auth_Entra auth of
            None \<Rightarrow> c1
          | Some e \<Rightarrow>
              c1 \<lparr>ac_KeySourceURIs := ac_KeySourceURIs c1 @
                    [''https://login.microsoftonline.com/'' @ entra_TenantID e @ ''/discovery/v2.0/keys''],
                  ac_PermissionsClaimName :=
                    (if ac_PermissionsClaimName c1 = [] then ''roles'' else ac_PermissionsClaimName c1)\<rparr>)
      in (c2, ac_KeySourceURIs c2 \<noteq> []))"

definition applyJWTDefaults :: "AuthorizationSpec \<Rightarrow> AuthConfig \<Rightarrow> AuthConfig" where
  "applyJWTDefaults auth cfg =
     (let c1 = (case auth_Authorizer auth of
            None \<Rightarrow> cfg \<lparr>ac_Authorizer := ''default'', ac_EmitAuthorizer := True\<rparr>
          | Some _ \<Rightarrow> cfg);
          c2 = (if ac_ClaimMapper c1 = [] then c1 \<lparr>ac_ClaimMapper := ''default''\<rparr> else c1)
      in if ac_PermissionsClaimName c2 = [] then c2 \<lparr>ac_PermissionsClaimName := ''permissions''\<rparr> else c2)"

definition applyAuthConfigPassthrough :: "yaml_any \<Rightarrow> AuthorizationSpec \<Rightarrow> AuthConfig \<Rightarrow> AuthConfig result" where
  "applyAuthConfigPassthrough ya auth cfg =
     (case auth_Config auth of
        None \<Rightarrow> Inr cfg
      | Some raw \<Rightarrow>
          if raw = [] then Inr cfg
          else (case ya raw of
             Inl e \<Rightarrow> Inl (WrapErr ''authorization.config'' e)
           | Inr extra \<Rightarrow>
               (let c0 = cfg \<lparr>ac_ExtraConfig := Some extra\<rparr>;
                    c1 = (if extra ''permissionsClaimName'' \<noteq> None then c0 \<lparr>ac_PermissionsClaimName := []\<rparr> else c0);
                    c2 = (if extra ''authorizer'' \<noteq> None
                          then c1 \<lparr>ac_Authorizer := [], ac_EmitAuthorizer := False\<rparr> else c1);
                    c3 = (if extra ''claimMapper'' \<noteq> None then c2 \<lparr>ac_ClaimMapper := []\<rparr> else c2);
                    c4 = (if extra ''jwtKeyProvider'' \<noteq> None
                          then c3 \<lparr>ac_KeySourceURIs := [], ac_RefreshInterval := []\<rparr> else c3)
                in Inr c4)))"

definition buildAuth :: "yaml_any \<Rightarrow> TemporalCluster \<Rightarrow> AuthConfig option result" where
  "buildAuth ya cluster =
     (case spec_Authorization (tc_Spec cluster) of
        None \<Rightarrow> Inr None
      | Some auth \<Rightarrow>
          (let cfg0 = \<lparr>ac_Authorizer = [], ac_EmitAuthorizer = False,
                       ac_ClaimMapper = auth_ClaimMapper auth,
                       ac_PermissionsClaimName = auth_PermissionsClaimName auth,
                       ac_KeySourceURIs = [], ac_RefreshInterval = [], ac_ExtraConfig = None\<rparr>;
               cfg1 = (case auth_Authorizer auth of
                   None \<Rightarrow> cfg0
                 | Some a \<Rightarrow> cfg0 \<lparr>ac_Authorizer := a, ac_EmitAuthorizer := True\<rparr>);
               (cfg2, jwtConfigured) = buildAuthKeySourceURIs auth cfg1;
               cfg3 = (if jwtConfigured then applyJWTDefaults auth cfg2 else cfg2)
           in case applyAuthConfigPassthrough ya auth cfg3 of
                Inl e \<Rightarrow> Inl e
              | Inr cfg \<Rightarrow>
                  if \<not> ac_EmitAuthorizer cfg \<and> ac_ClaimMapper cfg = [] \<and> \<not> jwtConfigured \<and> ac_ExtraConfig cfg = None
                  then Inr None else Inr (Some cfg)))"

definition applyClusterMetadata :: "ConfigData \<Rightarrow> ClusterMetadataSpec option \<Rightarrow> ConfigData" where
  "applyClusterMetadata d cm =
     (case cm of
        None \<Rightarrow> d
      | Some m \<Rightarrow>
          d \<lparr>cd_EnableGlobalNamespace := cm_EnableGlobalNamespace m,
             cd_FailoverVersionIncrement := derefOr (cd_FailoverVersionIncrement d) (cm_FailoverVersionIncrement m),
             cd_CurrentClusterName :=
               (if cm_CurrentClusterName m \<noteq> [] then cm_CurrentClusterName m else cd_CurrentClusterName d),
             cd_MasterClusterName :=
               (if cm_MasterClusterName m \<noteq> [] then cm_MasterClusterName m else cd_MasterClusterName d),
             cd_InitialFailoverVersion := derefOr (cd_InitialFailoverVersion d) (cm_InitialFailoverVersion m)\<rparr>)"

definition BuildConfigData :: "yaml_any \<Rightarrow> TemporalCluster \<Rightarrow> BuildOptions \<Rightarrow> ConfigData result" where
  "BuildConfigData ya cluster opts =
     (let spec = tc_Spec cluster; pers = spec_Persistence spec in
      case buildDatastore (pers_DefaultStore pers) ''default''
             (bo_DefaultStorePassword opts) (bo_DefaultStorePasswordCommand opts) of
        Inl e \<Rightarrow> Inl (WrapErr ''default store'' e)
      | Inr (defaultStore, _) \<Rightarrow>
      (case buildDatastore (pers_VisibilityStore pers) ''visibility''
             (bo_VisibilityStorePassword opts) (bo_VisibilityStorePasswordCommand opts) of
        Inl e \<Rightarrow> Inl (WrapErr ''visibility store'' e)
      | Inr (visStore, visKind) \<Rightarrow>
      (case buildAuth ya cluster of
        Inl e \<Rightarrow> Inl (WrapErr ''authorization'' e)
      | Inr auth \<Rightarrow>
          (let useInternal = internalFrontendEnabled spec;
               d0 = \<lparr>cd_Version = spec_Version spec,
                     cd_LogLevel = ''info'',
                     cd_NumHistoryShards = spec_NumHistoryShards spec,
                     cd_DefaultStoreName = ''default'',
                     cd_VisibilityStoreName =
                       (if visKind = ''elasticsearch'' then ''es-visibility'' else ''visibility''),
                     cd_DefaultStore = defaultStore,
                     cd_VisibilityStore = visStore,
                     cd_BindOnIP = (if bo_BindOnIP opts = [] then ''0.0.0.0'' else bo_BindOnIP opts),
                     cd_BroadcastAddress = broadcastAddressOrDefault (bo_BroadcastAddress opts),
                     cd_MTLS = buildMTLS cluster,
                     cd_Metrics = buildMetrics cluster,
                     cd_Authorization = auth,
                     cd_Services = defaultServices,
                     cd_UseInternalFrontend = useInternal,
                     cd_EnableGlobalNamespace = False,
                     cd_CurrentClusterName = ''active'',
                     cd_MasterClusterName = ''active'',
                     cd_FailoverVersionIncrement = 10,
                     cd_InitialFailoverVersion = 1,
                     cd_DynamicConfigPath = (if bo_DynamicConfigPath opts = []
                       then ''/etc/temporal/dynamicconfig/dynamic_config.yaml'' else bo_DynamicConfigPath opts),
                     cd_Archival = (if spec_Archival spec \<noteq> None
                       then Some \<lparr>arc_HistoryState = ''enabled'', arc_VisibilityState = ''enabled''\<rparr> else None),
                     cd_PublicClient = []\<rparr>;
               d1 = applyClusterMetadata d0 (spec_ClusterMetadata spec)
           in if \<not> useInternal
              then Inr (d1 \<lparr>cd_PublicClient := (if bo_PublicClientHostPort opts = []
                     then ''127.0.0.1:'' @ itoa 7233 else bo_PublicClientHostPort opts)\<rparr>)
              else Inr d1))))"

definition RenderClusterConfig ::
  "(ConfigData \<Rightarrow> string result) \<Rightarrow> yaml_any \<Rightarrow> TemporalCluster \<Rightarrow> BuildOptions \<Rightarrow> string result" where
  "RenderClusterConfig render ya cluster opts = bindR (BuildConfigData ya cluster opts) render"

section \<open>Dynamic configuration (dynamicconfig.go)\<close>

record dynamicConfigEntry =
  dce_Value :: "string option"
  dce_Constraints :: "string goalist option"

definition isKnownDynamicConfigKey :: "string \<Rightarrow> string \<Rightarrow> bool" where
  "isKnownDynamicConfigKey key version = True"

definition constraintsToMap :: "DynamicConfigConstraints \<Rightarrow> string goalist option" where
  "constraintsToMap c =
     (let m = (if dcc_Namespace c \<noteq> [] then [(''namespace'', dcc_Namespace c)] else []) @
              (if dcc_TaskQueueName c \<noteq> [] then [(''taskQueueName'', dcc_TaskQueueName c)] else []) @
              (if dcc_TaskQueueType c \<noteq> [] then [(''taskQueueType'', dcc_TaskQueueType c)] else [])
      in if m = [] then None else Some m)"

text \<open>The parameter \<open>js\<close> is \<^verbatim>\<open>json.Unmarshal\<close> of one value, giving a printable form of it.\<close>

definition decodeRawValue :: "(string \<Rightarrow> string result) \<Rightarrow> string \<Rightarrow> string option result" where
  "decodeRawValue js raw =
     (if raw = [] then Inr None
      else case js raw of
             Inl e \<Rightarrow> Inl (WrapErr ''invalid JSON value'' e)
           | Inr v \<Rightarrow> Inr (Some v))"

fun decodeEntries :: "(string \<Rightarrow> string result) \<Rightarrow> DynamicConfigValue list \<Rightarrow> dynamicConfigEntry list result" where
  "decodeEntries js [] = Inr []"
| "decodeEntries js (v # vs) =
     (case decodeRawValue js (dcv_Value v) of
        Inl e \<Rightarrow> Inl e
      | Inr val \<Rightarrow>
          bindR (decodeEntries js vs) (\<lambda>es.
            Inr (\<lparr>dce_Value = val, dce_Constraints =
                    (case dcv_Constraints v of None \<Rightarrow> None | Some c \<Rightarrow> constraintsToMap c)\<rparr> # es)))"

text \<open>The loop over the sorted keys: the document, the warnings, and the error if there is one.\<close>

fun renderKeys ::
  "(string \<Rightarrow> string result) \<Rightarrow> DynamicConfigValue list goalist \<Rightarrow> string list \<Rightarrow> string \<Rightarrow> string list \<Rightarrow>
   dynamicConfigEntry list goalist \<Rightarrow> string list \<Rightarrow>
   dynamicConfigEntry list goalist result \<times> string list" where
  "renderKeys js vals removed version [] doc warnings = (Inr doc, warnings)"
| "renderKeys js vals removed version (key # ks) doc warnings =
     (if key \<in> set removed
      then (Inl (ErrMsg (''dynamic config key '' @ goQuote key @ '' was removed in Temporal '' @ version)), warnings)
      else
        (let warnings' = (if isKnownDynamicConfigKey key version then warnings
               else warnings @ [''dynamic config key '' @ goQuote key @ '' is not known for Temporal '' @ version])
         in case decodeEntries js (case map_of vals key of None \<Rightarrow> [] | Some vs \<Rightarrow> vs) of
              Inl e \<Rightarrow> (Inl (WrapErr (''dynamic config key '' @ goQuote key) e), warnings')
            | Inr es \<Rightarrow> renderKeys js vals removed version ks (doc @ [(key, es)]) warnings'))"

text \<open>The parameter \<open>marshal\<close> is \<^verbatim>\<open>yaml.Marshal\<close> of the document.\<close>

definition RenderDynamicConfig ::
  "(dynamicConfigEntry list goalist \<Rightarrow> string result) \<Rightarrow> (string \<Rightarrow> string result) \<Rightarrow>
   DynamicConfigSpec option \<Rightarrow> string \<Rightarrow> string result \<times> string list" where
  "RenderDynamicConfig marshal js spec version =
     (case spec of
        None \<Rightarrow> (Inr [], [])
      | Some sp \<Rightarrow>
          if dc_Values sp = [] then (Inr [], [])
          else
            (let removed = (case LookupVersion version of Inl _ \<Rightarrow> [] | Inr i \<Rightarrow> vi_RemovedDynamicConfig i);
                 (r, w) = renderKeys js (dc_Values sp) removed version (sort (map fst (dc_Values sp))) [] []
             in case r of
                  Inl e \<Rightarrow> (Inl e, w)
                | Inr doc \<Rightarrow>
                    (case marshal doc of
                       Inl e \<Rightarrow> (Inl (WrapErr ''marshaling dynamic config'' e), w)
                     | Inr out \<Rightarrow> (Inr out, w))))"

section \<open>Properties\<close>

subsection \<open>Dynamic configuration\<close>

abbreviation entriesOf :: "(string \<Rightarrow> string result) \<Rightarrow> DynamicConfigValue list goalist \<Rightarrow> string \<Rightarrow> dynamicConfigEntry list result" where
  "entriesOf js vals key \<equiv> decodeEntries js (case map_of vals key of None \<Rightarrow> [] | Some vs \<Rightarrow> vs)"

lemma renderKeys_ok:
  assumes "renderKeys js vals removed version ks doc w = (Inr doc', w')"
  shows "\<exists>ess. doc' = doc @ zip ks ess \<and> list_all2 (\<lambda>k es. entriesOf js vals k = Inr es) ks ess \<and>
    set ks \<inter> set removed = {}"
  using assms
proof (induction js vals removed version ks doc w arbitrary: doc' w' rule: renderKeys.induct)
  case (2 js vals removed version key ks doc w)
  then obtain es where not_removed: "key \<notin> set removed" and es: "entriesOf js vals key = Inr es"
    by (auto simp: Let_def split: if_splits sum.splits)
  then obtain ess where "doc' = (doc @ [(key, es)]) @ zip ks ess"
    "list_all2 (\<lambda>k es. entriesOf js vals k = Inr es) ks ess" "set ks \<inter> set removed = {}"
    using "2.IH" [OF not_removed refl es] "2.prems" by (auto simp: Let_def)
  then show ?case using not_removed es by (intro exI [of _ "es # ess"]) simp
qed simp

lemma renderKeys_cong:
  "map_of vals = map_of vals' \<Longrightarrow> renderKeys js vals removed version ks doc w = renderKeys js vals' removed version ks doc w"
  by (induction js vals removed version ks doc w rule: renderKeys.induct) (auto simp: Let_def split: sum.splits)

lemma map_of_mset:
  "distinct (map fst xs) \<Longrightarrow> mset xs = mset ys \<Longrightarrow> map_of xs = map_of ys"
  by (metis map_of_inject_set mset_eq_setD mset_map mset_eq_imp_distinct_iff)

text \<open>
  C36: a rendered dynamic configuration holds exactly the keys of the spec, in sorted order, each with
  the decoded values of the spec; none of them was removed in the version rendered for.
\<close>

theorem dynamic_config_contents:
  assumes "RenderDynamicConfig marshal js (Some sp) version = (Inr out, w)" and "dc_Values sp \<noteq> []"
    and "LookupVersion version = Inr info"
  shows "\<exists>doc. marshal doc = Inr out \<and> map fst doc = sort (map fst (dc_Values sp)) \<and>
    (\<forall>(k, es) \<in> set doc. entriesOf js (dc_Values sp) k = Inr es \<and> k \<notin> set (vi_RemovedDynamicConfig info))"
proof -
  let ?ks = "sort (map fst (dc_Values sp))"
  obtain doc where doc: "renderKeys js (dc_Values sp) (vi_RemovedDynamicConfig info) version ?ks [] [] = (Inr doc, w)"
    "marshal doc = Inr out"
    using assms by (auto simp: RenderDynamicConfig_def Let_def split: prod.splits sum.splits)
  then obtain ess where ess: "doc = zip ?ks ess" "list_all2 (\<lambda>k es. entriesOf js (dc_Values sp) k = Inr es) ?ks ess"
    "set ?ks \<inter> set (vi_RemovedDynamicConfig info) = {}"
    using renderKeys_ok [OF doc(1)] by auto
  have "\<forall>(k, es) \<in> set doc. entriesOf js (dc_Values sp) k = Inr es \<and> k \<notin> set (vi_RemovedDynamicConfig info)"
    using ess(2,3) set_zip_leftD [of _ _ ?ks ess] unfolding ess(1) list_all2_iff by blast
  moreover have "map fst doc = ?ks"
    using list_all2_lengthD [OF ess(2)] by (simp add: ess(1))
  ultimately show ?thesis using doc(2) by blast
qed

text \<open>
  Rendering a dynamic configuration does not depend on the order in which Go iterates over the
  map of values.
\<close>

theorem dynamic_config_deterministic:
  assumes "distinct (map fst (dc_Values sp))" and "mset (dc_Values sp) = mset (dc_Values sp')"
  shows "RenderDynamicConfig marshal js (Some sp) version = RenderDynamicConfig marshal js (Some sp') version"
proof -
  have "sort (map fst (dc_Values sp)) = sort (map fst (dc_Values sp'))"
    by (rule properties_for_sort) (simp_all add: assms(2) [symmetric])
  moreover have "map_of (dc_Values sp) = map_of (dc_Values sp')"
    using assms by (rule map_of_mset)
  moreover have "dc_Values sp = [] \<longleftrightarrow> dc_Values sp' = []"
    using assms(2) by auto
  ultimately show ?thesis
    by (simp add: RenderDynamicConfig_def renderKeys_cong [of "dc_Values sp" "dc_Values sp'"])
qed

subsection \<open>Authorization\<close>

lemma auth_parts_extra:
  "ac_ExtraConfig (fst (buildAuthKeySourceURIs auth cfg)) = ac_ExtraConfig cfg"
  "ac_ExtraConfig (applyJWTDefaults auth cfg) = ac_ExtraConfig cfg"
  by (auto simp: buildAuthKeySourceURIs_def applyJWTDefaults_def Let_def split: option.splits)

text \<open>The result of \<open>buildAuth\<close> comes out of the pass-through of a configuration without extra keys.\<close>

lemma buildAuth_passthrough:
  assumes "buildAuth ya cluster = Inr (Some cfg)"
  obtains auth cfg0 where "spec_Authorization (tc_Spec cluster) = Some auth" "ac_ExtraConfig cfg0 = None"
    "applyAuthConfigPassthrough ya auth cfg0 = Inr cfg"
proof -
  obtain auth where auth: "spec_Authorization (tc_Spec cluster) = Some auth"
    using assms by (auto simp: buildAuth_def split: option.splits)
  let ?cfg0 = "\<lparr>ac_Authorizer = [], ac_EmitAuthorizer = False, ac_ClaimMapper = auth_ClaimMapper auth,
      ac_PermissionsClaimName = auth_PermissionsClaimName auth, ac_KeySourceURIs = [], ac_RefreshInterval = [],
      ac_ExtraConfig = None\<rparr>"
  let ?cfg1 = "case auth_Authorizer auth of None \<Rightarrow> ?cfg0 | Some a \<Rightarrow> ?cfg0 \<lparr>ac_Authorizer := a, ac_EmitAuthorizer := True\<rparr>"
  obtain cfg2 jwt where cfg2: "buildAuthKeySourceURIs auth ?cfg1 = (cfg2, jwt)" by fastforce
  let ?cfg3 = "if jwt then applyJWTDefaults auth cfg2 else cfg2"
  have "ac_ExtraConfig cfg2 = None"
    using auth_parts_extra(1) [of auth ?cfg1] cfg2 by (simp split: option.splits)
  then have "ac_ExtraConfig ?cfg3 = None" by (simp add: auth_parts_extra)
  moreover have "applyAuthConfigPassthrough ya auth ?cfg3 = Inr cfg"
    using assms auth cfg2 by (simp add: buildAuth_def Let_def split: sum.splits if_splits)
  ultimately show thesis using auth that by blast
qed

text \<open>
  No authorization key is rendered twice: a key that the pass-through configuration sets is
  dropped from the structured part.
\<close>

theorem auth_keys_not_duplicated:
  assumes "buildAuth ya cluster = Inr (Some cfg)" and "ac_ExtraConfig cfg = Some extra"
  shows "(extra ''permissionsClaimName'' \<noteq> None \<longrightarrow> ac_PermissionsClaimName cfg = []) \<and>
    (extra ''authorizer'' \<noteq> None \<longrightarrow> \<not> ac_EmitAuthorizer cfg) \<and>
    (extra ''claimMapper'' \<noteq> None \<longrightarrow> ac_ClaimMapper cfg = []) \<and>
    (extra ''jwtKeyProvider'' \<noteq> None \<longrightarrow> ac_KeySourceURIs cfg = [] \<and> ac_RefreshInterval cfg = [])"
proof -
  from buildAuth_passthrough [OF assms(1)] obtain auth cfg0 where "ac_ExtraConfig cfg0 = None"
    "applyAuthConfigPassthrough ya auth cfg0 = Inr cfg" by blast
  then show ?thesis
    using assms(2)
    by (auto simp: applyAuthConfigPassthrough_def Let_def split: option.splits if_splits sum.splits)
qed

end
