(* ===== verification/Plan.thy ===== *)
theory Plan
  imports Schema_Jobs Ui_Resources Config_Data
begin

text \<open>
  The desired object set of a cluster (\<^verbatim>\<open>src/internal/plan\<close>): the pure part the controller and the
  preview share.  The record \<open>planlibs\<close> collects the third-party functions the plan calls (patching,
  YAML and JSON libraries, the template engine).  The lemmas show that no two planned objects have
  the same identity.
\<close>

record planlibs =
  pl_smp :: smp
  pl_yamlMap :: yaml_map
  pl_yamlAny :: yaml_any
  pl_render :: "ConfigData \<Rightarrow> string result"
  pl_marshal :: "dynamicConfigEntry list goalist \<Rightarrow> string result"
  pl_json :: "string \<Rightarrow> string result"

datatype Phase = PhasePersistenceSchema | PhaseCoreServices | PhaseMTLS | PhaseUI | PhaseMonitoring

text \<open>
  A planned object with its phase.  The flag records that the object's own label map is the label
  map of its pod template, as Go's maps are references.
\<close>

record PlannedObject =
  plo_Object :: KObj
  plo_Phase :: Phase
  plo_SharedLabels :: bool

definition tag :: "Phase \<Rightarrow> KObj list \<Rightarrow> PlannedObject list" where
  "tag phase objs = map (\<lambda>o'. \<lparr>plo_Object = o', plo_Phase = phase, plo_SharedLabels = False\<rparr>) objs"

section \<open>Schema Jobs (plan/schema.go)\<close>

definition planSchemaJob :: "planlibs \<Rightarrow> TemporalCluster \<Rightarrow> SchemaStore \<Rightarrow> DatastoreSpec \<Rightarrow> Job result" where
  "planSchemaJob L cluster name store =
     (case BuildSchemaJob (pl_smp L)
        \<lparr>sjp_Cluster = cluster, sjp_SQLSpec = ds_SQL store, sjp_CassandraSpec = ds_Cassandra store,
         sjp_Store = name, sjp_Action = ActionSetup, sjp_SchemaVersionDir = PostgresSchemaDir,
         sjp_PasswordCommand = [],
         sjp_PodTemplate = (case pers_SchemaJob (spec_Persistence (tc_Spec cluster)) of
            None \<Rightarrow> None | Some j \<Rightarrow> sj_PodTemplate j)\<rparr> of
        Inl e \<Rightarrow> Inl (wrapErr (''building schema job for '' @ storeString name @ '' store'') e)
      | Inr j \<Rightarrow> Inr j)"

definition PlanSchemaJobs :: "planlibs \<Rightarrow> TemporalCluster \<Rightarrow> PlannedObject list result" where
  "PlanSchemaJobs L cluster =
     (let p = spec_Persistence (tc_Spec cluster) in
      bindR (planSchemaJob L cluster StoreDefault (pers_DefaultStore p)) (\<lambda>j1.
      bindR (planSchemaJob L cluster StoreVisibility (pers_VisibilityStore p)) (\<lambda>j2.
        Inr (tag PhasePersistenceSchema [OJob j1, OJob j2]))))"

section \<open>Certificates, UI, monitoring\<close>

definition PlanMTLS :: "TemporalCluster \<Rightarrow> PlannedObject list result" where
  "PlanMTLS cluster =
     (if \<not> MTLSEnabled cluster then Inr []
      else bindR (BuildInternodeCertificate cluster) (\<lambda>c1.
           bindR (BuildFrontendCertificate cluster) (\<lambda>c2.
             Inr (tag PhaseMTLS [OCertificate c1, OCertificate c2]))))"

definition PlanUI :: "planlibs \<Rightarrow> TemporalCluster \<Rightarrow> PlannedObject list result" where
  "PlanUI L cluster =
     (case spec_UI (tc_Spec cluster) of
        None \<Rightarrow> Inr []
      | Some u \<Rightarrow>
          if \<not> ui_Enabled u then Inr []
          else bindR (if MTLSEnabled cluster
                      then bindR (BuildUIClientCertificate cluster) (\<lambda>c. Inr [OCertificate c]) else Inr [])
                 (\<lambda>certs.
                    Inr (tag PhaseUI (certs @
                      [ODeployment (BuildUIDeployment (pl_yamlMap L) cluster u), OService (BuildUIService cluster)] @
                      (case BuildUIIngress cluster of None \<Rightarrow> [] | Some i \<Rightarrow> [OIngress i])))))"

definition serviceMonitorRequested :: "TemporalCluster \<Rightarrow> bool" where
  "serviceMonitorRequested cluster =
     (case spec_Metrics (tc_Spec cluster) of
        None \<Rightarrow> False
      | Some m \<Rightarrow> (case met_ServiceMonitor m of None \<Rightarrow> False | Some s \<Rightarrow> sm_Enabled s))"

definition PlanMonitoring :: "TemporalCluster \<Rightarrow> PlannedObject list" where
  "PlanMonitoring cluster =
     (if \<not> serviceMonitorRequested cluster then []
      else tag PhaseMonitoring [OServiceMonitor (BuildServiceMonitor cluster)])"

section \<open>Services (plan/services.go)\<close>

record ServicesInput =
  sin_RenderedConfig :: string
  sin_RenderedDynamicConfig :: string
  sin_ConfigHash :: string
  sin_DynamicConfigHash :: string
  sin_ServiceVersions :: gomap
  sin_MTLS :: "MTLSMounts option"

text \<open>The objects of one service.\<close>

definition planService :: "planlibs \<Rightarrow> TemporalCluster \<Rightarrow> ServicesInput \<Rightarrow> ServiceInfo \<Rightarrow> PlannedObject list result" where
  "planService L cluster inp svc =
     bindR (BuildDeployment (pl_smp L) cluster svc (sin_ConfigHash inp) (sin_DynamicConfigHash inp)
              (derefOr [] (sin_ServiceVersions inp (si_Name svc))) (sin_MTLS inp)) (\<lambda>d.
       Inr (\<lparr>plo_Object = ODeployment d, plo_Phase = PhaseCoreServices,
             plo_SharedLabels = labelsShared cluster svc\<rparr> #
            tag PhaseCoreServices
              ([OService (BuildHeadlessService cluster svc), OPDB (BuildPodDisruptionBudget cluster svc)] @
               (if si_Name svc = ServiceFrontend then [OService (BuildFrontendService cluster svc)] else []))))"

fun planServiceList :: "planlibs \<Rightarrow> TemporalCluster \<Rightarrow> ServicesInput \<Rightarrow> ServiceInfo list \<Rightarrow> PlannedObject list result" where
  "planServiceList L cluster inp [] = Inr []"
| "planServiceList L cluster inp (s # ss) =
     bindR (planService L cluster inp s) (\<lambda>os.
     bindR (planServiceList L cluster inp ss) (\<lambda>rest. Inr (os @ rest)))"

definition PlanServices :: "planlibs \<Rightarrow> TemporalCluster \<Rightarrow> ServicesInput \<Rightarrow> PlannedObject list result" where
  "PlanServices L cluster inp =
     bindR (planServiceList L cluster inp (EnabledServices cluster)) (\<lambda>objs.
       Inr (tag PhaseCoreServices
              [OSecret (BuildConfigSecret cluster (sin_RenderedConfig inp)),
               OConfigMap (BuildDynamicConfigMap cluster (sin_RenderedDynamicConfig inp))] @ objs))"

section \<open>The preview (plan/plan.go)\<close>

definition frontendHostPort :: "TemporalCluster \<Rightarrow> string" where
  "frontendHostPort cluster =
     FrontendServiceName (tc_Name cluster) @ ''.'' @ tc_Namespace cluster @ ''.svc:'' @
     itoa (port_GRPC (portsOf ''frontend''))"

definition emptyOptions :: BuildOptions where
  "emptyOptions =
     \<lparr>bo_BindOnIP = [], bo_BroadcastAddress = [], bo_DynamicConfigPath = [], bo_DefaultStorePassword = [],
      bo_VisibilityStorePassword = [], bo_DefaultStorePasswordCommand = [],
      bo_VisibilityStorePasswordCommand = [], bo_PublicClientHostPort = []\<rparr>"

definition PlanFromSpec :: "planlibs \<Rightarrow> TemporalCluster \<Rightarrow> PlannedObject list result" where
  "PlanFromSpec L cluster =
     (case RenderClusterConfig (pl_render L) (pl_yamlAny L) cluster
             (emptyOptions \<lparr>bo_PublicClientHostPort := frontendHostPort cluster\<rparr>) of
        Inl e \<Rightarrow> Inl (WrapErr ''rendering config'' e)
      | Inr renderedConfig \<Rightarrow>
      (case fst (RenderDynamicConfig (pl_marshal L) (pl_json L)
             (spec_DynamicConfig (tc_Spec cluster)) (spec_Version (tc_Spec cluster))) of
        Inl e \<Rightarrow> Inl (WrapErr ''rendering dynamic config'' e)
      | Inr renderedDynamic \<Rightarrow>
          (let mtls = (if MTLSEnabled cluster
                 then Some \<lparr>mm_Enabled = True, mm_InternodeSecret = InternodeCertName (tc_Name cluster),
                            mm_FrontendSecret = FrontendCertName (tc_Name cluster), mm_CertHash = []\<rparr>
                 else None);
               inp = \<lparr>sin_RenderedConfig = renderedConfig, sin_RenderedDynamicConfig = renderedDynamic,
                      sin_ConfigHash = ConfigHash renderedConfig,
                      sin_DynamicConfigHash = ConfigHash renderedDynamic,
                      sin_ServiceVersions = Map.empty, sin_MTLS = mtls\<rparr>
           in bindR (PlanSchemaJobs L cluster) (\<lambda>jobs.
              bindR (PlanMTLS cluster) (\<lambda>certs.
              bindR (PlanServices L cluster inp) (\<lambda>services.
              bindR (PlanUI L cluster) (\<lambda>ui.
                Inr (jobs @ certs @ services @ ui @ PlanMonitoring cluster))))))))"

section \<open>Planned objects have distinct identities\<close>

definition keysOf :: "PlannedObject list \<Rightarrow> (string \<times> string \<times> string) list" where
  "keysOf ps = map (obj_key \<circ> plo_Object) ps"

lemma keysOf_append [simp]: "keysOf (xs @ ys) = keysOf xs @ keysOf ys"
  by (simp add: keysOf_def)

lemma keysOf_Nil [simp]: "keysOf [] = []"
  by (simp add: keysOf_def)

lemma keysOf_tag [simp]: "keysOf (tag ph os) = map obj_key os"
  by (simp add: keysOf_def tag_def)

text \<open>The identities of the objects of one service.\<close>

definition serviceKeys :: "TemporalCluster \<Rightarrow> string \<Rightarrow> (string \<times> string \<times> string) list" where
  "serviceKeys cluster n =
     (let ns = tc_Namespace cluster; c = tc_Name cluster in
      [(''Deployment'', ns, c @ ''-'' @ n), (''Service'', ns, c @ ''-'' @ n @ ''-headless''),
       (''PodDisruptionBudget'', ns, c @ ''-'' @ n)] @
      (if n = ServiceFrontend then [(''Service'', ns, c @ ''-frontend'')] else []))"

lemma planService_keys:
  "planService L cluster inp svc = Inr ps \<Longrightarrow> keysOf ps = serviceKeys cluster (si_Name svc)"
  by (auto simp: planService_def bindR_eq_Inr serviceKeys_def keysOf_def tag_def obj_key_def
      newMeta_def BuildHeadlessService_def BuildPodDisruptionBudget_def BuildFrontendService_def
      HeadlessServiceName_def PDBName_def FrontendServiceName_def DeploymentName_def Let_def
      elim!: BuildDeployment_Inr)

lemma planServiceList_keys:
  "planServiceList L cluster inp ss = Inr ps \<Longrightarrow>
     keysOf ps = concat (map (\<lambda>s. serviceKeys cluster (si_Name s)) ss)"
proof (induction ss arbitrary: ps)
  case (Cons s ss)
  then show ?case by (auto simp: bindR_eq_Inr planService_keys)
qed simp

definition enabledNames :: "TemporalCluster \<Rightarrow> string list" where
  "enabledNames cluster = map si_Name (EnabledServices cluster)"

lemma enabledNames_eq:
  "enabledNames cluster =
     [ServiceFrontend, ServiceHistory, ServiceMatching, ServiceWorker] @
     (if internalFrontendEnabled (tc_Spec cluster) then [ServiceInternalFrontend] else [])"
  by (simp add: enabledNames_def EnabledServices_def internalFrontendEnabled_def mkInfo_def Let_def
      split: option.splits)

lemma PlanServices_keys:
  assumes "PlanServices L cluster inp = Inr ps"
  shows "keysOf ps =
     [(''Secret'', tc_Namespace cluster, tc_Name cluster @ ''-config''),
      (''ConfigMap'', tc_Namespace cluster, tc_Name cluster @ ''-dynamicconfig'')] @
     concat (map (serviceKeys cluster) (enabledNames cluster))"
  using assms planServiceList_keys [of L cluster inp "EnabledServices cluster"]
  by (auto simp: PlanServices_def bindR_eq_Inr obj_key_def newMeta_def BuildConfigSecret_def
      BuildDynamicConfigMap_def ConfigSecretName_def DynamicConfigMapName_def enabledNames_def comp_def)

lemma PlanServices_distinct:
  assumes "PlanServices L cluster inp = Inr ps"
  shows "distinct (keysOf ps)"
  unfolding PlanServices_keys [OF assms] enabledNames_eq
  by (simp add: serviceKeys_def Let_def)

lemma BuildSchemaJob_key:
  "BuildSchemaJob smp p = Inr j \<Longrightarrow>
     obj_key (OJob j) = (''Job'', tc_Namespace (sjp_Cluster p),
       SchemaJobName (tc_Name (sjp_Cluster p)) (sjp_Store p) (sjp_Action p))"
  by (auto simp: BuildSchemaJob_def Let_def bindR_def newJob_def newMeta_def obj_key_def split: sum.splits)

lemma PlanSchemaJobs_keys:
  assumes "PlanSchemaJobs L cluster = Inr ps"
  shows "keysOf ps =
     [(''Job'', tc_Namespace cluster, tc_Name cluster @ ''-schema-default-setup''),
      (''Job'', tc_Namespace cluster, tc_Name cluster @ ''-schema-visibility-setup'')]"
  using assms
  by (auto simp: PlanSchemaJobs_def planSchemaJob_def Let_def bindR_eq_Inr SchemaJobName_def
      split: sum.splits dest!: BuildSchemaJob_key)

lemma PlanMTLS_keys:
  assumes "PlanMTLS cluster = Inr ps"
  shows "keysOf ps = (if MTLSEnabled cluster then
     [(''Certificate'', tc_Namespace cluster, tc_Name cluster @ ''-internode''),
      (''Certificate'', tc_Namespace cluster, tc_Name cluster @ ''-frontend-tls'')] else [])"
  using assms
  by (auto simp: PlanMTLS_def bindR_eq_Inr BuildInternodeCertificate_def BuildFrontendCertificate_def
      obj_key_def newMeta_def InternodeCertName_def FrontendCertName_def Let_def split: if_splits)

lemma ui_keys:
  "BuildUIClientCertificate cluster = Inr c \<Longrightarrow>
     obj_key (OCertificate c) = (''Certificate'', tc_Namespace cluster, tc_Name cluster @ ''-ui-client'')"
  "obj_key (ODeployment (BuildUIDeployment ym cluster u)) = (''Deployment'', tc_Namespace cluster, tc_Name cluster @ ''-ui'')"
  "obj_key (OService (BuildUIService cluster)) = (''Service'', tc_Namespace cluster, tc_Name cluster @ ''-ui'')"
  "BuildUIIngress cluster = Some i \<Longrightarrow>
     obj_key (OIngress i) = (''Ingress'', tc_Namespace cluster, tc_Name cluster @ ''-ui'')"
  by (auto simp: obj_key_def newMeta_def UIClientCertName_def UIName_def BuildUIClientCertificate_def
      bindR_eq_Inr BuildUIDeployment_def newDeployment_def BuildUIService_def BuildUIIngress_def Let_def
      split: option.splits if_splits)

lemma PlanUI_keys:
  assumes "PlanUI L cluster = Inr ps"
  shows "\<exists>xs ys. xs \<in> {[], [(''Certificate'', tc_Namespace cluster, tc_Name cluster @ ''-ui-client'')]} \<and>
     ys \<in> {[], [(''Ingress'', tc_Namespace cluster, tc_Name cluster @ ''-ui'')]} \<and>
     (keysOf ps = [] \<or> keysOf ps = xs @ [(''Deployment'', tc_Namespace cluster, tc_Name cluster @ ''-ui''),
        (''Service'', tc_Namespace cluster, tc_Name cluster @ ''-ui'')] @ ys)"
proof (cases "keysOf ps = []")
  case True
  then show ?thesis by (intro exI [of _ "[]"]) simp
next
  case False
  then obtain u certs where u: "spec_UI (tc_Spec cluster) = Some u"
    and certs: "(if MTLSEnabled cluster
        then bindR (BuildUIClientCertificate cluster) (\<lambda>c. Inr [OCertificate c]) else Inr []) = Inr certs"
    and ps: "ps = tag PhaseUI (certs @
        [ODeployment (BuildUIDeployment (pl_yamlMap L) cluster u), OService (BuildUIService cluster)] @
        (case BuildUIIngress cluster of None \<Rightarrow> [] | Some i \<Rightarrow> [OIngress i]))"
    using assms by (auto simp: PlanUI_def bindR_eq_Inr split: option.splits if_splits)
  let ?ys = "map obj_key (case BuildUIIngress cluster of None \<Rightarrow> [] | Some i \<Rightarrow> [OIngress i])"
  have "map obj_key certs \<in> {[], [(''Certificate'', tc_Namespace cluster, tc_Name cluster @ ''-ui-client'')]}"
    using certs by (auto simp: bindR_eq_Inr ui_keys(1) split: if_splits)
  moreover have "?ys \<in> {[], [(''Ingress'', tc_Namespace cluster, tc_Name cluster @ ''-ui'')]}"
    by (auto simp: ui_keys(4) split: option.splits)
  ultimately show ?thesis
    unfolding ps by (intro exI [of _ "map obj_key certs"] exI [of _ ?ys]) (simp add: ui_keys(2,3))
qed

lemma PlanMonitoring_keys:
  "keysOf (PlanMonitoring cluster) = (if serviceMonitorRequested cluster
     then [(''ServiceMonitor'', tc_Namespace cluster, tc_Name cluster)] else [])"
  by (simp add: PlanMonitoring_def obj_key_def BuildServiceMonitor_def newMeta_def ServiceMonitorName_def Let_def)

lemma PlanFromSpec_Inr:
  assumes "PlanFromSpec L cluster = Inr ps"
  obtains inp jobs certs services ui where
    "PlanSchemaJobs L cluster = Inr jobs" "PlanMTLS cluster = Inr certs"
    "PlanServices L cluster inp = Inr services" "PlanUI L cluster = Inr ui"
    "ps = jobs @ certs @ services @ ui @ PlanMonitoring cluster"
  using assms by (auto simp: PlanFromSpec_def Let_def bindR_eq_Inr split: sum.splits)

lemma planned_keys_distinct:
  assumes "PlanFromSpec L cluster = Inr ps"
  shows "distinct (keysOf ps)"
proof -
  from assms obtain inp jobs certs services ui where
    p: "PlanSchemaJobs L cluster = Inr jobs" "PlanMTLS cluster = Inr certs"
      "PlanServices L cluster inp = Inr services" "PlanUI L cluster = Inr ui"
    and ps: "ps = jobs @ certs @ services @ ui @ PlanMonitoring cluster"
    by (rule PlanFromSpec_Inr)
  note keys = PlanSchemaJobs_keys [OF p(1)] PlanMTLS_keys [OF p(2)] PlanServices_keys [OF p(3)] PlanMonitoring_keys
  obtain xs ys where sub: "xs \<in> {[], [(''Certificate'', tc_Namespace cluster, tc_Name cluster @ ''-ui-client'')]}"
      "ys \<in> {[], [(''Ingress'', tc_Namespace cluster, tc_Name cluster @ ''-ui'')]}"
    and ui: "keysOf ui = [] \<or> keysOf ui = xs @ [(''Deployment'', tc_Namespace cluster, tc_Name cluster @ ''-ui''),
        (''Service'', tc_Namespace cluster, tc_Name cluster @ ''-ui'')] @ ys"
    using PlanUI_keys [OF p(4)] by blast
  let ?rest = "keysOf jobs @ keysOf certs @ keysOf services @ keysOf (PlanMonitoring cluster)"
  have rest: "distinct ?rest"
    unfolding keys enabledNames_eq by (simp add: serviceKeys_def Let_def)
  have out: "(''Deployment'', tc_Namespace cluster, tc_Name cluster @ ''-ui'') \<notin> set ?rest"
    "(''Service'', tc_Namespace cluster, tc_Name cluster @ ''-ui'') \<notin> set ?rest"
    "(''Certificate'', tc_Namespace cluster, tc_Name cluster @ ''-ui-client'') \<notin> set ?rest"
    "(''Ingress'', tc_Namespace cluster, tc_Name cluster @ ''-ui'') \<notin> set ?rest"
    unfolding keys enabledNames_eq by (simp_all add: serviceKeys_def Let_def)
  have "distinct (keysOf ui)" "set (keysOf ui) \<inter> set ?rest = {}"
    using ui sub out by auto
  then show ?thesis
    using rest unfolding ps by auto
qed

text \<open>
  A plan never names an object twice: the kinds, namespaces and names of the planned objects are
  pairwise distinct.
\<close>

theorem PlanFromSpec_distinct:
  assumes "PlanFromSpec L cluster = Inr ps"
  shows "distinct (keysOf ps)"
  by (rule planned_keys_distinct [OF assms])

section \<open>A store without a Job-based backend\<close>

lemma schemaToolArgs_panic:
  "sjp_SQLSpec p = None \<Longrightarrow> sjp_CassandraSpec p = None \<Longrightarrow> BuildSchemaJob smp p = Inl (Panic ''nil SQLSpec'')"
  by (simp add: BuildSchemaJob_def schemaContainerExec_def schemaToolArgs_def sqlToolArgs_def Let_def)

text \<open>
  C40: a preview of a cluster whose visibility store is Elasticsearch crashes.  A store with neither an
  SQL nor a Cassandra backend has no schema Job, but the plan asks for one without looking, and the
  builder dereferences the missing SQL spec.
\<close>

theorem elasticsearch_preview_panics:
  assumes "ds_SQL (pers_VisibilityStore (spec_Persistence (tc_Spec cluster))) = None"
    and "ds_Cassandra (pers_VisibilityStore (spec_Persistence (tc_Spec cluster))) = None"
    and "planSchemaJob L cluster StoreDefault (pers_DefaultStore (spec_Persistence (tc_Spec cluster))) = Inr j"
  shows "PlanSchemaJobs L cluster = Inl (Panic ''nil SQLSpec'') \<and> (\<forall>ps. PlanFromSpec L cluster \<noteq> Inr ps)"
proof -
  have "PlanSchemaJobs L cluster = Inl (Panic ''nil SQLSpec'')"
    using assms by (simp add: PlanSchemaJobs_def planSchemaJob_def [of _ _ StoreVisibility] schemaToolArgs_panic bindR_def Let_def)
  then show ?thesis by (auto elim!: PlanFromSpec_Inr)
qed

end
