(* ===== verification/Samples.thy ===== *)
theory Samples
  imports Backends Plan
begin

text \<open>
  A concrete cluster and a concrete environment: a PostgreSQL-backed cluster that is being moved from
  1.31.1 to 1.32.1, an API server and datastores that answer every call, and instances of the
  third-party parameters.  The conditions that the general theorems assume hold here.
\<close>

section \<open>Conditions\<close>

text \<open>A condition list with one entry per type.\<close>

definition sampleMeta :: meta_api where
  "sampleMeta =
     \<lparr>setStatusCondition = (\<lambda>cs c. filter (\<lambda>x. c_Type x \<noteq> c_Type c) cs @ [c]),
      findStatusCondition = (\<lambda>cs t. findFirst (\<lambda>x. c_Type x = t) cs),
      isStatusConditionTrue = (\<lambda>cs t. case findFirst (\<lambda>x. c_Type x = t) cs of
         None \<Rightarrow> False | Some c \<Rightarrow> c_Status c = ConditionTrue)\<rparr>"

section \<open>The cluster\<close>

definition sampleSQL :: SQLDatastoreSpec where
  "sampleSQL =
     \<lparr>sql_PluginName = ''postgres12'', sql_Host = ''pg'', sql_Port = 5432, sql_Database = ''temporal'',
      sql_User = ''temporal'', sql_PasswordSecretRef = None, sql_PasswordCommandSecretRef = None,
      sql_ConnectAttributes = [], sql_MaxConns = 0, sql_MaxIdleConns = 0, sql_MaxConnLifetime = None,
      sql_TLS = None\<rparr>"

definition sampleStore :: DatastoreSpec where
  "sampleStore =
     \<lparr>ds_SQL = Some sampleSQL, ds_Cassandra = None, ds_Elasticsearch = None, ds_SchemaVersion = []\<rparr>"

definition samplePersistence :: PersistenceSpec where
  "samplePersistence =
     \<lparr>pers_DefaultStore = sampleStore, pers_VisibilityStore = sampleStore, pers_SchemaJob = None,
      pers_AzureWorkloadIdentity = None\<rparr>"

definition sampleServices :: ServicesSpec where
  "sampleServices =
     \<lparr>svcs_Frontend = None, svcs_History = None, svcs_Matching = None, svcs_Worker = None,
      svcs_InternalFrontend = None, svcs_Overrides = None\<rparr>"

definition sampleSpec :: TemporalClusterSpec where
  "sampleSpec =
     \<lparr>spec_Version = ''1.32.1'', spec_NumHistoryShards = 512, spec_Image = [], spec_ImagePullSecrets = [],
      spec_Services = sampleServices, spec_Persistence = samplePersistence, spec_MTLS = None,
      spec_DynamicConfig = None, spec_UI = None, spec_Metrics = None, spec_Archival = None,
      spec_Authorization = None, spec_ClusterMetadata = None, spec_PreventDeletion = False,
      spec_WorkflowRunPolicy = None\<rparr>"

definition sampleCondition :: "string \<Rightarrow> ConditionStatus \<Rightarrow> Condition" where
  "sampleCondition t s = \<lparr>c_Type = t, c_Status = s, c_Reason = [], c_Message = [], c_ObservedGeneration = 1\<rparr>"

definition sampleStatus :: TemporalClusterStatus where
  "sampleStatus =
     \<lparr>st_Phase = ''Ready'', st_ObservedGeneration = 1,
      st_Conditions = [sampleCondition ConditionPersistenceReachable ConditionTrue,
                       sampleCondition ConditionSchemaReady ConditionTrue],
      st_Version = ''1.31.1'', st_NumHistoryShards = 512, st_Services = Map.empty,
      st_Persistence = \<lparr>ps_SchemaVersions = Map.empty, ps_History = [], ps_Reachable = True\<rparr>,
      st_Endpoints = \<lparr>ep_Frontend = [], ep_UI = [], ep_Metrics = []\<rparr>, st_Upgrade = None\<rparr>"

definition sampleCluster :: TemporalCluster where
  "sampleCluster =
     \<lparr>tc_Meta = (newMeta ''prod'' ''temporal'' Map.empty Map.empty) \<lparr>om_Generation := 2\<rparr>,
      tc_Spec = sampleSpec, tc_Status = sampleStatus\<rparr>"

section \<open>The environment\<close>

text \<open>A Deployment of a service that runs a version with all its replicas.\<close>

definition sampleDeployment :: "string \<Rightarrow> string \<Rightarrow> string \<Rightarrow> Deployment" where
  "sampleDeployment version ns name =
     (newDeployment (newMeta name ns Map.empty Map.empty) 1 Map.empty []
       \<lparr>pt_Labels = [LabelVersion \<mapsto> version], pt_Annotations = Map.empty,
        pt_Spec = zeroPodSpec \<lparr>pod_Containers := [zeroContainer
          \<lparr>ct_Name := ServerContainerName, ct_Image := ServerImage version\<rparr>]\<rparr>\<rparr>)
     \<lparr>dep_UpdatedReplicas := 1, dep_ReadyReplicas := 1\<rparr>"

definition sampleKube :: kube where
  "sampleKube =
     \<lparr>k_GetDeployment = (\<lambda>_ ns n. Inr (sampleDeployment ''1.32.1'' ns n)),
      k_GetJob = (\<lambda>_ ns n. Inl (ApiNotFound n)),
      k_GetSecret = (\<lambda>_ ns n. Inl (ApiNotFound n)),
      k_GetCertificate = (\<lambda>_ ns n. Inl (ApiNotFound n)),
      k_GetCluster = (\<lambda>_ ns n. Inr sampleCluster),
      k_ListPods = (\<lambda>_ ns n. Inr []),
      k_Create = (\<lambda>_ ob. Inr ob),
      k_Apply = (\<lambda>_ ob. None),
      k_Delete = (\<lambda>_ _ _ _. None),
      k_StatusUpdate = (\<lambda>_ _ _ _. None),
      k_SetControllerReference = (\<lambda>_ ob. Inr ob),
      k_Now = (\<lambda>_. 0),
      k_ServiceMonitorCRD = (\<lambda>_. True)\<rparr>"

text \<open>The datastores hold the schema version \<open>v\<close>.\<close>

definition sampleDrivers :: "string \<Rightarrow> drivers" where
  "sampleDrivers v =
     \<lparr>d_PgOpen = (\<lambda>_. None), d_PgPing = (\<lambda>_ _. None), d_PgSelectOne = (\<lambda>_ _. None),
      d_PgSchemaVersion = (\<lambda>_ _ _. Inr (Some v)),
      d_CqlSession = (\<lambda>_ _. None), d_CqlLiveness = (\<lambda>_ _. None), d_CqlVersion = (\<lambda>_ _ _. Inr v),
      d_HttpNewRequest = (\<lambda>_ _. None), d_HttpDo = (\<lambda>_ _ _ _. Inr 200),
      d_DecodeInspect = (\<lambda>_. Inr \<lparr>ins_Reachable = True, ins_Version = v, ins_Error = []\<rparr>)\<rparr>"

definition sampleLibs :: planlibs where
  "sampleLibs =
     \<lparr>pl_smp = (\<lambda>p _. Inr p), pl_yamlMap = (\<lambda>_. Inr []), pl_yamlAny = (\<lambda>_. Inr Map.empty),
      pl_render = (\<lambda>_. Inr ''config''), pl_marshal = (\<lambda>_. Inr ''dynamic''), pl_json = (\<lambda>s. Inr s)\<rparr>"

definition sampleWorld :: world where
  "sampleWorld = \<lparr>w_trace = [], w_cache = Map.empty\<rparr>"

lemmas sample_defs = sampleMeta_def sampleSQL_def sampleStore_def samplePersistence_def sampleServices_def
  sampleSpec_def sampleCondition_def sampleStatus_def sampleCluster_def sampleDeployment_def sampleKube_def
  sampleDrivers_def sampleLibs_def sampleWorld_def

lemma find_append: "List.find P (xs @ ys) = (case List.find P xs of None \<Rightarrow> List.find P ys | Some x \<Rightarrow> Some x)"
  by (induction xs) auto

lemma find_filter_other: "t \<noteq> u \<Longrightarrow> List.find (\<lambda>x. c_Type x = t) (filter (\<lambda>x. c_Type x \<noteq> u) cs) = List.find (\<lambda>x. c_Type x = t) cs"
  by (induction cs) auto

lemma find_filter_same: "List.find (\<lambda>x. c_Type x = t) (filter (\<lambda>x. c_Type x \<noteq> t) cs) = None"
  by (auto simp: find_None_iff)

lemma sampleMeta_laws: "meta_laws sampleMeta"
  by (auto simp: meta_laws_def sampleMeta_def find_append find_filter_other find_filter_same split: option.splits)

end
