(* ===== verification/Cluster_Upgrade.thy ===== *)
theory Cluster_Upgrade
  imports Samples
begin

text \<open>
  Staged version upgrades (\<^verbatim>\<open>src/internal/controller/temporalcluster_upgrade.go\<close>): detection of an
  upgrade, the phase machine that moves by at most one step per reconcile, and the version each
  service runs in a phase.  The lemmas show that phases only move forward, that a rolling phase is
  left only when its service has been observed rolled out at the target version, that the upgraded
  services always form a prefix of the upgrade order, and that the machine ends.
\<close>

section \<open>The reconciler\<close>

record TemporalClusterReconciler =
  rc_Client :: kube
  rc_Recorder :: bool
  rc_BackendFactory :: "(DatastoreSpec \<Rightarrow> ResolvedCredential \<Rightarrow> string \<Rightarrow> backend result) option"
  rc_OperatorImage :: string
  rc_Drivers :: drivers
  rc_Libs :: planlibs
  rc_MetaApi :: meta_api

text \<open>A reconciler of the sample environment.\<close>

definition sampleReconciler :: TemporalClusterReconciler where
  "sampleReconciler =
     \<lparr>rc_Client = sampleKube, rc_Recorder = True, rc_BackendFactory = None, rc_OperatorImage = ''operator'',
      rc_Drivers = sampleDrivers ''1.19'', rc_Libs = sampleLibs, rc_MetaApi = sampleMeta\<rparr>"

section \<open>Phases\<close>

abbreviation upgradePending :: string where "upgradePending \<equiv> ''Pending''"
abbreviation upgradePreflight :: string where "upgradePreflight \<equiv> ''PreflightChecks''"
abbreviation upgradeSchemaMigrating :: string where "upgradeSchemaMigrating \<equiv> ''SchemaMigrating''"
abbreviation upgradeRollingFrontend :: string where "upgradeRollingFrontend \<equiv> ''RollingFrontend''"
abbreviation upgradeRollingHistory :: string where "upgradeRollingHistory \<equiv> ''RollingHistory''"
abbreviation upgradeRollingMatching :: string where "upgradeRollingMatching \<equiv> ''RollingMatching''"
abbreviation upgradeRollingInternalFrontend :: string where
  "upgradeRollingInternalFrontend \<equiv> ''RollingInternalFrontend''"
abbreviation upgradeRollingWorker :: string where "upgradeRollingWorker \<equiv> ''RollingWorker''"
abbreviation upgradePostUpgrade :: string where "upgradePostUpgrade \<equiv> ''PostUpgrade''"
abbreviation upgradeComplete :: string where "upgradeComplete \<equiv> ''Complete''"

definition rollingPhaseService :: gomap where
  "rollingPhaseService =
     [upgradeRollingFrontend \<mapsto> ServiceFrontend,
      upgradeRollingHistory \<mapsto> ServiceHistory,
      upgradeRollingMatching \<mapsto> ServiceMatching,
      upgradeRollingInternalFrontend \<mapsto> ServiceInternalFrontend,
      upgradeRollingWorker \<mapsto> ServiceWorker]"

definition serviceUpgradeOrder :: "string list" where
  "serviceUpgradeOrder =
     [ServiceFrontend, ServiceHistory, ServiceMatching, ServiceInternalFrontend, ServiceWorker]"

section \<open>Operations\<close>

definition event :: "TemporalClusterReconciler \<Rightarrow> string \<Rightarrow> string \<Rightarrow> unit act" where
  "event R reason message =
     (if rc_Recorder R then emitEvent reason message else State_Monad.return ())"

definition uniformVersions :: "TemporalCluster \<Rightarrow> string \<Rightarrow> gomap" where
  "uniformVersions cluster version =
     foldl (\<lambda>out svc. out(si_Name svc \<mapsto> version)) Map.empty (EnabledServices cluster)"

text \<open>The index of the last service of the order that runs the new version in a phase, or \<open>-1\<close>.\<close>

definition upgradedThrough :: "string \<Rightarrow> int" where
  "upgradedThrough phase =
     (if phase = upgradePostUpgrade \<or> phase = upgradeComplete then int (length serviceUpgradeOrder) - 1
      else case rollingPhaseService phase of
             None \<Rightarrow> - 1
           | Some svc \<Rightarrow>
               foldl (\<lambda>r (i, name). if name = svc then int i else r) (- 1) (enumerate 0 serviceUpgradeOrder))"

definition serviceVersionIn :: "UpgradeStatus \<Rightarrow> string \<Rightarrow> string" where
  "serviceVersionIn up name =
     foldl (\<lambda>v (i, n). if n = name \<and> int i \<le> upgradedThrough (us_Phase up) then us_ToVersion up else v)
       (us_FromVersion up) (enumerate 0 serviceUpgradeOrder)"

definition upgradeServiceVersions :: "TemporalCluster \<Rightarrow> UpgradeStatus \<Rightarrow> gomap" where
  "upgradeServiceVersions cluster up =
     foldl (\<lambda>out svc. out(si_Name svc \<mapsto> serviceVersionIn up (si_Name svc))) Map.empty (EnabledServices cluster)"

definition deploymentRunsImage :: "Deployment \<Rightarrow> string \<Rightarrow> bool" where
  "deploymentRunsImage dep img =
     (case findFirst (\<lambda>c. ct_Name c = ServerContainerName) (pod_Containers (pt_Spec (dep_Template dep))) of
        None \<Rightarrow> False
      | Some c \<Rightarrow> ct_Image c = img)"

text \<open>The test on the Deployment that was read.\<close>

definition rolledOutAt :: "TemporalCluster \<Rightarrow> string \<Rightarrow> Deployment \<Rightarrow> bool" where
  "rolledOutAt cluster version dep =
     (if derefOr [] (pt_Labels (dep_Template dep) LabelVersion) \<noteq> version then False
      else if \<not> deploymentRunsImage dep (clusterServerImage cluster version) then False
      else if om_Generation (dep_Meta dep) \<noteq> dep_ObservedGeneration dep then False
      else
        (let desired = derefOr 1 (dep_Replicas dep)
         in dep_UpdatedReplicas dep = desired \<and> dep_ReadyReplicas dep = desired))"

definition serviceRolledOut :: "TemporalClusterReconciler \<Rightarrow> TemporalCluster \<Rightarrow> string \<Rightarrow> string \<Rightarrow> bool act" where
  "serviceRolledOut R cluster component version = do {
     r \<leftarrow> getDeployment (rc_Client R) (tc_Namespace cluster) (DeploymentName (tc_Name cluster) component);
     State_Monad.return (case r of Inl _ \<Rightarrow> False | Inr dep \<Rightarrow> rolledOutAt cluster version dep)
   }"

definition afterMatchingPhase :: "TemporalCluster \<Rightarrow> string" where
  "afterMatchingPhase cluster =
     (if internalFrontendEnabled (tc_Spec cluster) then upgradeRollingInternalFrontend else upgradeRollingWorker)"

definition nextRollingPhase :: "TemporalCluster \<Rightarrow> string \<Rightarrow> string" where
  "nextRollingPhase cluster phase =
     (if phase = upgradeRollingFrontend then upgradeRollingHistory
      else if phase = upgradeRollingHistory then upgradeRollingMatching
      else if phase = upgradeRollingMatching then afterMatchingPhase cluster
      else if phase = upgradeRollingInternalFrontend then upgradeRollingWorker
      else if phase = upgradeRollingWorker then upgradePostUpgrade
      else phase)"

definition setUpgrade :: "TemporalCluster \<Rightarrow> UpgradeStatus option \<Rightarrow> TemporalCluster" where
  "setUpgrade cluster up = cluster \<lparr>tc_Status := (tc_Status cluster) \<lparr>st_Upgrade := up\<rparr>\<rparr>"

definition advanceTo :: "TemporalClusterReconciler \<Rightarrow> TemporalCluster \<Rightarrow> UpgradeStatus \<Rightarrow> string \<Rightarrow> TemporalCluster act" where
  "advanceTo R cluster up phase = do {
     event R ''UpgradePhase'' (''upgrade entered phase '' @ phase);
     State_Monad.return (setUpgrade cluster (Some (up \<lparr>us_Phase := phase\<rparr>)))
   }"

definition advanceRollingPhase :: "TemporalClusterReconciler \<Rightarrow> TemporalCluster \<Rightarrow> UpgradeStatus \<Rightarrow> TemporalCluster act" where
  "advanceRollingPhase R cluster up =
     (case rollingPhaseService (us_Phase up) of
        None \<Rightarrow> State_Monad.return (setUpgrade cluster (Some up))
      | Some svc \<Rightarrow> do {
          done \<leftarrow> serviceRolledOut R cluster svc (us_ToVersion up);
          if \<not> done then State_Monad.return (setUpgrade cluster (Some up))
          else advanceTo R cluster up (nextRollingPhase cluster (us_Phase up))
        })"

definition condTrue :: "TemporalClusterReconciler \<Rightarrow> TemporalCluster \<Rightarrow> string \<Rightarrow> bool" where
  "condTrue R cluster t = isStatusConditionTrue (rc_MetaApi R) (st_Conditions (tc_Status cluster)) t"

definition advanceUpgrade :: "TemporalClusterReconciler \<Rightarrow> TemporalCluster \<Rightarrow> UpgradeStatus \<Rightarrow> TemporalCluster act" where
  "advanceUpgrade R cluster up =
     (let reachable = condTrue R cluster ConditionPersistenceReachable;
          schemaReady = condTrue R cluster ConditionSchemaReady
      in if us_Phase up = upgradePending then advanceTo R cluster up upgradePreflight
         else if us_Phase up = upgradePreflight then
           (if reachable then advanceTo R cluster (up \<lparr>us_Rollbackable := False\<rparr>) upgradeSchemaMigrating
            else State_Monad.return (setUpgrade cluster (Some up)))
         else if us_Phase up = upgradeSchemaMigrating then
           (let up' = up \<lparr>us_Rollbackable := False\<rparr> in
            if schemaReady then advanceTo R cluster up' upgradeRollingFrontend
            else State_Monad.return (setUpgrade cluster (Some up')))
         else if us_Phase up = upgradePostUpgrade then advanceTo R cluster up upgradeComplete
         else if us_Phase up = upgradeComplete then do {
           event R ''UpgradeComplete'' (''upgrade to '' @ us_ToVersion up @ '' complete'');
           State_Monad.return (cluster \<lparr>tc_Status := (tc_Status cluster)
             \<lparr>st_Version := us_ToVersion up, st_Upgrade := None\<rparr>\<rparr>)
         }
         else advanceRollingPhase R cluster up)"

text \<open>A new upgrade status (the body of the test for a missing or outdated one).\<close>

definition startUpgrade :: "TemporalClusterReconciler \<Rightarrow> string \<Rightarrow> string \<Rightarrow> UpgradeStatus act" where
  "startUpgrade R current target = do {
     now \<leftarrow> nowTime (rc_Client R);
     event R ''UpgradeStarted'' (''upgrade from '' @ current @ '' to '' @ target @ '' started'');
     State_Monad.return \<lparr>us_FromVersion = current, us_ToVersion = target,
       us_Phase = upgradePending, us_Rollbackable = True, us_StartedAt = Some now\<rparr>
   }"

definition reconcileUpgrade :: "TemporalClusterReconciler \<Rightarrow> TemporalCluster \<Rightarrow> (TemporalCluster \<times> gomap) act" where
  "reconcileUpgrade R cluster =
     (let current = st_Version (tc_Status cluster); target = spec_Version (tc_Spec cluster) in
      if current = [] \<or> current = target
      then State_Monad.return (setUpgrade cluster None, uniformVersions cluster target)
      else do {
        up \<leftarrow> (case st_Upgrade (tc_Status cluster) of
                None \<Rightarrow> startUpgrade R current target
              | Some u \<Rightarrow>
                  if us_ToVersion u \<noteq> target then startUpgrade R current target
                  else State_Monad.return u);
        c \<leftarrow> advanceUpgrade R cluster up;
        State_Monad.return (case st_Upgrade (tc_Status c) of
          None \<Rightarrow> (c, uniformVersions c target)
        | Some u \<Rightarrow> (c, upgradeServiceVersions c u))
      })"

definition upgradeInProgress :: "TemporalCluster \<Rightarrow> bool" where
  "upgradeInProgress cluster = (st_Upgrade (tc_Status cluster) \<noteq> None)"

section \<open>The abstract phase machine\<close>

text \<open>
  What a reconcile may do to the phase of an upgrade: the guard of each move is a condition of the
  cluster, or the rollout of the service the phase is about.
\<close>

inductive phase_step :: "bool \<Rightarrow> bool \<Rightarrow> bool \<Rightarrow> (string \<Rightarrow> bool) \<Rightarrow> string \<Rightarrow> string \<Rightarrow> bool"
  for internal reachable schemaReady rolledOut where
  start: "phase_step internal reachable schemaReady rolledOut upgradePending upgradePreflight"
| preflight: "reachable \<Longrightarrow>
    phase_step internal reachable schemaReady rolledOut upgradePreflight upgradeSchemaMigrating"
| migrated: "schemaReady \<Longrightarrow>
    phase_step internal reachable schemaReady rolledOut upgradeSchemaMigrating upgradeRollingFrontend"
| frontend: "rolledOut ServiceFrontend \<Longrightarrow>
    phase_step internal reachable schemaReady rolledOut upgradeRollingFrontend upgradeRollingHistory"
| history: "rolledOut ServiceHistory \<Longrightarrow>
    phase_step internal reachable schemaReady rolledOut upgradeRollingHistory upgradeRollingMatching"
| matching: "rolledOut ServiceMatching \<Longrightarrow> internal \<Longrightarrow>
    phase_step internal reachable schemaReady rolledOut upgradeRollingMatching upgradeRollingInternalFrontend"
| matching_skip: "rolledOut ServiceMatching \<Longrightarrow> \<not> internal \<Longrightarrow>
    phase_step internal reachable schemaReady rolledOut upgradeRollingMatching upgradeRollingWorker"
| internalFrontend: "rolledOut ServiceInternalFrontend \<Longrightarrow>
    phase_step internal reachable schemaReady rolledOut upgradeRollingInternalFrontend upgradeRollingWorker"
| worker: "rolledOut ServiceWorker \<Longrightarrow>
    phase_step internal reachable schemaReady rolledOut upgradeRollingWorker upgradePostUpgrade"
| post: "phase_step internal reachable schemaReady rolledOut upgradePostUpgrade upgradeComplete"

definition upgradePhases :: "string list" where
  "upgradePhases =
     [upgradePending, upgradePreflight, upgradeSchemaMigrating, upgradeRollingFrontend,
      upgradeRollingHistory, upgradeRollingMatching, upgradeRollingInternalFrontend,
      upgradeRollingWorker, upgradePostUpgrade, upgradeComplete]"

definition phaseRank :: "string \<Rightarrow> nat" where
  "phaseRank p = length (takeWhile (\<lambda>q. q \<noteq> p) upgradePhases)"

lemma phaseRank_simps [simp]:
  "phaseRank upgradePending = 0" "phaseRank upgradePreflight = 1"
  "phaseRank upgradeSchemaMigrating = 2" "phaseRank upgradeRollingFrontend = 3"
  "phaseRank upgradeRollingHistory = 4" "phaseRank upgradeRollingMatching = 5"
  "phaseRank upgradeRollingInternalFrontend = 6" "phaseRank upgradeRollingWorker = 7"
  "phaseRank upgradePostUpgrade = 8" "phaseRank upgradeComplete = 9"
  by (simp_all add: phaseRank_def upgradePhases_def)

lemma phase_step_rank:
  "phase_step i re sr ro p q \<Longrightarrow> p \<in> set upgradePhases \<and> q \<in> set upgradePhases \<and>
     phaseRank p < phaseRank q \<and> phaseRank q \<le> phaseRank p + 2"
  by (induction rule: phase_step.induct) (simp_all add: upgradePhases_def)

lemma rollingPhaseService_simps [simp]:
  "rollingPhaseService upgradeRollingFrontend = Some ServiceFrontend"
  "rollingPhaseService upgradeRollingHistory = Some ServiceHistory"
  "rollingPhaseService upgradeRollingMatching = Some ServiceMatching"
  "rollingPhaseService upgradeRollingInternalFrontend = Some ServiceInternalFrontend"
  "rollingPhaseService upgradeRollingWorker = Some ServiceWorker"
  by (simp_all add: rollingPhaseService_def)

lemma rollingPhaseService_Some:
  "rollingPhaseService p = Some svc \<Longrightarrow>
     p \<in> {upgradeRollingFrontend, upgradeRollingHistory, upgradeRollingMatching,
          upgradeRollingInternalFrontend, upgradeRollingWorker}"
  by (auto simp: rollingPhaseService_def split: if_splits)

text \<open>A step out of a rolling phase is one of the machine's.\<close>

lemma rolling_is_step:
  assumes "rollingPhaseService p = Some svc" and "rolledOut svc"
  shows "phase_step (internalFrontendEnabled (tc_Spec cluster)) re sr rolledOut p (nextRollingPhase cluster p)"
  using rollingPhaseService_Some [OF assms(1)] assms
  by (elim insertE emptyE)
    (simp_all add: nextRollingPhase_def afterMatchingPhase_def phase_step.intros)

section \<open>The code implements the machine\<close>

lemma run_event [simp]: "fst (run_state (event R rs m) w) = ()"
  by simp

lemma setUpgrade_simps [simp]:
  "st_Upgrade (tc_Status (setUpgrade c u)) = u" "st_Version (tc_Status (setUpgrade c u)) = st_Version (tc_Status c)"
  "st_Conditions (tc_Status (setUpgrade c u)) = st_Conditions (tc_Status c)"
  "tc_Spec (setUpgrade c u) = tc_Spec c" "tc_Meta (setUpgrade c u) = tc_Meta c"
  by (simp_all add: setUpgrade_def)

lemma run_advanceTo: "fst (run_state (advanceTo R c up p) w) = setUpgrade c (Some (up \<lparr>us_Phase := p\<rparr>))"
  by (simp add: advanceTo_def split: prod.splits)

text \<open>What the rollout test reads at a point of the trace.\<close>

definition observedRolledOut :: "TemporalClusterReconciler \<Rightarrow> TemporalCluster \<Rightarrow> string \<Rightarrow> call list \<Rightarrow> string \<Rightarrow> bool" where
  "observedRolledOut R cluster version tr svc =
     (case k_GetDeployment (rc_Client R) tr (tc_Namespace cluster) (DeploymentName (tc_Name cluster) svc) of
        Inl _ \<Rightarrow> False
      | Inr dep \<Rightarrow> rolledOutAt cluster version dep)"

lemma run_serviceRolledOut:
  "fst (run_state (serviceRolledOut R c svc v) w) = observedRolledOut R c v (w_trace w) svc"
  by (simp add: serviceRolledOut_def observedRolledOut_def getDeployment_def perform_def)

lemma run_advanceRollingPhase:
  "fst (run_state (advanceRollingPhase R c up) w) =
     (case rollingPhaseService (us_Phase up) of
        None \<Rightarrow> setUpgrade c (Some up)
      | Some svc \<Rightarrow>
          if observedRolledOut R c (us_ToVersion up) (w_trace w) svc
          then setUpgrade c (Some (up \<lparr>us_Phase := nextRollingPhase c (us_Phase up)\<rparr>))
          else setUpgrade c (Some up))"
  using run_serviceRolledOut [of R c _ "us_ToVersion up" w]
  by (auto simp: advanceRollingPhase_def run_advanceTo split: option.splits prod.splits) (metis fst_conv)+

text \<open>
  Advancing an upgrade: it completes exactly in the last phase, and otherwise keeps the versions and
  either stays in its phase or makes one step of the machine with the guards observed now.
\<close>

lemma advanceUpgrade_complete:
  "us_Phase up = upgradeComplete \<Longrightarrow>
   fst (run_state (advanceUpgrade R c up) w) =
     c \<lparr>tc_Status := (tc_Status c) \<lparr>st_Version := us_ToVersion up, st_Upgrade := None\<rparr>\<rparr>"
  by (simp add: advanceUpgrade_def split: prod.splits)

definition upgradeMove :: "TemporalClusterReconciler \<Rightarrow> TemporalCluster \<Rightarrow> UpgradeStatus \<Rightarrow> world \<Rightarrow> UpgradeStatus \<Rightarrow> bool" where
  "upgradeMove R c up w u \<longleftrightarrow>
     us_FromVersion u = us_FromVersion up \<and> us_ToVersion u = us_ToVersion up \<and>
     us_StartedAt u = us_StartedAt up \<and>
     (us_Phase u = us_Phase up \<or>
      phase_step (internalFrontendEnabled (tc_Spec c)) (condTrue R c ConditionPersistenceReachable)
        (condTrue R c ConditionSchemaReady) (observedRolledOut R c (us_ToVersion up) (w_trace w))
        (us_Phase up) (us_Phase u)) \<and>
     us_Rollbackable u =
       (us_Rollbackable up \<and> us_Phase u \<noteq> upgradeSchemaMigrating \<and> us_Phase up \<noteq> upgradeSchemaMigrating)"

lemma advance_start:
  "us_Phase up = upgradePending \<Longrightarrow>
   \<exists>u. fst (run_state (advanceUpgrade R c up) w) = setUpgrade c (Some u) \<and> upgradeMove R c up w u"
  by (rule exI [of _ "up \<lparr>us_Phase := upgradePreflight\<rparr>"])
    (simp add: advanceUpgrade_def run_advanceTo Let_def upgradeMove_def phase_step.start)

lemma advance_preflight:
  "us_Phase up = upgradePreflight \<Longrightarrow>
   \<exists>u. fst (run_state (advanceUpgrade R c up) w) = setUpgrade c (Some u) \<and> upgradeMove R c up w u"
  by (rule exI [of _ "if condTrue R c ConditionPersistenceReachable
        then up \<lparr>us_Rollbackable := False, us_Phase := upgradeSchemaMigrating\<rparr> else up"])
    (simp add: advanceUpgrade_def run_advanceTo Let_def upgradeMove_def phase_step.preflight)

lemma advance_migrating:
  "us_Phase up = upgradeSchemaMigrating \<Longrightarrow>
   \<exists>u. fst (run_state (advanceUpgrade R c up) w) = setUpgrade c (Some u) \<and> upgradeMove R c up w u"
  by (rule exI [of _ "if condTrue R c ConditionSchemaReady
        then up \<lparr>us_Rollbackable := False, us_Phase := upgradeRollingFrontend\<rparr>
        else up \<lparr>us_Rollbackable := False\<rparr>"])
    (simp add: advanceUpgrade_def run_advanceTo Let_def upgradeMove_def phase_step.migrated)

lemma advance_post:
  "us_Phase up = upgradePostUpgrade \<Longrightarrow>
   \<exists>u. fst (run_state (advanceUpgrade R c up) w) = setUpgrade c (Some u) \<and> upgradeMove R c up w u"
  by (rule exI [of _ "up \<lparr>us_Phase := upgradeComplete\<rparr>"])
    (simp add: advanceUpgrade_def run_advanceTo Let_def upgradeMove_def phase_step.post)

lemma nextRollingPhase_not_migrating:
  "p \<noteq> upgradeSchemaMigrating \<Longrightarrow> nextRollingPhase c p \<noteq> upgradeSchemaMigrating"
  by (simp add: nextRollingPhase_def afterMatchingPhase_def)

lemma advance_rolling:
  assumes "us_Phase up \<notin> {upgradePending, upgradePreflight, upgradeSchemaMigrating, upgradePostUpgrade, upgradeComplete}"
  shows "\<exists>u. fst (run_state (advanceUpgrade R c up) w) = setUpgrade c (Some u) \<and> upgradeMove R c up w u"
proof -
  have r: "fst (run_state (advanceUpgrade R c up) w) = fst (run_state (advanceRollingPhase R c up) w)"
    using assms by (simp add: advanceUpgrade_def Let_def)
  let ?ro = "observedRolledOut R c (us_ToVersion up) (w_trace w)"
  show ?thesis
  proof (cases "\<exists>svc. rollingPhaseService (us_Phase up) = Some svc \<and> ?ro svc")
    case True
    then obtain svc where svc: "rollingPhaseService (us_Phase up) = Some svc" "?ro svc" by blast
    then show ?thesis
      using assms rolling_is_step [of "us_Phase up" svc ?ro c] svc
      by (intro exI [of _ "up \<lparr>us_Phase := nextRollingPhase c (us_Phase up)\<rparr>"])
        (simp add: r run_advanceRollingPhase upgradeMove_def nextRollingPhase_not_migrating)
  next
    case False
    then show ?thesis
      using assms
      by (intro exI [of _ up]) (auto simp: r run_advanceRollingPhase upgradeMove_def split: option.splits)
  qed
qed

lemma advanceUpgrade_step:
  assumes "us_Phase up \<noteq> upgradeComplete"
  shows "\<exists>u. fst (run_state (advanceUpgrade R c up) w) = setUpgrade c (Some u) \<and> upgradeMove R c up w u"
proof -
  consider "us_Phase up = upgradePending" | "us_Phase up = upgradePreflight"
    | "us_Phase up = upgradeSchemaMigrating" | "us_Phase up = upgradePostUpgrade"
    | "us_Phase up \<notin> {upgradePending, upgradePreflight, upgradeSchemaMigrating, upgradePostUpgrade, upgradeComplete}"
    using assms by blast
  then show ?thesis
    by cases (rule advance_start advance_preflight advance_migrating advance_post advance_rolling, assumption)+
qed

section \<open>Versions of the services\<close>

lemma foldl_map_upd:
  "foldl (\<lambda>m x. m(f x \<mapsto> g (f x))) m0 xs k = (if k \<in> f ` set xs then Some (g k) else m0 k)"
  by (induction xs arbitrary: m0) auto

lemma uniformVersions_eq:
  "uniformVersions cluster v n = (if n \<in> set (enabledNames cluster) then Some v else None)"
  using foldl_map_upd [of si_Name "\<lambda>_. v" Map.empty "EnabledServices cluster" n]
  by (simp add: uniformVersions_def enabledNames_def)

lemma upgradeServiceVersions_eq:
  "upgradeServiceVersions cluster up n =
     (if n \<in> set (enabledNames cluster) then Some (serviceVersionIn up n) else None)"
  using foldl_map_upd [of si_Name "serviceVersionIn up" Map.empty "EnabledServices cluster" n]
  by (simp add: upgradeServiceVersions_def enabledNames_def)

lemma enabled_in_order: "n \<in> set (enabledNames cluster) \<Longrightarrow> n \<in> set serviceUpgradeOrder"
  by (auto simp: enabledNames_eq serviceUpgradeOrder_def split: if_splits)

text \<open>The position of a service in the upgrade order.\<close>

definition upgradeIndex :: "string \<Rightarrow> nat" where
  "upgradeIndex n = length (takeWhile (\<lambda>m. m \<noteq> n) serviceUpgradeOrder)"

lemma upgradeIndex_simps [simp]:
  "upgradeIndex ServiceFrontend = 0" "upgradeIndex ServiceHistory = 1" "upgradeIndex ServiceMatching = 2"
  "upgradeIndex ServiceInternalFrontend = 3" "upgradeIndex ServiceWorker = 4"
  by (simp_all add: upgradeIndex_def serviceUpgradeOrder_def)

lemma serviceVersionIn_eq:
  "n \<in> set serviceUpgradeOrder \<Longrightarrow>
   serviceVersionIn up n =
     (if int (upgradeIndex n) \<le> upgradedThrough (us_Phase up) then us_ToVersion up else us_FromVersion up)"
proof -
  have "\<forall>n \<in> set serviceUpgradeOrder. serviceVersionIn up n =
     (if int (upgradeIndex n) \<le> upgradedThrough (us_Phase up) then us_ToVersion up else us_FromVersion up)"
    by (simp add: serviceVersionIn_def serviceUpgradeOrder_def)
  then show "n \<in> set serviceUpgradeOrder \<Longrightarrow> ?thesis" by blast
qed

lemma upgradedThrough_simps [simp]:
  "upgradedThrough upgradePending = - 1" "upgradedThrough upgradePreflight = - 1"
  "upgradedThrough upgradeSchemaMigrating = - 1" "upgradedThrough upgradeRollingFrontend = 0"
  "upgradedThrough upgradeRollingHistory = 1" "upgradedThrough upgradeRollingMatching = 2"
  "upgradedThrough upgradeRollingInternalFrontend = 3" "upgradedThrough upgradeRollingWorker = 4"
  "upgradedThrough upgradePostUpgrade = 4" "upgradedThrough upgradeComplete = 4"
  by (simp_all add: upgradedThrough_def serviceUpgradeOrder_def rollingPhaseService_def)

text \<open>The index a phase has reached grows with its rank, and starts with the rolling phases.\<close>

lemma upgradedThrough_rank:
  "p \<in> set upgradePhases \<Longrightarrow> upgradedThrough p = min 4 (max (- 1) (int (phaseRank p) - 3))"
proof -
  have "\<forall>p \<in> set upgradePhases. upgradedThrough p = min 4 (max (- 1) (int (phaseRank p) - 3))"
    by (simp add: upgradePhases_def)
  then show "p \<in> set upgradePhases \<Longrightarrow> ?thesis" by blast
qed

section \<open>A reconcile of the upgrade\<close>

definition initialUpgrade :: "TemporalCluster \<Rightarrow> UpgradeStatus \<Rightarrow> bool" where
  "initialUpgrade cluster up \<longleftrightarrow>
     us_FromVersion up = st_Version (tc_Status cluster) \<and> us_ToVersion up = spec_Version (tc_Spec cluster) \<and>
     us_Phase up = upgradePending \<and> us_Rollbackable up"

definition upgradeNeeded :: "TemporalCluster \<Rightarrow> bool" where
  "upgradeNeeded cluster \<longleftrightarrow>
     st_Version (tc_Status cluster) \<noteq> [] \<and> st_Version (tc_Status cluster) \<noteq> spec_Version (tc_Spec cluster)"

lemma reconcileUpgrade_idle:
  "\<not> upgradeNeeded cluster \<Longrightarrow>
   run_state (reconcileUpgrade R cluster) w =
     ((setUpgrade cluster None, uniformVersions cluster (spec_Version (tc_Spec cluster))), w)"
  by (auto simp: reconcileUpgrade_def upgradeNeeded_def Let_def)

text \<open>The upgrade status a reconcile works on: the recorded one when it is for the current target.\<close>

definition workingUpgrade :: "TemporalCluster \<Rightarrow> UpgradeStatus \<Rightarrow> bool" where
  "workingUpgrade cluster up \<longleftrightarrow>
     (case st_Upgrade (tc_Status cluster) of
        Some u \<Rightarrow> if us_ToVersion u = spec_Version (tc_Spec cluster) then up = u else initialUpgrade cluster up
      | None \<Rightarrow> initialUpgrade cluster up)"

lemma startUpgrade_initial:
  "run_state (startUpgrade R (st_Version (tc_Status c)) (spec_Version (tc_Spec c))) w = (up, w1) \<Longrightarrow> initialUpgrade c up"
  by (auto simp: startUpgrade_def initialUpgrade_def split: prod.splits)

end
