(* ===== verification/Schema_Version.thy ===== *)
theory Schema_Version
  imports Go_Prelude
begin

text \<open>
  Comparison of schema versions (\<^verbatim>\<open>src/internal/persistence/schema.go\<close>).  The comparison is shown
  to be a total preorder: the lexicographic order of the numeric components, missing components
  counting as zero.  The locale \<open>version_compare\<close> states what a client of a three-way comparison
  relies on; the test whether a schema is recent enough is proved against it.
\<close>

section \<open>Operations\<close>

definition NormalizeSchemaVersion :: "string \<Rightarrow> string" where
  "NormalizeSchemaVersion v = trimPrefix (trimSpace v) ''v''"

definition componentAt :: "string list \<Rightarrow> nat \<Rightarrow> int" where
  "componentAt parts i =
     (if i \<ge> length parts then 0
      else case atoi (parts ! i) of None \<Rightarrow> 0 | Some n \<Rightarrow> n)"

text \<open>The loop of \<open>CompareSchemaVersions\<close>, from index \<open>i\<close> with \<open>k\<close> turns to go.\<close>

fun compareFrom :: "string list \<Rightarrow> string list \<Rightarrow> nat \<Rightarrow> nat \<Rightarrow> int" where
  "compareFrom as bs i 0 = 0"
| "compareFrom as bs i (Suc k) =
     (if componentAt as i < componentAt bs i then - 1
      else if componentAt as i > componentAt bs i then 1
      else compareFrom as bs (Suc i) k)"

definition CompareSchemaVersions :: "string \<Rightarrow> string \<Rightarrow> int" where
  "CompareSchemaVersions a b =
     (let as = split_on (CHR ''.'') (NormalizeSchemaVersion a);
          bs = split_on (CHR ''.'') (NormalizeSchemaVersion b);
          n = (if length bs > length as then length bs else length as)
      in compareFrom as bs 0 n)"

definition SchemaSatisfies :: "string \<Rightarrow> string \<Rightarrow> bool" where
  "SchemaSatisfies current required =
     (if trimSpace current = [] then False else CompareSchemaVersions current required \<ge> 0)"

section \<open>A three-way comparison\<close>

locale version_compare =
  fixes cmp :: "'a \<Rightarrow> 'a \<Rightarrow> int"
  assumes cmp_range: "cmp a b \<in> {- 1, 0, 1}"
    and cmp_swap: "cmp b a = - cmp a b"
    and cmp_trans: "cmp a b \<ge> 0 \<Longrightarrow> cmp b c \<ge> 0 \<Longrightarrow> cmp a c \<ge> 0"
begin

lemma cmp_refl: "cmp a a = 0"
  using cmp_swap [of a a] by simp

lemma cmp_total: "cmp a b \<ge> 0 \<or> cmp b a \<ge> 0"
  using cmp_swap [of a b] by linarith

lemma cmp_equiv_trans: "cmp a b = 0 \<Longrightarrow> cmp b c = 0 \<Longrightarrow> cmp a c = 0"
  using cmp_trans [of a b c] cmp_trans [of c b a] cmp_swap [of a b] cmp_swap [of b c] cmp_swap [of a c]
  by simp

lemma cmp_strict_trans: "cmp a b \<ge> 0 \<Longrightarrow> cmp b c = 1 \<Longrightarrow> cmp a c = 1"
proof -
  assume ab: "cmp a b \<ge> 0" and bc: "cmp b c = 1"
  have "cmp a c \<ge> 0" using cmp_trans [of a b c] ab bc by simp
  moreover have "cmp a c \<noteq> 0"
  proof
    assume "cmp a c = 0"
    then have "cmp c a = 0" using cmp_swap [of a c] by simp
    then have "cmp c b \<ge> 0" using cmp_trans [of c a b] ab by simp
    then show False using bc cmp_swap [of b c] by simp
  qed
  ultimately show "cmp a c = 1" using cmp_range [of a c] by auto
qed

text \<open>A requirement that is met stays met when it is lowered.\<close>

lemma cmp_lower_requirement: "cmp current required \<ge> 0 \<Longrightarrow> cmp required lower \<ge> 0 \<Longrightarrow> cmp current lower \<ge> 0"
  by (rule cmp_trans)

end

section \<open>The comparison is lexicographic\<close>

text \<open>The components of a version as an infinite sequence, zero from some index on.\<close>

definition components :: "string \<Rightarrow> nat \<Rightarrow> int" where
  "components v = componentAt (split_on (CHR ''.'') (NormalizeSchemaVersion v))"

definition lexBelow :: "(nat \<Rightarrow> int) \<Rightarrow> (nat \<Rightarrow> int) \<Rightarrow> bool" where
  "lexBelow f g \<longleftrightarrow> (\<exists>j. f j < g j \<and> (\<forall>i < j. f i = g i))"

lemma componentAt_beyond: "length parts \<le> i \<Longrightarrow> componentAt parts i = 0"
  by (simp add: componentAt_def)

lemma compareFrom_lexBelow:
  "compareFrom as bs i k = - 1 \<longleftrightarrow>
     (\<exists>j. i \<le> j \<and> j < i + k \<and> componentAt as j < componentAt bs j \<and>
        (\<forall>l. i \<le> l \<and> l < j \<longrightarrow> componentAt as l = componentAt bs l))"
proof (induction as bs i k rule: compareFrom.induct)
  case (2 as bs i k)
  let ?P = "\<lambda>i j. componentAt as j < componentAt bs j \<and>
        (\<forall>l. i \<le> l \<and> l < j \<longrightarrow> componentAt as l = componentAt bs l)"
  consider "componentAt as i < componentAt bs i" | "componentAt as i > componentAt bs i"
    | (eq) "componentAt as i = componentAt bs i"
    by linarith
  then show ?case
  proof cases
    case 1
    then show ?thesis by (auto intro: exI [of _ i])
  next
    case 2
    then have "\<not> (\<exists>j. i \<le> j \<and> j < i + Suc k \<and> ?P i j)"
      by (metis le_eq_less_or_eq less_le_not_le less_asym order_refl order_less_irrefl)
    then show ?thesis using 2 by simp
  next
    case eq
    have "(\<exists>j. Suc i \<le> j \<and> j < Suc i + k \<and> ?P (Suc i) j) \<longleftrightarrow> (\<exists>j. i \<le> j \<and> j < i + Suc k \<and> ?P i j)"
      using eq by (metis Suc_le_eq add_Suc_right add_Suc less_le_not_le le_neq_implies_less nat_less_le)
    then show ?thesis using 2 eq by simp
  qed
qed simp

lemma compareFrom_swap: "compareFrom bs as i k = - compareFrom as bs i k"
  by (induction as bs i k rule: compareFrom.induct) auto

lemma compareFrom_range: "compareFrom as bs i k \<in> {- 1, 0, 1}"
  by (induction as bs i k rule: compareFrom.induct) auto

lemma CompareSchemaVersions_alt:
  "CompareSchemaVersions a b =
     compareFrom (split_on (CHR ''.'') (NormalizeSchemaVersion a)) (split_on (CHR ''.'') (NormalizeSchemaVersion b)) 0
       (max (length (split_on (CHR ''.'') (NormalizeSchemaVersion a))) (length (split_on (CHR ''.'') (NormalizeSchemaVersion b))))"
  by (simp add: CompareSchemaVersions_def Let_def max_def)

lemma CompareSchemaVersions_less:
  "CompareSchemaVersions a b = - 1 \<longleftrightarrow> lexBelow (components a) (components b)"
proof -
  let ?as = "split_on (CHR ''.'') (NormalizeSchemaVersion a)"
  let ?bs = "split_on (CHR ''.'') (NormalizeSchemaVersion b)"
  have "componentAt ?as j < componentAt ?bs j \<Longrightarrow> j < max (length ?as) (length ?bs)" for j
    by (rule ccontr) (simp add: componentAt_beyond)
  then show ?thesis
    by (auto simp: CompareSchemaVersions_alt compareFrom_lexBelow lexBelow_def components_def)
qed

lemma CompareSchemaVersions_swap: "CompareSchemaVersions b a = - CompareSchemaVersions a b"
  unfolding CompareSchemaVersions_alt
  by (subst max.commute) (rule compareFrom_swap)

lemma CompareSchemaVersions_range: "CompareSchemaVersions a b \<in> {- 1, 0, 1}"
  unfolding CompareSchemaVersions_alt by (rule compareFrom_range)

lemma lexBelow_trans_not:
  assumes "\<not> lexBelow f g" "\<not> lexBelow g h"
  shows "\<not> lexBelow f h"
proof
  assume "lexBelow f h"
  then obtain j where j: "f j < h j" "\<forall>i < j. f i = h i"
    by (auto simp: lexBelow_def)
  have "\<exists>i \<le> j. f i \<noteq> g i \<or> g i \<noteq> h i"
    using j(1) by (metis order_less_irrefl order_refl)
  then obtain m where m: "m \<le> j \<and> (f m \<noteq> g m \<or> g m \<noteq> h m)"
    "\<forall>l < m. \<not> (l \<le> j \<and> (f l \<noteq> g l \<or> g l \<noteq> h l))"
    using exists_least_iff [of "\<lambda>i. i \<le> j \<and> (f i \<noteq> g i \<or> g i \<noteq> h i)"] by blast
  then obtain i where i: "f i \<noteq> g i \<or> g i \<noteq> h i" "i \<le> j" "\<forall>l < i. f l = g l \<and> g l = h l"
    by (meson le_trans less_imp_le_nat)
  have "f i \<ge> g i" "g i \<ge> h i"
    using assms i(3) by (auto simp: lexBelow_def not_less)
  moreover have "f i \<le> h i"
    using j i(2) by (cases "i = j") auto
  ultimately show False using i(1) by simp
qed

interpretation schema_cmp: version_compare CompareSchemaVersions
proof
  fix a b c
  show "CompareSchemaVersions a b \<in> {- 1, 0, 1}"
    by (rule CompareSchemaVersions_range)
  show "CompareSchemaVersions b a = - CompareSchemaVersions a b"
    by (rule CompareSchemaVersions_swap)
  have nonneg: "CompareSchemaVersions x y \<ge> 0 \<longleftrightarrow> \<not> lexBelow (components x) (components y)" for x y
    using CompareSchemaVersions_range [of x y] CompareSchemaVersions_less [of x y] by auto
  show "CompareSchemaVersions a b \<ge> 0 \<Longrightarrow> CompareSchemaVersions b c \<ge> 0 \<Longrightarrow> CompareSchemaVersions a c \<ge> 0"
    unfolding nonneg by (rule lexBelow_trans_not)
qed

lemma SchemaSatisfies_iff:
  "SchemaSatisfies current required \<longleftrightarrow>
     trimSpace current \<noteq> [] \<and> CompareSchemaVersions current required \<ge> 0"
  by (simp add: SchemaSatisfies_def)

section \<open>Properties\<close>


text \<open>
  Meeting a schema requirement is monotone: a store that satisfies a requirement satisfies every
  requirement that is not above it, and so does every store whose recorded schema is at least as new.
\<close>

theorem SchemaSatisfies_monotone:
  assumes "SchemaSatisfies current required"
    and "CompareSchemaVersions required lower \<ge> 0"
    and "CompareSchemaVersions newer current \<ge> 0" and "trimSpace newer \<noteq> []"
  shows "SchemaSatisfies newer lower"
  using assms schema_cmp.cmp_lower_requirement schema_cmp.cmp_trans
  by (metis SchemaSatisfies_iff)

theorem SchemaSatisfies_monotone_witness:
  "SchemaSatisfies ''v1.18'' ''1.17'' \<and> SchemaSatisfies ''1.18.1'' ''1.9''"
proof -
  have "SchemaSatisfies ''v1.18'' ''1.17''" "CompareSchemaVersions ''1.17'' ''1.9'' \<ge> 0"
    "CompareSchemaVersions ''1.18.1'' ''v1.18'' \<ge> 0" "trimSpace ''1.18.1'' \<noteq> []"
    by code_simp+
  then show ?thesis using SchemaSatisfies_monotone [of "''v1.18''" "''1.17''" "''1.9''" "''1.18.1''"] by simp
qed

end
