(* ===== verification/Cluster_Persistence.thy ===== *)
theory Cluster_Persistence
  imports Cluster_Upgrade Schema_Version
begin

text \<open>
  Datastore reachability and schema migration
  (\<^verbatim>\<open>src/internal/controller/temporalcluster_persistence.go\<close>): probing the default and visibility
  stores, running the setup and update Jobs or the inline schema of Elasticsearch, and the
  \<open>PersistenceReachable\<close> and \<open>SchemaReady\<close> conditions.
\<close>

definition persistenceRequeueAfter :: duration where
  "persistenceRequeueAfter = 30 * 1000000000"

definition backendFactory ::
  "TemporalClusterReconciler \<Rightarrow> DatastoreSpec \<Rightarrow> ResolvedCredential \<Rightarrow> string \<Rightarrow> backend result" where
  "backendFactory R =
     (case rc_BackendFactory R of Some f \<Rightarrow> f | None \<Rightarrow> DefaultBackendFactory (rc_Drivers R))"

definition storeDBName :: "DatastoreSpec \<Rightarrow> string" where
  "storeDBName store =
     (case ds_SQL store of
        Some s \<Rightarrow> sql_Database s
      | None \<Rightarrow> (case ds_Cassandra store of Some c \<Rightarrow> cas_Keyspace c | None \<Rightarrow> []))"

definition minSchemaFor :: "VersionInfo \<Rightarrow> string \<Rightarrow> SchemaStore \<Rightarrow> string" where
  "minSchemaFor info kind store =
     (if kind = ''cassandra'' then vi_MinSchemaCassandra info
      else if kind = ''elasticsearch'' then vi_MinSchemaES info
      else if store = StoreVisibility then vi_MinSchemaSQLVisibility info
      else vi_MinSchemaSQL info)"

record schemaTarget =
  tgt_store :: SchemaStore
  tgt_spec :: DatastoreSpec
  tgt_backend :: backend
  tgt_cred :: ResolvedCredential

section \<open>Conditions\<close>

definition setCondition :: "TemporalClusterReconciler \<Rightarrow> TemporalCluster \<Rightarrow> string \<Rightarrow> ConditionStatus \<Rightarrow> string \<Rightarrow> string \<Rightarrow> TemporalCluster" where
  "setCondition R cluster t status reason message =
     cluster \<lparr>tc_Status := (tc_Status cluster) \<lparr>st_Conditions :=
       setStatusCondition (rc_MetaApi R) (st_Conditions (tc_Status cluster))
         \<lparr>c_Type = t, c_Status = status, c_Reason = reason, c_Message = message,
          c_ObservedGeneration = om_Generation (tc_Meta cluster)\<rparr>\<rparr>\<rparr>"

definition setPersistence :: "TemporalCluster \<Rightarrow> (PersistenceStatus \<Rightarrow> PersistenceStatus) \<Rightarrow> TemporalCluster" where
  "setPersistence cluster f =
     cluster \<lparr>tc_Status := (tc_Status cluster) \<lparr>st_Persistence := f (st_Persistence (tc_Status cluster))\<rparr>\<rparr>"

definition setReachable :: "TemporalClusterReconciler \<Rightarrow> TemporalCluster \<Rightarrow> bool \<Rightarrow> string \<Rightarrow> TemporalCluster" where
  "setReachable R cluster reachable message =
     setCondition R (setPersistence cluster (\<lambda>p. p \<lparr>ps_Reachable := reachable\<rparr>)) ConditionPersistenceReachable
       (if reachable then ConditionTrue else ConditionFalse)
       (if reachable then ''Reachable'' else ''PersistenceUnreachable'') message"

definition setSchemaReady :: "TemporalClusterReconciler \<Rightarrow> TemporalCluster \<Rightarrow> ConditionStatus \<Rightarrow> string \<Rightarrow> string \<Rightarrow> TemporalCluster" where
  "setSchemaReady R cluster status reason message =
     setCondition R cluster ConditionSchemaReady status reason message"

definition setInspecting :: "TemporalClusterReconciler \<Rightarrow> TemporalCluster \<Rightarrow> string \<Rightarrow> TemporalCluster" where
  "setInspecting R cluster message =
     setCondition R (setPersistence cluster (\<lambda>p. p \<lparr>ps_Reachable := False\<rparr>)) ConditionPersistenceReachable
       ConditionFalse ''Inspecting'' message"

definition setSchemaVersion :: "TemporalCluster \<Rightarrow> SchemaStore \<Rightarrow> string \<Rightarrow> TemporalCluster" where
  "setSchemaVersion cluster store v =
     setPersistence cluster (\<lambda>p. p \<lparr>ps_SchemaVersions := (ps_SchemaVersions p)(storeString store \<mapsto> v)\<rparr>)"

section \<open>Jobs\<close>

definition ensureAzureServiceAccount :: "TemporalClusterReconciler \<Rightarrow> TemporalCluster \<Rightarrow> err option act" where
  "ensureAzureServiceAccount R cluster =
     (case pers_AzureWorkloadIdentity (spec_Persistence (tc_Spec cluster)) of
        None \<Rightarrow> State_Monad.return None
      | Some a \<Rightarrow>
          (case k_SetControllerReference (rc_Client R) (tc_Meta cluster)
                  (OServiceAccount (BuildAzureServiceAccount cluster a)) of
             Inl e \<Rightarrow> State_Monad.return (Some e)
           | Inr sa \<Rightarrow> do {
               r \<leftarrow> createObj (rc_Client R) sa;
               State_Monad.return (case r of
                 Inl e \<Rightarrow> if isAlreadyExists e then None else Some e
               | Inr _ \<Rightarrow> None)
             }))"

definition schemaJobPodTemplate :: "TemporalCluster \<Rightarrow> PodTemplateOverride option" where
  "schemaJobPodTemplate cluster =
     (case pers_SchemaJob (spec_Persistence (tc_Spec cluster)) of None \<Rightarrow> None | Some j \<Rightarrow> sj_PodTemplate j)"

datatype jobPhase = jobPending | jobRunning | jobSucceeded | jobFailed

fun classifyConditions :: "JobCondition list \<Rightarrow> jobPhase option" where
  "classifyConditions [] = None"
| "classifyConditions (c # cs) =
     (if jc_Type c = ''Complete'' \<and> jc_Status c = ConditionTrue then Some jobSucceeded
      else if jc_Type c = ''Failed'' \<and> jc_Status c = ConditionTrue then Some jobFailed
      else classifyConditions cs)"

definition classifyJob :: "Job \<Rightarrow> jobPhase" where
  "classifyJob job =
     (case classifyConditions (job_Conditions job) of
        Some p \<Rightarrow> p
      | None \<Rightarrow> if job_Active job > 0 then jobRunning else jobPending)"

definition jobRunsImage :: "Job \<Rightarrow> string \<Rightarrow> bool" where
  "jobRunsImage job img =
     (case findFirst (\<lambda>c. ct_Name c = SchemaContainerName) (pod_Containers (pt_Spec (job_Template job))) of
        None \<Rightarrow> False
      | Some c \<Rightarrow> ct_Image c = img)"

text \<open>The parameters of the schema Job of a target, and the Job itself with the Azure wiring.\<close>

definition schemaJobParams :: "TemporalCluster \<Rightarrow> schemaTarget \<Rightarrow> SchemaAction \<Rightarrow> SchemaJobParams" where
  "schemaJobParams cluster t action =
     \<lparr>sjp_Cluster = cluster, sjp_SQLSpec = ds_SQL (tgt_spec t), sjp_CassandraSpec = ds_Cassandra (tgt_spec t),
      sjp_Store = tgt_store t, sjp_Action = action, sjp_SchemaVersionDir = PostgresSchemaDir,
      sjp_PasswordCommand =
        (if AzureWorkloadIdentityEnabled cluster then AzurePasswordCommand else cred_PasswordCommand (tgt_cred t)),
      sjp_PodTemplate =
        (if AzureWorkloadIdentityEnabled cluster then None else schemaJobPodTemplate cluster)\<rparr>"

text \<open>With Azure no override is applied, so the Job shares its label map with its pod template.\<close>

definition buildClusterSchemaJob :: "TemporalClusterReconciler \<Rightarrow> TemporalCluster \<Rightarrow> schemaTarget \<Rightarrow> SchemaAction \<Rightarrow> Job result" where
  "buildClusterSchemaJob R cluster t action =
     bindR (BuildSchemaJob (pl_smp (rc_Libs R)) (schemaJobParams cluster t action)) (\<lambda>built.
       case pers_AzureWorkloadIdentity (spec_Persistence (tc_Spec cluster)) of
         None \<Rightarrow> Inr built
       | Some a \<Rightarrow>
           Inr (built \<lparr>
             job_Template := ApplyAzureSchemaWorkloadIdentity (job_Template built) cluster a ''schema'',
             job_Meta := (job_Meta built) \<lparr>om_Labels := (om_Labels (job_Meta built))(AzureWILabel \<mapsto> ''true'')\<rparr>\<rparr>))"

definition ensureSchemaJob ::
  "TemporalClusterReconciler \<Rightarrow> TemporalCluster \<Rightarrow> schemaTarget \<Rightarrow> SchemaAction \<Rightarrow> jobPhase result act" where
  "ensureSchemaJob R cluster t action =
     (let k = rc_Client R; ns = tc_Namespace cluster; name = SchemaJobName (tc_Name cluster) (tgt_store t) action in do {
        r \<leftarrow> getJob k ns name;
        case r of
          Inl e \<Rightarrow>
            if \<not> isNotFound e then State_Monad.return (Inl e)
            else
              (case buildClusterSchemaJob R cluster t action of
                 Inl be \<Rightarrow> State_Monad.return (Inl be)
               | Inr built \<Rightarrow>
               (case k_SetControllerReference k (tc_Meta cluster) (OJob built) of
                 Inl oe \<Rightarrow> State_Monad.return (Inl oe)
               | Inr owned \<Rightarrow> do {
                   c \<leftarrow> createObj k owned;
                   State_Monad.return (case c of
                     Inl ce \<Rightarrow> if isAlreadyExists ce then Inr jobPending else Inl ce
                   | Inr _ \<Rightarrow> Inr jobPending)
                 }))
        | Inr job \<Rightarrow>
            if om_DeletionTimestamp (job_Meta job) \<noteq> None then State_Monad.return (Inr jobPending)
            else if \<not> jobRunsImage job (AdminToolsImage (spec_Version (tc_Spec cluster))) then do {
              d \<leftarrow> deleteObj k ''Job'' (om_Namespace (job_Meta job)) (om_Name (job_Meta job));
              State_Monad.return (case d of
                Some de \<Rightarrow> (case ignoreNotFound de of None \<Rightarrow> Inr jobPending | Some e \<Rightarrow> Inl e)
              | None \<Rightarrow> Inr jobPending)
            }
            else State_Monad.return (Inr (classifyJob job))
      })"

definition ensureInspectorJob ::
  "TemporalClusterReconciler \<Rightarrow> TemporalCluster \<Rightarrow> AzureWorkloadIdentitySpec \<Rightarrow> SQLDatastoreSpec \<Rightarrow> SchemaStore \<Rightarrow> Job result act" where
  "ensureInspectorJob R cluster a sqlSpec store =
     (let k = rc_Client R; ns = tc_Namespace cluster; name = InspectorJobName (tc_Name cluster) store in do {
        r \<leftarrow> getJob k ns name;
        case r of
          Inl e \<Rightarrow>
            if \<not> isNotFound e then State_Monad.return (Inl e)
            else
              (let built = BuildInspectorJob \<lparr>ijp_Cluster = cluster, ijp_Store = store,
                             ijp_SQLSpec = sqlSpec, ijp_OperatorImage = rc_OperatorImage R\<rparr> a
               in case k_SetControllerReference k (tc_Meta cluster) (OJob built) of
                    Inl oe \<Rightarrow> State_Monad.return (Inl oe)
                  | Inr owned \<Rightarrow> do {
                      c \<leftarrow> createObj k owned;
                      State_Monad.return (case c of
                        Inl ce \<Rightarrow> if isAlreadyExists ce then Inl ErrInspecting else Inl ce
                      | Inr ob \<Rightarrow> (case ob of OJob j \<Rightarrow> Inr j | _ \<Rightarrow> Inr built))
                    })
        | Inr job \<Rightarrow>
            if om_DeletionTimestamp (job_Meta job) \<noteq> None then State_Monad.return (Inl ErrInspecting)
            else State_Monad.return (Inr job)
      })"

definition deleteInspectorJob :: "TemporalClusterReconciler \<Rightarrow> TemporalCluster \<Rightarrow> SchemaStore \<Rightarrow> err option act" where
  "deleteInspectorJob R cluster store =
     (let k = rc_Client R; name = InspectorJobName (tc_Name cluster) store in do {
        r \<leftarrow> getJob k (tc_Namespace cluster) name;
        case r of
          Inl e \<Rightarrow> State_Monad.return (ignoreNotFound e)
        | Inr job \<Rightarrow> do {
            d \<leftarrow> deleteObj k ''Job'' (om_Namespace (job_Meta job)) (om_Name (job_Meta job));
            State_Monad.return (case d of Some e \<Rightarrow> ignoreNotFound e | None \<Rightarrow> None)
          }
      })"

section \<open>Targets\<close>

definition buildTarget ::
  "TemporalClusterReconciler \<Rightarrow> TemporalCluster \<Rightarrow> DatastoreSpec \<Rightarrow> SchemaStore \<Rightarrow> schemaTarget result act" where
  "buildTarget R cluster store name = do {
     c \<leftarrow> ResolveStore (rc_Client R) (tc_Namespace cluster) store;
     case c of
       Inl e \<Rightarrow> State_Monad.return (Inl (WrapErr (''resolving '' @ storeString name @ '' store credential'') e))
     | Inr cred \<Rightarrow>
         (case (pers_AzureWorkloadIdentity (spec_Persistence (tc_Spec cluster)), ds_SQL store) of
            (Some a, Some sql) \<Rightarrow> do {
              b \<leftarrow> NewJobInspectorBackend (rc_Client R) (rc_Drivers R) name (ensureInspectorJob R cluster a sql name);
              State_Monad.return (Inr \<lparr>tgt_store = name, tgt_spec = store, tgt_backend = b, tgt_cred = cred\<rparr>)
            }
          | _ \<Rightarrow>
              State_Monad.return
                (case backendFactory R store cred (storeDBName store) of
                   Inl e \<Rightarrow> Inl (WrapErr (''building '' @ storeString name @ '' backend'') e)
                 | Inr b \<Rightarrow> Inr \<lparr>tgt_store = name, tgt_spec = store, tgt_backend = b, tgt_cred = cred\<rparr>))
   }"

definition buildSchemaTargets :: "TemporalClusterReconciler \<Rightarrow> TemporalCluster \<Rightarrow> schemaTarget list result act" where
  "buildSchemaTargets R cluster =
     (let p = spec_Persistence (tc_Spec cluster) in do {
        d \<leftarrow> buildTarget R cluster (pers_DefaultStore p) StoreDefault;
        case d of
          Inl e \<Rightarrow> State_Monad.return (Inl e)
        | Inr dt \<Rightarrow> do {
            v \<leftarrow> buildTarget R cluster (pers_VisibilityStore p) StoreVisibility;
            State_Monad.return (case v of Inl e \<Rightarrow> Inl e | Inr vt \<Rightarrow> Inr [dt, vt])
          }
      })"

section \<open>Schema of one store\<close>

record storeResult =
  sr_done :: bool
  sr_failed :: bool
  sr_message :: string

definition notDone :: storeResult where
  "notDone = \<lparr>sr_done = False, sr_failed = False, sr_message = []\<rparr>"

definition updateSchemaJob :: "TemporalClusterReconciler \<Rightarrow> TemporalCluster \<Rightarrow> schemaTarget \<Rightarrow> storeResult result act" where
  "updateSchemaJob R cluster t = do {
     u \<leftarrow> ensureSchemaJob R cluster t ActionUpdate;
     case u of
       Inl e \<Rightarrow> State_Monad.return (Inl e)
     | Inr phase \<Rightarrow>
         if phase = jobFailed then
           State_Monad.return (Inr (notDone \<lparr>sr_failed := True,
             sr_message := storeString (tgt_store t) @ '' update-schema job failed''\<rparr>))
         else if phase = jobSucceeded then do {
           d \<leftarrow> deleteInspectorJob R cluster (tgt_store t);
           State_Monad.return (case d of Some e \<Rightarrow> Inl e | None \<Rightarrow> Inr notDone)
         }
         else State_Monad.return (Inr notDone)
   }"

definition reconcileJobSchema ::
  "TemporalClusterReconciler \<Rightarrow> TemporalCluster \<Rightarrow> schemaTarget \<Rightarrow> string \<Rightarrow> storeResult result act" where
  "reconcileJobSchema R cluster t current =
     (if current = [] then do {
        s \<leftarrow> ensureSchemaJob R cluster t ActionSetup;
        case s of
          Inl e \<Rightarrow> State_Monad.return (Inl e)
        | Inr phase \<Rightarrow>
            if phase = jobFailed then
              State_Monad.return (Inr (notDone \<lparr>sr_failed := True,
                sr_message := storeString (tgt_store t) @ '' setup-schema job failed''\<rparr>))
            else if phase \<noteq> jobSucceeded then State_Monad.return (Inr notDone)
            else updateSchemaJob R cluster t
      }
      else updateSchemaJob R cluster t)"

definition reconcileStoreSchema ::
  "TemporalClusterReconciler \<Rightarrow> TemporalCluster \<Rightarrow> schemaTarget \<Rightarrow> string \<Rightarrow> (TemporalCluster \<times> storeResult result) act" where
  "reconcileStoreSchema R cluster t minSchema = do {
     v \<leftarrow> be_SchemaVersion (tgt_backend t);
     case v of
       Inl e \<Rightarrow> State_Monad.return (cluster, Inl (WrapErr (''inspecting '' @ storeString (tgt_store t) @ '' schema'') e))
     | Inr current \<Rightarrow>
         (let cl = setSchemaVersion cluster (tgt_store t) current in
          if SchemaSatisfies current minSchema
          then State_Monad.return (cl, Inr (notDone \<lparr>sr_done := True\<rparr>))
          else do {
            i \<leftarrow> be_EnsureSchema (tgt_backend t) minSchema;
            case i of
              Inl e \<Rightarrow> State_Monad.return (cl, Inl (WrapErr (''applying '' @ storeString (tgt_store t) @ '' schema'') e))
            | Inr inline \<Rightarrow>
                if inline then do {
                  v2 \<leftarrow> be_SchemaVersion (tgt_backend t);
                  State_Monad.return (case v2 of
                    Inl e \<Rightarrow> (cl, Inl e)
                  | Inr cur2 \<Rightarrow>
                      (setSchemaVersion cl (tgt_store t) cur2,
                       Inr (notDone \<lparr>sr_done := SchemaSatisfies cur2 minSchema\<rparr>)))
                }
                else do {
                  jr \<leftarrow> reconcileJobSchema R cl t current;
                  State_Monad.return (cl, jr)
                }
          })
   }"

section \<open>The whole step\<close>

text \<open>The loop that probes the stores: the first failure ends it.\<close>

fun probeAll :: "schemaTarget list \<Rightarrow> (SchemaStore \<times> err) option act" where
  "probeAll [] = State_Monad.return None"
| "probeAll (t # ts) = do {
     r \<leftarrow> be_Probe (tgt_backend t);
     case r of
       Inl e \<Rightarrow> State_Monad.return (Some (tgt_store t, e))
     | Inr _ \<Rightarrow> probeAll ts
   }"

text \<open>How the loop over the stores' schemas ends.\<close>

datatype schemaOutcome = SchemaError err | SchemaFailed string | SchemaLoop bool

fun schemaLoop ::
  "TemporalClusterReconciler \<Rightarrow> TemporalCluster \<Rightarrow> VersionInfo \<Rightarrow> schemaTarget list \<Rightarrow> bool \<Rightarrow> (TemporalCluster \<times> schemaOutcome) act" where
  "schemaLoop R cluster info [] migrating = State_Monad.return (cluster, SchemaLoop migrating)"
| "schemaLoop R cluster info (t # ts) migrating = do {
     (cl, res) \<leftarrow> reconcileStoreSchema R cluster t
                   (minSchemaFor info (be_Kind (tgt_backend t)) (tgt_store t));
     case res of
       Inl e \<Rightarrow>
         if errorsIs e ErrInspecting then schemaLoop R cl info ts True
         else State_Monad.return (cl, SchemaError e)
     | Inr s \<Rightarrow>
         if sr_failed s then State_Monad.return (cl, SchemaFailed (sr_message s))
         else schemaLoop R cl info ts (migrating \<or> \<not> sr_done s)
   }"

text \<open>The tail of \<open>reconcilePersistence\<close>, once every store answered its probe.\<close>

definition reconcileSchemas ::
  "TemporalClusterReconciler \<Rightarrow> TemporalCluster \<Rightarrow> schemaTarget list \<Rightarrow> (TemporalCluster \<times> Result result) act" where
  "reconcileSchemas R cluster targets =
     (case LookupVersion (spec_Version (tc_Spec cluster)) of
        Inl e \<Rightarrow> State_Monad.return (cluster, Inl e)
      | Inr info \<Rightarrow> do {
          (cl, out) \<leftarrow> schemaLoop R cluster info targets False;
          State_Monad.return (case out of
            SchemaError e \<Rightarrow> (cl, Inl e)
          | SchemaFailed msg \<Rightarrow>
              (setSchemaReady R cl ConditionFalse ''SchemaMigrationFailed'' msg, Inr noResult)
          | SchemaLoop migrating \<Rightarrow>
              if migrating
              then (setSchemaReady R cl ConditionFalse ''SchemaMigrating'' ''schema migration in progress'',
                    Inr (requeueAfter persistenceRequeueAfter))
              else (setSchemaReady R cl ConditionTrue ''SchemaReady'' ''all schemas are at the required version'',
                    Inr noResult))
        })"

text \<open>Its middle part: every store is probed before any schema is looked at.\<close>

definition reconcileTargets ::
  "TemporalClusterReconciler \<Rightarrow> TemporalCluster \<Rightarrow> schemaTarget list \<Rightarrow> (TemporalCluster \<times> Result result) act" where
  "reconcileTargets R cluster targets = do {
     p \<leftarrow> probeAll targets;
     case p of
       Some (store, e) \<Rightarrow>
         if errorsIs e ErrInspecting then
           State_Monad.return (setInspecting R cluster (storeString store @ '' store: inspection in progress''),
             Inr (requeueAfter persistenceRequeueAfter))
         else
           State_Monad.return (setReachable R cluster False (storeString store @ '' store: '' @ err_text e),
             Inr (requeueAfter persistenceRequeueAfter))
     | None \<Rightarrow> reconcileSchemas R (setReachable R cluster True ''datastore is reachable'') targets
   }"

definition reconcilePersistence ::
  "TemporalClusterReconciler \<Rightarrow> TemporalCluster \<Rightarrow> (TemporalCluster \<times> Result result) act" where
  "reconcilePersistence R cluster = do {
     sae \<leftarrow> ensureAzureServiceAccount R cluster;
     case sae of
       Some e \<Rightarrow> State_Monad.return (cluster, Inl e)
     | None \<Rightarrow> do {
         ts \<leftarrow> buildSchemaTargets R cluster;
         case ts of
           Inl e \<Rightarrow>
             State_Monad.return (setReachable R cluster False (err_text e), Inr (requeueAfter persistenceRequeueAfter))
         | Inr targets \<Rightarrow> reconcileTargets R cluster targets
       }
   }"

section \<open>The inspector backend keeps the contract\<close>

lemma emits_ensureInspectorJob: "emits (\<lambda>c. \<not> isApply c) (ensureInspectorJob R cluster a sql store)"
  unfolding ensureInspectorJob_def by (intro emits_rules) auto

lemma emits_inspectOnce: "emits (\<lambda>c. \<not> isApply c) e \<Longrightarrow> emits (\<lambda>c. \<not> isApply c) (inspectOnce k d store e)"
  unfolding inspectOnce_def by (intro emits_rules) auto

interpretation inspector_contract:
  backend_contract "jobInspectorBackend k d store (ensureInspectorJob R cluster a sql name)"
  for k d store R cluster a sql name
proof
  let ?b = "jobInspectorBackend k d store (ensureInspectorJob R cluster a sql name)"
  note once = emits_inspectOnce [OF emits_ensureInspectorJob]
  show "emits (\<lambda>c. \<not> isApply c) (be_Probe ?b)"
    unfolding jobInspectorBackend_def inspector_Probe_def by simp (intro emits_rules once)
  show "emits (\<lambda>c. \<not> isApply c) (be_SchemaVersion ?b)"
    unfolding jobInspectorBackend_def inspector_SchemaVersion_def by simp (intro emits_rules once)
qed (auto simp: jobInspectorBackend_def intro: emits_rules)

end
