(* ===== verification/Cluster_Reconcile.thy ===== *)
theory Cluster_Reconcile
  imports Cluster_Persistence
begin

text \<open>
  The rest of the cluster controller (\<^verbatim>\<open>src/internal/controller\<close>): certificates
  (\<^verbatim>\<open>temporalcluster_mtls.go\<close>), the Temporal services (\<^verbatim>\<open>temporalcluster_services.go\<close>), the UI and
  monitoring objects, the derivation of the \<open>Ready\<close> condition and the phase, and \<open>Reconcile\<close> itself
  (\<^verbatim>\<open>temporalcluster_controller.go\<close>).
\<close>

section \<open>Applying objects\<close>

text \<open>
  \<^verbatim>\<open>serverSideApply\<close> resolves the kind from the scheme and converts the object; both succeed for
  every type of \<open>KObj\<close>, so what is left of it is the apply call.
\<close>

definition serverSideApply :: "kube \<Rightarrow> KObj \<Rightarrow> err option act" where
  "serverSideApply k ob = applyObj k ob"

definition applyOwned :: "TemporalClusterReconciler \<Rightarrow> TemporalCluster \<Rightarrow> KObj \<Rightarrow> err option act" where
  "applyOwned R cluster ob =
     (case k_SetControllerReference (rc_Client R) (tc_Meta cluster) ob of
        Inl e \<Rightarrow> State_Monad.return (Some e)
      | Inr owned \<Rightarrow> serverSideApply (rc_Client R) owned)"

text \<open>A loop that applies planned objects and stops at the first error.\<close>

fun applyAll :: "TemporalClusterReconciler \<Rightarrow> TemporalCluster \<Rightarrow> KObj list \<Rightarrow> err option act" where
  "applyAll R cluster [] = State_Monad.return None"
| "applyAll R cluster (ob # obs) = do {
     e \<leftarrow> applyOwned R cluster ob;
     case e of Some er \<Rightarrow> State_Monad.return (Some er) | None \<Rightarrow> applyAll R cluster obs
   }"

section \<open>mTLS\<close>

definition mTLSEnabled :: "TemporalCluster \<Rightarrow> bool" where
  "mTLSEnabled cluster = MTLSEnabled cluster"

text \<open>The conditions of one certificate: whether it is ready and whether it failed.\<close>

fun certConditions :: "CertCondition list \<Rightarrow> bool \<times> bool" where
  "certConditions [] = (False, False)"
| "certConditions (c # cs) =
     (let (ready, failed) = certConditions cs in
      if cc_Type c = ''Ready'' then
        (if cc_Status c = ConditionTrue then (True, failed)
         else if cc_Status c = ConditionFalse \<and> cc_Reason c = ''Failed'' then (ready, True)
         else (ready, failed))
      else (ready, failed))"

fun certificatesStatus :: "TemporalClusterReconciler \<Rightarrow> TemporalCluster \<Rightarrow> string list \<Rightarrow> (bool \<times> bool) act" where
  "certificatesStatus R cluster [] = State_Monad.return (True, False)"
| "certificatesStatus R cluster (name # names) = do {
     r \<leftarrow> getCertificate (rc_Client R) (tc_Namespace cluster) name;
     (allReady, anyFailed) \<leftarrow> certificatesStatus R cluster names;
     State_Monad.return (case r of
       Inl _ \<Rightarrow> (False, anyFailed)
     | Inr cert \<Rightarrow>
         (let (ready, failed) = certConditions (crt_Conditions cert)
          in (ready \<and> allReady, failed \<or> anyFailed)))
   }"

definition setMTLSReady :: "TemporalClusterReconciler \<Rightarrow> TemporalCluster \<Rightarrow> ConditionStatus \<Rightarrow> string \<Rightarrow> string \<Rightarrow> TemporalCluster" where
  "setMTLSReady R cluster status reason message =
     setCondition R cluster ConditionMTLSReady status reason message"

definition reconcileMTLS :: "TemporalClusterReconciler \<Rightarrow> TemporalCluster \<Rightarrow> (TemporalCluster \<times> err option) act" where
  "reconcileMTLS R cluster =
     (if \<not> mTLSEnabled cluster then State_Monad.return (cluster, None)
      else case PlanMTLS cluster of
             Inl e \<Rightarrow> State_Monad.return (cluster, Some e)
           | Inr ps \<Rightarrow> do {
               ae \<leftarrow> applyAll R cluster (map plo_Object ps);
               case ae of
                 Some e \<Rightarrow> State_Monad.return (cluster, Some e)
               | None \<Rightarrow> do {
                   (ready, failed) \<leftarrow> certificatesStatus R cluster
                      [InternodeCertName (tc_Name cluster), FrontendCertName (tc_Name cluster)];
                   State_Monad.return
                     (if failed then setMTLSReady R cluster ConditionFalse ''CertificateIssuanceFailed''
                        ''one or more certificates failed to issue''
                      else if ready then setMTLSReady R cluster ConditionTrue ''CertificatesReady''
                        ''all certificates are ready''
                      else setMTLSReady R cluster ConditionFalse ''Reconciling''
                        ''waiting for certificates to be issued'', None)
                 }
             })"

text \<open>The bytes written to the hash, or \<open>None\<close> when a read fails.\<close>

fun certHashInput :: "TemporalClusterReconciler \<Rightarrow> TemporalCluster \<Rightarrow> string list \<Rightarrow> string option act" where
  "certHashInput R cluster [] = State_Monad.return (Some [])"
| "certHashInput R cluster (name # names) = do {
     r \<leftarrow> getSecret (rc_Client R) (tc_Namespace cluster) name;
     case r of
       Inl e \<Rightarrow> if isNotFound e then certHashInput R cluster names else State_Monad.return None
     | Inr s \<Rightarrow> do {
         rest \<leftarrow> certHashInput R cluster names;
         State_Monad.return (map_option (\<lambda>t. name @ om_ResourceVersion (sec_Meta s) @ t) rest)
       }
   }"

definition certHash :: "TemporalClusterReconciler \<Rightarrow> TemporalCluster \<Rightarrow> string list \<Rightarrow> string act" where
  "certHash R cluster names = do {
     r \<leftarrow> certHashInput R cluster names;
     State_Monad.return (case r of None \<Rightarrow> [] | Some t \<Rightarrow> take 16 (hexEncode (sha256 t)))
   }"

definition mtlsMounts :: "TemporalClusterReconciler \<Rightarrow> TemporalCluster \<Rightarrow> MTLSMounts option act" where
  "mtlsMounts R cluster =
     (if \<not> mTLSEnabled cluster then State_Monad.return None
      else (let i = InternodeCertName (tc_Name cluster); f = FrontendCertName (tc_Name cluster) in do {
        h \<leftarrow> certHash R cluster [i, f];
        State_Monad.return (Some \<lparr>mm_Enabled = True, mm_InternodeSecret = i, mm_FrontendSecret = f, mm_CertHash = h\<rparr>)
      }))"

section \<open>Services\<close>

record renderedConfig =
  rd_config :: string
  rd_dynamicConfig :: string

definition publicClientHostPort :: "TemporalCluster \<Rightarrow> string" where
  "publicClientHostPort cluster =
     FrontendServiceName (tc_Name cluster) @ ''.'' @ tc_Namespace cluster @ ''.svc:'' @
     itoa (case DefaultServicePorts ''frontend'' of None \<Rightarrow> 0 | Some p \<Rightarrow> port_GRPC p)"

definition clusterBuildOptions :: "TemporalCluster \<Rightarrow> ResolvedCredential \<Rightarrow> ResolvedCredential \<Rightarrow> BuildOptions" where
  "clusterBuildOptions cluster defCred visCred =
     (let azure = AzureWorkloadIdentityEnabled cluster in
      \<lparr>bo_BindOnIP = [], bo_BroadcastAddress = [], bo_DynamicConfigPath = [],
       bo_DefaultStorePassword = cred_Password defCred,
       bo_VisibilityStorePassword = cred_Password visCred,
       bo_DefaultStorePasswordCommand = (if azure then AzurePasswordCommand else cred_PasswordCommand defCred),
       bo_VisibilityStorePasswordCommand = (if azure then AzurePasswordCommand else cred_PasswordCommand visCred),
       bo_PublicClientHostPort = publicClientHostPort cluster\<rparr>)"

text \<open>The pure part of \<open>renderConfig\<close>, once both credentials are known.\<close>

definition renderWith :: "planlibs \<Rightarrow> TemporalCluster \<Rightarrow> BuildOptions \<Rightarrow> renderedConfig result" where
  "renderWith L cluster opts =
     (case RenderClusterConfig (pl_render L) (pl_yamlAny L) cluster opts of
        Inl e \<Rightarrow> Inl (WrapErr ''rendering config'' e)
      | Inr cfg \<Rightarrow>
      (case fst (RenderDynamicConfig (pl_marshal L) (pl_json L) (spec_DynamicConfig (tc_Spec cluster))
              (spec_Version (tc_Spec cluster))) of
        Inl e \<Rightarrow> Inl (WrapErr ''rendering dynamic config'' e)
      | Inr dyn \<Rightarrow> Inr \<lparr>rd_config = cfg, rd_dynamicConfig = dyn\<rparr>))"

definition renderConfig :: "TemporalClusterReconciler \<Rightarrow> TemporalCluster \<Rightarrow> renderedConfig result act" where
  "renderConfig R cluster =
     (let p = spec_Persistence (tc_Spec cluster); ns = tc_Namespace cluster in do {
        d \<leftarrow> ResolveStore (rc_Client R) ns (pers_DefaultStore p);
        case d of
          Inl e \<Rightarrow> State_Monad.return (Inl (WrapErr ''resolving default store credential'' e))
        | Inr defCred \<Rightarrow> do {
            v \<leftarrow> ResolveStore (rc_Client R) ns (pers_VisibilityStore p);
            State_Monad.return (case v of
              Inl e \<Rightarrow> Inl (WrapErr ''resolving visibility store credential'' e)
            | Inr visCred \<Rightarrow> renderWith (rc_Libs R) cluster (clusterBuildOptions cluster defCred visCred))
          }
      })"

text \<open>The Azure wiring of a planned object; a shared label map carries the new label to both.\<close>

definition wireAzure :: "TemporalCluster \<Rightarrow> PlannedObject \<Rightarrow> KObj" where
  "wireAzure cluster p =
     (case pers_AzureWorkloadIdentity (spec_Persistence (tc_Spec cluster)) of
        None \<Rightarrow> plo_Object p
      | Some a \<Rightarrow>
          (case plo_Object p of
             ODeployment dep \<Rightarrow>
               ODeployment (dep \<lparr>
                 dep_Template := ApplyAzureServerWorkloadIdentity (dep_Template dep) cluster a ServerContainerName,
                 dep_Meta := (if plo_SharedLabels p
                   then (dep_Meta dep) \<lparr>om_Labels := (om_Labels (dep_Meta dep))(AzureWILabel \<mapsto> ''true'')\<rparr>
                   else dep_Meta dep)\<rparr>)
           | ob \<Rightarrow> ob))"

text \<open>The loop over the services: the statuses, and whether each has a ready replica.\<close>

fun rollupLoop :: "TemporalClusterReconciler \<Rightarrow> TemporalCluster \<Rightarrow> ServiceInfo list \<Rightarrow> bool \<Rightarrow> (TemporalCluster \<times> bool result) act" where
  "rollupLoop R cluster [] allReady = State_Monad.return (cluster, Inr allReady)"
| "rollupLoop R cluster (svc # svcs) allReady = do {
     r \<leftarrow> getDeployment (rc_Client R) (tc_Namespace cluster) (DeploymentName (tc_Name cluster) (si_Name svc));
     case r of
       Inl e \<Rightarrow> State_Monad.return (cluster, Inl e)
     | Inr dep \<Rightarrow>
         (let status = \<lparr>sst_Ready = dep_ReadyReplicas dep, sst_Desired = derefOr 1 (dep_Replicas dep),
                         sst_Version = spec_Version (tc_Spec cluster)\<rparr>;
              c = cluster \<lparr>tc_Status := (tc_Status cluster)
                    \<lparr>st_Services := (st_Services (tc_Status cluster))(si_Name svc \<mapsto> status)\<rparr>\<rparr>
          in rollupLoop R c svcs (if dep_ReadyReplicas dep < 1 then False else allReady))
   }"

definition rollupServiceStatus ::
  "TemporalClusterReconciler \<Rightarrow> TemporalCluster \<Rightarrow> ServiceInfo list \<Rightarrow> (TemporalCluster \<times> err option) act" where
  "rollupServiceStatus R cluster services = do {
     (c, r) \<leftarrow> rollupLoop R cluster services True;
     State_Monad.return (case r of
       Inl e \<Rightarrow> (c, Some e)
     | Inr allReady \<Rightarrow>
         (if allReady
          then setCondition R c ConditionAvailable ConditionTrue ''AllServicesReady'' ''all services are ready''
          else setCondition R c ConditionAvailable ConditionFalse ''RolloutInProgress''
                 ''waiting for all services to become ready'', None))
   }"

definition reconcileServices ::
  "TemporalClusterReconciler \<Rightarrow> TemporalCluster \<Rightarrow> gomap \<Rightarrow> (TemporalCluster \<times> err option) act" where
  "reconcileServices R cluster serviceVersions =
     (if \<not> condTrue R cluster ConditionSchemaReady then State_Monad.return (cluster, None)
      else do {
        rr \<leftarrow> renderConfig R cluster;
        case rr of
          Inl e \<Rightarrow> State_Monad.return (cluster, Some e)
        | Inr rendered \<Rightarrow> do {
            mounts \<leftarrow> mtlsMounts R cluster;
            case PlanServices (rc_Libs R) cluster
                   \<lparr>sin_RenderedConfig = rd_config rendered,
                    sin_RenderedDynamicConfig = rd_dynamicConfig rendered,
                    sin_ConfigHash = ConfigHash (rd_config rendered),
                    sin_DynamicConfigHash = [],
                    sin_ServiceVersions = serviceVersions,
                    sin_MTLS = mounts\<rparr> of
              Inl e \<Rightarrow> State_Monad.return (cluster, Some e)
            | Inr planned \<Rightarrow> do {
                ae \<leftarrow> applyAll R cluster (map (wireAzure cluster) planned);
                case ae of
                  Some e \<Rightarrow> State_Monad.return (cluster, Some e)
                | None \<Rightarrow> rollupServiceStatus R cluster (EnabledServices cluster)
              }
          }
      })"

section \<open>UI and monitoring\<close>

definition reconcileUI :: "TemporalClusterReconciler \<Rightarrow> TemporalCluster \<Rightarrow> err option act" where
  "reconcileUI R cluster =
     (case spec_UI (tc_Spec cluster) of
        None \<Rightarrow> State_Monad.return None
      | Some u \<Rightarrow>
          if \<not> ui_Enabled u then State_Monad.return None
          else (case PlanUI (rc_Libs R) cluster of
                  Inl e \<Rightarrow> State_Monad.return (Some e)
                | Inr ps \<Rightarrow> applyAll R cluster (map plo_Object ps)))"

definition serviceMonitorCRDInstalled :: "TemporalClusterReconciler \<Rightarrow> bool act" where
  "serviceMonitorCRDInstalled R = State (\<lambda>w. (k_ServiceMonitorCRD (rc_Client R) (w_trace w), w))"

definition reconcileMonitoring :: "TemporalClusterReconciler \<Rightarrow> TemporalCluster \<Rightarrow> err option act" where
  "reconcileMonitoring R cluster =
     (if \<not> serviceMonitorRequested cluster then State_Monad.return None
      else do {
        installed \<leftarrow> serviceMonitorCRDInstalled R;
        if \<not> installed then State_Monad.return None
        else applyAll R cluster (map plo_Object (PlanMonitoring cluster))
      })"

section \<open>Ready and phase\<close>

definition mtlsReadyOrOff :: "TemporalClusterReconciler \<Rightarrow> TemporalCluster \<Rightarrow> bool" where
  "mtlsReadyOrOff R cluster = (\<not> mTLSEnabled cluster \<or> condTrue R cluster ConditionMTLSReady)"

definition phaseOf :: "TemporalClusterReconciler \<Rightarrow> TemporalCluster \<Rightarrow> string" where
  "phaseOf R cluster =
     (if \<not> condTrue R cluster ConditionPersistenceReachable then ''Pending''
      else if \<not> condTrue R cluster ConditionSchemaReady then ''ProvisioningSchema''
      else if upgradeInProgress cluster then ''Upgrading''
      else if \<not> condTrue R cluster ConditionAvailable then ''DeployingServices''
      else ''Ready'')"

definition setPhase :: "TemporalCluster \<Rightarrow> string \<Rightarrow> TemporalCluster" where
  "setPhase cluster p = cluster \<lparr>tc_Status := (tc_Status cluster) \<lparr>st_Phase := p\<rparr>\<rparr>"

definition setVersion :: "TemporalCluster \<Rightarrow> string \<Rightarrow> TemporalCluster" where
  "setVersion cluster v = cluster \<lparr>tc_Status := (tc_Status cluster) \<lparr>st_Version := v\<rparr>\<rparr>"

definition computeReadyAndPhase :: "TemporalClusterReconciler \<Rightarrow> TemporalCluster \<Rightarrow> TemporalCluster act" where
  "computeReadyAndPhase R cluster =
     (let ready = (condTrue R cluster ConditionPersistenceReachable \<and> condTrue R cluster ConditionSchemaReady \<and>
                   condTrue R cluster ConditionAvailable \<and> mtlsReadyOrOff R cluster);
          wasReady = condTrue R cluster ConditionReady;
          c1 = setPhase cluster (phaseOf R cluster);
          c2 = (if ready \<and> \<not> upgradeInProgress cluster then setVersion c1 (spec_Version (tc_Spec cluster)) else c1);
          c3 = (if ready
                then setCondition R c2 ConditionReady ConditionTrue ''AllServicesReady'' ''cluster is ready''
                else setCondition R c2 ConditionReady ConditionFalse ''Reconciling'' ''cluster is not yet ready'')
      in if ready \<and> \<not> wasReady
         then do { event R ''ClusterReady'' ''TemporalCluster is ready''; State_Monad.return c3 }
         else State_Monad.return c3)"

section \<open>Reconcile\<close>

text \<open>
  The body of \<open>Reconcile\<close> on the object that was read: the steps in order, an error ending the pass
  before the status is written.  The first component of the answer is the object whose status the
  API server has accepted.
\<close>

definition observeGeneration :: "TemporalCluster \<Rightarrow> TemporalCluster" where
  "observeGeneration cluster =
     cluster \<lparr>tc_Status := (tc_Status cluster) \<lparr>st_ObservedGeneration := om_Generation (tc_Meta cluster)\<rparr>\<rparr>"

definition finishPass ::
  "TemporalClusterReconciler \<Rightarrow> TemporalCluster \<Rightarrow> Result \<Rightarrow> (TemporalCluster option \<times> Result result) act" where
  "finishPass R cluster result = do {
     c \<leftarrow> computeReadyAndPhase R cluster;
     (let c' = observeGeneration c in do {
        ue \<leftarrow> statusUpdate (rc_Client R) ''TemporalCluster'' (tc_Namespace c') (tc_Name c');
        State_Monad.return (case ue of
          None \<Rightarrow> (Some c', Inr result)
        | Some e \<Rightarrow> if isConflict e then (None, Inr (noResult \<lparr>res_Requeue := True\<rparr>)) else (None, Inl e))
      })
   }"

definition reconcileObjects :: "TemporalClusterReconciler \<Rightarrow> TemporalCluster \<Rightarrow> gomap \<Rightarrow> (TemporalCluster \<times> err option) act" where
  "reconcileObjects R cluster serviceVersions = do {
     (c, se) \<leftarrow> reconcileServices R cluster serviceVersions;
     case se of
       Some e \<Rightarrow> State_Monad.return (c, Some e)
     | None \<Rightarrow> do {
         ue \<leftarrow> reconcileUI R c;
         case ue of
           Some e \<Rightarrow> State_Monad.return (c, Some e)
         | None \<Rightarrow> do {
             me \<leftarrow> reconcileMonitoring R c;
             State_Monad.return (c, me)
           }
       }
   }"

definition reconcileCluster :: "TemporalClusterReconciler \<Rightarrow> TemporalCluster \<Rightarrow> (TemporalCluster option \<times> Result result) act" where
  "reconcileCluster R cluster = do {
     (c1, pr) \<leftarrow> reconcilePersistence R cluster;
     case pr of
       Inl e \<Rightarrow> State_Monad.return (None, Inl e)
     | Inr result \<Rightarrow> do {
         (c2, me) \<leftarrow> reconcileMTLS R c1;
         case me of
           Some e \<Rightarrow> State_Monad.return (None, Inl e)
         | None \<Rightarrow> do {
             (c3, versions) \<leftarrow> reconcileUpgrade R c2;
             (c4, oe) \<leftarrow> reconcileObjects R c3 versions;
             case oe of
               Some e \<Rightarrow> State_Monad.return (None, Inl e)
             | None \<Rightarrow> finishPass R c4 result
           }
       }
   }"

definition Reconcile :: "TemporalClusterReconciler \<Rightarrow> string \<Rightarrow> string \<Rightarrow> (TemporalCluster option \<times> Result result) act" where
  "Reconcile R ns name = do {
     r \<leftarrow> getCluster (rc_Client R) ns name;
     case r of
       Inl e \<Rightarrow> State_Monad.return (None, case ignoreNotFound e of None \<Rightarrow> Inr noResult | Some er \<Rightarrow> Inl er)
     | Inr cluster \<Rightarrow> reconcileCluster R cluster
   }"

end
