(* ===== verification/Upgrade_Runs.thy ===== *)
theory Upgrade_Runs
  imports Cluster_Upgrade
begin

text \<open>
  Runs of the upgrade machine: one reconcile refines a step of the abstract phase machine, repeated
  passes end, and what every reachable state of a run guarantees about the services that already run
  the new version.
\<close>

section \<open>Progress\<close>

lemma rollingPhaseService_order: "rollingPhaseService p = Some svc \<Longrightarrow> svc \<in> set serviceUpgradeOrder"
  by (auto simp: rollingPhaseService_def serviceUpgradeOrder_def split: if_splits)

lemma phase_cases:
  assumes "p \<in> set upgradePhases"
  obtains "p = upgradePending" | "p = upgradePreflight" | "p = upgradeSchemaMigrating"
    | svc where "rollingPhaseService p = Some svc" | "p = upgradePostUpgrade" | "p = upgradeComplete"
proof -
  have "\<forall>p \<in> set upgradePhases. p = upgradePending \<or> p = upgradePreflight \<or> p = upgradeSchemaMigrating \<or>
      (\<exists>svc. rollingPhaseService p = Some svc) \<or> p = upgradePostUpgrade \<or> p = upgradeComplete"
    by (simp add: upgradePhases_def)
  from bspec [OF this assms] show thesis
    by (elim disjE exE) (erule that)+
qed

lemma nextRollingPhase_moves: "rollingPhaseService p = Some svc \<Longrightarrow> nextRollingPhase c p \<noteq> p"
  by (drule rollingPhaseService_Some, elim insertE emptyE)
    (simp_all add: nextRollingPhase_def afterMatchingPhase_def)

lemma rolling_not_other:
  "rollingPhaseService p = Some svc \<Longrightarrow>
   p \<notin> {upgradePending, upgradePreflight, upgradeSchemaMigrating, upgradePostUpgrade, upgradeComplete}"
  by (drule rollingPhaseService_Some, elim insertE emptyE) simp_all

text \<open>Repeated passes of the upgrade, with nothing else changing the cluster.\<close>

fun upgradePasses :: "TemporalClusterReconciler \<Rightarrow> nat \<Rightarrow> TemporalCluster \<times> world \<Rightarrow> TemporalCluster \<times> world" where
  "upgradePasses R 0 s = s"
| "upgradePasses R (Suc n) (c, w) =
     (let ((c', _), w') = run_state (reconcileUpgrade R c) w in upgradePasses R n (c', w'))"

text \<open>A recorded upgrade to the current target is in a known phase, and not in the phase of a service that is not enabled.\<close>

definition phaseOk :: "TemporalCluster \<Rightarrow> bool" where
  "phaseOk c \<longleftrightarrow>
     (\<forall>u. st_Upgrade (tc_Status c) = Some u \<longrightarrow> us_ToVersion u = spec_Version (tc_Spec c) \<longrightarrow>
        us_Phase u \<in> set upgradePhases \<and>
        (us_Phase u = upgradeRollingInternalFrontend \<longrightarrow> internalFrontendEnabled (tc_Spec c)))"

definition settled :: "TemporalCluster \<Rightarrow> bool" where
  "settled c \<longleftrightarrow> st_Version (tc_Status c) = spec_Version (tc_Spec c) \<and> st_Upgrade (tc_Status c) = None"

lemma phaseRank_bound: "p \<in> set upgradePhases \<Longrightarrow> phaseRank p \<le> 9 \<and> (phaseRank p = 9 \<longleftrightarrow> p = upgradeComplete)"
proof -
  have "\<forall>p \<in> set upgradePhases. phaseRank p \<le> 9 \<and> (phaseRank p = 9 \<longleftrightarrow> p = upgradeComplete)"
    by (simp add: upgradePhases_def)
  then show "p \<in> set upgradePhases \<Longrightarrow> ?thesis" by blast
qed

section \<open>One pass\<close>

lemma emits_event [emits_rules]: "(\<And>rs m. C (CEvent rs m)) \<Longrightarrow> emits C (event R rs m)"
  unfolding event_def by (intro emits_rules) auto

lemma startUpgrade_extends:
  "run_state (startUpgrade R v t) w = (up, w1) \<Longrightarrow> \<exists>cs. w_trace w1 = w_trace w @ cs"
proof -
  have "emits (\<lambda>_. True) (startUpgrade R v t)"
    unfolding startUpgrade_def by (intro emits_rules) auto
  then show "run_state (startUpgrade R v t) w = (up, w1) \<Longrightarrow> ?thesis" by (auto dest: emitsD)
qed

text \<open>A pass of a needed upgrade works on one upgrade status, and advances it.\<close>

lemma pass_busy:
  assumes need: "upgradeNeeded c" and run: "run_state (reconcileUpgrade R c) w = ((c', vs), w')"
  obtains up w1 cs where "workingUpgrade c up" "w_trace w1 = w_trace w @ cs"
    "run_state (advanceUpgrade R c up) w1 = (c', w')"
    "vs = (case st_Upgrade (tc_Status c') of
        None \<Rightarrow> uniformVersions c' (spec_Version (tc_Spec c)) | Some u \<Rightarrow> upgradeServiceVersions c' u)"
proof -
  let ?v = "st_Version (tc_Status c)" and ?t = "spec_Version (tc_Spec c)"
  let ?m = "case st_Upgrade (tc_Status c) of
      None \<Rightarrow> startUpgrade R ?v ?t
    | Some u \<Rightarrow> if us_ToVersion u \<noteq> ?t then startUpgrade R ?v ?t else State_Monad.return u"
  let ?k = "\<lambda>c'. case st_Upgrade (tc_Status c') of
      None \<Rightarrow> (c', uniformVersions c' ?t) | Some u \<Rightarrow> (c', upgradeServiceVersions c' u)"
  obtain up w1 where m: "run_state ?m w = (up, w1)" by fastforce
  obtain c2 w2 where a: "run_state (advanceUpgrade R c up) w1 = (c2, w2)" by fastforce
  have "reconcileUpgrade R c = State_Monad.bind ?m (\<lambda>up. State_Monad.bind (advanceUpgrade R c up) (\<lambda>c'. State_Monad.return (?k c')))"
    using need by (simp add: reconcileUpgrade_def upgradeNeeded_def Let_def)
  with run m a have k: "?k c2 = (c', vs)" and w: "w2 = w'" by simp_all
  from k have c: "c2 = c'" and vs: "vs = (case st_Upgrade (tc_Status c') of
        None \<Rightarrow> uniformVersions c' ?t | Some u \<Rightarrow> upgradeServiceVersions c' u)"
    by (auto split: option.splits)
  have "workingUpgrade c up"
    using m by (auto simp: workingUpgrade_def split: option.splits if_splits dest: startUpgrade_initial)
  moreover obtain cs where "w_trace w1 = w_trace w @ cs"
    using m by (auto split: option.splits if_splits dest: startUpgrade_extends)
  ultimately show thesis using that a c w vs by blast
qed

lemma advanceUpgrade_cases:
  assumes "run_state (advanceUpgrade R c up) w = (c', w')"
  obtains "us_Phase up = upgradeComplete" "st_Upgrade (tc_Status c') = None"
      "st_Version (tc_Status c') = us_ToVersion up" "tc_Spec c' = tc_Spec c" "tc_Meta c' = tc_Meta c"
      "st_Conditions (tc_Status c') = st_Conditions (tc_Status c)"
    | u where "us_Phase up \<noteq> upgradeComplete" "c' = setUpgrade c (Some u)" "upgradeMove R c up w u"
proof (cases "us_Phase up = upgradeComplete")
  case True
  have "c' = c \<lparr>tc_Status := (tc_Status c) \<lparr>st_Version := us_ToVersion up, st_Upgrade := None\<rparr>\<rparr>"
    using advanceUpgrade_complete [OF True, of R c w] assms by simp
  with True show thesis by (intro that(1)) simp_all
next
  case False
  with advanceUpgrade_step [OF False, of R c w] assms show thesis by (auto intro: that(2))
qed

lemma working_target: "workingUpgrade c up \<Longrightarrow> us_ToVersion up = spec_Version (tc_Spec c)"
  by (auto simp: workingUpgrade_def initialUpgrade_def split: option.splits if_splits)

text \<open>What a pass leaves behind when no upgrade is recorded any more, or one is.\<close>

lemma pass_result:
  assumes need: "upgradeNeeded c" and run: "run_state (reconcileUpgrade R c) w = ((c', vs), w')"
  obtains up where "workingUpgrade c up" "us_Phase up = upgradeComplete" "st_Upgrade (tc_Status c') = None"
      "st_Version (tc_Status c') = spec_Version (tc_Spec c)" "tc_Spec c' = tc_Spec c" "tc_Meta c' = tc_Meta c"
      "st_Conditions (tc_Status c') = st_Conditions (tc_Status c)"
      "vs = uniformVersions c' (spec_Version (tc_Spec c))"
    | up w1 cs u where "workingUpgrade c up" "us_Phase up \<noteq> upgradeComplete" "w_trace w1 = w_trace w @ cs"
      "run_state (advanceUpgrade R c up) w1 = (c', w')" "c' = setUpgrade c (Some u)" "upgradeMove R c up w1 u"
      "vs = upgradeServiceVersions c' u"
proof -
  from pass_busy [OF assms] obtain up w1 cs where up: "workingUpgrade c up" "w_trace w1 = w_trace w @ cs"
    and adv: "run_state (advanceUpgrade R c up) w1 = (c', w')"
    and vs: "vs = (case st_Upgrade (tc_Status c') of
        None \<Rightarrow> uniformVersions c' (spec_Version (tc_Spec c)) | Some u \<Rightarrow> upgradeServiceVersions c' u)" .
  from adv show thesis
  proof (cases rule: advanceUpgrade_cases)
    case 1
    then show thesis using up(1) vs working_target [OF up(1)] by (intro that(1) [of up]) simp_all
  next
    case (2 u)
    then show thesis using up adv vs by (intro that(2) [of up w1 cs u]) simp_all
  qed
qed

lemma pass_keeps:
  assumes "run_state (reconcileUpgrade R c) w = ((c', vs), w')"
  shows "tc_Spec c' = tc_Spec c" "tc_Meta c' = tc_Meta c"
    "st_Conditions (tc_Status c') = st_Conditions (tc_Status c)"
proof -
  have "tc_Spec c' = tc_Spec c \<and> tc_Meta c' = tc_Meta c \<and> st_Conditions (tc_Status c') = st_Conditions (tc_Status c)"
  proof (cases "upgradeNeeded c")
    case False
    then show ?thesis using assms reconcileUpgrade_idle [OF False, of R w] by auto
  next
    case True
    then show ?thesis using assms by (rule pass_result) simp_all
  qed
  then show "tc_Spec c' = tc_Spec c" "tc_Meta c' = tc_Meta c"
    "st_Conditions (tc_Status c') = st_Conditions (tc_Status c)" by simp_all
qed

section \<open>Rollouts\<close>

lemma observedRolledOut_cong:
  assumes "spec_Image (tc_Spec c') = spec_Image (tc_Spec c)" "spec_Version (tc_Spec c') = spec_Version (tc_Spec c)"
    "tc_Name c' = tc_Name c" "tc_Namespace c' = tc_Namespace c"
  shows "observedRolledOut R c' v tr svc = observedRolledOut R c v tr svc"
proof -
  have "rolledOutAt c' v dep = rolledOutAt c v dep" for dep
    using assms by (simp add: rolledOutAt_def clusterServerImage_def Let_def)
  then show ?thesis using assms by (simp add: observedRolledOut_def split: sum.splits)
qed

section \<open>Runs\<close>

text \<open>
  A run of the upgrade: passes of the upgrade step, and between them anything that leaves the identity,
  the running version and the recorded upgrade alone.  Conditions may change, any calls may be made, and
  the spec may be edited (\<open>spec.version\<close> included: an upgrade is then restarted, or given up) as long as the
  server image stays and the internal frontend is neither enabled nor disabled.
\<close>

inductive upgradeRun :: "TemporalClusterReconciler \<Rightarrow> TemporalCluster \<Rightarrow> world \<Rightarrow> TemporalCluster \<Rightarrow> world \<Rightarrow> bool"
  for R c0 w0 where
  start: "upgradeRun R c0 w0 c0 w0"
| pass: "upgradeRun R c0 w0 c w \<Longrightarrow> run_state (reconcileUpgrade R c) w = ((c', vs), w') \<Longrightarrow>
    upgradeRun R c0 w0 c' w'"
| other: "upgradeRun R c0 w0 c w \<Longrightarrow> internalFrontendEnabled (tc_Spec c') = internalFrontendEnabled (tc_Spec c) \<Longrightarrow>
    spec_Image (tc_Spec c') = spec_Image (tc_Spec c) \<Longrightarrow> tc_Name c' = tc_Name c \<Longrightarrow>
    tc_Namespace c' = tc_Namespace c \<Longrightarrow> st_Version (tc_Status c') = st_Version (tc_Status c) \<Longrightarrow>
    st_Upgrade (tc_Status c') = st_Upgrade (tc_Status c) \<Longrightarrow> w_trace w' = w_trace w @ cs \<Longrightarrow>
    upgradeRun R c0 w0 c' w'"

text \<open>A read of the service's Deployment, somewhere in the trace, showed it rolled out at a version.\<close>

definition seenRolledOut :: "TemporalClusterReconciler \<Rightarrow> TemporalCluster \<Rightarrow> string \<Rightarrow> call list \<Rightarrow> string \<Rightarrow> bool" where
  "seenRolledOut R c v tr svc \<longleftrightarrow>
     (\<exists>pre post. tr = pre @ CGet ''Deployment'' (tc_Namespace c) (DeploymentName (tc_Name c) svc) # post \<and>
        observedRolledOut R c v pre svc)"

lemma seen_extend: "seenRolledOut R c v tr svc \<Longrightarrow> seenRolledOut R c v (tr @ cs) svc"
  unfolding seenRolledOut_def by (metis append.assoc append_Cons)

lemma seen_cong:
  "spec_Image (tc_Spec c') = spec_Image (tc_Spec c) \<Longrightarrow> spec_Version (tc_Spec c') = spec_Version (tc_Spec c) \<Longrightarrow>
   tc_Name c' = tc_Name c \<Longrightarrow> tc_Namespace c' = tc_Namespace c \<Longrightarrow>
   seenRolledOut R c' v tr svc = seenRolledOut R c v tr svc"
  by (simp add: seenRolledOut_def observedRolledOut_cong [of c' c])

lemma advance_extends: "run_state (advanceUpgrade R c up) w = (c', w') \<Longrightarrow> \<exists>cs. w_trace w' = w_trace w @ cs"
proof -
  have "emits (\<lambda>_. True) (advanceUpgrade R c up)"
    unfolding advanceUpgrade_def advanceRollingPhase_def advanceTo_def serviceRolledOut_def
    by (intro emits_rules) auto
  then show "run_state (advanceUpgrade R c up) w = (c', w') \<Longrightarrow> ?thesis" by (auto dest: emitsD)
qed

text \<open>Leaving a rolling phase leaves the read that justified it in the trace.\<close>

lemma rolled_out_seen:
  assumes run: "run_state (advanceUpgrade R c up) w = (setUpgrade c (Some u), w')"
    and svc: "rollingPhaseService (us_Phase up) = Some svc" and ne: "us_Phase u \<noteq> us_Phase up"
  shows "seenRolledOut R c (us_ToVersion up) (w_trace w') svc"
proof -
  let ?get = "CGet ''Deployment'' (tc_Namespace c) (DeploymentName (tc_Name c) svc)"
  let ?w = "w \<lparr>w_trace := w_trace w @ [?get]\<rparr>"
  have r: "run_state (serviceRolledOut R c svc (us_ToVersion up)) w =
      (observedRolledOut R c (us_ToVersion up) (w_trace w) svc, ?w)"
    by (simp add: serviceRolledOut_def observedRolledOut_def getDeployment_def perform_def)
  have adv: "run_state (advanceRollingPhase R c up) w = (setUpgrade c (Some u), w')"
    using run rolling_not_other [OF svc] by (simp add: advanceUpgrade_def Let_def)
  have obs: "observedRolledOut R c (us_ToVersion up) (w_trace w) svc"
  proof (rule ccontr)
    assume "\<not> ?thesis"
    then have "setUpgrade c (Some u) = setUpgrade c (Some up)"
      using adv svc r by (simp add: advanceRollingPhase_def)
    then show False using ne by (metis setUpgrade_simps(1) option.inject)
  qed
  have to: "run_state (advanceTo R c up (nextRollingPhase c (us_Phase up))) ?w = (setUpgrade c (Some u), w')"
    using adv svc r obs by (simp add: advanceRollingPhase_def)
  have "emits (\<lambda>_. True) (advanceTo R c up (nextRollingPhase c (us_Phase up)))"
    unfolding advanceTo_def by (intro emits_rules) auto
  from emitsD [OF this to] obtain cs where "w_trace w' = w_trace ?w @ cs" by blast
  then show ?thesis using obs unfolding seenRolledOut_def by (intro exI [of _ "w_trace w"] exI [of _ cs]) simp
qed

lemma phase_step_service:
  assumes "phase_step (internalFrontendEnabled (tc_Spec c)) re sr ro p q"
    and "svc \<in> set (enabledNames c)" and "upgradeIndex svc + 3 < phaseRank q"
  shows "upgradeIndex svc + 3 < phaseRank p \<or> rollingPhaseService p = Some svc"
  using assms
  by (induction rule: phase_step.cases) (auto simp: enabledNames_eq split: if_splits)

text \<open>
  The invariant of a run: the recorded upgrade starts from the running version, its phase is known,
  and every enabled service whose phase is over has been seen rolled out.
\<close>

definition rolledThrough :: "TemporalClusterReconciler \<Rightarrow> TemporalCluster \<Rightarrow> string \<Rightarrow> call list \<Rightarrow> nat \<Rightarrow> bool" where
  "rolledThrough R c v tr r \<longleftrightarrow>
     (\<forall>svc \<in> set (enabledNames c). upgradeIndex svc + 3 < r \<longrightarrow> seenRolledOut R c v tr svc)"

text \<open>The cluster with another version in its spec, as it was when an upgrade to that version was recorded.\<close>

definition atVersion :: "TemporalCluster \<Rightarrow> string \<Rightarrow> TemporalCluster" where
  "atVersion c v = c \<lparr>tc_Spec := (tc_Spec c) \<lparr>spec_Version := v\<rparr>\<rparr>"

lemma atVersion_simps [simp]:
  "spec_Version (tc_Spec (atVersion c v)) = v" "spec_Image (tc_Spec (atVersion c v)) = spec_Image (tc_Spec c)"
  "tc_Meta (atVersion c v) = tc_Meta c" "atVersion c (spec_Version (tc_Spec c)) = c"
  "internalFrontendEnabled (tc_Spec (atVersion c v)) = internalFrontendEnabled (tc_Spec c)"
  by (simp_all add: atVersion_def internalFrontendEnabled_def)

definition runInv :: "TemporalClusterReconciler \<Rightarrow> TemporalCluster \<Rightarrow> call list \<Rightarrow> bool" where
  "runInv R c tr \<longleftrightarrow>
     (\<forall>u. st_Upgrade (tc_Status c) = Some u \<longrightarrow>
        us_FromVersion u = st_Version (tc_Status c) \<and> us_Phase u \<in> set upgradePhases \<and>
        rolledThrough R (atVersion c (us_ToVersion u)) (us_ToVersion u) tr (phaseRank (us_Phase u)))"

lemma enabledNames_cong:
  "internalFrontendEnabled (tc_Spec c') = internalFrontendEnabled (tc_Spec c) \<Longrightarrow> enabledNames c' = enabledNames c"
  by (simp add: enabledNames_eq)

lemma rolledThrough_mono:
  "rolledThrough R c v tr r \<Longrightarrow> rolledThrough R c v (tr @ cs) r"
  by (auto simp: rolledThrough_def seen_extend)

lemma rolledThrough_cong:
  "internalFrontendEnabled (tc_Spec c') = internalFrontendEnabled (tc_Spec c) \<Longrightarrow>
   spec_Image (tc_Spec c') = spec_Image (tc_Spec c) \<Longrightarrow> spec_Version (tc_Spec c') = spec_Version (tc_Spec c) \<Longrightarrow>
   tc_Name c' = tc_Name c \<Longrightarrow> tc_Namespace c' = tc_Namespace c \<Longrightarrow>
   rolledThrough R c' v tr r = rolledThrough R c v tr r"
  by (simp add: rolledThrough_def enabledNames_cong [of c' c] seen_cong [of c' c])

lemma rolledThrough_start: "rolledThrough R c v tr 0"
  by (simp add: rolledThrough_def)

lemma working_runInv:
  assumes "runInv R c tr" "workingUpgrade c up"
  shows "us_FromVersion up = st_Version (tc_Status c) \<and> us_Phase up \<in> set upgradePhases \<and>
     us_ToVersion up = spec_Version (tc_Spec c) \<and>
     rolledThrough R c (us_ToVersion up) tr (phaseRank (us_Phase up))"
proof (cases "st_Upgrade (tc_Status c) = Some up \<and> us_ToVersion up = spec_Version (tc_Spec c)")
  case True
  then show ?thesis using assms(1) by (simp add: runInv_def)
next
  case False
  then have "initialUpgrade c up"
    using assms(2) by (auto simp: workingUpgrade_def split: option.splits if_splits)
  then show ?thesis by (simp add: initialUpgrade_def upgradePhases_def rolledThrough_start)
qed

text \<open>A move keeps what is known of the services whose phase is over.\<close>

lemma move_rolledThrough:
  assumes run: "run_state (advanceUpgrade R c up) w = (setUpgrade c (Some u), w')"
    and move: "upgradeMove R c up w u"
    and old: "rolledThrough R c (us_ToVersion up) (w_trace w) (phaseRank (us_Phase up))"
  shows "rolledThrough R c (us_ToVersion up) (w_trace w') (phaseRank (us_Phase u))"
proof -
  obtain cs where "w_trace w' = w_trace w @ cs" using advance_extends [OF run] by blast
  then have old': "rolledThrough R c (us_ToVersion up) (w_trace w') (phaseRank (us_Phase up))"
    using old by (simp add: rolledThrough_mono)
  show ?thesis
  proof (cases "us_Phase u = us_Phase up")
    case False
    with move have step: "phase_step (internalFrontendEnabled (tc_Spec c)) (condTrue R c ConditionPersistenceReachable)
        (condTrue R c ConditionSchemaReady) (observedRolledOut R c (us_ToVersion up) (w_trace w))
        (us_Phase up) (us_Phase u)"
      by (simp add: upgradeMove_def)
    show ?thesis
      unfolding rolledThrough_def
      using phase_step_service [OF step] old' rolled_out_seen [OF run _ False]
      by (auto simp: rolledThrough_def)
  qed (use old' in simp)
qed

lemma pass_runInv:
  assumes inv: "runInv R c (w_trace w)" and run: "run_state (reconcileUpgrade R c) w = ((c', vs), w')"
  shows "runInv R c' (w_trace w')"
proof (cases "upgradeNeeded c")
  case False
  then have "st_Upgrade (tc_Status c') = None" using run reconcileUpgrade_idle [OF False, of R w] by auto
  then show ?thesis by (simp add: runInv_def)
next
  case True
  then show ?thesis using run
  proof (cases rule: pass_result)
    case 1
    then show ?thesis by (simp add: runInv_def)
  next
    case (2 up w1 cs u)
    note up = working_runInv [OF inv 2(1)]
    have "rolledThrough R c (us_ToVersion up) (w_trace w1) (phaseRank (us_Phase up))"
      unfolding 2(3) using up by (blast intro: rolledThrough_mono)
    then have "rolledThrough R c (us_ToVersion up) (w_trace w') (phaseRank (us_Phase u))"
      using move_rolledThrough [of R c up w1 u w'] 2(4-6) by simp
    moreover have "us_Phase u \<in> set upgradePhases"
      using 2(6) up by (auto simp: upgradeMove_def dest: phase_step_rank)
    ultimately show ?thesis
      using 2(6) up rolledThrough_cong [of "atVersion (setUpgrade c (Some u)) (spec_Version (tc_Spec c))" c]
      by (simp add: 2(5) runInv_def upgradeMove_def)
  qed
qed

lemma run_inv:
  assumes "upgradeRun R c0 w0 c w" "st_Upgrade (tc_Status c0) = None"
  shows "runInv R c (w_trace w)"
  using assms
proof (induction rule: upgradeRun.induct)
  case start
  then show ?case by (simp add: runInv_def)
next
  case (pass c w c' vs w')
  then show ?case using pass_runInv by blast
next
  case (other c w c' w' cs)
  then have "runInv R c (w_trace w)" by simp
  then show ?case
    using other.hyps rolledThrough_cong [of "atVersion c' v" "atVersion c v" for v]
    by (simp add: runInv_def rolledThrough_mono)
qed

lemma upgraded_iff_rank:
  assumes "us_FromVersion u \<noteq> us_ToVersion u" "us_Phase u \<in> set upgradePhases" "svc \<in> set serviceUpgradeOrder"
  shows "serviceVersionIn u svc = us_ToVersion u \<longleftrightarrow> upgradeIndex svc + 3 \<le> phaseRank (us_Phase u)"
proof -
  have "\<forall>svc \<in> set serviceUpgradeOrder. upgradeIndex svc \<le> 4" by (simp add: serviceUpgradeOrder_def)
  then have "upgradeIndex svc \<le> 4" using assms(3) by blast
  then show ?thesis
    using assms(1) by (simp add: serviceVersionIn_eq [OF assms(3)] upgradedThrough_rank [OF assms(2)]) linarith
qed

lemma index_bound: "svc \<in> set (enabledNames c) \<Longrightarrow> upgradeIndex svc \<le> 4"
proof -
  have "\<forall>svc \<in> set serviceUpgradeOrder. upgradeIndex svc \<le> 4" by (simp add: serviceUpgradeOrder_def)
  then show "svc \<in> set (enabledNames c) \<Longrightarrow> ?thesis" using enabled_in_order by blast
qed

lemma pass_extends: "run_state (reconcileUpgrade R c) w = (x, w') \<Longrightarrow> \<exists>cs. w_trace w' = w_trace w @ cs"
proof -
  have "emits (\<lambda>_. True) (reconcileUpgrade R c)"
    unfolding reconcileUpgrade_def advanceUpgrade_def advanceRollingPhase_def advanceTo_def serviceRolledOut_def
      startUpgrade_def
    by (intro emits_rules) auto
  then show "run_state (reconcileUpgrade R c) w = (x, w') \<Longrightarrow> ?thesis" by (auto dest: emitsD)
qed

text \<open>When a pass completes the upgrade, every enabled service has been seen rolled out.\<close>

lemma complete_seen:
  assumes inv: "runInv R c (w_trace w)" and up: "workingUpgrade c up" "us_Phase up = upgradeComplete"
    and run: "run_state (reconcileUpgrade R c) w = (x, w')" and svc: "svc \<in> set (enabledNames c)"
  shows "seenRolledOut R c (spec_Version (tc_Spec c)) (w_trace w') svc"
proof -
  have "seenRolledOut R c (spec_Version (tc_Spec c)) (w_trace w) svc"
    using working_runInv [OF inv up(1)] up(2) svc index_bound [OF svc] by (auto simp: rolledThrough_def)
  then show ?thesis using pass_extends [OF run] by (auto intro: seen_extend)
qed

lemma passes_run: "upgradeRun R c0 w0 (fst (upgradePasses R n (c0, w0))) (snd (upgradePasses R n (c0, w0)))"
proof -
  have "upgradeRun R c0 w0 c w \<Longrightarrow>
      upgradeRun R c0 w0 (fst (upgradePasses R n (c, w))) (snd (upgradePasses R n (c, w)))" for c w
  proof (induction n arbitrary: c w)
    case (Suc n)
    obtain c' vs w' where "run_state (reconcileUpgrade R c) w = ((c', vs), w')" by (metis surj_pair)
    then show ?case using Suc.IH upgradeRun.pass [OF Suc.prems] by simp
  qed simp
  then show ?thesis using upgradeRun.start by blast
qed

section \<open>Upgrades end\<close>

text \<open>
  Successive passes: the states \<open>c\<close> and \<open>w\<close> in which they start and the versions \<open>vs\<close> they hand to the
  service reconciler.  Between two passes any calls may be made and the conditions may change, but at each
  the datastore is reachable and the schema ready.
\<close>

definition upgradeHistory ::
  "TemporalClusterReconciler \<Rightarrow> (nat \<Rightarrow> TemporalCluster) \<Rightarrow> (nat \<Rightarrow> world) \<Rightarrow> (nat \<Rightarrow> gomap) \<Rightarrow> bool" where
  "upgradeHistory R c w vs \<longleftrightarrow>
     (\<forall>i. condTrue R (c i) ConditionPersistenceReachable \<and> condTrue R (c i) ConditionSchemaReady \<and>
        tc_Spec (c (Suc i)) = tc_Spec (c i) \<and> tc_Name (c (Suc i)) = tc_Name (c i) \<and>
        tc_Namespace (c (Suc i)) = tc_Namespace (c i) \<and>
        (\<exists>c' w' cs. run_state (reconcileUpgrade R (c i)) (w i) = ((c', vs i), w') \<and>
           st_Version (tc_Status (c (Suc i))) = st_Version (tc_Status c') \<and>
           st_Upgrade (tc_Status (c (Suc i))) = st_Upgrade (tc_Status c') \<and> w_trace (w (Suc i)) = w_trace w' @ cs))"

text \<open>An enabled service that \<open>d\<close> successive passes handed the target is found rolled out by the next pass.\<close>

definition rollsOutWithin ::
  "TemporalClusterReconciler \<Rightarrow> nat \<Rightarrow> (nat \<Rightarrow> TemporalCluster) \<Rightarrow> (nat \<Rightarrow> world) \<Rightarrow> (nat \<Rightarrow> gomap) \<Rightarrow> bool" where
  "rollsOutWithin R d c w vs \<longleftrightarrow>
     (\<forall>i. \<forall>svc \<in> set (enabledNames (c i)).
        (\<forall>j<d. vs (i + j) svc = Some (spec_Version (tc_Spec (c (i + j))))) \<longrightarrow>
        observedRolledOut R (c (i + d)) (spec_Version (tc_Spec (c (i + d)))) (w_trace (w (i + d))) svc)"

text \<open>The recorded upgrade, when it is for the current target.\<close>

definition recordedFor :: "TemporalCluster \<Rightarrow> UpgradeStatus option" where
  "recordedFor c =
     (case st_Upgrade (tc_Status c) of
        None \<Rightarrow> None
      | Some u \<Rightarrow> if us_ToVersion u = spec_Version (tc_Spec c) then Some u else None)"

lemma history_spec: "upgradeHistory R c w vs \<Longrightarrow> tc_Spec (c i) = tc_Spec (c 0)"
  by (induction i) (simp_all add: upgradeHistory_def)

lemma pass_recorded:
  assumes "upgradeNeeded c" "recordedFor c = Some up" "run_state (reconcileUpgrade R c) w = ((c', vs), w')"
  shows "run_state (advanceUpgrade R c up) w = (c', w')"
    and "st_Upgrade (tc_Status c') = Some u \<Longrightarrow> vs = upgradeServiceVersions c' u"
proof -
  have up: "st_Upgrade (tc_Status c) = Some up" "us_ToVersion up = spec_Version (tc_Spec c)"
    using assms(2) by (auto simp: recordedFor_def split: option.splits if_splits)
  obtain c2 w2 where a: "run_state (advanceUpgrade R c up) w = (c2, w2)" by fastforce
  have "(case st_Upgrade (tc_Status c2) of None \<Rightarrow> (c2, uniformVersions c2 (spec_Version (tc_Spec c)))
      | Some u \<Rightarrow> (c2, upgradeServiceVersions c2 u)) = (c', vs)" "w2 = w'"
    using assms(1,3) up a by (simp_all add: reconcileUpgrade_def upgradeNeeded_def Let_def)
  then show "run_state (advanceUpgrade R c up) w = (c', w')"
    "st_Upgrade (tc_Status c') = Some u \<Longrightarrow> vs = upgradeServiceVersions c' u"
    using a by (auto split: option.splits)
qed

text \<open>A pass over a recorded upgrade keeps the phase only while the service of the phase is not rolled out.\<close>

lemma advance_moves:
  assumes c: "condTrue R c ConditionPersistenceReachable" "condTrue R c ConditionSchemaReady"
    and p: "us_Phase up \<in> set upgradePhases"
    and ro: "\<And>svc. rollingPhaseService (us_Phase up) = Some svc \<Longrightarrow> observedRolledOut R c (us_ToVersion up) (w_trace w) svc"
    and u: "run_state (advanceUpgrade R c up) w = (c', w')" "st_Upgrade (tc_Status c') = Some u"
  shows "us_Phase u \<noteq> us_Phase up"
proof -
  have f: "fst (run_state (advanceUpgrade R c up) w) = c'" using u(1) by simp
  show ?thesis
    using p
  proof (cases rule: phase_cases)
    case (4 svc)
    then have "c' = setUpgrade c (Some (up \<lparr>us_Phase := nextRollingPhase c (us_Phase up)\<rparr>))"
      using ro [OF 4] rolling_not_other [OF 4] by (simp add: f [symmetric] advanceUpgrade_def Let_def run_advanceRollingPhase)
    then show ?thesis using u(2) nextRollingPhase_moves [OF 4] by auto
  qed (use f u(2) c in \<open>auto simp: advanceUpgrade_def Let_def run_advanceTo split: prod.splits\<close>)
qed

text \<open>One pass of a history over a recorded upgrade: it ends, or a recorded upgrade remains that is as far or farther.\<close>

lemma history_pass:
  assumes h: "upgradeHistory R c w vs" and need: "upgradeNeeded (c i)" and ok: "phaseOk (c i)"
    and up: "recordedFor (c i) = Some up"
  shows "settled (c (Suc i)) \<or>
    (\<exists>u. recordedFor (c (Suc i)) = Some u \<and> upgradeNeeded (c (Suc i)) \<and> phaseOk (c (Suc i)) \<and>
       vs i = upgradeServiceVersions (c i) u \<and>
       (phaseRank (us_Phase up) < phaseRank (us_Phase u) \<or>
        (us_Phase u = us_Phase up \<and> (\<exists>svc. rollingPhaseService (us_Phase up) = Some svc \<and>
           \<not> observedRolledOut R (c i) (spec_Version (tc_Spec (c i))) (w_trace (w i)) svc))))"
proof -
  from h obtain c' w' where run: "run_state (reconcileUpgrade R (c i)) (w i) = ((c', vs i), w')"
    and st: "st_Version (tc_Status (c (Suc i))) = st_Version (tc_Status c')"
      "st_Upgrade (tc_Status (c (Suc i))) = st_Upgrade (tc_Status c')" "tc_Spec (c (Suc i)) = tc_Spec (c i)"
    unfolding upgradeHistory_def by metis
  have cond: "condTrue R (c i) ConditionPersistenceReachable" "condTrue R (c i) ConditionSchemaReady"
    using h by (simp_all add: upgradeHistory_def)
  note adv = pass_recorded [OF need up run]
  have up': "us_ToVersion up = spec_Version (tc_Spec (c i))" "us_Phase up \<in> set upgradePhases"
    using up ok by (auto simp: recordedFor_def phaseOk_def split: option.splits if_splits)
  from adv(1) show ?thesis
  proof (cases rule: advanceUpgrade_cases)
    case 1
    then show ?thesis using st up' by (simp add: settled_def)
  next
    case (2 u)
    have u: "st_Upgrade (tc_Status c') = Some u" "us_ToVersion u = spec_Version (tc_Spec (c i))"
      using 2 up' by (simp_all add: upgradeMove_def)
    have vs: "vs i = upgradeServiceVersions (c i) u"
      using adv(2) [OF u(1)] upgradeServiceVersions_eq [of c' u] upgradeServiceVersions_eq [of "c i" u]
        enabledNames_cong [of c' "c i"] 2(2) by (intro ext) simp
    have rec: "recordedFor (c (Suc i)) = Some u" "upgradeNeeded (c (Suc i))"
      using u st need 2(2) by (simp_all add: recordedFor_def upgradeNeeded_def)
    show ?thesis
    proof (cases "us_Phase u = us_Phase up")
      case True
      have "phaseOk (c (Suc i))"
        using True ok up up' st u by (auto simp: phaseOk_def recordedFor_def split: option.splits if_splits)
      moreover have "\<exists>svc. rollingPhaseService (us_Phase up) = Some svc \<and>
           \<not> observedRolledOut R (c i) (spec_Version (tc_Spec (c i))) (w_trace (w i)) svc"
        using advance_moves [OF cond up'(2) _ adv(1) u(1)] True up'(1) by metis
      ultimately show ?thesis using rec vs True by auto
    next
      case False
      then have step: "phase_step (internalFrontendEnabled (tc_Spec (c i))) (condTrue R (c i) ConditionPersistenceReachable)
          (condTrue R (c i) ConditionSchemaReady) (observedRolledOut R (c i) (us_ToVersion up) (w_trace (w i)))
          (us_Phase up) (us_Phase u)"
        using 2(3) by (simp add: upgradeMove_def)
      then have "phaseOk (c (Suc i))"
        using phase_step_rank [OF step] st u by (auto simp: phaseOk_def elim: phase_step.cases)
      then show ?thesis using rec vs phase_step_rank [OF step] by auto
    qed
  qed
qed

lemma rolling_handed:
  assumes "rollingPhaseService (us_Phase u) = Some svc" "svc \<in> set (enabledNames c)"
  shows "upgradeServiceVersions c u svc = Some (us_ToVersion u)"
proof -
  have "upgradedThrough (us_Phase u) = int (upgradeIndex svc)"
    using rollingPhaseService_Some [OF assms(1)] assms(1) by (elim insertE emptyE) auto
  then show ?thesis
    using assms(2) by (simp add: upgradeServiceVersions_eq serviceVersionIn_eq [OF enabled_in_order])
qed

lemma rolling_enabled:
  assumes "phaseOk c" "recordedFor c = Some u" "rollingPhaseService (us_Phase u) = Some svc"
  shows "svc \<in> set (enabledNames c)"
  using assms rollingPhaseService_Some [OF assms(3)]
  by (elim insertE emptyE) (auto simp: enabledNames_eq phaseOk_def recordedFor_def split: option.splits if_splits)

text \<open>Within \<open>d + 1\<close> passes the upgrade ends or has reached a later phase.\<close>

lemma phase_left:
  assumes h: "upgradeHistory R c w vs" and ro: "rollsOutWithin R d c w vs"
    and need: "upgradeNeeded (c i)" and ok: "phaseOk (c i)" and up: "recordedFor (c i) = Some up"
  shows "\<exists>k \<le> d + 1. settled (c (i + k)) \<or>
    (\<exists>u. recordedFor (c (i + k)) = Some u \<and> upgradeNeeded (c (i + k)) \<and> phaseOk (c (i + k)) \<and>
       phaseRank (us_Phase up) < phaseRank (us_Phase u))"
proof (rule ccontr)
  assume never: "\<not> ?thesis"
  have stay: "k \<le> d + 1 \<Longrightarrow> (\<exists>u. recordedFor (c (i + k)) = Some u \<and> upgradeNeeded (c (i + k)) \<and> phaseOk (c (i + k)) \<and>
      us_Phase u = us_Phase up) \<and>
      (\<forall>j<k. \<exists>u svc. vs (i + j) = upgradeServiceVersions (c (i + j)) u \<and> us_ToVersion u = spec_Version (tc_Spec (c (i + j))) \<and>
        us_Phase u = us_Phase up \<and> rollingPhaseService (us_Phase up) = Some svc \<and>
        \<not> observedRolledOut R (c (i + j)) (spec_Version (tc_Spec (c (i + j)))) (w_trace (w (i + j))) svc)" for k
  proof (induction k)
    case 0
    then show ?case using up need ok by simp
  next
    case (Suc k)
    then obtain u where u: "recordedFor (c (i + k)) = Some u" "upgradeNeeded (c (i + k))" "phaseOk (c (i + k))"
      "us_Phase u = us_Phase up" by auto
    have spec: "tc_Spec (c (Suc (i + k))) = tc_Spec (c (i + k))" using h by (simp add: upgradeHistory_def)
    have "\<not> settled (c (Suc (i + k)))"
      "\<And>v. recordedFor (c (Suc (i + k))) = Some v \<Longrightarrow> upgradeNeeded (c (Suc (i + k))) \<Longrightarrow> phaseOk (c (Suc (i + k))) \<Longrightarrow>
         \<not> phaseRank (us_Phase u) < phaseRank (us_Phase v)"
      using never Suc.prems u(4) by (metis add_Suc_right)+
    then obtain v where v: "recordedFor (c (Suc (i + k))) = Some v" "upgradeNeeded (c (Suc (i + k)))" "phaseOk (c (Suc (i + k)))"
      "vs (i + k) = upgradeServiceVersions (c (i + k)) v" "us_Phase v = us_Phase up"
      "\<exists>svc. rollingPhaseService (us_Phase up) = Some svc \<and>
         \<not> observedRolledOut R (c (i + k)) (spec_Version (tc_Spec (c (i + k)))) (w_trace (w (i + k))) svc"
      using history_pass [OF h u(2,3,1)] unfolding u(4) by blast
    moreover have "us_ToVersion v = spec_Version (tc_Spec (c (i + k)))"
      using v(1) spec by (auto simp: recordedFor_def split: option.splits if_splits)
    ultimately show ?case using Suc by (auto simp: less_Suc_eq)
  qed
  from stay [of "d + 1"] obtain svc where svc: "rollingPhaseService (us_Phase up) = Some svc"
    "\<not> observedRolledOut R (c (i + d)) (spec_Version (tc_Spec (c (i + d)))) (w_trace (w (i + d))) svc"
    by auto
  have en: "svc \<in> set (enabledNames (c i))" by (rule rolling_enabled [OF ok up svc(1)])
  have "vs (i + j) svc = Some (spec_Version (tc_Spec (c (i + j))))" if j: "j < d" for j
  proof -
    obtain u where u: "vs (i + j) = upgradeServiceVersions (c (i + j)) u" "us_ToVersion u = spec_Version (tc_Spec (c (i + j)))"
      "us_Phase u = us_Phase up" using conjunct2 [OF stay [OF order_refl]] trans_less_add1 [OF j, of 1] by blast
    have "svc \<in> set (enabledNames (c (i + j)))"
      using en history_spec [OF h, of i] history_spec [OF h, of "i + j"] by (simp add: enabledNames_eq)
    then show ?thesis using rolling_handed [of u svc] u svc(1) by simp
  qed
  then show False using ro en svc(2) unfolding rollsOutWithin_def by blast
qed

lemma recorded_settles:
  assumes h: "upgradeHistory R c w vs" and ro: "rollsOutWithin R d c w vs"
    and "upgradeNeeded (c i)" "phaseOk (c i)" "recordedFor (c i) = Some up"
  shows "\<exists>n \<le> (10 - phaseRank (us_Phase up)) * (d + 1). settled (c (i + n))"
  using assms(3-5)
proof (induction "10 - phaseRank (us_Phase up)" arbitrary: i up rule: less_induct)
  case less
  have bound: "phaseRank (us_Phase up) \<le> 9"
    using less.prems phaseRank_bound by (auto simp: phaseOk_def recordedFor_def split: option.splits if_splits)
  from phase_left [OF h ro less.prems] obtain k where k: "k \<le> d + 1" "settled (c (i + k)) \<or>
    (\<exists>u. recordedFor (c (i + k)) = Some u \<and> upgradeNeeded (c (i + k)) \<and> phaseOk (c (i + k)) \<and>
       phaseRank (us_Phase up) < phaseRank (us_Phase u))" by blast
  from k(2) show ?case
  proof
    assume "settled (c (i + k))"
    moreover have "1 * (d + 1) \<le> (10 - phaseRank (us_Phase up)) * (d + 1)" using bound by (intro mult_right_mono) simp_all
    ultimately show ?thesis using k(1) by (intro exI [of _ k]) simp
  next
    assume "\<exists>u. recordedFor (c (i + k)) = Some u \<and> upgradeNeeded (c (i + k)) \<and> phaseOk (c (i + k)) \<and>
       phaseRank (us_Phase up) < phaseRank (us_Phase u)"
    then obtain u where u: "recordedFor (c (i + k)) = Some u" "upgradeNeeded (c (i + k))" "phaseOk (c (i + k))"
       "phaseRank (us_Phase up) < phaseRank (us_Phase u)" by blast
    have "10 - phaseRank (us_Phase u) < 10 - phaseRank (us_Phase up)" using u(4) bound by linarith
    from less.hyps [OF this u(2,3,1)] obtain n where n: "n \<le> (10 - phaseRank (us_Phase u)) * (d + 1)" "settled (c (i + k + n))"
      by blast
    have "k + n \<le> (1 + (10 - phaseRank (us_Phase u))) * (d + 1)" using k(1) n(1) by (simp add: algebra_simps)
    also have "\<dots> \<le> (10 - phaseRank (us_Phase up)) * (d + 1)" using u(4) bound by (intro mult_right_mono) linarith+
    finally show ?thesis using n(2) by (intro exI [of _ "k + n"]) (simp add: add.assoc)
  qed
qed

text \<open>A pass over no recorded upgrade, or one to another target, records one in its second phase.\<close>

lemma fresh_pass:
  assumes h: "upgradeHistory R c w vs" and need: "upgradeNeeded (c i)" and none: "recordedFor (c i) = None"
  shows "upgradeNeeded (c (Suc i)) \<and> (\<exists>u. recordedFor (c (Suc i)) = Some u \<and> us_Phase u = upgradePreflight)"
proof -
  from h obtain c' w' where run: "run_state (reconcileUpgrade R (c i)) (w i) = ((c', vs i), w')"
    and st: "st_Version (tc_Status (c (Suc i))) = st_Version (tc_Status c')"
      "st_Upgrade (tc_Status (c (Suc i))) = st_Upgrade (tc_Status c')" "tc_Spec (c (Suc i)) = tc_Spec (c i)"
    unfolding upgradeHistory_def by metis
  from pass_busy [OF need run] obtain up w1 cs where up: "workingUpgrade (c i) up"
    and adv: "run_state (advanceUpgrade R (c i) up) w1 = (c', w')" by metis
  have init: "initialUpgrade (c i) up"
    using up none by (auto simp: workingUpgrade_def recordedFor_def split: option.splits if_splits)
  then have "c' = setUpgrade (c i) (Some (up \<lparr>us_Phase := upgradePreflight\<rparr>))"
    using adv run_advanceTo [of R "c i" up upgradePreflight w1] by (simp add: initialUpgrade_def advanceUpgrade_def Let_def)
  then show ?thesis using st need init by (simp add: recordedFor_def upgradeNeeded_def initialUpgrade_def)
qed

text \<open>Repeated passes with nothing in between are a history.\<close>

lemma passes_keep:
  "tc_Spec (fst (upgradePasses R n (c, w))) = tc_Spec c" "tc_Meta (fst (upgradePasses R n (c, w))) = tc_Meta c"
  "st_Conditions (tc_Status (fst (upgradePasses R n (c, w)))) = st_Conditions (tc_Status c)"
proof -
  have "tc_Spec (fst (upgradePasses R n (c, w))) = tc_Spec c \<and> tc_Meta (fst (upgradePasses R n (c, w))) = tc_Meta c \<and>
      st_Conditions (tc_Status (fst (upgradePasses R n (c, w)))) = st_Conditions (tc_Status c)"
  proof (induction n arbitrary: c w)
    case (Suc n)
    obtain c' vs w' where "run_state (reconcileUpgrade R c) w = ((c', vs), w')" by (metis surj_pair)
    then show ?case using Suc.IH pass_keeps [of R c w c' vs w'] by simp
  qed simp
  then show "tc_Spec (fst (upgradePasses R n (c, w))) = tc_Spec c" "tc_Meta (fst (upgradePasses R n (c, w))) = tc_Meta c"
    "st_Conditions (tc_Status (fst (upgradePasses R n (c, w)))) = st_Conditions (tc_Status c)" by simp_all
qed

lemma passes_snoc:
  "upgradePasses R (Suc n) s =
     (let (c, w) = upgradePasses R n s; ((c', _), w') = run_state (reconcileUpgrade R c) w in (c', w'))"
proof (induction n arbitrary: s)
  case 0
  then show ?case by (cases s) (simp add: Let_def split: prod.splits)
next
  case (Suc n)
  obtain c w where s: "s = (c, w)" by fastforce
  obtain c' vs w' where "run_state (reconcileUpgrade R c) w = ((c', vs), w')" by (metis surj_pair)
  then show ?case using Suc.IH [of "(c', w')"] by (simp add: s)
qed

lemma passes_history:
  assumes "condTrue R c0 ConditionPersistenceReachable" "condTrue R c0 ConditionSchemaReady"
  shows "upgradeHistory R (\<lambda>n. fst (upgradePasses R n (c0, w0))) (\<lambda>n. snd (upgradePasses R n (c0, w0)))
    (\<lambda>n. snd (fst (run_state (reconcileUpgrade R (fst (upgradePasses R n (c0, w0)))) (snd (upgradePasses R n (c0, w0))))))"
  unfolding upgradeHistory_def
proof (intro allI conjI)
  fix i
  obtain c w where s: "upgradePasses R i (c0, w0) = (c, w)" by fastforce
  obtain c' vs w' where r: "run_state (reconcileUpgrade R c) w = ((c', vs), w')" by (metis surj_pair)
  show "\<exists>c' w' cs. run_state (reconcileUpgrade R (fst (upgradePasses R i (c0, w0)))) (snd (upgradePasses R i (c0, w0))) =
        ((c', snd (fst (run_state (reconcileUpgrade R (fst (upgradePasses R i (c0, w0)))) (snd (upgradePasses R i (c0, w0)))))), w') \<and>
      st_Version (tc_Status (fst (upgradePasses R (Suc i) (c0, w0)))) = st_Version (tc_Status c') \<and>
      st_Upgrade (tc_Status (fst (upgradePasses R (Suc i) (c0, w0)))) = st_Upgrade (tc_Status c') \<and>
      w_trace (snd (upgradePasses R (Suc i) (c0, w0))) = w_trace w' @ cs"
    unfolding passes_snoc s by (simp add: r)
qed (use assms in \<open>simp_all only: passes_keep condTrue_def\<close>)

section \<open>Properties\<close>

text \<open>
  C1: a reconcile of a needed upgrade refines the abstract phase machine.  It works on the recorded
  upgrade when that is for the current target and on a fresh one otherwise.  In the last phase it
  records the target as the running version and drops the upgrade.  In every other phase it keeps the
  running version and the endpoints of the upgrade, and either stays in its phase or makes exactly one
  step of the machine whose guard (datastore reachable, schema ready, or the phase's service rolled
  out) holds at that moment.
\<close>

theorem upgrade_pass_refines:
  assumes "upgradeNeeded cluster"
    and "run_state (reconcileUpgrade R cluster) w = ((c, versions), w')"
  shows "\<exists>up tr. workingUpgrade cluster up \<and>
     (if us_Phase up = upgradeComplete
      then st_Upgrade (tc_Status c) = None \<and> st_Version (tc_Status c) = spec_Version (tc_Spec cluster)
      else st_Version (tc_Status c) = st_Version (tc_Status cluster) \<and>
        (\<exists>u. st_Upgrade (tc_Status c) = Some u \<and> us_FromVersion u = us_FromVersion up \<and>
           us_ToVersion u = spec_Version (tc_Spec cluster) \<and>
           (us_Phase u = us_Phase up \<or>
            phase_step (internalFrontendEnabled (tc_Spec cluster))
              (condTrue R cluster ConditionPersistenceReachable) (condTrue R cluster ConditionSchemaReady)
              (observedRolledOut R cluster (spec_Version (tc_Spec cluster)) tr) (us_Phase up) (us_Phase u))))"
  using assms
proof (cases rule: pass_result)
  case (1 up)
  then show ?thesis by (intro exI [of _ up]) simp
next
  case (2 up w1 cs u)
  then show ?thesis
    using working_target [OF 2(1)] by (intro exI [of _ up] exI [of _ "w_trace w1"]) (simp add: upgradeMove_def)
qed

theorem upgrade_pass_refines_witness:
  "upgradeNeeded sampleCluster \<and>
   (\<exists>c versions w' up tr. run_state (reconcileUpgrade sampleReconciler sampleCluster) sampleWorld = ((c, versions), w') \<and>
      workingUpgrade sampleCluster up \<and>
      (us_Phase up \<noteq> upgradeComplete \<longrightarrow> st_Version (tc_Status c) = ''1.31.1''))"
proof -
  have need: "upgradeNeeded sampleCluster"
    by (simp add: upgradeNeeded_def sample_defs)
  obtain c versions w' where
    run: "run_state (reconcileUpgrade sampleReconciler sampleCluster) sampleWorld = ((c, versions), w')"
    by (metis surj_pair)
  have v: "st_Version (tc_Status sampleCluster) = ''1.31.1''" by (simp add: sample_defs)
  show ?thesis using upgrade_pass_refines [OF need run] need run unfolding v by (metis (no_types, lifting))
qed



text \<open>
  C3: an upgrade ends.  Take passes between which the spec, the running version and the recorded upgrade
  stay, with the datastore reachable and the schema ready at each, and Deployments such that a service
  which \<open>d\<close> successive passes handed the target version is rolled out at the target when the next pass
  reads it.  Then an upgrade that is recorded in a known phase of an enabled service, or not yet recorded,
  is over after at most \<open>10 (d + 1)\<close> passes: the target is the running version and no upgrade is recorded.
\<close>

theorem upgrade_completes:
  assumes "upgradeHistory R c w vs" and "rollsOutWithin R d c w vs" and "phaseOk (c 0)" and "upgradeNeeded (c 0)"
  shows "\<exists>n \<le> 10 * (d + 1). st_Version (tc_Status (c n)) = spec_Version (tc_Spec (c 0)) \<and> st_Upgrade (tc_Status (c n)) = None"
proof (cases "recordedFor (c 0) = None")
  case True
  from fresh_pass [OF assms(1,4) this] obtain u where u: "recordedFor (c 1) = Some u" "us_Phase u = upgradePreflight"
    and need: "upgradeNeeded (c 1)" by auto
  have "phaseOk (c 1)"
    using u by (auto simp: phaseOk_def recordedFor_def upgradePhases_def split: option.splits if_splits)
  from recorded_settles [OF assms(1,2) need this u(1)] obtain n where
    "n \<le> (10 - phaseRank (us_Phase u)) * (d + 1)" "settled (c (1 + n))" by blast
  then show ?thesis using u(2) history_spec [OF assms(1), of "1 + n"] by (intro exI [of _ "1 + n"]) (simp add: settled_def)
next
  case False
  then obtain u where u: "recordedFor (c 0) = Some u" by blast
  from recorded_settles [OF assms(1,2,4,3) u] obtain n where
    n: "n \<le> (10 - phaseRank (us_Phase u)) * (d + 1)" "settled (c (0 + n))" by blast
  have "(10 - phaseRank (us_Phase u)) * (d + 1) \<le> 10 * (d + 1)" by (rule mult_right_mono) simp_all
  then show ?thesis using n history_spec [OF assms(1), of n] by (intro exI [of _ n]) (simp add: settled_def)
qed

theorem upgrade_completes_witness:
  "\<exists>n \<le> 20. st_Version (tc_Status (fst (upgradePasses sampleReconciler n (sampleCluster, sampleWorld)))) = ''1.32.1'' \<and>
     st_Upgrade (tc_Status (fst (upgradePasses sampleReconciler n (sampleCluster, sampleWorld)))) = None"
proof -
  let ?c = "\<lambda>n. fst (upgradePasses sampleReconciler n (sampleCluster, sampleWorld))"
  let ?w = "\<lambda>n. snd (upgradePasses sampleReconciler n (sampleCluster, sampleWorld))"
  let ?vs = "\<lambda>n. snd (fst (run_state (reconcileUpgrade sampleReconciler (?c n)) (?w n)))"
  have sample: "condTrue sampleReconciler sampleCluster ConditionPersistenceReachable"
    "condTrue sampleReconciler sampleCluster ConditionSchemaReady"
    "svc \<in> set serviceUpgradeOrder \<Longrightarrow> observedRolledOut sampleReconciler sampleCluster ''1.32.1'' tr svc" for svc tr
    by (auto simp: condTrue_def observedRolledOut_def rolledOutAt_def clusterServerImage_def serviceUpgradeOrder_def
        deploymentRunsImage_def sampleReconciler_def sample_defs newDeployment_def newMeta_def Let_def derefOr_def)
  have spec: "spec_Version (tc_Spec sampleCluster) = ''1.32.1''" by (simp add: sample_defs)
  have "upgradeHistory sampleReconciler ?c ?w ?vs" by (rule passes_history [OF sample(1,2)])
  moreover have "observedRolledOut sampleReconciler (?c n) ''1.32.1'' tr svc" if "svc \<in> set (enabledNames (?c m))" for n m tr svc
    using sample(3) [OF enabled_in_order [OF that]] observedRolledOut_cong [of "?c n" sampleCluster] by (simp add: passes_keep)
  then have "rollsOutWithin sampleReconciler 1 ?c ?w ?vs"
    unfolding rollsOutWithin_def passes_keep spec by blast
  moreover have "phaseOk sampleCluster" "upgradeNeeded sampleCluster"
    by (simp_all add: phaseOk_def upgradeNeeded_def sample_defs)
  ultimately show ?thesis
    using upgrade_completes [of sampleReconciler ?c ?w ?vs 1] spec by simp
qed



section \<open>Edits during an upgrade\<close>

text \<open>The calls of advancing an upgrade are events and a read of the Deployment of the phase's service.\<close>

definition advanceCall :: "TemporalCluster \<Rightarrow> string \<Rightarrow> call \<Rightarrow> bool" where
  "advanceCall c phase x \<longleftrightarrow>
     (\<exists>rs m. x = CEvent rs m) \<or>
     (\<exists>svc. rollingPhaseService phase = Some svc \<and>
        x = CGet ''Deployment'' (tc_Namespace c) (DeploymentName (tc_Name c) svc))"

lemma emits_advanceUpgrade: "emits (advanceCall c (us_Phase up)) (advanceUpgrade R c up)"
  unfolding advanceUpgrade_def advanceRollingPhase_def advanceTo_def serviceRolledOut_def Let_def
  by (intro emits_rules) (auto simp: advanceCall_def)

lemma advanceCall_other:
  "advanceCall c phase x \<Longrightarrow> rollingPhaseService phase \<noteq> Some svc \<Longrightarrow>
   x \<noteq> CGet ''Deployment'' (tc_Namespace c) (DeploymentName (tc_Name c) svc)"
  by (auto simp: advanceCall_def DeploymentName_def)

lemma advanceCall_setUpgrade [simp]: "advanceCall (setUpgrade c u) = advanceCall c"
  by (simp add: advanceCall_def fun_eq_iff)

text \<open>A pass over an upgrade that moves on, with the versions it hands out.\<close>

lemma recorded_move:
  assumes need: "upgradeNeeded c" and up: "recordedFor c = Some up" and ne: "us_Phase up \<noteq> upgradeComplete"
    and adv: "fst (run_state (advanceUpgrade R c up) w) = setUpgrade c (Some u)" and to: "us_ToVersion u = us_ToVersion up"
  shows "\<exists>w' cs. run_state (reconcileUpgrade R c) w = ((setUpgrade c (Some u), upgradeServiceVersions c u), w') \<and>
     w_trace w' = w_trace w @ cs \<and> (\<forall>x \<in> set cs. advanceCall c (us_Phase up) x) \<and>
     upgradeNeeded (setUpgrade c (Some u)) \<and> recordedFor (setUpgrade c (Some u)) = Some u"
proof -
  obtain c' vs w' where run: "run_state (reconcileUpgrade R c) w = ((c', vs), w')" by (metis surj_pair)
  note rec = pass_recorded [OF need up run]
  have c': "c' = setUpgrade c (Some u)" using adv rec(1) by simp
  have "vs = upgradeServiceVersions c u"
    using rec(2) [of u] c' upgradeServiceVersions_eq [of c' u] upgradeServiceVersions_eq [of c u] enabledNames_cong [of c' c]
    by (intro ext) simp
  moreover obtain cs where "w_trace w' = w_trace w @ cs" "\<forall>x \<in> set cs. advanceCall c (us_Phase up) x"
    using emitsD [OF emits_advanceUpgrade rec(1)] by (auto simp: list_all_iff)
  moreover have "us_ToVersion up = spec_Version (tc_Spec c)"
    using up by (auto simp: recordedFor_def split: option.splits if_splits)
  ultimately show ?thesis using run c' need to by (simp add: recordedFor_def upgradeNeeded_def)
qed

text \<open>
  C0: an upgrade does not notice an internal frontend that is enabled late.  Once an upgrade is rolling the
  worker, three passes of the upgrade step end it as soon as the worker's Deployment is rolled out, also
  when the spec has the internal frontend enabled by then: each hands it the target version and none reads
  its Deployment, so the target is recorded as the running version although the internal frontend was
  not seen rolled out.
\<close>

theorem late_internal_frontend_unseen:
  assumes need: "upgradeNeeded c" and up: "recordedFor c = Some up" and phase: "us_Phase up = upgradeRollingWorker"
    and internal: "internalFrontendEnabled (tc_Spec c)"
    and worker: "observedRolledOut R c (spec_Version (tc_Spec c)) (w_trace w) ServiceWorker"
  shows "\<exists>c1 v1 w1 c2 v2 w2 c3 v3 w3 cs.
    run_state (reconcileUpgrade R c) w = ((c1, v1), w1) \<and> run_state (reconcileUpgrade R c1) w1 = ((c2, v2), w2) \<and>
    run_state (reconcileUpgrade R c2) w2 = ((c3, v3), w3) \<and>
    st_Version (tc_Status c3) = spec_Version (tc_Spec c) \<and> st_Upgrade (tc_Status c3) = None \<and>
    (\<forall>v \<in> {v1, v2, v3}. v ServiceInternalFrontend = Some (spec_Version (tc_Spec c))) \<and>
    w_trace w3 = w_trace w @ cs \<and>
    CGet ''Deployment'' (tc_Namespace c) (DeploymentName (tc_Name c) ServiceInternalFrontend) \<notin> set cs"
proof -
  let ?u = "up \<lparr>us_Phase := upgradePostUpgrade\<rparr>" let ?v = "up \<lparr>us_Phase := upgradeComplete\<rparr>"
  let ?c1 = "setUpgrade c (Some ?u)" let ?c2 = "setUpgrade ?c1 (Some ?v)"
  have to: "us_ToVersion up = spec_Version (tc_Spec c)"
    using up by (auto simp: recordedFor_def split: option.splits if_splits)
  have "fst (run_state (advanceUpgrade R c up) w) = ?c1"
    using worker by (simp add: advanceUpgrade_def Let_def phase run_advanceRollingPhase to nextRollingPhase_def)
  from recorded_move [OF need up _ this] obtain w1 cs1 where
    p1: "run_state (reconcileUpgrade R c) w = ((?c1, upgradeServiceVersions c ?u), w1)" "w_trace w1 = w_trace w @ cs1"
    "\<forall>x \<in> set cs1. advanceCall c upgradeRollingWorker x" "upgradeNeeded ?c1" "recordedFor ?c1 = Some ?u"
    by (auto simp: phase)
  have "fst (run_state (advanceUpgrade R ?c1 ?u) w1) = ?c2" by (simp add: advanceUpgrade_def Let_def run_advanceTo)
  from recorded_move [OF p1(4,5) _ this] obtain w2 cs2 where
    p2: "run_state (reconcileUpgrade R ?c1) w1 = ((?c2, upgradeServiceVersions ?c1 ?v), w2)" "w_trace w2 = w_trace w1 @ cs2"
    "\<forall>x \<in> set cs2. advanceCall ?c1 upgradePostUpgrade x" "upgradeNeeded ?c2" "recordedFor ?c2 = Some ?v"
    by auto
  obtain c3 v3 w3 where p3: "run_state (reconcileUpgrade R ?c2) w2 = ((c3, v3), w3)" by (metis surj_pair)
  note rec = pass_recorded(1) [OF p2(4,5) p3]
  have c3: "c3 = ?c2 \<lparr>tc_Status := (tc_Status ?c2) \<lparr>st_Version := us_ToVersion up, st_Upgrade := None\<rparr>\<rparr>"
    using advanceUpgrade_complete [of ?v R ?c2 w2] rec by simp
  obtain cs3 where cs3: "w_trace w3 = w_trace w2 @ cs3" "\<forall>x \<in> set cs3. advanceCall ?c2 upgradeComplete x"
    using emitsD [OF emits_advanceUpgrade rec] by (auto simp: list_all_iff)
  have ended: "st_Upgrade (tc_Status c3) = None" by (simp add: c3)
  from p2(4) p3 have v3: "v3 = uniformVersions c3 (spec_Version (tc_Spec c))"
    by (rule pass_result) (use ended in simp_all)
  have versions: "\<forall>v \<in> {upgradeServiceVersions c ?u, upgradeServiceVersions ?c1 ?v, v3}.
      v ServiceInternalFrontend = Some (spec_Version (tc_Spec c))"
    using internal to by (simp add: v3 c3 upgradeServiceVersions_eq uniformVersions_eq enabledNames_eq serviceVersionIn_eq
        serviceUpgradeOrder_def)
  have none: "rollingPhaseService p \<noteq> Some ServiceInternalFrontend" if "p \<in> {upgradeRollingWorker, upgradePostUpgrade, upgradeComplete}" for p
    using that by (auto simp: rollingPhaseService_def)
  have reads: "CGet ''Deployment'' (tc_Namespace c) (DeploymentName (tc_Name c) ServiceInternalFrontend) \<notin> set (cs1 @ cs2 @ cs3)"
  proof
    assume "CGet ''Deployment'' (tc_Namespace c) (DeploymentName (tc_Name c) ServiceInternalFrontend) \<in> set (cs1 @ cs2 @ cs3)"
    then obtain p where "p \<in> {upgradeRollingWorker, upgradePostUpgrade, upgradeComplete}"
      "advanceCall c p (CGet ''Deployment'' (tc_Namespace c) (DeploymentName (tc_Name c) ServiceInternalFrontend))"
      using p1(3) p2(3) cs3(2) by auto
    then show False using advanceCall_other [OF _ none] by blast
  qed
  show ?thesis
    using p1(1,2) p2(1,2) p3 c3 cs3(1) versions reads to
    by (intro exI [of _ ?c1] exI [of _ "upgradeServiceVersions c ?u"] exI [of _ w1] exI [of _ ?c2]
        exI [of _ "upgradeServiceVersions ?c1 ?v"] exI [of _ w2] exI [of _ c3] exI [of _ v3] exI [of _ w3]
        exI [of _ "cs1 @ cs2 @ cs3"]) simp
qed

text \<open>A cluster whose internal frontend was enabled while the worker was being rolled.\<close>

definition lateUpgrade :: UpgradeStatus where
  "lateUpgrade = \<lparr>us_FromVersion = ''1.31.1'', us_ToVersion = ''1.32.1'', us_Phase = upgradeRollingWorker,
     us_Rollbackable = False, us_StartedAt = None\<rparr>"

definition lateFrontend :: TemporalCluster where
  "lateFrontend = setUpgrade (sampleCluster \<lparr>tc_Spec := (tc_Spec sampleCluster)
     \<lparr>spec_Services := (spec_Services (tc_Spec sampleCluster))
       \<lparr>svcs_InternalFrontend := Some \<lparr>if_Enabled = True, if_Replicas = None, if_Resources = []\<rparr>\<rparr>\<rparr>\<rparr>) (Some lateUpgrade)"

theorem late_internal_frontend_unseen_witness:
  "\<exists>c1 v1 w1 c2 v2 w2 c3 v3 w3. run_state (reconcileUpgrade sampleReconciler lateFrontend) sampleWorld = ((c1, v1), w1) \<and>
     run_state (reconcileUpgrade sampleReconciler c1) w1 = ((c2, v2), w2) \<and>
     run_state (reconcileUpgrade sampleReconciler c2) w2 = ((c3, v3), w3) \<and>
     st_Version (tc_Status c3) = ''1.32.1'' \<and> v3 ServiceInternalFrontend = Some ''1.32.1''"
proof -
  have "upgradeNeeded lateFrontend" "recordedFor lateFrontend = Some lateUpgrade" "us_Phase lateUpgrade = upgradeRollingWorker"
    "internalFrontendEnabled (tc_Spec lateFrontend)" "spec_Version (tc_Spec lateFrontend) = ''1.32.1''"
    by (simp_all add: lateFrontend_def lateUpgrade_def upgradeNeeded_def recordedFor_def internalFrontendEnabled_def sample_defs)
  moreover have "observedRolledOut sampleReconciler lateFrontend ''1.32.1'' (w_trace sampleWorld) ServiceWorker"
    by code_simp
  ultimately show ?thesis
    using late_internal_frontend_unseen [of lateFrontend lateUpgrade sampleReconciler sampleWorld] by (simp, blast)
qed

text \<open>
  C0: disabling the internal frontend while it is being rolled strands the upgrade.  In that phase, with
  the internal frontend no longer in the spec, no pass hands it a version any more, so nothing brings its
  Deployment to the target; as long as the Deployment is not found rolled out at the target, every pass
  leaves the recorded upgrade as it was, and the worker keeps the old version.
\<close>

theorem disabled_internal_frontend_stalls:
  assumes h: "upgradeHistory R c w vs" and need: "upgradeNeeded (c 0)" and up: "recordedFor (c 0) = Some up"
    and phase: "us_Phase up = upgradeRollingInternalFrontend" and off: "\<not> internalFrontendEnabled (tc_Spec (c 0))"
    and ro: "\<And>i. \<not> observedRolledOut R (c i) (us_ToVersion up) (w_trace (w i)) ServiceInternalFrontend"
  shows "st_Upgrade (tc_Status (c n)) = Some up \<and> vs n ServiceInternalFrontend = None \<and>
    vs n ServiceWorker = Some (us_FromVersion up)"
proof -
  have step: "vs i = upgradeServiceVersions (c i) up \<and> upgradeNeeded (c (Suc i)) \<and> recordedFor (c (Suc i)) = Some up"
    if need: "upgradeNeeded (c i)" and up: "recordedFor (c i) = Some up" for i
  proof -
    from h obtain c' w' where run: "run_state (reconcileUpgrade R (c i)) (w i) = ((c', vs i), w')"
      and st: "st_Version (tc_Status (c (Suc i))) = st_Version (tc_Status c')"
        "st_Upgrade (tc_Status (c (Suc i))) = st_Upgrade (tc_Status c')" "tc_Spec (c (Suc i)) = tc_Spec (c i)"
      unfolding upgradeHistory_def by metis
    have "fst (run_state (advanceUpgrade R (c i) up) (w i)) = setUpgrade (c i) (Some up)"
      using ro [of i] by (simp add: advanceUpgrade_def Let_def phase run_advanceRollingPhase)
    from recorded_move [OF need up _ this] run phase
    have "c' = setUpgrade (c i) (Some up)" "vs i = upgradeServiceVersions (c i) up"
      "upgradeNeeded c'" "recordedFor c' = Some up" by auto
    then show ?thesis using st by (simp add: upgradeNeeded_def recordedFor_def)
  qed
  have all: "upgradeNeeded (c i) \<and> recordedFor (c i) = Some up" for i
    by (induction i) (use need up step in blast)+
  have "\<not> internalFrontendEnabled (tc_Spec (c n))" using off history_spec [OF h, of n] by simp
  then show ?thesis
    using step [of n] all [of n]
    by (auto simp: upgradeServiceVersions_eq enabledNames_eq serviceVersionIn_eq serviceUpgradeOrder_def phase recordedFor_def
        split: option.splits if_splits)
qed

text \<open>The internal frontend was disabled in its own phase, and its Deployment still runs the old version.\<close>

definition strandedUpgrade :: UpgradeStatus where
  "strandedUpgrade = lateUpgrade \<lparr>us_Phase := upgradeRollingInternalFrontend\<rparr>"

definition strandedReconciler :: TemporalClusterReconciler where
  "strandedReconciler = sampleReconciler \<lparr>rc_Client := sampleKube
     \<lparr>k_GetDeployment := (\<lambda>_ ns n. Inr (sampleDeployment ''1.31.1'' ns n))\<rparr>\<rparr>"

theorem disabled_internal_frontend_stalls_witness:
  "st_Upgrade (tc_Status (fst (upgradePasses strandedReconciler 7 (setUpgrade sampleCluster (Some strandedUpgrade), sampleWorld)))) =
     Some strandedUpgrade"
proof -
  let ?R = strandedReconciler let ?base = "setUpgrade sampleCluster (Some strandedUpgrade)"
  let ?c = "\<lambda>n. fst (upgradePasses ?R n (?base, sampleWorld))"
  let ?w = "\<lambda>n. snd (upgradePasses ?R n (?base, sampleWorld))"
  have "upgradeHistory ?R ?c ?w (\<lambda>n. snd (fst (run_state (reconcileUpgrade ?R (?c n)) (?w n))))"
    by (rule passes_history) (simp_all add: condTrue_def strandedReconciler_def sampleReconciler_def sample_defs)
  moreover have "upgradeNeeded ?base" "recordedFor ?base = Some strandedUpgrade" "\<not> internalFrontendEnabled (tc_Spec ?base)"
    by (simp_all add: upgradeNeeded_def recordedFor_def internalFrontendEnabled_def strandedUpgrade_def lateUpgrade_def sample_defs)
  moreover have "us_Phase strandedUpgrade = upgradeRollingInternalFrontend" by (simp add: strandedUpgrade_def)
  moreover have "\<not> observedRolledOut ?R (?c i) (us_ToVersion strandedUpgrade) (w_trace (?w i)) ServiceInternalFrontend" for i
    by (simp add: observedRolledOut_def rolledOutAt_def strandedReconciler_def strandedUpgrade_def lateUpgrade_def sample_defs
        newDeployment_def derefOr_def)
  ultimately show ?thesis using disabled_internal_frontend_stalls [of ?R ?c ?w _ strandedUpgrade 7] by simp
qed

end
