(* ===== verification/Schema_Readiness.thy ===== *)
theory Schema_Readiness
  imports Cluster_Persistence
begin

text \<open>
  What the verdict of the persistence step means.  A true \<open>SchemaReady\<close> that a pass with reachable
  stores leaves behind was read off the stores in that pass; a pass with an unreachable store does
  not touch it; a schema Job counts as successful only when it ran the tools of the current version;
  and the whole step applies no object.
\<close>

section \<open>Targets keep the contract\<close>

text \<open>The kind of backend a store's specification asks for.\<close>

definition storeKind :: "DatastoreSpec \<Rightarrow> string" where
  "storeKind store =
     (if ds_SQL store \<noteq> None then ''sql'' else if ds_Cassandra store \<noteq> None then ''cassandra'' else ''elasticsearch'')"

definition goodTarget :: "SchemaStore \<Rightarrow> DatastoreSpec \<Rightarrow> schemaTarget \<Rightarrow> bool" where
  "goodTarget name store t \<longleftrightarrow>
     tgt_store t = name \<and> be_Kind (tgt_backend t) = storeKind store \<and> backend_contract (tgt_backend t)"

lemma factory_target:
  assumes "rc_BackendFactory R = None" and "backendFactory R store cred db = Inr b"
  shows "be_Kind b = storeKind store \<and> backend_contract b"
  using assms sql_contract.backend_contract_axioms cassandra_contract.backend_contract_axioms
    es_contract.backend_contract_axioms
  by (auto simp: backendFactory_def DefaultBackendFactory_def storeKind_def sqlBackend_def cassandraBackend_def
      esBackend_def split: option.splits)

lemma buildTarget_good:
  assumes "rc_BackendFactory R = None" and "run_state (buildTarget R cluster store name) w = (Inr t, w')"
  shows "goodTarget name store t"
proof -
  obtain cred w1 where cred: "run_state (ResolveStore (rc_Client R) (tc_Namespace cluster) store) w = (Inr cred, w1)"
    using assms(2) by (auto simp: buildTarget_def split: prod.splits sum.splits)
  show ?thesis
  proof (cases "(pers_AzureWorkloadIdentity (spec_Persistence (tc_Spec cluster)), ds_SQL store)")
    case (Pair a sql)
    show ?thesis
    proof (cases "a = None \<or> sql = None")
      case True
      then obtain b where "backendFactory R store cred (storeDBName store) = Inr b"
        "t = \<lparr>tgt_store = name, tgt_spec = store, tgt_backend = b, tgt_cred = cred\<rparr>"
        using assms(2) cred Pair by (auto simp: buildTarget_def split: option.splits sum.splits)
      then show ?thesis using factory_target [OF assms(1)] by (simp add: goodTarget_def)
    next
      case False
      then obtain az sq where "a = Some az" "sql = Some sq" by auto
      then have "t = \<lparr>tgt_store = name, tgt_spec = store,
          tgt_backend = jobInspectorBackend (rc_Client R) (rc_Drivers R) name (ensureInspectorJob R cluster az sq name),
          tgt_cred = cred\<rparr>"
        using assms(2) cred Pair by (simp add: buildTarget_def NewJobInspectorBackend_def split: prod.splits)
      then show ?thesis
        using Pair False inspector_contract.backend_contract_axioms
        by (simp add: goodTarget_def storeKind_def jobInspectorBackend_def)
    qed
  qed
qed

lemma buildSchemaTargets_good:
  assumes "rc_BackendFactory R = None" and "run_state (buildSchemaTargets R cluster) w = (Inr ts, w')"
  obtains dt vt where "ts = [dt, vt]"
    "goodTarget StoreDefault (pers_DefaultStore (spec_Persistence (tc_Spec cluster))) dt"
    "goodTarget StoreVisibility (pers_VisibilityStore (spec_Persistence (tc_Spec cluster))) vt"
  using assms(2) buildTarget_good [OF assms(1)]
  by (auto simp: buildSchemaTargets_def Let_def split: prod.splits sum.splits)

section \<open>Conditions\<close>

lemma setCondition_simps [simp]:
  "tc_Spec (setCondition R c t s r m) = tc_Spec c" "tc_Meta (setCondition R c t s r m) = tc_Meta c"
  "st_Persistence (tc_Status (setCondition R c t s r m)) = st_Persistence (tc_Status c)"
  "st_Upgrade (tc_Status (setCondition R c t s r m)) = st_Upgrade (tc_Status c)"
  "st_Version (tc_Status (setCondition R c t s r m)) = st_Version (tc_Status c)"
  by (simp_all add: setCondition_def)

lemma setPersistence_simps [simp]:
  "tc_Spec (setPersistence c f) = tc_Spec c" "tc_Meta (setPersistence c f) = tc_Meta c"
  "st_Persistence (tc_Status (setPersistence c f)) = f (st_Persistence (tc_Status c))"
  "st_Conditions (tc_Status (setPersistence c f)) = st_Conditions (tc_Status c)"
  "st_Upgrade (tc_Status (setPersistence c f)) = st_Upgrade (tc_Status c)"
  "st_Version (tc_Status (setPersistence c f)) = st_Version (tc_Status c)"
  by (simp_all add: setPersistence_def)

lemma condTrue_setCondition:
  "meta_laws (rc_MetaApi R) \<Longrightarrow>
   condTrue R (setCondition R c t s r m) t' = (if t' = t then s = ConditionTrue else condTrue R c t')"
  by (simp add: condTrue_def setCondition_def meta_laws_def)

lemma condTrue_setPersistence [simp]: "condTrue R (setPersistence c f) t = condTrue R c t"
  by (simp add: condTrue_def)

abbreviation recordedSchema :: "TemporalCluster \<Rightarrow> string \<rightharpoonup> string" where
  "recordedSchema c \<equiv> ps_SchemaVersions (st_Persistence (tc_Status c))"

section \<open>One store\<close>

lemma storeString_inject [simp]: "storeString a = storeString b \<longleftrightarrow> a = b"
  by (cases a; cases b) simp_all

lemma jobs_not_done:
  "run_state (updateSchemaJob R c t) w = (Inr s, w') \<Longrightarrow> \<not> sr_done s"
  "run_state (reconcileJobSchema R c t v) w = (Inr s, w') \<Longrightarrow> \<not> sr_done s"
proof -
  show u: "run_state (updateSchemaJob R c t) w = (Inr s, w') \<Longrightarrow> \<not> sr_done s" for w
    by (auto simp: updateSchemaJob_def notDone_def split: prod.splits sum.splits if_splits option.splits)
  show "run_state (reconcileJobSchema R c t v) w = (Inr s, w') \<Longrightarrow> \<not> sr_done s"
    using u by (auto simp: reconcileJobSchema_def notDone_def split: prod.splits sum.splits if_splits)
qed

text \<open>Only the record of the store's own schema changes, and a store that is done satisfies the minimum.\<close>

lemma storeSchema_keeps:
  assumes "run_state (reconcileStoreSchema R c t req) w = ((c', r), w')"
  shows "tc_Spec c' = tc_Spec c \<and> tc_Meta c' = tc_Meta c \<and> st_Conditions (tc_Status c') = st_Conditions (tc_Status c) \<and>
    st_Upgrade (tc_Status c') = st_Upgrade (tc_Status c) \<and> st_Version (tc_Status c') = st_Version (tc_Status c) \<and>
    (\<forall>k. k \<noteq> storeString (tgt_store t) \<longrightarrow> recordedSchema c' k = recordedSchema c k)"
  using assms
  by (auto simp: reconcileStoreSchema_def setSchemaVersion_def Let_def split: prod.splits sum.splits if_splits)

lemma storeSchema_done:
  assumes "run_state (reconcileStoreSchema R c t req) w = ((c', Inr s), w')" and "sr_done s"
  shows "\<exists>v. recordedSchema c' (storeString (tgt_store t)) = Some v \<and> SchemaSatisfies v req"
  using assms
  by (auto simp: reconcileStoreSchema_def setSchemaVersion_def Let_def notDone_def dest: jobs_not_done(2)
      split: prod.splits sum.splits if_splits)

section \<open>All stores\<close>

definition satisfied :: "TemporalCluster \<Rightarrow> VersionInfo \<Rightarrow> schemaTarget \<Rightarrow> bool" where
  "satisfied c info t \<longleftrightarrow>
     (\<exists>v. recordedSchema c (storeString (tgt_store t)) = Some v \<and>
        SchemaSatisfies v (minSchemaFor info (be_Kind (tgt_backend t)) (tgt_store t)))"

lemma schemaLoop_keeps:
  assumes "run_state (schemaLoop R c info ts m) w = ((c', out), w')"
  shows "tc_Spec c' = tc_Spec c \<and> tc_Meta c' = tc_Meta c \<and> st_Conditions (tc_Status c') = st_Conditions (tc_Status c) \<and>
    st_Upgrade (tc_Status c') = st_Upgrade (tc_Status c) \<and> st_Version (tc_Status c') = st_Version (tc_Status c) \<and>
    (\<forall>k. k \<notin> storeString ` tgt_store ` set ts \<longrightarrow> recordedSchema c' k = recordedSchema c k)"
  using assms
proof (induction ts arbitrary: c m w)
  case (Cons t ts)
  obtain cl r w1 where store: "run_state (reconcileStoreSchema R c t
      (minSchemaFor info (be_Kind (tgt_backend t)) (tgt_store t))) w = ((cl, r), w1)"
    by (metis surj_pair)
  then have "c' = cl \<or> (\<exists>m. run_state (schemaLoop R cl info ts m) w1 = ((c', out), w'))"
    using Cons.prems by (auto split: sum.splits if_splits)
  then show ?case using Cons.IH storeSchema_keeps [OF store] by (elim disjE exE) (simp, fastforce)
qed simp

lemma schemaLoop_done:
  assumes "run_state (schemaLoop R c info ts m) w = ((c', SchemaLoop False), w')" and "distinct (map tgt_store ts)"
  shows "\<not> m \<and> (\<forall>t \<in> set ts. satisfied c' info t)"
  using assms
proof (induction ts arbitrary: c m w)
  case (Cons t ts)
  obtain cl r w1 where store: "run_state (reconcileStoreSchema R c t
      (minSchemaFor info (be_Kind (tgt_backend t)) (tgt_store t))) w = ((cl, r), w1)"
    by (metis surj_pair)
  have no_true: "\<not> run_state (schemaLoop R cl info ts True) w1 = ((c', SchemaLoop False), w')"
    using Cons.IH Cons.prems(2) by fastforce
  obtain sr where sr: "r = Inr sr" "\<not> sr_failed sr"
    and rest: "run_state (schemaLoop R cl info ts (m \<or> \<not> sr_done sr)) w1 = ((c', SchemaLoop False), w')"
    using Cons.prems(1) store no_true by (auto split: sum.splits if_splits)
  have ih: "\<not> (m \<or> \<not> sr_done sr)" "\<forall>t \<in> set ts. satisfied c' info t"
    using Cons.IH [OF rest] Cons.prems(2) by simp_all
  moreover have "satisfied c' info t"
  proof -
    have "storeString (tgt_store t) \<notin> storeString ` tgt_store ` set ts" using Cons.prems(2) by auto
    then have "recordedSchema c' (storeString (tgt_store t)) = recordedSchema cl (storeString (tgt_store t))"
      using schemaLoop_keeps [OF rest] by blast
    then show ?thesis
      using storeSchema_done [of R c t _ w cl sr w1] store sr ih(1) by (simp add: satisfied_def)
  qed
  ultimately show ?case by simp
qed simp

lemma reconcileSchemas_ready:
  assumes "meta_laws (rc_MetaApi R)" and "run_state (reconcileSchemas R c ts) w = ((c', Inr res), w')"
    and "condTrue R c' ConditionSchemaReady" and "distinct (map tgt_store ts)"
  shows "\<exists>info. LookupVersion (spec_Version (tc_Spec c)) = Inr info \<and> (\<forall>t \<in> set ts. satisfied c' info t)"
proof -
  obtain info cl out w1 where info: "LookupVersion (spec_Version (tc_Spec c)) = Inr info"
    and loop: "run_state (schemaLoop R c info ts False) w = ((cl, out), w1)"
    using assms(2) by (auto simp: reconcileSchemas_def split: sum.splits prod.splits)
  have "out = SchemaLoop False \<and>
      c' = setSchemaReady R cl ConditionTrue ''SchemaReady'' ''all schemas are at the required version''"
    using assms(2,3) info loop
    by (auto simp: reconcileSchemas_def setSchemaReady_def condTrue_setCondition [OF assms(1)]
        split: schemaOutcome.splits if_splits)
  then show ?thesis
    using schemaLoop_done [of R c info ts False w cl w1] loop assms(4) info
    by (simp add: satisfied_def setSchemaReady_def)
qed

text \<open>The branches of the whole step, by what they leave in the conditions.\<close>

lemma persistence_reachable:
  assumes laws: "meta_laws (rc_MetaApi R)" and run: "run_state (reconcilePersistence R c) w = ((c', Inr res), w')"
    and reach: "condTrue R c' ConditionPersistenceReachable"
  shows "\<exists>ts w1 w2 w3. run_state (buildSchemaTargets R c) w1 = (Inr ts, w2) \<and>
    run_state (reconcileSchemas R (setReachable R c True ''datastore is reachable'') ts) w3 = ((c', Inr res), w')"
  using run reach
  by (auto simp: reconcilePersistence_def reconcileTargets_def setReachable_def setInspecting_def condTrue_setCondition [OF laws]
      split: prod.splits option.splits sum.splits if_splits)

text \<open>The schema step changes no condition but its own.\<close>

lemma reconcileSchemas_keeps:
  assumes laws: "meta_laws (rc_MetaApi R)" and run: "run_state (reconcileSchemas R c ts) w = ((c', r), w')"
  shows "(t \<noteq> ConditionSchemaReady \<longrightarrow> condTrue R c' t = condTrue R c t) \<and> tc_Spec c' = tc_Spec c \<and> tc_Meta c' = tc_Meta c \<and>
    st_Upgrade (tc_Status c') = st_Upgrade (tc_Status c) \<and> st_Version (tc_Status c') = st_Version (tc_Status c)"
proof (cases "LookupVersion (spec_Version (tc_Spec c))")
  case (Inl e)
  then show ?thesis using run by (simp add: reconcileSchemas_def)
next
  case (Inr info)
  obtain cl out w1 where loop: "run_state (schemaLoop R c info ts False) w = ((cl, out), w1)"
    by (metis surj_pair)
  note keeps = schemaLoop_keeps [OF loop]
  then have same: "condTrue R cl t = condTrue R c t" by (simp add: condTrue_def)
  show ?thesis
  proof (cases out)
    case (SchemaError e)
    then have "c' = cl" using run Inr loop by (simp add: reconcileSchemas_def)
    then show ?thesis using keeps same by simp
  next
    case (SchemaFailed m)
    then have "c' = setSchemaReady R cl ConditionFalse ''SchemaMigrationFailed'' m"
      using run Inr loop by (simp add: reconcileSchemas_def)
    then show ?thesis using keeps same by (simp add: setSchemaReady_def condTrue_setCondition [OF laws])
  next
    case (SchemaLoop m)
    then obtain st rs ms where "c' = setSchemaReady R cl st rs ms"
      using run Inr loop by (auto simp: reconcileSchemas_def split: if_splits)
    then show ?thesis using keeps same by (simp add: setSchemaReady_def condTrue_setCondition [OF laws])
  qed
qed

lemma persistence_unreachable:
  assumes laws: "meta_laws (rc_MetaApi R)" and run: "run_state (reconcilePersistence R c) w = ((c', Inr res), w')"
    and unreach: "\<not> condTrue R c' ConditionPersistenceReachable"
  shows "(condTrue R c' ConditionSchemaReady \<longleftrightarrow> condTrue R c ConditionSchemaReady) \<and>
    res = requeueAfter persistenceRequeueAfter"
proof -
  have keep: "condTrue R x ConditionPersistenceReachable" if
    "run_state (reconcileSchemas R (setReachable R c True ''datastore is reachable'') ts) w3 = ((x, r), w4)" for ts w3 x r w4
    using reconcileSchemas_keeps [OF laws that, of ConditionPersistenceReachable]
    by (simp add: setReachable_def condTrue_setCondition [OF laws])
  show ?thesis
    using run unreach keep
    by (auto simp: reconcilePersistence_def reconcileTargets_def setReachable_def setInspecting_def condTrue_setCondition [OF laws]
        split: prod.splits option.splits sum.splits if_splits)
qed

section \<open>No object is applied\<close>

lemma emits_ResolveStore: "emits (\<lambda>c. \<not> isApply c) (ResolveStore k ns store)"
  unfolding ResolveStore_def ResolveSQL_def ResolveCassandra_def ResolveElasticsearch_def resolvePassword_def
    getSecretValue_def
  by (intro emits_rules) auto

lemma emits_buildSchemaTargets: "emits (\<lambda>c. \<not> isApply c) (buildSchemaTargets R cluster)"
  unfolding buildSchemaTargets_def buildTarget_def NewJobInspectorBackend_def
  by (intro emits_rules emits_ResolveStore)

lemma emits_schemaJobs:
  "emits (\<lambda>c. \<not> isApply c) (ensureSchemaJob R cluster t action)"
  "emits (\<lambda>c. \<not> isApply c) (deleteInspectorJob R cluster store)"
  "emits (\<lambda>c. \<not> isApply c) (ensureAzureServiceAccount R cluster)"
  unfolding ensureSchemaJob_def deleteInspectorJob_def ensureAzureServiceAccount_def
  by (intro emits_rules; simp)+

lemma emits_reconcileJobSchema: "emits (\<lambda>c. \<not> isApply c) (reconcileJobSchema R cluster t current)"
  unfolding reconcileJobSchema_def updateSchemaJob_def by (intro emits_rules emits_schemaJobs)

lemma emits_reconcileStoreSchema:
  assumes "backend_contract (tgt_backend t)"
  shows "emits (\<lambda>c. \<not> isApply c) (reconcileStoreSchema R cluster t req)"
  unfolding reconcileStoreSchema_def
  by (intro emits_rules emits_reconcileJobSchema backend_contract.emits_version [OF assms]
      backend_contract.emits_ensure [OF assms])

lemma emits_loops:
  assumes "\<forall>t \<in> set ts. backend_contract (tgt_backend t)"
  shows "emits (\<lambda>c. \<not> isApply c) (probeAll ts)" "emits (\<lambda>c. \<not> isApply c) (schemaLoop R cluster info ts m)"
proof -
  show "emits (\<lambda>c. \<not> isApply c) (probeAll ts)"
    using assms
  proof (induction ts)
    case (Cons t ts)
    then show ?case
      by (auto intro!: emits_rules backend_contract.emits_probe)
  qed (simp add: emits_return)
  show "emits (\<lambda>c. \<not> isApply c) (schemaLoop R cluster info ts m)"
    using assms
  proof (induction ts arbitrary: cluster m)
    case (Cons t ts)
    then show ?case by (auto intro!: emits_rules emits_reconcileStoreSchema)
  qed (simp add: emits_return)
qed

lemma reconcilePersistence_emits:
  assumes "rc_BackendFactory R = None"
  shows "emits (\<lambda>c. \<not> isApply c) (reconcilePersistence R cluster)"
proof -
  have good: "emits (\<lambda>c. \<not> isApply c) (reconcileTargets R cluster ts)"
    if "run_state (buildSchemaTargets R cluster) w = (Inr ts, w')" for w ts w'
  proof -
    from buildSchemaTargets_good [OF assms that] obtain dt vt where "ts = [dt, vt]"
      "goodTarget StoreDefault (pers_DefaultStore (spec_Persistence (tc_Spec cluster))) dt"
      "goodTarget StoreVisibility (pers_VisibilityStore (spec_Persistence (tc_Spec cluster))) vt" .
    then have "\<forall>t \<in> set ts. backend_contract (tgt_backend t)" by (simp add: goodTarget_def)
    note loops = emits_loops [OF this]
    show ?thesis
      unfolding reconcileTargets_def reconcileSchemas_def by (intro emits_rules loops)
  qed
  have targets: "emits (\<lambda>c. \<not> isApply c) (State_Monad.bind (buildSchemaTargets R cluster) (\<lambda>ts. case ts of
      Inl e \<Rightarrow> State_Monad.return (f e) | Inr ts \<Rightarrow> reconcileTargets R cluster ts))" for f
    by (rule emits_bind_dep [OF emits_buildSchemaTargets])
      (rule emits_case_sum, rule emits_return, insert good, blast)
  show ?thesis
    unfolding reconcilePersistence_def
    by (intro emits_bind [OF emits_schemaJobs(3)] emits_case_option emits_return targets)
qed

section \<open>Properties\<close>

text \<open>
  C4: a true \<open>SchemaReady\<close> is earned.  When a pass leaves the datastores reachable and the schema
  ready, the version of the spec is in the supported matrix, and the schema version recorded in that
  pass for the default and for the visibility store satisfies what that version requires of a store of
  that kind.
\<close>

theorem schema_ready_sound:
  assumes "meta_laws (rc_MetaApi R)" and "rc_BackendFactory R = None"
    and "run_state (reconcilePersistence R c) w = ((c', Inr res), w')"
    and "condTrue R c' ConditionPersistenceReachable" and "condTrue R c' ConditionSchemaReady"
  shows "\<exists>info v1 v2. LookupVersion (spec_Version (tc_Spec c)) = Inr info \<and>
    recordedSchema c' ''default'' = Some v1 \<and> recordedSchema c' ''visibility'' = Some v2 \<and>
    SchemaSatisfies v1
      (minSchemaFor info (storeKind (pers_DefaultStore (spec_Persistence (tc_Spec c)))) StoreDefault) \<and>
    SchemaSatisfies v2
      (minSchemaFor info (storeKind (pers_VisibilityStore (spec_Persistence (tc_Spec c)))) StoreVisibility)"
proof -
  from persistence_reachable [OF assms(1,3,4)] obtain ts w1 w2 w3 where
    ts: "run_state (buildSchemaTargets R c) w1 = (Inr ts, w2)" and
    schemas: "run_state (reconcileSchemas R (setReachable R c True ''datastore is reachable'') ts) w3 = ((c', Inr res), w')"
    by blast
  from buildSchemaTargets_good [OF assms(2) ts] obtain dt vt where good: "ts = [dt, vt]"
    "goodTarget StoreDefault (pers_DefaultStore (spec_Persistence (tc_Spec c))) dt"
    "goodTarget StoreVisibility (pers_VisibilityStore (spec_Persistence (tc_Spec c))) vt" .
  then have "distinct (map tgt_store ts)" by (simp add: goodTarget_def)
  from reconcileSchemas_ready [OF assms(1) schemas assms(5) this] obtain info where
    info: "LookupVersion (spec_Version (tc_Spec c)) = Inr info" and sat: "satisfied c' info dt" "satisfied c' info vt"
    by (auto simp: setReachable_def good(1))
  obtain v1 v2 where "recordedSchema c' ''default'' = Some v1"
    "SchemaSatisfies v1 (minSchemaFor info (be_Kind (tgt_backend dt)) StoreDefault)"
    "recordedSchema c' ''visibility'' = Some v2"
    "SchemaSatisfies v2 (minSchemaFor info (be_Kind (tgt_backend vt)) StoreVisibility)"
    using sat good(2,3) by (auto simp: satisfied_def goodTarget_def)
  then show ?thesis using info good(2,3) by (simp add: goodTarget_def)
qed

lemma sample_lookup:
  "LookupVersion ''1.32.1'' = Inr (supportedVersions ! 5)"
  "SchemaSatisfies ''1.19'' (vi_MinSchemaSQL (supportedVersions ! 5))"
  "SchemaSatisfies ''1.19'' (vi_MinSchemaSQLVisibility (supportedVersions ! 5))"
  by code_simp+

lemma sample_persistence:
  "fst (run_state (reconcilePersistence sampleReconciler sampleCluster) sampleWorld) =
     (setSchemaReady sampleReconciler
        (setSchemaVersion (setSchemaVersion (setReachable sampleReconciler sampleCluster True ''datastore is reachable'')
           StoreDefault ''1.19'') StoreVisibility ''1.19'')
        ConditionTrue ''SchemaReady'' ''all schemas are at the required version'', Inr noResult)"
proof -
  have spec: "spec_Persistence (tc_Spec sampleCluster) = samplePersistence"
    "spec_Version (tc_Spec sampleCluster) = ''1.32.1''"
    by (simp_all add: sampleCluster_def sampleSpec_def)
  have stores: "pers_AzureWorkloadIdentity samplePersistence = None" "pers_DefaultStore samplePersistence = sampleStore"
    "pers_VisibilityStore samplePersistence = sampleStore" "ds_SQL sampleStore = Some sampleSQL"
    "sql_PasswordSecretRef sampleSQL = None" "sql_PasswordCommandSecretRef sampleSQL = None"
    by (simp_all add: samplePersistence_def sampleStore_def sampleSQL_def)
  have rc: "rc_BackendFactory sampleReconciler = None" "rc_Drivers sampleReconciler = sampleDrivers ''1.19''"
    by (simp_all add: sampleReconciler_def)
  show ?thesis
    by (simp add: reconcilePersistence_def reconcileTargets_def ensureAzureServiceAccount_def buildSchemaTargets_def buildTarget_def
        ResolveStore_def ResolveSQL_def backendFactory_def DefaultBackendFactory_def sqlBackend_def
        SQLProber_Probe_def openPostgres_def SQLProber_CurrentSchemaVersion_def perform_def reconcileSchemas_def
        reconcileStoreSchema_def minSchemaFor_def sample_lookup spec stores rc sampleDrivers_def Let_def notDone_def
        setReachable_def setSchemaVersion_def)
qed

theorem schema_ready_sound_witness:
  "\<exists>c' w'. run_state (reconcilePersistence sampleReconciler sampleCluster) sampleWorld = ((c', Inr noResult), w') \<and>
     (\<exists>info v. LookupVersion ''1.32.1'' = Inr info \<and> recordedSchema c' ''default'' = Some v \<and>
        SchemaSatisfies v (minSchemaFor info ''sql'' StoreDefault))"
proof -
  obtain c' r w' where run: "run_state (reconcilePersistence sampleReconciler sampleCluster) sampleWorld = ((c', r), w')"
    by (metis surj_pair)
  have laws: "meta_laws (rc_MetaApi sampleReconciler)" "rc_BackendFactory sampleReconciler = None"
    by (simp_all add: sampleReconciler_def sampleMeta_laws)
  have r: "r = Inr noResult" and ready: "condTrue sampleReconciler c' ConditionPersistenceReachable"
    "condTrue sampleReconciler c' ConditionSchemaReady"
    using sample_persistence run
    by (simp_all add: setSchemaReady_def setSchemaVersion_def setReachable_def condTrue_setCondition [OF laws(1)])
  have "storeKind (pers_DefaultStore (spec_Persistence (tc_Spec sampleCluster))) = ''sql''"
    "spec_Version (tc_Spec sampleCluster) = ''1.32.1''"
    by (simp_all add: sample_defs storeKind_def)
  then show ?thesis
    using schema_ready_sound [OF laws run [unfolded r] ready] run r by auto
qed

text \<open>
  A pass that cannot reach a datastore gives no new verdict on the schema: it leaves
  \<open>SchemaReady\<close> as it found it and asks to be run again after thirty seconds.
\<close>

theorem unreachable_keeps_schema_verdict:
  assumes "meta_laws (rc_MetaApi R)" and "run_state (reconcilePersistence R c) w = ((c', Inr res), w')"
    and "\<not> condTrue R c' ConditionPersistenceReachable"
  shows "(condTrue R c' ConditionSchemaReady \<longleftrightarrow> condTrue R c ConditionSchemaReady) \<and>
    res = requeueAfter (30 * 1000000000)"
  using persistence_unreachable [OF assms] by (simp add: persistenceRequeueAfter_def)

definition downReconciler :: TemporalClusterReconciler where
  "downReconciler = sampleReconciler \<lparr>rc_Drivers := (sampleDrivers ''1.19'') \<lparr>d_PgPing := (\<lambda>_ _. Some (ErrMsg ''down''))\<rparr>\<rparr>"

theorem unreachable_keeps_schema_verdict_witness:
  "\<exists>c' w'. run_state (reconcilePersistence downReconciler sampleCluster) sampleWorld =
       ((c', Inr (requeueAfter (30 * 1000000000))), w') \<and>
     condTrue downReconciler c' ConditionSchemaReady"
proof -
  obtain c' r w' where run: "run_state (reconcilePersistence downReconciler sampleCluster) sampleWorld = ((c', r), w')"
    by (metis surj_pair)
  have laws: "meta_laws (rc_MetaApi downReconciler)"
    by (simp add: downReconciler_def sampleReconciler_def sampleMeta_laws)
  have "\<exists>res m. r = Inr res \<and> c' = setReachable downReconciler sampleCluster False m"
    using run
    by (simp add: reconcilePersistence_def reconcileTargets_def ensureAzureServiceAccount_def buildSchemaTargets_def
        buildTarget_def ResolveStore_def ResolveSQL_def backendFactory_def DefaultBackendFactory_def sqlBackend_def
        SQLProber_Probe_def openPostgres_def perform_def Let_def downReconciler_def sampleReconciler_def
        sampleDrivers_def sampleCluster_def sampleSpec_def samplePersistence_def sampleStore_def sampleSQL_def) blast
  then obtain res m where r: "r = Inr res" and c': "c' = setReachable downReconciler sampleCluster False m" by blast
  have "\<not> condTrue downReconciler c' ConditionPersistenceReachable"
    by (simp add: c' setReachable_def condTrue_setCondition [OF laws])
  moreover have "condTrue downReconciler sampleCluster ConditionSchemaReady"
    by (simp add: condTrue_def downReconciler_def sampleReconciler_def sample_defs)
  ultimately show ?thesis
    using unreachable_keeps_schema_verdict [OF laws run [unfolded r]] run r by auto
qed

text \<open>
  A schema Job counts as successful only for the version it ran for: \<open>ensureSchemaJob\<close> reports
  success only of a Job that the API server holds under the Job's name, that is not being deleted, that
  runs the admin tools of the spec's version, and whose first decisive condition says it completed.
\<close>

theorem schema_job_success_is_current:
  assumes "run_state (ensureSchemaJob R cluster t action) w = (Inr jobSucceeded, w')"
  shows "\<exists>job. k_GetJob (rc_Client R) (w_trace w) (tc_Namespace cluster)
        (SchemaJobName (tc_Name cluster) (tgt_store t) action) = Inr job \<and>
    om_DeletionTimestamp (job_Meta job) = None \<and>
    jobRunsImage job (AdminToolsImage (spec_Version (tc_Spec cluster))) \<and>
    classifyConditions (job_Conditions job) = Some jobSucceeded"
proof -
  let ?n = "SchemaJobName (tc_Name cluster) (tgt_store t) action"
  let ?get = "k_GetJob (rc_Client R) (w_trace w) (tc_Namespace cluster) ?n"
  let ?w = "w \<lparr>w_trace := w_trace w @ [CGet ''Job'' (tc_Namespace cluster) ?n]\<rparr>"
  have get: "run_state (getJob (rc_Client R) (tc_Namespace cluster) ?n) w = (?get, ?w)"
    by (simp add: getJob_def perform_def)
  show ?thesis
  proof (cases ?get)
    case (Inl e)
    then show ?thesis
      using assms get
      by (simp add: ensureSchemaJob_def Let_def split: if_splits sum.splits prod.splits)
  next
    case (Inr job)
    then show ?thesis
      using assms get
      by (simp add: ensureSchemaJob_def Let_def classifyJob_def split: if_splits option.splits prod.splits)
  qed
qed

text \<open>An API server that holds the finished update Job of the sample cluster.\<close>

definition doneJob :: Job where
  "doneJob = (newJob (newMeta ''prod-schema-default-update'' ''temporal'' Map.empty Map.empty) 0 0
     \<lparr>pt_Labels = Map.empty, pt_Annotations = Map.empty, pt_Spec = zeroPodSpec \<lparr>pod_Containers :=
        [zeroContainer \<lparr>ct_Name := SchemaContainerName, ct_Image := AdminToolsImage ''1.32.1''\<rparr>]\<rparr>\<rparr>)
     \<lparr>job_Conditions := [\<lparr>jc_Type = ''Complete'', jc_Status = ConditionTrue\<rparr>]\<rparr>"

definition doneReconciler :: TemporalClusterReconciler where
  "doneReconciler = sampleReconciler \<lparr>rc_Client := sampleKube \<lparr>k_GetJob := (\<lambda>_ _ _. Inr doneJob)\<rparr>\<rparr>"

definition sampleTarget :: schemaTarget where
  "sampleTarget = \<lparr>tgt_store = StoreDefault, tgt_spec = sampleStore,
     tgt_backend = sqlBackend (sampleDrivers ''1.10'') sampleSQL noCredential ''temporal'', tgt_cred = noCredential\<rparr>"

theorem schema_job_success_is_current_witness:
  "\<exists>w'. run_state (ensureSchemaJob doneReconciler sampleCluster sampleTarget ActionUpdate) sampleWorld = (Inr jobSucceeded, w') \<and>
     jobRunsImage doneJob (AdminToolsImage ''1.32.1'')"
proof -
  obtain r w' where run: "run_state (ensureSchemaJob doneReconciler sampleCluster sampleTarget ActionUpdate) sampleWorld = (r, w')"
    by fastforce
  have spec: "spec_Version (tc_Spec sampleCluster) = ''1.32.1''" by (simp add: sampleCluster_def sampleSpec_def)
  have "r = Inr jobSucceeded"
    using run
    by (simp add: ensureSchemaJob_def Let_def getJob_def perform_def doneReconciler_def doneJob_def newJob_def newMeta_def
        jobRunsImage_def classifyJob_def spec)
  moreover have "k_GetJob (rc_Client doneReconciler) tr ns n = Inr doneJob" for tr ns n
    by (simp add: doneReconciler_def)
  ultimately show ?thesis
    using schema_job_success_is_current [of doneReconciler sampleCluster sampleTarget ActionUpdate sampleWorld w'] run spec
    by auto
qed

end
