(* ===== verification/Cluster_Runs.thy ===== *)
theory Cluster_Runs
  imports Cluster_Reconcile Upgrade_Runs Schema_Readiness
begin

text \<open>
  Properties of whole reconcile passes and of sequences of passes and edits: what gates the service
  objects, what the status of a cluster always satisfies, when a cluster is ready, and how the
  Deployments that are built answer the rollout test that the upgrade waits for.
\<close>

section \<open>Applied objects\<close>

text \<open>Setting the controller reference keeps the identity of an object.\<close>

definition keepsIdentity :: "kube \<Rightarrow> bool" where
  "keepsIdentity k \<longleftrightarrow> (\<forall>m ob ob'. k_SetControllerReference k m ob = Inr ob' \<longrightarrow> obj_key ob' = obj_key ob)"

definition serviceDeployments :: "TemporalCluster \<Rightarrow> (string \<times> string \<times> string) set" where
  "serviceDeployments c =
     (\<lambda>svc. (''Deployment'', tc_Namespace c, DeploymentName (tc_Name c) svc)) ` set (enabledNames c)"

text \<open>A call that does not touch the Deployment of a Temporal service.\<close>

definition sparesServices :: "TemporalCluster \<Rightarrow> call \<Rightarrow> bool" where
  "sparesServices c call = (case call of CApply ob \<Rightarrow> obj_key ob \<notin> serviceDeployments c | _ \<Rightarrow> True)"

lemma sparesServices_simps [simp]:
  "sparesServices c (CApply ob) = (obj_key ob \<notin> serviceDeployments c)" "sparesServices c (CGet a b d)"
  "sparesServices c (CCreate ob)" "sparesServices c (CDelete a b d)" "sparesServices c (CStatusUpdate a b d)"
  "sparesServices c (CEvent a b)" "sparesServices c (CList a b d)"
  by (simp_all add: sparesServices_def)

lemma sparesServices_no_apply: "\<not> isApply call \<Longrightarrow> sparesServices c call"
  by (cases call) (auto simp: sparesServices_def)

lemma emits_applyAll:
  assumes "keepsIdentity (rc_Client R)" and "\<forall>ob \<in> set obs. obj_key ob \<notin> serviceDeployments c"
  shows "emits (sparesServices c) (applyAll R cluster obs)"
  using assms(2)
proof (induction obs)
  case (Cons ob obs)
  have "emits (sparesServices c) (applyOwned R cluster ob)"
    unfolding applyOwned_def serverSideApply_def
    using assms(1) Cons.prems
    by (auto intro!: emits_rules simp: keepsIdentity_def sparesServices_def split: sum.splits)
  then show ?case using Cons by (auto intro!: emits_rules)
qed (simp add: emits_return)

lemma not_service_key:
  "kind \<noteq> ''Deployment'' \<Longrightarrow> (kind, ns, n) \<notin> serviceDeployments c"
  "(''Deployment'', tc_Namespace c, tc_Name c @ ''-ui'') \<notin> serviceDeployments c"
  by (auto simp: serviceDeployments_def enabledNames_eq DeploymentName_def)

lemma serviceDeployments_cong:
  "tc_Spec c' = tc_Spec c \<Longrightarrow> tc_Meta c' = tc_Meta c \<Longrightarrow> serviceDeployments c' = serviceDeployments c"
  by (simp add: serviceDeployments_def enabledNames_eq)

lemma obs_spared:
  assumes "map obj_key obs = ks" and "\<forall>k \<in> set ks. k \<notin> serviceDeployments c"
  shows "\<forall>ob \<in> set obs. obj_key ob \<notin> serviceDeployments c"
  using assms by auto

section \<open>The steps spare the service Deployments\<close>

lemma certificatesStatus_emits: "emits (\<lambda>c. \<not> isApply c) (certificatesStatus R cluster names)"
  by (induction names) (auto intro!: emits_rules)

lemma reconcileMTLS_emits:
  assumes "keepsIdentity (rc_Client R)"
  shows "emits (sparesServices c) (reconcileMTLS R c)"
proof -
  have certs: "emits (sparesServices c) (certificatesStatus R c names)" for names
    by (rule emits_mono [OF certificatesStatus_emits sparesServices_no_apply])
  have "emits (sparesServices c) (applyAll R c (map plo_Object ps))" if "PlanMTLS c = Inr ps" for ps
    using PlanMTLS_keys [OF that]
    by (intro emits_applyAll [OF assms] obs_spared [of _ "keysOf ps"])
      (auto simp: keysOf_def not_service_key split: if_splits)
  then show ?thesis
    unfolding reconcileMTLS_def by (auto intro!: emits_rules certs split: sum.splits)
qed

lemma reconcileUpgrade_emits: "emits (\<lambda>c. \<not> isApply c) (reconcileUpgrade R cluster)"
  unfolding reconcileUpgrade_def advanceUpgrade_def advanceRollingPhase_def advanceTo_def serviceRolledOut_def
    startUpgrade_def
  by (intro emits_rules) auto

lemma reconcileUI_emits:
  assumes "keepsIdentity (rc_Client R)"
  shows "emits (sparesServices c) (reconcileUI R c)"
proof -
  have "emits (sparesServices c) (applyAll R c (map plo_Object ps))" if ui: "PlanUI (rc_Libs R) c = Inr ps" for ps
  proof (intro emits_applyAll [OF assms] obs_spared [of _ "keysOf ps"])
    obtain xs ys where "xs \<in> {[], [(''Certificate'', tc_Namespace c, tc_Name c @ ''-ui-client'')]}"
      "ys \<in> {[], [(''Ingress'', tc_Namespace c, tc_Name c @ ''-ui'')]}"
      "keysOf ps = [] \<or> keysOf ps = xs @ [(''Deployment'', tc_Namespace c, tc_Name c @ ''-ui''),
        (''Service'', tc_Namespace c, tc_Name c @ ''-ui'')] @ ys"
      using PlanUI_keys [OF ui] by blast
    then show "\<forall>k \<in> set (keysOf ps). k \<notin> serviceDeployments c"
      by (elim insertE emptyE disjE) (simp_all add: not_service_key)
  qed (simp add: keysOf_def)
  then show ?thesis
    unfolding reconcileUI_def by (auto intro!: emits_rules split: sum.splits)
qed

lemma reconcileMonitoring_emits:
  assumes "keepsIdentity (rc_Client R)"
  shows "emits (sparesServices c) (reconcileMonitoring R c)"
proof -
  have "emits (sparesServices c) (applyAll R c (map plo_Object (PlanMonitoring c)))"
    using PlanMonitoring_keys [of c]
    by (intro emits_applyAll [OF assms] obs_spared [of _ "keysOf (PlanMonitoring c)"])
      (auto simp: keysOf_def not_service_key split: if_splits)
  moreover have "emits (sparesServices c) (serviceMonitorCRDInstalled R)"
    by (rule emitsI) (auto simp: serviceMonitorCRDInstalled_def)
  ultimately show ?thesis
    unfolding reconcileMonitoring_def by (intro emits_rules)
qed

lemma finishPass_emits: "emits (sparesServices c) (finishPass R cluster res)"
  unfolding finishPass_def computeReadyAndPhase_def Let_def by (intro emits_rules) simp_all

section \<open>What the steps keep\<close>

text \<open>The parts of a cluster that only the upgrade and the final step may change.\<close>

definition sameUpgrade :: "TemporalCluster \<Rightarrow> TemporalCluster \<Rightarrow> bool" where
  "sameUpgrade c c' \<longleftrightarrow>
     tc_Spec c' = tc_Spec c \<and> tc_Meta c' = tc_Meta c \<and>
     st_Upgrade (tc_Status c') = st_Upgrade (tc_Status c) \<and> st_Version (tc_Status c') = st_Version (tc_Status c)"

lemma sameUpgrade_refl [simp]: "sameUpgrade c c"
  by (simp add: sameUpgrade_def)

lemma sameUpgrade_trans: "sameUpgrade a b \<Longrightarrow> sameUpgrade b c \<Longrightarrow> sameUpgrade a c"
  by (simp add: sameUpgrade_def)

lemma sameUpgrade_setters [simp]:
  "sameUpgrade c (setCondition R c t s r m)" "sameUpgrade c (setPersistence c f)"
  "sameUpgrade c (setReachable R c b m)" "sameUpgrade c (setInspecting R c m)"
  "sameUpgrade c (setSchemaReady R c s r m)" "sameUpgrade c (setMTLSReady R c s r m)"
  by (simp_all add: sameUpgrade_def setReachable_def setInspecting_def setSchemaReady_def setMTLSReady_def)

lemma reconcilePersistence_same:
  assumes laws: "meta_laws (rc_MetaApi R)" and run: "run_state (reconcilePersistence R c) w = ((c', r), w')"
  shows "sameUpgrade c c'"
proof -
  have schemas: "sameUpgrade c x" if
    "run_state (reconcileSchemas R (setReachable R c True ''datastore is reachable'') ts) w3 = ((x, r'), w4)" for ts w3 x r' w4
    using reconcileSchemas_keeps [OF laws that] by (simp add: sameUpgrade_def setReachable_def)
  show ?thesis
    using run schemas
    by (auto simp: reconcilePersistence_def reconcileTargets_def split: prod.splits option.splits sum.splits if_splits)
qed

lemma reconcileMTLS_same:
  assumes run: "run_state (reconcileMTLS R c) w = ((c', e), w')"
  shows "sameUpgrade c c'"
  using run
  by (auto simp: reconcileMTLS_def split: prod.splits option.splits sum.splits if_splits)

lemma reconcileMTLS_conditions:
  assumes laws: "meta_laws (rc_MetaApi R)" and run: "run_state (reconcileMTLS R c) w = ((c', e), w')"
    and "t \<noteq> ConditionMTLSReady"
  shows "condTrue R c' t = condTrue R c t"
  using run assms(3)
  by (auto simp: reconcileMTLS_def setMTLSReady_def condTrue_setCondition [OF laws]
      split: prod.splits option.splits sum.splits if_splits)

lemma rollupLoop_same:
  "run_state (rollupLoop R c svcs b) w = ((c', r), w') \<Longrightarrow> sameUpgrade c c'"
proof (induction svcs arbitrary: c b w)
  case (Cons svc svcs)
  then show ?case by (fastforce simp: sameUpgrade_def Let_def split: prod.splits sum.splits)
qed simp

lemma reconcileServices_same:
  assumes run: "run_state (reconcileServices R c vs) w = ((c', e), w')"
  shows "sameUpgrade c c'"
proof -
  have "sameUpgrade c x" if "run_state (rollupServiceStatus R c svcs) w1 = ((x, e'), w2)" for svcs w1 x e' w2
    using that rollupLoop_same [of R c svcs True w1]
    by (fastforce simp: rollupServiceStatus_def intro: sameUpgrade_trans split: prod.splits sum.splits if_splits)
  then show ?thesis
    using run by (auto simp: reconcileServices_def split: prod.splits option.splits sum.splits if_splits)
qed

lemma reconcileObjects_same:
  assumes run: "run_state (reconcileObjects R c vs) w = ((c', e), w')"
  shows "sameUpgrade c c'"
  using run reconcileServices_same
  by (auto simp: reconcileObjects_def split: prod.splits option.splits)

section \<open>A pass as a sequence of steps\<close>

text \<open>The calls made between two worlds all satisfy a predicate.\<close>

definition between :: "(call \<Rightarrow> bool) \<Rightarrow> world \<Rightarrow> world \<Rightarrow> bool" where
  "between C w w' \<longleftrightarrow> (\<exists>cs. w_trace w' = w_trace w @ cs \<and> list_all C cs)"

lemma between_emits: "emits C m \<Longrightarrow> run_state m w = (a, w') \<Longrightarrow> between C w w'"
  using emitsD by (auto simp: between_def)

lemma between_refl [simp]: "between C w w"
  by (simp add: between_def)

lemma between_trans: "between C w w1 \<Longrightarrow> between C w1 w2 \<Longrightarrow> between C w w2"
  by (auto simp: between_def)

lemma between_mem: "between C w w' \<Longrightarrow> w_trace w' = w_trace w @ cs \<Longrightarrow> x \<in> set cs \<Longrightarrow> C x"
  by (auto simp: between_def list_all_iff)

text \<open>How a pass ends: in the persistence step, in the certificates, or after the object steps.\<close>

lemma pass_steps:
  assumes run: "run_state (reconcileCluster R c) w = (out, w')"
  obtains (persistence) c1 e where "run_state (reconcilePersistence R c) w = ((c1, Inl e), w')" "out = (None, Inl e)"
    | (mtls) c1 res w1 c2 e where "run_state (reconcilePersistence R c) w = ((c1, Inr res), w1)"
        "run_state (reconcileMTLS R c1) w1 = ((c2, Some e), w')" "out = (None, Inl e)"
    | (objects) c1 res w1 c2 w2 c3 vs w3 c4 e where "run_state (reconcilePersistence R c) w = ((c1, Inr res), w1)"
        "run_state (reconcileMTLS R c1) w1 = ((c2, None), w2)" "run_state (reconcileUpgrade R c2) w2 = ((c3, vs), w3)"
        "run_state (reconcileObjects R c3 vs) w3 = ((c4, Some e), w')" "out = (None, Inl e)"
    | (finish) c1 res w1 c2 w2 c3 vs w3 c4 w4 where "run_state (reconcilePersistence R c) w = ((c1, Inr res), w1)"
        "run_state (reconcileMTLS R c1) w1 = ((c2, None), w2)" "run_state (reconcileUpgrade R c2) w2 = ((c3, vs), w3)"
        "run_state (reconcileObjects R c3 vs) w3 = ((c4, None), w4)" "run_state (finishPass R c4 res) w4 = (out, w')"
proof -
  obtain c1 r1 w1 where p: "run_state (reconcilePersistence R c) w = ((c1, r1), w1)" by (metis surj_pair)
  show thesis
  proof (cases r1)
    case (Inl e)
    then show thesis using persistence p run by (simp add: reconcileCluster_def)
  next
    case (Inr res)
    obtain c2 me w2 where m: "run_state (reconcileMTLS R c1) w1 = ((c2, me), w2)" by (metis surj_pair)
    show thesis
    proof (cases me)
      case (Some e)
      then show thesis using mtls p m Inr run by (simp add: reconcileCluster_def)
    next
      case None
      obtain c3 vs w3 where u: "run_state (reconcileUpgrade R c2) w2 = ((c3, vs), w3)" by (metis surj_pair)
      obtain c4 oe w4 where ob: "run_state (reconcileObjects R c3 vs) w3 = ((c4, oe), w4)" by (metis surj_pair)
      show thesis
      proof (cases oe)
        case (Some e)
        then show thesis using objects p m u ob Inr None run by (simp add: reconcileCluster_def)
      next
        case None
        then show thesis using finish p m u ob Inr \<open>me = None\<close> run by (simp add: reconcileCluster_def)
      qed
    qed
  qed
qed

lemma objects_spare:
  assumes "keepsIdentity (rc_Client R)" and "\<not> condTrue R c ConditionSchemaReady"
    and "run_state (reconcileObjects R c vs) w = (out, w')"
  shows "between (sparesServices c) w w'"
proof -
  have "emits (sparesServices c) (reconcileObjects R c vs)"
    unfolding reconcileObjects_def reconcileServices_def
    using assms(2) by (auto intro!: emits_rules reconcileUI_emits [OF assms(1)] reconcileMonitoring_emits [OF assms(1)])
  then show ?thesis using assms(3) by (rule between_emits)
qed

lemma sparesServices_cong:
  "tc_Spec c' = tc_Spec c \<Longrightarrow> tc_Meta c' = tc_Meta c \<Longrightarrow> sparesServices c' = sparesServices c"
  by (rule ext) (simp add: sparesServices_def serviceDeployments_cong [of c' c] split: call.splits)

lemma upgrade_conditions: "run_state (reconcileUpgrade R c) w = ((c', vs), w') \<Longrightarrow> condTrue R c' t = condTrue R c t"
  by (simp add: condTrue_def pass_keeps(3))

text \<open>The steps before the objects spare the services, and keep the verdict on the schema.\<close>

lemma before_objects:
  assumes laws: "meta_laws (rc_MetaApi R)" "keepsIdentity (rc_Client R)" "rc_BackendFactory R = None"
    and "run_state (reconcilePersistence R c) w = ((c1, Inr res), w1)"
    and "run_state (reconcileMTLS R c1) w1 = ((c2, None), w2)"
    and "run_state (reconcileUpgrade R c2) w2 = ((c3, vs), w3)"
  shows "between (sparesServices c) w w3 \<and> tc_Spec c3 = tc_Spec c \<and> tc_Meta c3 = tc_Meta c \<and>
    condTrue R c3 ConditionSchemaReady = condTrue R c1 ConditionSchemaReady"
proof -
  have c1: "tc_Spec c1 = tc_Spec c" "tc_Meta c1 = tc_Meta c"
    using reconcilePersistence_same [OF laws(1) assms(4)] by (simp_all add: sameUpgrade_def)
  have c2: "tc_Spec c2 = tc_Spec c1" "tc_Meta c2 = tc_Meta c1"
    using reconcileMTLS_same [OF assms(5)] by (simp_all add: sameUpgrade_def)
  have b1: "between (sparesServices c) w w1"
    by (rule between_emits [OF emits_mono [OF reconcilePersistence_emits [OF laws(3)] sparesServices_no_apply] assms(4)])
  have b2: "between (sparesServices c) w1 w2"
    using between_emits [OF reconcileMTLS_emits [OF laws(2)] assms(5)] sparesServices_cong [OF c1] by simp
  have b3: "between (sparesServices c) w2 w3"
    by (rule between_emits [OF emits_mono [OF reconcileUpgrade_emits sparesServices_no_apply] assms(6)])
  show ?thesis
    using between_trans [OF between_trans [OF b1 b2] b3] c1 c2 pass_keeps [OF assms(6)]
      upgrade_conditions [OF assms(6), of ConditionSchemaReady]
      reconcileMTLS_conditions [OF laws(1) assms(5), of ConditionSchemaReady]
    by simp
qed

section \<open>Properties\<close>

text \<open>
  C5: services are touched only on a verified schema.  In a whole reconcile pass, the Deployment of a
  Temporal service is applied only when the persistence step of that pass ended without an error and
  left \<open>SchemaReady\<close> true.  The API machinery is assumed to keep the kind and name of an object whose
  controller reference it sets, and conditions to be stored by type.
\<close>

theorem services_wait_for_schema:
  assumes laws: "meta_laws (rc_MetaApi R)" "keepsIdentity (rc_Client R)" "rc_BackendFactory R = None"
    and run: "run_state (reconcileCluster R c) w = (out, w')" "w_trace w' = w_trace w @ cs"
    and app: "CApply ob \<in> set cs" "obj_key ob \<in> serviceDeployments c"
  shows "\<exists>c1 res w1. run_state (reconcilePersistence R c) w = ((c1, Inr res), w1) \<and> condTrue R c1 ConditionSchemaReady"
proof (rule ccontr)
  assume neg: "\<not> ?thesis"
  have pers: "between (sparesServices c) w w1" if "run_state (reconcilePersistence R c) w = (x, w1)" for x w1
    using between_emits [OF emits_mono [OF reconcilePersistence_emits [OF laws(3)] sparesServices_no_apply] that] .
  have "between (sparesServices c) w w'"
    using run(1)
  proof (cases rule: pass_steps)
    case (persistence c1 e)
    then show ?thesis by (intro pers)
  next
    case (mtls c1 res w1 c2 e)
    have "sparesServices c1 = sparesServices c"
      using reconcilePersistence_same [OF laws(1) mtls(1)] by (simp add: sameUpgrade_def sparesServices_cong [of c1 c])
    then have "between (sparesServices c) w1 w'"
      using between_emits [OF reconcileMTLS_emits [OF laws(2)] mtls(2)] by simp
    then show ?thesis by (rule between_trans [OF pers [OF mtls(1)]])
  next
    case (objects c1 res w1 c2 w2 c3 vs w3 c4 e)
    note before = before_objects [OF laws objects(1-3)]
    have "\<not> condTrue R c3 ConditionSchemaReady" using neg objects(1) before by blast
    then have "between (sparesServices c) w3 w'"
      using objects_spare [OF laws(2) _ objects(4)] before sparesServices_cong [of c3 c] by simp
    then show ?thesis by (rule between_trans [OF conjunct1 [OF before]])
  next
    case (finish c1 res w1 c2 w2 c3 vs w3 c4 w4)
    note before = before_objects [OF laws finish(1-3)]
    have "\<not> condTrue R c3 ConditionSchemaReady" using neg finish(1) before by blast
    then have "between (sparesServices c) w3 w4"
      using objects_spare [OF laws(2) _ finish(4)] before sparesServices_cong [of c3 c] by simp
    then have "between (sparesServices c) w w4" by (rule between_trans [OF conjunct1 [OF before]])
    then show ?thesis by (rule between_trans) (rule between_emits [OF finishPass_emits finish(5)])
  qed
  from between_mem [OF this run(2) app(1)] show False using app(2) by simp
qed

section \<open>The status of a cluster\<close>

text \<open>
  The life of a cluster object: it starts without an upgrade, its spec and metadata are edited at
  will, and passes write its status.  A pass that fails writes nothing.
\<close>

inductive clusterRun :: "TemporalClusterReconciler \<Rightarrow> TemporalCluster \<Rightarrow> bool" for R where
  create: "st_Upgrade (tc_Status c) = None \<Longrightarrow> clusterRun R c"
| edit: "clusterRun R c \<Longrightarrow> tc_Status c' = tc_Status c \<Longrightarrow> clusterRun R c'"
| pass: "clusterRun R c \<Longrightarrow> run_state (reconcileCluster R c) w = ((Some c', r), w') \<Longrightarrow> clusterRun R c'"

definition upgradeInv :: "TemporalClusterStatus \<Rightarrow> bool" where
  "upgradeInv s \<longleftrightarrow>
     (\<forall>u. st_Upgrade s = Some u \<longrightarrow>
        us_FromVersion u = st_Version s \<and> st_Version s \<noteq> [] \<and> us_ToVersion u \<noteq> us_FromVersion u \<and>
        us_Phase u \<in> set upgradePhases \<and> (us_Rollbackable u \<longleftrightarrow> phaseRank (us_Phase u) < 2))"

lemma working_upgradeInv:
  assumes "upgradeInv (tc_Status c)" and "upgradeNeeded c" and "workingUpgrade c up"
  shows "us_FromVersion up = st_Version (tc_Status c) \<and> us_ToVersion up \<noteq> us_FromVersion up \<and>
    us_Phase up \<in> set upgradePhases \<and> (us_Rollbackable up \<longleftrightarrow> phaseRank (us_Phase up) < 2)"
proof (cases "st_Upgrade (tc_Status c) = Some up")
  case True
  then show ?thesis using assms(1) by (auto simp: upgradeInv_def)
next
  case False
  then have "initialUpgrade c up"
    using assms(3) by (auto simp: workingUpgrade_def split: option.splits if_splits)
  then show ?thesis using assms(2) by (auto simp: initialUpgrade_def upgradeNeeded_def upgradePhases_def)
qed

lemma move_rollbackable:
  assumes "upgradeMove R c up w u" and "us_Phase up \<in> set upgradePhases"
    and "us_Rollbackable up \<longleftrightarrow> phaseRank (us_Phase up) < 2"
  shows "us_Rollbackable u \<longleftrightarrow> phaseRank (us_Phase u) < 2"
proof -
  have rank2: "p \<in> set upgradePhases \<Longrightarrow> phaseRank p = 2 \<longleftrightarrow> p = upgradeSchemaMigrating" for p
  proof -
    have "\<forall>p \<in> set upgradePhases. phaseRank p = 2 \<longleftrightarrow> p = upgradeSchemaMigrating" by (simp add: upgradePhases_def)
    then show "p \<in> set upgradePhases \<Longrightarrow> ?thesis" by blast
  qed
  consider "us_Phase u = us_Phase up"
    | "phase_step (internalFrontendEnabled (tc_Spec c)) (condTrue R c ConditionPersistenceReachable)
        (condTrue R c ConditionSchemaReady) (observedRolledOut R c (us_ToVersion up) (w_trace w))
        (us_Phase up) (us_Phase u)"
    using assms(1) by (auto simp: upgradeMove_def)
  then show ?thesis
  proof cases
    case 1
    then show ?thesis using assms rank2 [OF assms(2)] by (auto simp: upgradeMove_def)
  next
    case 2
    have r: "us_Rollbackable u = (us_Rollbackable up \<and> us_Phase u \<noteq> upgradeSchemaMigrating \<and> us_Phase up \<noteq> upgradeSchemaMigrating)"
      using assms(1) by (simp add: upgradeMove_def)
    from 2 show ?thesis unfolding r assms(3) by (cases rule: phase_step.cases) simp_all
  qed
qed

lemma upgrade_upgradeInv:
  assumes inv: "upgradeInv (tc_Status c)" and run: "run_state (reconcileUpgrade R c) w = ((c', vs), w')"
  shows "upgradeInv (tc_Status c')"
proof (cases "upgradeNeeded c")
  case False
  then have "st_Upgrade (tc_Status c') = None" using run reconcileUpgrade_idle [OF False, of R w] by auto
  then show ?thesis by (simp add: upgradeInv_def)
next
  case True
  then show ?thesis using run
  proof (cases rule: pass_result)
    case 1
    then show ?thesis by (simp add: upgradeInv_def)
  next
    case (2 up w1 cs u)
    note up = working_upgradeInv [OF inv True 2(1)]
    then have up': "us_FromVersion up = st_Version (tc_Status c)" "us_ToVersion up \<noteq> st_Version (tc_Status c)"
      "us_Phase up \<in> set upgradePhases" "us_Rollbackable up \<longleftrightarrow> phaseRank (us_Phase up) < 2"
      by auto
    have "us_Phase u \<in> set upgradePhases"
      using 2(6) up by (auto simp: upgradeMove_def dest: phase_step_rank)
    then show ?thesis
      using True up' 2(6) move_rollbackable [OF 2(6)] by (simp add: 2(5) upgradeInv_def upgradeNeeded_def upgradeMove_def)
  qed
qed

lemma computeReady_effect:
  assumes "run_state (computeReadyAndPhase R c) w = (c', w')"
  shows "tc_Spec c' = tc_Spec c \<and> tc_Meta c' = tc_Meta c \<and> st_Upgrade (tc_Status c') = st_Upgrade (tc_Status c) \<and>
    st_Phase (tc_Status c') = phaseOf R c \<and>
    st_Version (tc_Status c') =
      (if condTrue R c ConditionPersistenceReachable \<and> condTrue R c ConditionSchemaReady \<and>
          condTrue R c ConditionAvailable \<and> mtlsReadyOrOff R c \<and> \<not> upgradeInProgress c
       then spec_Version (tc_Spec c) else st_Version (tc_Status c))"
  using assms
  by (auto simp: computeReadyAndPhase_def Let_def setPhase_def setVersion_def setCondition_def split: prod.splits if_splits)

lemma finish_upgradeInv:
  assumes inv: "upgradeInv (tc_Status c)" and run: "run_state (finishPass R c res) w = ((Some c', r), w')"
  shows "upgradeInv (tc_Status c')"
proof -
  obtain x w1 where x: "run_state (computeReadyAndPhase R c) w = (x, w1)" by fastforce
  then have "c' = observeGeneration x"
    using run by (auto simp: finishPass_def Let_def split: prod.splits option.splits if_splits)
  then show ?thesis
    using inv computeReady_effect [OF x]
    by (auto simp: upgradeInv_def observeGeneration_def upgradeInProgress_def split: if_splits)
qed

lemma sameUpgrade_inv: "sameUpgrade c c' \<Longrightarrow> upgradeInv (tc_Status c') = upgradeInv (tc_Status c)"
  by (simp add: sameUpgrade_def upgradeInv_def)

text \<open>
  C6: the recorded upgrade is always coherent.  However specs are edited and passes interleave, every
  status the controller writes satisfies: an upgrade that is recorded starts from the running version,
  which is not empty, goes to a different one, is in one of the phases, and is marked as rollbackable
  exactly before the schema migration phase.
\<close>

theorem recorded_upgrade_coherent:
  assumes "clusterRun R c" and "meta_laws (rc_MetaApi R)"
  shows "upgradeInv (tc_Status c)"
  using assms(1)
proof (induction rule: clusterRun.induct)
  case (create c)
  then show ?case by (simp add: upgradeInv_def)
next
  case (edit c c')
  then show ?case by simp
next
  case (pass c w c' r w')
  from pass.hyps(2) show ?case
  proof (cases rule: pass_steps)
    case (finish c1 res w1 c2 w2 c3 vs w3 c4 w4)
    have "upgradeInv (tc_Status c2)"
      using pass.IH sameUpgrade_inv [OF reconcilePersistence_same [OF assms(2) finish(1)]]
        sameUpgrade_inv [OF reconcileMTLS_same [OF finish(2)]] by simp
    then have "upgradeInv (tc_Status c3)" by (rule upgrade_upgradeInv [OF _ finish(3)])
    then have "upgradeInv (tc_Status c4)" using sameUpgrade_inv [OF reconcileObjects_same [OF finish(4)]] by simp
    then show ?thesis using finish(5) by (rule finish_upgradeInv)
  qed simp_all
qed

end
