(* ===== verification/Rollout.thy ===== *)
theory Rollout
  imports Cluster_Runs
begin

text \<open>
  The Deployments the operator applies against the test its upgrade waits for, and the status that a
  pass writes.  The overrides of a cluster may replace what the test looks at; the theorems say when
  the wait can end and when it cannot.
\<close>

section \<open>The built Deployment\<close>

lemma find_mountToken:
  "findFirst (\<lambda>c. ct_Name c = n) (mountToken main cs) =
     map_option (\<lambda>c. if n = main \<and> \<not> list_ex (\<lambda>m. vm_Name m = AzureTokenVolumeName) (ct_VolumeMounts c)
       then c \<lparr>ct_VolumeMounts := ct_VolumeMounts c @ [mkMount AzureTokenVolumeName AzureTokenMountPath False]\<rparr>
       else c) (findFirst (\<lambda>c. ct_Name c = n) cs)"
  by (induction cs) (auto simp: option.map_ident)

lemma find_ensureNamed:
  "findFirst (\<lambda>c. ct_Name c = n) cs = Some x \<Longrightarrow> findFirst (\<lambda>c. ct_Name c = n) (ensureNamedContainer cs y) = Some x"
  by (simp add: ensureNamedContainer_def find_append)

lemma azure_image:
  assumes "findFirst (\<lambda>c. ct_Name c = n) (pod_Containers (pt_Spec t)) = Some x"
  shows "\<exists>y. findFirst (\<lambda>c. ct_Name c = n)
      (pod_Containers (pt_Spec (ApplyAzureServerWorkloadIdentity t cluster a main))) = Some y \<and> ct_Image y = ct_Image x"
  using assms
  by (simp add: ApplyAzureServerWorkloadIdentity_def applyAzureTokenBase_def ensureAzureTokenMount_def
      ensureAzureTokenVolume_def Let_def find_ensureNamed find_mountToken)

lemma azure_label: "k \<noteq> AzureWILabel \<Longrightarrow> pt_Labels (ApplyAzureServerWorkloadIdentity t cluster a main) k = pt_Labels t k"
  by (simp add: ApplyAzureServerWorkloadIdentity_def applyAzureTokenBase_def Let_def)

lemma LabelVersion_not_selector: "SelectorLabels cluster n LabelVersion = None"
  by (simp add: SelectorLabels_def)

text \<open>A Deployment whose status has caught up with its spec: the controller saw it and all replicas run.\<close>

definition caughtUp :: "Deployment \<Rightarrow> bool" where
  "caughtUp d \<longleftrightarrow>
     om_Generation (dep_Meta d) = dep_ObservedGeneration d \<and>
     dep_UpdatedReplicas d = derefOr 1 (dep_Replicas d) \<and> dep_ReadyReplicas d = derefOr 1 (dep_Replicas d)"

text \<open>The template of the Deployment as it is applied, with the Azure wiring.\<close>

definition wiredTemplate :: "TemporalCluster \<Rightarrow> PodTemplateSpec \<Rightarrow> PodTemplateSpec" where
  "wiredTemplate cluster t =
     (case pers_AzureWorkloadIdentity (spec_Persistence (tc_Spec cluster)) of
        None \<Rightarrow> t | Some a \<Rightarrow> ApplyAzureServerWorkloadIdentity t cluster a ServerContainerName)"

lemma wireAzure_template:
  assumes "wireAzure cluster p = ODeployment d'" and "plo_Object p = ODeployment d"
  shows "dep_Template d' = wiredTemplate cluster (dep_Template d)"
  using assms by (auto simp: wireAzure_def wiredTemplate_def split: option.splits)

lemma wired_label: "pt_Labels (wiredTemplate cluster t) LabelVersion = pt_Labels t LabelVersion"
  by (simp add: wiredTemplate_def azure_label AzureWILabel_def split: option.split)

lemma wired_image:
  assumes "findFirst (\<lambda>c. ct_Name c = ServerContainerName) (pod_Containers (pt_Spec t)) = Some x"
  shows "\<exists>y. findFirst (\<lambda>c. ct_Name c = ServerContainerName) (pod_Containers (pt_Spec (wiredTemplate cluster t))) = Some y \<and>
    ct_Image y = ct_Image x"
  using assms azure_image by (simp add: wiredTemplate_def split: option.split)

lemma built_template:
  assumes "BuildDeployment smp cluster svc ch dh v mtls = Inr d" and "labelsShared cluster svc"
  shows "dep_Template d = basePodTemplate cluster svc ch dh v mtls"
  using assms by (auto simp: BuildDeployment_def labelsShared_def applyPodTemplate_def newDeployment_def Let_def)

lemma base_label: "v \<noteq> [] \<Longrightarrow> pt_Labels (basePodTemplate cluster svc ch dh v mtls) LabelVersion = Some v"
  by (simp add: basePodTemplate_def podLabelsOf_def Let_def)

lemma base_image:
  "\<exists>x. findFirst (\<lambda>c. ct_Name c = ServerContainerName)
      (pod_Containers (pt_Spec (basePodTemplate cluster svc ch dh v mtls))) = Some x \<and>
    ct_Image x = clusterServerImage cluster v"
  by (simp add: basePodTemplate_def serverContainer_def Let_def)

text \<open>
  C14: the Deployment that the operator applies for a service at a version is the one its upgrade
  waits for.  Without pod template overrides, and with or without the Azure wiring, a Deployment that
  runs the applied template and whose status has caught up passes the rollout test for that version
  and for no other.
\<close>

theorem applied_deployment_rolls_out:
  assumes built: "BuildDeployment smp cluster svc ch dh v mtls = Inr d" "labelsShared cluster svc" "v \<noteq> []"
    and live: "dep_Template live = wiredTemplate cluster (dep_Template d)" "caughtUp live"
  shows "rolledOutAt cluster v' live \<longleftrightarrow> v' = v"
proof -
  have label: "pt_Labels (dep_Template live) LabelVersion = Some v"
    by (simp add: live(1) wired_label built_template [OF built(1,2)] base_label [OF built(3)])
  obtain x where x: "findFirst (\<lambda>c. ct_Name c = ServerContainerName) (pod_Containers (pt_Spec (dep_Template d))) = Some x"
      "ct_Image x = clusterServerImage cluster v"
    using base_image built_template [OF built(1,2)] by metis
  from wired_image [OF x(1), of cluster] obtain y where
    "findFirst (\<lambda>c. ct_Name c = ServerContainerName) (pod_Containers (pt_Spec (dep_Template live))) = Some y"
    "ct_Image y = clusterServerImage cluster v"
    using live(1) x(2) by auto
  then show ?thesis
    using label live(2) by (auto simp: rolledOutAt_def deploymentRunsImage_def caughtUp_def Let_def)
qed


section \<open>The written status\<close>

lemma condTrue_observe [simp]: "condTrue R (observeGeneration c) t = condTrue R c t"
  by (simp add: condTrue_def observeGeneration_def)

lemma computeReady_conditions:
  assumes "meta_laws (rc_MetaApi R)" and "run_state (computeReadyAndPhase R c) w = (c', w')"
  shows "condTrue R c' t =
    (if t = ConditionReady
     then condTrue R c ConditionPersistenceReachable \<and> condTrue R c ConditionSchemaReady \<and>
          condTrue R c ConditionAvailable \<and> mtlsReadyOrOff R c
     else condTrue R c t)"
proof -
  have [simp]: "condTrue R (setPhase a p) u = condTrue R a u" "condTrue R (setVersion a p) u = condTrue R a u" for a p u
    by (simp_all add: condTrue_def setPhase_def setVersion_def)
  show ?thesis
    using assms(2)
    by (auto simp: computeReadyAndPhase_def Let_def condTrue_setCondition [OF assms(1)] split: prod.splits if_splits)
qed

text \<open>The object that a pass writes comes from its last step.\<close>

lemma written_by_finish:
  assumes laws: "meta_laws (rc_MetaApi R)"
    and run: "run_state (reconcileCluster R c) w = ((Some c', r), w')"
  obtains c4 x w4 w5 where "tc_Meta c4 = tc_Meta c" "run_state (computeReadyAndPhase R c4) w4 = (x, w5)"
    "c' = observeGeneration x"
proof -
  obtain c1 res w1 c2 w2 c3 vs w3 c4 w4 where
    p: "run_state (reconcilePersistence R c) w = ((c1, Inr res), w1)"
      "run_state (reconcileMTLS R c1) w1 = ((c2, None), w2)" "run_state (reconcileUpgrade R c2) w2 = ((c3, vs), w3)"
      "run_state (reconcileObjects R c3 vs) w3 = ((c4, None), w4)" "run_state (finishPass R c4 res) w4 = ((Some c', r), w')"
    using run by (cases rule: pass_steps) simp_all
  obtain x w5 where x: "run_state (computeReadyAndPhase R c4) w4 = (x, w5)" by fastforce
  then have "c' = observeGeneration x"
    using p(5) by (auto simp: finishPass_def Let_def split: prod.splits option.splits if_splits)
  moreover have "tc_Meta c4 = tc_Meta c"
    using reconcilePersistence_same [OF laws p(1)] reconcileMTLS_same [OF p(2)] pass_keeps [OF p(3)]
      reconcileObjects_same [OF p(4)] by (simp add: sameUpgrade_def)
  ultimately show thesis using that x by blast
qed

text \<open>
  C7: what a pass writes is consistent.  In the status that a pass writes, \<open>Ready\<close> is true exactly when
  the datastores are reachable, the schema is ready, the services are available and mTLS, where it is
  on, is ready; the phase follows from the same conditions, except that it does not look at mTLS;
  a ready cluster that is not being upgraded records the version of its spec; and the observed
  generation is the one that was read.
\<close>

theorem written_status_consistent:
  assumes laws: "meta_laws (rc_MetaApi R)"
    and run: "run_state (reconcileCluster R c) w = ((Some c', r), w')"
  shows "(condTrue R c' ConditionReady \<longleftrightarrow>
        condTrue R c' ConditionPersistenceReachable \<and> condTrue R c' ConditionSchemaReady \<and>
        condTrue R c' ConditionAvailable \<and> mtlsReadyOrOff R c') \<and>
      st_Phase (tc_Status c') = phaseOf R c' \<and>
      (condTrue R c' ConditionReady \<and> \<not> upgradeInProgress c' \<longrightarrow>
        st_Version (tc_Status c') = spec_Version (tc_Spec c')) \<and>
      st_ObservedGeneration (tc_Status c') = om_Generation (tc_Meta c)"
proof -
  obtain c4 x w4 w5 where meta: "tc_Meta c4 = tc_Meta c" and x: "run_state (computeReadyAndPhase R c4) w4 = (x, w5)"
    and c': "c' = observeGeneration x"
    using written_by_finish [OF laws run] .
  have conds: "condTrue R c' t = condTrue R c4 t" if "t \<noteq> ConditionReady" for t
    using computeReady_conditions [OF laws x] that by (simp add: c')
  have same: "tc_Spec c' = tc_Spec c4" "tc_Meta c' = tc_Meta c4" "st_Upgrade (tc_Status c') = st_Upgrade (tc_Status c4)"
    "st_Phase (tc_Status c') = phaseOf R c4"
    using computeReady_effect [OF x] by (simp_all add: c' observeGeneration_def)
  have mtls: "mtlsReadyOrOff R c' = mtlsReadyOrOff R c4"
    by (simp add: mtlsReadyOrOff_def mTLSEnabled_def MTLSEnabled_def same conds)
  have up: "upgradeInProgress c' = upgradeInProgress c4" by (simp add: upgradeInProgress_def same)
  have ready: "condTrue R c' ConditionReady \<longleftrightarrow>
      condTrue R c4 ConditionPersistenceReachable \<and> condTrue R c4 ConditionSchemaReady \<and>
      condTrue R c4 ConditionAvailable \<and> mtlsReadyOrOff R c4"
    using computeReady_conditions [OF laws x, of ConditionReady] by (simp add: c')
  have "st_Version (tc_Status c') = spec_Version (tc_Spec c')" if "condTrue R c' ConditionReady" "\<not> upgradeInProgress c'"
    using that computeReady_effect [OF x] ready up by (simp add: c' observeGeneration_def)
  moreover have "st_ObservedGeneration (tc_Status c') = om_Generation (tc_Meta c)"
    using same(2) meta by (simp add: c' observeGeneration_def)
  ultimately show ?thesis
    using ready by (simp add: same(4) phaseOf_def conds mtls up)
qed

end
