(* ===== verification/Sample_Builders.thy ===== *)
theory Sample_Builders
  imports Rollout
begin

text \<open>
  The builders on concrete input: the objects of the sample cluster, a schema Job under a password
  command, a dynamic configuration with two keys, and a pass-through authorization block.
\<close>

section \<open>Deployments\<close>

definition sampleFrontend :: ServiceInfo where
  "sampleFrontend = mkInfo ServiceFrontend None True"

definition sampleHistory :: ServiceInfo where
  "sampleHistory = mkInfo ServiceHistory None False"

text \<open>The frontend with an override that relabels its pods.\<close>

definition relabelling :: PodTemplateOverride where
  "relabelling = \<lparr>pto_Labels = [LabelVersion \<mapsto> ''pinned''], pto_Annotations = Map.empty, pto_Spec = None\<rparr>"

definition relabelledFrontend :: ServiceInfo where
  "relabelledFrontend = mkInfo ServiceFrontend
     (Some \<lparr>ss_Replicas = None, ss_Resources = [], ss_PodTemplate = Some relabelling, ss_Service = None,
            ss_NodeSelector = Map.empty, ss_Tolerations = [], ss_Affinity = None, ss_TopologySpreadConstraints = []\<rparr>) True"

lemma sample_shared: "sharedOverride sampleCluster = None"
  by (simp add: sharedOverride_def sampleCluster_def sampleSpec_def sampleServices_def)

lemma sample_built:
  "\<exists>d. BuildDeployment smp sampleCluster sampleFrontend ch dh v m = Inr d"
  "\<exists>d. BuildDeployment smp sampleCluster relabelledFrontend ch dh v m = Inr d"
  "labelsShared sampleCluster sampleFrontend"
  by (simp_all add: BuildDeployment_def sample_shared applyPodTemplate_def ownOverride_def sampleFrontend_def mkInfo_def
      relabelledFrontend_def relabelling_def labelsShared_def Let_def)


theorem applied_deployment_rolls_out_witness:
  "\<exists>live. rolledOutAt sampleCluster ''1.32.1'' live \<and> \<not> rolledOutAt sampleCluster ''1.31.1'' live"
proof -
  obtain d where d: "BuildDeployment (pl_smp sampleLibs) sampleCluster sampleFrontend [] [] ''1.32.1'' None = Inr d"
    using sample_built(1) by blast
  let ?live = "d \<lparr>dep_Template := wiredTemplate sampleCluster (dep_Template d),
    dep_ObservedGeneration := om_Generation (dep_Meta d),
    dep_UpdatedReplicas := derefOr 1 (dep_Replicas d), dep_ReadyReplicas := derefOr 1 (dep_Replicas d)\<rparr>"
  have "rolledOutAt sampleCluster v ?live \<longleftrightarrow> v = ''1.32.1''" for v
    by (rule applied_deployment_rolls_out [OF d sample_built(3)]) (simp_all add: caughtUp_def)
  then have "rolledOutAt sampleCluster ''1.32.1'' ?live" "\<not> rolledOutAt sampleCluster ''1.31.1'' ?live" by simp_all
  then show ?thesis by blast
qed


section \<open>Schema Jobs and the plan\<close>

definition sampleJobParams :: SchemaJobParams where
  "sampleJobParams =
     \<lparr>sjp_Cluster = sampleCluster, sjp_SQLSpec = Some sampleSQL, sjp_CassandraSpec = None, sjp_Store = StoreDefault,
      sjp_Action = ActionSetup, sjp_SchemaVersionDir = [], sjp_PasswordCommand = ''cat /run/pw'', sjp_PodTemplate = None\<rparr>"

lemma sample_tool_args: "\<exists>args. schemaToolArgs sampleJobParams = Inr args \<and> args \<noteq> []"
  by (simp add: schemaToolArgs_def sqlToolArgs_def isCassandra_def sampleJobParams_def Let_def)


lemma sample_schema_job: "\<exists>j. planSchemaJob sampleLibs sampleCluster name sampleStore = Inr j"
  by (simp add: planSchemaJob_def BuildSchemaJob_def schemaContainerExec_def schemaToolArgs_def sqlToolArgs_def
      passwordEnv_def isCassandra_def applyPodTemplate_def bindR_def Let_def sampleStore_def sampleSQL_def
      sampleCluster_def sampleSpec_def samplePersistence_def)

text \<open>The sample cluster with Elasticsearch for visibility.\<close>

definition sampleElastic :: ElasticsearchDatastoreSpec where
  "sampleElastic = \<lparr>es_URL = ''http://es:9200'', es_Version = ''v8'', es_Username = [], es_PasswordSecretRef = None,
     es_Indices = [], es_TLS = None\<rparr>"

definition elasticCluster :: TemporalCluster where
  "elasticCluster = sampleCluster \<lparr>tc_Spec := sampleSpec \<lparr>spec_Persistence := samplePersistence
     \<lparr>pers_VisibilityStore := sampleStore \<lparr>ds_SQL := None, ds_Elasticsearch := Some sampleElastic\<rparr>\<rparr>\<rparr>\<rparr>"

theorem elasticsearch_preview_panics_witness:
  "PlanSchemaJobs sampleLibs elasticCluster = Inl (Panic ''nil SQLSpec'')"
proof -
  have "\<exists>j. planSchemaJob sampleLibs elasticCluster StoreDefault (pers_DefaultStore (spec_Persistence (tc_Spec elasticCluster))) = Inr j"
    by (simp add: planSchemaJob_def BuildSchemaJob_def schemaContainerExec_def schemaToolArgs_def sqlToolArgs_def
        passwordEnv_def isCassandra_def applyPodTemplate_def bindR_def Let_def sampleStore_def sampleSQL_def
        elasticCluster_def sampleCluster_def sampleSpec_def samplePersistence_def)
  then obtain j where "planSchemaJob sampleLibs elasticCluster StoreDefault
      (pers_DefaultStore (spec_Persistence (tc_Spec elasticCluster))) = Inr j" ..
  from elasticsearch_preview_panics [OF _ _ this] show ?thesis
    by (simp add: elasticCluster_def samplePersistence_def sampleStore_def)
qed

lemma planServiceList_ok:
  "\<forall>svc \<in> set ss. \<exists>ps. planService L c inp svc = Inr ps \<Longrightarrow> \<exists>ps. planServiceList L c inp ss = Inr ps"
  by (induction ss) (force simp: bindR_def)+

lemma sample_plan:
  assumes "tc_Spec c = sampleSpec"
  shows "\<exists>ps. PlanServices sampleLibs c inp = Inr ps"
proof -
  have "\<exists>ps. planService sampleLibs c inp svc = Inr ps" if "ownOverride svc = None" for svc
    using that assms
    by (simp add: planService_def bindR_def BuildDeployment_def applyPodTemplate_def sharedOverride_def Let_def
        sampleSpec_def sampleServices_def)
  moreover have "\<forall>svc \<in> set (EnabledServices c). ownOverride svc = None"
    using assms by (simp add: EnabledServices_def mkInfo_def ownOverride_def sampleSpec_def sampleServices_def Let_def)
  ultimately obtain ps where "planServiceList sampleLibs c inp (EnabledServices c) = Inr ps"
    using planServiceList_ok by blast
  then show ?thesis by (simp add: PlanServices_def bindR_def)
qed

lemma sample_preview: "\<exists>ps. PlanFromSpec sampleLibs sampleCluster = Inr ps"
proof -
  have spec: "tc_Spec sampleCluster = sampleSpec" "spec_Persistence sampleSpec = samplePersistence"
    "spec_DynamicConfig sampleSpec = None" "spec_UI sampleSpec = None"
    "pers_DefaultStore samplePersistence = sampleStore" "pers_VisibilityStore samplePersistence = sampleStore"
    by (simp_all add: sampleCluster_def sampleSpec_def samplePersistence_def)
  have off: "\<not> MTLSEnabled sampleCluster" by (simp add: MTLSEnabled_def spec sampleSpec_def)
  have cfg: "\<exists>s. RenderClusterConfig (pl_render sampleLibs) (pl_yamlAny sampleLibs) sampleCluster opts = Inr s" for opts
    by (simp add: RenderClusterConfig_def BuildConfigData_def bindR_def Let_def buildDatastore_def buildAuth_def sample_defs)
  obtain jobs where jobs: "PlanSchemaJobs sampleLibs sampleCluster = Inr jobs"
    using sample_schema_job [of StoreDefault] sample_schema_job [of StoreVisibility]
    by (auto simp: PlanSchemaJobs_def spec Let_def bindR_def)
  have svcs: "PlanServices sampleLibs sampleCluster inp = Inl e \<Longrightarrow> False" for inp e
    using sample_plan [OF spec(1), of inp] by auto
  show ?thesis
    using cfg [of "emptyOptions \<lparr>bo_PublicClientHostPort := frontendHostPort sampleCluster\<rparr>"]
    by (auto simp: PlanFromSpec_def RenderDynamicConfig_def spec jobs PlanMTLS_def off PlanUI_def Let_def bindR_def
        split: sum.splits dest: svcs)
qed

theorem PlanFromSpec_distinct_witness:
  "\<exists>ps. PlanFromSpec sampleLibs sampleCluster = Inr ps \<and> distinct (keysOf ps)"
proof -
  obtain ps where ps: "PlanFromSpec sampleLibs sampleCluster = Inr ps" using sample_preview by blast
  from PlanFromSpec_distinct [OF ps] ps show ?thesis by blast
qed

section \<open>Configuration\<close>

definition sampleValue :: "string \<Rightarrow> DynamicConfigValue list" where
  "sampleValue v = [\<lparr>dcv_Value = v, dcv_Constraints = None\<rparr>]"

definition sampleDynamic :: DynamicConfigSpec where
  "sampleDynamic = \<lparr>dc_Values = [(''limit.maxIDLength'', sampleValue ''255''), (''history.rps'', sampleValue ''100'')]\<rparr>"

definition sampleDynamicSwapped :: DynamicConfigSpec where
  "sampleDynamicSwapped = \<lparr>dc_Values = [(''history.rps'', sampleValue ''100''), (''limit.maxIDLength'', sampleValue ''255'')]\<rparr>"

theorem dynamic_config_deterministic_witness:
  "RenderDynamicConfig (pl_marshal sampleLibs) (pl_json sampleLibs) (Some sampleDynamic) ''1.32.1'' =
   RenderDynamicConfig (pl_marshal sampleLibs) (pl_json sampleLibs) (Some sampleDynamicSwapped) ''1.32.1''"
  by (rule dynamic_config_deterministic)
    (simp_all add: sampleDynamic_def sampleDynamicSwapped_def add_mset_commute)

theorem dynamic_config_contents_witness:
  "\<exists>doc. pl_marshal sampleLibs doc = Inr ''dynamic'' \<and> map fst doc = [''history.rps'', ''limit.maxIDLength'']"
proof -
  have sorted: "sort [''limit.maxIDLength'', ''history.rps''] = [''history.rps'', ''limit.maxIDLength'']" by code_simp
  have "RenderDynamicConfig (pl_marshal sampleLibs) (pl_json sampleLibs) (Some sampleDynamic) ''1.32.1'' = (Inr ''dynamic'', [])"
    unfolding sampleDynamic_def sampleLibs_def sampleValue_def by code_simp
  from dynamic_config_contents [OF this] show ?thesis
    using sample_lookup sorted by (auto simp: sampleDynamic_def)
qed

definition sampleAuthorization :: AuthorizationSpec where
  "sampleAuthorization =
     \<lparr>auth_Authorizer = Some ''default'', auth_ClaimMapper = ''default'', auth_PermissionsClaimName = [],
      auth_JWTKeyProvider = None, auth_Entra = None, auth_Config = Some ''authorizer: custom''\<rparr>"

definition authCluster :: TemporalCluster where
  "authCluster = sampleCluster \<lparr>tc_Spec := sampleSpec \<lparr>spec_Authorization := Some sampleAuthorization\<rparr>\<rparr>"

definition sampleYaml :: yaml_any where
  "sampleYaml = (\<lambda>_. Inr [''authorizer'' \<mapsto> ''custom''])"

theorem auth_keys_not_duplicated_witness:
  "\<exists>cfg. buildAuth sampleYaml authCluster = Inr (Some cfg) \<and> \<not> ac_EmitAuthorizer cfg"
proof -
  obtain cfg where cfg: "buildAuth sampleYaml authCluster = Inr (Some cfg)"
    "ac_ExtraConfig cfg = Some [''authorizer'' \<mapsto> ''custom'']"
    by (simp add: buildAuth_def buildAuthKeySourceURIs_def applyAuthConfigPassthrough_def Let_def authCluster_def
        sampleAuthorization_def sampleYaml_def)
  from auth_keys_not_duplicated [OF cfg] cfg(1) show ?thesis by simp
qed

end
