(* ===== verification/Sample_Runs.thy ===== *)
theory Sample_Runs
  imports Sample_Builders
begin

text \<open>
  A whole reconcile pass over the sample cluster: its persistence step verifies the schema, its
  objects are applied, and its status is written.  The general theorems about passes apply to it.
\<close>

section \<open>The steps of the pass\<close>

lemma sample_laws:
  "meta_laws (rc_MetaApi sampleReconciler)" "rc_BackendFactory sampleReconciler = None" "keepsIdentity (rc_Client sampleReconciler)"
  by (simp_all add: sampleReconciler_def sampleMeta_laws keepsIdentity_def sampleKube_def)

lemma sample_applyAll:
  "run_state (applyAll sampleReconciler c obs) w = (None, w \<lparr>w_trace := w_trace w @ map CApply obs\<rparr>)"
  by (induction obs arbitrary: w)
    (simp_all add: applyOwned_def serverSideApply_def applyObj_def perform_def sampleReconciler_def sampleKube_def)

lemma sample_rollup:
  "\<exists>c' w' cs. run_state (rollupLoop sampleReconciler c svcs b) w = ((c', Inr b), w') \<and> w_trace w' = w_trace w @ cs"
proof (induction svcs arbitrary: c w)
  case (Cons s svcs)
  let ?n = "DeploymentName (tc_Name c) (si_Name s)"
  have d: "dep_ReadyReplicas (sampleDeployment v ns n) = 1" for v ns n by (simp add: sampleDeployment_def)
  have g: "run_state (getDeployment (rc_Client sampleReconciler) ns n) w =
      (Inr (sampleDeployment ''1.32.1'' ns n), w \<lparr>w_trace := w_trace w @ [CGet ''Deployment'' ns n]\<rparr>)" for ns n
    by (simp add: getDeployment_def perform_def sampleReconciler_def sampleKube_def)
  obtain c1 where step: "run_state (rollupLoop sampleReconciler c (s # svcs) b) w =
      run_state (rollupLoop sampleReconciler c1 svcs b)
        (w \<lparr>w_trace := w_trace w @ [CGet ''Deployment'' (tc_Namespace c) ?n]\<rparr>)"
    by (simp add: g d Let_def)
  show ?case
    using Cons.IH [of c1 "w \<lparr>w_trace := w_trace w @ [CGet ''Deployment'' (tc_Namespace c) ?n]\<rparr>"]
    by (auto simp: step simp del: rollupLoop.simps)
qed simp

lemma sample_render:
  assumes "tc_Spec c = sampleSpec"
  shows "\<exists>r. run_state (renderConfig sampleReconciler c) w = (Inr r, w)"
proof -
  have store: "ds_SQL sampleStore = Some sampleSQL" "sql_PasswordSecretRef sampleSQL = None"
    "sql_PasswordCommandSecretRef sampleSQL = None"
    by (simp_all add: sampleStore_def sampleSQL_def)
  have spec: "spec_Persistence sampleSpec = samplePersistence" "spec_DynamicConfig sampleSpec = None"
    "spec_Authorization sampleSpec = None" "pers_DefaultStore samplePersistence = sampleStore"
    "pers_VisibilityStore samplePersistence = sampleStore"
    by (simp_all add: sampleSpec_def samplePersistence_def)
  have libs: "pl_render sampleLibs = (\<lambda>_. Inr ''config'')" by (simp add: sampleLibs_def)
  have "\<exists>d. BuildConfigData (pl_yamlAny sampleLibs) c (clusterBuildOptions c noCredential noCredential) = Inr d"
    by (auto simp: BuildConfigData_def Let_def buildDatastore_def buildAuth_def store spec assms)
  then show ?thesis
    by (auto simp: renderConfig_def ResolveStore_def ResolveSQL_def renderWith_def RenderClusterConfig_def Let_def
        bindR_def RenderDynamicConfig_def sampleReconciler_def store spec assms libs split: sum.splits)
qed

lemma sample_services:
  assumes spec: "tc_Spec c = sampleSpec" and ready: "condTrue sampleReconciler c ConditionSchemaReady"
  shows "\<exists>c' w' ob cs. run_state (reconcileServices sampleReconciler c vs) w = ((c', None), w') \<and>
    w_trace w' = w_trace w @ cs \<and> CApply ob \<in> set cs \<and> obj_key ob \<in> serviceDeployments c"
proof -
  obtain r where r: "run_state (renderConfig sampleReconciler c) w = (Inr r, w)"
    using sample_render [OF spec] by blast
  have off: "\<not> mTLSEnabled c" by (simp add: mTLSEnabled_def MTLSEnabled_def spec sampleSpec_def)
  define inp where "inp = \<lparr>sin_RenderedConfig = rd_config r, sin_RenderedDynamicConfig = rd_dynamicConfig r,
    sin_ConfigHash = ConfigHash (rd_config r), sin_DynamicConfigHash = [], sin_ServiceVersions = vs, sin_MTLS = None\<rparr>"
  obtain ps where ps: "PlanServices sampleLibs c inp = Inr ps" using sample_plan [OF spec] by blast
  have wire: "wireAzure c p = plo_Object p" for p
    by (simp add: wireAzure_def spec sampleSpec_def samplePersistence_def)
  let ?w = "w \<lparr>w_trace := w_trace w @ map (CApply \<circ> plo_Object) ps\<rparr>"
  obtain c' w' cs where roll: "run_state (rollupLoop sampleReconciler c (EnabledServices c) True) ?w = ((c', Inr True), w')"
    "w_trace w' = w_trace ?w @ cs"
    using sample_rollup by blast
  have libs: "rc_Libs sampleReconciler = sampleLibs" by (simp add: sampleReconciler_def)
  have run: "run_state (reconcileServices sampleReconciler c vs) w =
    ((setCondition sampleReconciler c' ConditionAvailable ConditionTrue ''AllServicesReady'' ''all services are ready'', None), w')"
    using ready roll(1) ps
    by (simp add: reconcileServices_def r mtlsMounts_def off libs inp_def [symmetric] wire sample_applyAll
        rollupServiceStatus_def comp_def)
  have "(''Deployment'', tc_Namespace c, tc_Name c @ ''-'' @ ServiceFrontend) \<in> set (keysOf ps)"
    unfolding PlanServices_keys [OF ps] enabledNames_eq by (simp add: serviceKeys_def Let_def)
  then obtain p where p: "p \<in> set ps" "obj_key (plo_Object p) = (''Deployment'', tc_Namespace c, tc_Name c @ ''-'' @ ServiceFrontend)"
    by (auto simp: keysOf_def)
  then have key: "obj_key (plo_Object p) \<in> serviceDeployments c"
    by (simp add: serviceDeployments_def enabledNames_eq DeploymentName_def)
  have tr: "w_trace w' = w_trace w @ (map (CApply \<circ> plo_Object) ps @ cs)" using roll(2) by simp
  have "CApply (plo_Object p) \<in> set (map (CApply \<circ> plo_Object) ps @ cs)" using p(1) by simp
  then show ?thesis by (intro exI conjI) (rule run tr key | assumption)+
qed

lemma sample_objects:
  assumes spec: "tc_Spec c = sampleSpec" and ready: "condTrue sampleReconciler c ConditionSchemaReady"
  shows "\<exists>c' w' ob cs. run_state (reconcileObjects sampleReconciler c vs) w = ((c', None), w') \<and>
    w_trace w' = w_trace w @ cs \<and> CApply ob \<in> set cs \<and> obj_key ob \<in> serviceDeployments c"
proof -
  obtain c' w' ob cs where run: "run_state (reconcileServices sampleReconciler c vs) w = ((c', None), w')"
    and app: "w_trace w' = w_trace w @ cs" "CApply ob \<in> set cs" "obj_key ob \<in> serviceDeployments c"
    using sample_services [OF assms] by blast
  have "tc_Spec c' = sampleSpec" using reconcileServices_same [OF run] spec by (simp add: sameUpgrade_def)
  then have "run_state (reconcileObjects sampleReconciler c vs) w = ((c', None), w')"
    by (simp add: reconcileObjects_def run reconcileUI_def reconcileMonitoring_def serviceMonitorRequested_def sampleSpec_def)
  then show ?thesis using app by blast
qed

lemma sample_finish:
  "\<exists>c' w' cs. run_state (finishPass sampleReconciler c res) w = ((Some c', Inr res), w') \<and> w_trace w' = w_trace w @ cs"
proof -
  obtain x w1 where x: "run_state (computeReadyAndPhase sampleReconciler c) w = (x, w1)" by fastforce
  then have "\<exists>cs. w_trace w1 = w_trace w @ cs"
    by (auto simp: computeReadyAndPhase_def event_def emitEvent_def perform_def Let_def split: if_splits)
  then show ?thesis
    using x by (auto simp: finishPass_def Let_def statusUpdate_def perform_def sampleReconciler_def sampleKube_def)
qed

text \<open>The pass as a whole.\<close>

lemma sample_persistence_run:
  "\<exists>c1 w1. run_state (reconcilePersistence sampleReconciler sampleCluster) sampleWorld = ((c1, Inr noResult), w1) \<and>
     condTrue sampleReconciler c1 ConditionSchemaReady"
proof -
  obtain c1 r w1 where run: "run_state (reconcilePersistence sampleReconciler sampleCluster) sampleWorld = ((c1, r), w1)"
    by (metis surj_pair)
  have "r = Inr noResult" "condTrue sampleReconciler c1 ConditionSchemaReady"
    using sample_persistence run by (simp_all add: setSchemaReady_def condTrue_setCondition [OF sample_laws(1)])
  then show ?thesis using run by simp
qed

lemma sample_pass:
  "\<exists>c' w' ob cs. run_state (reconcileCluster sampleReconciler sampleCluster) sampleWorld = ((Some c', Inr noResult), w') \<and>
     w_trace w' = w_trace sampleWorld @ cs \<and> CApply ob \<in> set cs \<and> obj_key ob \<in> serviceDeployments sampleCluster"
proof -
  obtain c1 w1 where p: "run_state (reconcilePersistence sampleReconciler sampleCluster) sampleWorld = ((c1, Inr noResult), w1)"
    and schema: "condTrue sampleReconciler c1 ConditionSchemaReady"
    using sample_persistence_run by blast
  have spec: "tc_Spec c1 = sampleSpec"
    using reconcilePersistence_same [OF sample_laws(1) p] by (simp add: sameUpgrade_def sampleCluster_def)
  have m: "run_state (reconcileMTLS sampleReconciler c1) w1 = ((c1, None), w1)"
    by (simp add: reconcileMTLS_def mTLSEnabled_def MTLSEnabled_def spec sampleSpec_def)
  obtain c3 vs w3 where u: "run_state (reconcileUpgrade sampleReconciler c1) w1 = ((c3, vs), w3)" by (metis surj_pair)
  note before = before_objects [OF sample_laws(1,3,2) p m u]
  have c3: "tc_Spec c3 = sampleSpec" "condTrue sampleReconciler c3 ConditionSchemaReady"
    using before schema by (simp_all add: sampleCluster_def)
  obtain c4 w4 ob cs where o4: "run_state (reconcileObjects sampleReconciler c3 vs) w3 = ((c4, None), w4)"
    and app: "w_trace w4 = w_trace w3 @ cs" "CApply ob \<in> set cs" "obj_key ob \<in> serviceDeployments c3"
    using sample_objects [OF c3] by blast
  obtain c5 w5 cs5 where f: "run_state (finishPass sampleReconciler c4 noResult) w4 = ((Some c5, Inr noResult), w5)"
    "w_trace w5 = w_trace w4 @ cs5"
    using sample_finish by blast
  have "run_state (reconcileCluster sampleReconciler sampleCluster) sampleWorld = ((Some c5, Inr noResult), w5)"
    by (simp add: reconcileCluster_def p m u o4 f)
  moreover obtain cs0 where "w_trace w3 = w_trace sampleWorld @ cs0"
    using before by (auto simp: between_def)
  then have "w_trace w5 = w_trace sampleWorld @ (cs0 @ cs @ cs5)" using app(1) f(2) by simp
  moreover have "CApply ob \<in> set (cs0 @ cs @ cs5)" using app(2) by simp
  moreover have "obj_key ob \<in> serviceDeployments sampleCluster"
    using app(3) before by (simp add: serviceDeployments_cong [of c3 sampleCluster])
  ultimately show ?thesis by blast
qed

section \<open>Witnesses\<close>

theorem services_wait_for_schema_witness:
  "\<exists>c1 w1. run_state (reconcilePersistence sampleReconciler sampleCluster) sampleWorld = ((c1, Inr noResult), w1) \<and>
     condTrue sampleReconciler c1 ConditionSchemaReady"
proof -
  obtain c' w' ob cs where run: "run_state (reconcileCluster sampleReconciler sampleCluster) sampleWorld = ((Some c', Inr noResult), w')"
    and app: "w_trace w' = w_trace sampleWorld @ cs" "CApply ob \<in> set cs" "obj_key ob \<in> serviceDeployments sampleCluster"
    using sample_pass by blast
  from services_wait_for_schema [OF sample_laws(1,3,2) run app] obtain c1 res w1 where
    "run_state (reconcilePersistence sampleReconciler sampleCluster) sampleWorld = ((c1, Inr res), w1)"
    "condTrue sampleReconciler c1 ConditionSchemaReady" by blast
  then show ?thesis using sample_persistence by auto
qed

theorem recorded_upgrade_coherent_witness:
  "\<exists>c w w'. clusterRun sampleReconciler c \<and> upgradeInv (tc_Status c) \<and>
     run_state (reconcileCluster sampleReconciler sampleCluster) w = ((Some c, Inr noResult), w')"
proof -
  obtain c' w' where run: "run_state (reconcileCluster sampleReconciler sampleCluster) sampleWorld = ((Some c', Inr noResult), w')"
    using sample_pass by blast
  have "clusterRun sampleReconciler sampleCluster"
    by (rule clusterRun.create) (simp add: sampleCluster_def sampleStatus_def)
  then have c': "clusterRun sampleReconciler c'" using run by (rule clusterRun.pass)
  show ?thesis using recorded_upgrade_coherent [OF c' sample_laws(1)] c' run by blast
qed

theorem written_status_consistent_witness:
  "\<exists>c w'. run_state (reconcileCluster sampleReconciler sampleCluster) sampleWorld = ((Some c, Inr noResult), w') \<and>
     st_Phase (tc_Status c) = phaseOf sampleReconciler c \<and> st_ObservedGeneration (tc_Status c) = 2"
proof -
  obtain c' w' where run: "run_state (reconcileCluster sampleReconciler sampleCluster) sampleWorld = ((Some c', Inr noResult), w')"
    using sample_pass by blast
  have "om_Generation (tc_Meta sampleCluster) = 2" by (simp add: sampleCluster_def)
  then show ?thesis using written_status_consistent [OF sample_laws(1) run] run by auto
qed

end
