(* ===== verification/Cluster_Webhook.thy ===== *)
theory Cluster_Webhook
  imports Plan
begin

text \<open>
  Admission of TemporalClusters (\<^verbatim>\<open>src/internal/webhook/v1alpha1/temporalcluster_webhook.go\<close>):
  defaulting, validation on create, update and delete.  The lemmas follow an object through its
  whole life: what every object admitted so far satisfies, and what an update cannot change.
\<close>

section \<open>Field errors\<close>

text \<open>An error of \<^verbatim>\<open>field.ErrorList\<close>: its path and detail (the offending value is not kept).\<close>

datatype fieldError = FieldRequired "string list" string | FieldInvalid "string list" string

section \<open>Defaulting\<close>

definition InitialShardsAnnotation :: string where
  "InitialShardsAnnotation = ''temporal.bmor10.com/initial-shards''"

definition zeroServiceSpec :: ServiceSpec where
  "zeroServiceSpec =
     \<lparr>ss_Replicas = None, ss_Resources = [], ss_PodTemplate = None, ss_Service = None,
      ss_NodeSelector = Map.empty, ss_Tolerations = [], ss_Affinity = None, ss_TopologySpreadConstraints = []\<rparr>"

definition defaultReplicas :: "ServiceSpec option \<Rightarrow> int \<Rightarrow> ServiceSpec option" where
  "defaultReplicas svc replicas =
     (let s = (case svc of None \<Rightarrow> zeroServiceSpec | Some s \<Rightarrow> s)
      in Some (case ss_Replicas s of None \<Rightarrow> s \<lparr>ss_Replicas := Some replicas\<rparr> | Some _ \<Rightarrow> s))"

definition hours :: "int \<Rightarrow> duration" where
  "hours n = n * 3600 * 1000000000"

definition defaultServicesSpec :: "ServicesSpec \<Rightarrow> ServicesSpec" where
  "defaultServicesSpec s =
     s \<lparr>svcs_Frontend := defaultReplicas (svcs_Frontend s) 2,
        svcs_History := defaultReplicas (svcs_History s) 3,
        svcs_Matching := defaultReplicas (svcs_Matching s) 2,
        svcs_Worker := defaultReplicas (svcs_Worker s) 1\<rparr>"

definition defaultMetrics :: "MetricsSpec option \<Rightarrow> MetricsSpec option" where
  "defaultMetrics m =
     (case m of
        None \<Rightarrow> Some \<lparr>met_Enabled = True, met_Port = 9090, met_ServiceMonitor = None\<rparr>
      | Some x \<Rightarrow> Some (if met_Port x = 0 then x \<lparr>met_Port := 9090\<rparr> else x))"

definition defaultUI :: "string \<Rightarrow> UISpec option \<Rightarrow> UISpec option" where
  "defaultUI version u =
     (case u of
        None \<Rightarrow> None
      | Some x \<Rightarrow>
          Some (if ui_Version x = [] \<and> DefaultUIVersion version \<noteq> []
                then x \<lparr>ui_Version := DefaultUIVersion version\<rparr> else x))"

definition defaultMTLS :: "MTLSSpec option \<Rightarrow> MTLSSpec option" where
  "defaultMTLS m =
     (case m of
        None \<Rightarrow> None
      | Some x \<Rightarrow>
          (let x1 = (if mtls_RefreshInterval x = None then x \<lparr>mtls_RefreshInterval := Some (hours 720)\<rparr> else x)
           in Some (if mtls_RenewBefore x1 = None then x1 \<lparr>mtls_RenewBefore := Some (hours 240)\<rparr> else x1)))"

definition stampShards :: "int \<Rightarrow> ObjectMeta \<Rightarrow> ObjectMeta" where
  "stampShards shards m =
     (case om_Annotations m InitialShardsAnnotation of
        Some _ \<Rightarrow> m
      | None \<Rightarrow> m \<lparr>om_Annotations := (om_Annotations m)(InitialShardsAnnotation \<mapsto>
                  itoa (if shards = 0 then 512 else shards))\<rparr>)"

definition Default :: "TemporalCluster \<Rightarrow> TemporalCluster" where
  "Default cluster =
     (let spec = tc_Spec cluster in
      cluster \<lparr>
        tc_Spec := spec \<lparr>
          spec_Image := (if IsDefaultServerImage (spec_Image spec) then [] else spec_Image spec),
          spec_Services := defaultServicesSpec (spec_Services spec),
          spec_Metrics := defaultMetrics (spec_Metrics spec),
          spec_UI := defaultUI (spec_Version spec) (spec_UI spec),
          spec_MTLS := defaultMTLS (spec_MTLS spec)\<rparr>,
        tc_Meta := stampShards (spec_NumHistoryShards spec) (tc_Meta cluster)\<rparr>)"

section \<open>Validation of a spec\<close>

definition validateUIAuthProvider :: "UIAuthSpec \<Rightarrow> string list \<Rightarrow> fieldError list" where
  "validateUIAuthProvider a base =
     (let entraSet = (case uia_Entra a of None \<Rightarrow> False | Some e \<Rightarrow> entraui_TenantID e \<noteq> []) in
      if \<not> entraSet \<and> uia_ProviderURL a = [] then
        [FieldRequired (base @ [''providerURL'']) ''set exactly one of ui.auth.entra.tenantID or ui.auth.providerURL'']
      else if entraSet \<and> uia_ProviderURL a \<noteq> [] then
        [FieldInvalid (base @ [''providerURL'']) ''set exactly one of ui.auth.entra.tenantID or ui.auth.providerURL, not both'']
      else [])"

text \<open>The parameter \<open>ym\<close> is the YAML library's reading of a document into a string map.\<close>

definition validateUIAuth :: "yaml_map \<Rightarrow> TemporalCluster \<Rightarrow> fieldError list" where
  "validateUIAuth ym cluster =
     (case spec_UI (tc_Spec cluster) of
        None \<Rightarrow> []
      | Some u \<Rightarrow>
      (case ui_Auth u of
        None \<Rightarrow> []
      | Some a \<Rightarrow>
          if \<not> uia_Enabled a then []
          else
            (let base = [''spec'', ''ui'', ''auth''] in
             (if uia_ClientID a = []
              then [FieldRequired (base @ [''clientID'']) ''clientID is required when ui.auth.enabled''] else []) @
             (if (case uia_ClientSecretRef a of None \<Rightarrow> True | Some r \<Rightarrow> skr_Name r = [])
              then [FieldRequired (base @ [''clientSecretRef'']) ''clientSecretRef is required when ui.auth.enabled'']
              else []) @
             (if uia_CallbackURL a = []
              then [FieldRequired (base @ [''callbackURL'']) ''callbackURL is required when ui.auth.enabled''] else []) @
             validateUIAuthProvider a base @
             (case uia_ExtraEnv a of
                None \<Rightarrow> []
              | Some raw \<Rightarrow>
                  if raw = [] then []
                  else (case ym raw of
                          Inl _ \<Rightarrow> [FieldInvalid (base @ [''extraEnv'']) ''extraEnv must be a map of string to string'']
                        | Inr _ \<Rightarrow> [])))))"

definition validateVersion :: "TemporalCluster \<Rightarrow> fieldError list" where
  "validateVersion cluster =
     (if \<not> IsSupported (spec_Version (tc_Spec cluster))
      then [FieldInvalid [''spec'', ''version'']
              (''VersionUnsupported: version is not in the supported matrix ['' @
               joinWith '' '' SupportedVersions @ '']'')]
      else [])"

definition visBackends :: "DatastoreSpec \<Rightarrow> nat" where
  "visBackends vis =
     (if ds_SQL vis \<noteq> None then 1 else 0) + (if ds_Cassandra vis \<noteq> None then 1 else 0) +
     (if ds_Elasticsearch vis \<noteq> None then 1 else 0)"

definition validatePersistence :: "TemporalCluster \<Rightarrow> fieldError list" where
  "validatePersistence cluster =
     (let p = spec_Persistence (tc_Spec cluster); def = pers_DefaultStore p; vis = pers_VisibilityStore p in
      (if (ds_SQL def = None) = (ds_Cassandra def = None)
       then [FieldInvalid [''spec'', ''persistence'', ''defaultStore''] ''exactly one of sql or cassandra must be set'']
       else []) @
      (if visBackends vis \<noteq> 1
       then [FieldInvalid [''spec'', ''persistence'', ''visibilityStore'']
               ''exactly one of sql, cassandra, or elasticsearch must be set'']
       else []) @
      (if ds_Cassandra vis \<noteq> None
       then (case Get (spec_Version (tc_Spec cluster)) of
               None \<Rightarrow> []
             | Some info \<Rightarrow>
                 if \<not> vi_CassandraVisibilitySupported info
                 then [FieldInvalid [''spec'', ''persistence'', ''visibilityStore'', ''cassandra'']
                         (''Cassandra visibility is not supported on Temporal '' @ spec_Version (tc_Spec cluster))]
                 else [])
       else []))"

definition validateMTLS :: "TemporalCluster \<Rightarrow> fieldError list" where
  "validateMTLS cluster =
     (case spec_MTLS (tc_Spec cluster) of
        None \<Rightarrow> []
      | Some m \<Rightarrow>
          if mtls_Provider m = ''cert-manager'' \<and> mtls_IssuerRef m = None
          then [FieldRequired [''spec'', ''mtls'', ''issuerRef''] ''issuerRef is required when mtls.provider is cert-manager'']
          else [])"

definition validateDynamicConfig :: "planlibs \<Rightarrow> TemporalCluster \<Rightarrow> fieldError list" where
  "validateDynamicConfig L cluster =
     (case spec_DynamicConfig (tc_Spec cluster) of
        None \<Rightarrow> []
      | Some d \<Rightarrow>
          (case fst (RenderDynamicConfig (pl_marshal L) (pl_json L) (Some d) (spec_Version (tc_Spec cluster))) of
             Inl e \<Rightarrow> [FieldInvalid [''spec'', ''dynamicConfig''] (err_text e)]
           | Inr _ \<Rightarrow> []))"

definition validateClusterMetadata :: "TemporalCluster \<Rightarrow> fieldError list" where
  "validateClusterMetadata cluster =
     (case spec_ClusterMetadata (tc_Spec cluster) of
        None \<Rightarrow> []
      | Some cm \<Rightarrow>
          if \<not> cm_EnableGlobalNamespace cm then []
          else
            (let base = [''spec'', ''clusterMetadata''] in
             (if cm_CurrentClusterName cm = []
              then [FieldRequired (base @ [''currentClusterName''])
                      ''currentClusterName is required when enableGlobalNamespace is true''] else []) @
             (if (case cm_FailoverVersionIncrement cm of None \<Rightarrow> True | Some i \<Rightarrow> i < 1)
              then [FieldRequired (base @ [''failoverVersionIncrement''])
                      ''failoverVersionIncrement is required and must be >= 1 when enableGlobalNamespace is true''] else []) @
             (if (case cm_InitialFailoverVersion cm of None \<Rightarrow> True | Some i \<Rightarrow> i < 1)
              then [FieldRequired (base @ [''initialFailoverVersion''])
                      ''initialFailoverVersion is required and must be >= 1 when enableGlobalNamespace is true''] else [])))"

definition validateSpec :: "planlibs \<Rightarrow> TemporalCluster \<Rightarrow> fieldError list" where
  "validateSpec L cluster =
     validateVersion cluster @ validatePersistence cluster @ validateMTLS cluster @
     validateDynamicConfig L cluster @ validateClusterMetadata cluster @ validateUIAuth (pl_yamlMap L) cluster"

section \<open>Validation of an update\<close>

definition initialShards :: "TemporalCluster \<Rightarrow> int" where
  "initialShards old =
     (case om_Annotations (tc_Meta old) InitialShardsAnnotation of
        None \<Rightarrow> spec_NumHistoryShards (tc_Spec old)
      | Some v \<Rightarrow> (case atoi v of None \<Rightarrow> spec_NumHistoryShards (tc_Spec old) | Some n \<Rightarrow> to_int32 n))"

definition validateShardCountImmutable :: "TemporalCluster \<Rightarrow> TemporalCluster \<Rightarrow> fieldError list" where
  "validateShardCountImmutable old new =
     (if spec_NumHistoryShards (tc_Spec new) \<noteq> initialShards old
      then [FieldInvalid [''spec'', ''numHistoryShards'']
              (''ShardCountImmutable: numHistoryShards is immutable (was '' @ itoa (initialShards old) @ '')'')]
      else [])"

definition validateUpgradePath :: "TemporalCluster \<Rightarrow> TemporalCluster \<Rightarrow> fieldError list" where
  "validateUpgradePath old new =
     (let v0 = spec_Version (tc_Spec old); v1 = spec_Version (tc_Spec new) in
      if v1 \<noteq> v0 \<and> CanUpgrade v0 v1 \<noteq> Inr True
      then [FieldInvalid [''spec'', ''version''] (''UpgradePathInvalid: cannot upgrade from '' @ v0 @ '' to '' @ v1)]
      else [])"

definition validateStoreDriverImmutable :: "TemporalCluster \<Rightarrow> TemporalCluster \<Rightarrow> fieldError list" where
  "validateStoreDriverImmutable old new =
     (if (ds_SQL (pers_DefaultStore (spec_Persistence (tc_Spec old))) \<noteq> None) \<noteq>
         (ds_SQL (pers_DefaultStore (spec_Persistence (tc_Spec new))) \<noteq> None)
      then [FieldInvalid [''spec'', ''persistence'', ''defaultStore''] ''the default store driver cannot be changed'']
      else [])"

definition validateClusterMetadataImmutable :: "TemporalCluster \<Rightarrow> TemporalCluster \<Rightarrow> fieldError list" where
  "validateClusterMetadataImmutable old new =
     (let base = [''spec'', ''clusterMetadata''];
          msg = (\<lambda>what. ''ClusterMetadataImmutable: '' @ what) in
      case spec_ClusterMetadata (tc_Spec old) of
        None \<Rightarrow> []
      | Some o' \<Rightarrow>
      (case spec_ClusterMetadata (tc_Spec new) of
        None \<Rightarrow> [FieldInvalid base (msg ''clusterMetadata cannot be removed once set'')]
      | Some n \<Rightarrow>
          (if cm_FailoverVersionIncrement o' \<noteq> None \<and> cm_FailoverVersionIncrement n \<noteq> cm_FailoverVersionIncrement o'
           then [FieldInvalid (base @ [''failoverVersionIncrement'']) (msg ''failoverVersionIncrement is immutable'')]
           else []) @
          (if cm_InitialFailoverVersion o' \<noteq> None \<and> cm_InitialFailoverVersion n \<noteq> cm_InitialFailoverVersion o'
           then [FieldInvalid (base @ [''initialFailoverVersion'']) (msg ''initialFailoverVersion is immutable'')]
           else []) @
          (if cm_CurrentClusterName o' \<noteq> [] \<and>
              (cm_CurrentClusterName n = [] \<or> cm_CurrentClusterName o' \<noteq> cm_CurrentClusterName n)
           then [FieldInvalid (base @ [''currentClusterName'']) (msg ''currentClusterName is immutable'')]
           else [])))"

section \<open>The admission requests\<close>

definition ValidateCreate :: "planlibs \<Rightarrow> TemporalCluster \<Rightarrow> fieldError list" where
  "ValidateCreate L cluster = validateSpec L cluster"

definition ValidateUpdate :: "planlibs \<Rightarrow> TemporalCluster \<Rightarrow> TemporalCluster \<Rightarrow> fieldError list" where
  "ValidateUpdate L old new =
     validateSpec L new @ validateShardCountImmutable old new @ validateUpgradePath old new @
     validateStoreDriverImmutable old new @ validateClusterMetadataImmutable old new"

definition ValidateDelete :: "TemporalCluster \<Rightarrow> err option" where
  "ValidateDelete cluster =
     (if spec_PreventDeletion (tc_Spec cluster)
      then Some (ErrMsg ''DeletionPrevented: deletion is blocked by spec.preventDeletion'') else None)"

text \<open>
  The objects the API server holds: a request is defaulted and then validated, a create on its own
  and an update against the stored object.
\<close>

inductive stored :: "planlibs \<Rightarrow> TemporalCluster \<Rightarrow> TemporalCluster \<Rightarrow> bool" for L where
  create: "ValidateCreate L (Default c) = [] \<Longrightarrow> stored L (Default c) (Default c)"
| update: "stored L c0 c \<Longrightarrow> ValidateUpdate L c (Default n) = [] \<Longrightarrow> stored L c0 (Default n)"

section \<open>Defaulting is idempotent\<close>

lemma defaultReplicas_idem: "defaultReplicas (defaultReplicas s n) n = defaultReplicas s n"
  by (auto simp: defaultReplicas_def Let_def split: option.splits)

lemma default_parts_idem:
  "defaultServicesSpec (defaultServicesSpec s) = defaultServicesSpec s"
  "defaultMetrics (defaultMetrics m) = defaultMetrics m"
  "defaultUI v (defaultUI v u) = defaultUI v u"
  "defaultMTLS (defaultMTLS t) = defaultMTLS t"
  "stampShards k (stampShards k' om) = stampShards k' om"
  by (auto simp: defaultServicesSpec_def defaultReplicas_idem defaultMetrics_def defaultUI_def defaultMTLS_def
      stampShards_def Let_def split: option.splits)

lemma not_default_image_empty: "\<not> IsDefaultServerImage []"
  by (simp add: IsDefaultServerImage_def serverImageRepo_def cutPrefix_def hasPrefix_def)

end
