(* ===== verification/Admitted_Clusters.thy ===== *)
theory Admitted_Clusters
  imports Cluster_Webhook Upgrade_Runs
begin

text \<open>
  What admission promises about every TemporalCluster the API server holds, along any sequence of
  creates and updates, and what the controller can rely on: the pure part of a pass has no error that
  the webhook should have caught.
\<close>

section \<open>Every stored object was validated\<close>

lemma stored_validated: "stored L c0 c \<Longrightarrow> validateSpec L c = []"
  by (induction rule: stored.cases) (simp_all add: ValidateCreate_def ValidateUpdate_def)

lemma validated_parts:
  assumes "validateSpec L c = []"
  shows "IsSupported (spec_Version (tc_Spec c))"
    and "(ds_SQL (pers_DefaultStore (spec_Persistence (tc_Spec c))) = None) \<noteq>
      (ds_Cassandra (pers_DefaultStore (spec_Persistence (tc_Spec c))) = None)"
    and "visBackends (pers_VisibilityStore (spec_Persistence (tc_Spec c))) = 1"
    and "MTLSEnabled c \<Longrightarrow> \<exists>m r. spec_MTLS (tc_Spec c) = Some m \<and> mtls_IssuerRef m = Some r"
    and "\<exists>s. fst (RenderDynamicConfig (pl_marshal L) (pl_json L) (spec_DynamicConfig (tc_Spec c)) (spec_Version (tc_Spec c))) = Inr s"
  using assms
  by (auto simp: validateSpec_def validateVersion_def validatePersistence_def validateMTLS_def MTLSEnabled_def
      validateDynamicConfig_def RenderDynamicConfig_def Let_def split: if_splits option.splits sum.splits)

lemma buildDatastore_ok:
  "ds_SQL s \<noteq> None \<or> ds_Cassandra s \<noteq> None \<or> ds_Elasticsearch s \<noteq> None \<Longrightarrow> \<exists>x. buildDatastore s n p q = Inr x"
  by (auto simp: buildDatastore_def split: option.splits)

lemma auth_without_passthrough:
  "(\<And>a. spec_Authorization (tc_Spec c) = Some a \<Longrightarrow> auth_Config a = None) \<Longrightarrow> \<exists>x. buildAuth ya c = Inr x"
  by (auto simp: buildAuth_def applyAuthConfigPassthrough_def Let_def split: option.splits prod.splits)

section \<open>Following the fields of an object\<close>

lemma stored_version:
  "stored L c0 c \<Longrightarrow> (spec_Version (tc_Spec c0), spec_Version (tc_Spec c)) \<in> upgradeStep\<^sup>*"
proof (induction rule: stored.induct)
  case (update c0 c n)
  have "spec_Version (tc_Spec (Default n)) = spec_Version (tc_Spec c) \<or>
      CanUpgrade (spec_Version (tc_Spec c)) (spec_Version (tc_Spec (Default n))) = Inr True"
    using update.hyps(2) by (auto simp: ValidateUpdate_def validateUpgradePath_def Let_def split: if_splits)
  then show ?case
    using update.IH validated_parts(1) [OF stored_validated [OF update.hyps(1)]]
    by (auto simp: upgradeStep_def intro: rtrancl_into_rtrancl)
qed simp

lemma stored_first: "stored L c0 c \<Longrightarrow> stored L c0 c0"
  by (induction rule: stored.induct) (simp_all add: stored.create)

text \<open>Cluster metadata that an update may put in place of others: what was set stays set and the same.\<close>

definition keepsMetadata :: "ClusterMetadataSpec option \<Rightarrow> ClusterMetadataSpec option \<Rightarrow> bool" where
  "keepsMetadata old new =
     (case old of
        None \<Rightarrow> True
      | Some m0 \<Rightarrow>
          (case new of
             None \<Rightarrow> False
           | Some m \<Rightarrow>
               (cm_FailoverVersionIncrement m0 \<noteq> None \<longrightarrow> cm_FailoverVersionIncrement m = cm_FailoverVersionIncrement m0) \<and>
               (cm_InitialFailoverVersion m0 \<noteq> None \<longrightarrow> cm_InitialFailoverVersion m = cm_InitialFailoverVersion m0) \<and>
               (cm_CurrentClusterName m0 \<noteq> [] \<longrightarrow> cm_CurrentClusterName m = cm_CurrentClusterName m0)))"

lemma keepsMetadata_refl: "keepsMetadata m m"
  by (simp add: keepsMetadata_def split: option.split)

lemma keepsMetadata_trans: "keepsMetadata a b \<Longrightarrow> keepsMetadata b c \<Longrightarrow> keepsMetadata a c"
  by (auto simp: keepsMetadata_def split: option.splits)

section \<open>Properties\<close>

text \<open>
  Defaulting is idempotent: an object that was defaulted once is a fixed point of the mutating
  webhook, so reapplying it changes nothing.
\<close>

theorem Default_idempotent: "Default (Default c) = Default c"
  by (simp add: Default_def Let_def default_parts_idem not_default_image_empty)

text \<open>
  C17: a stored cluster can be rendered.  For every object the API server holds, the certificates can
  be planned without a nil dereference, and the server configuration and the dynamic configuration
  build without an error, as long as no pass-through authorization block has to be parsed.
\<close>

theorem stored_cluster_renders:
  assumes "stored L c0 c"
    and "\<And>a. spec_Authorization (tc_Spec c) = Some a \<Longrightarrow> auth_Config a = None"
  shows "(\<exists>ps. PlanMTLS c = Inr ps) \<and> (\<exists>d. BuildConfigData ya c opts = Inr d) \<and>
    (\<exists>s. fst (RenderDynamicConfig (pl_marshal L) (pl_json L) (spec_DynamicConfig (tc_Spec c)) (spec_Version (tc_Spec c))) = Inr s)"
proof -
  note parts = validated_parts [OF stored_validated [OF assms(1)]]
  obtain x where x: "buildDatastore (pers_DefaultStore (spec_Persistence (tc_Spec c))) ''default''
      (bo_DefaultStorePassword opts) (bo_DefaultStorePasswordCommand opts) = Inr x"
    using buildDatastore_ok parts(2) by blast
  have "ds_SQL v \<noteq> None \<or> ds_Cassandra v \<noteq> None \<or> ds_Elasticsearch v \<noteq> None" if "visBackends v = 1" for v
    using that by (auto simp: visBackends_def split: if_splits)
  then obtain y where y: "buildDatastore (pers_VisibilityStore (spec_Persistence (tc_Spec c))) ''visibility''
      (bo_VisibilityStorePassword opts) (bo_VisibilityStorePasswordCommand opts) = Inr y"
    using buildDatastore_ok parts(3) by blast
  obtain z where z: "buildAuth ya c = Inr z" using auth_without_passthrough assms(2) by blast
  have "\<exists>d. BuildConfigData ya c opts = Inr d"
    by (simp add: BuildConfigData_def Let_def x y z split: prod.split)
  moreover have "\<exists>ps. PlanMTLS c = Inr ps"
    using parts(4) by (auto simp: PlanMTLS_def BuildInternodeCertificate_def BuildFrontendCertificate_def clusterIssuer_def
        issuerRef_def bindR_def Let_def)
  ultimately show ?thesis using parts(5) by blast
qed

text \<open>
  C16: the version of a stored cluster never goes back, and stays a supported one.
\<close>

theorem stored_version_never_back:
  assumes "stored L c0 c"
  shows "IsSupported (spec_Version (tc_Spec c)) \<and>
    (spec_Version (tc_Spec c) = spec_Version (tc_Spec c0) \<or> \<not> versionLess (spec_Version (tc_Spec c)) (spec_Version (tc_Spec c0)))"
proof -
  have s: "IsSupported (spec_Version (tc_Spec c0))" "IsSupported (spec_Version (tc_Spec c))"
    using validated_parts(1) stored_validated stored_first assms by blast+
  then obtain a where a: "parseSemver (spec_Version (tc_Spec c0)) = Inr a"
    using allPatches_parse by (auto simp: IsSupported_iff)
  obtain b where "parseSemver (spec_Version (tc_Spec c)) = Inr b" "a \<le> b"
    using chain_forward [OF stored_version [OF assms] a] by blast
  then show ?thesis using s(2) a by (auto simp: versionLess_parsed)
qed


section \<open>The shard count\<close>

text \<open>Updates that leave the annotation with the initial shard count alone.\<close>

inductive storedKept :: "planlibs \<Rightarrow> TemporalCluster \<Rightarrow> TemporalCluster \<Rightarrow> bool" for L where
  create: "ValidateCreate L (Default c) = [] \<Longrightarrow> om_Annotations (tc_Meta c) InitialShardsAnnotation = None \<Longrightarrow>
     storedKept L (Default c) (Default c)"
| update: "storedKept L c0 c \<Longrightarrow> ValidateUpdate L c (Default n) = [] \<Longrightarrow>
     om_Annotations (tc_Meta n) InitialShardsAnnotation = om_Annotations (tc_Meta c) InitialShardsAnnotation \<Longrightarrow>
     storedKept L c0 (Default n)"

lemma Default_shards: "spec_NumHistoryShards (tc_Spec (Default c)) = spec_NumHistoryShards (tc_Spec c)"
  by (simp add: Default_def Let_def)

lemma Default_annotation:
  "om_Annotations (tc_Meta (Default c)) InitialShardsAnnotation =
     (case om_Annotations (tc_Meta c) InitialShardsAnnotation of
        Some v \<Rightarrow> Some v
      | None \<Rightarrow> Some (itoa (if spec_NumHistoryShards (tc_Spec c) = 0 then 512 else spec_NumHistoryShards (tc_Spec c))))"
  by (simp add: Default_def stampShards_def Let_def split: option.split)


section \<open>A stored cluster\<close>

text \<open>The sample spec at a version, as it is requested, while 1.30.8 is running.\<close>

definition requested :: "string \<Rightarrow> TemporalCluster" where
  "requested v = sampleCluster \<lparr>tc_Spec := sampleSpec \<lparr>spec_Version := v\<rparr>,
     tc_Status := sampleStatus \<lparr>st_Version := ''1.30.8''\<rparr>\<rparr>"

lemma requested_shards: "spec_NumHistoryShards (tc_Spec (requested v)) = 512"
  by (simp add: requested_def sampleSpec_def)

lemma requested_annotation: "om_Annotations (tc_Meta (requested v)) InitialShardsAnnotation = None"
  by (simp add: requested_def sampleCluster_def newMeta_def)

lemma Default_version: "spec_Version (tc_Spec (Default c)) = spec_Version (tc_Spec c)"
  by (simp add: Default_def Let_def)

lemma requested_valid: "IsSupported v \<Longrightarrow> validateSpec L (Default (requested v)) = []"
  by (simp add: validateSpec_def validateVersion_def validatePersistence_def validateMTLS_def validateDynamicConfig_def
      validateClusterMetadata_def validateUIAuth_def visBackends_def Default_def defaultMTLS_def defaultUI_def requested_def Let_def
      sampleSpec_def samplePersistence_def sampleStore_def)

lemma requested_update:
  assumes "IsSupported v" and "CanUpgrade u v = Inr True"
  shows "ValidateUpdate L (Default (requested u)) (Default (requested v)) = []"
proof -
  have "initialShards (Default (requested u)) = 512"
    using requested_shards [of u]
    by (simp add: initialShards_def Default_annotation requested_annotation atoi_itoa to_int32_id)
  then show ?thesis
    using assms requested_valid [of v L]
    by (simp add: ValidateUpdate_def validateShardCountImmutable_def validateUpgradePath_def
        validateStoreDriverImmutable_def validateClusterMetadataImmutable_def Default_shards Default_version requested_shards Let_def)
      (simp add: requested_def Default_def sampleSpec_def Let_def)
qed

lemma sample_steps:
  "IsSupported ''1.30.8''" "IsSupported ''1.31.1''" "IsSupported ''1.32.1''"
  "CanUpgrade ''1.30.8'' ''1.31.1'' = Inr True" "CanUpgrade ''1.31.1'' ''1.32.1'' = Inr True"
  "CanUpgrade ''1.30.8'' ''1.32.1'' = Inr False"
  by code_simp+

lemma requested_stored: "stored L (Default (requested ''1.30.8'')) (Default (requested ''1.32.1''))"
proof -
  have "stored L (Default (requested ''1.30.8'')) (Default (requested ''1.30.8''))"
    by (rule stored.create) (simp add: ValidateCreate_def requested_valid sample_steps)
  then have "stored L (Default (requested ''1.30.8'')) (Default (requested ''1.31.1''))"
    by (rule stored.update) (rule requested_update [OF sample_steps(2,4)])
  then show ?thesis by (rule stored.update) (rule requested_update [OF sample_steps(3,5)])
qed

lemma requested_version: "spec_Version (tc_Spec (requested v)) = v"
  by (simp add: requested_def)

theorem stored_cluster_renders_witness:
  "\<exists>d. BuildConfigData (pl_yamlAny sampleLibs) (Default (requested ''1.32.1'')) emptyOptions = Inr d"
  using stored_cluster_renders [OF requested_stored [of sampleLibs], of "pl_yamlAny sampleLibs" emptyOptions]
  by (simp add: Default_def requested_def sampleSpec_def Let_def)

theorem stored_version_never_back_witness:
  "IsSupported ''1.32.1'' \<and> \<not> versionLess ''1.32.1'' ''1.30.8''"
  using stored_version_never_back [OF requested_stored [of sampleLibs]] by (simp add: Default_version requested_version)



text \<open>
  C37: two quick edits skip a minor version.  The webhook compares a new version with the one in the
  stored spec, not with the one that is running: a cluster that runs 1.30.8 can be moved to 1.31.1 and
  then to 1.32.1 before a pass starts the first upgrade, and the upgrade that then starts goes straight
  from 1.30.8 to 1.32.1, which \<open>CanUpgrade\<close> forbids.
\<close>

theorem quick_edits_skip_a_minor:
  "\<exists>c0 c1 c2 c3 u. stored L c0 c0 \<and> spec_Version (tc_Spec c0) = ''1.30.8'' \<and>
     ValidateUpdate L c0 c1 = [] \<and> ValidateUpdate L c1 c2 = [] \<and>
     st_Version (tc_Status c2) = ''1.30.8'' \<and>
     fst (fst (run_state (reconcileUpgrade sampleReconciler c2) sampleWorld)) = c3 \<and>
     st_Upgrade (tc_Status c3) = Some u \<and> us_FromVersion u = ''1.30.8'' \<and> us_ToVersion u = ''1.32.1'' \<and>
     CanUpgrade (us_FromVersion u) (us_ToVersion u) = Inr False"
proof -
  obtain c3 vs w3 where run: "run_state (reconcileUpgrade sampleReconciler (Default (requested ''1.32.1''))) sampleWorld = ((c3, vs), w3)"
    by (metis surj_pair)
  have st: "st_Version (tc_Status (Default (requested ''1.32.1''))) = ''1.30.8''"
    "st_Upgrade (tc_Status (Default (requested ''1.32.1''))) = None"
    by (simp_all add: Default_def requested_def sampleStatus_def Let_def)
  then have "upgradeNeeded (Default (requested ''1.32.1''))"
    by (simp add: upgradeNeeded_def Default_version requested_version)
  then obtain u where "st_Upgrade (tc_Status c3) = Some u" "us_FromVersion u = ''1.30.8''" "us_ToVersion u = ''1.32.1''"
    using run
  proof (cases rule: pass_result)
    case (1 up)
    then show thesis using st(2) by (simp add: workingUpgrade_def initialUpgrade_def)
  next
    case (2 up w1 cs u)
    have "initialUpgrade (Default (requested ''1.32.1'')) up" using 2(1) st(2) by (simp add: workingUpgrade_def)
    then show thesis
      using that [of u] 2(5,6) st(1) by (simp add: upgradeMove_def initialUpgrade_def Default_version requested_version)
  qed
  moreover have "stored L (Default (requested ''1.30.8'')) (Default (requested ''1.30.8''))"
    by (rule stored.create) (simp add: ValidateCreate_def requested_valid sample_steps)
  moreover note requested_update [OF sample_steps(2,4), of L] requested_update [OF sample_steps(3,5), of L]
  ultimately show ?thesis
    using run st(1) sample_steps(6) Default_version requested_version by (metis fst_conv)
qed

end
