(* ===== verification/Satellite_Types.thy ===== *)
theory Satellite_Types
  imports Protos
begin

text \<open>
  The custom resources around a cluster (\<^verbatim>\<open>src/api/v1alpha1\<close>): dev servers, namespaces, search
  attributes, schedules, workflow runs, client credentials and cluster connections.
\<close>

section \<open>Dev servers (temporaldevserver_types.go)\<close>

record DevServerUISpec =
  dui_Enabled :: bool

record DevServerStorageSpec =
  dst_Type :: string
  dst_Size :: "string option"
  dst_StorageClassName :: "string option"

record TemporalDevServerSpec =
  dev_Version :: string
  dev_Image :: string
  dev_ImagePullSecrets :: "string list"
  dev_Namespaces :: "string list"
  dev_UI :: "DevServerUISpec option"
  dev_Storage :: "DevServerStorageSpec option"
  dev_Service :: "ServiceExposureSpec option"
  dev_Resources :: opaque
  dev_NodeSelector :: gomap
  dev_Tolerations :: "opaque list"
  dev_Affinity :: "opaque option"
  dev_WorkflowRunPolicy :: "WorkflowRunPolicy option"

record DevServerEndpoints =
  dse_Frontend :: string
  dse_UI :: string

record TemporalDevServerStatus =
  devst_Phase :: string
  devst_ObservedGeneration :: int
  devst_Conditions :: "Condition list"
  devst_Endpoints :: DevServerEndpoints
  devst_Version :: string

record TemporalDevServer =
  dev_Meta :: ObjectMeta
  dev_Spec :: TemporalDevServerSpec
  dev_Status :: TemporalDevServerStatus

section \<open>Namespaces (temporalnamespace_types.go)\<close>

record TemporalNamespaceSpec =
  tns_ClusterRef :: ClusterReference
  tns_RetentionPeriod :: "duration option"
  tns_Description :: string
  tns_OwnerEmail :: string
  tns_AllowDeletion :: bool
  tns_DriftDetection :: string
  tns_IsGlobal :: bool
  tns_Clusters :: "string list"
  tns_ActiveCluster :: string

record NamespaceReplicationStatus =
  nrs_IsGlobal :: bool
  nrs_ActiveCluster :: string
  nrs_Clusters :: "string list"
  nrs_FailoverInProgress :: bool
  nrs_LastFailoverTime :: "gotime option"

record TemporalNamespaceStatus =
  tnst_ObservedGeneration :: int
  tnst_Registered :: bool
  tnst_NamespaceID :: string
  tnst_LastUpdated :: "gotime option"
  tnst_Conditions :: "Condition list"
  tnst_Replication :: "NamespaceReplicationStatus option"

record TemporalNamespace =
  tn_Meta :: ObjectMeta
  tn_Spec :: TemporalNamespaceSpec
  tn_Status :: TemporalNamespaceStatus

section \<open>Search attributes (temporalsearchattribute_types.go)\<close>

record TemporalSearchAttributeSpec =
  tsa_ClusterRef :: ClusterReference
  tsa_Namespace :: string
  tsa_Name :: string
  tsa_Type :: string
  tsa_AllowDeletion :: bool

record TemporalSearchAttributeStatus =
  tsast_ObservedGeneration :: int
  tsast_Registered :: bool
  tsast_RegisteredAt :: "gotime option"
  tsast_Conditions :: "Condition list"

record TemporalSearchAttribute =
  sa_Object :: ObjectMeta
  sa_Spec :: TemporalSearchAttributeSpec
  sa_Status :: TemporalSearchAttributeStatus

section \<open>Schedules (temporalschedule_types.go)\<close>

record IntervalSpec =
  ivs_Every :: duration
  ivs_Offset :: "duration option"

record CalendarRange =
  cr_Start :: int
  cr_End :: int
  cr_Step :: int

record StructuredCalendarSpec =
  scs_Second :: "CalendarRange list"
  scs_Minute :: "CalendarRange list"
  scs_Hour :: "CalendarRange list"
  scs_DayOfMonth :: "CalendarRange list"
  scs_Month :: "CalendarRange list"
  scs_Year :: "CalendarRange list"
  scs_DayOfWeek :: "CalendarRange list"
  scs_Comment :: string

record ScheduleSpec =
  sch_Calendars :: "string list"
  sch_Intervals :: "IntervalSpec list"
  sch_StructuredCalendar :: "StructuredCalendarSpec list"
  sch_ExcludeStructuredCalendar :: "StructuredCalendarSpec list"
  sch_StartTime :: "gotime option"
  sch_EndTime :: "gotime option"
  sch_Jitter :: "duration option"
  sch_TimezoneName :: string

record RetryPolicySpec =
  rps_InitialInterval :: "duration option"
  rps_BackoffCoefficient :: string
  rps_MaximumInterval :: "duration option"
  rps_MaximumAttempts :: int
  rps_NonRetryableErrorTypes :: "string list"

record StartWorkflowAction =
  swa_WorkflowType :: string
  swa_TaskQueue :: string
  swa_WorkflowID :: string
  swa_Args :: "string list"
  swa_WorkflowExecutionTimeout :: "duration option"
  swa_WorkflowRunTimeout :: "duration option"
  swa_WorkflowTaskTimeout :: "duration option"
  swa_WorkflowIDReusePolicy :: string
  swa_RetryPolicy :: "RetryPolicySpec option"
  swa_Memo :: "string goalist"
  swa_SearchAttributes :: "string goalist"

record ScheduleActionSpec =
  sas_StartWorkflow :: StartWorkflowAction

record SchedulePoliciesSpec =
  sps_OverlapPolicy :: string
  sps_CatchupWindow :: "duration option"
  sps_PauseOnFailure :: bool
  sps_KeepOriginalWorkflowID :: bool

record ScheduleStateSpec =
  sss_Paused :: bool
  sss_Notes :: string
  sss_LimitedActions :: bool
  sss_RemainingActions :: int

record TemporalScheduleSpec =
  tss_ClusterRef :: ClusterReference
  tss_Namespace :: string
  tss_ScheduleID :: string
  tss_AllowDeletion :: bool
  tss_Schedule :: ScheduleSpec
  tss_Action :: ScheduleActionSpec
  tss_Policies :: "SchedulePoliciesSpec option"
  tss_State :: "ScheduleStateSpec option"

record TemporalScheduleStatus =
  tsst_ObservedGeneration :: int
  tsst_ScheduleID :: string
  tsst_Created :: bool
  tsst_Paused :: bool
  tsst_Notes :: string
  tsst_LastAppliedSpecHash :: string
  tsst_NextActionTimes :: "gotime list"
  tsst_RunningWorkflows :: int
  tsst_LastUpdated :: "gotime option"
  tsst_Conditions :: "Condition list"

record TemporalSchedule =
  tsc_Meta :: ObjectMeta
  tsc_Spec :: TemporalScheduleSpec
  tsc_Status :: TemporalScheduleStatus

section \<open>Workflow runs (temporalworkflowrun_types.go)\<close>

record TemporalWorkflowRunSpec =
  wrs_ClusterRef :: ClusterReference
  wrs_Namespace :: string
  wrs_Workflow :: StartWorkflowAction
  wrs_TTLSecondsAfterFinished :: "int option"
  wrs_CancellationPolicy :: string

abbreviation CancellationPolicyAbandon :: string where "CancellationPolicyAbandon \<equiv> ''Abandon''"
abbreviation CancellationPolicyCancel :: string where "CancellationPolicyCancel \<equiv> ''Cancel''"
abbreviation CancellationPolicyTerminate :: string where "CancellationPolicyTerminate \<equiv> ''Terminate''"

record WorkflowRunFailure =
  wrf_Message :: string
  wrf_Type :: string

record TemporalWorkflowRunStatus =
  wrst_ObservedGeneration :: int
  wrst_Phase :: string
  wrst_WorkflowID :: string
  wrst_RunID :: string
  wrst_WorkflowType :: string
  wrst_TaskQueue :: string
  wrst_StartTime :: "gotime option"
  wrst_CloseTime :: "gotime option"
  wrst_CompletionTime :: "gotime option"
  wrst_HistoryLength :: int
  wrst_Failure :: "WorkflowRunFailure option"
  wrst_Conditions :: "Condition list"

text \<open>\<^verbatim>\<open>metadata.uid\<close> is kept beside the other metadata, as only this controller reads it.\<close>

record TemporalWorkflowRun =
  wr_Meta :: ObjectMeta
  wr_UID :: string
  wr_Spec :: TemporalWorkflowRunSpec
  wr_Status :: TemporalWorkflowRunStatus

section \<open>Client credentials (temporalclusterclient_types.go)\<close>

record TemporalClusterClientSpec =
  tcc_ClusterRef :: ClusterReference
  tcc_SecretName :: string

record TemporalClusterClientStatus =
  tccst_ObservedGeneration :: int
  tccst_SecretRef :: "string option"
  tccst_Conditions :: "Condition list"

record TemporalClusterClient =
  tcc_Meta :: ObjectMeta
  tcc_Spec :: TemporalClusterClientSpec
  tcc_Status :: TemporalClusterClientStatus

section \<open>Cluster connections (temporalclusterconnection_types.go)\<close>

record ClusterConnectionPeer =
  ccp_Name :: string
  ccp_ClusterRef :: "ClusterReference option"
  ccp_FrontendAddress :: string
  ccp_TLSSecretRef :: "SecretReference option"
  ccp_EnableConnection :: "bool option"

record TemporalClusterConnectionSpec =
  tccs_Peers :: "ClusterConnectionPeer list"

record PeerConnectionStatus =
  pcs_Name :: string
  pcs_Reachable :: bool
  pcs_Connected :: bool
  pcs_Message :: string

record TemporalClusterConnectionStatus =
  tcnst_ObservedGeneration :: int
  tcnst_Peers :: "PeerConnectionStatus list"
  tcnst_Conditions :: "Condition list"

record TemporalClusterConnection =
  tcn_Meta :: ObjectMeta
  tcn_Spec :: TemporalClusterConnectionSpec
  tcn_Status :: TemporalClusterConnectionStatus

end
