(* ===== verification/Temporal_Client.thy ===== *)
theory Temporal_Client
  imports World
begin

text \<open>
  The clients of a Temporal frontend for namespaces, search attributes and remote clusters
  (\<^verbatim>\<open>src/internal/temporal/client.go\<close>).  A client interface is a record of operations.  The record
  \<open>frontend\<close> holds what the generated gRPC stubs answer, as a function of the calls made so far; an
  RPC is recorded with the address it goes to.  Closing a connection has no effect here.
\<close>

section \<open>The gRPC stubs\<close>

record frontend =
  f_NewClient :: "call list \<Rightarrow> string \<Rightarrow> TlsConfig option \<Rightarrow> err option"
  f_DescribeNamespace :: "call list \<Rightarrow> string \<Rightarrow> string \<Rightarrow> DescribeNamespaceResponse result"
  f_RegisterNamespace :: "call list \<Rightarrow> string \<Rightarrow> RegisterNamespaceRequest \<Rightarrow> err option"
  f_UpdateNamespace :: "call list \<Rightarrow> string \<Rightarrow> UpdateNamespaceRequest \<Rightarrow> err option"
  f_DeleteNamespace :: "call list \<Rightarrow> string \<Rightarrow> string \<Rightarrow> err option"
  f_ListSearchAttributes :: "call list \<Rightarrow> string \<Rightarrow> string \<Rightarrow> (string \<rightharpoonup> IndexedValueType) result"
  f_AddSearchAttributes :: "call list \<Rightarrow> string \<Rightarrow> string \<Rightarrow> string \<Rightarrow> IndexedValueType \<Rightarrow> err option"
  f_RemoveSearchAttributes :: "call list \<Rightarrow> string \<Rightarrow> string \<Rightarrow> string \<Rightarrow> err option"
  f_ListClusters :: "call list \<Rightarrow> string \<Rightarrow> string \<Rightarrow> ListClustersResponse result"
  f_AddOrUpdateRemoteCluster :: "call list \<Rightarrow> string \<Rightarrow> string \<Rightarrow> bool \<Rightarrow> err option"
  f_RemoveRemoteCluster :: "call list \<Rightarrow> string \<Rightarrow> string \<Rightarrow> err option"
  f_DescribeSchedule :: "call list \<Rightarrow> string \<Rightarrow> string \<Rightarrow> string \<Rightarrow> DescribeScheduleResponse result"
  f_CreateSchedule :: "call list \<Rightarrow> string \<Rightarrow> string \<Rightarrow> string \<Rightarrow> ScheduleProto \<Rightarrow> err option"
  f_UpdateSchedule :: "call list \<Rightarrow> string \<Rightarrow> string \<Rightarrow> string \<Rightarrow> ScheduleProto \<Rightarrow> err option"
  f_PatchSchedule :: "call list \<Rightarrow> string \<Rightarrow> string \<Rightarrow> string \<Rightarrow> SchedulePatch \<Rightarrow> err option"
  f_DeleteSchedule :: "call list \<Rightarrow> string \<Rightarrow> string \<Rightarrow> string \<Rightarrow> err option"
  f_StartWorkflow :: "call list \<Rightarrow> string \<Rightarrow> StartWorkflowRequest \<Rightarrow> string result"
  f_DescribeWorkflow :: "call list \<Rightarrow> string \<Rightarrow> string \<Rightarrow> string \<Rightarrow> string \<Rightarrow> WorkflowExecutionInfoProto result"
  f_GetHistory :: "call list \<Rightarrow> string \<Rightarrow> string \<Rightarrow> string \<Rightarrow> string \<Rightarrow> HistoryEvent list result"
  f_CancelWorkflow :: "call list \<Rightarrow> string \<Rightarrow> string \<Rightarrow> string \<Rightarrow> string \<Rightarrow> string \<Rightarrow> err option"
  f_TerminateWorkflow :: "call list \<Rightarrow> string \<Rightarrow> string \<Rightarrow> string \<Rightarrow> string \<Rightarrow> string \<Rightarrow> err option"

text \<open>\<^verbatim>\<open>status.Code\<close>: the code of the gRPC status error that an error is or wraps.\<close>

fun statusCode :: "err \<Rightarrow> grpc_code" where
  "statusCode (GrpcErr c _) = c"
| "statusCode (WrapErr _ e) = statusCode e"
| "statusCode _ = CodeUnknown"

text \<open>\<^verbatim>\<open>grpc.NewClient\<close> with the credentials that the TLS configuration gives.\<close>

definition dial :: "frontend \<Rightarrow> string \<Rightarrow> TlsConfig option \<Rightarrow> err option act" where
  "dial F address tlsConfig = perform (CDial address) (\<lambda>tr. f_NewClient F tr address tlsConfig)"

section \<open>Namespaces\<close>

record NamespaceParams =
  np_Name :: string
  np_Description :: string
  np_OwnerEmail :: string
  np_RetentionPeriod :: duration
  np_IsGlobal :: bool
  np_Clusters :: "string list"
  np_ActiveCluster :: string

record NamespaceInfo =
  ni_ID :: string
  ni_Description :: string
  ni_OwnerEmail :: string
  ni_RetentionPeriod :: duration
  ni_IsGlobal :: bool
  ni_ActiveCluster :: string
  ni_Clusters :: "string list"

record NamespaceClient =
  nc_Describe :: "string \<Rightarrow> NamespaceInfo option result act"
  nc_Register :: "NamespaceParams \<Rightarrow> err option act"
  nc_Update :: "NamespaceParams \<Rightarrow> err option act"
  nc_Failover :: "string \<Rightarrow> string \<Rightarrow> err option act"
  nc_Delete :: "string \<Rightarrow> err option act"

definition clusterReplicationConfigs :: "string list \<Rightarrow> string list" where
  "clusterReplicationConfigs clusters = map (\<lambda>c. c) clusters"

definition namespaceInfoFromProto :: "DescribeNamespaceResponse \<Rightarrow> NamespaceInfo" where
  "namespaceInfoFromProto resp =
     (let info = \<lparr>ni_ID = [], ni_Description = [], ni_OwnerEmail = [], ni_RetentionPeriod = 0,
                  ni_IsGlobal = False, ni_ActiveCluster = [], ni_Clusters = []\<rparr>;
          i1 = (case dnr_NamespaceInfo resp of
              None \<Rightarrow> info
            | Some n \<Rightarrow> info \<lparr>ni_ID := nip_Id n, ni_Description := nip_Description n, ni_OwnerEmail := nip_OwnerEmail n\<rparr>);
          i2 = (case dnr_Retention resp of None \<Rightarrow> i1 | Some d \<Rightarrow> i1 \<lparr>ni_RetentionPeriod := d\<rparr>);
          i3 = i2 \<lparr>ni_IsGlobal := dnr_IsGlobal resp\<rparr>
      in case dnr_ReplicationConfig resp of
           None \<Rightarrow> i3
         | Some rc \<Rightarrow> i3 \<lparr>ni_ActiveCluster := rcp_ActiveClusterName rc, ni_Clusters := rcp_Clusters rc\<rparr>)"

definition registerNamespaceRequest :: "NamespaceParams \<Rightarrow> RegisterNamespaceRequest" where
  "registerNamespaceRequest params =
     \<lparr>rnr_Namespace = np_Name params, rnr_Description = np_Description params,
      rnr_OwnerEmail = np_OwnerEmail params, rnr_Retention = np_RetentionPeriod params,
      rnr_IsGlobal = np_IsGlobal params, rnr_Clusters = clusterReplicationConfigs (np_Clusters params),
      rnr_ActiveClusterName = np_ActiveCluster params\<rparr>"

definition updateNamespaceRequest :: "NamespaceParams \<Rightarrow> UpdateNamespaceRequest" where
  "updateNamespaceRequest params =
     \<lparr>unr_Namespace = np_Name params,
      unr_UpdateInfo = Some (np_Description params, np_OwnerEmail params),
      unr_Retention = Some (np_RetentionPeriod params),
      unr_ReplicationConfig =
        (if np_Clusters params \<noteq> []
         then Some \<lparr>rcp_ActiveClusterName = [], rcp_Clusters = clusterReplicationConfigs (np_Clusters params)\<rparr>
         else None)\<rparr>"

definition failoverNamespaceRequest :: "string \<Rightarrow> string \<Rightarrow> UpdateNamespaceRequest" where
  "failoverNamespaceRequest name activeCluster =
     \<lparr>unr_Namespace = name, unr_UpdateInfo = None, unr_Retention = None,
      unr_ReplicationConfig = Some \<lparr>rcp_ActiveClusterName = activeCluster, rcp_Clusters = []\<rparr>\<rparr>"

definition grpcNamespaceDescribe :: "frontend \<Rightarrow> string \<Rightarrow> string \<Rightarrow> NamespaceInfo option result act" where
  "grpcNamespaceDescribe F addr name = do {
     r \<leftarrow> perform (CTemporal addr (DescribeNamespace name)) (\<lambda>tr. f_DescribeNamespace F tr addr name);
     State_Monad.return (case r of
       Inl e \<Rightarrow> Inl (if statusCode e = CodeNotFound then ErrNamespaceNotFound else e)
     | Inr resp \<Rightarrow> Inr (Some (namespaceInfoFromProto resp)))
   }"

definition grpcNamespaceRegister :: "frontend \<Rightarrow> string \<Rightarrow> NamespaceParams \<Rightarrow> err option act" where
  "grpcNamespaceRegister F addr params =
     (let req = registerNamespaceRequest params
      in perform (CTemporal addr (RegisterNamespace req)) (\<lambda>tr. f_RegisterNamespace F tr addr req))"

definition grpcNamespaceUpdate :: "frontend \<Rightarrow> string \<Rightarrow> NamespaceParams \<Rightarrow> err option act" where
  "grpcNamespaceUpdate F addr params =
     (let req = updateNamespaceRequest params
      in perform (CTemporal addr (UpdateNamespace req)) (\<lambda>tr. f_UpdateNamespace F tr addr req))"

definition grpcNamespaceFailover :: "frontend \<Rightarrow> string \<Rightarrow> string \<Rightarrow> string \<Rightarrow> err option act" where
  "grpcNamespaceFailover F addr name activeCluster =
     (let req = failoverNamespaceRequest name activeCluster
      in perform (CTemporal addr (UpdateNamespace req)) (\<lambda>tr. f_UpdateNamespace F tr addr req))"

definition grpcNamespaceDelete :: "frontend \<Rightarrow> string \<Rightarrow> string \<Rightarrow> err option act" where
  "grpcNamespaceDelete F addr name =
     perform (CTemporal addr (DeleteNamespace name)) (\<lambda>tr. f_DeleteNamespace F tr addr name)"

definition grpcNamespaceClient :: "frontend \<Rightarrow> string \<Rightarrow> NamespaceClient" where
  "grpcNamespaceClient F addr =
     \<lparr>nc_Describe = grpcNamespaceDescribe F addr, nc_Register = grpcNamespaceRegister F addr,
      nc_Update = grpcNamespaceUpdate F addr, nc_Failover = grpcNamespaceFailover F addr,
      nc_Delete = grpcNamespaceDelete F addr\<rparr>"

definition NewNamespaceClient :: "frontend \<Rightarrow> string \<Rightarrow> TlsConfig option \<Rightarrow> NamespaceClient result act" where
  "NewNamespaceClient F address tlsConfig = do {
     e \<leftarrow> dial F address tlsConfig;
     State_Monad.return (case e of Some er \<Rightarrow> Inl er | None \<Rightarrow> Inr (grpcNamespaceClient F address))
   }"

section \<open>Search attributes\<close>

record SearchAttributeClient =
  sac_List :: "string \<Rightarrow> (string \<rightharpoonup> string) result act"
  sac_Add :: "string \<Rightarrow> string \<Rightarrow> string \<Rightarrow> err option act"
  sac_Remove :: "string \<Rightarrow> string \<Rightarrow> err option act"

definition searchAttributeTypes :: "IndexedValueType goalist" where
  "searchAttributeTypes =
     [(''Text'', IndexedText), (''Keyword'', IndexedKeyword), (''Int'', IndexedInt),
      (''Double'', IndexedDouble), (''Bool'', IndexedBool), (''Datetime'', IndexedDatetime),
      (''KeywordList'', IndexedKeywordList)]"

definition searchAttributeTypeName :: "IndexedValueType \<Rightarrow> string" where
  "searchAttributeTypeName t =
     (case findFirst (\<lambda>p. snd p = t) searchAttributeTypes of None \<Rightarrow> [] | Some p \<Rightarrow> fst p)"

definition grpcSearchAttributeList :: "frontend \<Rightarrow> string \<Rightarrow> string \<Rightarrow> (string \<rightharpoonup> string) result act" where
  "grpcSearchAttributeList F addr ns = do {
     r \<leftarrow> perform (CTemporal addr (ListSearchAttributes ns)) (\<lambda>tr. f_ListSearchAttributes F tr addr ns);
     State_Monad.return (case r of
       Inl e \<Rightarrow> Inl e
     | Inr custom \<Rightarrow> Inr (\<lambda>name. map_option searchAttributeTypeName (custom name)))
   }"

definition grpcSearchAttributeAdd :: "frontend \<Rightarrow> string \<Rightarrow> string \<Rightarrow> string \<Rightarrow> string \<Rightarrow> err option act" where
  "grpcSearchAttributeAdd F addr ns name attrType =
     (case map_of searchAttributeTypes attrType of
        None \<Rightarrow> State_Monad.return (Some (ErrMsg (''unknown search attribute type '' @ goQuote attrType)))
      | Some t \<Rightarrow>
          perform (CTemporal addr (AddSearchAttributes ns name t)) (\<lambda>tr. f_AddSearchAttributes F tr addr ns name t))"

definition grpcSearchAttributeRemove :: "frontend \<Rightarrow> string \<Rightarrow> string \<Rightarrow> string \<Rightarrow> err option act" where
  "grpcSearchAttributeRemove F addr ns name =
     perform (CTemporal addr (RemoveSearchAttributes ns name)) (\<lambda>tr. f_RemoveSearchAttributes F tr addr ns name)"

definition NewSearchAttributeClient :: "frontend \<Rightarrow> string \<Rightarrow> TlsConfig option \<Rightarrow> SearchAttributeClient result act" where
  "NewSearchAttributeClient F address tlsConfig = do {
     c \<leftarrow> NewNamespaceClient F address tlsConfig;
     State_Monad.return (case c of
       Inl e \<Rightarrow> Inl e
     | Inr _ \<Rightarrow> Inr \<lparr>sac_List = grpcSearchAttributeList F address, sac_Add = grpcSearchAttributeAdd F address,
                     sac_Remove = grpcSearchAttributeRemove F address\<rparr>)
   }"

section \<open>Remote clusters\<close>

record RemoteClusterInfo =
  rci_Name :: string
  rci_Address :: string
  rci_InitialFailoverVersion :: int
  rci_ConnectionEnabled :: bool
  rci_HistoryShardCount :: int

record RemoteClusterClient =
  rcc_List :: "RemoteClusterInfo list result act"
  rcc_Upsert :: "string \<Rightarrow> bool \<Rightarrow> err option act"
  rcc_Remove :: "string \<Rightarrow> err option act"

definition remoteClusterInfoFromProto :: "ClusterMetadataProto \<Rightarrow> RemoteClusterInfo" where
  "remoteClusterInfoFromProto m =
     \<lparr>rci_Name = cmp_ClusterName m, rci_Address = cmp_Address m,
      rci_InitialFailoverVersion = cmp_InitialFailoverVersion m,
      rci_ConnectionEnabled = cmp_IsConnectionEnabled m, rci_HistoryShardCount = cmp_HistoryShardCount m\<rparr>"

text \<open>
  The paging loop.  It ends when a page carries no token; the first argument bounds the number of
  pages that are asked for, and the loop that would ask for more does not return (\<open>None\<close>).
\<close>

fun listPages :: "frontend \<Rightarrow> string \<Rightarrow> nat \<Rightarrow> string \<Rightarrow> RemoteClusterInfo list \<Rightarrow> RemoteClusterInfo list result option act" where
  "listPages F addr 0 pageToken out = State_Monad.return None"
| "listPages F addr (Suc n) pageToken out = do {
     r \<leftarrow> perform (CTemporal addr (ListClusters pageToken)) (\<lambda>tr. f_ListClusters F tr addr pageToken);
     case r of
       Inl e \<Rightarrow> State_Monad.return (Some (Inl e))
     | Inr resp \<Rightarrow>
         (let out' = out @ map remoteClusterInfoFromProto (lcr_Clusters resp)
          in if lcr_NextPageToken resp = [] then State_Monad.return (Some (Inr out'))
             else listPages F addr n (lcr_NextPageToken resp) out')
   }"

text \<open>A listing over at most \<open>pages\<close> pages; one that does not return is a panic here.\<close>

definition grpcListRemoteClusters :: "frontend \<Rightarrow> nat \<Rightarrow> string \<Rightarrow> RemoteClusterInfo list result act" where
  "grpcListRemoteClusters F pages addr = do {
     r \<leftarrow> listPages F addr pages [] [];
     State_Monad.return (case r of None \<Rightarrow> Inl (Panic ''the listing does not end'') | Some x \<Rightarrow> x)
   }"

definition grpcUpsertRemoteCluster :: "frontend \<Rightarrow> string \<Rightarrow> string \<Rightarrow> bool \<Rightarrow> err option act" where
  "grpcUpsertRemoteCluster F addr frontendAddr enableConnection =
     perform (CTemporal addr (AddOrUpdateRemoteCluster frontendAddr enableConnection))
       (\<lambda>tr. f_AddOrUpdateRemoteCluster F tr addr frontendAddr enableConnection)"

definition grpcRemoveRemoteCluster :: "frontend \<Rightarrow> string \<Rightarrow> string \<Rightarrow> err option act" where
  "grpcRemoveRemoteCluster F addr name =
     perform (CTemporal addr (RemoveRemoteClusterCall name)) (\<lambda>tr. f_RemoveRemoteCluster F tr addr name)"

definition NewRemoteClusterClient :: "frontend \<Rightarrow> nat \<Rightarrow> string \<Rightarrow> TlsConfig option \<Rightarrow> RemoteClusterClient result act" where
  "NewRemoteClusterClient F pages address tlsConfig = do {
     c \<leftarrow> NewNamespaceClient F address tlsConfig;
     State_Monad.return (case c of
       Inl e \<Rightarrow> Inl e
     | Inr _ \<Rightarrow> Inr \<lparr>rcc_List = grpcListRemoteClusters F pages address, rcc_Upsert = grpcUpsertRemoteCluster F address,
                     rcc_Remove = grpcRemoveRemoteCluster F address\<rparr>)
   }"

end
