(* ===== verification/Dev_Servers.thy ===== *)
theory Dev_Servers
  imports Satellite_Types Deployments
begin

text \<open>
  The objects of a dev server (\<^verbatim>\<open>src/internal/resources/devserver.go\<close>) and the certificate of a client
  (\<^verbatim>\<open>clientcert.go\<close>).
\<close>

section \<open>Dev servers\<close>

abbreviation dev_Name :: "TemporalDevServer \<Rightarrow> string" where "dev_Name d \<equiv> om_Name (dev_Meta d)"
abbreviation dev_Namespace :: "TemporalDevServer \<Rightarrow> string" where "dev_Namespace d \<equiv> om_Namespace (dev_Meta d)"

definition DevServerFrontendPort :: int where "DevServerFrontendPort = 7233"
definition DevServerUIPort :: int where "DevServerUIPort = 8233"

definition DevServerFrontendServiceName :: "string \<Rightarrow> string" where
  "DevServerFrontendServiceName name = name @ ''-devserver''"

definition DevServerPVCName :: "string \<Rightarrow> string" where
  "DevServerPVCName name = name @ ''-devserver-data''"

definition devServerSelectorLabels :: "string \<Rightarrow> gomap" where
  "devServerSelectorLabels name =
     [LabelName \<mapsto> ''temporal'', LabelInstance \<mapsto> name, LabelComponent \<mapsto> ''devserver'']"

definition devServerLabels :: "string \<Rightarrow> gomap" where
  "devServerLabels name = (devServerSelectorLabels name)(LabelManagedBy \<mapsto> ''temporal-operator'')"

definition DevServerImage :: "TemporalDevServer \<Rightarrow> string result" where
  "DevServerImage dev =
     (if dev_Image (dev_Spec dev) \<noteq> [] then Inr (dev_Image (dev_Spec dev))
      else
        (let version = (if dev_Version (dev_Spec dev) = [] then LatestSupportedVersion else dev_Version (dev_Spec dev));
             cli = DevServerCLIVersion version
         in if cli = []
            then Inl (ErrMsg (''unsupported dev server version '' @ goQuote version @
                   '': not in the supported matrix ['' @ joinWith '' '' SupportedVersions @ '']''))
            else Inr (''temporalio/temporal:'' @ cli)))"

definition DevServerServerVersion :: "TemporalDevServer \<Rightarrow> string" where
  "DevServerServerVersion dev =
     (if dev_Image (dev_Spec dev) \<noteq> [] then []
      else if dev_Version (dev_Spec dev) \<noteq> [] then dev_Version (dev_Spec dev)
      else LatestSupportedVersion)"

definition devUIEnabled :: "TemporalDevServer \<Rightarrow> bool" where
  "devUIEnabled dev = (case dev_UI (dev_Spec dev) of None \<Rightarrow> True | Some u \<Rightarrow> dui_Enabled u)"

definition devServerArgs :: "TemporalDevServer \<Rightarrow> string list" where
  "devServerArgs dev =
     [''server'', ''start-dev'', ''--ip'', ''0.0.0.0'', ''--port'', itoa DevServerFrontendPort,
      ''--db-filename'', ''/data'' @ ''/temporal.db''] @
     (if devUIEnabled dev then [''--ui-ip'', ''0.0.0.0'', ''--ui-port'', itoa DevServerUIPort] else [''--headless'']) @
     concat (map (\<lambda>ns. [''--namespace'', ns]) (dev_Namespaces (dev_Spec dev)))"

definition isPersistent :: "TemporalDevServer \<Rightarrow> bool" where
  "isPersistent dev = (case dev_Storage (dev_Spec dev) of None \<Rightarrow> False | Some s \<Rightarrow> dst_Type s = ''Persistent'')"

definition devServerVolume :: "TemporalDevServer \<Rightarrow> Volume" where
  "devServerVolume dev =
     mkVolume ''data'' (if isPersistent dev then VolPVC (DevServerPVCName (dev_Name dev)) else VolEmptyDir)"

definition BuildDevServerDeployment :: "TemporalDevServer \<Rightarrow> string \<Rightarrow> Deployment" where
  "BuildDevServerDeployment dev img =
     (let spec = dev_Spec dev;
          labels = devServerLabels (dev_Name dev);
          ports = mkCPort ''grpc'' DevServerFrontendPort #
            (if devUIEnabled dev then [mkCPort ''ui'' DevServerUIPort] else []);
          container = zeroContainer \<lparr>
            ct_Name := ''temporal'', ct_Image := img, ct_Command := [''temporal''], ct_Args := devServerArgs dev,
            ct_Ports := ports, ct_Resources := dev_Resources spec,
            ct_ReadinessProbe := Some (mkProbe (ProbeTCP DevServerFrontendPort)),
            ct_VolumeMounts := [mkMount ''data'' ''/data'' False]\<rparr>
      in newDeployment (newMeta (dev_Name dev) (dev_Namespace dev) labels Map.empty) 1
           (devServerSelectorLabels (dev_Name dev)) ''Recreate''
           \<lparr>pt_Labels = labels, pt_Annotations = Map.empty,
            pt_Spec = zeroPodSpec \<lparr>
              pod_FSGroup := Some 1000, pod_ImagePullSecrets := dev_ImagePullSecrets spec,
              pod_NodeSelector := dev_NodeSelector spec, pod_Tolerations := dev_Tolerations spec,
              pod_Affinity := dev_Affinity spec, pod_Containers := [container],
              pod_Volumes := [devServerVolume dev]\<rparr>\<rparr>)"

definition BuildDevServerService :: "TemporalDevServer \<Rightarrow> KService" where
  "BuildDevServerService dev =
     (let exposure = dev_Service (dev_Spec dev);
          svcType = (case exposure of None \<Rightarrow> ''ClusterIP'' | Some s \<Rightarrow> if se_Type s \<noteq> [] then se_Type s else ''ClusterIP'');
          annotations = (case exposure of None \<Rightarrow> Map.empty | Some s \<Rightarrow> se_Annotations s)
      in \<lparr>svc_Meta = newMeta (DevServerFrontendServiceName (dev_Name dev)) (dev_Namespace dev)
            (devServerLabels (dev_Name dev)) annotations,
          svc_Type = svcType, svc_ClusterIP = [], svc_PublishNotReady = False,
          svc_Selector = devServerSelectorLabels (dev_Name dev),
          svc_Ports = mkSvcPort ''grpc'' DevServerFrontendPort #
            (if devUIEnabled dev then [mkSvcPort ''ui'' DevServerUIPort] else [])\<rparr>)"

definition BuildDevServerPVC :: "TemporalDevServer \<Rightarrow> PersistentVolumeClaim option" where
  "BuildDevServerPVC dev =
     (case dev_Storage (dev_Spec dev) of
        None \<Rightarrow> None
      | Some s \<Rightarrow>
          if dst_Type s \<noteq> ''Persistent'' then None
          else Some
            \<lparr>pvc_Meta = newMeta (DevServerPVCName (dev_Name dev)) (dev_Namespace dev) (devServerLabels (dev_Name dev)) Map.empty,
             pvc_AccessModes = [''ReadWriteOnce''],
             pvc_StorageClassName = dst_StorageClassName s,
             pvc_Size = derefOr ''1Gi'' (dst_Size s)\<rparr>)"

definition devServerEndpoint :: "TemporalDevServer \<Rightarrow> int \<Rightarrow> string" where
  "devServerEndpoint dev port =
     DevServerFrontendServiceName (dev_Name dev) @ ''.'' @ dev_Namespace dev @ ''.svc:'' @ itoa port"

definition DevServerFrontendEndpoint :: "TemporalDevServer \<Rightarrow> string" where
  "DevServerFrontendEndpoint dev = devServerEndpoint dev DevServerFrontendPort"

definition DevServerUIEndpoint :: "TemporalDevServer \<Rightarrow> string" where
  "DevServerUIEndpoint dev = devServerEndpoint dev DevServerUIPort"

section \<open>Client certificates\<close>

definition ClientSecretName :: "TemporalClusterClient \<Rightarrow> string" where
  "ClientSecretName cc =
     (if tcc_SecretName (tcc_Spec cc) \<noteq> [] then tcc_SecretName (tcc_Spec cc) else om_Name (tcc_Meta cc))"

text \<open>The issuer reference is dereferenced; the caller has checked it.\<close>

definition BuildClientCertificate :: "TemporalClusterClient \<Rightarrow> TemporalCluster \<Rightarrow> Certificate result" where
  "BuildClientCertificate cc cluster =
     bindR (clusterIssuer cluster) (\<lambda>iss.
       Inr \<lparr>crt_Meta = newMeta (om_Name (tcc_Meta cc)) (om_Namespace (tcc_Meta cc))
              [LabelName \<mapsto> ''temporal'', LabelInstance \<mapsto> tc_Name cluster, LabelComponent \<mapsto> ''client'',
               LabelManagedBy \<mapsto> ''temporal-operator'', LabelCluster \<mapsto> tc_Name cluster] Map.empty,
            crt_SecretName = ClientSecretName cc,
            crt_CommonName = om_Name (tcc_Meta cc),
            crt_DNSNames = [], crt_Duration = None, crt_RenewBefore = None,
            crt_IssuerRef = iss, crt_Usages = [UsageClientAuth], crt_Conditions = []\<rparr>)"

end
