(* ===== verification/Targets.thy ===== *)
theory Targets
  imports Satellite_Types Temporal_Client Dev_Servers
begin

text \<open>
  What the controllers of the satellite resources share: how a cluster reference is resolved to a
  frontend (\<^verbatim>\<open>src/internal/controller/target.go\<close>), its client TLS configuration (\<^verbatim>\<open>temporal_tls.go\<close>) and
  the watch predicates (\<^verbatim>\<open>cluster_watch.go\<close>).  The record \<open>crd_api\<close> adds to the Kubernetes API the reads
  of the custom resources, the update of an object, the finalizer functions, the crypto functions and the
  condition functions.
\<close>

section \<open>The API\<close>

record crd_api =
  ca_kube :: kube
  ca_meta :: meta_api
  ca_GetDevServer :: "call list \<Rightarrow> string \<Rightarrow> string \<Rightarrow> TemporalDevServer result"
  ca_GetNamespace :: "call list \<Rightarrow> string \<Rightarrow> string \<Rightarrow> TemporalNamespace result"
  ca_GetSearchAttribute :: "call list \<Rightarrow> string \<Rightarrow> string \<Rightarrow> TemporalSearchAttribute result"
  ca_GetSchedule :: "call list \<Rightarrow> string \<Rightarrow> string \<Rightarrow> TemporalSchedule result"
  ca_GetWorkflowRun :: "call list \<Rightarrow> string \<Rightarrow> string \<Rightarrow> TemporalWorkflowRun result"
  ca_GetClusterClient :: "call list \<Rightarrow> string \<Rightarrow> string \<Rightarrow> TemporalClusterClient result"
  ca_GetConnection :: "call list \<Rightarrow> string \<Rightarrow> string \<Rightarrow> TemporalClusterConnection result"
  ca_Update :: "call list \<Rightarrow> string \<Rightarrow> string \<Rightarrow> string \<Rightarrow> string list \<Rightarrow> err option"
  ca_ContainsFinalizer :: "ObjectMeta \<Rightarrow> string \<Rightarrow> bool"
  ca_AddFinalizer :: "ObjectMeta \<Rightarrow> string \<Rightarrow> ObjectMeta"
  ca_RemoveFinalizer :: "ObjectMeta \<Rightarrow> string \<Rightarrow> ObjectMeta"
  ca_X509KeyPair :: "string \<Rightarrow> string \<Rightarrow> string result"
  ca_AppendCerts :: "string \<Rightarrow> bool"

text \<open>\<^verbatim>\<open>Update\<close> of an object whose finalizers were changed.\<close>

definition updateObj :: "crd_api \<Rightarrow> string \<Rightarrow> ObjectMeta \<Rightarrow> err option act" where
  "updateObj A kind m =
     perform (CUpdate kind (om_Namespace m) (om_Name m) (om_Finalizers m))
       (\<lambda>tr. ca_Update A tr kind (om_Namespace m) (om_Name m) (om_Finalizers m))"

text \<open>
  The documented behaviour of controller-runtime's finalizer functions: they look for, add and remove
  one entry of the list and change nothing else.
\<close>

definition finalizer_laws :: "crd_api \<Rightarrow> bool" where
  "finalizer_laws A \<longleftrightarrow>
     (\<forall>m f. ca_ContainsFinalizer A m f \<longleftrightarrow> f \<in> set (om_Finalizers m)) \<and>
     (\<forall>m f. set (om_Finalizers (ca_AddFinalizer A m f)) = insert f (set (om_Finalizers m))) \<and>
     (\<forall>m f. set (om_Finalizers (ca_RemoveFinalizer A m f)) = set (om_Finalizers m) - {f}) \<and>
     (\<forall>m f. ca_AddFinalizer A m f \<lparr>om_Finalizers := []\<rparr> = m \<lparr>om_Finalizers := []\<rparr>) \<and>
     (\<forall>m f. ca_RemoveFinalizer A m f \<lparr>om_Finalizers := []\<rparr> = m \<lparr>om_Finalizers := []\<rparr>)"

text \<open>The deletion timestamp is set.\<close>

definition isDeleting :: "ObjectMeta \<Rightarrow> bool" where
  "isDeleting m = (om_DeletionTimestamp m \<noteq> None)"

text \<open>
  The end of a pass: the result and the error that are returned, and the object whose status the API
  server accepted.  A missing object is not an error.
\<close>

type_synonym 'a outcome = "'a option \<times> Result \<times> err option"

definition failed :: "err \<Rightarrow> 'a outcome act" where
  "failed e = State_Monad.return (None, noResult, Some e)"

definition finished :: "Result \<Rightarrow> err option \<Rightarrow> 'a outcome act" where
  "finished r e = State_Monad.return (None, r, e)"

definition writeStatus :: "crd_api \<Rightarrow> string \<Rightarrow> ('a \<Rightarrow> ObjectMeta) \<Rightarrow> 'a \<Rightarrow> Result \<Rightarrow> 'a outcome act" where
  "writeStatus A kind meta ob r = do {
     e \<leftarrow> statusUpdate (ca_kube A) kind (om_Namespace (meta ob)) (om_Name (meta ob));
     State_Monad.return (case e of None \<Rightarrow> (Some ob, r, None) | Some er \<Rightarrow> (None, r, ignoreNotFound er))
   }"

definition readyCondition :: "ObjectMeta \<Rightarrow> ConditionStatus \<Rightarrow> string \<Rightarrow> string \<Rightarrow> Condition" where
  "readyCondition m st reason message =
     \<lparr>c_Type = ConditionReady, c_Status = st, c_Reason = reason, c_Message = message,
      c_ObservedGeneration = om_Generation m\<rparr>"

definition seconds :: "int \<Rightarrow> duration" where
  "seconds n = n * 1000000000"

section \<open>Targets (target.go, temporal_tls.go)\<close>

record ResolvedTarget =
  rt_Address :: string
  rt_TLSConfig :: "TlsConfig option"
  rt_Ready :: bool
  rt_WorkflowRunPolicy :: WorkflowRunPolicy

definition effectiveWorkflowRunPolicy :: "string \<Rightarrow> WorkflowRunPolicy option \<Rightarrow> WorkflowRunPolicy" where
  "effectiveWorkflowRunPolicy kind p =
     (case p of
        Some q \<Rightarrow> q
      | None \<Rightarrow> \<lparr>wrp_Enabled = (kind = ClusterKindTemporalDevServer), wrp_AllowedNamespaces = [], wrp_AllowedTaskQueues = []\<rparr>)"

definition frontendAddress :: "TemporalCluster \<Rightarrow> string" where
  "frontendAddress cluster =
     FrontendServiceName (tc_Name cluster) @ ''.'' @ tc_Namespace cluster @ ''.svc:'' @ itoa (port_GRPC (portsOf ''frontend''))"

definition clusterTLSConfig :: "crd_api \<Rightarrow> TemporalCluster \<Rightarrow> TlsConfig option result act" where
  "clusterTLSConfig A cluster =
     (case spec_MTLS (tc_Spec cluster) of
        None \<Rightarrow> State_Monad.return (Inr None)
      | Some _ \<Rightarrow>
          (let name = InternodeCertName (tc_Name cluster);
               key = tc_Namespace cluster @ ''/'' @ name in do {
             r \<leftarrow> getSecret (ca_kube A) (tc_Namespace cluster) name;
             State_Monad.return (case r of
               Inl e \<Rightarrow> Inl (WrapErr (''reading internode cert secret '' @ key) e)
             | Inr secret \<Rightarrow>
             (case ca_X509KeyPair A (derefOr [] (sec_Data secret ''tls.crt'')) (derefOr [] (sec_Data secret ''tls.key'')) of
               Inl e \<Rightarrow> Inl (WrapErr ''parsing client key pair'' e)
             | Inr cert \<Rightarrow>
                 if \<not> ca_AppendCerts A (derefOr [] (sec_Data secret ''ca.crt''))
                 then Inl (ErrMsg (''no CA certificates found in '' @ key @ '' ca.crt''))
                 else Inr (Some
                   \<lparr>tls_Certificate = cert, tls_RootCAs = derefOr [] (sec_Data secret ''ca.crt''),
                    tls_ServerName = FrontendServiceName (tc_Name cluster) @ ''.'' @ tc_Namespace cluster @ ''.svc.cluster.local'',
                    tls_MinVersion = ''TLS1.2''\<rparr>)))
           }))"

definition resolveTarget :: "crd_api \<Rightarrow> string \<Rightarrow> ClusterReference \<Rightarrow> ResolvedTarget result act" where
  "resolveTarget A ns ref =
     (if cref_Kind ref = [] \<or> cref_Kind ref = ClusterKindTemporalCluster then do {
        r \<leftarrow> getCluster (ca_kube A) ns (cref_Name ref);
        case r of
          Inl e \<Rightarrow> State_Monad.return (Inl (if isNotFound e then ErrTargetNotFound else e))
        | Inr cluster \<Rightarrow> do {
            t \<leftarrow> clusterTLSConfig A cluster;
            State_Monad.return (case t of
              Inl e \<Rightarrow> Inl (WrapErr ''building temporal client tls'' e)
            | Inr tlsConfig \<Rightarrow>
                Inr \<lparr>rt_Address = frontendAddress cluster, rt_TLSConfig = tlsConfig,
                     rt_Ready = isStatusConditionTrue (ca_meta A) (st_Conditions (tc_Status cluster)) ConditionReady,
                     rt_WorkflowRunPolicy = effectiveWorkflowRunPolicy ClusterKindTemporalCluster
                       (spec_WorkflowRunPolicy (tc_Spec cluster))\<rparr>)
          }
      }
      else if cref_Kind ref = ClusterKindTemporalDevServer then do {
        r \<leftarrow> perform (CGet ''TemporalDevServer'' ns (cref_Name ref)) (\<lambda>tr. ca_GetDevServer A tr ns (cref_Name ref));
        State_Monad.return (case r of
          Inl e \<Rightarrow> Inl (if isNotFound e then ErrTargetNotFound else e)
        | Inr dev \<Rightarrow>
            Inr \<lparr>rt_Address = DevServerFrontendEndpoint dev, rt_TLSConfig = None,
                 rt_Ready = isStatusConditionTrue (ca_meta A) (devst_Conditions (dev_Status dev)) ConditionReady,
                 rt_WorkflowRunPolicy = effectiveWorkflowRunPolicy ClusterKindTemporalDevServer
                   (dev_WorkflowRunPolicy (dev_Spec dev))\<rparr>)
      }
      else State_Monad.return (Inl (ErrMsg (''unknown cluster reference kind '' @ goQuote (cref_Kind ref)))))"

section \<open>Watches (cluster_watch.go)\<close>

definition clusterUnavailableRequeue :: duration where
  "clusterUnavailableRequeue = seconds 5"

definition isTransientClusterErr :: "err option \<Rightarrow> bool" where
  "isTransientClusterErr e =
     (case e of
        None \<Rightarrow> False
      | Some er \<Rightarrow> statusCode er \<in> {CodeUnavailable, CodeDeadlineExceeded, CodeCanceled})"

definition refTargets :: "ClusterReference \<Rightarrow> string \<Rightarrow> string \<Rightarrow> bool" where
  "refTargets ref kind name =
     ((if cref_Kind ref = [] then ClusterKindTemporalCluster else cref_Kind ref) = kind \<and> cref_Name ref = name)"

text \<open>A watched object: a cluster, a dev server, or anything else.\<close>

datatype watched = WatchedCluster TemporalCluster | WatchedDevServer TemporalDevServer | WatchedOther ObjectMeta

fun watchedMeta :: "watched \<Rightarrow> ObjectMeta" where
  "watchedMeta (WatchedCluster c) = tc_Meta c"
| "watchedMeta (WatchedDevServer d) = dev_Meta d"
| "watchedMeta (WatchedOther m) = m"

definition readyStatusOf :: "meta_api \<Rightarrow> Condition list \<Rightarrow> ConditionStatus" where
  "readyStatusOf M conds =
     (case findStatusCondition M conds ConditionReady of None \<Rightarrow> ConditionUnknown | Some c \<Rightarrow> c_Status c)"

fun targetReadyStatus :: "meta_api \<Rightarrow> watched \<Rightarrow> ConditionStatus" where
  "targetReadyStatus M (WatchedCluster c) = readyStatusOf M (st_Conditions (tc_Status c))"
| "targetReadyStatus M (WatchedDevServer d) = readyStatusOf M (devst_Conditions (dev_Status d))"
| "targetReadyStatus M (WatchedOther _) = ConditionUnknown"

datatype watchEvent =
    CreateEvent watched
  | DeleteEvent watched
  | UpdateEvent "watched option" "watched option"
  | GenericEvent watched

fun clusterReadinessChanged :: "meta_api \<Rightarrow> watchEvent \<Rightarrow> bool" where
  "clusterReadinessChanged M (CreateEvent _) = True"
| "clusterReadinessChanged M (DeleteEvent _) = False"
| "clusterReadinessChanged M (UpdateEvent old new) =
     (case (old, new) of
        (Some o', Some n) \<Rightarrow>
          om_Generation (watchedMeta o') \<noteq> om_Generation (watchedMeta n) \<or>
          targetReadyStatus M o' \<noteq> targetReadyStatus M n
      | _ \<Rightarrow> False)"
| "clusterReadinessChanged M (GenericEvent _) = False"

text \<open>
  The mapping of a changed target to the objects that refer to it, for a kind of object whose
  metadata and references are given: a failed list maps to nothing.
\<close>

definition mapClusterTo :: "('a \<Rightarrow> ObjectMeta) \<Rightarrow> ('a \<Rightarrow> ClusterReference list) \<Rightarrow> 'a list result \<Rightarrow> string \<Rightarrow> string \<Rightarrow> (string \<times> string) list" where
  "mapClusterTo meta refs items kind name =
     (case items of
        Inl _ \<Rightarrow> []
      | Inr xs \<Rightarrow>
          map (\<lambda>x. (om_Namespace (meta x), om_Name (meta x))) (filter (\<lambda>x. list_ex (\<lambda>r. refTargets r kind name) (refs x)) xs))"

end
