(* ===== verification/Namespace_Controller.thy ===== *)
theory Namespace_Controller
  imports Targets
begin

text \<open>
  The controller of TemporalNamespaces (\<^verbatim>\<open>src/internal/controller/temporalnamespace_controller.go\<close>):
  registration, drift, failover and deletion of a namespace of a running cluster.
\<close>

record TemporalNamespaceReconciler =
  nr_Client :: crd_api
  nr_ClientFactory :: "(string \<Rightarrow> TlsConfig option \<Rightarrow> NamespaceClient result act) option"
  nr_Frontend :: frontend

definition namespaceFinalizer :: string where "namespaceFinalizer = ''temporal.bmor10.com/namespace''"

definition namespaceDriftRequeue :: duration where "namespaceDriftRequeue = seconds (5 * 60)"

definition namespaceClientFactory ::
  "TemporalNamespaceReconciler \<Rightarrow> string \<Rightarrow> TlsConfig option \<Rightarrow> NamespaceClient result act" where
  "namespaceClientFactory R = (case nr_ClientFactory R of Some f \<Rightarrow> f | None \<Rightarrow> NewNamespaceClient (nr_Frontend R))"

section \<open>Parameters and drift\<close>

definition namespaceParams :: "TemporalNamespace \<Rightarrow> NamespaceParams" where
  "namespaceParams ns =
     (let spec = tn_Spec ns in
      \<lparr>np_Name = om_Name (tn_Meta ns), np_Description = tns_Description spec, np_OwnerEmail = tns_OwnerEmail spec,
       np_RetentionPeriod = derefOr (seconds (72 * 3600)) (tns_RetentionPeriod spec),
       np_IsGlobal = tns_IsGlobal spec, np_Clusters = tns_Clusters spec, np_ActiveCluster = tns_ActiveCluster spec\<rparr>)"

text \<open>The counting loops of \<open>equalStringSets\<close>: the counts are a Go map with zero for absent keys.\<close>

fun countUp :: "string list \<Rightarrow> (string \<Rightarrow> int) \<Rightarrow> string \<Rightarrow> int" where
  "countUp [] counts = counts"
| "countUp (s # a) counts = countUp a (counts(s := counts s + 1))"

fun countDown :: "string list \<Rightarrow> (string \<Rightarrow> int) \<Rightarrow> bool" where
  "countDown [] counts = True"
| "countDown (s # b) counts =
     (let counts' = counts(s := counts s - 1) in if counts' s < 0 then False else countDown b counts')"

definition equalStringSets :: "string list \<Rightarrow> string list \<Rightarrow> bool" where
  "equalStringSets a b = (if length a \<noteq> length b then False else countDown b (countUp a (\<lambda>_. 0)))"

definition namespaceDrifted :: "NamespaceParams \<Rightarrow> NamespaceInfo option \<Rightarrow> bool" where
  "namespaceDrifted params info =
     (case info of
        None \<Rightarrow> True
      | Some i \<Rightarrow>
          if np_Clusters params \<noteq> [] \<and> \<not> equalStringSets (np_Clusters params) (ni_Clusters i) then True
          else np_Description params \<noteq> ni_Description i \<or> np_OwnerEmail params \<noteq> ni_OwnerEmail i \<or>
               np_RetentionPeriod params \<noteq> ni_RetentionPeriod i)"

section \<open>Registration\<close>

text \<open>After a failover or an update the namespace is read again; a failed read keeps the old view.\<close>

definition redescribe :: "NamespaceClient \<Rightarrow> string \<Rightarrow> NamespaceInfo option \<Rightarrow> NamespaceInfo option act" where
  "redescribe tc name info = do {
     r \<leftarrow> nc_Describe tc name;
     State_Monad.return (case r of Inl _ \<Rightarrow> info | Inr refreshed \<Rightarrow> refreshed)
   }"

text \<open>The declarative failover; the observed namespace is dereferenced.\<close>

definition failoverStep ::
  "TemporalNamespace \<Rightarrow> NamespaceClient \<Rightarrow> NamespaceInfo option \<Rightarrow> (NamespaceInfo option \<times> bool) result act" where
  "failoverStep ns tc info =
     (let params = namespaceParams ns in
      if tns_IsGlobal (tn_Spec ns) \<and> np_ActiveCluster params \<noteq> [] then
        (case info of
           None \<Rightarrow> State_Monad.return (Inl (Panic ''nil namespace info''))
         | Some i \<Rightarrow>
             if np_ActiveCluster params \<noteq> ni_ActiveCluster i then do {
               e \<leftarrow> nc_Failover tc (np_Name params) (np_ActiveCluster params);
               case e of
                 Some er \<Rightarrow> State_Monad.return (Inl (WrapErr ''failing over namespace'' er))
               | None \<Rightarrow> do {
                   info' \<leftarrow> redescribe tc (np_Name params) info;
                   State_Monad.return (Inr (info', True))
                 }
             }
             else State_Monad.return (Inr (info, False)))
      else State_Monad.return (Inr (info, False)))"

definition driftStep ::
  "TemporalNamespace \<Rightarrow> NamespaceClient \<Rightarrow> NamespaceInfo option \<Rightarrow> bool \<Rightarrow> (NamespaceInfo option \<times> bool) result act" where
  "driftStep ns tc info failover =
     (let params = namespaceParams ns in
      if tns_DriftDetection (tn_Spec ns) \<noteq> ''ignore'' \<and> namespaceDrifted params info then do {
        e \<leftarrow> nc_Update tc params;
        case e of
          Some er \<Rightarrow> State_Monad.return (Inl (WrapErr ''updating namespace'' er))
        | None \<Rightarrow> do {
            info' \<leftarrow> redescribe tc (np_Name params) info;
            State_Monad.return (Inr (info', failover))
          }
      }
      else State_Monad.return (Inr (info, failover)))"

definition ensureNamespaceRegistered ::
  "TemporalNamespace \<Rightarrow> NamespaceClient \<Rightarrow> (NamespaceInfo option \<times> bool) result act" where
  "ensureNamespaceRegistered ns tc =
     (let params = namespaceParams ns in do {
        d \<leftarrow> nc_Describe tc (np_Name params);
        case d of
          Inl e \<Rightarrow>
            if errorsIs e ErrNamespaceNotFound then do {
              re \<leftarrow> nc_Register tc params;
              case re of
                Some er \<Rightarrow> State_Monad.return (Inl (WrapErr ''registering namespace'' er))
              | None \<Rightarrow> do {
                  i \<leftarrow> nc_Describe tc (np_Name params);
                  State_Monad.return (case i of Inl er \<Rightarrow> Inl er | Inr info \<Rightarrow> Inr (info, False))
                }
            }
            else State_Monad.return (Inl (WrapErr ''describing namespace'' e))
        | Inr info \<Rightarrow> do {
            f \<leftarrow> failoverStep ns tc info;
            case f of
              Inl e \<Rightarrow> State_Monad.return (Inl e)
            | Inr (info', failover) \<Rightarrow> driftStep ns tc info' failover
          }
      })"

section \<open>Status\<close>

definition ns_setReady :: "TemporalNamespaceReconciler \<Rightarrow> TemporalNamespace \<Rightarrow> ConditionStatus \<Rightarrow> string \<Rightarrow> string \<Rightarrow> TemporalNamespace" where
  "ns_setReady R ns st reason message =
     ns \<lparr>tn_Status := (tn_Status ns)
       \<lparr>tnst_ObservedGeneration := om_Generation (tn_Meta ns),
        tnst_Conditions := setStatusCondition (ca_meta (nr_Client R)) (tnst_Conditions (tn_Status ns))
          (readyCondition (tn_Meta ns) st reason message)\<rparr>\<rparr>"

definition applyReplicationStatus ::
  "TemporalNamespaceReconciler \<Rightarrow> TemporalNamespace \<Rightarrow> NamespaceInfo option \<Rightarrow> bool \<Rightarrow> TemporalNamespace act" where
  "applyReplicationStatus R ns info failoverIssued =
     (case info of
        None \<Rightarrow> State_Monad.return ns
      | Some i \<Rightarrow>
          if \<not> tns_IsGlobal (tn_Spec ns) then State_Monad.return ns
          else do {
            t \<leftarrow> (if failoverIssued then do { n \<leftarrow> nowTime (ca_kube (nr_Client R)); State_Monad.return (Some n) }
                  else State_Monad.return
                    (case tnst_Replication (tn_Status ns) of None \<Rightarrow> None | Some r \<Rightarrow> nrs_LastFailoverTime r));
            State_Monad.return (ns \<lparr>tn_Status := (tn_Status ns) \<lparr>tnst_Replication := Some
              \<lparr>nrs_IsGlobal = ni_IsGlobal i, nrs_ActiveCluster = ni_ActiveCluster i, nrs_Clusters = ni_Clusters i,
               nrs_FailoverInProgress =
                 (tns_ActiveCluster (tn_Spec ns) \<noteq> [] \<and> ni_ActiveCluster i \<noteq> tns_ActiveCluster (tn_Spec ns)),
               nrs_LastFailoverTime = t\<rparr>\<rparr>\<rparr>)
          })"

section \<open>Deletion\<close>

definition ns_dropFinalizer :: "TemporalNamespaceReconciler \<Rightarrow> TemporalNamespace \<Rightarrow> err option act" where
  "ns_dropFinalizer R ns =
     updateObj (nr_Client R) ''TemporalNamespace'' (ca_RemoveFinalizer (nr_Client R) (tn_Meta ns) namespaceFinalizer)"

definition ns_reconcileDelete :: "TemporalNamespaceReconciler \<Rightarrow> TemporalNamespace \<Rightarrow> NamespaceClient \<Rightarrow> err option act" where
  "ns_reconcileDelete R ns tc =
     (if \<not> ca_ContainsFinalizer (nr_Client R) (tn_Meta ns) namespaceFinalizer then State_Monad.return None
      else if tns_AllowDeletion (tn_Spec ns) then do {
        e \<leftarrow> nc_Delete tc (np_Name (namespaceParams ns));
        case e of
          Some er \<Rightarrow>
            if \<not> errorsIs er ErrNamespaceNotFound then State_Monad.return (Some (WrapErr ''deleting namespace'' er))
            else ns_dropFinalizer R ns
        | None \<Rightarrow> ns_dropFinalizer R ns
      }
      else ns_dropFinalizer R ns)"

definition ns_removeFinalizerAndForget :: "TemporalNamespaceReconciler \<Rightarrow> TemporalNamespace \<Rightarrow> err option act" where
  "ns_removeFinalizerAndForget R ns =
     (if ca_ContainsFinalizer (nr_Client R) (tn_Meta ns) namespaceFinalizer then ns_dropFinalizer R ns
      else State_Monad.return None)"

section \<open>Reconcile\<close>

definition ns_write :: "TemporalNamespaceReconciler \<Rightarrow> TemporalNamespace \<Rightarrow> Result \<Rightarrow> TemporalNamespace outcome act" where
  "ns_write R ns r = writeStatus (nr_Client R) ''TemporalNamespace'' tn_Meta ns r"

text \<open>Once the namespace carries the finalizer.\<close>

definition ns_reconcileLive ::
  "TemporalNamespaceReconciler \<Rightarrow> TemporalNamespace \<Rightarrow> ResolvedTarget \<Rightarrow> NamespaceClient \<Rightarrow> TemporalNamespace outcome act" where
  "ns_reconcileLive R ns target tc =
     (if \<not> rt_Ready target then
        ns_write R (ns_setReady R ns ConditionFalse ''ClusterNotReady'' ''waiting for the Temporal target to become ready'')
          (requeueAfter (seconds 15))
      else do {
        r \<leftarrow> ensureNamespaceRegistered ns tc;
        case r of
          Inl e \<Rightarrow>
            if isTransientClusterErr (Some e) then
              ns_write R (ns_setReady R ns ConditionFalse ''FrontendUnavailable''
                ''waiting for the Temporal frontend to become available'') (requeueAfter clusterUnavailableRequeue)
            else failed e
        | Inr (info, failover) \<Rightarrow> do {
            n \<leftarrow> nowTime (ca_kube (nr_Client R));
            (let ns1 = ns \<lparr>tn_Status := (tn_Status ns)
                   \<lparr>tnst_Registered := True, tnst_LastUpdated := Some n,
                    tnst_NamespaceID := (case info of None \<Rightarrow> tnst_NamespaceID (tn_Status ns) | Some i \<Rightarrow> ni_ID i)\<rparr>\<rparr> in do {
               ns2 \<leftarrow> applyReplicationStatus R ns1 info failover;
               ns_write R (ns_setReady R ns2 ConditionTrue ''Registered'' ''namespace is registered'')
                 (requeueAfter namespaceDriftRequeue)
             })
          }
      })"

definition reconcileNamespace :: "TemporalNamespaceReconciler \<Rightarrow> TemporalNamespace \<Rightarrow> TemporalNamespace outcome act" where
  "reconcileNamespace R ns = do {
     t \<leftarrow> resolveTarget (nr_Client R) (om_Namespace (tn_Meta ns)) (tns_ClusterRef (tn_Spec ns));
     case t of
       Inl e \<Rightarrow>
         if isDeleting (tn_Meta ns) then do { de \<leftarrow> ns_removeFinalizerAndForget R ns; finished noResult de }
         else if errorsIs e ErrTargetNotFound then
           ns_write R (ns_setReady R ns ConditionFalse ''ClusterNotFound'' ''referenced Temporal target not found'')
             (requeueAfter namespaceDriftRequeue)
         else failed e
     | Inr target \<Rightarrow> do {
         c \<leftarrow> namespaceClientFactory R (rt_Address target) (rt_TLSConfig target);
         case c of
           Inl e \<Rightarrow>
             if isDeleting (tn_Meta ns) then do { de \<leftarrow> ns_removeFinalizerAndForget R ns; finished noResult de }
             else failed (WrapErr ''building temporal client'' e)
         | Inr tc \<Rightarrow>
             if isDeleting (tn_Meta ns) then do { de \<leftarrow> ns_reconcileDelete R ns tc; finished noResult de }
             else if \<not> ca_ContainsFinalizer (nr_Client R) (tn_Meta ns) namespaceFinalizer then
               (let ns1 = ns \<lparr>tn_Meta := ca_AddFinalizer (nr_Client R) (tn_Meta ns) namespaceFinalizer\<rparr> in do {
                  ue \<leftarrow> updateObj (nr_Client R) ''TemporalNamespace'' (tn_Meta ns1);
                  case ue of Some e \<Rightarrow> failed e | None \<Rightarrow> ns_reconcileLive R ns1 target tc
                })
             else ns_reconcileLive R ns target tc
       }
   }"

definition ReconcileNamespace :: "TemporalNamespaceReconciler \<Rightarrow> string \<Rightarrow> string \<Rightarrow> TemporalNamespace outcome act" where
  "ReconcileNamespace R nsn name = do {
     r \<leftarrow> perform (CGet ''TemporalNamespace'' nsn name) (\<lambda>tr. ca_GetNamespace (nr_Client R) tr nsn name);
     case r of Inl e \<Rightarrow> finished noResult (ignoreNotFound e) | Inr ns \<Rightarrow> reconcileNamespace R ns
   }"

definition mapClusterToNamespaces :: "TemporalNamespace list result \<Rightarrow> string \<Rightarrow> string \<Rightarrow> (string \<times> string) list" where
  "mapClusterToNamespaces items kind name = mapClusterTo tn_Meta (\<lambda>n. [tns_ClusterRef (tn_Spec n)]) items kind name"

end
