(* ===== verification/Satellite_Laws.thy ===== *)
theory Satellite_Laws
  imports Targets "HOL-Library.Multiset"
begin

text \<open>
  What the proofs about the satellite controllers share: which calls the resolution of a target and the
  writing of a status make, the RPCs that change a frontend, and the shape of a client that was built.
\<close>

section \<open>Running an operation\<close>

lemma run_perform [simp]:
  "run_state (perform c answer) w = (answer (w_trace w), w \<lparr>w_trace := w_trace w @ [c]\<rparr>)"
  by (simp add: perform_def)

lemma run_now [simp]: "run_state (nowTime k) w = (k_Now k (w_trace w), w)"
  by (simp add: nowTime_def)

section \<open>Calls on a frontend\<close>

fun isTemporal :: "call \<Rightarrow> bool" where
  "isTemporal (CTemporal _ _) = True"
| "isTemporal _ = False"

text \<open>A call that may change what a frontend holds.\<close>

fun changesTemporal :: "call \<Rightarrow> bool" where
  "changesTemporal (CTemporal _ r) = (\<not> isReadRpc r)"
| "changesTemporal _ = False"

lemma not_temporal_not_change: "\<not> isTemporal c \<Longrightarrow> \<not> changesTemporal c"
  by (cases c) auto

section \<open>Finalizers\<close>

text \<open>The finalizer functions change the list of finalizers only.\<close>

lemma metadata_cong:
  assumes "m' \<lparr>om_Finalizers := []\<rparr> = m \<lparr>om_Finalizers := []\<rparr>"
  shows "om_Name m' = om_Name m" "om_Namespace m' = om_Namespace m" "isDeleting m' = isDeleting m"
  using arg_cong [OF assms, of om_Name] arg_cong [OF assms, of om_Namespace] arg_cong [OF assms, of om_DeletionTimestamp]
  by (simp_all add: isDeleting_def)

lemma finalizer_sets:
  assumes "finalizer_laws A"
  shows "set (om_Finalizers (ca_AddFinalizer A m f)) = insert f (set (om_Finalizers m))"
    "set (om_Finalizers (ca_RemoveFinalizer A m f)) = set (om_Finalizers m) - {f}"
    "ca_ContainsFinalizer A m f \<longleftrightarrow> f \<in> set (om_Finalizers m)"
  using assms by (simp_all add: finalizer_laws_def)

lemma AddFinalizer_same: "finalizer_laws A \<Longrightarrow> ca_AddFinalizer A m f \<lparr>om_Finalizers := []\<rparr> = m \<lparr>om_Finalizers := []\<rparr>"
  by (simp add: finalizer_laws_def)

lemma RemoveFinalizer_same: "finalizer_laws A \<Longrightarrow> ca_RemoveFinalizer A m f \<lparr>om_Finalizers := []\<rparr> = m \<lparr>om_Finalizers := []\<rparr>"
  by (simp add: finalizer_laws_def)

lemmas AddFinalizer_fields = metadata_cong [OF AddFinalizer_same]
lemmas RemoveFinalizer_fields = metadata_cong [OF RemoveFinalizer_same]

section \<open>Emissions of the shared operations\<close>

lemma emits_clusterTLSConfig [emits_rules]:
  "(\<And>k ns n. C (CGet k ns n)) \<Longrightarrow> emits C (clusterTLSConfig A cluster)"
  unfolding clusterTLSConfig_def by (intro emits_rules) auto

lemma emits_resolveTarget [emits_rules]:
  "(\<And>k ns n. C (CGet k ns n)) \<Longrightarrow> emits C (resolveTarget A ns ref)"
  unfolding resolveTarget_def by (intro emits_rules) auto

lemma emits_dial [emits_rules]: "C (CDial a) \<Longrightarrow> emits C (dial F a t)"
  unfolding dial_def by (intro emits_rules)

lemma emits_NewNamespaceClient [emits_rules]: "C (CDial a) \<Longrightarrow> emits C (NewNamespaceClient F a t)"
  unfolding NewNamespaceClient_def by (intro emits_rules)

lemma emits_updateObj [emits_rules]:
  "C (CUpdate kind (om_Namespace m) (om_Name m) (om_Finalizers m)) \<Longrightarrow> emits C (updateObj A kind m)"
  unfolding updateObj_def by (intro emits_rules)

lemma emits_finish [emits_rules]: "emits C (failed e)" "emits C (finished r e')"
  unfolding failed_def finished_def by (intro emits_rules)+

lemma emits_writeStatus [emits_rules]:
  "C (CStatusUpdate kind (om_Namespace (meta ob)) (om_Name (meta ob))) \<Longrightarrow> emits C (writeStatus A kind meta ob r)"
  unfolding writeStatus_def by (intro emits_rules)

section \<open>The client of a dialed frontend\<close>

lemma NewNamespaceClient_Inr:
  "run_state (NewNamespaceClient F a t) w = (Inr tc, w') \<Longrightarrow> tc = grpcNamespaceClient F a"
  by (auto simp: NewNamespaceClient_def dial_def split: option.splits)

text \<open>A continuation of a dial sees an error or the one client the dial can give.\<close>

lemma emits_bind_client:
  assumes "emits C m" "\<And>w c w'. run_state m w = (Inr c, w') \<Longrightarrow> c = cl"
    and "\<And>e. emits C (f (Inl e))" "emits C (f (Inr cl))"
  shows "emits C (State_Monad.bind m f)"
proof (rule emits_bind_dep [OF assms(1)])
  fix w c w'
  assume "run_state m w = (c, w')"
  then show "emits C (f c)" using assms(2) [of w _ w'] assms(3,4) by (cases c) auto
qed

lemma emits_namespaceClient:
  assumes "C (CDial a)" "\<And>e. emits C (f (Inl e))" "emits C (f (Inr (grpcNamespaceClient F a)))"
  shows "emits C (State_Monad.bind (NewNamespaceClient F a t) f)"
  by (rule emits_bind_client [where cl = "grpcNamespaceClient F a"])
    (rule emits_NewNamespaceClient assms | erule NewNamespaceClient_Inr)+

text \<open>The kubernetes side of a pass leaves the frontend alone.\<close>

lemma emits_trace:
  "emits C m \<Longrightarrow> run_state m w = (a, w') \<Longrightarrow> \<exists>cs. w_trace w' = w_trace w @ cs \<and> (\<forall>c\<in>set cs. C c)"
  by (drule emitsD, assumption) (simp add: list_all_iff)

end
