(* ===== verification/Json_Valid.thy ===== *)
theory Json_Valid
  imports Go_Prelude
begin

text \<open>
  \<^verbatim>\<open>encoding/json.Valid\<close> of Go's standard library, the syntax check of the satellite webhooks.  It is the
  library's scanner: a state machine over the bytes with a stack of the open objects and arrays, which
  refuses more than 10000 of them.
\<close>

datatype jframe = ObjectKey | ObjectValue | ArrayValue

datatype jstate =
    BeginValue | BeginValueOrEmpty | BeginString | BeginStringOrEmpty | EndValue | EndTop
  | InString | InStringEsc | InStringEscU nat
  | Neg | Zero | Digits | Dot | DotDigits | Exp | ExpSign | ExpDigits
  | Literal string

definition jsonSpace :: "char \<Rightarrow> bool" where
  "jsonSpace c \<longleftrightarrow> c = CHR '' '' \<or> c = char_of (9::nat) \<or> c = char_of (10::nat) \<or> c = char_of (13::nat)"

definition hexDigitChar :: "char \<Rightarrow> bool" where
  "hexDigitChar c \<longleftrightarrow>
     (let n = of_char c :: nat in (48 \<le> n \<and> n \<le> 57) \<or> (97 \<le> n \<and> n \<le> 102) \<or> (65 \<le> n \<and> n \<le> 70))"

definition maxNestingDepth :: nat where "maxNestingDepth = 10000"

text \<open>The state after a value: the end of the text, or inside the enclosing object or array.\<close>

definition afterValue :: "jframe list \<Rightarrow> jstate" where
  "afterValue st = (if st = [] then EndTop else EndValue)"

definition push :: "jframe \<Rightarrow> jstate \<Rightarrow> jframe list \<Rightarrow> (jstate \<times> jframe list) option" where
  "push f s st = (if length st + 1 \<le> maxNestingDepth then Some (s, f # st) else None)"

text \<open>Closing an object or array.\<close>

definition popped :: "jframe list \<Rightarrow> (jstate \<times> jframe list) option" where
  "popped st = Some (afterValue (tl st), tl st)"

definition beginValue :: "jframe list \<Rightarrow> char \<Rightarrow> (jstate \<times> jframe list) option" where
  "beginValue st c =
     (if jsonSpace c then Some (BeginValue, st)
      else if c = CHR ''{'' then push ObjectKey BeginStringOrEmpty st
      else if c = CHR ''['' then push ArrayValue BeginValueOrEmpty st
      else if c = char_of (34::nat) then Some (InString, st)
      else if c = CHR ''-'' then Some (Neg, st)
      else if c = CHR ''0'' then Some (Zero, st)
      else if c = CHR ''t'' then Some (Literal ''rue'', st)
      else if c = CHR ''f'' then Some (Literal ''alse'', st)
      else if c = CHR ''n'' then Some (Literal ''ull'', st)
      else if isDigit c then Some (Digits, st)
      else None)"

definition endValue :: "jframe list \<Rightarrow> char \<Rightarrow> (jstate \<times> jframe list) option" where
  "endValue st c =
     (case st of
        [] \<Rightarrow> if jsonSpace c then Some (EndTop, []) else None
      | f # rest \<Rightarrow>
          if jsonSpace c then Some (EndValue, st)
          else (case f of
            ObjectKey \<Rightarrow> if c = CHR '':'' then Some (BeginValue, ObjectValue # rest) else None
          | ObjectValue \<Rightarrow>
              if c = CHR '','' then Some (BeginString, ObjectKey # rest)
              else if c = CHR ''}'' then popped st else None
          | ArrayValue \<Rightarrow>
              if c = CHR '','' then Some (BeginValue, st)
              else if c = CHR '']'' then popped st else None))"

fun jstep :: "jstate \<Rightarrow> jframe list \<Rightarrow> char \<Rightarrow> (jstate \<times> jframe list) option" where
  "jstep BeginValue st c = beginValue st c"
| "jstep BeginValueOrEmpty st c =
     (if jsonSpace c then Some (BeginValueOrEmpty, st)
      else if c = CHR '']'' then endValue st c
      else beginValue st c)"
| "jstep BeginStringOrEmpty st c =
     (if jsonSpace c then Some (BeginStringOrEmpty, st)
      else if c = CHR ''}'' then endValue (ObjectValue # tl st) c
      else if c = char_of (34::nat) then Some (InString, st)
      else None)"
| "jstep BeginString st c =
     (if jsonSpace c then Some (BeginString, st)
      else if c = char_of (34::nat) then Some (InString, st)
      else None)"
| "jstep EndValue st c = endValue st c"
| "jstep EndTop st c = (if jsonSpace c then Some (EndTop, st) else None)"
| "jstep InString st c =
     (if c = char_of (34::nat) then Some (afterValue st, st)
      else if c = char_of (92::nat) then Some (InStringEsc, st)
      else if (of_char c :: nat) < 32 then None
      else Some (InString, st))"
| "jstep InStringEsc st c =
     (if c = CHR ''u'' then Some (InStringEscU 4, st)
      else if c \<in> {CHR ''b'', CHR ''f'', CHR ''n'', CHR ''r'', CHR ''t'', char_of (92::nat), CHR ''/'', char_of (34::nat)}
      then Some (InString, st)
      else None)"
| "jstep (InStringEscU n) st c =
     (if hexDigitChar c then Some (if n \<le> 1 then InString else InStringEscU (n - 1), st) else None)"
| "jstep Neg st c =
     (if c = CHR ''0'' then Some (Zero, st) else if isDigit c then Some (Digits, st) else None)"
| "jstep Digits st c =
     (if isDigit c then Some (Digits, st)
      else if c = CHR ''.'' then Some (Dot, st)
      else if c = CHR ''e'' \<or> c = CHR ''E'' then Some (Exp, st)
      else endValue st c)"
| "jstep Zero st c =
     (if c = CHR ''.'' then Some (Dot, st)
      else if c = CHR ''e'' \<or> c = CHR ''E'' then Some (Exp, st)
      else endValue st c)"
| "jstep Dot st c = (if isDigit c then Some (DotDigits, st) else None)"
| "jstep DotDigits st c =
     (if isDigit c then Some (DotDigits, st)
      else if c = CHR ''e'' \<or> c = CHR ''E'' then Some (Exp, st)
      else endValue st c)"
| "jstep Exp st c =
     (if c = CHR ''+'' \<or> c = CHR ''-'' then Some (ExpSign, st) else if isDigit c then Some (ExpDigits, st) else None)"
| "jstep ExpSign st c = (if isDigit c then Some (ExpDigits, st) else None)"
| "jstep ExpDigits st c = (if isDigit c then Some (ExpDigits, st) else endValue st c)"
| "jstep (Literal []) st c = endValue st c"
| "jstep (Literal (x # xs)) st c =
     (if c = x then Some (if xs = [] then afterValue st else Literal xs, st) else None)"

text \<open>At the end of the text a top-level value must be complete.\<close>

fun jfinal :: "jstate \<Rightarrow> jframe list \<Rightarrow> bool" where
  "jfinal EndTop st = True"
| "jfinal Digits st = (st = [])"
| "jfinal Zero st = (st = [])"
| "jfinal DotDigits st = (st = [])"
| "jfinal ExpDigits st = (st = [])"
| "jfinal _ st = False"

fun jscan :: "jstate \<Rightarrow> jframe list \<Rightarrow> string \<Rightarrow> bool" where
  "jscan s st [] = jfinal s st"
| "jscan s st (c # cs) = (case jstep s st c of None \<Rightarrow> False | Some (s', st') \<Rightarrow> jscan s' st' cs)"

definition jsonValid :: "string \<Rightarrow> bool" where
  "jsonValid raw = jscan BeginValue [] raw"

end
