(* ===== verification/Satellite_Webhooks.thy ===== *)
theory Satellite_Webhooks
  imports Satellite_Types Json_Valid Versions
begin

text \<open>
  The validating webhooks of the satellite resources (\<^verbatim>\<open>src/internal/webhook/v1alpha1\<close>): schedules,
  workflow runs, namespaces, cluster connections and search attributes.  A validator gives the error that
  rejects the request, or \<open>None\<close>.  \<^verbatim>\<open>strconv.ParseFloat\<close> is a parameter, as in the controllers.
\<close>

section \<open>Schedules (temporalschedule_webhook.go)\<close>

definition validOverlapPolicies :: "string list" where
  "validOverlapPolicies =
     [[], ''Skip'', ''BufferOne'', ''BufferAll'', ''CancelOther'', ''TerminateOther'', ''AllowAll'']"

definition validReusePolicies :: "string list" where
  "validReusePolicies =
     [[], ''AllowDuplicate'', ''AllowDuplicateFailedOnly'', ''RejectDuplicate'', ''TerminateIfRunning'']"

definition resolvedScheduleID :: "TemporalSchedule \<Rightarrow> string" where
  "resolvedScheduleID sched =
     (if tss_ScheduleID (tsc_Spec sched) \<noteq> [] then tss_ScheduleID (tsc_Spec sched) else om_Name (tsc_Meta sched))"

definition validateScheduleRequiredFields :: "TemporalSchedule \<Rightarrow> err option" where
  "validateScheduleRequiredFields sched =
     (let spec = tsc_Spec sched; a = sas_StartWorkflow (tss_Action spec) in
      if cref_Name (tss_ClusterRef spec) = [] then Some (ErrMsg ''spec.clusterRef.name must not be empty'')
      else if tss_Namespace spec = [] then Some (ErrMsg ''spec.namespace must not be empty'')
      else if swa_WorkflowType a = [] then Some (ErrMsg ''spec.action.startWorkflow.workflowType must not be empty'')
      else if swa_TaskQueue a = [] then Some (ErrMsg ''spec.action.startWorkflow.taskQueue must not be empty'')
      else None)"

definition validateScheduleTimeSource :: "TemporalSchedule \<Rightarrow> err option" where
  "validateScheduleTimeSource sched =
     (let paused = (case tss_State (tsc_Spec sched) of None \<Rightarrow> False | Some s \<Rightarrow> sss_Paused s);
          sp = tss_Schedule (tsc_Spec sched);
          hasTime = (sch_Calendars sp \<noteq> [] \<or> sch_Intervals sp \<noteq> [] \<or> sch_StructuredCalendar sp \<noteq> [])
      in if \<not> hasTime \<and> \<not> paused
         then Some (ErrMsg (''spec.schedule must specify at least one of calendars, intervals, or structuredCalendar '' @
                ''(unless spec.state.paused is true)''))
         else None)"

text \<open>The comparison \<open>f < 1\<close> of a float64: a comparison with NaN is false.\<close>

fun floatLess :: "gofloat \<Rightarrow> rat \<Rightarrow> bool" where
  "floatLess (FloatFinite x) y = (x < y)"
| "floatLess (FloatInf neg) y = neg"
| "floatLess FloatNaN y = False"

definition validateBackoff :: "(string \<Rightarrow> gofloat result) \<Rightarrow> RetryPolicySpec option \<Rightarrow> err option" where
  "validateBackoff parseFloat rp =
     (case rp of
        None \<Rightarrow> None
      | Some p \<Rightarrow>
          if rps_BackoffCoefficient p = [] then None
          else if (case parseFloat (rps_BackoffCoefficient p) of Inl _ \<Rightarrow> True | Inr f \<Rightarrow> floatLess f 1)
          then Some (ErrMsg ''spec.action.startWorkflow.retryPolicy.backoffCoefficient must be a number >= 1'')
          else None)"

definition validateSchedulePolicies :: "(string \<Rightarrow> gofloat result) \<Rightarrow> TemporalSchedule \<Rightarrow> err option" where
  "validateSchedulePolicies parseFloat sched =
     (let spec = tsc_Spec sched; a = sas_StartWorkflow (tss_Action spec) in
      case (case tss_Policies spec of
              None \<Rightarrow> None
            | Some p \<Rightarrow>
                if sps_OverlapPolicy p \<notin> set validOverlapPolicies
                then Some (ErrMsg (''spec.policies.overlapPolicy '' @ goQuote (sps_OverlapPolicy p) @ '' is not valid''))
                else None) of
        Some e \<Rightarrow> Some e
      | None \<Rightarrow>
          if swa_WorkflowIDReusePolicy a \<notin> set validReusePolicies
          then Some (ErrMsg (''spec.action.startWorkflow.workflowIDReusePolicy '' @
                 goQuote (swa_WorkflowIDReusePolicy a) @ '' is not valid''))
          else validateBackoff parseFloat (swa_RetryPolicy a))"

definition badRaw :: "string \<Rightarrow> bool" where
  "badRaw raw = (raw \<noteq> [] \<and> \<not> jsonValid raw)"

fun validateJSONListFrom :: "string \<Rightarrow> nat \<Rightarrow> string list \<Rightarrow> err option" where
  "validateJSONListFrom field i [] = None"
| "validateJSONListFrom field i (raw # raws) =
     (if badRaw raw then Some (ErrMsg (field @ ''['' @ itoa (int i) @ ''] is not valid JSON''))
      else validateJSONListFrom field (Suc i) raws)"

definition validateJSONList :: "string \<Rightarrow> string list \<Rightarrow> err option" where
  "validateJSONList field values = validateJSONListFrom field 0 values"

fun validateJSONMap :: "string \<Rightarrow> string goalist \<Rightarrow> err option" where
  "validateJSONMap field [] = None"
| "validateJSONMap field ((k, raw) # rest) =
     (if badRaw raw then Some (ErrMsg (field @ ''['' @ goQuote k @ ''] is not valid JSON''))
      else validateJSONMap field rest)"

text \<open>The first error of a list of checks.\<close>

fun firstError :: "err option list \<Rightarrow> err option" where
  "firstError [] = None"
| "firstError (c # cs) = (case c of Some e \<Rightarrow> Some e | None \<Rightarrow> firstError cs)"

definition validateSchedule :: "(string \<Rightarrow> gofloat result) \<Rightarrow> TemporalSchedule \<Rightarrow> err option" where
  "validateSchedule parseFloat sched =
     (let a = sas_StartWorkflow (tss_Action (tsc_Spec sched)) in
      firstError
        [validateScheduleRequiredFields sched, validateScheduleTimeSource sched, validateSchedulePolicies parseFloat sched,
         validateJSONList ''spec.action.startWorkflow.args'' (swa_Args a),
         validateJSONMap ''spec.action.startWorkflow.memo'' (swa_Memo a),
         validateJSONMap ''spec.action.startWorkflow.searchAttributes'' (swa_SearchAttributes a)])"

definition schedule_ValidateCreate :: "(string \<Rightarrow> gofloat result) \<Rightarrow> TemporalSchedule \<Rightarrow> err option" where
  "schedule_ValidateCreate parseFloat sched = validateSchedule parseFloat sched"

definition schedule_ValidateUpdate :: "(string \<Rightarrow> gofloat result) \<Rightarrow> TemporalSchedule \<Rightarrow> TemporalSchedule \<Rightarrow> err option" where
  "schedule_ValidateUpdate parseFloat oldSched newSched =
     (if resolvedScheduleID oldSched \<noteq> resolvedScheduleID newSched
      then Some (ErrMsg (''spec.scheduleID is immutable (was '' @ goQuote (resolvedScheduleID oldSched) @ '')''))
      else if tss_Namespace (tsc_Spec newSched) \<noteq> tss_Namespace (tsc_Spec oldSched)
      then Some (ErrMsg (''spec.namespace is immutable (was '' @ goQuote (tss_Namespace (tsc_Spec oldSched)) @ '')''))
      else validateSchedule parseFloat newSched)"

section \<open>Workflow runs (temporalworkflowrun_webhook.go)\<close>

definition validateWorkflowRun :: "TemporalWorkflowRun \<Rightarrow> err option" where
  "validateWorkflowRun run =
     (let spec = wr_Spec run; w = wrs_Workflow spec in
      if cref_Name (wrs_ClusterRef spec) = [] then Some (ErrMsg ''spec.clusterRef.name must not be empty'')
      else if wrs_Namespace spec = [] then Some (ErrMsg ''spec.namespace must not be empty'')
      else if swa_WorkflowType w = [] then Some (ErrMsg ''spec.workflow.workflowType must not be empty'')
      else if swa_TaskQueue w = [] then Some (ErrMsg ''spec.workflow.taskQueue must not be empty'')
      else if swa_WorkflowIDReusePolicy w \<notin> set validReusePolicies
      then Some (ErrMsg (''spec.workflow.workflowIDReusePolicy '' @ goQuote (swa_WorkflowIDReusePolicy w) @ '' is not valid''))
      else firstError
        [validateJSONList ''spec.workflow.args'' (swa_Args w),
         validateJSONMap ''spec.workflow.memo'' (swa_Memo w),
         validateJSONMap ''spec.workflow.searchAttributes'' (swa_SearchAttributes w)])"

text \<open>
  \<^verbatim>\<open>equality.Semantic.DeepEqual\<close> of the two workflows is a parameter: it is apimachinery's.
\<close>

definition run_ValidateUpdate ::
  "(StartWorkflowAction \<Rightarrow> StartWorkflowAction \<Rightarrow> bool) \<Rightarrow> TemporalWorkflowRun \<Rightarrow> TemporalWorkflowRun \<Rightarrow> err option" where
  "run_ValidateUpdate deepEqual oldRun newRun =
     (if wrs_ClusterRef (wr_Spec newRun) \<noteq> wrs_ClusterRef (wr_Spec oldRun) then Some (ErrMsg ''spec.clusterRef is immutable'')
      else if wrs_Namespace (wr_Spec newRun) \<noteq> wrs_Namespace (wr_Spec oldRun)
      then Some (ErrMsg (''spec.namespace is immutable (was '' @ goQuote (wrs_Namespace (wr_Spec oldRun)) @ '')''))
      else if \<not> deepEqual (wrs_Workflow (wr_Spec oldRun)) (wrs_Workflow (wr_Spec newRun))
      then Some (ErrMsg ''spec.workflow is immutable; create a new TemporalWorkflowRun to run again'')
      else validateWorkflowRun newRun)"

definition run_ValidateCreate :: "TemporalWorkflowRun \<Rightarrow> err option" where
  "run_ValidateCreate run = validateWorkflowRun run"

section \<open>Namespaces (temporalnamespace_webhook.go)\<close>

definition validateReplication :: "TemporalNamespace \<Rightarrow> err option" where
  "validateReplication ns =
     (let spec = tn_Spec ns in
      if \<not> tns_IsGlobal spec then
        (if tns_Clusters spec \<noteq> [] \<or> tns_ActiveCluster spec \<noteq> []
         then Some (ErrMsg ''spec.clusters and spec.activeCluster require spec.isGlobal=true'')
         else None)
      else if tns_ActiveCluster spec \<noteq> [] \<and> tns_Clusters spec \<noteq> [] \<and>
              \<not> list_ex (\<lambda>c. c = tns_ActiveCluster spec) (tns_Clusters spec)
      then Some (ErrMsg (''ActiveClusterInvalid: spec.activeCluster '' @ goQuote (tns_ActiveCluster spec) @
             '' must be one of spec.clusters''))
      else None)"

definition namespace_ValidateCreate :: "TemporalNamespace \<Rightarrow> err option" where
  "namespace_ValidateCreate ns =
     (if cref_Name (tns_ClusterRef (tn_Spec ns)) = [] then Some (ErrMsg ''spec.clusterRef.name must not be empty'')
      else validateReplication ns)"

definition namespace_ValidateUpdate :: "TemporalNamespace \<Rightarrow> TemporalNamespace \<Rightarrow> err option" where
  "namespace_ValidateUpdate oldNS newNS =
     (if cref_Name (tns_ClusterRef (tn_Spec newNS)) = [] then Some (ErrMsg ''spec.clusterRef.name must not be empty'')
      else if tns_IsGlobal (tn_Spec oldNS) \<noteq> tns_IsGlobal (tn_Spec newNS)
      then Some (ErrMsg ''IsGlobalImmutable: isGlobal is immutable after creation'')
      else validateReplication newNS)"

section \<open>Cluster connections (temporalclusterconnection_webhook.go)\<close>

text \<open>The entries of the error list: the path of the field, and the complaint.\<close>

datatype peerFieldError = PeerRequired string string | PeerDuplicate string string | PeerInvalid string string string

definition peerErrors :: "string \<Rightarrow> (string \<Rightarrow> bool) \<Rightarrow> ClusterConnectionPeer \<Rightarrow> peerFieldError list" where
  "peerErrors path seen p =
     (let hasRef = (case ccp_ClusterRef p of None \<Rightarrow> False | Some r \<Rightarrow> cref_Name r \<noteq> []);
          hasAddr = (ccp_FrontendAddress p \<noteq> [])
      in (if ccp_Name p = [] then [PeerRequired (path @ ''.name'') ''peer name is required''] else []) @
         (if seen (ccp_Name p) then [PeerDuplicate (path @ ''.name'') (ccp_Name p)] else []) @
         (if hasRef \<and> hasAddr then [PeerInvalid path (ccp_Name p) ''set exactly one of clusterRef or frontendAddress'']
          else if \<not> hasRef \<and> \<not> hasAddr
          then [PeerInvalid path (ccp_Name p) ''one of clusterRef or frontendAddress is required'']
          else []) @
         (case ccp_TLSSecretRef p of
            None \<Rightarrow> []
          | Some s \<Rightarrow>
              if \<not> hasAddr
              then [PeerInvalid (path @ ''.tlsSecretRef'') (sref_Name s) ''tlsSecretRef is only valid with frontendAddress'']
              else []))"

fun validatePeersFrom :: "nat \<Rightarrow> (string \<Rightarrow> bool) \<Rightarrow> ClusterConnectionPeer list \<Rightarrow> peerFieldError list" where
  "validatePeersFrom i seen [] = []"
| "validatePeersFrom i seen (p # ps) =
     peerErrors (''spec.peers['' @ itoa (int i) @ '']'') seen p @
     validatePeersFrom (Suc i) (seen(ccp_Name p := True)) ps"

definition validatePeers :: "TemporalClusterConnection \<Rightarrow> peerFieldError list" where
  "validatePeers c = validatePeersFrom 0 (\<lambda>_. False) (tccs_Peers (tcn_Spec c))"

text \<open>The aggregate error is the list of the errors.\<close>

datatype connectionError = TooFewPeers | PeerErrors "peerFieldError list"

definition connection_ValidateCreate :: "TemporalClusterConnection \<Rightarrow> connectionError option" where
  "connection_ValidateCreate c =
     (if length (tccs_Peers (tcn_Spec c)) < 2 then Some TooFewPeers
      else if validatePeers c \<noteq> [] then Some (PeerErrors (validatePeers c))
      else None)"

definition connection_ValidateUpdate :: "TemporalClusterConnection \<Rightarrow> TemporalClusterConnection \<Rightarrow> connectionError option" where
  "connection_ValidateUpdate old newC =
     (if length (tccs_Peers (tcn_Spec newC)) < 2 then Some TooFewPeers
      else if validatePeers newC \<noteq> [] then Some (PeerErrors (validatePeers newC))
      else None)"

section \<open>Search attributes (temporalsearchattribute_webhook.go)\<close>

definition validSearchAttributeTypes :: "string list" where
  "validSearchAttributeTypes = [''Keyword'', ''Text'', ''Int'', ''Double'', ''Bool'', ''Datetime'', ''KeywordList'']"

definition isValidSearchAttributeType :: "string \<Rightarrow> bool" where
  "isValidSearchAttributeType t = (t \<in> set validSearchAttributeTypes)"

definition attribute_ValidateCreate :: "TemporalSearchAttribute \<Rightarrow> err option" where
  "attribute_ValidateCreate sa =
     (if cref_Name (tsa_ClusterRef (sa_Spec sa)) = [] then Some (ErrMsg ''spec.clusterRef.name must not be empty'')
      else if \<not> isValidSearchAttributeType (tsa_Type (sa_Spec sa))
      then Some (ErrMsg (''spec.type '' @ goQuote (tsa_Type (sa_Spec sa)) @ '' is not a valid search attribute type''))
      else None)"

definition attribute_ValidateUpdate :: "TemporalSearchAttribute \<Rightarrow> TemporalSearchAttribute \<Rightarrow> err option" where
  "attribute_ValidateUpdate oldSA newSA =
     (if cref_Name (tsa_ClusterRef (sa_Spec newSA)) = [] then Some (ErrMsg ''spec.clusterRef.name must not be empty'')
      else if tsa_Type (sa_Spec newSA) \<noteq> tsa_Type (sa_Spec oldSA)
      then Some (ErrMsg (''spec.type is immutable (was '' @ goQuote (tsa_Type (sa_Spec oldSA)) @ '')''))
      else None)"

end
