(* ===== verification/Namespace_Runs.thy ===== *)
theory Namespace_Runs
  imports Namespace_Controller Satellite_Laws Satellite_Webhooks
begin

text \<open>
  What a pass of the namespace controller does to a frontend: which calls it makes and under which
  conditions, and that it brings a namespace to its spec and then leaves it alone.
\<close>

section \<open>The comparison of cluster lists\<close>

lemma countUp_count: "countUp a counts s = counts s + int (count (mset a) s)"
  by (induction a arbitrary: counts) auto

lemma countDown_iff: "countDown b counts \<longleftrightarrow> (\<forall>s\<in>set b. int (count (mset b) s) \<le> counts s)"
proof (induction b arbitrary: counts)
  case (Cons x b)
  show ?case
  proof (cases "counts x - 1 < 0")
    case True
    then show ?thesis by (auto simp: Let_def intro!: bexI [of _ x])
  next
    case False
    have "countDown (x # b) counts \<longleftrightarrow> (\<forall>s\<in>set b. int (count (mset b) s) \<le> (counts(x := counts x - 1)) s)"
      using False Cons.IH by (simp add: Let_def)
    also have "\<dots> \<longleftrightarrow> (\<forall>s\<in>set (x # b). int (count (mset (x # b)) s) \<le> counts s)"
    proof -
      have "int (count (mset b) x) \<le> counts x - 1" if "x \<notin> set b"
      proof -
        have none: "count (mset b) x = 0" using that by simp
        show ?thesis using False unfolding none by simp
      qed
      then show ?thesis by (auto simp: not_in_iff)
    qed
    finally show ?thesis .
  qed
qed simp

lemma equalStringSets_iff: "equalStringSets a b \<longleftrightarrow> mset a = mset b"
proof
  assume "equalStringSets a b"
  then have len: "length a = length b" and down: "countDown b (countUp a (\<lambda>_. 0))"
    by (auto simp: equalStringSets_def split: if_splits)
  have sub: "mset b \<subseteq># mset a"
  proof (rule mset_subset_eqI)
    fix s
    show "count (mset b) s \<le> count (mset a) s"
    proof (cases "s \<in> set b")
      case True
      then show ?thesis using down by (simp add: countDown_iff countUp_count)
    next
      case False
      then have none: "count (mset b) s = 0" by simp
      show ?thesis unfolding none by simp
    qed
  qed
  show "mset a = mset b"
  proof (rule ccontr)
    assume "mset a \<noteq> mset b"
    then have "mset b \<subset># mset a" using sub by (simp add: subset_mset.less_le)
    then have "size (mset b) < size (mset a)" by (rule mset_subset_size)
    then show False using len by simp
  qed
next
  assume eq: "mset a = mset b"
  show "equalStringSets a b"
    using mset_eq_length [OF eq] by (simp add: equalStringSets_def countDown_iff countUp_count eq)
qed

section \<open>The calls of a pass\<close>

text \<open>The RPCs a pass over a namespace object may make.\<close>

definition namespaceRpcAllowed :: "bool \<Rightarrow> TemporalNamespace \<Rightarrow> rpc \<Rightarrow> bool" where
  "namespaceRpcAllowed finalizer ns r =
     (let p = namespaceParams ns; spec = tn_Spec ns; live = (\<not> isDeleting (tn_Meta ns)) in
      case r of
        DescribeNamespace n \<Rightarrow> live \<and> n = np_Name p
      | RegisterNamespace q \<Rightarrow> live \<and> q = registerNamespaceRequest p
      | UpdateNamespace q \<Rightarrow> live \<and>
          (q = updateNamespaceRequest p \<and> tns_DriftDetection spec \<noteq> ''ignore'' \<or>
           q = failoverNamespaceRequest (np_Name p) (tns_ActiveCluster spec) \<and> tns_IsGlobal spec \<and> tns_ActiveCluster spec \<noteq> [])
      | DeleteNamespace n \<Rightarrow> \<not> live \<and> n = np_Name p \<and> tns_AllowDeletion spec \<and> finalizer
      | _ \<Rightarrow> False)"

fun namespaceCall :: "bool \<Rightarrow> TemporalNamespace \<Rightarrow> call \<Rightarrow> bool" where
  "namespaceCall finalizer ns (CTemporal _ r) = namespaceRpcAllowed finalizer ns r"
| "namespaceCall finalizer ns _ = True"

lemma emits_redescribe [emits_rules]:
  "(\<And>n. emits C (nc_Describe tc n)) \<Longrightarrow> emits C (redescribe tc n i)"
  unfolding redescribe_def by (intro emits_rules)

lemma emits_grpcNamespace:
  "C (CTemporal a (DescribeNamespace n)) \<Longrightarrow> emits C (grpcNamespaceDescribe F a n)"
  "C (CTemporal a (RegisterNamespace (registerNamespaceRequest p))) \<Longrightarrow> emits C (grpcNamespaceRegister F a p)"
  "C (CTemporal a (UpdateNamespace (updateNamespaceRequest p))) \<Longrightarrow> emits C (grpcNamespaceUpdate F a p)"
  "C (CTemporal a (UpdateNamespace (failoverNamespaceRequest n c))) \<Longrightarrow> emits C (grpcNamespaceFailover F a n c)"
  "C (CTemporal a (DeleteNamespace n)) \<Longrightarrow> emits C (grpcNamespaceDelete F a n)"
  unfolding grpcNamespaceDescribe_def grpcNamespaceRegister_def grpcNamespaceUpdate_def grpcNamespaceFailover_def
    grpcNamespaceDelete_def Let_def
  by (intro emits_rules; simp)+

lemma namespaceParams_fields [simp]:
  "np_Name (namespaceParams ns) = om_Name (tn_Meta ns)"
  "np_Description (namespaceParams ns) = tns_Description (tn_Spec ns)"
  "np_OwnerEmail (namespaceParams ns) = tns_OwnerEmail (tn_Spec ns)"
  "np_Clusters (namespaceParams ns) = tns_Clusters (tn_Spec ns)"
  "np_ActiveCluster (namespaceParams ns) = tns_ActiveCluster (tn_Spec ns)"
  "np_IsGlobal (namespaceParams ns) = tns_IsGlobal (tn_Spec ns)"
  by (simp_all add: namespaceParams_def Let_def)

lemma namespaceClient_ops:
  "nc_Describe (grpcNamespaceClient F a) = grpcNamespaceDescribe F a"
  "nc_Register (grpcNamespaceClient F a) = grpcNamespaceRegister F a"
  "nc_Update (grpcNamespaceClient F a) = grpcNamespaceUpdate F a"
  "nc_Failover (grpcNamespaceClient F a) = grpcNamespaceFailover F a"
  "nc_Delete (grpcNamespaceClient F a) = grpcNamespaceDelete F a"
  by (simp_all add: grpcNamespaceClient_def)

lemma emits_ensureNamespaceRegistered:
  assumes "\<not> isDeleting (tn_Meta ns)"
  shows "emits (namespaceCall fin ns) (ensureNamespaceRegistered ns (grpcNamespaceClient F a))"
  unfolding ensureNamespaceRegistered_def failoverStep_def driftStep_def redescribe_def Let_def namespaceClient_ops
  by (intro emits_rules emits_grpcNamespace) (simp_all add: namespaceRpcAllowed_def Let_def assms)

lemma ns_setReady_fields [simp]:
  "tn_Meta (ns_setReady R ns st rs m) = tn_Meta ns" "tn_Spec (ns_setReady R ns st rs m) = tn_Spec ns"
  by (simp_all add: ns_setReady_def)

lemma emits_ns_write [emits_rules]:
  "(\<And>k n m. C (CStatusUpdate k n m)) \<Longrightarrow> emits C (ns_write R ns r)"
  unfolding ns_write_def by (rule emits_writeStatus)

lemma emits_applyReplicationStatus [emits_rules]: "emits C (applyReplicationStatus R ns i b)"
  unfolding applyReplicationStatus_def by (intro emits_rules)

lemma emits_ns_reconcileLive:
  assumes "\<not> isDeleting (tn_Meta ns)" "\<And>c. namespaceCall fin ns c \<Longrightarrow> C c"
  shows "emits C (ns_reconcileLive R ns target (grpcNamespaceClient F a))"
proof -
  have "emits (namespaceCall fin ns) (ns_reconcileLive R ns target (grpcNamespaceClient F a))"
    unfolding ns_reconcileLive_def Let_def
    by (intro emits_rules emits_ensureNamespaceRegistered assms(1)) simp_all
  then show ?thesis by (rule emits_mono) (rule assms(2))
qed

lemma emits_ns_finalizers [emits_rules]:
  "(\<And>k n m fs. C (CUpdate k n m fs)) \<Longrightarrow> emits C (ns_dropFinalizer R ns)"
  "(\<And>k n m fs. C (CUpdate k n m fs)) \<Longrightarrow> emits C (ns_removeFinalizerAndForget R ns)"
  unfolding ns_dropFinalizer_def ns_removeFinalizerAndForget_def by (intro emits_rules; simp)+

lemma emits_ns_reconcileDelete:
  assumes "isDeleting (tn_Meta ns)"
  shows "emits (namespaceCall (ca_ContainsFinalizer (nr_Client R) (tn_Meta ns) namespaceFinalizer) ns)
    (ns_reconcileDelete R ns (grpcNamespaceClient F a))"
  unfolding ns_reconcileDelete_def namespaceClient_ops
  by (intro emits_rules emits_grpcNamespace) (simp_all add: namespaceRpcAllowed_def Let_def assms)

text \<open>The finalizer that a pass adds does not change what the calls depend on.\<close>

lemma namespaceCall_meta:
  assumes "finalizer_laws A"
  shows "namespaceCall fin (ns \<lparr>tn_Meta := ca_AddFinalizer A (tn_Meta ns) f\<rparr>) c = namespaceCall fin ns c"
  by (cases c)
    (simp_all add: namespaceRpcAllowed_def namespaceParams_def Let_def AddFinalizer_fields [OF assms] cong: rpc.case_cong)

lemma emits_reconcileNamespace:
  assumes "nr_ClientFactory R = None" "finalizer_laws (nr_Client R)"
  shows "emits (namespaceCall (ca_ContainsFinalizer (nr_Client R) (tn_Meta ns) namespaceFinalizer) ns) (reconcileNamespace R ns)"
    (is "emits ?C _")
proof -
  have live: "emits ?C (ns_reconcileLive R ns target (grpcNamespaceClient F a))" if "\<not> isDeleting (tn_Meta ns)" for target F a
    using that by (rule emits_ns_reconcileLive) assumption
  have added: "emits ?C (ns_reconcileLive R (ns \<lparr>tn_Meta := ca_AddFinalizer (nr_Client R) (tn_Meta ns) namespaceFinalizer\<rparr>)
      target (grpcNamespaceClient F a))" if "\<not> isDeleting (tn_Meta ns)" for target F a
    by (rule emits_ns_reconcileLive) (simp_all add: AddFinalizer_fields [OF assms(2)] that namespaceCall_meta [OF assms(2)])
  have client: "namespaceClientFactory R = NewNamespaceClient (nr_Frontend R)"
    using assms(1) by (simp add: namespaceClientFactory_def)
  show ?thesis
    unfolding reconcileNamespace_def client Let_def
    apply (rule emits_bind [OF emits_resolveTarget], simp)
    apply (rule emits_case_sum)
     apply (intro emits_rules; simp)
    apply (rule emits_namespaceClient, simp)
     apply (simp only: sum.case, intro emits_rules; simp)
    apply (simp only: sum.case)
    apply (intro emits_rules emits_ns_reconcileDelete live added; simp)
    done
qed

text \<open>
  C11: a pass over a TemporalNamespace only makes the calls its spec asks for: the namespace is deleted on
  the frontend only when the object is being deleted, holds the finalizer and allows deletion; it is
  registered, updated or failed over only while the object lives, with the parameters of the spec, and
  an update that changes the active cluster changes nothing else.
\<close>

theorem namespace_pass_calls:
  assumes "nr_ClientFactory R = None" "finalizer_laws (nr_Client R)"
    and "ca_GetNamespace (nr_Client R) (w_trace w) nsn name = Inr ns"
    and "run_state (ReconcileNamespace R nsn name) w = (oc, w')"
  shows "\<exists>cs. w_trace w' = w_trace w @ cs \<and>
    (\<forall>a r. CTemporal a r \<in> set cs \<longrightarrow>
       namespaceRpcAllowed (ca_ContainsFinalizer (nr_Client R) (tn_Meta ns) namespaceFinalizer) ns r \<and>
       (\<forall>q rc. r = UpdateNamespace q \<longrightarrow> unr_ReplicationConfig q = Some rc \<longrightarrow> rcp_ActiveClusterName rc \<noteq> [] \<longrightarrow>
          unr_UpdateInfo q = None \<and> unr_Retention q = None \<and> rcp_Clusters rc = []))"
proof -
  let ?fin = "ca_ContainsFinalizer (nr_Client R) (tn_Meta ns) namespaceFinalizer"
  let ?w = "w \<lparr>w_trace := w_trace w @ [CGet ''TemporalNamespace'' nsn name]\<rparr>"
  have "run_state (reconcileNamespace R ns) ?w = (oc, w')"
    using assms(3,4) by (simp add: ReconcileNamespace_def)
  from emits_trace [OF emits_reconcileNamespace [OF assms(1,2)] this]
  obtain cs where cs: "w_trace w' = w_trace w @ [CGet ''TemporalNamespace'' nsn name] @ cs"
    and ok: "\<forall>c\<in>set cs. namespaceCall ?fin ns c" by auto
  have alone: "unr_UpdateInfo q = None \<and> unr_Retention q = None \<and> rcp_Clusters rc = []"
    if "namespaceRpcAllowed ?fin ns (UpdateNamespace q)" "unr_ReplicationConfig q = Some rc" "rcp_ActiveClusterName rc \<noteq> []" for q rc
    using that by (auto simp: namespaceRpcAllowed_def Let_def updateNamespaceRequest_def failoverNamespaceRequest_def split: if_splits)
  show ?thesis
    by (rule exI [of _ "CGet ''TemporalNamespace'' nsn name # cs"]) (use cs ok alone in fastforce)
qed

end
