(* ===== verification/Namespace_Service.thy ===== *)
theory Namespace_Service
  imports Namespace_Runs
begin

text \<open>
  A namespace converges.  The namespace service of a frontend is a parameter, of which only this is used: a
  read shows the same until a call that changes the frontend is made, a registration that was accepted
  shows as requested, and an update that was accepted shows the values it carries and leaves the rest
  (an empty value of a request stands for no change).  The service may refuse any call.  Against such a
  frontend a pass of the controller brings the namespace to its spec, unless one of its calls is refused,
  and the next pass changes nothing.
\<close>

section \<open>The service\<close>

text \<open>What an answer shows of the value that a request carries.\<close>

definition requested :: "string \<Rightarrow> string \<Rightarrow> string" where
  "requested wanted old = (if wanted = [] then old else wanted)"

text \<open>The active cluster and the clusters a request asks for.\<close>

definition wantsActive :: "UpdateNamespaceRequest \<Rightarrow> string" where
  "wantsActive u = (case unr_ReplicationConfig u of None \<Rightarrow> [] | Some rc \<Rightarrow> rcp_ActiveClusterName rc)"

definition wantsClusters :: "UpdateNamespaceRequest \<Rightarrow> string list" where
  "wantsClusters u = (case unr_ReplicationConfig u of None \<Rightarrow> [] | Some rc \<Rightarrow> rcp_Clusters rc)"

definition updateShows :: "UpdateNamespaceRequest \<Rightarrow> NamespaceInfo \<Rightarrow> NamespaceInfo \<Rightarrow> bool" where
  "updateShows u i i' \<longleftrightarrow>
     ni_Description i' = (case unr_UpdateInfo u of None \<Rightarrow> ni_Description i | Some (d, _) \<Rightarrow> requested d (ni_Description i)) \<and>
     ni_OwnerEmail i' = (case unr_UpdateInfo u of None \<Rightarrow> ni_OwnerEmail i | Some (_, m) \<Rightarrow> requested m (ni_OwnerEmail i)) \<and>
     ni_RetentionPeriod i' = (case unr_Retention u of None \<Rightarrow> ni_RetentionPeriod i | Some t \<Rightarrow> t) \<and>
     ni_ActiveCluster i' = requested (wantsActive u) (ni_ActiveCluster i) \<and>
     mset (ni_Clusters i') = mset (if wantsClusters u = [] then ni_Clusters i else wantsClusters u)"

definition registerShows :: "RegisterNamespaceRequest \<Rightarrow> NamespaceInfo \<Rightarrow> bool" where
  "registerShows r i \<longleftrightarrow>
     ni_Description i = rnr_Description r \<and> ni_OwnerEmail i = rnr_OwnerEmail r \<and> ni_RetentionPeriod i = rnr_Retention r \<and>
     (rnr_ActiveClusterName r \<noteq> [] \<longrightarrow> ni_ActiveCluster i = rnr_ActiveClusterName r) \<and>
     (rnr_Clusters r \<noteq> [] \<longrightarrow> mset (ni_Clusters i) = mset (rnr_Clusters r))"

definition namespaceLaws :: "frontend \<Rightarrow> string \<Rightarrow> bool" where
  "namespaceLaws F addr \<longleftrightarrow>
     (\<forall>tr c n. \<not> changesTemporal c \<longrightarrow> f_DescribeNamespace F (tr @ [c]) addr n = f_DescribeNamespace F tr addr n) \<and>
     (\<forall>tr r. f_RegisterNamespace F tr addr r = None \<longrightarrow>
        (\<exists>d. f_DescribeNamespace F (tr @ [CTemporal addr (RegisterNamespace r)]) addr (rnr_Namespace r) = Inr d \<and>
           registerShows r (namespaceInfoFromProto d))) \<and>
     (\<forall>tr u d. f_UpdateNamespace F tr addr u = None \<longrightarrow> f_DescribeNamespace F tr addr (unr_Namespace u) = Inr d \<longrightarrow>
        (\<exists>d'. f_DescribeNamespace F (tr @ [CTemporal addr (UpdateNamespace u)]) addr (unr_Namespace u) = Inr d' \<and>
           updateShows u (namespaceInfoFromProto d) (namespaceInfoFromProto d')))"

definition noSuchNamespace :: "err \<Rightarrow> bool" where
  "noSuchNamespace e \<longleftrightarrow> statusCode e = CodeNotFound \<or> errorsIs e ErrNamespaceNotFound"

text \<open>A call that the frontend answers with an error, other than that a namespace read does not exist.\<close>

fun refusedCall :: "frontend \<Rightarrow> string \<Rightarrow> call list \<Rightarrow> call \<Rightarrow> bool" where
  "refusedCall F addr tr (CTemporal a (DescribeNamespace n)) =
     (a = addr \<and> (case f_DescribeNamespace F tr addr n of Inl e \<Rightarrow> \<not> noSuchNamespace e | Inr _ \<Rightarrow> False))"
| "refusedCall F addr tr (CTemporal a (RegisterNamespace r)) = (a = addr \<and> f_RegisterNamespace F tr addr r \<noteq> None)"
| "refusedCall F addr tr (CTemporal a (UpdateNamespace u)) = (a = addr \<and> f_UpdateNamespace F tr addr u \<noteq> None)"
| "refusedCall F addr tr _ = False"

definition refusedSince :: "frontend \<Rightarrow> string \<Rightarrow> call list \<Rightarrow> call list \<Rightarrow> bool" where
  "refusedSince F addr tr tr' \<longleftrightarrow> (\<exists>pre c post. tr' = tr @ pre @ c # post \<and> refusedCall F addr (tr @ pre) c)"

lemma refused_now: "refusedCall F addr tr c \<Longrightarrow> refusedSince F addr tr (tr @ [c])"
  unfolding refusedSince_def by (intro exI [of _ "[]"] exI [of _ c]) simp

lemma refused_earlier: "refusedSince F addr (tr @ cs) tr' \<Longrightarrow> refusedSince F addr tr tr'"
  unfolding refusedSince_def by (elim exE conjE, intro exI [of _ "cs @ pre" for pre] exI conjI) simp_all

lemma refused_later: "refusedSince F addr tr tr' \<Longrightarrow> refusedSince F addr tr (tr' @ cs)"
  unfolding refusedSince_def by fastforce

section \<open>The namespace of a spec\<close>

definition namespaceMatches :: "TemporalNamespace \<Rightarrow> NamespaceInfo \<Rightarrow> bool" where
  "namespaceMatches ns i \<longleftrightarrow>
     ni_Description i = tns_Description (tn_Spec ns) \<and> ni_OwnerEmail i = tns_OwnerEmail (tn_Spec ns) \<and>
     ni_RetentionPeriod i = np_RetentionPeriod (namespaceParams ns) \<and>
     (tns_Clusters (tn_Spec ns) \<noteq> [] \<longrightarrow> mset (ni_Clusters i) = mset (tns_Clusters (tn_Spec ns))) \<and>
     (tns_IsGlobal (tn_Spec ns) \<and> tns_ActiveCluster (tn_Spec ns) \<noteq> [] \<longrightarrow> ni_ActiveCluster i = tns_ActiveCluster (tn_Spec ns))"

lemma drift_iff:
  "namespaceDrifted (namespaceParams ns) (Some i) \<longleftrightarrow>
    \<not> (ni_Description i = tns_Description (tn_Spec ns) \<and> ni_OwnerEmail i = tns_OwnerEmail (tn_Spec ns) \<and>
       ni_RetentionPeriod i = np_RetentionPeriod (namespaceParams ns) \<and>
       (tns_Clusters (tn_Spec ns) \<noteq> [] \<longrightarrow> mset (ni_Clusters i) = mset (tns_Clusters (tn_Spec ns))))"
  by (auto simp: namespaceDrifted_def equalStringSets_iff)

lemma describe_quiet:
  assumes "namespaceLaws F addr" "\<forall>c\<in>set cs. \<not> changesTemporal c"
  shows "f_DescribeNamespace F (tr @ cs) addr n = f_DescribeNamespace F tr addr n"
  using assms(2)
proof (induction cs arbitrary: tr)
  case (Cons c cs)
  have "f_DescribeNamespace F (tr @ [c]) addr n = f_DescribeNamespace F tr addr n"
    using assms(1) Cons.prems unfolding namespaceLaws_def by simp
  then show ?case using Cons.IH [of "tr @ [c]"] Cons.prems by simp
qed simp

lemma run_describe:
  "run_state (grpcNamespaceDescribe F addr n) w =
    ((case f_DescribeNamespace F (w_trace w) addr n of
        Inl e \<Rightarrow> Inl (if statusCode e = CodeNotFound then ErrNamespaceNotFound else e)
      | Inr d \<Rightarrow> Inr (Some (namespaceInfoFromProto d))),
     w \<lparr>w_trace := w_trace w @ [CTemporal addr (DescribeNamespace n)]\<rparr>)"
  by (simp add: grpcNamespaceDescribe_def)

section \<open>The steps of a pass\<close>

text \<open>An accepted update and the read after it.\<close>

lemma accepted_update:
  assumes laws: "namespaceLaws F addr" and d: "f_DescribeNamespace F (w_trace w) addr (unr_Namespace u) = Inr d"
    and ok: "f_UpdateNamespace F (w_trace w) addr u = None"
  shows "\<exists>d'. updateShows u (namespaceInfoFromProto d) (namespaceInfoFromProto d') \<and>
    (\<forall>i. run_state (redescribe (grpcNamespaceClient F addr) (unr_Namespace u) i)
        (w \<lparr>w_trace := w_trace w @ [CTemporal addr (UpdateNamespace u)]\<rparr>) =
      (Some (namespaceInfoFromProto d'),
       w \<lparr>w_trace := w_trace w @ [CTemporal addr (UpdateNamespace u), CTemporal addr (DescribeNamespace (unr_Namespace u))]\<rparr>)) \<and>
    f_DescribeNamespace F (w_trace w @ [CTemporal addr (UpdateNamespace u), CTemporal addr (DescribeNamespace (unr_Namespace u))])
      addr (unr_Namespace u) = Inr d'"
proof -
  from laws d ok obtain d' where d': "f_DescribeNamespace F (w_trace w @ [CTemporal addr (UpdateNamespace u)]) addr (unr_Namespace u) = Inr d'"
    "updateShows u (namespaceInfoFromProto d) (namespaceInfoFromProto d')" unfolding namespaceLaws_def by blast
  have "f_DescribeNamespace F (w_trace w @ [CTemporal addr (UpdateNamespace u), CTemporal addr (DescribeNamespace (unr_Namespace u))])
      addr (unr_Namespace u) = Inr d'"
    using describe_quiet [OF laws, of "[CTemporal addr (DescribeNamespace (unr_Namespace u))]"
        "w_trace w @ [CTemporal addr (UpdateNamespace u)]"] d'(1) by simp
  then show ?thesis using d' by (intro exI [of _ d']) (simp add: redescribe_def namespaceClient_ops run_describe)
qed

lemma failoverRequest_facts:
  "unr_Namespace (failoverNamespaceRequest n c) = n"
  "updateShows (failoverNamespaceRequest n c) i i' \<Longrightarrow> c \<noteq> [] \<Longrightarrow> ni_ActiveCluster i' = c"
  by (simp_all add: failoverNamespaceRequest_def updateShows_def wantsActive_def requested_def)

lemma updateRequest_facts:
  "unr_Namespace (updateNamespaceRequest p) = np_Name p"
  "updateShows (updateNamespaceRequest (namespaceParams ns)) i i' \<Longrightarrow>
   tns_Description (tn_Spec ns) \<noteq> [] \<Longrightarrow> tns_OwnerEmail (tn_Spec ns) \<noteq> [] \<Longrightarrow>
   tns_IsGlobal (tn_Spec ns) \<and> tns_ActiveCluster (tn_Spec ns) \<noteq> [] \<longrightarrow> ni_ActiveCluster i = tns_ActiveCluster (tn_Spec ns) \<Longrightarrow>
   namespaceMatches ns i'"
  by (auto simp: updateNamespaceRequest_def updateShows_def wantsActive_def wantsClusters_def requested_def
      namespaceMatches_def clusterReplicationConfigs_def)

text \<open>The failover is refused, or the namespace is active where the spec says.\<close>

lemma failoverStep_run:
  assumes laws: "namespaceLaws F addr" and d: "f_DescribeNamespace F (w_trace w) addr (om_Name (tn_Meta ns)) = Inr d"
    and r: "run_state (failoverStep ns (grpcNamespaceClient F addr) (Some (namespaceInfoFromProto d))) w = (r, w')"
  shows "((\<exists>e. r = Inl e) \<and> refusedSince F addr (w_trace w) (w_trace w')) \<or>
    (\<exists>d' fo cs. r = Inr (Some (namespaceInfoFromProto d'), fo) \<and> w_trace w' = w_trace w @ cs \<and>
       f_DescribeNamespace F (w_trace w') addr (om_Name (tn_Meta ns)) = Inr d' \<and>
       (tns_IsGlobal (tn_Spec ns) \<and> tns_ActiveCluster (tn_Spec ns) \<noteq> [] \<longrightarrow>
          ni_ActiveCluster (namespaceInfoFromProto d') = tns_ActiveCluster (tn_Spec ns)))"
proof (cases "tns_IsGlobal (tn_Spec ns) \<and> tns_ActiveCluster (tn_Spec ns) \<noteq> [] \<and>
    ni_ActiveCluster (namespaceInfoFromProto d) \<noteq> tns_ActiveCluster (tn_Spec ns)")
  case True
  let ?u = "failoverNamespaceRequest (om_Name (tn_Meta ns)) (tns_ActiveCluster (tn_Spec ns))"
  show ?thesis
  proof (cases "f_UpdateNamespace F (w_trace w) addr ?u")
    case None
    from accepted_update [OF laws, of w ?u d] d None obtain d' where
      shown: "updateShows ?u (namespaceInfoFromProto d) (namespaceInfoFromProto d')"
      and "\<forall>i. run_state (redescribe (grpcNamespaceClient F addr) (om_Name (tn_Meta ns)) i)
        (w \<lparr>w_trace := w_trace w @ [CTemporal addr (UpdateNamespace ?u)]\<rparr>) =
        (Some (namespaceInfoFromProto d'), w \<lparr>w_trace := w_trace w @ [CTemporal addr (UpdateNamespace ?u),
           CTemporal addr (DescribeNamespace (om_Name (tn_Meta ns)))]\<rparr>)"
      "f_DescribeNamespace F (w_trace w @ [CTemporal addr (UpdateNamespace ?u), CTemporal addr (DescribeNamespace (om_Name (tn_Meta ns)))])
        addr (om_Name (tn_Meta ns)) = Inr d'" by (auto simp: failoverRequest_facts(1))
    then show ?thesis
      using r True None failoverRequest_facts(2) [OF shown]
      by (intro disjI2 exI [of _ d'] exI [of _ True]) (auto simp: failoverStep_def Let_def namespaceClient_ops grpcNamespaceFailover_def)
  next
    case (Some e)
    then show ?thesis
      using r True refused_now [of F addr "w_trace w" "CTemporal addr (UpdateNamespace ?u)"]
      by (auto simp: failoverStep_def Let_def namespaceClient_ops grpcNamespaceFailover_def)
  qed
next
  case False
  then show ?thesis using r d by (auto simp: failoverStep_def Let_def split: if_splits)
qed

text \<open>The update is refused, or the namespace is as the spec says.\<close>

lemma driftStep_run:
  assumes laws: "namespaceLaws F addr" and d: "f_DescribeNamespace F (w_trace w) addr (om_Name (tn_Meta ns)) = Inr d"
    and detect: "tns_DriftDetection (tn_Spec ns) \<noteq> ''ignore''"
    and set: "tns_Description (tn_Spec ns) \<noteq> []" "tns_OwnerEmail (tn_Spec ns) \<noteq> []"
    and active: "tns_IsGlobal (tn_Spec ns) \<and> tns_ActiveCluster (tn_Spec ns) \<noteq> [] \<longrightarrow>
      ni_ActiveCluster (namespaceInfoFromProto d) = tns_ActiveCluster (tn_Spec ns)"
    and r: "run_state (driftStep ns (grpcNamespaceClient F addr) (Some (namespaceInfoFromProto d)) fo) w = (r, w')"
  shows "((\<exists>e. r = Inl e) \<and> refusedSince F addr (w_trace w) (w_trace w')) \<or>
    (\<exists>d'. r = Inr (Some (namespaceInfoFromProto d'), fo) \<and>
       f_DescribeNamespace F (w_trace w') addr (om_Name (tn_Meta ns)) = Inr d' \<and> namespaceMatches ns (namespaceInfoFromProto d'))"
proof (cases "namespaceDrifted (namespaceParams ns) (Some (namespaceInfoFromProto d))")
  case False
  then have "namespaceMatches ns (namespaceInfoFromProto d)" using active by (auto simp: drift_iff namespaceMatches_def)
  then show ?thesis using r d False by (auto simp: driftStep_def Let_def)
next
  case True
  let ?u = "updateNamespaceRequest (namespaceParams ns)"
  show ?thesis
  proof (cases "f_UpdateNamespace F (w_trace w) addr ?u")
    case None
    from accepted_update [OF laws, of w ?u d] d None obtain d' where
      shown: "updateShows ?u (namespaceInfoFromProto d) (namespaceInfoFromProto d')"
      and "\<forall>i. run_state (redescribe (grpcNamespaceClient F addr) (om_Name (tn_Meta ns)) i)
        (w \<lparr>w_trace := w_trace w @ [CTemporal addr (UpdateNamespace ?u)]\<rparr>) =
        (Some (namespaceInfoFromProto d'), w \<lparr>w_trace := w_trace w @ [CTemporal addr (UpdateNamespace ?u),
           CTemporal addr (DescribeNamespace (om_Name (tn_Meta ns)))]\<rparr>)"
      "f_DescribeNamespace F (w_trace w @ [CTemporal addr (UpdateNamespace ?u), CTemporal addr (DescribeNamespace (om_Name (tn_Meta ns)))])
        addr (om_Name (tn_Meta ns)) = Inr d'" by (auto simp: updateRequest_facts(1))
    then show ?thesis
      using r True None detect updateRequest_facts(2) [OF shown set active]
      by (auto simp: driftStep_def Let_def namespaceClient_ops grpcNamespaceUpdate_def)
  next
    case (Some e)
    then show ?thesis
      using r True detect refused_now [of F addr "w_trace w" "CTemporal addr (UpdateNamespace ?u)"]
      by (auto simp: driftStep_def Let_def namespaceClient_ops grpcNamespaceUpdate_def)
  qed
qed

lemma registered_matches:
  "registerShows (registerNamespaceRequest (namespaceParams ns)) i \<Longrightarrow> namespaceMatches ns i"
  by (auto simp: namespaceMatches_def registerShows_def registerNamespaceRequest_def clusterReplicationConfigs_def)

lemma register_run:
  assumes laws: "namespaceLaws F addr"
    and none: "f_DescribeNamespace F (w_trace w) addr (om_Name (tn_Meta ns)) = Inl e" "noSuchNamespace e"
    and r: "run_state (ensureNamespaceRegistered ns (grpcNamespaceClient F addr)) w = (r, w')"
  shows "((\<exists>e. r = Inl e) \<and> refusedSince F addr (w_trace w) (w_trace w')) \<or>
    (\<exists>i fo d. r = Inr (Some i, fo) \<and> f_DescribeNamespace F (w_trace w') addr (om_Name (tn_Meta ns)) = Inr d \<and>
       namespaceMatches ns (namespaceInfoFromProto d))"
proof -
  let ?n = "om_Name (tn_Meta ns)" let ?q = "registerNamespaceRequest (namespaceParams ns)"
  let ?read = "CTemporal addr (DescribeNamespace ?n)" let ?reg = "CTemporal addr (RegisterNamespace ?q)"
  have gone: "errorsIs (if statusCode e = CodeNotFound then ErrNamespaceNotFound else e) ErrNamespaceNotFound"
    using none(2) by (auto simp: noSuchNamespace_def)
  have name: "rnr_Namespace ?q = ?n" by (simp add: registerNamespaceRequest_def)
  show ?thesis
  proof (cases "f_RegisterNamespace F (w_trace w @ [?read]) addr ?q")
    case None
    with laws name obtain d where d: "f_DescribeNamespace F ((w_trace w @ [?read]) @ [?reg]) addr ?n = Inr d"
      "registerShows ?q (namespaceInfoFromProto d)" unfolding namespaceLaws_def by metis
    have "f_DescribeNamespace F (w_trace w @ [?read, ?reg, ?read]) addr ?n = Inr d"
      using describe_quiet [OF laws, of "[?read]" "w_trace w @ [?read, ?reg]"] d(1) by simp
    then show ?thesis
      using r none(1) None d registered_matches [OF d(2)]
      by (intro disjI2 exI [of _ "namespaceInfoFromProto d"] exI [of _ False] exI [of _ d]) (auto simp: gone ensureNamespaceRegistered_def Let_def namespaceClient_ops run_describe grpcNamespaceRegister_def)
  next
    case (Some e)
    have "refusedSince F addr (w_trace w) (w_trace w @ [?read, ?reg])"
      using refused_earlier [OF refused_now [of F addr "w_trace w @ [?read]" ?reg]] Some by simp
    then show ?thesis
      using r none(1) Some
      by (auto simp: gone ensureNamespaceRegistered_def Let_def namespaceClient_ops run_describe grpcNamespaceRegister_def)
  qed
qed

lemma ensure_run:
  assumes laws: "namespaceLaws F addr" and detect: "tns_DriftDetection (tn_Spec ns) \<noteq> ''ignore''"
    and set: "tns_Description (tn_Spec ns) \<noteq> []" "tns_OwnerEmail (tn_Spec ns) \<noteq> []"
    and r: "run_state (ensureNamespaceRegistered ns (grpcNamespaceClient F addr)) w = (r, w')"
  shows "((\<exists>e. r = Inl e) \<and> refusedSince F addr (w_trace w) (w_trace w')) \<or>
    (\<exists>i fo d. r = Inr (Some i, fo) \<and> f_DescribeNamespace F (w_trace w') addr (om_Name (tn_Meta ns)) = Inr d \<and>
       namespaceMatches ns (namespaceInfoFromProto d))"
proof (cases "f_DescribeNamespace F (w_trace w) addr (om_Name (tn_Meta ns))")
  case (Inl e)
  show ?thesis
  proof (cases "noSuchNamespace e")
    case True
    then show ?thesis by (rule register_run [OF laws Inl _ r])
  next
    case False
    then show ?thesis
      using r Inl refused_now [of F addr "w_trace w" "CTemporal addr (DescribeNamespace (om_Name (tn_Meta ns)))"]
      by (auto simp: noSuchNamespace_def ensureNamespaceRegistered_def Let_def namespaceClient_ops run_describe)
  qed
next
  case (Inr d)
  let ?n = "om_Name (tn_Meta ns)"
  let ?w = "w \<lparr>w_trace := w_trace w @ [CTemporal addr (DescribeNamespace ?n)]\<rparr>"
  have d: "f_DescribeNamespace F (w_trace ?w) addr ?n = Inr d"
    using describe_quiet [OF laws, of "[CTemporal addr (DescribeNamespace ?n)]" "w_trace w"] Inr by simp
  obtain f w2 where f: "run_state (failoverStep ns (grpcNamespaceClient F addr) (Some (namespaceInfoFromProto d))) ?w = (f, w2)" by fastforce
  have step: "run_state (case f of Inl e \<Rightarrow> State_Monad.return (Inl e) | Inr (info, fo) \<Rightarrow> driftStep ns (grpcNamespaceClient F addr) info fo) w2 = (r, w')"
    using r Inr f by (simp add: ensureNamespaceRegistered_def Let_def namespaceClient_ops run_describe)
  from failoverStep_run [OF laws d f] show ?thesis
  proof (elim disjE conjE exE)
    fix e assume "f = Inl e" "refusedSince F addr (w_trace ?w) (w_trace w2)"
    then show ?thesis using step refused_earlier [of F addr "w_trace w"] by auto
  next
    fix d' fo cs
    assume f': "f = Inr (Some (namespaceInfoFromProto d'), fo)" "w_trace w2 = w_trace ?w @ cs"
      "f_DescribeNamespace F (w_trace w2) addr ?n = Inr d'"
      "tns_IsGlobal (tn_Spec ns) \<and> tns_ActiveCluster (tn_Spec ns) \<noteq> [] \<longrightarrow>
         ni_ActiveCluster (namespaceInfoFromProto d') = tns_ActiveCluster (tn_Spec ns)"
    have "run_state (driftStep ns (grpcNamespaceClient F addr) (Some (namespaceInfoFromProto d')) fo) w2 = (r, w')"
      using step by (simp add: f'(1))
    from driftStep_run [OF laws f'(3) detect set f'(4) this]
    show ?thesis using refused_earlier [of F addr "w_trace w" _ "w_trace w'"] f'(2) by fastforce
  qed
qed

lemma ensure_quiet:
  assumes d: "f_DescribeNamespace F (w_trace w) addr (om_Name (tn_Meta ns)) = Inr d" "namespaceMatches ns (namespaceInfoFromProto d)"
  shows "run_state (ensureNamespaceRegistered ns (grpcNamespaceClient F addr)) w =
    (Inr (Some (namespaceInfoFromProto d), False), w \<lparr>w_trace := w_trace w @ [CTemporal addr (DescribeNamespace (om_Name (tn_Meta ns)))]\<rparr>)"
proof -
  have "\<not> namespaceDrifted (namespaceParams ns) (Some (namespaceInfoFromProto d))"
    using d(2) by (simp add: drift_iff namespaceMatches_def)
  then show ?thesis
    using d by (simp add: ensureNamespaceRegistered_def failoverStep_def driftStep_def Let_def namespaceClient_ops
        run_describe namespaceMatches_def)
qed

section \<open>Convergence\<close>

text \<open>
  The setting of a live namespace: the operator dials the frontend itself, drift is not ignored, the
  description and the owner are set, the object holds the finalizer and is not being deleted, its
  reference always resolves to the same ready target, the frontend can be dialed and the API server
  accepts the status.
\<close>

definition liveNamespace :: "TemporalNamespaceReconciler \<Rightarrow> TemporalNamespace \<Rightarrow> ResolvedTarget \<Rightarrow> bool" where
  "liveNamespace R ns target \<longleftrightarrow>
     nr_ClientFactory R = None \<and> meta_laws (ca_meta (nr_Client R)) \<and>
     tns_DriftDetection (tn_Spec ns) \<noteq> ''ignore'' \<and>
     tns_Description (tn_Spec ns) \<noteq> [] \<and> tns_OwnerEmail (tn_Spec ns) \<noteq> [] \<and> \<not> isDeleting (tn_Meta ns) \<and>
     ca_ContainsFinalizer (nr_Client R) (tn_Meta ns) namespaceFinalizer \<and>
     rt_Ready target \<and>
     (\<forall>w. \<exists>w1. run_state (resolveTarget (nr_Client R) (om_Namespace (tn_Meta ns)) (tns_ClusterRef (tn_Spec ns))) w = (Inr target, w1)) \<and>
     (\<forall>tr a t. f_NewClient (nr_Frontend R) tr a t = None) \<and>
     (\<forall>tr k n m. k_StatusUpdate (ca_kube (nr_Client R)) tr k n m = None)"

text \<open>The namespace that a successful pass writes.\<close>

definition registeredAs :: "TemporalNamespaceReconciler \<Rightarrow> TemporalNamespace \<Rightarrow> TemporalNamespace \<Rightarrow> bool" where
  "registeredAs R ns ns' \<longleftrightarrow>
     tn_Meta ns' = tn_Meta ns \<and> tn_Spec ns' = tn_Spec ns \<and> tnst_Registered (tn_Status ns') \<and>
     isStatusConditionTrue (ca_meta (nr_Client R)) (tnst_Conditions (tn_Status ns')) ConditionReady"

lemma applyReplicationStatus_fields:
  "run_state (applyReplicationStatus R ns i b) w = (ns', w') \<Longrightarrow>
     w' = w \<and> tn_Meta ns' = tn_Meta ns \<and> tn_Spec ns' = tn_Spec ns \<and> tnst_Registered (tn_Status ns') = tnst_Registered (tn_Status ns)"
  by (auto simp: applyReplicationStatus_def split: option.splits if_splits)

lemma setReady_true:
  "meta_laws (ca_meta (nr_Client R)) \<Longrightarrow>
     isStatusConditionTrue (ca_meta (nr_Client R)) (tnst_Conditions (tn_Status (ns_setReady R ns ConditionTrue rs m))) ConditionReady"
  by (simp add: meta_laws_def ns_setReady_def readyCondition_def)

lemma live_pass:
  assumes live: "liveNamespace R ns target"
    and t: "run_state (resolveTarget (nr_Client R) (om_Namespace (tn_Meta ns)) (tns_ClusterRef (tn_Spec ns))) w = (Inr target, w1)"
    and r: "run_state (ensureNamespaceRegistered ns (grpcNamespaceClient (nr_Frontend R) (rt_Address target)))
        (w1 \<lparr>w_trace := w_trace w1 @ [CDial (rt_Address target)]\<rparr>) = (Inr (Some i, fo), w2)"
  shows "\<exists>ns' w'. run_state (reconcileNamespace R ns) w = ((Some ns', requeueAfter namespaceDriftRequeue, None), w') \<and>
    registeredAs R ns ns' \<and> w_trace w' = w_trace w2 @ [CStatusUpdate ''TemporalNamespace'' (om_Namespace (tn_Meta ns)) (om_Name (tn_Meta ns))]"
proof -
  let ?C = "grpcNamespaceClient (nr_Frontend R) (rt_Address target)"
  let ?ns1 = "ns \<lparr>tn_Status := (tn_Status ns) \<lparr>tnst_Registered := True,
      tnst_LastUpdated := Some (k_Now (ca_kube (nr_Client R)) (w_trace w2)), tnst_NamespaceID := ni_ID i\<rparr>\<rparr>"
  obtain ns2 w3 where a: "run_state (applyReplicationStatus R ?ns1 (Some i) fo) w2 = (ns2, w3)" by fastforce
  let ?ns3 = "ns_setReady R ns2 ConditionTrue ''Registered'' ''namespace is registered''"
  note fields = applyReplicationStatus_fields [OF a]
  have client: "run_state (namespaceClientFactory R (rt_Address target) (rt_TLSConfig target)) w1 =
      (Inr ?C, w1 \<lparr>w_trace := w_trace w1 @ [CDial (rt_Address target)]\<rparr>)"
    using live by (simp add: liveNamespace_def namespaceClientFactory_def NewNamespaceClient_def dial_def)
  have "run_state (reconcileNamespace R ns) w =
      run_state (ns_reconcileLive R ns target ?C) (w1 \<lparr>w_trace := w_trace w1 @ [CDial (rt_Address target)]\<rparr>)"
    using live by (simp add: reconcileNamespace_def t client liveNamespace_def)
  also have "\<dots> = run_state (ns_write R ?ns3 (requeueAfter namespaceDriftRequeue)) w2"
    using live fields by (simp add: ns_reconcileLive_def r a liveNamespace_def Let_def)
  also have "\<dots> = ((Some ?ns3, requeueAfter namespaceDriftRequeue, None),
      w2 \<lparr>w_trace := w_trace w2 @ [CStatusUpdate ''TemporalNamespace'' (om_Namespace (tn_Meta ns)) (om_Name (tn_Meta ns))]\<rparr>)"
    using live fields by (simp add: ns_write_def writeStatus_def statusUpdate_def liveNamespace_def)
  finally show ?thesis
    using fields live setReady_true [of R ns2] by (auto simp: registeredAs_def liveNamespace_def ns_setReady_def)
qed

text \<open>A pass whose namespace could not be ensured fails, or reports the namespace as not Ready.\<close>

lemma live_refused:
  assumes live: "liveNamespace R ns target"
    and t: "run_state (resolveTarget (nr_Client R) (om_Namespace (tn_Meta ns)) (tns_ClusterRef (tn_Spec ns))) w = (Inr target, w1)"
    and r: "run_state (ensureNamespaceRegistered ns (grpcNamespaceClient (nr_Frontend R) (rt_Address target)))
        (w1 \<lparr>w_trace := w_trace w1 @ [CDial (rt_Address target)]\<rparr>) = (Inl e, w2)"
  shows "\<exists>out rs er w' cs. run_state (reconcileNamespace R ns) w = ((out, rs, er), w') \<and> w_trace w' = w_trace w2 @ cs \<and>
    (er \<noteq> None \<or> (\<exists>ns'. out = Some ns' \<and>
       \<not> isStatusConditionTrue (ca_meta (nr_Client R)) (tnst_Conditions (tn_Status ns')) ConditionReady))"
proof -
  let ?C = "grpcNamespaceClient (nr_Frontend R) (rt_Address target)"
  have client: "run_state (namespaceClientFactory R (rt_Address target) (rt_TLSConfig target)) w1 =
      (Inr ?C, w1 \<lparr>w_trace := w_trace w1 @ [CDial (rt_Address target)]\<rparr>)"
    using live by (simp add: liveNamespace_def namespaceClientFactory_def NewNamespaceClient_def dial_def)
  have "run_state (reconcileNamespace R ns) w =
      run_state (ns_reconcileLive R ns target ?C) (w1 \<lparr>w_trace := w_trace w1 @ [CDial (rt_Address target)]\<rparr>)"
    using live by (simp add: reconcileNamespace_def t client liveNamespace_def)
  moreover have "\<not> isStatusConditionTrue (ca_meta (nr_Client R))
      (tnst_Conditions (tn_Status (ns_setReady R ns ConditionFalse rs m))) ConditionReady" for rs m
    using live by (simp add: liveNamespace_def meta_laws_def ns_setReady_def readyCondition_def)
  ultimately show ?thesis
    using live r by (cases "isTransientClusterErr (Some e)")
      (simp_all add: ns_reconcileLive_def liveNamespace_def ns_write_def writeStatus_def statusUpdate_def failed_def)
qed


end
