(* ===== verification/Temporal_Schedule.thy ===== *)
theory Temporal_Schedule
  imports Temporal_Client
begin

text \<open>
  The schedule client (\<^verbatim>\<open>src/internal/temporal/schedule.go\<close>): the parameters of a schedule, their
  translation into the message the frontend takes, and the calls.
\<close>

section \<open>Parameters\<close>

record IntervalParams =
  ivp_Every :: duration
  ivp_Offset :: "duration option"

record RangeParams =
  rgm_Start :: int
  rgm_End :: int
  rgm_Step :: int

record StructuredCalendarParams =
  scm_Second :: "RangeParams list"
  scm_Minute :: "RangeParams list"
  scm_Hour :: "RangeParams list"
  scm_DayOfMonth :: "RangeParams list"
  scm_Month :: "RangeParams list"
  scm_Year :: "RangeParams list"
  scm_DayOfWeek :: "RangeParams list"
  scm_Comment :: string

record ScheduleSpecParams =
  sspm_CronStrings :: "string list"
  sspm_Intervals :: "IntervalParams list"
  sspm_Calendars :: "StructuredCalendarParams list"
  sspm_ExcludeCalendars :: "StructuredCalendarParams list"
  sspm_StartTime :: "gotime option"
  sspm_EndTime :: "gotime option"
  sspm_Jitter :: "duration option"
  sspm_TimezoneName :: string

record RetryParams =
  rtm_InitialInterval :: "duration option"
  rtm_BackoffCoefficient :: gofloat
  rtm_MaximumInterval :: "duration option"
  rtm_MaximumAttempts :: int
  rtm_NonRetryableErrorTypes :: "string list"

record StartWorkflowParams =
  swp_WorkflowType :: string
  swp_TaskQueue :: string
  swp_WorkflowID :: string
  swp_Args :: "string list"
  swp_ExecutionTimeout :: "duration option"
  swp_RunTimeout :: "duration option"
  swp_TaskTimeout :: "duration option"
  swp_IDReusePolicy :: string
  swp_Retry :: "RetryParams option"
  swp_Memo :: "string goalist"
  swp_SearchAttributes :: "string goalist"

record SchedulePolicyParams =
  spm_OverlapPolicy :: string
  spm_CatchupWindow :: "duration option"
  spm_PauseOnFailure :: bool
  spm_KeepOriginalWorkflowID :: bool

record ScheduleStateParams =
  stm_Paused :: bool
  stm_Notes :: string
  stm_LimitedActions :: bool
  stm_RemainingActions :: int

record ScheduleParams =
  spr_ScheduleID :: string
  spr_Namespace :: string
  spr_Spec :: ScheduleSpecParams
  spr_Action :: StartWorkflowParams
  spr_Policies :: SchedulePolicyParams
  spr_State :: ScheduleStateParams

record ScheduleInfo =
  sci_Paused :: bool
  sci_Notes :: string
  sci_NextActionTimes :: "gotime list"
  sci_RunningWorkflows :: nat

section \<open>Translation\<close>

definition overlapPolicies :: "OverlapPolicy goalist" where
  "overlapPolicies =
     [([], OverlapUnspecified), (''Skip'', OverlapSkip), (''BufferOne'', OverlapBufferOne),
      (''BufferAll'', OverlapBufferAll), (''CancelOther'', OverlapCancelOther),
      (''TerminateOther'', OverlapTerminateOther), (''AllowAll'', OverlapAllowAll)]"

definition reusePolicies :: "ReusePolicy goalist" where
  "reusePolicies =
     [([], ReuseUnspecified), (''AllowDuplicate'', ReuseAllowDuplicate),
      (''AllowDuplicateFailedOnly'', ReuseAllowDuplicateFailedOnly),
      (''RejectDuplicate'', ReuseRejectDuplicate), (''TerminateIfRunning'', ReuseTerminateIfRunning)]"

definition encodeJSONPayload :: "string \<Rightarrow> Payload" where
  "encodeJSONPayload raw = \<lparr>pay_Encoding = ''json/plain'', pay_Data = raw\<rparr>"

definition encodeJSONPayloads :: "string list \<Rightarrow> Payload list option" where
  "encodeJSONPayloads raws = (if raws = [] then None else Some (map encodeJSONPayload raws))"

definition encodeJSONFields :: "string goalist \<Rightarrow> Payload goalist option" where
  "encodeJSONFields raws = (if raws = [] then None else Some (map (\<lambda>(k, r). (k, encodeJSONPayload r)) raws))"

definition protoRanges :: "RangeParams list \<Rightarrow> RangeProto list" where
  "protoRanges rs =
     map (\<lambda>r. \<lparr>rgp_Start = rgm_Start r, rgp_End = rgm_End r,
               rgp_Step = (if rgm_Step r = 0 then 1 else rgm_Step r)\<rparr>) rs"

definition protoCalendar :: "StructuredCalendarParams \<Rightarrow> StructuredCalendarProto" where
  "protoCalendar c =
     \<lparr>scp_Second = protoRanges (scm_Second c), scp_Minute = protoRanges (scm_Minute c),
      scp_Hour = protoRanges (scm_Hour c), scp_DayOfMonth = protoRanges (scm_DayOfMonth c),
      scp_Month = protoRanges (scm_Month c), scp_Year = protoRanges (scm_Year c),
      scp_DayOfWeek = protoRanges (scm_DayOfWeek c), scp_Comment = scm_Comment c\<rparr>"

definition retryProto :: "RetryParams \<Rightarrow> RetryPolicyProto" where
  "retryProto r =
     \<lparr>rtp_InitialInterval = rtm_InitialInterval r, rtp_BackoffCoefficient = rtm_BackoffCoefficient r,
      rtp_MaximumInterval = rtm_MaximumInterval r, rtp_MaximumAttempts = rtm_MaximumAttempts r,
      rtp_NonRetryableErrorTypes = rtm_NonRetryableErrorTypes r\<rparr>"

text \<open>The part that a schedule action and a start request share.\<close>

definition newWorkflowProto :: "ReusePolicy \<Rightarrow> StartWorkflowParams \<Rightarrow> NewWorkflowProto" where
  "newWorkflowProto reuse p =
     \<lparr>nwp_WorkflowId = swp_WorkflowID p, nwp_WorkflowType = swp_WorkflowType p, nwp_TaskQueue = swp_TaskQueue p,
      nwp_Input = encodeJSONPayloads (swp_Args p), nwp_ExecutionTimeout = swp_ExecutionTimeout p,
      nwp_RunTimeout = swp_RunTimeout p, nwp_TaskTimeout = swp_TaskTimeout p, nwp_ReusePolicy = reuse,
      nwp_Memo = encodeJSONFields (swp_Memo p), nwp_SearchAttributes = encodeJSONFields (swp_SearchAttributes p),
      nwp_RetryPolicy = map_option retryProto (swp_Retry p)\<rparr>"

definition toProtoSchedule :: "ScheduleParams \<Rightarrow> ScheduleProto result" where
  "toProtoSchedule p =
     (case map_of overlapPolicies (spm_OverlapPolicy (spr_Policies p)) of
        None \<Rightarrow> Inl (ErrMsg (''unknown overlap policy '' @ goQuote (spm_OverlapPolicy (spr_Policies p))))
      | Some overlap \<Rightarrow>
      (case map_of reusePolicies (swp_IDReusePolicy (spr_Action p)) of
        None \<Rightarrow> Inl (ErrMsg (''unknown workflow id reuse policy '' @ goQuote (swp_IDReusePolicy (spr_Action p))))
      | Some reuse \<Rightarrow>
          (let sp = spr_Spec p in
           Inr \<lparr>sp_Spec =
                  \<lparr>ssp_CronString = sspm_CronStrings sp,
                   ssp_Interval = map (\<lambda>iv. \<lparr>itp_Interval = ivp_Every iv, itp_Phase = ivp_Offset iv\<rparr>) (sspm_Intervals sp),
                   ssp_StructuredCalendar = map protoCalendar (sspm_Calendars sp),
                   ssp_ExcludeStructuredCalendar = map protoCalendar (sspm_ExcludeCalendars sp),
                   ssp_StartTime = sspm_StartTime sp, ssp_EndTime = sspm_EndTime sp,
                   ssp_Jitter = sspm_Jitter sp, ssp_TimezoneName = sspm_TimezoneName sp\<rparr>,
                sp_Action = newWorkflowProto reuse (spr_Action p),
                sp_Policies =
                  \<lparr>spp_OverlapPolicy = overlap, spp_CatchupWindow = spm_CatchupWindow (spr_Policies p),
                   spp_PauseOnFailure = spm_PauseOnFailure (spr_Policies p),
                   spp_KeepOriginalWorkflowId = spm_KeepOriginalWorkflowID (spr_Policies p)\<rparr>,
                sp_State =
                  \<lparr>stp_Notes = stm_Notes (spr_State p), stp_Paused = stm_Paused (spr_State p),
                   stp_LimitedActions = stm_LimitedActions (spr_State p),
                   stp_RemainingActions = stm_RemainingActions (spr_State p)\<rparr>\<rparr>)))"

section \<open>The client\<close>

record ScheduleClient =
  sc_Describe :: "string \<Rightarrow> string \<Rightarrow> ScheduleInfo result act"
  sc_Create :: "ScheduleParams \<Rightarrow> err option act"
  sc_Update :: "ScheduleParams \<Rightarrow> err option act"
  sc_Pause :: "string \<Rightarrow> string \<Rightarrow> string \<Rightarrow> err option act"
  sc_Unpause :: "string \<Rightarrow> string \<Rightarrow> string \<Rightarrow> err option act"
  sc_Delete :: "string \<Rightarrow> string \<Rightarrow> err option act"

definition grpcScheduleDescribe :: "frontend \<Rightarrow> string \<Rightarrow> string \<Rightarrow> string \<Rightarrow> ScheduleInfo result act" where
  "grpcScheduleDescribe F addr ns scheduleID = do {
     r \<leftarrow> perform (CTemporal addr (DescribeSchedule ns scheduleID)) (\<lambda>tr. f_DescribeSchedule F tr addr ns scheduleID);
     State_Monad.return (case r of
       Inl e \<Rightarrow> Inl (if statusCode e = CodeNotFound then ErrScheduleNotFound else e)
     | Inr resp \<Rightarrow>
         Inr \<lparr>sci_Paused = dsr_Paused resp, sci_Notes = dsr_Notes resp,
              sci_NextActionTimes = dsr_FutureActionTimes resp, sci_RunningWorkflows = dsr_RunningWorkflows resp\<rparr>)
   }"

definition grpcScheduleCreate :: "frontend \<Rightarrow> string \<Rightarrow> ScheduleParams \<Rightarrow> err option act" where
  "grpcScheduleCreate F addr params =
     (case toProtoSchedule params of
        Inl e \<Rightarrow> State_Monad.return (Some e)
      | Inr sched \<Rightarrow>
          perform (CTemporal addr (CreateSchedule (spr_Namespace params) (spr_ScheduleID params) sched))
            (\<lambda>tr. f_CreateSchedule F tr addr (spr_Namespace params) (spr_ScheduleID params) sched))"

definition grpcScheduleUpdate :: "frontend \<Rightarrow> string \<Rightarrow> ScheduleParams \<Rightarrow> err option act" where
  "grpcScheduleUpdate F addr params =
     (case toProtoSchedule params of
        Inl e \<Rightarrow> State_Monad.return (Some e)
      | Inr sched \<Rightarrow>
          perform (CTemporal addr (UpdateSchedule (spr_Namespace params) (spr_ScheduleID params) sched))
            (\<lambda>tr. f_UpdateSchedule F tr addr (spr_Namespace params) (spr_ScheduleID params) sched))"

definition pauseNotes :: "string \<Rightarrow> string \<Rightarrow> string" where
  "pauseNotes notes fallback = (if notes \<noteq> [] then notes else fallback)"

definition grpcSchedulePatch :: "frontend \<Rightarrow> string \<Rightarrow> string \<Rightarrow> string \<Rightarrow> SchedulePatch \<Rightarrow> err option act" where
  "grpcSchedulePatch F addr ns scheduleID p =
     perform (CTemporal addr (PatchSchedule ns scheduleID p)) (\<lambda>tr. f_PatchSchedule F tr addr ns scheduleID p)"

definition grpcSchedulePause :: "frontend \<Rightarrow> string \<Rightarrow> string \<Rightarrow> string \<Rightarrow> string \<Rightarrow> err option act" where
  "grpcSchedulePause F addr ns scheduleID notes =
     grpcSchedulePatch F addr ns scheduleID (PatchPause (pauseNotes notes ''paused by temporal-operator''))"

definition grpcScheduleUnpause :: "frontend \<Rightarrow> string \<Rightarrow> string \<Rightarrow> string \<Rightarrow> string \<Rightarrow> err option act" where
  "grpcScheduleUnpause F addr ns scheduleID notes =
     grpcSchedulePatch F addr ns scheduleID (PatchUnpause (pauseNotes notes ''unpaused by temporal-operator''))"

definition grpcScheduleDelete :: "frontend \<Rightarrow> string \<Rightarrow> string \<Rightarrow> string \<Rightarrow> err option act" where
  "grpcScheduleDelete F addr ns scheduleID = do {
     e \<leftarrow> perform (CTemporal addr (DeleteSchedule ns scheduleID)) (\<lambda>tr. f_DeleteSchedule F tr addr ns scheduleID);
     State_Monad.return (case e of
       None \<Rightarrow> None
     | Some er \<Rightarrow> Some (if statusCode er = CodeNotFound then ErrScheduleNotFound else er))
   }"

definition grpcScheduleClient :: "frontend \<Rightarrow> string \<Rightarrow> ScheduleClient" where
  "grpcScheduleClient F addr =
     \<lparr>sc_Describe = grpcScheduleDescribe F addr, sc_Create = grpcScheduleCreate F addr,
      sc_Update = grpcScheduleUpdate F addr, sc_Pause = grpcSchedulePause F addr,
      sc_Unpause = grpcScheduleUnpause F addr, sc_Delete = grpcScheduleDelete F addr\<rparr>"

definition NewScheduleClient :: "frontend \<Rightarrow> string \<Rightarrow> TlsConfig option \<Rightarrow> ScheduleClient result act" where
  "NewScheduleClient F address tlsConfig = do {
     e \<leftarrow> dial F address tlsConfig;
     State_Monad.return (case e of Some er \<Rightarrow> Inl er | None \<Rightarrow> Inr (grpcScheduleClient F address))
   }"

end
