(* ===== verification/Schedule_Controller.thy ===== *)
theory Schedule_Controller
  imports Targets Temporal_Schedule
begin

text \<open>
  The controller of TemporalSchedules (\<^verbatim>\<open>src/internal/controller/temporalschedule_controller.go\<close>): the
  parameters of a schedule, the hash that detects a changed spec, the pause state, and deletion.  Two
  functions of the standard library stay parameters of the reconciler: \<^verbatim>\<open>strconv.ParseFloat\<close>, and the
  bytes \<^verbatim>\<open>json.Marshal\<close> gives for parameters it accepts.
\<close>

record TemporalScheduleReconciler =
  scr_Client :: crd_api
  scr_ClientFactory :: "(string \<Rightarrow> TlsConfig option \<Rightarrow> ScheduleClient result act) option"
  scr_Frontend :: frontend
  scr_ParseFloat :: "string \<Rightarrow> gofloat result"
  scr_Marshal :: "ScheduleParams \<Rightarrow> string"

definition scheduleFinalizer :: string where "scheduleFinalizer = ''temporal.bmor10.com/schedule''"

definition scheduleDriftRequeue :: duration where "scheduleDriftRequeue = seconds (5 * 60)"

definition scheduleClientFactory ::
  "TemporalScheduleReconciler \<Rightarrow> string \<Rightarrow> TlsConfig option \<Rightarrow> ScheduleClient result act" where
  "scheduleClientFactory R = (case scr_ClientFactory R of Some f \<Rightarrow> f | None \<Rightarrow> NewScheduleClient (scr_Frontend R))"

section \<open>Parameters\<close>

definition resolveScheduleID :: "TemporalSchedule \<Rightarrow> string" where
  "resolveScheduleID sched =
     (if tss_ScheduleID (tsc_Spec sched) \<noteq> [] then tss_ScheduleID (tsc_Spec sched) else om_Name (tsc_Meta sched))"

definition ranges :: "CalendarRange list \<Rightarrow> RangeParams list" where
  "ranges rs = map (\<lambda>r. \<lparr>rgm_Start = cr_Start r, rgm_End = cr_End r, rgm_Step = cr_Step r\<rparr>) rs"

definition calendars :: "StructuredCalendarSpec list \<Rightarrow> StructuredCalendarParams list" where
  "calendars cs =
     map (\<lambda>c. \<lparr>scm_Second = ranges (scs_Second c), scm_Minute = ranges (scs_Minute c), scm_Hour = ranges (scs_Hour c),
               scm_DayOfMonth = ranges (scs_DayOfMonth c), scm_Month = ranges (scs_Month c), scm_Year = ranges (scs_Year c),
               scm_DayOfWeek = ranges (scs_DayOfWeek c), scm_Comment = scs_Comment c\<rparr>) cs"

text \<open>The retry policy of a workflow; the coefficient is 2 unless one is given.\<close>

definition retryParams :: "(string \<Rightarrow> gofloat result) \<Rightarrow> RetryPolicySpec option \<Rightarrow> RetryParams option result" where
  "retryParams parseFloat rp =
     (case rp of
        None \<Rightarrow> Inr None
      | Some p \<Rightarrow>
          bindR (if rps_BackoffCoefficient p = [] then Inr (FloatFinite 2)
                 else (case parseFloat (rps_BackoffCoefficient p) of
                         Inl e \<Rightarrow> Inl (WrapErr ''invalid retryPolicy.backoffCoefficient'' e)
                       | Inr f \<Rightarrow> Inr f))
            (\<lambda>backoff. Inr (Some
               \<lparr>rtm_InitialInterval = rps_InitialInterval p, rtm_BackoffCoefficient = backoff,
                rtm_MaximumInterval = rps_MaximumInterval p, rtm_MaximumAttempts = rps_MaximumAttempts p,
                rtm_NonRetryableErrorTypes = rps_NonRetryableErrorTypes p\<rparr>)))"

text \<open>The start parameters of a workflow action, for the workflow id that was resolved for it.\<close>

definition startParams :: "(string \<Rightarrow> gofloat result) \<Rightarrow> string \<Rightarrow> StartWorkflowAction \<Rightarrow> StartWorkflowParams result" where
  "startParams parseFloat wfID a =
     bindR (retryParams parseFloat (swa_RetryPolicy a)) (\<lambda>retry.
       Inr \<lparr>swp_WorkflowType = swa_WorkflowType a, swp_TaskQueue = swa_TaskQueue a, swp_WorkflowID = wfID,
            swp_Args = swa_Args a, swp_ExecutionTimeout = swa_WorkflowExecutionTimeout a,
            swp_RunTimeout = swa_WorkflowRunTimeout a, swp_TaskTimeout = swa_WorkflowTaskTimeout a,
            swp_IDReusePolicy = swa_WorkflowIDReusePolicy a, swp_Retry = retry,
            swp_Memo = swa_Memo a, swp_SearchAttributes = swa_SearchAttributes a\<rparr>)"

definition scheduleSpecParams :: "ScheduleSpec \<Rightarrow> ScheduleSpecParams" where
  "scheduleSpecParams s =
     \<lparr>sspm_CronStrings = sch_Calendars s,
      sspm_Intervals = map (\<lambda>iv. \<lparr>ivp_Every = ivs_Every iv, ivp_Offset = ivs_Offset iv\<rparr>) (sch_Intervals s),
      sspm_Calendars = calendars (sch_StructuredCalendar s),
      sspm_ExcludeCalendars = calendars (sch_ExcludeStructuredCalendar s),
      sspm_StartTime = sch_StartTime s, sspm_EndTime = sch_EndTime s,
      sspm_Jitter = sch_Jitter s, sspm_TimezoneName = sch_TimezoneName s\<rparr>"

definition schedulePolicyParams :: "SchedulePoliciesSpec option \<Rightarrow> SchedulePolicyParams" where
  "schedulePolicyParams p =
     (case p of
        None \<Rightarrow> \<lparr>spm_OverlapPolicy = [], spm_CatchupWindow = None, spm_PauseOnFailure = False,
                 spm_KeepOriginalWorkflowID = False\<rparr>
      | Some q \<Rightarrow> \<lparr>spm_OverlapPolicy = sps_OverlapPolicy q, spm_CatchupWindow = sps_CatchupWindow q,
                   spm_PauseOnFailure = sps_PauseOnFailure q,
                   spm_KeepOriginalWorkflowID = sps_KeepOriginalWorkflowID q\<rparr>)"

definition scheduleStateParams :: "ScheduleStateSpec option \<Rightarrow> ScheduleStateParams" where
  "scheduleStateParams s =
     (case s of
        None \<Rightarrow> \<lparr>stm_Paused = False, stm_Notes = [], stm_LimitedActions = False, stm_RemainingActions = 0\<rparr>
      | Some t \<Rightarrow> \<lparr>stm_Paused = sss_Paused t, stm_Notes = sss_Notes t, stm_LimitedActions = sss_LimitedActions t,
                   stm_RemainingActions = sss_RemainingActions t\<rparr>)"

definition scheduleParams :: "(string \<Rightarrow> gofloat result) \<Rightarrow> TemporalSchedule \<Rightarrow> ScheduleParams result" where
  "scheduleParams parseFloat sched =
     (let spec = tsc_Spec sched; a = sas_StartWorkflow (tss_Action spec) in
      bindR (startParams parseFloat (swa_WorkflowID a) a) (\<lambda>action.
        Inr \<lparr>spr_ScheduleID = resolveScheduleID sched, spr_Namespace = tss_Namespace spec,
             spr_Spec = scheduleSpecParams (tss_Schedule spec), spr_Action = action,
             spr_Policies = schedulePolicyParams (tss_Policies spec),
             spr_State = scheduleStateParams (tss_State spec)\<rparr>))"

text \<open>
  \<^verbatim>\<open>json.Marshal\<close> refuses infinities and NaN.  The other fields marshal: the times of a stored object were
  parsed from RFC 3339, so their year is in the range that \<^verbatim>\<open>time.Time\<close> can print.
\<close>

definition marshalError :: "ScheduleParams \<Rightarrow> err option" where
  "marshalError p =
     (case swp_Retry (spr_Action p) of
        None \<Rightarrow> None
      | Some r \<Rightarrow>
          (case rtm_BackoffCoefficient r of
             FloatFinite _ \<Rightarrow> None
           | FloatInf neg \<Rightarrow> Some (ErrMsg (''json: unsupported value: '' @ (if neg then ''-Inf'' else ''+Inf'')))
           | FloatNaN \<Rightarrow> Some (ErrMsg ''json: unsupported value: NaN'')))"

definition computeSpecHash :: "(ScheduleParams \<Rightarrow> string) \<Rightarrow> ScheduleParams \<Rightarrow> string result" where
  "computeSpecHash marshal p =
     (case marshalError p of
        Some e \<Rightarrow> Inl e
      | None \<Rightarrow> Inr (hexEncode (sha256 (marshal p))))"

section \<open>Reconciling a schedule\<close>

definition sched_setReady ::
  "TemporalScheduleReconciler \<Rightarrow> TemporalSchedule \<Rightarrow> ConditionStatus \<Rightarrow> string \<Rightarrow> string \<Rightarrow> TemporalSchedule" where
  "sched_setReady R sched st reason message =
     sched \<lparr>tsc_Status := (tsc_Status sched)
       \<lparr>tsst_ObservedGeneration := om_Generation (tsc_Meta sched),
        tsst_Conditions := setStatusCondition (ca_meta (scr_Client R)) (tsst_Conditions (tsc_Status sched))
          (readyCondition (tsc_Meta sched) st reason message)\<rparr>\<rparr>"

definition reconcilePause :: "ScheduleClient \<Rightarrow> ScheduleParams \<Rightarrow> err option act" where
  "reconcilePause sc p = do {
     d \<leftarrow> sc_Describe sc (spr_Namespace p) (spr_ScheduleID p);
     case d of
       Inl e \<Rightarrow> State_Monad.return (Some (WrapErr ''describing schedule'' e))
     | Inr info \<Rightarrow>
         if stm_Paused (spr_State p) = sci_Paused info then State_Monad.return None
         else if stm_Paused (spr_State p) then sc_Pause sc (spr_Namespace p) (spr_ScheduleID p) (stm_Notes (spr_State p))
         else sc_Unpause sc (spr_Namespace p) (spr_ScheduleID p) (stm_Notes (spr_State p))
   }"

text \<open>
  Creating, updating or pausing: the schedule with the hash of what was applied, and the error.  The
  status fields that were set before an error stay set.
\<close>

definition applySchedule ::
  "TemporalSchedule \<Rightarrow> ScheduleClient \<Rightarrow> ScheduleParams \<Rightarrow> string \<Rightarrow> (TemporalSchedule \<times> err option) act" where
  "applySchedule sched sc p specHash =
     (let applied = sched \<lparr>tsc_Status := (tsc_Status sched) \<lparr>tsst_LastAppliedSpecHash := specHash\<rparr>\<rparr> in do {
        d \<leftarrow> sc_Describe sc (spr_Namespace p) (spr_ScheduleID p);
        case d of
          Inl e \<Rightarrow>
            if errorsIs e ErrScheduleNotFound then do {
              ce \<leftarrow> sc_Create sc p;
              State_Monad.return (case ce of
                Some er \<Rightarrow> (sched, Some (WrapErr ''creating schedule'' er))
              | None \<Rightarrow> (applied, None))
            }
            else State_Monad.return (sched, Some (WrapErr ''describing schedule'' e))
        | Inr _ \<Rightarrow>
            if tsst_LastAppliedSpecHash (tsc_Status sched) \<noteq> specHash then do {
              ue \<leftarrow> sc_Update sc p;
              State_Monad.return (case ue of
                Some er \<Rightarrow> (sched, Some (WrapErr ''updating schedule'' er))
              | None \<Rightarrow> (applied, None))
            }
            else do { pe \<leftarrow> reconcilePause sc p; State_Monad.return (sched, pe) }
      })"

definition reconcileSchedule ::
  "TemporalScheduleReconciler \<Rightarrow> TemporalSchedule \<Rightarrow> ScheduleClient \<Rightarrow> (TemporalSchedule \<times> err option) act" where
  "reconcileSchedule R sched sc =
     (case scheduleParams (scr_ParseFloat R) sched of
        Inl e \<Rightarrow> State_Monad.return (sched_setReady R sched ConditionFalse ''InvalidSpec'' (err_text e), None)
      | Inr p \<Rightarrow>
     (case computeSpecHash (scr_Marshal R) p of
        Inl e \<Rightarrow> State_Monad.return (sched, Some (WrapErr ''hashing schedule spec'' e))
      | Inr specHash \<Rightarrow> do {
          (sched1, ae) \<leftarrow> applySchedule sched sc p specHash;
          case ae of
            Some e \<Rightarrow> State_Monad.return (sched1, Some e)
          | None \<Rightarrow> do {
              d \<leftarrow> sc_Describe sc (spr_Namespace p) (spr_ScheduleID p);
              case d of
                Inl e \<Rightarrow> State_Monad.return (sched1, Some (WrapErr ''describing schedule'' e))
              | Inr info \<Rightarrow> do {
                  n \<leftarrow> nowTime (ca_kube (scr_Client R));
                  (let sched2 = sched1 \<lparr>tsc_Status := (tsc_Status sched1)
                         \<lparr>tsst_ScheduleID := spr_ScheduleID p, tsst_Created := True, tsst_Paused := sci_Paused info,
                          tsst_Notes := sci_Notes info, tsst_RunningWorkflows := to_int32 (int (sci_RunningWorkflows info)),
                          tsst_NextActionTimes := sci_NextActionTimes info, tsst_LastUpdated := Some n\<rparr>\<rparr>
                   in State_Monad.return (sched_setReady R sched2 ConditionTrue ''Reconciled'' ''schedule is reconciled'', None))
                }
            }
        }))"

section \<open>Deletion\<close>

definition sched_dropFinalizer :: "TemporalScheduleReconciler \<Rightarrow> TemporalSchedule \<Rightarrow> err option act" where
  "sched_dropFinalizer R sched =
     updateObj (scr_Client R) ''TemporalSchedule'' (ca_RemoveFinalizer (scr_Client R) (tsc_Meta sched) scheduleFinalizer)"

definition sched_reconcileDelete ::
  "TemporalScheduleReconciler \<Rightarrow> TemporalSchedule \<Rightarrow> ScheduleClient \<Rightarrow> err option act" where
  "sched_reconcileDelete R sched sc =
     (if \<not> ca_ContainsFinalizer (scr_Client R) (tsc_Meta sched) scheduleFinalizer then State_Monad.return None
      else if tss_AllowDeletion (tsc_Spec sched) then do {
        e \<leftarrow> sc_Delete sc (tss_Namespace (tsc_Spec sched)) (resolveScheduleID sched);
        case e of
          Some er \<Rightarrow>
            if \<not> errorsIs er ErrScheduleNotFound then State_Monad.return (Some (WrapErr ''deleting schedule'' er))
            else sched_dropFinalizer R sched
        | None \<Rightarrow> sched_dropFinalizer R sched
      }
      else sched_dropFinalizer R sched)"

definition sched_removeFinalizerAndForget :: "TemporalScheduleReconciler \<Rightarrow> TemporalSchedule \<Rightarrow> err option act" where
  "sched_removeFinalizerAndForget R sched =
     (if ca_ContainsFinalizer (scr_Client R) (tsc_Meta sched) scheduleFinalizer then sched_dropFinalizer R sched
      else State_Monad.return None)"

section \<open>Reconcile\<close>

definition sched_write :: "TemporalScheduleReconciler \<Rightarrow> TemporalSchedule \<Rightarrow> Result \<Rightarrow> TemporalSchedule outcome act" where
  "sched_write R sched r = writeStatus (scr_Client R) ''TemporalSchedule'' tsc_Meta sched r"

definition sched_reconcileLive ::
  "TemporalScheduleReconciler \<Rightarrow> TemporalSchedule \<Rightarrow> ResolvedTarget \<Rightarrow> ScheduleClient \<Rightarrow> TemporalSchedule outcome act" where
  "sched_reconcileLive R sched target sc =
     (if \<not> rt_Ready target then
        sched_write R (sched_setReady R sched ConditionFalse ''ClusterNotReady''
          ''waiting for the Temporal target to become ready'') (requeueAfter (seconds 15))
      else do {
        (sched1, re) \<leftarrow> reconcileSchedule R sched sc;
        case re of
          Some e \<Rightarrow>
            if isTransientClusterErr (Some e) then
              sched_write R (sched_setReady R sched1 ConditionFalse ''FrontendUnavailable''
                ''waiting for the Temporal frontend to become available'') (requeueAfter clusterUnavailableRequeue)
            else failed e
        | None \<Rightarrow> sched_write R sched1 (requeueAfter scheduleDriftRequeue)
      })"

definition reconcileTemporalSchedule :: "TemporalScheduleReconciler \<Rightarrow> TemporalSchedule \<Rightarrow> TemporalSchedule outcome act" where
  "reconcileTemporalSchedule R sched = do {
     t \<leftarrow> resolveTarget (scr_Client R) (om_Namespace (tsc_Meta sched)) (tss_ClusterRef (tsc_Spec sched));
     case t of
       Inl e \<Rightarrow>
         if isDeleting (tsc_Meta sched) then do { de \<leftarrow> sched_removeFinalizerAndForget R sched; finished noResult de }
         else if errorsIs e ErrTargetNotFound then
           sched_write R (sched_setReady R sched ConditionFalse ''ClusterNotFound'' ''referenced Temporal target not found'')
             (requeueAfter scheduleDriftRequeue)
         else failed e
     | Inr target \<Rightarrow> do {
         c \<leftarrow> scheduleClientFactory R (rt_Address target) (rt_TLSConfig target);
         case c of
           Inl e \<Rightarrow>
             if isDeleting (tsc_Meta sched) then do { de \<leftarrow> sched_removeFinalizerAndForget R sched; finished noResult de }
             else failed (WrapErr ''building temporal client'' e)
         | Inr sc \<Rightarrow>
             if isDeleting (tsc_Meta sched) then do { de \<leftarrow> sched_reconcileDelete R sched sc; finished noResult de }
             else if \<not> ca_ContainsFinalizer (scr_Client R) (tsc_Meta sched) scheduleFinalizer then
               (let sched1 = sched \<lparr>tsc_Meta := ca_AddFinalizer (scr_Client R) (tsc_Meta sched) scheduleFinalizer\<rparr> in do {
                  ue \<leftarrow> updateObj (scr_Client R) ''TemporalSchedule'' (tsc_Meta sched1);
                  case ue of Some e \<Rightarrow> failed e | None \<Rightarrow> sched_reconcileLive R sched1 target sc
                })
             else sched_reconcileLive R sched target sc
       }
   }"

definition ReconcileTemporalSchedule ::
  "TemporalScheduleReconciler \<Rightarrow> string \<Rightarrow> string \<Rightarrow> TemporalSchedule outcome act" where
  "ReconcileTemporalSchedule R nsn name = do {
     r \<leftarrow> perform (CGet ''TemporalSchedule'' nsn name) (\<lambda>tr. ca_GetSchedule (scr_Client R) tr nsn name);
     case r of Inl e \<Rightarrow> finished noResult (ignoreNotFound e) | Inr sched \<Rightarrow> reconcileTemporalSchedule R sched
   }"

definition mapClusterToSchedules :: "TemporalSchedule list result \<Rightarrow> string \<Rightarrow> string \<Rightarrow> (string \<times> string) list" where
  "mapClusterToSchedules items kind name = mapClusterTo tsc_Meta (\<lambda>s. [tss_ClusterRef (tsc_Spec s)]) items kind name"

end
