(* ===== verification/Temporal_Workflow.thy ===== *)
theory Temporal_Workflow
  imports Temporal_Schedule
begin

text \<open>
  The workflow-run client (\<^verbatim>\<open>src/internal/temporal/workflowrun.go\<close>): starting, describing, cancelling
  and terminating one workflow execution.
\<close>

record WorkflowFailure =
  wff_Message :: string
  wff_Type :: string

record WorkflowExecutionInfo =
  wei_Status :: WorkflowExecutionStatus
  wei_RunID :: string
  wei_WorkflowType :: string
  wei_TaskQueue :: string
  wei_StartTime :: "gotime option"
  wei_CloseTime :: "gotime option"
  wei_HistoryLength :: int
  wei_Failure :: "WorkflowFailure option"

record WorkflowRunClient =
  wc_Start :: "string \<Rightarrow> string \<Rightarrow> StartWorkflowParams \<Rightarrow> string result act"
  wc_Describe :: "string \<Rightarrow> string \<Rightarrow> string \<Rightarrow> WorkflowExecutionInfo result act"
  wc_Cancel :: "string \<Rightarrow> string \<Rightarrow> string \<Rightarrow> string \<Rightarrow> err option act"
  wc_Terminate :: "string \<Rightarrow> string \<Rightarrow> string \<Rightarrow> string \<Rightarrow> err option act"

fun PhaseFromStatus :: "WorkflowExecutionStatus \<Rightarrow> string" where
  "PhaseFromStatus StatusRunning = ''Running''"
| "PhaseFromStatus StatusCompleted = ''Completed''"
| "PhaseFromStatus StatusFailed = ''Failed''"
| "PhaseFromStatus StatusCanceled = ''Canceled''"
| "PhaseFromStatus StatusTerminated = ''Terminated''"
| "PhaseFromStatus StatusContinuedAsNew = ''ContinuedAsNew''"
| "PhaseFromStatus StatusTimedOut = ''TimedOut''"
| "PhaseFromStatus _ = ''Pending''"

fun IsTerminalStatus :: "WorkflowExecutionStatus \<Rightarrow> bool" where
  "IsTerminalStatus StatusUnspecified = False"
| "IsTerminalStatus StatusRunning = False"
| "IsTerminalStatus _ = True"

fun workflowFailureFromEvent :: "HistoryEvent \<Rightarrow> WorkflowFailure option" where
  "workflowFailureFromEvent (EventFailed m t) = Some \<lparr>wff_Message = m, wff_Type = t\<rparr>"
| "workflowFailureFromEvent (EventTerminated r) = Some \<lparr>wff_Message = r, wff_Type = ''Terminated''\<rparr>"
| "workflowFailureFromEvent EventTimedOut = Some \<lparr>wff_Message = ''workflow execution timed out'', wff_Type = ''TimedOut''\<rparr>"
| "workflowFailureFromEvent EventOther = None"

text \<open>The loop over the events: the first failure found.\<close>

fun firstFailure :: "HistoryEvent list \<Rightarrow> WorkflowFailure option" where
  "firstFailure [] = None"
| "firstFailure (ev # evs) = (case workflowFailureFromEvent ev of Some f \<Rightarrow> Some f | None \<Rightarrow> firstFailure evs)"

definition closeFailure :: "frontend \<Rightarrow> string \<Rightarrow> string \<Rightarrow> string \<Rightarrow> string \<Rightarrow> WorkflowFailure option act" where
  "closeFailure F addr ns workflowID runID = do {
     r \<leftarrow> perform (CTemporal addr (GetWorkflowExecutionHistory ns workflowID runID))
            (\<lambda>tr. f_GetHistory F tr addr ns workflowID runID);
     State_Monad.return (case r of Inl _ \<Rightarrow> None | Inr evs \<Rightarrow> firstFailure evs)
   }"

definition workflowInfoFromProto :: "WorkflowExecutionInfoProto \<Rightarrow> WorkflowExecutionInfo" where
  "workflowInfoFromProto wi =
     \<lparr>wei_Status = wip_Status wi, wei_RunID = wip_RunId wi, wei_WorkflowType = wip_Type wi,
      wei_TaskQueue = wip_TaskQueue wi, wei_StartTime = wip_StartTime wi, wei_CloseTime = wip_CloseTime wi,
      wei_HistoryLength = wip_HistoryLength wi, wei_Failure = None\<rparr>"

definition grpcWorkflowDescribe :: "frontend \<Rightarrow> string \<Rightarrow> string \<Rightarrow> string \<Rightarrow> string \<Rightarrow> WorkflowExecutionInfo result act" where
  "grpcWorkflowDescribe F addr ns workflowID runID = do {
     r \<leftarrow> perform (CTemporal addr (DescribeWorkflowExecution ns workflowID runID))
            (\<lambda>tr. f_DescribeWorkflow F tr addr ns workflowID runID);
     case r of
       Inl e \<Rightarrow> State_Monad.return (Inl (if statusCode e = CodeNotFound then ErrWorkflowNotFound else e))
     | Inr wi \<Rightarrow>
         (let info = workflowInfoFromProto wi in
          if IsTerminalStatus (wei_Status info) \<and> wei_Status info \<noteq> StatusCompleted \<and> wei_Status info \<noteq> StatusCanceled
          then do {
            f \<leftarrow> closeFailure F addr ns workflowID (wei_RunID info);
            State_Monad.return (Inr (info \<lparr>wei_Failure := f\<rparr>))
          }
          else State_Monad.return (Inr info))
   }"

definition grpcWorkflowStart :: "frontend \<Rightarrow> string \<Rightarrow> string \<Rightarrow> string \<Rightarrow> StartWorkflowParams \<Rightarrow> string result act" where
  "grpcWorkflowStart F addr ns requestID p =
     (case map_of reusePolicies (swp_IDReusePolicy p) of
        None \<Rightarrow> State_Monad.return (Inl (ErrMsg (''unknown workflow id reuse policy '' @ goQuote (swp_IDReusePolicy p))))
      | Some reuse \<Rightarrow>
          (let req = \<lparr>swr_Namespace = ns, swr_RequestId = requestID, swr_Workflow = newWorkflowProto reuse p\<rparr> in do {
             r \<leftarrow> perform (CTemporal addr (StartWorkflowExecution req)) (\<lambda>tr. f_StartWorkflow F tr addr req);
             case r of
               Inr runID \<Rightarrow> State_Monad.return (Inr runID)
             | Inl e \<Rightarrow>
                 if statusCode e = CodeAlreadyExists then do {
                   d \<leftarrow> grpcWorkflowDescribe F addr ns (swp_WorkflowID p) [];
                   State_Monad.return (case d of Inl derr \<Rightarrow> Inl derr | Inr info \<Rightarrow> Inr (wei_RunID info))
                 }
                 else State_Monad.return (Inl e)
           }))"

text \<open>A workflow that is gone or already closed.\<close>

definition goneIsNotFound :: "err option \<Rightarrow> err option" where
  "goneIsNotFound e =
     (case e of
        None \<Rightarrow> None
      | Some er \<Rightarrow>
          Some (if statusCode er = CodeNotFound \<or> statusCode er = CodeFailedPrecondition then ErrWorkflowNotFound else er))"

definition grpcWorkflowCancel :: "frontend \<Rightarrow> string \<Rightarrow> string \<Rightarrow> string \<Rightarrow> string \<Rightarrow> string \<Rightarrow> err option act" where
  "grpcWorkflowCancel F addr ns workflowID runID reason = do {
     e \<leftarrow> perform (CTemporal addr (RequestCancelWorkflowExecution ns workflowID runID reason))
            (\<lambda>tr. f_CancelWorkflow F tr addr ns workflowID runID reason);
     State_Monad.return (goneIsNotFound e)
   }"

definition grpcWorkflowTerminate :: "frontend \<Rightarrow> string \<Rightarrow> string \<Rightarrow> string \<Rightarrow> string \<Rightarrow> string \<Rightarrow> err option act" where
  "grpcWorkflowTerminate F addr ns workflowID runID reason = do {
     e \<leftarrow> perform (CTemporal addr (TerminateWorkflowExecution ns workflowID runID reason))
            (\<lambda>tr. f_TerminateWorkflow F tr addr ns workflowID runID reason);
     State_Monad.return (goneIsNotFound e)
   }"

definition grpcWorkflowRunClient :: "frontend \<Rightarrow> string \<Rightarrow> WorkflowRunClient" where
  "grpcWorkflowRunClient F addr =
     \<lparr>wc_Start = grpcWorkflowStart F addr, wc_Describe = grpcWorkflowDescribe F addr,
      wc_Cancel = grpcWorkflowCancel F addr, wc_Terminate = grpcWorkflowTerminate F addr\<rparr>"

definition NewWorkflowRunClient :: "frontend \<Rightarrow> string \<Rightarrow> TlsConfig option \<Rightarrow> WorkflowRunClient result act" where
  "NewWorkflowRunClient F address tlsConfig = do {
     e \<leftarrow> dial F address tlsConfig;
     State_Monad.return (case e of Some er \<Rightarrow> Inl er | None \<Rightarrow> Inr (grpcWorkflowRunClient F address))
   }"

end
