(* ===== verification/Workflow_Run_Controller.thy ===== *)
theory Workflow_Run_Controller
  imports Schedule_Controller Temporal_Workflow
begin

text \<open>
  The controller of TemporalWorkflowRuns (\<^verbatim>\<open>src/internal/controller/temporalworkflowrun_controller.go\<close>):
  one workflow is started, its execution is observed until it closes, and the object is removed after
  its time to live.  A pass works on one object that it mutates, so the operations return the object with
  the status fields set so far also when they fail.
\<close>

record TemporalWorkflowRunReconciler =
  wrr_Client :: crd_api
  wrr_ClientFactory :: "(string \<Rightarrow> TlsConfig option \<Rightarrow> WorkflowRunClient result act) option"
  wrr_Frontend :: frontend
  wrr_ParseFloat :: "string \<Rightarrow> gofloat result"

definition workflowRunFinalizer :: string where "workflowRunFinalizer = ''temporal.bmor10.com/workflowrun''"

definition workflowRunPollInterval :: duration where "workflowRunPollInterval = seconds 10"

definition workflowRunPolicyRetry :: duration where "workflowRunPolicyRetry = seconds 30"

definition workflowRunClientFactory ::
  "TemporalWorkflowRunReconciler \<Rightarrow> string \<Rightarrow> TlsConfig option \<Rightarrow> WorkflowRunClient result act" where
  "workflowRunClientFactory R = (case wrr_ClientFactory R of Some f \<Rightarrow> f | None \<Rightarrow> NewWorkflowRunClient (wrr_Frontend R))"

section \<open>Policy and parameters\<close>

definition resolveWorkflowID :: "TemporalWorkflowRun \<Rightarrow> string" where
  "resolveWorkflowID run =
     (if swa_WorkflowID (wrs_Workflow (wr_Spec run)) \<noteq> [] then swa_WorkflowID (wrs_Workflow (wr_Spec run))
      else om_Name (wr_Meta run))"

fun contains :: "string list \<Rightarrow> string \<Rightarrow> bool" where
  "contains [] needle = False"
| "contains (s # haystack) needle = (if s = needle then True else contains haystack needle)"

definition checkWorkflowRunPolicy :: "WorkflowRunPolicy \<Rightarrow> string \<Rightarrow> string \<Rightarrow> err option" where
  "checkWorkflowRunPolicy p ns taskQueue =
     (if \<not> wrp_Enabled p then Some (ErrMsg ''workflow runs are not enabled on the referenced Temporal target'')
      else if wrp_AllowedNamespaces p \<noteq> [] \<and> \<not> contains (wrp_AllowedNamespaces p) ns
      then Some (ErrMsg (''namespace '' @ goQuote ns @ '' is not in the target's allowedNamespaces''))
      else if wrp_AllowedTaskQueues p \<noteq> [] \<and> \<not> contains (wrp_AllowedTaskQueues p) taskQueue
      then Some (ErrMsg (''task queue '' @ goQuote taskQueue @ '' is not in the target's allowedTaskQueues''))
      else None)"

definition workflowRunParams :: "(string \<Rightarrow> gofloat result) \<Rightarrow> TemporalWorkflowRun \<Rightarrow> StartWorkflowParams result" where
  "workflowRunParams parseFloat run = startParams parseFloat (resolveWorkflowID run) (wrs_Workflow (wr_Spec run))"

section \<open>The run\<close>

definition run_setReady ::
  "TemporalWorkflowRunReconciler \<Rightarrow> TemporalWorkflowRun \<Rightarrow> ConditionStatus \<Rightarrow> string \<Rightarrow> string \<Rightarrow> TemporalWorkflowRun" where
  "run_setReady R run st reason message =
     run \<lparr>wr_Status := (wr_Status run)
       \<lparr>wrst_ObservedGeneration := om_Generation (wr_Meta run),
        wrst_Conditions := setStatusCondition (ca_meta (wrr_Client R)) (wrst_Conditions (wr_Status run))
          (readyCondition (wr_Meta run) st reason message)\<rparr>\<rparr>"

definition run_write :: "TemporalWorkflowRunReconciler \<Rightarrow> TemporalWorkflowRun \<Rightarrow> Result \<Rightarrow> TemporalWorkflowRun outcome act" where
  "run_write R run r = writeStatus (wrr_Client R) ''TemporalWorkflowRun'' wr_Meta run r"

text \<open>The remaining time to live, in nanoseconds; the seconds are an \<^verbatim>\<open>int32\<close>, so the product fits an \<^verbatim>\<open>int64\<close>.\<close>

definition ttlRemaining :: "gotime \<Rightarrow> int \<Rightarrow> gotime \<Rightarrow> duration" where
  "ttlRemaining completion ttl now = completion + seconds ttl - now"

definition ttlCleanup :: "TemporalWorkflowRunReconciler \<Rightarrow> TemporalWorkflowRun \<Rightarrow> (Result \<times> err option) act" where
  "ttlCleanup R run =
     (case wrs_TTLSecondsAfterFinished (wr_Spec run) of
        None \<Rightarrow> State_Monad.return (noResult, None)
      | Some ttl \<Rightarrow>
     (case wrst_CompletionTime (wr_Status run) of
        None \<Rightarrow> State_Monad.return (noResult, Some (Panic ''nil completion time''))
      | Some completion \<Rightarrow> do {
          n \<leftarrow> nowTime (ca_kube (wrr_Client R));
          (let remaining = ttlRemaining completion ttl n in
           if remaining > 0 then State_Monad.return (requeueAfter remaining, None)
           else do {
             e \<leftarrow> deleteObj (ca_kube (wrr_Client R)) ''TemporalWorkflowRun'' (om_Namespace (wr_Meta run)) (om_Name (wr_Meta run));
             State_Monad.return (noResult, case e of None \<Rightarrow> None | Some er \<Rightarrow> ignoreNotFound er)
           })
        }))"

text \<open>Starting the workflow, unless the status has its run id: the object, or the end of the pass.\<close>

datatype startOutcome =
    Started TemporalWorkflowRun
  | NotPermitted TemporalWorkflowRun
  | InvalidParams TemporalWorkflowRun
  | StartFailed err

definition startRun ::
  "TemporalWorkflowRunReconciler \<Rightarrow> TemporalWorkflowRun \<Rightarrow> WorkflowRunClient \<Rightarrow> WorkflowRunPolicy \<Rightarrow> startOutcome act" where
  "startRun R run wc policy =
     (if wrst_RunID (wr_Status run) \<noteq> [] then State_Monad.return (Started run)
      else
        (case checkWorkflowRunPolicy policy (wrs_Namespace (wr_Spec run)) (swa_TaskQueue (wrs_Workflow (wr_Spec run))) of
           Some e \<Rightarrow> State_Monad.return (NotPermitted (run_setReady R run ConditionFalse ''WorkflowRunNotPermitted'' (err_text e)))
         | None \<Rightarrow>
        (case workflowRunParams (wrr_ParseFloat R) run of
           Inl e \<Rightarrow> State_Monad.return (InvalidParams (run_setReady R run ConditionFalse ''InvalidSpec'' (err_text e)))
         | Inr p \<Rightarrow> do {
             s \<leftarrow> wc_Start wc (wrs_Namespace (wr_Spec run)) (wr_UID run) p;
             State_Monad.return (case s of
               Inl e \<Rightarrow> StartFailed (WrapErr ''starting workflow'' e)
             | Inr runID \<Rightarrow>
                 Started (run_setReady R (run \<lparr>wr_Status := (wr_Status run)
                   \<lparr>wrst_WorkflowID := resolveWorkflowID run, wrst_RunID := runID,
                    wrst_WorkflowType := swa_WorkflowType (wrs_Workflow (wr_Spec run)),
                    wrst_TaskQueue := swa_TaskQueue (wrs_Workflow (wr_Spec run)), wrst_Phase := ''Running''\<rparr>\<rparr>)
                   ConditionTrue ''WorkflowRunning'' ''workflow started''))
           })))"

text \<open>The observed state of the execution.\<close>

definition observed :: "TemporalWorkflowRun \<Rightarrow> WorkflowExecutionInfo \<Rightarrow> TemporalWorkflowRun" where
  "observed run info =
     run \<lparr>wr_Status := (wr_Status run)
       \<lparr>wrst_Phase := PhaseFromStatus (wei_Status info), wrst_HistoryLength := wei_HistoryLength info,
        wrst_StartTime := (case wei_StartTime info of None \<Rightarrow> wrst_StartTime (wr_Status run) | Some t \<Rightarrow> Some t),
        wrst_CloseTime := (case wei_CloseTime info of None \<Rightarrow> wrst_CloseTime (wr_Status run) | Some t \<Rightarrow> Some t)\<rparr>\<rparr>"

definition finishedCondition :: "TemporalWorkflowRun \<Rightarrow> Condition" where
  "finishedCondition run =
     \<lparr>c_Type = ''Finished'', c_Status = ConditionTrue, c_Reason = ''WorkflowFinished'',
      c_Message = ''workflow reached a terminal state: '' @ wrst_Phase (wr_Status run),
      c_ObservedGeneration = om_Generation (wr_Meta run)\<rparr>"

definition completed :: "TemporalWorkflowRunReconciler \<Rightarrow> TemporalWorkflowRun \<Rightarrow> WorkflowExecutionInfo \<Rightarrow> gotime \<Rightarrow> TemporalWorkflowRun" where
  "completed R run info now =
     (let run1 = run \<lparr>wr_Status := (wr_Status run)
            \<lparr>wrst_CompletionTime := (case wrst_CompletionTime (wr_Status run) of None \<Rightarrow> Some now | Some t \<Rightarrow> Some t),
             wrst_Failure := (case wei_Failure info of
               None \<Rightarrow> wrst_Failure (wr_Status run)
             | Some f \<Rightarrow> Some \<lparr>wrf_Message = wff_Message f, wrf_Type = wff_Type f\<rparr>)\<rparr>\<rparr>;
          run2 = run1 \<lparr>wr_Status := (wr_Status run1)
            \<lparr>wrst_Conditions := setStatusCondition (ca_meta (wrr_Client R)) (wrst_Conditions (wr_Status run1)) (finishedCondition run1)\<rparr>\<rparr>
      in run_setReady R run2 ConditionTrue ''WorkflowFinished'' (''workflow finished: '' @ wrst_Phase (wr_Status run2)))"

text \<open>Refreshing the observed state: the object with the status set so far, and the outcome.\<close>

definition observeRun ::
  "TemporalWorkflowRunReconciler \<Rightarrow> TemporalWorkflowRun \<Rightarrow> WorkflowRunClient \<Rightarrow>
     (TemporalWorkflowRun \<times> TemporalWorkflowRun outcome) act" where
  "observeRun R run wc = do {
     d \<leftarrow> wc_Describe wc (wrs_Namespace (wr_Spec run)) (resolveWorkflowID run) (wrst_RunID (wr_Status run));
     case d of
       Inl e \<Rightarrow> State_Monad.return (run, None, noResult, Some (WrapErr ''describing workflow'' e))
     | Inr info \<Rightarrow>
         (let run1 = observed run info in
          if \<not> IsTerminalStatus (wei_Status info) then
            (let run2 = run_setReady R run1 ConditionTrue ''WorkflowRunning'' ''workflow is running'' in do {
               oc \<leftarrow> run_write R run2 (requeueAfter workflowRunPollInterval);
               State_Monad.return (run2, oc)
             })
          else do {
            n \<leftarrow> nowTime (ca_kube (wrr_Client R));
            (let run2 = completed R run1 info n in do {
               (acc, _, we) \<leftarrow> run_write R run2 noResult;
               case we of
                 Some e \<Rightarrow> State_Monad.return (run2, acc, noResult, Some e)
               | None \<Rightarrow> do { (r, e) \<leftarrow> ttlCleanup R run2; State_Monad.return (run2, acc, r, e) }
             })
          })
   }"

definition reconcileRun ::
  "TemporalWorkflowRunReconciler \<Rightarrow> TemporalWorkflowRun \<Rightarrow> WorkflowRunClient \<Rightarrow> WorkflowRunPolicy \<Rightarrow>
     (TemporalWorkflowRun \<times> TemporalWorkflowRun outcome) act" where
  "reconcileRun R run wc policy =
     (if wrst_CompletionTime (wr_Status run) \<noteq> None then do {
        (r, e) \<leftarrow> ttlCleanup R run;
        State_Monad.return (run, None, r, e)
      }
      else do {
        s \<leftarrow> startRun R run wc policy;
        case s of
          NotPermitted run1 \<Rightarrow> do { oc \<leftarrow> run_write R run1 (requeueAfter workflowRunPolicyRetry); State_Monad.return (run1, oc) }
        | InvalidParams run1 \<Rightarrow> do { oc \<leftarrow> run_write R run1 noResult; State_Monad.return (run1, oc) }
        | StartFailed e \<Rightarrow> State_Monad.return (run, None, noResult, Some e)
        | Started run1 \<Rightarrow> observeRun R run1 wc
      })"

section \<open>Deletion\<close>

definition run_removeFinalizer :: "TemporalWorkflowRunReconciler \<Rightarrow> TemporalWorkflowRun \<Rightarrow> err option act" where
  "run_removeFinalizer R run =
     (if ca_ContainsFinalizer (wrr_Client R) (wr_Meta run) workflowRunFinalizer
      then updateObj (wrr_Client R) ''TemporalWorkflowRun'' (ca_RemoveFinalizer (wrr_Client R) (wr_Meta run) workflowRunFinalizer)
      else State_Monad.return None)"

text \<open>The cancellation policy applies to a workflow that was started and has not finished.\<close>

definition cancelRun :: "TemporalWorkflowRun \<Rightarrow> WorkflowRunClient \<Rightarrow> err option act" where
  "cancelRun run wc =
     (let ns = wrs_Namespace (wr_Spec run); wfID = resolveWorkflowID run; runID = wrst_RunID (wr_Status run);
          settle = (\<lambda>msg e. case e of
            Some er \<Rightarrow> if errorsIs er ErrWorkflowNotFound then None else Some (WrapErr msg er)
          | None \<Rightarrow> None)
      in if runID = [] \<or> wrst_CompletionTime (wr_Status run) \<noteq> None then State_Monad.return None
         else if wrs_CancellationPolicy (wr_Spec run) = CancellationPolicyCancel then do {
           e \<leftarrow> wc_Cancel wc ns wfID runID ''TemporalWorkflowRun deleted'';
           State_Monad.return (settle ''cancelling workflow'' e)
         }
         else if wrs_CancellationPolicy (wr_Spec run) = CancellationPolicyTerminate then do {
           e \<leftarrow> wc_Terminate wc ns wfID runID ''TemporalWorkflowRun deleted'';
           State_Monad.return (settle ''terminating workflow'' e)
         }
         else State_Monad.return None)"

definition run_reconcileDelete :: "TemporalWorkflowRunReconciler \<Rightarrow> TemporalWorkflowRun \<Rightarrow> WorkflowRunClient \<Rightarrow> err option act" where
  "run_reconcileDelete R run wc =
     (if \<not> ca_ContainsFinalizer (wrr_Client R) (wr_Meta run) workflowRunFinalizer then State_Monad.return None
      else do {
        e \<leftarrow> cancelRun run wc;
        case e of Some er \<Rightarrow> State_Monad.return (Some er) | None \<Rightarrow> run_removeFinalizer R run
      })"

section \<open>Reconcile\<close>

definition run_reconcileLive ::
  "TemporalWorkflowRunReconciler \<Rightarrow> TemporalWorkflowRun \<Rightarrow> ResolvedTarget \<Rightarrow> WorkflowRunClient \<Rightarrow> TemporalWorkflowRun outcome act" where
  "run_reconcileLive R run target wc =
     (if \<not> rt_Ready target then
        run_write R (run_setReady R run ConditionFalse ''ClusterNotReady'' ''waiting for the Temporal target to become ready'')
          (requeueAfter (seconds 15))
      else do {
        (run1, acc, r, e) \<leftarrow> reconcileRun R run wc (rt_WorkflowRunPolicy target);
        if e \<noteq> None \<and> isTransientClusterErr e then
          run_write R (run_setReady R run1 ConditionFalse ''FrontendUnavailable''
            ''waiting for the Temporal frontend to become available'') (requeueAfter clusterUnavailableRequeue)
        else State_Monad.return (acc, r, e)
      })"

definition reconcileWorkflowRun :: "TemporalWorkflowRunReconciler \<Rightarrow> TemporalWorkflowRun \<Rightarrow> TemporalWorkflowRun outcome act" where
  "reconcileWorkflowRun R run = do {
     t \<leftarrow> resolveTarget (wrr_Client R) (om_Namespace (wr_Meta run)) (wrs_ClusterRef (wr_Spec run));
     case t of
       Inl e \<Rightarrow>
         if isDeleting (wr_Meta run) then
           (if errorsIs e ErrTargetNotFound then do { de \<leftarrow> run_removeFinalizer R run; finished noResult de }
            else failed e)
         else if errorsIs e ErrTargetNotFound then
           run_write R (run_setReady R run ConditionFalse ''ClusterNotFound'' ''referenced Temporal target not found'')
             (requeueAfter (seconds 15))
         else failed e
     | Inr target \<Rightarrow> do {
         c \<leftarrow> workflowRunClientFactory R (rt_Address target) (rt_TLSConfig target);
         case c of
           Inl e \<Rightarrow> failed (WrapErr ''building temporal client'' e)
         | Inr wc \<Rightarrow>
             if isDeleting (wr_Meta run) then do { de \<leftarrow> run_reconcileDelete R run wc; finished noResult de }
             else if \<not> ca_ContainsFinalizer (wrr_Client R) (wr_Meta run) workflowRunFinalizer then
               (let run1 = run \<lparr>wr_Meta := ca_AddFinalizer (wrr_Client R) (wr_Meta run) workflowRunFinalizer\<rparr> in do {
                  ue \<leftarrow> updateObj (wrr_Client R) ''TemporalWorkflowRun'' (wr_Meta run1);
                  case ue of Some e \<Rightarrow> failed e | None \<Rightarrow> run_reconcileLive R run1 target wc
                })
             else run_reconcileLive R run target wc
       }
   }"

definition ReconcileWorkflowRun ::
  "TemporalWorkflowRunReconciler \<Rightarrow> string \<Rightarrow> string \<Rightarrow> TemporalWorkflowRun outcome act" where
  "ReconcileWorkflowRun R nsn name = do {
     r \<leftarrow> perform (CGet ''TemporalWorkflowRun'' nsn name) (\<lambda>tr. ca_GetWorkflowRun (wrr_Client R) tr nsn name);
     case r of Inl e \<Rightarrow> finished noResult (ignoreNotFound e) | Inr run \<Rightarrow> reconcileWorkflowRun R run
   }"

definition mapClusterToWorkflowRuns :: "TemporalWorkflowRun list result \<Rightarrow> string \<Rightarrow> string \<Rightarrow> (string \<times> string) list" where
  "mapClusterToWorkflowRuns items kind name = mapClusterTo wr_Meta (\<lambda>w. [wrs_ClusterRef (wr_Spec w)]) items kind name"

end
