(* ===== verification/Workflow_Runs.thy ===== *)
theory Workflow_Runs
  imports Workflow_Run_Controller Satellite_Laws Satellite_Webhooks
begin

text \<open>
  What the workflow-run controller may ask of a frontend: a workflow is started only when the target
  permits it and no run is recorded, with a request that stays the same for the life of the object; a
  finished run is never looked up again; and the time to live bounds the requeue and the deletion.
\<close>

section \<open>The start request\<close>

definition startRequest :: "(string \<Rightarrow> gofloat result) \<Rightarrow> TemporalWorkflowRun \<Rightarrow> StartWorkflowRequest option" where
  "startRequest parseFloat run =
     (case workflowRunParams parseFloat run of
        Inl _ \<Rightarrow> None
      | Inr p \<Rightarrow>
          map_option (\<lambda>reuse. \<lparr>swr_Namespace = wrs_Namespace (wr_Spec run), swr_RequestId = wr_UID run,
            swr_Workflow = newWorkflowProto reuse p\<rparr>) (map_of reusePolicies (swp_IDReusePolicy p)))"

section \<open>The calls of a pass\<close>

definition workflowRpcAllowed :: "TemporalWorkflowRunReconciler \<Rightarrow> ResolvedTarget \<Rightarrow> TemporalWorkflowRun \<Rightarrow> rpc \<Rightarrow> bool" where
  "workflowRpcAllowed R target run r =
     (let spec = wr_Spec run; st = wr_Status run; live = (\<not> isDeleting (wr_Meta run)) in
      wrst_CompletionTime st = None \<and>
      (case r of
         StartWorkflowExecution q \<Rightarrow>
           live \<and> rt_Ready target \<and> wrst_RunID st = [] \<and>
           checkWorkflowRunPolicy (rt_WorkflowRunPolicy target) (wrs_Namespace spec) (swa_TaskQueue (wrs_Workflow spec)) = None \<and>
           startRequest (wrr_ParseFloat R) run = Some q
       | DescribeWorkflowExecution n wid i \<Rightarrow> live \<and> rt_Ready target \<and> n = wrs_Namespace spec \<and> wid = resolveWorkflowID run
       | GetWorkflowExecutionHistory n wid i \<Rightarrow> live \<and> rt_Ready target \<and> n = wrs_Namespace spec \<and> wid = resolveWorkflowID run
       | RequestCancelWorkflowExecution n wid i reason \<Rightarrow>
           \<not> live \<and> i = wrst_RunID st \<and> i \<noteq> [] \<and> wrs_CancellationPolicy spec = CancellationPolicyCancel
       | TerminateWorkflowExecution n wid i reason \<Rightarrow>
           \<not> live \<and> i = wrst_RunID st \<and> i \<noteq> [] \<and> wrs_CancellationPolicy spec = CancellationPolicyTerminate
       | _ \<Rightarrow> False))"

fun workflowCall :: "TemporalWorkflowRunReconciler \<Rightarrow> ResolvedTarget \<Rightarrow> TemporalWorkflowRun \<Rightarrow> call \<Rightarrow> bool" where
  "workflowCall R target run (CTemporal _ r) = workflowRpcAllowed R target run r"
| "workflowCall R target run _ = True"

lemma emits_closeFailure:
  "C (CTemporal a (GetWorkflowExecutionHistory n wid i)) \<Longrightarrow> emits C (closeFailure F a n wid i)"
  unfolding closeFailure_def by (intro emits_rules)

lemma emits_grpcWorkflowDescribe:
  assumes "\<And>j. C (CTemporal a (DescribeWorkflowExecution n wid j))" "\<And>j. C (CTemporal a (GetWorkflowExecutionHistory n wid j))"
  shows "emits C (grpcWorkflowDescribe F a n wid i)"
  unfolding grpcWorkflowDescribe_def Let_def by (intro emits_rules emits_closeFailure assms)

lemma emits_ttlCleanup [emits_rules]:
  "C (CDelete ''TemporalWorkflowRun'' (om_Namespace (wr_Meta run)) (om_Name (wr_Meta run))) \<Longrightarrow> emits C (ttlCleanup R run)"
  unfolding ttlCleanup_def Let_def by (intro emits_rules)

lemma emits_run_write [emits_rules]:
  "C (CStatusUpdate ''TemporalWorkflowRun'' (om_Namespace (wr_Meta run)) (om_Name (wr_Meta run))) \<Longrightarrow> emits C (run_write R run r)"
  unfolding run_write_def by (rule emits_writeStatus)

text \<open>The status that a pass writes does not touch the identity or the spec of the object.\<close>

lemma run_setReady_fields [simp]:
  "wr_Meta (run_setReady R run s r m) = wr_Meta run" "wr_Spec (run_setReady R run s r m) = wr_Spec run"
  "wr_UID (run_setReady R run s r m) = wr_UID run"
  "wrst_RunID (wr_Status (run_setReady R run s r m)) = wrst_RunID (wr_Status run)"
  "wrst_CompletionTime (wr_Status (run_setReady R run s r m)) = wrst_CompletionTime (wr_Status run)"
  by (simp_all add: run_setReady_def)

lemma observed_fields [simp]:
  "wr_Meta (observed run i) = wr_Meta run" "wr_Spec (observed run i) = wr_Spec run" "wr_UID (observed run i) = wr_UID run"
  by (simp_all add: observed_def)

lemma completed_fields [simp]:
  "wr_Meta (completed R run i n) = wr_Meta run" "wr_Spec (completed R run i n) = wr_Spec run"
  by (simp_all add: completed_def Let_def)

lemma resolveWorkflowID_cong:
  "wr_Spec run' = wr_Spec run \<Longrightarrow> wr_Meta run' = wr_Meta run \<Longrightarrow> resolveWorkflowID run' = resolveWorkflowID run"
  by (simp add: resolveWorkflowID_def)

lemma workflowClient_ops:
  "wc_Start (grpcWorkflowRunClient F a) = grpcWorkflowStart F a"
  "wc_Describe (grpcWorkflowRunClient F a) = grpcWorkflowDescribe F a"
  "wc_Cancel (grpcWorkflowRunClient F a) = grpcWorkflowCancel F a"
  "wc_Terminate (grpcWorkflowRunClient F a) = grpcWorkflowTerminate F a"
  by (simp_all add: grpcWorkflowRunClient_def)

lemma emits_observeRun:
  assumes "\<not> isDeleting (wr_Meta run)" "rt_Ready target" "wrst_CompletionTime (wr_Status run) = None"
    and "wr_Spec run' = wr_Spec run" "wr_Meta run' = wr_Meta run"
  shows "emits (workflowCall R target run) (observeRun R run' (grpcWorkflowRunClient F a))"
proof -
  note wid = resolveWorkflowID_cong [OF assms(4,5)]
  show ?thesis
    unfolding observeRun_def Let_def workflowClient_ops wid assms(4)
    by (intro emits_rules emits_grpcWorkflowDescribe) (simp_all add: workflowRpcAllowed_def Let_def assms)
qed

lemma startRequestI:
  assumes "workflowRunParams pf run = Inr p" "map_of reusePolicies (swp_IDReusePolicy p) = Some reuse"
  shows "startRequest pf run = Some \<lparr>swr_Namespace = wrs_Namespace (wr_Spec run), swr_RequestId = wr_UID run,
    swr_Workflow = newWorkflowProto reuse p\<rparr>"
  using assms by (simp add: startRequest_def)

lemma workflowRunParams_id: "workflowRunParams pf run = Inr p \<Longrightarrow> swp_WorkflowID p = resolveWorkflowID run"
  by (auto simp: workflowRunParams_def startParams_def bindR_def split: sum.splits)

lemma startRun_emits:
  assumes "\<not> isDeleting (wr_Meta run)" "rt_Ready target" "wrst_CompletionTime (wr_Status run) = None"
  shows "emits (workflowCall R target run) (startRun R run (grpcWorkflowRunClient F a) (rt_WorkflowRunPolicy target))"
  unfolding startRun_def workflowClient_ops grpcWorkflowStart_def Let_def
  by (intro emits_rules emits_grpcWorkflowDescribe)
    (auto simp: workflowRpcAllowed_def Let_def assms startRequestI workflowRunParams_id)

lemma startRun_Started:
  "run_state (startRun R run wc pol) w = (Started run1, w') \<Longrightarrow> wr_Spec run1 = wr_Spec run \<and> wr_Meta run1 = wr_Meta run"
  by (auto simp: startRun_def split: if_splits option.splits sum.splits prod.splits)

lemma emits_reconcileRun:
  assumes "\<not> isDeleting (wr_Meta run)" "rt_Ready target"
  shows "emits (workflowCall R target run) (reconcileRun R run (grpcWorkflowRunClient F a) (rt_WorkflowRunPolicy target))"
proof (cases "wrst_CompletionTime (wr_Status run)")
  case (Some t)
  then show ?thesis unfolding reconcileRun_def by simp (intro emits_rules; simp)
next
  case None
  have "emits (workflowCall R target run) (case s of
      NotPermitted run1 \<Rightarrow> do { oc \<leftarrow> run_write R run1 (requeueAfter workflowRunPolicyRetry); State_Monad.return (run1, oc) }
    | InvalidParams run1 \<Rightarrow> do { oc \<leftarrow> run_write R run1 noResult; State_Monad.return (run1, oc) }
    | StartFailed e \<Rightarrow> State_Monad.return (run, None, noResult, Some e)
    | Started run1 \<Rightarrow> observeRun R run1 (grpcWorkflowRunClient F a))"
    if "run_state (startRun R run (grpcWorkflowRunClient F a) (rt_WorkflowRunPolicy target)) w = (s, w')" for s w w'
    using startRun_Started [of R run _ _ w _ w'] that
    by (cases s) (auto intro!: emits_rules emits_observeRun [OF assms None])
  then show ?thesis
    unfolding reconcileRun_def by (simp add: None) (rule emits_bind_dep [OF startRun_emits [OF assms None]], blast)
qed

lemma emits_run_reconcileLive:
  assumes "\<not> isDeleting (wr_Meta run)"
  shows "emits (workflowCall R target run) (run_reconcileLive R run target (grpcWorkflowRunClient F a))"
  unfolding run_reconcileLive_def by (intro emits_rules emits_reconcileRun assms) simp_all

lemma emits_run_removeFinalizer [emits_rules]:
  "(\<And>k n m fs. C (CUpdate k n m fs)) \<Longrightarrow> emits C (run_removeFinalizer R run)"
  unfolding run_removeFinalizer_def by (intro emits_rules; simp)

lemma emits_run_reconcileDelete:
  assumes "isDeleting (wr_Meta run)"
  shows "emits (workflowCall R target run) (run_reconcileDelete R run (grpcWorkflowRunClient F a))"
  unfolding run_reconcileDelete_def cancelRun_def Let_def workflowClient_ops grpcWorkflowCancel_def grpcWorkflowTerminate_def
  by (intro emits_rules) (simp_all add: workflowRpcAllowed_def Let_def assms)

lemma NewWorkflowRunClient_Inr:
  "run_state (NewWorkflowRunClient F a t) w = (Inr wc, w') \<Longrightarrow> wc = grpcWorkflowRunClient F a"
  by (auto simp: NewWorkflowRunClient_def dial_def split: option.splits)

lemma emits_NewWorkflowRunClient: "C (CDial a) \<Longrightarrow> emits C (NewWorkflowRunClient F a t)"
  unfolding NewWorkflowRunClient_def by (intro emits_rules)

lemma emits_workflowClient:
  assumes "C (CDial a)" "\<And>e. emits C (f (Inl e))" "emits C (f (Inr (grpcWorkflowRunClient F a)))"
  shows "emits C (State_Monad.bind (NewWorkflowRunClient F a t) f)"
  by (rule emits_bind_client [where cl = "grpcWorkflowRunClient F a"])
    (rule emits_NewWorkflowRunClient assms | erule NewWorkflowRunClient_Inr)+

text \<open>The finalizer that a pass adds does not change what the calls depend on.\<close>

lemma workflowCall_meta:
  assumes "finalizer_laws A"
  shows "workflowCall R target (run \<lparr>wr_Meta := ca_AddFinalizer A (wr_Meta run) f\<rparr>) c = workflowCall R target run c"
proof -
  let ?run = "run \<lparr>wr_Meta := ca_AddFinalizer A (wr_Meta run) f\<rparr>"
  have wid: "resolveWorkflowID ?run = resolveWorkflowID run"
    by (simp add: resolveWorkflowID_def AddFinalizer_fields [OF assms])
  have start: "startRequest pf ?run = startRequest pf run" for pf
    unfolding startRequest_def workflowRunParams_def wid by (simp cong: sum.case_cong)
  show ?thesis
    by (cases c) (simp_all add: workflowRpcAllowed_def Let_def wid start AddFinalizer_fields [OF assms] cong: rpc.case_cong)
qed

text \<open>What a pass does once the target is known.\<close>

definition afterResolve :: "TemporalWorkflowRunReconciler \<Rightarrow> TemporalWorkflowRun \<Rightarrow> ResolvedTarget result \<Rightarrow> call \<Rightarrow> bool" where
  "afterResolve R run t c = (case t of Inl _ \<Rightarrow> \<not> isTemporal c | Inr target \<Rightarrow> workflowCall R target run c)"

lemma afterResolve_simps:
  "afterResolve R run (Inl e) = (\<lambda>c. \<not> isTemporal c)" "afterResolve R run (Inr target) = workflowCall R target run"
  by (auto simp: afterResolve_def)

lemma reconcileWorkflowRun_trace:
  assumes "wrr_ClientFactory R = None" "finalizer_laws (wrr_Client R)"
    and t: "run_state (resolveTarget (wrr_Client R) (om_Namespace (wr_Meta run)) (wrs_ClusterRef (wr_Spec run))) w = (t, w1)"
    and r: "run_state (reconcileWorkflowRun R run) w = (oc, w')"
  shows "\<exists>cs. w_trace w' = w_trace w @ cs \<and> (\<forall>c\<in>set cs. afterResolve R run t c)"
proof -
  have client: "workflowRunClientFactory R = NewWorkflowRunClient (wrr_Frontend R)"
    using assms(1) by (simp add: workflowRunClientFactory_def)
  obtain f where f: "reconcileWorkflowRun R run =
      State_Monad.bind (resolveTarget (wrr_Client R) (om_Namespace (wr_Meta run)) (wrs_ClusterRef (wr_Spec run))) f"
    and ft: "emits (afterResolve R run t) (f t)"
  proof -
    have added: "emits (workflowCall R target run) (run_reconcileLive R (run \<lparr>wr_Meta := ca_AddFinalizer (wrr_Client R) (wr_Meta run) workflowRunFinalizer\<rparr>)
        target (grpcWorkflowRunClient F a))" if "\<not> isDeleting (wr_Meta run)" for target F a
      by (rule emits_mono [OF emits_run_reconcileLive])
        (simp_all add: AddFinalizer_fields [OF assms(2)] that workflowCall_meta [OF assms(2)])
    show thesis
      apply (rule that [OF reconcileWorkflowRun_def])
      apply (cases t; simp only: sum.case afterResolve_simps)
       apply (intro emits_rules; simp)
      apply (unfold client Let_def)
      apply (rule emits_workflowClient, simp)
       apply (simp only: sum.case, intro emits_rules)
      apply (simp only: sum.case)
      apply (intro emits_rules emits_run_reconcileDelete emits_run_reconcileLive added; simp)
      done
  qed
  obtain cs where "w_trace w1 = w_trace w @ cs" "\<forall>c\<in>set cs. \<not> isTemporal c"
    using emits_trace [OF emits_resolveTarget [of "\<lambda>c. \<not> isTemporal c"] t] by auto
  moreover have "run_state (f t) w1 = (oc, w')" using r t by (simp add: f)
  then obtain ds where "w_trace w' = w_trace w1 @ ds" "\<forall>c\<in>set ds. afterResolve R run t c"
    using emits_trace [OF ft] by blast
  moreover have "afterResolve R run t c" if "\<not> isTemporal c" for c
    using that by (cases c) (simp_all add: afterResolve_def split: sum.splits)
  ultimately show ?thesis by (intro exI [of _ "cs @ ds"]) auto
qed

lemma resolved_closed_cluster:
  assumes "run_state (resolveTarget A ns ref) w = (Inr target, w1)"
    and "cref_Kind ref \<noteq> ClusterKindTemporalDevServer"
    and "k_GetCluster (ca_kube A) (w_trace w) ns (cref_Name ref) = Inr cluster" "spec_WorkflowRunPolicy (tc_Spec cluster) = None"
  shows "\<not> wrp_Enabled (rt_WorkflowRunPolicy target)"
  using assms
  by (auto simp: resolveTarget_def getCluster_def effectiveWorkflowRunPolicy_def
      ClusterKindTemporalCluster_def ClusterKindTemporalDevServer_def split: if_splits prod.splits sum.splits)


section \<open>One request for the life of an object\<close>

text \<open>
  What can happen to an object after its creation: its status and its finalizers and deletion timestamp
  are written, and its spec changes by updates that the webhook admits.  Name and uid do not change.
\<close>

inductive run_life :: "(StartWorkflowAction \<Rightarrow> StartWorkflowAction \<Rightarrow> bool) \<Rightarrow> TemporalWorkflowRun \<Rightarrow> TemporalWorkflowRun \<Rightarrow> bool"
  for deepEqual run0 where
  created: "run_life deepEqual run0 run0"
| status: "run_life deepEqual run0 run \<Longrightarrow> run_life deepEqual run0 (run \<lparr>wr_Status := st\<rparr>)"
| meta: "run_life deepEqual run0 run \<Longrightarrow>
    run_life deepEqual run0 (run \<lparr>wr_Meta := (wr_Meta run) \<lparr>om_Finalizers := fs, om_DeletionTimestamp := d\<rparr>\<rparr>)"
| updated: "run_life deepEqual run0 run \<Longrightarrow> run_ValidateUpdate deepEqual run run' = None \<Longrightarrow>
    wr_UID run' = wr_UID run \<Longrightarrow> om_Name (wr_Meta run') = om_Name (wr_Meta run) \<Longrightarrow> run_life deepEqual run0 run'"

lemma startRequest_cong:
  assumes "wrs_Workflow (wr_Spec run') = wrs_Workflow (wr_Spec run)" "wrs_Namespace (wr_Spec run') = wrs_Namespace (wr_Spec run)"
    and "wr_UID run' = wr_UID run" "om_Name (wr_Meta run') = om_Name (wr_Meta run)"
  shows "startRequest pf run' = startRequest pf run"
  unfolding startRequest_def workflowRunParams_def resolveWorkflowID_def assms by (rule refl)

lemma run_life_identity:
  assumes "run_life deepEqual run0 run" "\<And>a b. deepEqual a b \<Longrightarrow> a = b"
  shows "wrs_Workflow (wr_Spec run) = wrs_Workflow (wr_Spec run0) \<and> wrs_Namespace (wr_Spec run) = wrs_Namespace (wr_Spec run0) \<and>
    wrs_ClusterRef (wr_Spec run) = wrs_ClusterRef (wr_Spec run0) \<and> wr_UID run = wr_UID run0 \<and> om_Name (wr_Meta run) = om_Name (wr_Meta run0)"
  using assms(1)
proof (induction rule: run_life.induct)
  case (updated run run')
  have "wrs_ClusterRef (wr_Spec run') = wrs_ClusterRef (wr_Spec run)" "wrs_Namespace (wr_Spec run') = wrs_Namespace (wr_Spec run)"
    and deq: "deepEqual (wrs_Workflow (wr_Spec run)) (wrs_Workflow (wr_Spec run'))"
    using updated.hyps(2) by (auto simp: run_ValidateUpdate_def split: if_splits)
  then show ?case using updated.IH updated.hyps(3,4) assms(2) [OF deq] by simp
qed simp_all

text \<open>
  C12: every start request that any pass sends during the life of a TemporalWorkflowRun is one and the same
  request, with the object's uid as its request id, so a frontend that recognises repeated request ids
  runs the workflow once, however often a pass fails after the start and is repeated.
\<close>

theorem start_request_fixed:
  assumes "wrr_ClientFactory R = None" "finalizer_laws (wrr_Client R)" "\<And>a b. deepEqual a b \<Longrightarrow> a = b"
    and "run_life deepEqual run0 run"
    and "run_state (reconcileWorkflowRun R run) w = (oc, w')"
    and "CTemporal a (StartWorkflowExecution q) \<in> set (drop (length (w_trace w)) (w_trace w'))"
  shows "startRequest (wrr_ParseFloat R) run0 = Some q \<and> swr_RequestId q = wr_UID run0"
proof -
  obtain t w1 where t: "run_state (resolveTarget (wrr_Client R) (om_Namespace (wr_Meta run)) (wrs_ClusterRef (wr_Spec run))) w = (t, w1)"
    by fastforce
  obtain cs where cs: "w_trace w' = w_trace w @ cs" and ok: "\<forall>c\<in>set cs. afterResolve R run t c"
    using reconcileWorkflowRun_trace [OF assms(1,2) t assms(5)] by blast
  have "CTemporal a (StartWorkflowExecution q) \<in> set cs" using assms(6) cs by simp
  then have "startRequest (wrr_ParseFloat R) run = Some q"
    using ok by (fastforce simp: afterResolve_def workflowRpcAllowed_def Let_def split: sum.splits)
  moreover have "startRequest (wrr_ParseFloat R) run = startRequest (wrr_ParseFloat R) run0"
    by (rule startRequest_cong) (use run_life_identity [OF assms(4,3)] in auto)
  ultimately have "startRequest (wrr_ParseFloat R) run0 = Some q" by simp
  then show ?thesis by (auto simp: startRequest_def split: sum.splits)
qed

section \<open>The time to live\<close>

text \<open>
  C23: for a time to live that fits the field's \<^verbatim>\<open>int32\<close> and a clock that has passed the completion time, the
  cleanup asks for a requeue of at most the time to live, which fits the \<^verbatim>\<open>int64\<close> nanoseconds of a
  duration, and deletes the object exactly when the time to live is over.
\<close>

theorem ttl_cleanup_bounds:
  assumes "wrs_TTLSecondsAfterFinished (wr_Spec run) = Some ttl" "0 \<le> ttl" "ttl < 2 ^ 31"
    and "wrst_CompletionTime (wr_Status run) = Some completion" "completion \<le> k_Now (ca_kube (wrr_Client R)) (w_trace w)"
    and "run_state (ttlCleanup R run) w = ((r, e), w')"
  shows "0 \<le> res_RequeueAfter r \<and> res_RequeueAfter r \<le> seconds ttl \<and> seconds ttl < 2 ^ 63 \<and>
    (if completion + seconds ttl \<le> k_Now (ca_kube (wrr_Client R)) (w_trace w)
     then w_trace w' = w_trace w @ [CDelete ''TemporalWorkflowRun'' (om_Namespace (wr_Meta run)) (om_Name (wr_Meta run))]
     else w' = w \<and> e = None \<and> k_Now (ca_kube (wrr_Client R)) (w_trace w) + res_RequeueAfter r = completion + seconds ttl)"
  using assms
  by (auto simp: ttlCleanup_def ttlRemaining_def seconds_def requeueAfter_def noResult_def deleteObj_def Let_def split: if_splits)

end
