(* ===== verification/Connection_Controller.thy ===== *)
theory Connection_Controller
  imports Namespace_Controller "HOL-Library.AList"
begin

text \<open>
  The controller of TemporalClusterConnections
  (\<^verbatim>\<open>src/internal/controller/temporalclusterconnection_controller.go\<close>): every dialed local peer gets the
  other peers as remote clusters, and the connection is Ready when the views of the local peers show it.
  The map of dialed peers is an association list; Go ranges over a map in any order, so the order in
  which its entries are visited is a parameter of the reconciler.
\<close>

section \<open>Peers\<close>

record resolvedPeer =
  rp_name :: string
  rp_address :: string
  rp_tls :: "TlsConfig option"
  rp_local :: bool
  rp_ready :: bool
  rp_enable :: bool
  rp_resolveErr :: "err option"

record localPeerState =
  lp_peer :: resolvedPeer
  lp_client :: RemoteClusterClient
  lp_remotes :: "string \<rightharpoonup> RemoteClusterInfo"

type_synonym dialed = "localPeerState goalist"

record TemporalClusterConnectionReconciler =
  ccr_Client :: crd_api
  ccr_ClientFactory :: "(string \<Rightarrow> TlsConfig option \<Rightarrow> RemoteClusterClient result act) option"
  ccr_Frontend :: frontend
  ccr_Pages :: nat
  ccr_Range :: "dialed \<Rightarrow> dialed"

definition clusterConnectionFinalizer :: string where
  "clusterConnectionFinalizer = ''temporal.bmor10.com/clusterconnection''"

definition remoteClusterClientFactory ::
  "TemporalClusterConnectionReconciler \<Rightarrow> string \<Rightarrow> TlsConfig option \<Rightarrow> RemoteClusterClient result act" where
  "remoteClusterClientFactory R =
     (case ccr_ClientFactory R of Some f \<Rightarrow> f | None \<Rightarrow> NewRemoteClusterClient (ccr_Frontend R) (ccr_Pages R))"

definition unresolvedPeer :: "ClusterConnectionPeer \<Rightarrow> resolvedPeer" where
  "unresolvedPeer p =
     \<lparr>rp_name = ccp_Name p, rp_address = [], rp_tls = None, rp_local = False, rp_ready = False,
      rp_enable = derefOr True (ccp_EnableConnection p), rp_resolveErr = None\<rparr>"

definition resolvePeer :: "TemporalClusterConnectionReconciler \<Rightarrow> string \<Rightarrow> ClusterConnectionPeer \<Rightarrow> resolvedPeer act" where
  "resolvePeer R nsn p =
     (let rp = unresolvedPeer p in
      case ccp_ClusterRef p of
        Some ref \<Rightarrow> do {
          t \<leftarrow> resolveTarget (ccr_Client R) nsn ref;
          State_Monad.return (case t of
            Inl e \<Rightarrow> rp \<lparr>rp_local := True, rp_resolveErr := (if errorsIs e ErrTargetNotFound then None else Some e)\<rparr>
          | Inr target \<Rightarrow>
              rp \<lparr>rp_local := True, rp_address := rt_Address target, rp_tls := rt_TLSConfig target, rp_ready := rt_Ready target\<rparr>)
        }
      | None \<Rightarrow> State_Monad.return (rp \<lparr>rp_address := ccp_FrontendAddress p, rp_ready := True\<rparr>))"

fun resolvePeers :: "TemporalClusterConnectionReconciler \<Rightarrow> string \<Rightarrow> ClusterConnectionPeer list \<Rightarrow> resolvedPeer list act" where
  "resolvePeers R nsn [] = State_Monad.return []"
| "resolvePeers R nsn (p # ps) = do {
     rp \<leftarrow> resolvePeer R nsn p;
     rps \<leftarrow> resolvePeers R nsn ps;
     State_Monad.return (rp # rps)
   }"

section \<open>Dialing\<close>

text \<open>The map of the listed clusters: a later entry replaces an earlier one of the same name.\<close>

definition remotesOf :: "RemoteClusterInfo list \<Rightarrow> string \<rightharpoonup> RemoteClusterInfo" where
  "remotesOf infos = foldl (\<lambda>m i. m(rci_Name i \<mapsto> i)) Map.empty infos"

definition dialLocal :: "TemporalClusterConnectionReconciler \<Rightarrow> resolvedPeer \<Rightarrow> localPeerState option act" where
  "dialLocal R p =
     (if \<not> rp_local p \<or> \<not> rp_ready p \<or> rp_address p = [] then State_Monad.return None
      else do {
        c \<leftarrow> remoteClusterClientFactory R (rp_address p) (rp_tls p);
        case c of
          Inl _ \<Rightarrow> State_Monad.return None
        | Inr cl \<Rightarrow> do {
            l \<leftarrow> rcc_List cl;
            State_Monad.return (case l of
              Inl _ \<Rightarrow> None
            | Inr infos \<Rightarrow> Some \<lparr>lp_peer = p, lp_client = cl, lp_remotes = remotesOf infos\<rparr>)
          }
      })"

fun dialLocals :: "TemporalClusterConnectionReconciler \<Rightarrow> resolvedPeer list \<Rightarrow> dialed \<Rightarrow> dialed act" where
  "dialLocals R [] locals = State_Monad.return locals"
| "dialLocals R (p # ps) locals = do {
     d \<leftarrow> dialLocal R p;
     dialLocals R ps (case d of None \<Rightarrow> locals | Some l \<Rightarrow> AList.update (rp_name p) l locals)
   }"

section \<open>Registration\<close>

definition upsertRemote :: "string \<Rightarrow> resolvedPeer \<Rightarrow> localPeerState \<Rightarrow> localPeerState act" where
  "upsertRemote name other l =
     (if rp_name other = name \<or> rp_address other = [] then State_Monad.return l
      else if (case lp_remotes l (rp_name other) of None \<Rightarrow> False | Some existing \<Rightarrow> rci_ConnectionEnabled existing = rp_enable other)
      then State_Monad.return l
      else do {
        e \<leftarrow> rcc_Upsert (lp_client l) (rp_address other) (rp_enable other);
        State_Monad.return (case e of
          Some _ \<Rightarrow> l
        | None \<Rightarrow> l \<lparr>lp_remotes := (lp_remotes l)(rp_name other \<mapsto>
            \<lparr>rci_Name = rp_name other, rci_Address = rp_address other, rci_InitialFailoverVersion = 0,
             rci_ConnectionEnabled = rp_enable other, rci_HistoryShardCount = 0\<rparr>)\<rparr>)
      })"

fun upsertAll :: "string \<Rightarrow> resolvedPeer list \<Rightarrow> localPeerState \<Rightarrow> localPeerState act" where
  "upsertAll name [] l = State_Monad.return l"
| "upsertAll name (other # others) l = do { l' \<leftarrow> upsertRemote name other l; upsertAll name others l' }"

fun upsertRemotes :: "resolvedPeer list \<Rightarrow> dialed \<Rightarrow> dialed act" where
  "upsertRemotes peers [] = State_Monad.return []"
| "upsertRemotes peers ((name, l) # locals) = do {
     l' \<leftarrow> upsertAll name peers l;
     rest \<leftarrow> upsertRemotes peers locals;
     State_Monad.return ((name, l') # rest)
   }"

section \<open>Status\<close>

definition peerReachable :: "dialed \<Rightarrow> resolvedPeer \<Rightarrow> bool" where
  "peerReachable locals p =
     (if rp_local p then map_of locals (rp_name p) \<noteq> None
      else list_ex (\<lambda>(_, l). lp_remotes l (rp_name p) \<noteq> None) locals)"

text \<open>The map is filled in the order of the peers; an external peer that is not seen leaves its entry as it was.\<close>

definition computeReachable :: "resolvedPeer list \<Rightarrow> dialed \<Rightarrow> string \<Rightarrow> bool" where
  "computeReachable peers locals =
     foldl (\<lambda>reachable p.
       if rp_local p then reachable(rp_name p := peerReachable locals p)
       else if peerReachable locals p then reachable(rp_name p := True) else reachable) (\<lambda>_. False) peers"

definition enabledIn :: "localPeerState \<Rightarrow> string \<Rightarrow> bool" where
  "enabledIn l name = (case lp_remotes l name of None \<Rightarrow> False | Some i \<Rightarrow> rci_ConnectionEnabled i)"

definition peerConnected :: "resolvedPeer \<Rightarrow> resolvedPeer list \<Rightarrow> dialed \<Rightarrow> bool" where
  "peerConnected p peers locals =
     (if rp_local p then
        (case map_of locals (rp_name p) of
           None \<Rightarrow> False
         | Some l \<Rightarrow>
             list_all (\<lambda>other. rp_name other = rp_name p \<or> \<not> rp_enable other \<or> rp_address other = [] \<or>
               enabledIn l (rp_name other)) peers)
      else
        (let others = filter (\<lambda>(_, l). rp_name (lp_peer l) \<noteq> rp_name p) locals
         in list_all (\<lambda>(_, l). enabledIn l (rp_name p)) others \<and> others \<noteq> []))"

record peersVerdict =
  pv_statuses :: "PeerConnectionStatus list"
  pv_allReady :: bool
  pv_reason :: string
  pv_message :: string

definition peerStatus :: "resolvedPeer \<Rightarrow> bool \<Rightarrow> bool \<Rightarrow> peersVerdict \<Rightarrow> peersVerdict" where
  "peerStatus p reach conn v =
     (let entry = (\<lambda>msg. \<lparr>pcs_Name = rp_name p, pcs_Reachable = reach, pcs_Connected = conn, pcs_Message = msg\<rparr>);
          add = (\<lambda>msg u. u \<lparr>pv_statuses := pv_statuses u @ [entry msg]\<rparr>)
      in if \<not> reach then
           add (case rp_resolveErr p of
                  Some e \<Rightarrow> ''peer could not be resolved: '' @ err_text e
                | None \<Rightarrow> ''peer frontend is unreachable or not ready'')
             (if rp_enable p
              then v \<lparr>pv_allReady := False, pv_reason := ''PeerUnreachable'',
                      pv_message := ''peer '' @ goQuote (rp_name p) @ '' is unreachable''\<rparr>
              else v)
         else if \<not> rp_enable p then add ''connection intentionally disabled'' v
         else if \<not> conn then
           add ''peer is not yet registered as an enabled remote on all peers''
             (if pv_reason v = ''PeersConnected''
              then v \<lparr>pv_allReady := False, pv_reason := ''ReplicationConfigDrift'',
                      pv_message := ''peer '' @ goQuote (rp_name p) @ '' is not connected on all peers''\<rparr>
              else v \<lparr>pv_allReady := False\<rparr>)
         else add ''connected'' v)"

definition buildStatuses :: "resolvedPeer list \<Rightarrow> dialed \<Rightarrow> (string \<Rightarrow> bool) \<Rightarrow> peersVerdict" where
  "buildStatuses peers locals reachable =
     foldl (\<lambda>v p. peerStatus p (reachable (rp_name p)) (peerConnected p peers locals) v)
       \<lparr>pv_statuses = [], pv_allReady = True, pv_reason = ''PeersConnected'',
        pv_message = ''all replication peers are connected''\<rparr> peers"

definition reconcilePeers :: "TemporalClusterConnectionReconciler \<Rightarrow> resolvedPeer list \<Rightarrow> peersVerdict act" where
  "reconcilePeers R peers = do {
     locals \<leftarrow> dialLocals R peers [];
     locals' \<leftarrow> upsertRemotes peers (ccr_Range R locals);
     State_Monad.return (buildStatuses peers locals' (computeReachable peers locals'))
   }"

section \<open>Deletion\<close>

fun removeOthers :: "string \<Rightarrow> RemoteClusterClient \<Rightarrow> resolvedPeer list \<Rightarrow> unit act" where
  "removeOthers name cl [] = State_Monad.return ()"
| "removeOthers name cl (other # others) =
     (if rp_name other = name then removeOthers name cl others
      else do { _ \<leftarrow> rcc_Remove cl (rp_name other); removeOthers name cl others })"

fun removeRemotes :: "resolvedPeer list \<Rightarrow> dialed \<Rightarrow> unit act" where
  "removeRemotes peers [] = State_Monad.return ()"
| "removeRemotes peers ((name, l) # locals) = do { _ \<leftarrow> removeOthers name (lp_client l) peers; removeRemotes peers locals }"

definition conn_reconcileDelete ::
  "TemporalClusterConnectionReconciler \<Rightarrow> TemporalClusterConnection \<Rightarrow> resolvedPeer list \<Rightarrow> err option act" where
  "conn_reconcileDelete R conn peers =
     (if \<not> ca_ContainsFinalizer (ccr_Client R) (tcn_Meta conn) clusterConnectionFinalizer then State_Monad.return None
      else do {
        locals \<leftarrow> dialLocals R peers [];
        _ \<leftarrow> removeRemotes peers (ccr_Range R locals);
        updateObj (ccr_Client R) ''TemporalClusterConnection''
          (ca_RemoveFinalizer (ccr_Client R) (tcn_Meta conn) clusterConnectionFinalizer)
      })"

section \<open>Reconcile\<close>

definition conn_setReady ::
  "TemporalClusterConnectionReconciler \<Rightarrow> TemporalClusterConnection \<Rightarrow> ConditionStatus \<Rightarrow> string \<Rightarrow> string \<Rightarrow> TemporalClusterConnection" where
  "conn_setReady R conn st reason message =
     conn \<lparr>tcn_Status := (tcn_Status conn)
       \<lparr>tcnst_ObservedGeneration := om_Generation (tcn_Meta conn),
        tcnst_Conditions := setStatusCondition (ca_meta (ccr_Client R)) (tcnst_Conditions (tcn_Status conn))
          (readyCondition (tcn_Meta conn) st reason message)\<rparr>\<rparr>"

definition conn_reconcileLive ::
  "TemporalClusterConnectionReconciler \<Rightarrow> TemporalClusterConnection \<Rightarrow> resolvedPeer list \<Rightarrow> TemporalClusterConnection outcome act" where
  "conn_reconcileLive R conn peers = do {
     v \<leftarrow> reconcilePeers R peers;
     (let conn1 = conn \<lparr>tcn_Status := (tcn_Status conn) \<lparr>tcnst_Peers := pv_statuses v\<rparr>\<rparr>;
          conn2 = (if pv_allReady v
                   then conn_setReady R conn1 ConditionTrue ''PeersConnected'' ''all replication peers are connected''
                   else conn_setReady R conn1 ConditionFalse (pv_reason v) (pv_message v))
      in writeStatus (ccr_Client R) ''TemporalClusterConnection'' tcn_Meta conn2 (requeueAfter namespaceDriftRequeue))
   }"

definition reconcileConnection ::
  "TemporalClusterConnectionReconciler \<Rightarrow> TemporalClusterConnection \<Rightarrow> TemporalClusterConnection outcome act" where
  "reconcileConnection R conn = do {
     peers \<leftarrow> resolvePeers R (om_Namespace (tcn_Meta conn)) (tccs_Peers (tcn_Spec conn));
     if isDeleting (tcn_Meta conn) then do { de \<leftarrow> conn_reconcileDelete R conn peers; finished noResult de }
     else if \<not> ca_ContainsFinalizer (ccr_Client R) (tcn_Meta conn) clusterConnectionFinalizer then
       (let conn1 = conn \<lparr>tcn_Meta := ca_AddFinalizer (ccr_Client R) (tcn_Meta conn) clusterConnectionFinalizer\<rparr> in do {
          ue \<leftarrow> updateObj (ccr_Client R) ''TemporalClusterConnection'' (tcn_Meta conn1);
          case ue of Some e \<Rightarrow> failed e | None \<Rightarrow> conn_reconcileLive R conn1 peers
        })
     else conn_reconcileLive R conn peers
   }"

definition ReconcileConnection ::
  "TemporalClusterConnectionReconciler \<Rightarrow> string \<Rightarrow> string \<Rightarrow> TemporalClusterConnection outcome act" where
  "ReconcileConnection R nsn name = do {
     r \<leftarrow> perform (CGet ''TemporalClusterConnection'' nsn name) (\<lambda>tr. ca_GetConnection (ccr_Client R) tr nsn name);
     case r of Inl e \<Rightarrow> finished noResult (ignoreNotFound e) | Inr conn \<Rightarrow> reconcileConnection R conn
   }"

definition mapClusterToConnections :: "TemporalClusterConnection list result \<Rightarrow> string \<Rightarrow> string \<Rightarrow> (string \<times> string) list" where
  "mapClusterToConnections items kind name =
     mapClusterTo tcn_Meta (\<lambda>c. List.map_filter ccp_ClusterRef (tccs_Peers (tcn_Spec c))) items kind name"

end
