(* ===== verification/Connection_Runs.thy ===== *)
theory Connection_Runs
  imports Connection_Controller Satellite_Laws Satellite_Webhooks
begin

text \<open>
  The verdict of the connection controller: for an admitted connection, Ready means a full mesh of the
  enabled peers as the dialed local peers see it.  The listing of remote clusters is complete however it
  is paged, and a deleted connection always loses its finalizer.
\<close>

section \<open>Peers of an admitted connection\<close>

text \<open>The peers that resolving gives, one for each peer of the spec.\<close>

definition resolvedFrom :: "ClusterConnectionPeer \<Rightarrow> resolvedPeer \<Rightarrow> bool" where
  "resolvedFrom p rp \<longleftrightarrow>
     rp_name rp = ccp_Name p \<and> rp_enable rp = derefOr True (ccp_EnableConnection p) \<and>
     (case ccp_ClusterRef p of
        None \<Rightarrow> \<not> rp_local rp \<and> rp_address rp = ccp_FrontendAddress p
      | Some _ \<Rightarrow> rp_local rp)"

lemma resolvePeer_from: "run_state (resolvePeer R nsn p) w = (rp, w') \<Longrightarrow> resolvedFrom p rp"
  by (auto simp: resolvePeer_def resolvedFrom_def unresolvedPeer_def Let_def split: option.splits prod.splits sum.splits)

lemma resolvePeers_from:
  "run_state (resolvePeers R nsn ps) w = (rps, w') \<Longrightarrow> list_all2 resolvedFrom ps rps"
  by (induction ps arbitrary: w rps) (auto split: prod.splits dest: resolvePeer_from)

lemma validatePeersFrom_ok:
  "validatePeersFrom i seen ps = [] \<Longrightarrow>
     distinct (map ccp_Name ps) \<and> (\<forall>p\<in>set ps. \<not> seen (ccp_Name p)) \<and>
     (\<forall>p\<in>set ps. ccp_ClusterRef p = None \<longrightarrow> ccp_FrontendAddress p \<noteq> [])"
proof (induction ps arbitrary: i seen)
  case (Cons p ps)
  from Cons.prems have p: "peerErrors (''spec.peers['' @ itoa (int i) @ '']'') seen p = []"
    and ps: "validatePeersFrom (Suc i) (seen(ccp_Name p := True)) ps = []" by simp_all
  from p have "\<not> seen (ccp_Name p)" "ccp_ClusterRef p = None \<longrightarrow> ccp_FrontendAddress p \<noteq> []"
    by (auto simp: peerErrors_def Let_def split: if_splits)
  moreover have "distinct (map ccp_Name ps)" "\<forall>q\<in>set ps. ccp_Name q \<noteq> ccp_Name p \<and> \<not> seen (ccp_Name q)"
    "\<forall>q\<in>set ps. ccp_ClusterRef q = None \<longrightarrow> ccp_FrontendAddress q \<noteq> []"
    using Cons.IH [OF ps] by (auto split: if_splits)
  ultimately show ?case by auto
qed simp

lemma admitted_peers:
  assumes "connection_ValidateCreate conn = None"
    and "run_state (resolvePeers R nsn (tccs_Peers (tcn_Spec conn))) w = (peers, w')"
  shows "distinct (map rp_name peers) \<and> (\<forall>p\<in>set peers. rp_local p \<or> rp_address p \<noteq> [])"
proof -
  let ?ps = "tccs_Peers (tcn_Spec conn)"
  have ok: "distinct (map ccp_Name ?ps)" "\<forall>p\<in>set ?ps. ccp_ClusterRef p = None \<longrightarrow> ccp_FrontendAddress p \<noteq> []"
    using assms(1) validatePeersFrom_ok [of 0 _ ?ps]
    by (auto simp: connection_ValidateCreate_def validatePeers_def split: if_splits)
  have rel: "list_all2 resolvedFrom ?ps peers" by (rule resolvePeers_from [OF assms(2)])
  then have "map rp_name peers = map ccp_Name ?ps"
    by (induction rule: list_all2_induct) (auto simp: resolvedFrom_def)
  moreover have "\<forall>p\<in>set peers. rp_local p \<or> rp_address p \<noteq> []"
  proof
    fix rp assume "rp \<in> set peers"
    then obtain i where i: "i < length peers" "peers ! i = rp" by (auto simp: in_set_conv_nth)
    then have "?ps ! i \<in> set ?ps" "resolvedFrom (?ps ! i) rp"
      using list_all2_nthD2 [OF rel i(1)] list_all2_lengthD [OF rel] by auto
    then show "rp_local rp \<or> rp_address rp \<noteq> []"
      using ok(2) by (auto simp: resolvedFrom_def split: option.splits)
  qed
  ultimately show ?thesis using ok(1) by simp
qed

section \<open>The dialed peers\<close>

definition dialedFrom :: "resolvedPeer list \<Rightarrow> dialed \<Rightarrow> bool" where
  "dialedFrom peers locals \<longleftrightarrow>
     (\<forall>(n, l)\<in>set locals. n = rp_name (lp_peer l) \<and> lp_peer l \<in> set peers \<and> rp_local (lp_peer l) \<and> rp_address (lp_peer l) \<noteq> [])"

lemma dialLocal_Some:
  "run_state (dialLocal R p) w = (Some l, w') \<Longrightarrow> lp_peer l = p \<and> rp_local p \<and> rp_address p \<noteq> []"
  by (auto simp: dialLocal_def split: if_splits prod.splits sum.splits)

lemma set_update: "(k, v) \<in> set (AList.update n l locals) \<Longrightarrow> (k, v) = (n, l) \<or> (k, v) \<in> set locals"
  by (induction locals) (auto split: if_splits)

lemma dialLocals_from:
  assumes "run_state (dialLocals R ps acc) w = (locals, w')" "set ps \<subseteq> set peers" "dialedFrom peers acc" "distinct (map fst acc)"
  shows "dialedFrom peers locals \<and> distinct (map fst locals)"
  using assms
proof (induction ps arbitrary: acc w)
  case (Cons p ps)
  obtain d w1 where d: "run_state (dialLocal R p) w = (d, w1)" by fastforce
  let ?acc = "case d of None \<Rightarrow> acc | Some l \<Rightarrow> AList.update (rp_name p) l acc"
  have "run_state (dialLocals R ps ?acc) w1 = (locals, w')" using Cons.prems(1) d by simp
  moreover have "dialedFrom peers ?acc"
  proof (cases d)
    case (Some l)
    then have "lp_peer l = p" "rp_local p" "rp_address p \<noteq> []" using dialLocal_Some d by blast+
    then show ?thesis using Cons.prems(2,3) Some by (fastforce simp: dialedFrom_def dest: set_update)
  qed (use Cons.prems(3) in simp)
  moreover have "distinct (map fst ?acc)"
    using Cons.prems(4) by (auto split: option.splits simp: distinct_update)
  ultimately show ?case using Cons.IH Cons.prems(2) by simp
qed simp

lemma upsertRemote_peer: "run_state (upsertRemote n p l) w = (l', w') \<Longrightarrow> lp_peer l' = lp_peer l"
  by (auto simp: upsertRemote_def split: if_splits option.splits prod.splits)

lemma upsertAll_peer: "run_state (upsertAll n ps l) w = (l', w') \<Longrightarrow> lp_peer l' = lp_peer l"
  by (induction ps arbitrary: l w) (auto split: prod.splits dest: upsertRemote_peer)

lemma upsertRemotes_peers:
  "run_state (upsertRemotes peers locals) w = (locals', w') \<Longrightarrow>
     list_all2 (\<lambda>(n, l) (n', l'). n' = n \<and> lp_peer l' = lp_peer l) locals locals'"
  by (induction peers locals arbitrary: w locals' rule: upsertRemotes.induct)
    (auto split: prod.splits dest: upsertAll_peer)

lemma upsertRemotes_from:
  assumes "run_state (upsertRemotes peers locals) w = (locals', w')" "dialedFrom peers locals" "distinct (map fst locals)"
  shows "dialedFrom peers locals' \<and> distinct (map fst locals')"
proof -
  have rel: "list_all2 (\<lambda>(n, l) (n', l'). n' = n \<and> lp_peer l' = lp_peer l) locals locals'"
    by (rule upsertRemotes_peers [OF assms(1)])
  then have "map fst locals' = map fst locals" by (induction rule: list_all2_induct) auto
  moreover have "dialedFrom peers locals'"
    using rel assms(2) by (induction rule: list_all2_induct) (auto simp: dialedFrom_def)
  ultimately show ?thesis using assms(3) by simp
qed

section \<open>The verdict\<close>

lemma peerStatus_ready:
  "pv_allReady (peerStatus p reach conn v) \<longleftrightarrow> pv_allReady v \<and> (rp_enable p \<longrightarrow> reach \<and> conn)"
  by (auto simp: peerStatus_def Let_def)

lemma buildStatuses_ready:
  "pv_allReady (buildStatuses peers locals reach) \<longleftrightarrow>
     (\<forall>p\<in>set peers. rp_enable p \<longrightarrow> reach (rp_name p) \<and> peerConnected p peers locals)"
proof -
  have "pv_allReady (foldl (\<lambda>v p. peerStatus p (reach (rp_name p)) (peerConnected p peers locals) v) v ps) \<longleftrightarrow>
      pv_allReady v \<and> (\<forall>p\<in>set ps. rp_enable p \<longrightarrow> reach (rp_name p) \<and> peerConnected p peers locals)" for v ps
    by (induction ps arbitrary: v) (auto simp: peerStatus_ready)
  then show ?thesis by (simp add: buildStatuses_def)
qed

lemma computeReachable_distinct:
  assumes "distinct (map rp_name peers)" "p \<in> set peers"
  shows "computeReachable peers locals (rp_name p) = peerReachable locals p"
proof -
  let ?f = "\<lambda>reachable p. if rp_local p then reachable(rp_name p := peerReachable locals p)
       else if peerReachable locals p then reachable(rp_name p := True) else reachable"
  have other: "foldl ?f m ps n = m n" if "n \<notin> rp_name ` set ps" for m ps n
    using that by (induction ps arbitrary: m) auto
  have "foldl ?f m peers (rp_name p) = peerReachable locals p" if "\<not> m (rp_name p)" for m
    using assms that
  proof (induction peers arbitrary: m)
    case (Cons q peers)
    show ?case
    proof (cases "p = q")
      case True
      then show ?thesis using Cons.prems by (auto simp: other)
    next
      case False
      then have p: "p \<in> set peers" using Cons.prems(2) by simp
      then have "rp_name p \<in> rp_name ` set peers" by simp
      then have ne: "rp_name p \<noteq> rp_name q" using Cons.prems(1) by auto
      then have "\<not> ?f m q (rp_name p)" using Cons.prems(3) ne by simp
      then show ?thesis using Cons.IH [of "?f m q"] Cons.prems(1) p by (simp only: foldl_Cons) simp
    qed
  qed simp
  then show ?thesis by (simp add: computeReachable_def)
qed

text \<open>Every enabled peer that a local peer should know is an enabled remote of it.\<close>

definition meshed :: "resolvedPeer list \<Rightarrow> dialed \<Rightarrow> bool" where
  "meshed peers locals \<longleftrightarrow>
     (\<forall>p\<in>set peers. \<forall>q\<in>set peers. rp_enable p \<and> rp_enable q \<and> p \<noteq> q \<and> rp_local p \<longrightarrow>
        (\<exists>l. map_of locals (rp_name p) = Some l \<and> enabledIn l (rp_name q))) \<and>
     (\<forall>p\<in>set peers. rp_enable p \<and> \<not> rp_local p \<longrightarrow> locals \<noteq> [] \<and> (\<forall>(n, l)\<in>set locals. enabledIn l (rp_name p)))"

lemma allReady_meshed:
  assumes names: "distinct (map rp_name peers)" and addr: "\<forall>p\<in>set peers. rp_local p \<or> rp_address p \<noteq> []"
    and origin: "dialedFrom peers locals"
    and ready: "pv_allReady (buildStatuses peers locals (computeReachable peers locals))"
  shows "meshed peers locals"
proof -
  have enabled: "peerReachable locals p \<and> peerConnected p peers locals" if "p \<in> set peers" "rp_enable p" for p
    using ready that by (auto simp: buildStatuses_ready computeReachable_distinct [OF names that(1), symmetric])
  have same: "p = q" if "p \<in> set peers" "q \<in> set peers" "rp_name p = rp_name q" for p q
    using names that by (auto simp: distinct_map inj_on_def)
  have known: "lp_peer l = p \<and> rp_address p \<noteq> []" if "p \<in> set peers" "map_of locals (rp_name p) = Some l" for p l
  proof -
    have "rp_name p = rp_name (lp_peer l)" "lp_peer l \<in> set peers" "rp_address (lp_peer l) \<noteq> []"
      using origin map_of_SomeD [OF that(2)] unfolding dialedFrom_def by blast+
    then show ?thesis using same [OF that(1)] by auto
  qed
  have reached: "rp_address q \<noteq> []" if "q \<in> set peers" "rp_enable q" for q
  proof (cases "rp_local q")
    case True
    then have "map_of locals (rp_name q) \<noteq> None" using enabled [OF that] by (simp add: peerReachable_def)
    then show ?thesis using known [OF that(1)] by auto
  qed (use addr that(1) in blast)
  show ?thesis
    unfolding meshed_def
  proof (intro conjI ballI impI)
    fix p q assume pq: "p \<in> set peers" "q \<in> set peers" "rp_enable p \<and> rp_enable q \<and> p \<noteq> q \<and> rp_local p"
    obtain l where l: "map_of locals (rp_name p) = Some l"
      and all: "\<forall>other\<in>set peers. rp_name other = rp_name p \<or> \<not> rp_enable other \<or> rp_address other = [] \<or> enabledIn l (rp_name other)"
      using enabled [OF pq(1)] pq(3) by (auto simp: peerConnected_def list_all_iff split: option.splits)
    have "rp_name q \<noteq> rp_name p" "rp_address q \<noteq> []" using same [OF pq(1,2)] reached [OF pq(2)] pq(3) by auto
    then show "\<exists>l. map_of locals (rp_name p) = Some l \<and> enabledIn l (rp_name q)" using l all pq(2,3) by auto
  next
    fix p assume p: "p \<in> set peers" "rp_enable p \<and> \<not> rp_local p"
    have others: "filter (\<lambda>(_, l). rp_name (lp_peer l) \<noteq> rp_name p) locals = locals"
      using origin p same by (fastforce simp: dialedFrom_def filter_id_conv)
    have "list_all (\<lambda>(_, l). enabledIn l (rp_name p)) locals \<and> locals \<noteq> []"
      using enabled [OF p(1)] p(2) others by (simp add: peerConnected_def Let_def)
    then show "locals \<noteq> []" and "\<And>nl. nl \<in> set locals \<Longrightarrow> case nl of (n, l) \<Rightarrow> enabledIn l (rp_name p)"
      by (auto simp: list_all_iff)
  qed
qed


section \<open>Deletion\<close>

text \<open>
  C22: a deleted connection that holds the finalizer is always given up: whatever the peers answer, the pass
  ends with the update that removes the finalizer, after at most de-registrations on the dialed peers.
\<close>

theorem connection_deletion_unblocked:
  assumes "isDeleting (tcn_Meta conn)" "ca_ContainsFinalizer (ccr_Client R) (tcn_Meta conn) clusterConnectionFinalizer"
    and "finalizer_laws (ccr_Client R)"
    and "run_state (reconcileConnection R conn) w = ((acc, r, e), w')"
  shows "\<exists>m. last (w_trace w') = CUpdate ''TemporalClusterConnection'' (om_Namespace m) (om_Name m) (om_Finalizers m) \<and>
    clusterConnectionFinalizer \<notin> set (om_Finalizers m) \<and> m \<lparr>om_Finalizers := []\<rparr> = tcn_Meta conn \<lparr>om_Finalizers := []\<rparr> \<and>
    set (om_Finalizers m) = set (om_Finalizers (tcn_Meta conn)) - {clusterConnectionFinalizer}"
proof -
  let ?m = "ca_RemoveFinalizer (ccr_Client R) (tcn_Meta conn) clusterConnectionFinalizer"
  have "last (w_trace w') = CUpdate ''TemporalClusterConnection'' (om_Namespace ?m) (om_Name ?m) (om_Finalizers ?m)"
    using assms(1,2,4)
    by (auto simp: reconcileConnection_def conn_reconcileDelete_def updateObj_def finished_def split: prod.splits)
  then show ?thesis using assms(3) by (intro exI [of _ ?m]) (auto simp: finalizer_laws_def)
qed

section \<open>Paging\<close>

text \<open>
  A frontend that serves a listing in pages: the token of a page gives its clusters and the token of the
  next page, the last one has none, and what it answers does not depend on the other calls.
\<close>

fun servesPages :: "frontend \<Rightarrow> string \<Rightarrow> string \<Rightarrow> (string \<times> ClusterMetadataProto list) list \<Rightarrow> bool" where
  "servesPages F addr token [] = False"
| "servesPages F addr token [(t, cs)] =
     (t = token \<and> (\<forall>tr. f_ListClusters F tr addr token = Inr \<lparr>lcr_Clusters = cs, lcr_NextPageToken = []\<rparr>))"
| "servesPages F addr token ((t, cs) # (t', cs') # pages) =
     (t = token \<and> t' \<noteq> [] \<and> (\<forall>tr. f_ListClusters F tr addr token = Inr \<lparr>lcr_Clusters = cs, lcr_NextPageToken = t'\<rparr>) \<and>
      servesPages F addr t' ((t', cs') # pages))"

lemma listPages_served:
  assumes "servesPages F addr token pages" "length pages \<le> n"
  shows "run_state (listPages F addr n token out) w =
    (Some (Inr (out @ map remoteClusterInfoFromProto (concat (map snd pages)))),
     w \<lparr>w_trace := w_trace w @ map (\<lambda>(t, _). CTemporal addr (ListClusters t)) pages\<rparr>)"
  using assms
proof (induction F addr token pages arbitrary: n out w rule: servesPages.induct)
  case (2 F addr token t cs)
  then show ?case by (cases n) (auto simp: Let_def)
next
  case (3 F addr token t cs t' cs' pages)
  then obtain n' where n: "n = Suc n'" "length ((t', cs') # pages) \<le> n'" by (cases n) auto
  show ?case using 3(1) [of n' "out @ map remoteClusterInfoFromProto cs"] 3(2) n by (simp add: Let_def)
qed simp

text \<open>
  C21: the listing of remote clusters ends and is complete: when the frontend serves it in some pages, the
  loop makes one call for each of them and returns the clusters of all, in order, for every bound on the
  number of calls that is at least the number of pages.
\<close>

theorem remote_listing_terminates:
  assumes "servesPages F addr [] pages" "length pages \<le> bound"
  shows "run_state (grpcListRemoteClusters F bound addr) w =
    (Inr (map remoteClusterInfoFromProto (concat (map snd pages))),
     w \<lparr>w_trace := w_trace w @ map (\<lambda>(t, _). CTemporal addr (ListClusters t)) pages\<rparr>)"
  by (simp add: grpcListRemoteClusters_def listPages_served [OF assms])

end
