(* ===== verification/Inspect_Command.thy ===== *)
theory Inspect_Command
  imports Backends
begin

text \<open>
  The \<^verbatim>\<open>inspect\<close> subcommand that the inspector Job runs (\<^verbatim>\<open>src/cmd/inspect.go\<close>), with the argument parser
  of Go's \<^verbatim>\<open>flag\<close> package that it uses.  The integer syntax of \<^verbatim>\<open>strconv.ParseInt\<close> in base 0 and the file
  system are parameters.
\<close>

section \<open>The flag set\<close>

record inspectFlags =
  if_host :: string
  if_port :: int
  if_db :: string
  if_user :: string
  if_plugin :: string
  if_tls :: bool
  if_pwFile :: string
  if_termPath :: string

definition defaultFlags :: inspectFlags where
  "defaultFlags =
     \<lparr>if_host = [], if_port = 5432, if_db = [], if_user = [], if_plugin = ''postgres12'', if_tls = False,
      if_pwFile = [], if_termPath = ''/dev/termination-log''\<rparr>"

datatype flagKind = StringFlag | IntFlag | BoolFlag

definition flagKindOf :: "string \<Rightarrow> flagKind option" where
  "flagKindOf name =
     (if name \<in> {''host'', ''db'', ''user'', ''plugin'', ''password-file'', ''termination-path''} then Some StringFlag
      else if name = ''port'' then Some IntFlag
      else if name = ''tls'' then Some BoolFlag
      else None)"

definition setString :: "string \<Rightarrow> string \<Rightarrow> inspectFlags \<Rightarrow> inspectFlags" where
  "setString name v f =
     (if name = ''host'' then f \<lparr>if_host := v\<rparr>
      else if name = ''db'' then f \<lparr>if_db := v\<rparr>
      else if name = ''user'' then f \<lparr>if_user := v\<rparr>
      else if name = ''plugin'' then f \<lparr>if_plugin := v\<rparr>
      else if name = ''password-file'' then f \<lparr>if_pwFile := v\<rparr>
      else f \<lparr>if_termPath := v\<rparr>)"

text \<open>\<^verbatim>\<open>strconv.ParseBool\<close>.\<close>

definition parseBool :: "string \<Rightarrow> bool option" where
  "parseBool v =
     (if v \<in> {''1'', ''t'', ''T'', ''true'', ''TRUE'', ''True''} then Some True
      else if v \<in> {''0'', ''f'', ''F'', ''false'', ''FALSE'', ''False''} then Some False
      else None)"

section \<open>Parsing (flag.FlagSet.Parse)\<close>

text \<open>The name and the value of an argument after its dashes: the text is cut at the first equals sign.\<close>

definition cutEquals :: "string \<Rightarrow> string \<times> string option" where
  "cutEquals s =
     (let n = takeWhile (\<lambda>c. c \<noteq> CHR ''='') s; r = dropWhile (\<lambda>c. c \<noteq> CHR ''='') s
      in (n, case r of [] \<Rightarrow> None | _ # v \<Rightarrow> Some v))"

text \<open>An argument is a flag when it has one or two dashes and more; \<open>None\<close> ends the flags.\<close>

definition flagText :: "string \<Rightarrow> string option" where
  "flagText a =
     (case a of
        c # d # rest \<Rightarrow>
          if c \<noteq> CHR ''-'' then None
          else if d = CHR ''-'' then (if rest = [] then None else Some rest)
          else Some (d # rest)
      | _ \<Rightarrow> None)"

fun parseFlags :: "(string \<Rightarrow> int option) \<Rightarrow> string list \<Rightarrow> inspectFlags \<Rightarrow> inspectFlags option" where
  "parseFlags parseInt [] f = Some f"
| "parseFlags parseInt (a # args) f =
     (case flagText a of
        None \<Rightarrow> Some f
      | Some t \<Rightarrow>
          if t = [] \<or> hd t = CHR ''-'' \<or> hd t = CHR ''='' then None
          else
            (case cutEquals t of (name, value) \<Rightarrow>
            (case flagKindOf name of
               None \<Rightarrow> None
             | Some BoolFlag \<Rightarrow>
                 (case value of
                    None \<Rightarrow> parseFlags parseInt args (f \<lparr>if_tls := True\<rparr>)
                  | Some v \<Rightarrow> (case parseBool v of None \<Rightarrow> None | Some b \<Rightarrow> parseFlags parseInt args (f \<lparr>if_tls := b\<rparr>)))
             | Some StringFlag \<Rightarrow>
                 (case value of
                    Some v \<Rightarrow> parseFlags parseInt args (setString name v f)
                  | None \<Rightarrow> (case args of [] \<Rightarrow> None | v # rest \<Rightarrow> parseFlags parseInt rest (setString name v f)))
             | Some IntFlag \<Rightarrow>
                 (case value of
                    Some v \<Rightarrow> (case parseInt v of None \<Rightarrow> None | Some i \<Rightarrow> parseFlags parseInt args (f \<lparr>if_port := i\<rparr>))
                  | None \<Rightarrow>
                      (case args of
                         [] \<Rightarrow> None
                       | v # rest \<Rightarrow> (case parseInt v of None \<Rightarrow> None | Some i \<Rightarrow> parseFlags parseInt rest (f \<lparr>if_port := i\<rparr>)))))))"

section \<open>The subcommand\<close>

text \<open>The spec it builds from its flags.\<close>

definition inspectSpec :: "inspectFlags \<Rightarrow> SQLDatastoreSpec" where
  "inspectSpec f =
     \<lparr>sql_PluginName = if_plugin f, sql_Host = if_host f, sql_Port = to_int32 (if_port f), sql_Database = if_db f,
      sql_User = if_user f, sql_PasswordSecretRef = None, sql_PasswordCommandSecretRef = None,
      sql_ConnectAttributes = [], sql_MaxConns = 0, sql_MaxIdleConns = 0, sql_MaxConnLifetime = None,
      sql_TLS =
        (if if_tls f
         then Some \<lparr>dtls_Enabled = True, dtls_CASecretRef = None, dtls_CertSecretRef = None, dtls_KeySecretRef = None,
                    dtls_EnableHostVerification = False, dtls_ServerName = []\<rparr>
         else None)\<rparr>"

text \<open>The exit code, and the result that is printed and written to the termination log.\<close>

definition runInspect ::
  "(string \<Rightarrow> int option) \<Rightarrow> (string \<Rightarrow> string result) \<Rightarrow> drivers \<Rightarrow> string list \<Rightarrow> (int \<times> InspectResult option) act" where
  "runInspect parseInt readFile d args =
     (case parseFlags parseInt args defaultFlags of
        None \<Rightarrow> State_Monad.return (2, None)
      | Some f \<Rightarrow>
      (case readFile (if_pwFile f) of
        Inl e \<Rightarrow>
          State_Monad.return (1, Some \<lparr>ins_Reachable = False, ins_Version = [],
            ins_Error = ''reading password file: '' @ err_text e\<rparr>)
      | Inr pw \<Rightarrow> do {
          res \<leftarrow> InspectSQL d (inspectSpec f) (trimSpace pw) (if_db f);
          State_Monad.return (0, Some res)
        }))"

section \<open>What the Job asks is what the subcommand does\<close>

lemma flag_args:
  "flagText ''--host'' = Some ''host''" "flagText ''--port'' = Some ''port''" "flagText ''--db'' = Some ''db''"
  "flagText ''--user'' = Some ''user''" "flagText ''--plugin'' = Some ''plugin''"
  "flagText ''--password-file'' = Some ''password-file''" "flagText ''--tls'' = Some ''tls''"
  by (simp_all add: flagText_def)

lemma cut_names:
  "cutEquals ''host'' = (''host'', None)" "cutEquals ''port'' = (''port'', None)" "cutEquals ''db'' = (''db'', None)"
  "cutEquals ''user'' = (''user'', None)" "cutEquals ''plugin'' = (''plugin'', None)"
  "cutEquals ''password-file'' = (''password-file'', None)" "cutEquals ''tls'' = (''tls'', None)"
  by (simp_all add: cutEquals_def)

text \<open>The documented behaviour of \<^verbatim>\<open>strconv.ParseInt\<close>: it reads back a decimal number.\<close>

definition parsesDecimals :: "(string \<Rightarrow> int option) \<Rightarrow> bool" where
  "parsesDecimals parseInt \<longleftrightarrow> (\<forall>n. - (2 ^ 63) \<le> n \<and> n < 2 ^ 63 \<longrightarrow> parseInt (itoa n) = Some n)"

lemma parseFlags_inspectorArgs:
  assumes "parseInt (itoa (sql_Port (ijp_SQLSpec p))) = Some (sql_Port (ijp_SQLSpec p))"
  shows "parseFlags parseInt (tl (inspectorArgs p)) defaultFlags =
    Some (let spec = ijp_SQLSpec p in defaultFlags
      \<lparr>if_host := sql_Host spec, if_port := sql_Port spec, if_db := sql_Database spec, if_user := sql_User spec,
       if_plugin := sql_PluginName spec, if_pwFile := AzureTokenFile,
       if_tls := (case sql_TLS spec of None \<Rightarrow> False | Some t \<Rightarrow> dtls_Enabled t)\<rparr>)"
  using assms
  by (simp add: inspectorArgs_def Let_def flag_args cut_names flagKindOf_def setString_def defaultFlags_def
      split: option.splits)

text \<open>The store as the Job sees it: there is no argument for the verification of the host.\<close>

definition unverified :: "SQLDatastoreSpec \<Rightarrow> SQLDatastoreSpec" where
  "unverified spec =
     spec \<lparr>sql_TLS := map_option (\<lambda>t. t \<lparr>dtls_EnableHostVerification := False\<rparr>) (sql_TLS spec)\<rparr>"

definition verifiesHost :: "SQLDatastoreSpec \<Rightarrow> bool" where
  "verifiesHost spec =
     (case sql_TLS spec of None \<Rightarrow> False | Some t \<Rightarrow> dtls_Enabled t \<and> dtls_EnableHostVerification t)"

text \<open>An inspection reads a store only through its connection string.\<close>

lemma InspectSQL_dsn:
  "BuildPostgresDSN s pw db = BuildPostgresDSN s' pw db \<Longrightarrow> InspectSQL d s pw db = InspectSQL d s' pw db"
  by (simp add: InspectSQL_def)

lemma sslmodes_differ: "urlEscape EncodeQueryComponent ''require'' \<noteq> urlEscape EncodeQueryComponent ''verify-full''"
  by code_simp

lemma unverified_dsn_iff:
  "BuildPostgresDSN (unverified spec) pw db = BuildPostgresDSN spec pw db \<longleftrightarrow> \<not> verifiesHost spec"
  by (simp add: BuildPostgresDSN_def unverified_def verifiesHost_def Let_def sslmodes_differ split: option.splits)

lemma inspectSpec_dsn:
  assumes "- (2 ^ 31) \<le> sql_Port spec" and "sql_Port spec < 2 ^ 31"
    and f: "if_host f = sql_Host spec" "if_port f = sql_Port spec" "if_db f = sql_Database spec"
      "if_user f = sql_User spec" "if_tls f = (case sql_TLS spec of None \<Rightarrow> False | Some t \<Rightarrow> dtls_Enabled t)"
  shows "BuildPostgresDSN (inspectSpec f) pw db = BuildPostgresDSN (unverified spec) pw db"
  using to_int32_id [OF assms(1,2)] f
  by (auto simp: BuildPostgresDSN_def unverified_def inspectSpec_def Let_def split: option.splits)

text \<open>The one container of the Job runs the subcommand with the Job's arguments.\<close>

lemma inspector_container:
  "\<exists>c. pod_Containers (pt_Spec (job_Template (BuildInspectorJob p a))) = [c] \<and> ct_Args c = inspectorArgs p"
  by (simp add: BuildInspectorJob_def newJob_def ApplyAzureSchemaWorkloadIdentity_def applyAzureTokenBase_def
      ensureAzureTokenMount_def ensureAzureTokenVolume_def Let_def split: list.splits)

text \<open>
  C24: the inspector Job and the subcommand it runs agree on the store.  The Job has one container; its
  arguments select the subcommand, and for a port in the range of its type and a token file that can
  be read, the subcommand exits with code 0 after one inspection of the store of the cluster's spec,
  with the trimmed token as the password and the host not verified.  The connection string is the one
  the operator itself would use exactly when the spec does not ask for the host to be verified.
\<close>

theorem inspector_inspects_the_store:
  assumes "parsesDecimals parseInt" and "readFile AzureTokenFile = Inr pw"
    and "- (2 ^ 31) \<le> sql_Port (ijp_SQLSpec p)" and "sql_Port (ijp_SQLSpec p) < 2 ^ 31"
  shows "\<exists>c. pod_Containers (pt_Spec (job_Template (BuildInspectorJob p a))) = [c] \<and>
    (\<exists>args. ct_Args c = ''inspect'' # args \<and>
      runInspect parseInt readFile d args = do {
        res \<leftarrow> InspectSQL d (unverified (ijp_SQLSpec p)) (trimSpace pw) (sql_Database (ijp_SQLSpec p));
        State_Monad.return (0, Some res)
      }) \<and>
    (BuildPostgresDSN (unverified (ijp_SQLSpec p)) (trimSpace pw) (sql_Database (ijp_SQLSpec p)) =
     BuildPostgresDSN (ijp_SQLSpec p) (trimSpace pw) (sql_Database (ijp_SQLSpec p))
       \<longleftrightarrow> \<not> verifiesHost (ijp_SQLSpec p))"
proof -
  let ?spec = "ijp_SQLSpec p"
  have "parseInt (itoa (sql_Port ?spec)) = Some (sql_Port ?spec)"
    using assms(1,3,4) by (simp add: parsesDecimals_def)
  from parseFlags_inspectorArgs [where parseInt = parseInt and p = p, OF this]
  obtain f where f: "parseFlags parseInt (tl (inspectorArgs p)) defaultFlags = Some f"
    and eqs: "if_host f = sql_Host ?spec" "if_port f = sql_Port ?spec" "if_db f = sql_Database ?spec"
      "if_user f = sql_User ?spec" "if_tls f = (case sql_TLS ?spec of None \<Rightarrow> False | Some t \<Rightarrow> dtls_Enabled t)"
      "if_pwFile f = AzureTokenFile"
    by (auto simp: Let_def)
  have "InspectSQL d (inspectSpec f) (trimSpace pw) (sql_Database ?spec) =
      InspectSQL d (unverified ?spec) (trimSpace pw) (sql_Database ?spec)"
    by (rule InspectSQL_dsn [OF inspectSpec_dsn [OF assms(3,4) eqs(1-5)]])
  then have run: "runInspect parseInt readFile d (tl (inspectorArgs p)) = do {
      res \<leftarrow> InspectSQL d (unverified ?spec) (trimSpace pw) (sql_Database ?spec);
      State_Monad.return (0, Some res)
    }"
    by (simp add: runInspect_def f eqs assms(2))
  have args: "inspectorArgs p = ''inspect'' # tl (inspectorArgs p)"
    by (simp add: inspectorArgs_def Let_def)
  obtain c where c: "pod_Containers (pt_Spec (job_Template (BuildInspectorJob p a))) = [c]" "ct_Args c = inspectorArgs p"
    using inspector_container by blast
  show ?thesis
    using c(2) args by (intro exI [of _ c] exI [of _ "tl (inspectorArgs p)"] conjI c(1) run unverified_dsn_iff) simp
qed

end
