(* ===== verification/Preview.thy ===== *)
theory Preview
  imports Plan Cluster_Webhook
begin

text \<open>
  The browser preview (\<^verbatim>\<open>src/cmd/preview-wasm/main.go\<close>): a manifest is decoded, defaulted, validated and
  planned as a new cluster would be, and every planned object is rendered.  The YAML decoder and
  encoder are parameters; the result is the value that is printed as JSON, without the API versions of
  the objects.
\<close>

record previewResource =
  pr_Kind :: string
  pr_Name :: string
  pr_Namespace :: string
  pr_Phase :: Phase
  pr_YAML :: string

text \<open>A panic of the planner ends the program; the other errors are part of the result.\<close>

datatype previewResult =
    PreviewOk "previewResource list"
  | PreviewFailed string
  | PreviewInvalid "fieldError list"
  | PreviewCrash string

section \<open>Decoding\<close>

text \<open>The documents of a manifest with their kinds, up to the first one that does not decode.\<close>

type_synonym decoder = "string \<Rightarrow> (string \<times> TemporalCluster) result list"

fun findClusterDoc :: "bool \<Rightarrow> (string \<times> TemporalCluster) result list \<Rightarrow> TemporalCluster result" where
  "findClusterDoc sawDocument [] =
     (if \<not> sawDocument then Inl (ErrMsg ''no input: paste a TemporalCluster manifest'')
      else Inl (ErrMsg ''no TemporalCluster document found in the input''))"
| "findClusterDoc sawDocument (d # docs) =
     (case d of
        Inl e \<Rightarrow> Inl (ErrMsg (''invalid YAML: '' @ err_text e))
      | Inr (kind, cluster) \<Rightarrow> if kind = ''TemporalCluster'' then Inr cluster else findClusterDoc True docs)"

definition decodeTemporalCluster :: "decoder \<Rightarrow> string \<Rightarrow> TemporalCluster result" where
  "decodeTemporalCluster dec yamlSrc =
     (if trimSpace yamlSrc = [] then Inl (ErrMsg ''no input: paste a TemporalCluster manifest'')
      else findClusterDoc False (dec yamlSrc))"

section \<open>Rendering\<close>

text \<open>The data of a Secret is shown as text: its \<^verbatim>\<open>data\<close> moves to \<^verbatim>\<open>stringData\<close>.\<close>

datatype renderable = PlainObject KObj | ReadableSecret ObjectMeta gomap

definition readable :: "KObj \<Rightarrow> renderable" where
  "readable ob =
     (case ob of
        OSecret s \<Rightarrow> if sec_Data s \<noteq> Map.empty then ReadableSecret (sec_Meta s) (sec_Data s) else PlainObject ob
      | _ \<Rightarrow> PlainObject ob)"

definition renderObject :: "(renderable \<Rightarrow> string result) \<Rightarrow> KObj \<Rightarrow> string result" where
  "renderObject marshal ob = marshal (readable ob)"

fun renderPlan :: "(renderable \<Rightarrow> string result) \<Rightarrow> PlannedObject list \<Rightarrow> previewResource list \<Rightarrow> previewResult" where
  "renderPlan marshal [] objs = PreviewOk objs"
| "renderPlan marshal (p # planned) objs =
     (case renderObject marshal (plo_Object p) of
        Inl e \<Rightarrow> PreviewFailed (''rendering '' @ om_Name (obj_meta (plo_Object p)) @ '': '' @ err_text e)
      | Inr rendered \<Rightarrow>
          renderPlan marshal planned (objs @
            [\<lparr>pr_Kind = obj_kind (plo_Object p), pr_Name = om_Name (obj_meta (plo_Object p)),
              pr_Namespace = om_Namespace (obj_meta (plo_Object p)), pr_Phase = plo_Phase p, pr_YAML = rendered\<rparr>]))"

section \<open>The preview\<close>

definition withNamespace :: "TemporalCluster \<Rightarrow> TemporalCluster" where
  "withNamespace cluster =
     (if tc_Namespace cluster = [] then cluster \<lparr>tc_Meta := (tc_Meta cluster) \<lparr>om_Namespace := ''default''\<rparr>\<rparr> else cluster)"

fun panicText :: "err \<Rightarrow> string option" where
  "panicText (Panic m) = Some m"
| "panicText (WrapErr _ e) = panicText e"
| "panicText _ = None"

definition previewTemporalCluster ::
  "decoder \<Rightarrow> (renderable \<Rightarrow> string result) \<Rightarrow> planlibs \<Rightarrow> string \<Rightarrow> previewResult" where
  "previewTemporalCluster dec marshal L yamlSrc =
     (case decodeTemporalCluster dec yamlSrc of
        Inl e \<Rightarrow> PreviewFailed (err_text e)
      | Inr decoded \<Rightarrow>
          (let cluster = Default (withNamespace decoded) in
           if ValidateCreate L cluster \<noteq> [] then PreviewInvalid (ValidateCreate L cluster)
           else
             (case PlanFromSpec L cluster of
                Inl e \<Rightarrow> (case panicText e of Some m \<Rightarrow> PreviewCrash m | None \<Rightarrow> PreviewFailed (err_text e))
              | Inr planned \<Rightarrow> renderPlan marshal planned [])))"

definition temporalPreview ::
  "decoder \<Rightarrow> (renderable \<Rightarrow> string result) \<Rightarrow> planlibs \<Rightarrow> string list \<Rightarrow> previewResult" where
  "temporalPreview dec marshal L args =
     (case args of
        kind # src # _ \<Rightarrow>
          if kind = ''TemporalCluster'' then previewTemporalCluster dec marshal L src
          else PreviewFailed (''kind '' @ goQuote kind @ '' is not supported yet'')
      | _ \<Rightarrow> PreviewFailed ''temporalPreview(kind, yaml) requires two arguments'')"

section \<open>The preview shows the plan\<close>

lemma renderPlan_ok:
  "renderPlan marshal planned objs = PreviewOk rs \<Longrightarrow>
     map (\<lambda>r. (pr_Kind r, pr_Namespace r, pr_Name r)) rs =
     map (\<lambda>r. (pr_Kind r, pr_Namespace r, pr_Name r)) objs @ keysOf planned"
  by (induction planned arbitrary: objs)
    (auto simp: keysOf_def obj_key_def split: sum.splits)

text \<open>
  C25: a preview that succeeds shows the admission webhook's view of a new cluster.  The manifest holds a
  cluster; with the namespace and the defaults filled in, the webhook would admit it; and the preview
  lists the objects of the plan of that cluster, one entry per object and no object twice.
\<close>

theorem preview_shows_admitted_plan:
  assumes "previewTemporalCluster dec marshal L src = PreviewOk rs"
  shows "\<exists>decoded planned.
    decodeTemporalCluster dec src = Inr decoded \<and>
    ValidateCreate L (Default (withNamespace decoded)) = [] \<and>
    PlanFromSpec L (Default (withNamespace decoded)) = Inr planned \<and>
    map (\<lambda>r. (pr_Kind r, pr_Namespace r, pr_Name r)) rs = keysOf planned \<and>
    distinct (map (\<lambda>r. (pr_Kind r, pr_Namespace r, pr_Name r)) rs)"
proof -
  from assms obtain decoded planned where
    d: "decodeTemporalCluster dec src = Inr decoded"
    and v: "ValidateCreate L (Default (withNamespace decoded)) = []"
    and p: "PlanFromSpec L (Default (withNamespace decoded)) = Inr planned"
    and r: "renderPlan marshal planned [] = PreviewOk rs"
    by (auto simp: previewTemporalCluster_def Let_def split: sum.splits option.splits if_splits)
  from renderPlan_ok [OF r] have "map (\<lambda>r. (pr_Kind r, pr_Namespace r, pr_Name r)) rs = keysOf planned"
    by simp
  with d v p planned_keys_distinct [OF p] show ?thesis
    by (intro exI [of _ decoded] exI [of _ planned] conjI) simp_all
qed

end
