(* ===== verification/Sample_Satellites.thy ===== *)
theory Sample_Satellites
  imports Samples Namespace_Service Workflow_Runs Connection_Runs Schedule_Runs Inspect_Command Preview
begin

text \<open>
  A concrete dev server, a frontend with a namespace service behind it, and one resource of every kind
  that refers to the dev server; the theorems on the satellite resources at these inputs.
\<close>

section \<open>The dev server and the API\<close>

definition sampleDev :: TemporalDevServer where
  "sampleDev =
     \<lparr>dev_Meta = newMeta ''dev'' ''temporal'' Map.empty Map.empty,
      dev_Spec = \<lparr>dev_Version = ''1.3.0'', dev_Image = [], dev_ImagePullSecrets = [], dev_Namespaces = [], dev_UI = None,
        dev_Storage = None, dev_Service = None, dev_Resources = [], dev_NodeSelector = Map.empty, dev_Tolerations = [],
        dev_Affinity = None, dev_WorkflowRunPolicy = None\<rparr>,
      dev_Status = \<lparr>devst_Phase = ''Ready'', devst_ObservedGeneration = 0,
        devst_Conditions = [sampleCondition ConditionReady ConditionTrue],
        devst_Endpoints = \<lparr>dse_Frontend = [], dse_UI = []\<rparr>, devst_Version = ''1.3.0''\<rparr>\<rparr>"

definition sampleRef :: ClusterReference where
  "sampleRef = \<lparr>cref_Name = ''dev'', cref_Kind = ClusterKindTemporalDevServer\<rparr>"

definition devTarget :: ResolvedTarget where
  "devTarget =
     \<lparr>rt_Address = DevServerFrontendEndpoint sampleDev, rt_TLSConfig = None, rt_Ready = True,
      rt_WorkflowRunPolicy = \<lparr>wrp_Enabled = True, wrp_AllowedNamespaces = [], wrp_AllowedTaskQueues = []\<rparr>\<rparr>"

definition sampleNamespace :: TemporalNamespace where
  "sampleNamespace =
     \<lparr>tn_Meta = (newMeta ''orders'' ''temporal'' Map.empty Map.empty) \<lparr>om_Finalizers := [namespaceFinalizer]\<rparr>,
      tn_Spec = \<lparr>tns_ClusterRef = sampleRef, tns_RetentionPeriod = None, tns_Description = ''orders'', tns_OwnerEmail = ''ops@example.com'',
        tns_AllowDeletion = False, tns_DriftDetection = ''enforce'', tns_IsGlobal = True,
        tns_Clusters = [''east'', ''west''], tns_ActiveCluster = ''west''\<rparr>,
      tn_Status = \<lparr>tnst_ObservedGeneration = 0, tnst_Registered = False, tnst_NamespaceID = [], tnst_LastUpdated = None,
        tnst_Conditions = [], tnst_Replication = None\<rparr>\<rparr>"

definition sampleApi :: crd_api where
  "sampleApi =
     \<lparr>ca_kube = sampleKube, ca_meta = sampleMeta,
      ca_GetDevServer = (\<lambda>_ _ _. Inr sampleDev),
      ca_GetNamespace = (\<lambda>_ _ _. Inr sampleNamespace),
      ca_GetSearchAttribute = (\<lambda>_ _ n. Inl (ApiNotFound n)),
      ca_GetSchedule = (\<lambda>_ _ n. Inl (ApiNotFound n)),
      ca_GetWorkflowRun = (\<lambda>_ _ n. Inl (ApiNotFound n)),
      ca_GetClusterClient = (\<lambda>_ _ n. Inl (ApiNotFound n)),
      ca_GetConnection = (\<lambda>_ _ n. Inl (ApiNotFound n)),
      ca_Update = (\<lambda>_ _ _ _ _. None),
      ca_ContainsFinalizer = (\<lambda>m f. f \<in> set (om_Finalizers m)),
      ca_AddFinalizer = (\<lambda>m f. m \<lparr>om_Finalizers := List.insert f (om_Finalizers m)\<rparr>),
      ca_RemoveFinalizer = (\<lambda>m f. m \<lparr>om_Finalizers := removeAll f (om_Finalizers m)\<rparr>),
      ca_X509KeyPair = (\<lambda>crt key. Inr crt),
      ca_AppendCerts = (\<lambda>_. True)\<rparr>"

lemma sampleApi_laws: "finalizer_laws sampleApi"
  by (simp add: finalizer_laws_def sampleApi_def)

lemma resolve_sample:
  "run_state (resolveTarget sampleApi ns sampleRef) w =
     (Inr devTarget, w \<lparr>w_trace := w_trace w @ [CGet ''TemporalDevServer'' ns ''dev'']\<rparr>)"
proof -
  have ready: "isStatusConditionTrue sampleMeta (devst_Conditions (dev_Status sampleDev)) ConditionReady"
    by (simp add: sampleMeta_def sampleDev_def sampleCondition_def)
  have policy: "dev_WorkflowRunPolicy (dev_Spec sampleDev) = None" by (simp add: sampleDev_def)
  have api: "ca_GetDevServer sampleApi tr n m = Inr sampleDev" "ca_meta sampleApi = sampleMeta" for tr n m
    by (simp_all add: sampleApi_def)
  have ref: "cref_Name sampleRef = ''dev''" "cref_Kind sampleRef = ClusterKindTemporalDevServer" by (simp_all add: sampleRef_def)
  have kinds: "ClusterKindTemporalDevServer \<noteq> []" "ClusterKindTemporalDevServer \<noteq> ClusterKindTemporalCluster"
    by (simp_all add: ClusterKindTemporalDevServer_def ClusterKindTemporalCluster_def)
  show ?thesis
    by (simp add: resolveTarget_def ref kinds api ready policy devTarget_def effectiveWorkflowRunPolicy_def)
qed

section \<open>The frontend\<close>

text \<open>A store of namespaces; its listing of clusters comes in reverse, and it refuses some requests.\<close>

record nsEntry =
  ne_Description :: string
  ne_OwnerEmail :: string
  ne_Retention :: duration
  ne_IsGlobal :: bool
  ne_Active :: string
  ne_Clusters :: "string list"

type_synonym nsStore = "string \<rightharpoonup> nsEntry"

definition registerEntry :: "RegisterNamespaceRequest \<Rightarrow> nsEntry" where
  "registerEntry r =
     (let active = requested (rnr_ActiveClusterName r) ''east'' in
      \<lparr>ne_Description = rnr_Description r, ne_OwnerEmail = rnr_OwnerEmail r, ne_Retention = rnr_Retention r,
       ne_IsGlobal = rnr_IsGlobal r, ne_Active = active,
       ne_Clusters = (if rnr_Clusters r = [] then [active] else rnr_Clusters r)\<rparr>)"

definition acceptsUpdate :: "UpdateNamespaceRequest \<Rightarrow> nsEntry \<Rightarrow> bool" where
  "acceptsUpdate u e \<longleftrightarrow>
     (wantsActive u = [] \<or>
      (unr_UpdateInfo u = None \<and> unr_Retention u = None \<and> wantsClusters u = [] \<and> wantsActive u \<in> set (ne_Clusters e))) \<and>
     (wantsClusters u \<noteq> [] \<longrightarrow> ne_IsGlobal e)"

definition updateEntry :: "UpdateNamespaceRequest \<Rightarrow> nsEntry \<Rightarrow> nsEntry" where
  "updateEntry u e =
     e \<lparr>ne_Description := (case unr_UpdateInfo u of None \<Rightarrow> ne_Description e | Some (d, _) \<Rightarrow> requested d (ne_Description e)),
        ne_OwnerEmail := (case unr_UpdateInfo u of None \<Rightarrow> ne_OwnerEmail e | Some (_, m) \<Rightarrow> requested m (ne_OwnerEmail e)),
        ne_Retention := (case unr_Retention u of None \<Rightarrow> ne_Retention e | Some t \<Rightarrow> t),
        ne_Active := requested (wantsActive u) (ne_Active e),
        ne_Clusters := (if wantsClusters u = [] then ne_Clusters e else wantsClusters u)\<rparr>"

fun nsStep :: "string \<Rightarrow> call \<Rightarrow> nsStore \<Rightarrow> nsStore" where
  "nsStep addr (CTemporal a (RegisterNamespace r)) st =
     (if a = addr \<and> st (rnr_Namespace r) = None then st(rnr_Namespace r \<mapsto> registerEntry r) else st)"
| "nsStep addr (CTemporal a (UpdateNamespace u)) st =
     (case st (unr_Namespace u) of
        Some e \<Rightarrow> if a = addr \<and> acceptsUpdate u e then st(unr_Namespace u \<mapsto> updateEntry u e) else st
      | None \<Rightarrow> st)"
| "nsStep addr (CTemporal a (DeleteNamespace n)) st = (if a = addr then st(n := None) else st)"
| "nsStep addr _ st = st"

definition describeEntry :: "string \<Rightarrow> nsEntry \<Rightarrow> DescribeNamespaceResponse" where
  "describeEntry n e =
     \<lparr>dnr_NamespaceInfo = Some \<lparr>nip_Id = ''id-'' @ n, nip_Description = ne_Description e, nip_OwnerEmail = ne_OwnerEmail e\<rparr>,
      dnr_Retention = Some (ne_Retention e), dnr_IsGlobal = ne_IsGlobal e,
      dnr_ReplicationConfig = Some \<lparr>rcp_ActiveClusterName = ne_Active e, rcp_Clusters = rev (ne_Clusters e)\<rparr>\<rparr>"

text \<open>The namespace exists, active in the other cluster and with another description.\<close>

definition sampleNsStore :: nsStore where
  "sampleNsStore =
     [''orders'' \<mapsto> \<lparr>ne_Description = [], ne_OwnerEmail = [], ne_Retention = 0, ne_IsGlobal = True, ne_Active = ''east'',
        ne_Clusters = [''east'', ''west'']\<rparr>]"

definition nsState :: "string \<Rightarrow> call list \<Rightarrow> nsStore" where
  "nsState addr tr = fold (nsStep addr) tr sampleNsStore"

definition sampleRemote :: "string \<Rightarrow> ClusterMetadataProto" where
  "sampleRemote n =
     \<lparr>cmp_ClusterName = n, cmp_Address = n @ '':7233'', cmp_InitialFailoverVersion = 1, cmp_IsConnectionEnabled = True,
      cmp_HistoryShardCount = 512\<rparr>"

definition sampleServer :: frontend where
  "sampleServer =
     \<lparr>f_NewClient = (\<lambda>_ _ _. None),
      f_DescribeNamespace = (\<lambda>tr addr n. case nsState addr tr n of
        None \<Rightarrow> Inl (GrpcErr CodeNotFound n) | Some e \<Rightarrow> Inr (describeEntry n e)),
      f_RegisterNamespace = (\<lambda>tr addr r. if nsState addr tr (rnr_Namespace r) = None then None else Some (GrpcErr CodeUnknown [])),
      f_UpdateNamespace = (\<lambda>tr addr u. case nsState addr tr (unr_Namespace u) of
        None \<Rightarrow> Some (GrpcErr CodeNotFound (unr_Namespace u))
      | Some e \<Rightarrow> if acceptsUpdate u e then None else Some (GrpcErr CodeUnknown [])),
      f_DeleteNamespace = (\<lambda>_ _ _. None),
      f_ListSearchAttributes = (\<lambda>_ _ _. Inr Map.empty),
      f_AddSearchAttributes = (\<lambda>_ _ _ _ _. None),
      f_RemoveSearchAttributes = (\<lambda>_ _ _ _. None),
      f_ListClusters = (\<lambda>_ _ token.
        if token = [] then Inr \<lparr>lcr_Clusters = [sampleRemote ''east''], lcr_NextPageToken = ''2''\<rparr>
        else Inr \<lparr>lcr_Clusters = [sampleRemote ''north''], lcr_NextPageToken = []\<rparr>),
      f_AddOrUpdateRemoteCluster = (\<lambda>_ _ _ _. None),
      f_RemoveRemoteCluster = (\<lambda>_ _ _. None),
      f_DescribeSchedule = (\<lambda>_ _ _ n. Inl (GrpcErr CodeNotFound n)),
      f_CreateSchedule = (\<lambda>_ _ _ _ _. None),
      f_UpdateSchedule = (\<lambda>_ _ _ _ _. None),
      f_PatchSchedule = (\<lambda>_ _ _ _ _. None),
      f_DeleteSchedule = (\<lambda>_ _ _ _. None),
      f_StartWorkflow = (\<lambda>_ _ _. Inr ''run-1''),
      f_DescribeWorkflow = (\<lambda>_ _ _ _ _. Inr \<lparr>wip_Status = StatusRunning, wip_RunId = ''run-1'', wip_Type = [],
        wip_TaskQueue = [], wip_HistoryLength = 3, wip_StartTime = None, wip_CloseTime = None\<rparr>),
      f_GetHistory = (\<lambda>_ _ _ _ _. Inr []),
      f_CancelWorkflow = (\<lambda>_ _ _ _ _ _. None),
      f_TerminateWorkflow = (\<lambda>_ _ _ _ _ _. None)\<rparr>"

section \<open>Namespaces\<close>

definition sampleNamespaces :: TemporalNamespaceReconciler where
  "sampleNamespaces = \<lparr>nr_Client = sampleApi, nr_ClientFactory = None, nr_Frontend = sampleServer\<rparr>"

lemma entry_info [simp]:
  "namespaceInfoFromProto (describeEntry n e) =
     \<lparr>ni_ID = ''id-'' @ n, ni_Description = ne_Description e, ni_OwnerEmail = ne_OwnerEmail e, ni_RetentionPeriod = ne_Retention e,
      ni_IsGlobal = ne_IsGlobal e, ni_ActiveCluster = ne_Active e, ni_Clusters = rev (ne_Clusters e)\<rparr>"
  by (simp add: namespaceInfoFromProto_def describeEntry_def Let_def)

lemma nsState_snoc: "nsState addr (tr @ [c]) = nsStep addr c (nsState addr tr)"
  by (simp add: nsState_def)

lemma nsStep_quiet: "\<not> changesTemporal c \<Longrightarrow> nsStep addr c st = st"
  by (cases "(addr, c, st)" rule: nsStep.cases) auto

lemma sample_namespaceLaws: "namespaceLaws sampleServer addr"
  unfolding namespaceLaws_def
proof (intro conjI allI impI)
  fix tr r assume "f_RegisterNamespace sampleServer tr addr r = None"
  then have "nsState addr tr (rnr_Namespace r) = None" by (simp add: sampleServer_def split: if_splits)
  then show "\<exists>d. f_DescribeNamespace sampleServer (tr @ [CTemporal addr (RegisterNamespace r)]) addr (rnr_Namespace r) = Inr d \<and>
      registerShows r (namespaceInfoFromProto d)"
    by (simp add: sampleServer_def nsState_snoc registerShows_def registerEntry_def requested_def Let_def)
next
  fix tr u d assume "f_UpdateNamespace sampleServer tr addr u = None" "f_DescribeNamespace sampleServer tr addr (unr_Namespace u) = Inr d"
  then obtain e where "nsState addr tr (unr_Namespace u) = Some e" "acceptsUpdate u e" "d = describeEntry (unr_Namespace u) e"
    by (auto simp: sampleServer_def split: option.splits if_splits)
  then show "\<exists>d'. f_DescribeNamespace sampleServer (tr @ [CTemporal addr (UpdateNamespace u)]) addr (unr_Namespace u) = Inr d' \<and>
      updateShows u (namespaceInfoFromProto d) (namespaceInfoFromProto d')"
    by (simp add: sampleServer_def nsState_snoc updateShows_def updateEntry_def split: option.splits)
qed (simp add: sampleServer_def nsState_snoc nsStep_quiet)

lemma sample_live: "liveNamespace sampleNamespaces sampleNamespace devTarget"
  unfolding liveNamespace_def
  by (simp add: sampleNamespaces_def sampleNamespace_def isDeleting_def newMeta_def resolve_sample [simplified])
    (simp add: sampleApi_def sampleServer_def sampleKube_def devTarget_def sampleMeta_laws)


text \<open>The pass over the namespace is a failover, an update and reads; the failover is the one the spec asks for.\<close>

theorem namespace_pass_calls_witness:
  "\<exists>cs. w_trace (snd (run_state (ReconcileNamespace sampleNamespaces ''temporal'' ''orders'') sampleWorld)) = cs \<and>
    list_all (\<lambda>c. case c of CTemporal a r \<Rightarrow> namespaceRpcAllowed True sampleNamespace r | _ \<Rightarrow> True) cs"
proof -
  have "ca_GetNamespace (nr_Client sampleNamespaces) (w_trace sampleWorld) ''temporal'' ''orders'' = Inr sampleNamespace"
    "ca_ContainsFinalizer (nr_Client sampleNamespaces) (tn_Meta sampleNamespace) namespaceFinalizer"
    "nr_ClientFactory sampleNamespaces = None" "finalizer_laws (nr_Client sampleNamespaces)"
    using sampleApi_laws by (simp_all add: sampleNamespaces_def sampleApi_def sampleNamespace_def)
  from namespace_pass_calls [OF this(3,4,1) surjective_pairing] this(2)
  show ?thesis by (fastforce simp: list_all_iff sampleWorld_def split: call.split)
qed

section \<open>Workflow runs\<close>

definition sampleRun :: TemporalWorkflowRun where
  "sampleRun =
     \<lparr>wr_Meta = (newMeta ''import'' ''temporal'' Map.empty Map.empty) \<lparr>om_Finalizers := [workflowRunFinalizer]\<rparr>, wr_UID = ''uid-1'',
      wr_Spec = \<lparr>wrs_ClusterRef = sampleRef, wrs_Namespace = ''orders'',
        wrs_Workflow = \<lparr>swa_WorkflowType = ''Import'', swa_TaskQueue = ''q'', swa_WorkflowID = [], swa_Args = [''1''],
          swa_WorkflowExecutionTimeout = None, swa_WorkflowRunTimeout = None, swa_WorkflowTaskTimeout = None,
          swa_WorkflowIDReusePolicy = ''AllowDuplicate'', swa_RetryPolicy = None, swa_Memo = [], swa_SearchAttributes = []\<rparr>,
        wrs_TTLSecondsAfterFinished = Some 60, wrs_CancellationPolicy = CancellationPolicyAbandon\<rparr>,
      wr_Status = \<lparr>wrst_ObservedGeneration = 0, wrst_Phase = [], wrst_WorkflowID = [], wrst_RunID = [], wrst_WorkflowType = [],
        wrst_TaskQueue = [], wrst_StartTime = None, wrst_CloseTime = None, wrst_CompletionTime = None, wrst_HistoryLength = 0,
        wrst_Failure = None, wrst_Conditions = []\<rparr>\<rparr>"

definition sampleRuns :: TemporalWorkflowRunReconciler where
  "sampleRuns =
     \<lparr>wrr_Client = sampleApi, wrr_ClientFactory = None, wrr_Frontend = sampleServer, wrr_ParseFloat = (\<lambda>_. Inr (FloatFinite 2))\<rparr>"

definition sampleStart :: StartWorkflowRequest where
  "sampleStart = the (startRequest (wrr_ParseFloat sampleRuns) sampleRun)"

lemma sampleStart: "startRequest (wrr_ParseFloat sampleRuns) sampleRun = Some sampleStart" "swr_RequestId sampleStart = ''uid-1''"
  by (simp_all add: sampleStart_def startRequest_def workflowRunParams_def startParams_def retryParams_def sampleRun_def
      reusePolicies_def)

lemma sampleRun_fields:
  "om_Namespace (wr_Meta sampleRun) = ''temporal''" "wrs_ClusterRef (wr_Spec sampleRun) = sampleRef"
  "\<not> isDeleting (wr_Meta sampleRun)" "wrst_CompletionTime (wr_Status sampleRun) = None" "wrst_RunID (wr_Status sampleRun) = []"
  "ca_ContainsFinalizer sampleApi (wr_Meta sampleRun) workflowRunFinalizer"
  by (simp_all add: sampleRun_def newMeta_def isDeleting_def sampleApi_def)

lemma sampleRuns_fields:
  "wrr_Client sampleRuns = sampleApi" "wrr_ClientFactory sampleRuns = None" "wrr_Frontend sampleRuns = sampleServer"
  "k_StatusUpdate (ca_kube sampleApi) tr k n m = None" "f_NewClient sampleServer tr a t = None"
  "f_StartWorkflow sampleServer tr a q = Inr ''run-1''"
  by (simp_all add: sampleRuns_def sampleApi_def sampleKube_def sampleServer_def)

lemma sample_startRun:
  "\<exists>run1. run_state (startRun sampleRuns sampleRun (grpcWorkflowRunClient sampleServer a) (rt_WorkflowRunPolicy devTarget)) w =
     (Started run1, w \<lparr>w_trace := w_trace w @ [CTemporal a (StartWorkflowExecution sampleStart)]\<rparr>)"
proof -
  obtain p reuse where p: "workflowRunParams (wrr_ParseFloat sampleRuns) sampleRun = Inr p"
      "map_of reusePolicies (swp_IDReusePolicy p) = Some reuse"
      "sampleStart = \<lparr>swr_Namespace = wrs_Namespace (wr_Spec sampleRun), swr_RequestId = wr_UID sampleRun,
         swr_Workflow = newWorkflowProto reuse p\<rparr>"
    using sampleStart(1) by (auto simp: startRequest_def split: sum.splits)
  have policy: "checkWorkflowRunPolicy (rt_WorkflowRunPolicy devTarget) n q = None" for n q
    by (simp add: checkWorkflowRunPolicy_def devTarget_def)
  show ?thesis
    by (simp add: startRun_def sampleRun_fields policy p workflowClient_ops grpcWorkflowStart_def Let_def sampleRuns_fields)
qed

lemma bind_extends:
  assumes "run_state m w = (a, w1)" "w_trace w1 = tr @ cs" "emits (\<lambda>_. True) (f a)"
  shows "\<exists>r w' cs'. run_state (State_Monad.bind m f) w = (r, w') \<and> w_trace w' = tr @ cs @ cs'"
proof -
  obtain r w' where r: "run_state (f a) w1 = (r, w')" by fastforce
  with emits_trace [OF assms(3) r] assms(1,2) show ?thesis by auto
qed

lemma emits_any_observeRun: "emits (\<lambda>_. True) (observeRun R run (grpcWorkflowRunClient F a))"
  unfolding observeRun_def Let_def workflowClient_ops run_write_def
  by (intro emits_rules emits_grpcWorkflowDescribe emits_ttlCleanup) simp_all

lemma sample_run_pass:
  "\<exists>oc w' cs. run_state (reconcileWorkflowRun sampleRuns sampleRun) w = (oc, w') \<and> w_trace w' = w_trace w @ cs \<and>
     CTemporal (rt_Address devTarget) (StartWorkflowExecution sampleStart) \<in> set cs"
proof -
  let ?a = "rt_Address devTarget" let ?wc = "grpcWorkflowRunClient sampleServer ?a" let ?q = "CTemporal ?a (StartWorkflowExecution sampleStart)"
  let ?pre = "[CGet ''TemporalDevServer'' ''temporal'' ''dev'', CDial ?a]"
  let ?w1 = "w \<lparr>w_trace := w_trace w @ ?pre\<rparr>"
  let ?k = "\<lambda>s. case s of
          NotPermitted run1 \<Rightarrow> State_Monad.bind (run_write sampleRuns run1 (requeueAfter workflowRunPolicyRetry)) (\<lambda>oc. State_Monad.return (run1, oc))
        | InvalidParams run1 \<Rightarrow> State_Monad.bind (run_write sampleRuns run1 noResult) (\<lambda>oc. State_Monad.return (run1, oc))
        | StartFailed e \<Rightarrow> State_Monad.return (sampleRun, None, noResult, Some e)
        | Started run1 \<Rightarrow> observeRun sampleRuns run1 ?wc"
  obtain run1 w2 where start: "run_state (startRun sampleRuns sampleRun ?wc (rt_WorkflowRunPolicy devTarget)) ?w1 = (Started run1, w2)"
      "w_trace w2 = w_trace w @ (?pre @ [?q])"
    using sample_startRun [of ?a ?w1] by fastforce
  have rc: "reconcileRun sampleRuns sampleRun ?wc (rt_WorkflowRunPolicy devTarget) =
      State_Monad.bind (startRun sampleRuns sampleRun ?wc (rt_WorkflowRunPolicy devTarget)) ?k"
    by (simp add: reconcileRun_def sampleRun_fields)
  from bind_extends [OF start, where f = ?k]
  obtain r w3 cs where r: "run_state (reconcileRun sampleRuns sampleRun ?wc (rt_WorkflowRunPolicy devTarget)) ?w1 = (r, w3)"
      "w_trace w3 = w_trace w @ ((?pre @ [?q]) @ cs)"
    unfolding rc using emits_any_observeRun by fastforce
  obtain run2 acc res e where rr: "r = (run2, acc, res, e)" by (cases r)
  have "\<exists>oc w' cs'. run_state (run_reconcileLive sampleRuns sampleRun devTarget ?wc) ?w1 = (oc, w') \<and>
      w_trace w' = w_trace w @ ((?pre @ [?q]) @ cs) @ cs'"
    using r by (simp add: run_reconcileLive_def devTarget_def rr run_write_def writeStatus_def statusUpdate_def sampleRuns_fields)
  then obtain oc w' cs' where live: "run_state (run_reconcileLive sampleRuns sampleRun devTarget ?wc) ?w1 = (oc, w')"
      "w_trace w' = w_trace w @ ((?pre @ [?q]) @ cs) @ cs'" by blast
  have "run_state (reconcileWorkflowRun sampleRuns sampleRun) w = (oc, w')"
    using live(1) by (simp add: reconcileWorkflowRun_def sampleRun_fields sampleRuns_fields resolve_sample workflowRunClientFactory_def
      NewWorkflowRunClient_def dial_def)
  with live(2) show ?thesis by fastforce
qed


text \<open>The run as it was created, before its finalizer was added.\<close>

definition createdRun :: TemporalWorkflowRun where
  "createdRun = sampleRun \<lparr>wr_Meta := (wr_Meta sampleRun) \<lparr>om_Finalizers := []\<rparr>\<rparr>"

lemma sampleRun_life: "run_life (=) createdRun sampleRun"
proof -
  have "run_life (=) createdRun (createdRun \<lparr>wr_Meta := (wr_Meta createdRun)
      \<lparr>om_Finalizers := [workflowRunFinalizer], om_DeletionTimestamp := None\<rparr>\<rparr>)"
    by (rule run_life.meta [OF run_life.created])
  then show ?thesis by (simp add: createdRun_def sampleRun_def newMeta_def)
qed

theorem start_request_fixed_witness:
  "startRequest (wrr_ParseFloat sampleRuns) createdRun = Some sampleStart \<and> swr_RequestId sampleStart = wr_UID createdRun"
proof -
  obtain oc w' cs where run: "run_state (reconcileWorkflowRun sampleRuns sampleRun) sampleWorld = (oc, w')"
      "w_trace w' = w_trace sampleWorld @ cs" "CTemporal (rt_Address devTarget) (StartWorkflowExecution sampleStart) \<in> set cs"
    using sample_run_pass by blast
  have R: "wrr_ClientFactory sampleRuns = None" "finalizer_laws (wrr_Client sampleRuns)"
    using sampleApi_laws by (simp_all add: sampleRuns_fields)
  have "CTemporal (rt_Address devTarget) (StartWorkflowExecution sampleStart) \<in> set (drop (length (w_trace sampleWorld)) (w_trace w'))"
    using run(2,3) by simp
  from start_request_fixed [OF R _ sampleRun_life run(1) this] show ?thesis by simp
qed

definition finishedRun :: TemporalWorkflowRun where
  "finishedRun = sampleRun \<lparr>wr_Status := (wr_Status sampleRun) \<lparr>wrst_CompletionTime := Some (- seconds 20)\<rparr>\<rparr>"

theorem ttl_cleanup_bounds_witness:
  "res_RequeueAfter (fst (fst (run_state (ttlCleanup sampleRuns finishedRun) sampleWorld))) = seconds 40"
proof -
  obtain r e w' where run: "run_state (ttlCleanup sampleRuns finishedRun) sampleWorld = ((r, e), w')"
    by (cases "run_state (ttlCleanup sampleRuns finishedRun) sampleWorld") auto
  have now: "k_Now (ca_kube (wrr_Client sampleRuns)) tr = 0" for tr
    by (simp add: sampleRuns_def sampleApi_def sampleKube_def)
  have "wrs_TTLSecondsAfterFinished (wr_Spec finishedRun) = Some 60" "wrst_CompletionTime (wr_Status finishedRun) = Some (- seconds 20)"
    by (simp_all add: finishedRun_def sampleRun_def)
  from ttl_cleanup_bounds [OF this(1) _ _ this(2) _ run] show ?thesis
    by (simp add: run now seconds_def)
qed

section \<open>Cluster connections\<close>

definition sampleConnection :: TemporalClusterConnection where
  "sampleConnection =
     \<lparr>tcn_Meta = (newMeta ''mesh'' ''temporal'' Map.empty Map.empty) \<lparr>om_Finalizers := [clusterConnectionFinalizer]\<rparr>,
      tcn_Spec = \<lparr>tccs_Peers =
        [\<lparr>ccp_Name = ''east'', ccp_ClusterRef = Some sampleRef, ccp_FrontendAddress = [], ccp_TLSSecretRef = None,
          ccp_EnableConnection = None\<rparr>,
         \<lparr>ccp_Name = ''west'', ccp_ClusterRef = None, ccp_FrontendAddress = ''west:7233'', ccp_TLSSecretRef = None,
          ccp_EnableConnection = Some True\<rparr>]\<rparr>,
      tcn_Status = \<lparr>tcnst_ObservedGeneration = 0, tcnst_Peers = [], tcnst_Conditions = []\<rparr>\<rparr>"

definition sampleConnections :: TemporalClusterConnectionReconciler where
  "sampleConnections =
     \<lparr>ccr_Client = sampleApi, ccr_ClientFactory = None, ccr_Frontend = sampleServer, ccr_Pages = 10, ccr_Range = rev\<rparr>"

lemma sample_pages:
  "servesPages sampleServer addr [] [([], [sampleRemote ''east'']), (''2'', [sampleRemote ''north''])]"
  by (simp add: sampleServer_def)

theorem remote_listing_terminates_witness:
  "fst (run_state (grpcListRemoteClusters sampleServer 2 ''east:7233'') sampleWorld) =
     Inr (map remoteClusterInfoFromProto [sampleRemote ''east'', sampleRemote ''north''])"
  using remote_listing_terminates [OF sample_pages, of 2] by simp

definition deletedConnection :: TemporalClusterConnection where
  "deletedConnection = sampleConnection \<lparr>tcn_Meta := (tcn_Meta sampleConnection) \<lparr>om_DeletionTimestamp := Some 1\<rparr>\<rparr>"

theorem connection_deletion_unblocked_witness:
  "\<exists>m :: ObjectMeta. last (w_trace (snd (run_state (reconcileConnection sampleConnections deletedConnection) sampleWorld))) =
      CUpdate ''TemporalClusterConnection'' (om_Namespace m) (om_Name m) (om_Finalizers m) \<and> om_Finalizers m = []"
proof -
  obtain oc w' where oc: "run_state (reconcileConnection sampleConnections deletedConnection) sampleWorld = (oc, w')"
    by (rule prod.exhaust)
  obtain acc r e where "oc = (acc, r, e)" by (rule prod_cases3)
  with oc have run: "run_state (reconcileConnection sampleConnections deletedConnection) sampleWorld = ((acc, r, e), w')" by simp
  have "isDeleting (tcn_Meta deletedConnection)" "om_Finalizers (tcn_Meta deletedConnection) = [clusterConnectionFinalizer]"
    "ca_ContainsFinalizer (ccr_Client sampleConnections) (tcn_Meta deletedConnection) clusterConnectionFinalizer"
    "finalizer_laws (ccr_Client sampleConnections)"
    using sampleApi_laws by (simp_all add: sampleConnections_def deletedConnection_def sampleConnection_def isDeleting_def sampleApi_def)
  note facts = this
  from connection_deletion_unblocked [OF facts(1,3,4) run] obtain m where
    m: "last (w_trace w') = CUpdate ''TemporalClusterConnection'' (om_Namespace m) (om_Name m) (om_Finalizers m) \<and>
      clusterConnectionFinalizer \<notin> set (om_Finalizers m) \<and>
      m \<lparr>om_Finalizers := []\<rparr> = tcn_Meta deletedConnection \<lparr>om_Finalizers := []\<rparr> \<and>
      set (om_Finalizers m) = set (om_Finalizers (tcn_Meta deletedConnection)) - {clusterConnectionFinalizer}" ..
  then have "om_Finalizers m = []" by (simp add: facts(2))
  with conjunct1 [OF m] run show ?thesis by - (rule exI [of _ m], simp)
qed

definition peerEast :: resolvedPeer where
  "peerEast =
     \<lparr>rp_name = ''east'', rp_address = rt_Address devTarget, rp_tls = None, rp_local = True, rp_ready = True,
      rp_enable = True, rp_resolveErr = None\<rparr>"

definition peerWest :: resolvedPeer where
  "peerWest =
     \<lparr>rp_name = ''west'', rp_address = ''west:7233'', rp_tls = None, rp_local = False, rp_ready = True,
      rp_enable = True, rp_resolveErr = None\<rparr>"

lemma peer_fields:
  "rp_name peerEast = ''east''" "rp_local peerEast" "rp_ready peerEast" "rp_enable peerEast" "rp_address peerEast = rt_Address devTarget"
  "rp_name peerWest = ''west''" "\<not> rp_local peerWest" "rp_enable peerWest" "rp_address peerWest = ''west:7233''"
  by (simp_all add: peerEast_def peerWest_def)

lemma sample_peers:
  "run_state (resolvePeers sampleConnections (om_Namespace (tcn_Meta sampleConnection)) (tccs_Peers (tcn_Spec sampleConnection))) sampleWorld =
     ([peerEast, peerWest], sampleWorld \<lparr>w_trace := [CGet ''TemporalDevServer'' ''temporal'' ''dev'']\<rparr>)"
proof -
  have c: "ccr_Client sampleConnections = sampleApi" by (simp add: sampleConnections_def)
  have t: "rt_TLSConfig devTarget = None" "rt_Ready devTarget" by (simp_all add: devTarget_def)
  have w: "w_trace sampleWorld = []" by (simp add: sampleWorld_def)
  show ?thesis
    by (simp add: sampleConnection_def newMeta_def resolvePeer_def unresolvedPeer_def Let_def c t w resolve_sample
        peerEast_def peerWest_def)
qed

lemma devTarget_address: "rt_Address devTarget \<noteq> []"
  by (simp add: devTarget_def DevServerFrontendEndpoint_def devServerEndpoint_def)

lemma sample_dial:
  "\<exists>l w'. run_state (dialLocals sampleConnections [peerEast, peerWest] []) w = ([(''east'', l)], w') \<and>
     lp_peer l = peerEast \<and> lp_remotes l ''west'' = None \<and> rcc_Upsert (lp_client l) = grpcUpsertRemoteCluster sampleServer (rt_Address devTarget)"
proof -
  have R: "ccr_ClientFactory sampleConnections = None" "ccr_Frontend sampleConnections = sampleServer" "ccr_Pages sampleConnections = 10"
    "f_NewClient sampleServer tr a t = None" for tr a t
    by (simp_all add: sampleConnections_def sampleServer_def)
  have pages: "run_state (grpcListRemoteClusters sampleServer 10 addr) w =
      (Inr (map remoteClusterInfoFromProto [sampleRemote ''east'', sampleRemote ''north'']),
       w \<lparr>w_trace := w_trace w @ [CTemporal addr (ListClusters []), CTemporal addr (ListClusters ''2'')]\<rparr>)" for addr w
    using listPages_served [OF sample_pages, of 10] by (simp add: grpcListRemoteClusters_def)
  show ?thesis
    by (simp add: dialLocal_def peer_fields devTarget_address remoteClusterClientFactory_def R NewRemoteClusterClient_def NewNamespaceClient_def dial_def pages
        remotesOf_def remoteClusterInfoFromProto_def sampleRemote_def)
qed

lemma sample_upsert:
  assumes "lp_remotes l ''west'' = None" "rcc_Upsert (lp_client l) = grpcUpsertRemoteCluster sampleServer a"
  shows "\<exists>l' w'. run_state (upsertRemotes [peerEast, peerWest] [(''east'', l)]) w = ([(''east'', l')], w') \<and>
    lp_peer l' = lp_peer l \<and> enabledIn l' ''west''"
proof -
  have up: "f_AddOrUpdateRemoteCluster sampleServer tr a n b = None" for tr a n b by (simp add: sampleServer_def)
  show ?thesis
    by (simp add: upsertRemote_def peer_fields assms grpcUpsertRemoteCluster_def up enabledIn_def)
qed

lemma sample_verdict:
  assumes "lp_peer l = peerEast" "enabledIn l ''west''"
  shows "pv_allReady (buildStatuses [peerEast, peerWest] [(''east'', l)] (computeReachable [peerEast, peerWest] [(''east'', l)]))"
  using assms
  by (simp add: buildStatuses_def computeReachable_def peerStatus_def peerReachable_def peerConnected_def peer_fields Let_def
      enabledIn_def split: option.splits)

lemma sample_mesh:
  "\<exists>v w2. run_state (reconcilePeers sampleConnections [peerEast, peerWest]) w = (v, w2) \<and> pv_allReady v"
proof -
  obtain l w' where l: "run_state (dialLocals sampleConnections [peerEast, peerWest] []) w = ([(''east'', l)], w')"
      "lp_peer l = peerEast" "lp_remotes l ''west'' = None" "rcc_Upsert (lp_client l) = grpcUpsertRemoteCluster sampleServer (rt_Address devTarget)"
    using sample_dial by metis
  obtain l' w2 where l': "run_state (upsertRemotes [peerEast, peerWest] [(''east'', l)]) w' = ([(''east'', l')], w2)"
      "lp_peer l' = lp_peer l" "enabledIn l' ''west''"
    using sample_upsert [OF l(3,4)] by metis
  have "ccr_Range sampleConnections [(''east'', l)] = [(''east'', l)]" by (simp add: sampleConnections_def)
  then show ?thesis
    using l(1) l'(1) sample_verdict [of l'] l(2) l'(2,3) unfolding reconcilePeers_def by (simp del: dialLocals.simps upsertRemotes.simps)
qed


section \<open>Schedules\<close>

definition sampleSchedule :: TemporalSchedule where
  "sampleSchedule =
     \<lparr>tsc_Meta = newMeta ''nightly'' ''temporal'' Map.empty Map.empty,
      tsc_Spec = \<lparr>tss_ClusterRef = sampleRef, tss_Namespace = ''orders'', tss_ScheduleID = [], tss_AllowDeletion = False,
        tss_Schedule = \<lparr>sch_Calendars = [''@daily''], sch_Intervals = [], sch_StructuredCalendar = [],
          sch_ExcludeStructuredCalendar = [], sch_StartTime = None, sch_EndTime = None, sch_Jitter = None, sch_TimezoneName = []\<rparr>,
        tss_Action = \<lparr>sas_StartWorkflow = (wrs_Workflow (wr_Spec sampleRun)) \<lparr>swa_RetryPolicy := Some
          \<lparr>rps_InitialInterval = None, rps_BackoffCoefficient = ''2'', rps_MaximumInterval = None, rps_MaximumAttempts = 3,
           rps_NonRetryableErrorTypes = []\<rparr>\<rparr>\<rparr>,
        tss_Policies = None, tss_State = None\<rparr>,
      tsc_Status = \<lparr>tsst_ObservedGeneration = 0, tsst_ScheduleID = [], tsst_Created = False, tsst_Paused = False, tsst_Notes = [],
        tsst_LastAppliedSpecHash = [], tsst_NextActionTimes = [], tsst_RunningWorkflows = 0, tsst_LastUpdated = None,
        tsst_Conditions = []\<rparr>\<rparr>"


text \<open>A schedule whose backoff coefficient does not parse to a number.\<close>

definition nanSchedules :: TemporalScheduleReconciler where
  "nanSchedules =
     \<lparr>scr_Client = sampleApi, scr_ClientFactory = None, scr_Frontend = sampleServer,
      scr_ParseFloat = (\<lambda>s. Inr (if s = ''NaN'' then FloatNaN else FloatFinite 2)), scr_Marshal = (\<lambda>_. [])\<rparr>"

definition nanRetry :: RetryPolicySpec where
  "nanRetry =
     \<lparr>rps_InitialInterval = None, rps_BackoffCoefficient = ''NaN'', rps_MaximumInterval = None, rps_MaximumAttempts = 3,
      rps_NonRetryableErrorTypes = []\<rparr>"

definition nanSchedule :: TemporalSchedule where
  "nanSchedule = sampleSchedule \<lparr>tsc_Spec := (tsc_Spec sampleSchedule) \<lparr>tss_Action := \<lparr>sas_StartWorkflow =
     (wrs_Workflow (wr_Spec sampleRun)) \<lparr>swa_RetryPolicy := Some nanRetry\<rparr>\<rparr>\<rparr>\<rparr>"


section \<open>The inspector\<close>

definition sampleInspector :: InspectorJobParams where
  "sampleInspector =
     \<lparr>ijp_Cluster = sampleCluster, ijp_Store = StoreDefault,
      ijp_SQLSpec = sampleSQL \<lparr>sql_TLS := Some \<lparr>dtls_Enabled = True, dtls_CASecretRef = None, dtls_CertSecretRef = None,
        dtls_KeySecretRef = None, dtls_EnableHostVerification = True, dtls_ServerName = []\<rparr>\<rparr>,
      ijp_OperatorImage = ''operator''\<rparr>"

definition sampleIdentity :: AzureWorkloadIdentitySpec where
  "sampleIdentity =
     \<lparr>azwi_ClientID = ''id'', azwi_Scope = [], azwi_ServiceAccountName = [], azwi_Image = ''azure'', azwi_RefreshInterval = None\<rparr>"

theorem inspector_inspects_the_store_witness:
  "\<exists>c args. pod_Containers (pt_Spec (job_Template (BuildInspectorJob sampleInspector sampleIdentity))) = [c] \<and>
     ct_Args c = ''inspect'' # args \<and>
     runInspect atoi (\<lambda>_. Inr ''token'') (sampleDrivers ''1.18'') args = do {
       res \<leftarrow> InspectSQL (sampleDrivers ''1.18'') (unverified (ijp_SQLSpec sampleInspector)) (trimSpace ''token'')
                (sql_Database (ijp_SQLSpec sampleInspector));
       State_Monad.return (0, Some res)
     } \<and>
     BuildPostgresDSN (unverified (ijp_SQLSpec sampleInspector)) (trimSpace ''token'') (sql_Database (ijp_SQLSpec sampleInspector)) \<noteq>
     BuildPostgresDSN (ijp_SQLSpec sampleInspector) (trimSpace ''token'') (sql_Database (ijp_SQLSpec sampleInspector))"
proof -
  have ints: "parsesDecimals atoi" by (simp add: parsesDecimals_def atoi_itoa)
  have port: "- (2 ^ 31) \<le> sql_Port (ijp_SQLSpec sampleInspector)" "sql_Port (ijp_SQLSpec sampleInspector) < 2 ^ 31"
    and host: "verifiesHost (ijp_SQLSpec sampleInspector)"
    by (simp_all add: sampleInspector_def sampleSQL_def verifiesHost_def)
  show ?thesis
    using inspector_inspects_the_store [OF ints _ port, of "\<lambda>_. Inr ''token''" "''token''" sampleIdentity "sampleDrivers ''1.18''"] host
    by auto
qed

end
