(* ===== verification/Sample_Preview.thy ===== *)
theory Sample_Preview
  imports Preview Sample_Builders Admitted_Clusters
begin

text \<open>The preview of the sample cluster.\<close>

definition previewed :: TemporalCluster where
  "previewed = Default sampleCluster"

lemma previewed_spec:
  "spec_Persistence (tc_Spec previewed) = samplePersistence" "spec_MTLS (tc_Spec previewed) = None"
  "spec_DynamicConfig (tc_Spec previewed) = None" "spec_UI (tc_Spec previewed) = None"
  by (simp_all add: previewed_def Default_def Let_def sampleCluster_def sampleSpec_def defaultMTLS_def defaultUI_def)

lemma previewed_job: "\<exists>j. planSchemaJob sampleLibs previewed name sampleStore = Inr j"
  by (simp add: planSchemaJob_def BuildSchemaJob_def schemaContainerExec_def schemaToolArgs_def sqlToolArgs_def
      passwordEnv_def isCassandra_def applyPodTemplate_def bindR_def Let_def sampleStore_def sampleSQL_def
      previewed_spec samplePersistence_def)

lemma previewed_services: "\<exists>ps. PlanServices sampleLibs previewed inp = Inr ps"
proof -
  have "\<exists>ps. planService sampleLibs previewed inp svc = Inr ps" if "ownOverride svc = None" for svc
    using that
    by (simp add: planService_def bindR_def BuildDeployment_def applyPodTemplate_def sharedOverride_def Let_def
        previewed_def Default_def defaultServicesSpec_def sampleCluster_def sampleSpec_def sampleServices_def)
  moreover have "\<forall>svc \<in> set (EnabledServices previewed). ownOverride svc = None"
    by (simp add: EnabledServices_def mkInfo_def ownOverride_def Let_def previewed_def Default_def defaultServicesSpec_def
        defaultReplicas_def zeroServiceSpec_def sampleCluster_def sampleSpec_def sampleServices_def)
  ultimately obtain ps where "planServiceList sampleLibs previewed inp (EnabledServices previewed) = Inr ps"
    using planServiceList_ok by blast
  then show ?thesis by (simp add: PlanServices_def bindR_def)
qed

lemma previewed_plan: "\<exists>ps. PlanFromSpec sampleLibs previewed = Inr ps"
proof -
  have off: "\<not> MTLSEnabled previewed" by (simp add: MTLSEnabled_def previewed_spec)
  have cfg: "\<exists>s. RenderClusterConfig (pl_render sampleLibs) (pl_yamlAny sampleLibs) previewed opts = Inr s" for opts
    by (simp add: RenderClusterConfig_def BuildConfigData_def bindR_def Let_def buildDatastore_def buildAuth_def previewed_def
        Default_def sample_defs)
  obtain jobs where jobs: "PlanSchemaJobs sampleLibs previewed = Inr jobs"
    using previewed_job [of StoreDefault] previewed_job [of StoreVisibility]
    by (auto simp: PlanSchemaJobs_def previewed_spec samplePersistence_def Let_def bindR_def)
  have svcs: "PlanServices sampleLibs previewed inp = Inl e \<Longrightarrow> False" for inp e
    using previewed_services [of inp] by auto
  show ?thesis
    using cfg [of "emptyOptions \<lparr>bo_PublicClientHostPort := frontendHostPort previewed\<rparr>"]
    by (auto simp: PlanFromSpec_def RenderDynamicConfig_def previewed_spec jobs PlanMTLS_def off PlanUI_def Let_def bindR_def
        split: sum.splits dest: svcs)
qed

lemma renderPlan_total: "\<exists>rs. renderPlan (\<lambda>_. Inr y) planned objs = PreviewOk rs"
  by (induction planned arbitrary: objs) (simp_all add: renderObject_def)

theorem preview_shows_admitted_plan_witness:
  "\<exists>rs. previewTemporalCluster (\<lambda>_. [Inr (''ConfigMap'', elasticCluster), Inr (''TemporalCluster'', sampleCluster)])
      (\<lambda>_. Inr ''yaml'') sampleLibs ''manifest'' = PreviewOk rs \<and>
    distinct (map (\<lambda>r. (pr_Kind r, pr_Namespace r, pr_Name r)) rs)"
proof -
  let ?dec = "\<lambda>_. [Inr (''ConfigMap'', elasticCluster), Inr (''TemporalCluster'', sampleCluster)]"
  have dec: "decodeTemporalCluster ?dec ''manifest'' = Inr sampleCluster"
    by (simp add: decodeTemporalCluster_def trimSpace_def isSpace_def)
  have ns: "withNamespace sampleCluster = sampleCluster" by (simp add: withNamespace_def sampleCluster_def newMeta_def)
  have valid: "ValidateCreate sampleLibs previewed = []"
    using sample_steps(3)
    by (simp add: ValidateCreate_def validateSpec_def validateVersion_def validatePersistence_def validateMTLS_def
        validateDynamicConfig_def validateClusterMetadata_def validateUIAuth_def visBackends_def previewed_def Default_def
        defaultMTLS_def defaultUI_def Let_def sampleCluster_def sampleSpec_def samplePersistence_def sampleStore_def)
  obtain ps where ps: "PlanFromSpec sampleLibs previewed = Inr ps" using previewed_plan by blast
  obtain rs where "renderPlan (\<lambda>_. Inr ''yaml'') ps [] = PreviewOk rs" using renderPlan_total by blast
  then have run: "previewTemporalCluster ?dec (\<lambda>_. Inr ''yaml'') sampleLibs ''manifest'' = PreviewOk rs"
    using ps valid by (simp add: previewTemporalCluster_def dec ns previewed_def [symmetric])
  from preview_shows_admitted_plan [OF run] run show ?thesis by blast
qed

end
