(* ===== verification/Operator_Ui.thy ===== *)
theory Operator_Ui
  imports Satellite_Types Resources
begin

text \<open>
  The read-only operator UI (\<^verbatim>\<open>src/internal/ui\<close>): its options, the identity taken from forward-auth
  headers, the mapping of clusters and satellites to view models and the cached data source.  The pages
  are in \<open>Dashboard_Pages\<close>, the routes and handlers in \<open>Dashboard_Server\<close>.
\<close>

section \<open>View models (model/model.go)\<close>

datatype BadgeState = BadgeOK | BadgeWarn | BadgeError | BadgePending | BadgeUnknown

record ClusterSummary =
  cs_Namespace :: string
  cs_Name :: string
  cs_Version :: string
  cs_Shards :: int
  cs_Phase :: string
  cs_Ready :: BadgeState
  cs_Persistence :: BadgeState
  cs_MTLSEnabled :: bool
  cs_MTLS :: BadgeState
  cs_Upgrading :: bool
  cs_Age :: string

record ServiceRow =
  row_Name :: string
  row_Ready :: int
  row_Desired :: int
  row_Version :: string
  row_State :: BadgeState

record ConditionRow =
  crow_Type :: string
  crow_Status :: ConditionStatus
  crow_Reason :: string
  crow_Message :: string
  crow_State :: BadgeState

record PersistenceInfo =
  pi_Reachable :: BadgeState
  pi_SchemaReady :: BadgeState

record EndpointsInfo =
  ei_Frontend :: string
  ei_UI :: string
  ei_Metrics :: string

definition HasAny :: "EndpointsInfo \<Rightarrow> bool" where
  "HasAny e = (ei_Frontend e \<noteq> [] \<or> ei_UI e \<noteq> [] \<or> ei_Metrics e \<noteq> [])"

record UpgradeInfo =
  ui_Active :: bool
  ui_FromVersion :: string
  ui_ToVersion :: string
  ui_Phase :: string
  ui_Rollbackable :: bool

record RelatedResource =
  rr_Kind :: string
  rr_Name :: string
  rr_Ready :: BadgeState
  rr_Detail :: string

record ClusterDetail =
  cd_Summary :: ClusterSummary
  cd_Conditions :: "ConditionRow list"
  cd_Services :: "ServiceRow list"
  cd_Persistence :: PersistenceInfo
  cd_Endpoints :: EndpointsInfo
  cd_Upgrade :: UpgradeInfo
  cd_Related :: "RelatedResource list"

definition JoinPath :: "string \<Rightarrow> string \<Rightarrow> string" where
  "JoinPath basePath sub = (if basePath = [] \<or> basePath = ''/'' then sub else basePath @ sub)"

section \<open>Mapping (mapping.go)\<close>

definition serviceOrder :: "string list" where
  "serviceOrder = [''frontend'', ''history'', ''matching'', ''worker'', ''internal-frontend'']"

fun findCondition :: "Condition list \<Rightarrow> string \<Rightarrow> Condition option" where
  "findCondition [] condType = None"
| "findCondition (c # conds) condType = (if c_Type c = condType then Some c else findCondition conds condType)"

definition badgeForCondition :: "Condition list \<Rightarrow> string \<Rightarrow> BadgeState" where
  "badgeForCondition conds condType =
     (case findCondition conds condType of
        None \<Rightarrow> BadgeUnknown
      | Some c \<Rightarrow>
          (case c_Status c of ConditionTrue \<Rightarrow> BadgeOK | ConditionFalse \<Rightarrow> BadgeError | _ \<Rightarrow> BadgePending))"

text \<open>
  The age of an object.  The source divides in \<^verbatim>\<open>float64\<close> and truncates; the quotient here is exact, which
  differs at most within a nanosecond of a whole day.
\<close>

definition durationText :: "duration \<Rightarrow> string" where
  "durationText d =
     (let minute = 60 * 1000000000; hour = 60 * minute; day = 24 * hour in
      if d < minute then ''<1m''
      else if d < hour then itoa (d div minute) @ ''m''
      else if d < day then itoa (d div hour) @ ''h''
      else itoa (d div day) @ ''d'')"

definition age :: "gotime \<Rightarrow> gotime option \<Rightarrow> string" where
  "age now t = (case t of None \<Rightarrow> [] | Some s \<Rightarrow> durationText (now - s))"

definition mtlsBadge :: "TemporalCluster \<Rightarrow> BadgeState" where
  "mtlsBadge c =
     (if spec_MTLS (tc_Spec c) = None then BadgeUnknown
      else badgeForCondition (st_Conditions (tc_Status c)) ConditionMTLSReady)"

text \<open>The creation timestamp is passed beside the cluster.\<close>

definition SummaryFromCluster :: "gotime \<Rightarrow> gotime option \<Rightarrow> TemporalCluster \<Rightarrow> ClusterSummary" where
  "SummaryFromCluster now created c =
     \<lparr>cs_Namespace = tc_Namespace c, cs_Name = tc_Name c, cs_Version = spec_Version (tc_Spec c),
      cs_Shards = spec_NumHistoryShards (tc_Spec c), cs_Phase = st_Phase (tc_Status c),
      cs_Ready = badgeForCondition (st_Conditions (tc_Status c)) ConditionReady,
      cs_Persistence = badgeForCondition (st_Conditions (tc_Status c)) ConditionPersistenceReachable,
      cs_MTLSEnabled = (spec_MTLS (tc_Spec c) \<noteq> None), cs_MTLS = mtlsBadge c,
      cs_Upgrading = (st_Upgrade (tc_Status c) \<noteq> None), cs_Age = age now created\<rparr>"

definition serviceState :: "ServiceStatus \<Rightarrow> BadgeState" where
  "serviceState st =
     (if sst_Desired st = 0 then BadgeUnknown
      else if sst_Ready st = 0 then BadgeError
      else if sst_Ready st < sst_Desired st then BadgeWarn
      else BadgeOK)"

definition serviceRows :: "TemporalCluster \<Rightarrow> ServiceRow list" where
  "serviceRows c =
     List.map_filter (\<lambda>name.
       map_option (\<lambda>st. \<lparr>row_Name = name, row_Ready = sst_Ready st, row_Desired = sst_Desired st,
                         row_Version = sst_Version st, row_State = serviceState st\<rparr>)
         (st_Services (tc_Status c) name)) serviceOrder"

definition conditionRows :: "Condition list \<Rightarrow> ConditionRow list" where
  "conditionRows conds =
     map (\<lambda>c. \<lparr>crow_Type = c_Type c, crow_Status = c_Status c, crow_Reason = c_Reason c, crow_Message = c_Message c,
               crow_State = badgeForCondition conds (c_Type c)\<rparr>) conds"

definition upgradeInfo :: "TemporalCluster \<Rightarrow> UpgradeInfo" where
  "upgradeInfo c =
     (case st_Upgrade (tc_Status c) of
        None \<Rightarrow> \<lparr>ui_Active = False, ui_FromVersion = [], ui_ToVersion = [], ui_Phase = [], ui_Rollbackable = False\<rparr>
      | Some u \<Rightarrow> \<lparr>ui_Active = True, ui_FromVersion = us_FromVersion u, ui_ToVersion = us_ToVersion u,
                   ui_Phase = us_Phase u, ui_Rollbackable = us_Rollbackable u\<rparr>)"

definition persistenceInfo :: "TemporalCluster \<Rightarrow> PersistenceInfo" where
  "persistenceInfo c =
     \<lparr>pi_Reachable = badgeForCondition (st_Conditions (tc_Status c)) ConditionPersistenceReachable,
      pi_SchemaReady = badgeForCondition (st_Conditions (tc_Status c)) ConditionSchemaReady\<rparr>"

definition endpointsInfo :: "TemporalCluster \<Rightarrow> EndpointsInfo" where
  "endpointsInfo c =
     (let e = st_Endpoints (tc_Status c) in
      \<lparr>ei_Frontend = ep_Frontend e, ei_UI = ep_UI e, ei_Metrics = ep_Metrics e\<rparr>)"

definition refersToCluster :: "ClusterReference \<Rightarrow> string \<Rightarrow> bool" where
  "refersToCluster ref cluster =
     (if cref_Name ref \<noteq> cluster then False
      else cref_Kind ref = [] \<or> cref_Kind ref = ClusterKindTemporalCluster)"

definition relatedNamespaces :: "TemporalNamespace list \<Rightarrow> string \<Rightarrow> RelatedResource list" where
  "relatedNamespaces items cluster =
     map (\<lambda>n. \<lparr>rr_Kind = ''TemporalNamespace'', rr_Name = om_Name (tn_Meta n),
               rr_Ready = badgeForCondition (tnst_Conditions (tn_Status n)) ConditionReady,
               rr_Detail = (if tnst_Registered (tn_Status n) then ''registered'' else [])\<rparr>)
       (filter (\<lambda>n. refersToCluster (tns_ClusterRef (tn_Spec n)) cluster) items)"

definition relatedClients :: "TemporalClusterClient list \<Rightarrow> string \<Rightarrow> RelatedResource list" where
  "relatedClients items cluster =
     map (\<lambda>c. \<lparr>rr_Kind = ''TemporalClusterClient'', rr_Name = om_Name (tcc_Meta c),
               rr_Ready = badgeForCondition (tccst_Conditions (tcc_Status c)) ConditionReady,
               rr_Detail = (case tccst_SecretRef (tcc_Status c) of None \<Rightarrow> [] | Some s \<Rightarrow> ''secret: '' @ s)\<rparr>)
       (filter (\<lambda>c. refersToCluster (tcc_ClusterRef (tcc_Spec c)) cluster) items)"

definition relatedSearchAttributes :: "TemporalSearchAttribute list \<Rightarrow> string \<Rightarrow> RelatedResource list" where
  "relatedSearchAttributes items cluster =
     map (\<lambda>s. \<lparr>rr_Kind = ''TemporalSearchAttribute'', rr_Name = om_Name (sa_Object s),
               rr_Ready = badgeForCondition (tsast_Conditions (sa_Status s)) ConditionReady, rr_Detail = []\<rparr>)
       (filter (\<lambda>s. refersToCluster (tsa_ClusterRef (sa_Spec s)) cluster) items)"

section \<open>The data source (datasource.go)\<close>

definition summaryLess :: "ClusterSummary \<Rightarrow> ClusterSummary \<Rightarrow> bool" where
  "summaryLess a b =
     (if cs_Namespace a \<noteq> cs_Namespace b then cs_Namespace a < cs_Namespace b else cs_Name a < cs_Name b)"

text \<open>What the cached reader answers: clusters with their creation timestamps, and the satellites of a namespace.\<close>

record reader =
  rd_ListClusters :: "(gotime option \<times> TemporalCluster) list result"
  rd_GetCluster :: "string \<Rightarrow> string \<Rightarrow> (gotime option \<times> TemporalCluster) result"
  rd_ListNamespaces :: "string \<Rightarrow> TemporalNamespace list result"
  rd_ListClients :: "string \<Rightarrow> TemporalClusterClient list result"
  rd_ListAttributes :: "string \<Rightarrow> TemporalSearchAttribute list result"

definition ui_ListClusters :: "reader \<Rightarrow> gotime \<Rightarrow> ClusterSummary list result" where
  "ui_ListClusters d now =
     bindR (rd_ListClusters d) (\<lambda>items.
       Inr (sortSlice summaryLess (map (\<lambda>(created, c). SummaryFromCluster now created c) items)))"

definition ui_GetCluster :: "reader \<Rightarrow> gotime \<Rightarrow> string \<Rightarrow> string \<Rightarrow> ClusterDetail result" where
  "ui_GetCluster d now nsn name =
     bindR (rd_GetCluster d nsn name) (\<lambda>(created, c).
     bindR (rd_ListNamespaces d nsn) (\<lambda>namespaces.
     bindR (rd_ListClients d nsn) (\<lambda>clients.
     bindR (rd_ListAttributes d nsn) (\<lambda>attrs.
       Inr \<lparr>cd_Summary = SummaryFromCluster now created c,
            cd_Conditions = conditionRows (st_Conditions (tc_Status c)), cd_Services = serviceRows c,
            cd_Persistence = persistenceInfo c, cd_Endpoints = endpointsInfo c, cd_Upgrade = upgradeInfo c,
            cd_Related = relatedNamespaces namespaces name @ relatedClients clients name @
              relatedSearchAttributes attrs name\<rparr>))))"

section \<open>Options and identity (config.go, identity.go)\<close>

record UiOptions =
  uo_BindAddress :: string
  uo_RefreshInterval :: duration
  uo_BasePath :: string
  uo_RequireAuth :: bool
  uo_UserHeader :: string
  uo_GroupsHeader :: string
  uo_EmailHeader :: string

definition DefaultOptions :: UiOptions where
  "DefaultOptions =
     \<lparr>uo_BindAddress = '':8082'', uo_RefreshInterval = 5 * 1000000000, uo_BasePath = ''/'', uo_RequireAuth = False,
      uo_UserHeader = ''Remote-User'', uo_GroupsHeader = ''Remote-Groups'', uo_EmailHeader = ''Remote-Email''\<rparr>"

definition ui_Enabled :: "UiOptions \<Rightarrow> bool" where
  "ui_Enabled o' = (uo_BindAddress o' \<noteq> [])"

definition trimSlashes :: "string \<Rightarrow> string" where
  "trimSlashes s = rev (dropWhile (\<lambda>c. c = CHR ''/'') (rev (dropWhile (\<lambda>c. c = CHR ''/'') s)))"

definition Normalize :: "UiOptions \<Rightarrow> UiOptions" where
  "Normalize o' =
     (let d = DefaultOptions;
          refresh = (if uo_RefreshInterval o' \<le> 0 then uo_RefreshInterval d else uo_RefreshInterval o');
          base = (if uo_BasePath o' = [] then ''/'' else uo_BasePath o')
      in o' \<lparr>uo_RefreshInterval := (if refresh < 1000000000 then 1000000000 else refresh),
             uo_UserHeader := (if uo_UserHeader o' = [] then uo_UserHeader d else uo_UserHeader o'),
             uo_GroupsHeader := (if uo_GroupsHeader o' = [] then uo_GroupsHeader d else uo_GroupsHeader o'),
             uo_EmailHeader := (if uo_EmailHeader o' = [] then uo_EmailHeader d else uo_EmailHeader o'),
             uo_BasePath := (if base \<noteq> ''/'' then ''/'' @ trimSlashes base else base)\<rparr>)"

record Identity =
  id_User :: string
  id_Email :: string
  id_Groups :: "string list"
  id_Authenticated :: bool

text \<open>A request: its method, the path of its URL as it was sent, the query, and \<^verbatim>\<open>Header.Get\<close>.\<close>

record request =
  rq_Method :: string
  rq_EscapedPath :: string
  rq_RawQuery :: string
  rq_Header :: "string \<Rightarrow> string"

definition IdentityFrom :: "UiOptions \<Rightarrow> request \<Rightarrow> Identity" where
  "IdentityFrom opts r =
     (let o' = Normalize opts; user = trimSpace (rq_Header r (uo_UserHeader o')); g = rq_Header r (uo_GroupsHeader o') in
      \<lparr>id_User = user, id_Email = trimSpace (rq_Header r (uo_EmailHeader o')),
       id_Groups = (if g \<noteq> [] then filter (\<lambda>p. p \<noteq> []) (map trimSpace (split_on (CHR '','') g)) else []),
       id_Authenticated = (user \<noteq> [])\<rparr>)"

end
