(* ===== verification/Search_Attribute_Controller.thy ===== *)
theory Search_Attribute_Controller
  imports Targets
begin

text \<open>
  The controller of TemporalSearchAttributes
  (\<^verbatim>\<open>src/internal/controller/temporalsearchattribute_controller.go\<close>): a custom search attribute is added
  when the frontend does not list it, and removed with the object when the spec allows it.
\<close>

record TemporalSearchAttributeReconciler =
  sr_Client :: crd_api
  sr_ClientFactory :: "(string \<Rightarrow> TlsConfig option \<Rightarrow> SearchAttributeClient result act) option"
  sr_Frontend :: frontend

definition searchAttributeFinalizer :: string where
  "searchAttributeFinalizer = ''temporal.bmor10.com/search-attribute''"

definition searchAttributeClientFactory ::
  "TemporalSearchAttributeReconciler \<Rightarrow> string \<Rightarrow> TlsConfig option \<Rightarrow> SearchAttributeClient result act" where
  "searchAttributeClientFactory R =
     (case sr_ClientFactory R of Some f \<Rightarrow> f | None \<Rightarrow> NewSearchAttributeClient (sr_Frontend R))"

section \<open>Registration\<close>

definition attributeVisible :: "SearchAttributeClient \<Rightarrow> TemporalSearchAttribute \<Rightarrow> bool act" where
  "attributeVisible sac sa = do {
     r \<leftarrow> sac_List sac (tsa_Namespace (sa_Spec sa));
     State_Monad.return (case r of Inl _ \<Rightarrow> False | Inr attrs \<Rightarrow> attrs (tsa_Name (sa_Spec sa)) \<noteq> None)
   }"

definition ensureAttributeRegistered :: "TemporalSearchAttribute \<Rightarrow> SearchAttributeClient \<Rightarrow> bool result act" where
  "ensureAttributeRegistered sa sac =
     (let spec = sa_Spec sa in do {
        r \<leftarrow> sac_List sac (tsa_Namespace spec);
        case r of
          Inl e \<Rightarrow> State_Monad.return (Inl (WrapErr ''listing search attributes'' e))
        | Inr existing \<Rightarrow>
            if existing (tsa_Name spec) \<noteq> None then State_Monad.return (Inr True)
            else do {
              ae \<leftarrow> sac_Add sac (tsa_Namespace spec) (tsa_Name spec) (tsa_Type spec);
              case ae of
                Some e \<Rightarrow> State_Monad.return (Inl (WrapErr ''adding search attribute'' e))
              | None \<Rightarrow> do { v \<leftarrow> attributeVisible sac sa; State_Monad.return (Inr v) }
            }
      })"

section \<open>Deletion\<close>

definition sa_dropFinalizer :: "TemporalSearchAttributeReconciler \<Rightarrow> TemporalSearchAttribute \<Rightarrow> err option act" where
  "sa_dropFinalizer R sa =
     updateObj (sr_Client R) ''TemporalSearchAttribute''
       (ca_RemoveFinalizer (sr_Client R) (sa_Object sa) searchAttributeFinalizer)"

definition sa_reconcileDelete ::
  "TemporalSearchAttributeReconciler \<Rightarrow> TemporalSearchAttribute \<Rightarrow> SearchAttributeClient \<Rightarrow> err option act" where
  "sa_reconcileDelete R sa sac =
     (if \<not> ca_ContainsFinalizer (sr_Client R) (sa_Object sa) searchAttributeFinalizer then State_Monad.return None
      else if tsa_AllowDeletion (sa_Spec sa) then do {
        e \<leftarrow> sac_Remove sac (tsa_Namespace (sa_Spec sa)) (tsa_Name (sa_Spec sa));
        case e of
          Some er \<Rightarrow> State_Monad.return (Some (WrapErr ''removing search attribute'' er))
        | None \<Rightarrow> sa_dropFinalizer R sa
      }
      else sa_dropFinalizer R sa)"

definition sa_removeFinalizerAndForget :: "TemporalSearchAttributeReconciler \<Rightarrow> TemporalSearchAttribute \<Rightarrow> err option act" where
  "sa_removeFinalizerAndForget R sa =
     (if ca_ContainsFinalizer (sr_Client R) (sa_Object sa) searchAttributeFinalizer then sa_dropFinalizer R sa
      else State_Monad.return None)"

section \<open>Reconcile\<close>

definition sa_setReady ::
  "TemporalSearchAttributeReconciler \<Rightarrow> TemporalSearchAttribute \<Rightarrow> ConditionStatus \<Rightarrow> string \<Rightarrow> string \<Rightarrow> TemporalSearchAttribute" where
  "sa_setReady R sa st reason message =
     sa \<lparr>sa_Status := (sa_Status sa)
       \<lparr>tsast_ObservedGeneration := om_Generation (sa_Object sa),
        tsast_Conditions := setStatusCondition (ca_meta (sr_Client R)) (tsast_Conditions (sa_Status sa))
          (readyCondition (sa_Object sa) st reason message)\<rparr>\<rparr>"

definition sa_write ::
  "TemporalSearchAttributeReconciler \<Rightarrow> TemporalSearchAttribute \<Rightarrow> Result \<Rightarrow> TemporalSearchAttribute outcome act" where
  "sa_write R sa r = writeStatus (sr_Client R) ''TemporalSearchAttribute'' sa_Object sa r"

definition sa_reconcileLive ::
  "TemporalSearchAttributeReconciler \<Rightarrow> TemporalSearchAttribute \<Rightarrow> ResolvedTarget \<Rightarrow> SearchAttributeClient \<Rightarrow>
     TemporalSearchAttribute outcome act" where
  "sa_reconcileLive R sa target sac =
     (if \<not> rt_Ready target then
        sa_write R (sa_setReady R sa ConditionFalse ''ClusterNotReady'' ''waiting for the Temporal target to become ready'')
          (requeueAfter (seconds 15))
      else do {
        r \<leftarrow> ensureAttributeRegistered sa sac;
        case r of
          Inl e \<Rightarrow>
            if isTransientClusterErr (Some e) then
              sa_write R (sa_setReady R sa ConditionFalse ''FrontendUnavailable''
                ''waiting for the Temporal frontend to become available'') (requeueAfter clusterUnavailableRequeue)
            else failed e
        | Inr registered \<Rightarrow>
            if \<not> registered then
              sa_write R (sa_setReady R sa ConditionFalse ''Reconciling''
                ''waiting for the search attribute to become visible'') (requeueAfter (seconds 10))
            else do {
              n \<leftarrow> nowTime (ca_kube (sr_Client R));
              (let sa1 = sa \<lparr>sa_Status := (sa_Status sa)
                     \<lparr>tsast_Registered := True,
                      tsast_RegisteredAt := (case tsast_RegisteredAt (sa_Status sa) of None \<Rightarrow> Some n | Some t \<Rightarrow> Some t)\<rparr>\<rparr>
               in sa_write R (sa_setReady R sa1 ConditionTrue ''Registered'' ''search attribute is registered'') noResult)
            }
      })"

definition reconcileSearchAttribute ::
  "TemporalSearchAttributeReconciler \<Rightarrow> TemporalSearchAttribute \<Rightarrow> TemporalSearchAttribute outcome act" where
  "reconcileSearchAttribute R sa = do {
     t \<leftarrow> resolveTarget (sr_Client R) (om_Namespace (sa_Object sa)) (tsa_ClusterRef (sa_Spec sa));
     case t of
       Inl e \<Rightarrow>
         if isDeleting (sa_Object sa) then do { de \<leftarrow> sa_removeFinalizerAndForget R sa; finished noResult de }
         else if errorsIs e ErrTargetNotFound then
           sa_write R (sa_setReady R sa ConditionFalse ''ClusterNotFound'' ''referenced Temporal target not found'')
             (requeueAfter (seconds 60))
         else failed e
     | Inr target \<Rightarrow> do {
         c \<leftarrow> searchAttributeClientFactory R (rt_Address target) (rt_TLSConfig target);
         case c of
           Inl e \<Rightarrow>
             if isDeleting (sa_Object sa) then do { de \<leftarrow> sa_removeFinalizerAndForget R sa; finished noResult de }
             else failed (WrapErr ''building temporal client'' e)
         | Inr sac \<Rightarrow>
             if isDeleting (sa_Object sa) then do { de \<leftarrow> sa_reconcileDelete R sa sac; finished noResult de }
             else if \<not> ca_ContainsFinalizer (sr_Client R) (sa_Object sa) searchAttributeFinalizer then
               (let sa1 = sa \<lparr>sa_Object := ca_AddFinalizer (sr_Client R) (sa_Object sa) searchAttributeFinalizer\<rparr> in do {
                  ue \<leftarrow> updateObj (sr_Client R) ''TemporalSearchAttribute'' (sa_Object sa1);
                  case ue of Some e \<Rightarrow> failed e | None \<Rightarrow> sa_reconcileLive R sa1 target sac
                })
             else sa_reconcileLive R sa target sac
       }
   }"

definition ReconcileSearchAttribute ::
  "TemporalSearchAttributeReconciler \<Rightarrow> string \<Rightarrow> string \<Rightarrow> TemporalSearchAttribute outcome act" where
  "ReconcileSearchAttribute R nsn name = do {
     r \<leftarrow> perform (CGet ''TemporalSearchAttribute'' nsn name) (\<lambda>tr. ca_GetSearchAttribute (sr_Client R) tr nsn name);
     case r of Inl e \<Rightarrow> finished noResult (ignoreNotFound e) | Inr sa \<Rightarrow> reconcileSearchAttribute R sa
   }"

definition mapClusterToSearchAttributes :: "TemporalSearchAttribute list result \<Rightarrow> string \<Rightarrow> string \<Rightarrow> (string \<times> string) list" where
  "mapClusterToSearchAttributes items kind name =
     mapClusterTo sa_Object (\<lambda>s. [tsa_ClusterRef (sa_Spec s)]) items kind name"

end
