(* ===== verification/Cluster_References.thy ===== *)
theory Cluster_References
  imports Operator_Ui Namespace_Controller Search_Attribute_Controller Schedule_Controller Workflow_Run_Controller
    Satellite_Laws
begin

text \<open>
  Three parts of the operator read a reference to a cluster on their own: the controllers that resolve
  it, the watches that wake them up when the cluster changes, and the dashboard that lists what belongs
  to a cluster.  They agree.
\<close>

lemma refersToCluster_refTargets: "refersToCluster ref name = refTargets ref ClusterKindTemporalCluster name"
  by (auto simp: refersToCluster_def refTargets_def)

lemma first_call:
  assumes "run_state (State_Monad.bind (perform c answer) f) w = (r, w')" and "\<And>a. emits (\<lambda>_. True) (f a)"
  shows "\<exists>cs. w_trace w' = w_trace w @ c # cs"
proof -
  let ?w = "w \<lparr>w_trace := w_trace w @ [c]\<rparr>"
  from assms(1) have "run_state (f (answer (w_trace w))) ?w = (r, w')"
    by (simp add: perform_def)
  from emits_trace [OF assms(2) this] show ?thesis by auto
qed

text \<open>The first thing a resolution reads is the object that the reference names.\<close>

lemma resolveTarget_reads:
  assumes "run_state (resolveTarget A ns ref) w = (r, w')"
  shows "(\<exists>cs. w_trace w' = w_trace w @ CGet ''TemporalCluster'' ns name # cs) \<longleftrightarrow>
    refTargets ref ClusterKindTemporalCluster name"
proof (cases "cref_Kind ref = [] \<or> cref_Kind ref = ClusterKindTemporalCluster")
  case True
  then obtain f where f: "resolveTarget A ns ref = State_Monad.bind (getCluster (ca_kube A) ns (cref_Name ref)) f"
    and e: "\<And>a. emits (\<lambda>_. True) (f a)"
    unfolding resolveTarget_def by (simp add: emits_rules)
  from first_call [OF assms [unfolded f getCluster_def] e]
  have "\<exists>cs. w_trace w' = w_trace w @ CGet ''TemporalCluster'' ns (cref_Name ref) # cs" .
  with True show ?thesis by (auto simp: refTargets_def)
next
  case False
  show ?thesis
  proof (cases "cref_Kind ref = ClusterKindTemporalDevServer")
    case True
    with False assms have "w_trace w' = w_trace w @ [CGet ''TemporalDevServer'' ns (cref_Name ref)]"
      by (auto simp: resolveTarget_def)
    with False show ?thesis by (simp add: refTargets_def)
  next
    case other: False
    with False assms have "w' = w" by (simp add: resolveTarget_def)
    with False show ?thesis by (simp add: refTargets_def)
  qed
qed

text \<open>
  C26: the dashboard, the watches and the controllers agree on what belongs to a cluster.  The namespaces
  and search attributes on a cluster's page are, in order, the ones whose reconciliation a change of
  that cluster requests; and a schedule or workflow run is woken up by a change of a cluster exactly
  when resolving its reference starts by reading that cluster.
\<close>

theorem references_agree:
  "map rr_Name (relatedNamespaces nss name) = map snd (mapClusterToNamespaces (Inr nss) ClusterKindTemporalCluster name) \<and>
   map rr_Name (relatedSearchAttributes sas name) =
     map snd (mapClusterToSearchAttributes (Inr sas) ClusterKindTemporalCluster name) \<and>
   ((om_Namespace (tsc_Meta s), om_Name (tsc_Meta s)) \<in>
        set (mapClusterToSchedules (Inr [s]) ClusterKindTemporalCluster name) \<longleftrightarrow>
      (\<exists>cs. w_trace (snd (run_state (resolveTarget A ns (tss_ClusterRef (tsc_Spec s))) w)) =
         w_trace w @ CGet ''TemporalCluster'' ns name # cs)) \<and>
   ((om_Namespace (wr_Meta r), om_Name (wr_Meta r)) \<in>
        set (mapClusterToWorkflowRuns (Inr [r]) ClusterKindTemporalCluster name) \<longleftrightarrow>
      (\<exists>cs. w_trace (snd (run_state (resolveTarget A ns (wrs_ClusterRef (wr_Spec r))) w)) =
         w_trace w @ CGet ''TemporalCluster'' ns name # cs))"
proof -
  have reads: "(\<exists>cs. w_trace (snd (run_state (resolveTarget A ns ref) w)) = w_trace w @ CGet ''TemporalCluster'' ns name # cs)
      \<longleftrightarrow> refTargets ref ClusterKindTemporalCluster name" for ref
    by (rule resolveTarget_reads [of A ns ref w "fst (run_state (resolveTarget A ns ref) w)"]) simp
  show ?thesis
    unfolding reads
    by (simp add: relatedNamespaces_def relatedSearchAttributes_def mapClusterToNamespaces_def
        mapClusterToSearchAttributes_def mapClusterToSchedules_def mapClusterToWorkflowRuns_def mapClusterTo_def
        refersToCluster_refTargets comp_def)
qed

end
