(* ===== verification/Object_Ownership.thy ===== *)
theory Object_Ownership
  imports Namespace_Runs Workflow_Runs Connection_Runs Search_Attribute_Controller Schedule_Controller
begin

text \<open>
  What the controllers of the satellite resources have in common: a pass over an object writes to the
  API server only that object, keeps the finalizers of others, adds its own finalizer while the object
  lives and removes it only when the object is being deleted.  The contract is the locale
  \<open>owned_resource\<close>; each of the five controllers is an instance.
\<close>

section \<open>The contract\<close>

definition ownObject :: "string \<Rightarrow> ObjectMeta \<Rightarrow> string \<Rightarrow> string \<Rightarrow> string \<Rightarrow> bool" where
  "ownObject kind m k ns n \<longleftrightarrow> k = kind \<and> ns = om_Namespace m \<and> n = om_Name m"

fun ownCall :: "string \<Rightarrow> string \<Rightarrow> ObjectMeta \<Rightarrow> call \<Rightarrow> bool" where
  "ownCall kind fin m (CUpdate k ns n fs) =
     (ownObject kind m k ns n \<and> set fs - {fin} = set (om_Finalizers m) - {fin} \<and> (fin \<in> set fs \<longleftrightarrow> \<not> isDeleting m))"
| "ownCall kind fin m (CStatusUpdate k ns n) = ownObject kind m k ns n"
| "ownCall kind fin m (CDelete k ns n) = (ownObject kind m k ns n \<and> \<not> isDeleting m)"
| "ownCall kind fin m (CCreate ob) = False"
| "ownCall kind fin m (CApply ob) = False"
| "ownCall kind fin m c = True"

text \<open>The calls a pass makes.\<close>

definition callsOf :: "'a act \<Rightarrow> world \<Rightarrow> call list" where
  "callsOf m w = drop (length (w_trace w)) (w_trace (snd (run_state m w)))"

lemma emits_callsOf: "emits C m \<Longrightarrow> list_all C (callsOf m w)"
  using emitsD [of C m w "fst (run_state m w)" "snd (run_state m w)"] by (auto simp: callsOf_def)

text \<open>
  The environment of a reconciler in which the contract holds is a parameter: the finalizer functions keep
  their documented laws, and the client of the frontend is the one the program uses outside of tests.
\<close>

locale owned_resource =
  fixes environment :: "'r \<Rightarrow> bool" and kind fin :: string and objectMeta :: "'o \<Rightarrow> ObjectMeta"
    and pass :: "'r \<Rightarrow> 'o \<Rightarrow> 'o outcome act"
  assumes own: "environment R \<Longrightarrow> emits (ownCall kind fin (objectMeta ob)) (pass R ob)"
begin

lemma pass_calls: "environment R \<Longrightarrow> list_all (ownCall kind fin (objectMeta ob)) (callsOf (pass R ob) w)"
  by (rule emits_callsOf [OF own])

lemma others_finalizers_kept:
  assumes "environment R" "CUpdate k ns n fs \<in> set (callsOf (pass R ob) w)" "f \<noteq> fin"
  shows "f \<in> set fs \<longleftrightarrow> f \<in> set (om_Finalizers (objectMeta ob))"
  using pass_calls [OF assms(1), of ob w] assms(2,3) by (force simp: list_all_iff)

lemma finalizer_dropped_on_deletion:
  assumes "environment R" "CUpdate k ns n fs \<in> set (callsOf (pass R ob) w)"
  shows "fin \<notin> set fs \<longleftrightarrow> isDeleting (objectMeta ob)"
  using pass_calls [OF assms(1), of ob w] assms(2) by (force simp: list_all_iff)

lemma live_object_not_given_up:
  assumes "environment R" "\<not> isDeleting (objectMeta ob)" "CUpdate k ns n fs \<in> set (callsOf (pass R ob) w)"
  shows "set fs = insert fin (set (om_Finalizers (objectMeta ob)))"
  using others_finalizers_kept [OF assms(1,3)] finalizer_dropped_on_deletion [OF assms(1,3)] assms(2)
  by (intro set_eqI) (metis insert_iff)

end

section \<open>Remote calls\<close>

text \<open>A predicate that allows every read and every remote call.\<close>

definition remoteOk :: "(call \<Rightarrow> bool) \<Rightarrow> bool" where
  "remoteOk C \<longleftrightarrow> (\<forall>a r. C (CTemporal a r)) \<and> (\<forall>a. C (CDial a)) \<and> (\<forall>k ns n. C (CGet k ns n))"

lemma remoteOk_ownCall: "remoteOk (ownCall kind fin m)"
  by (simp add: remoteOk_def)

lemma remoteOkD:
  assumes "remoteOk C"
  shows "C (CTemporal a r)" "C (CDial a)" "C (CGet k ns n)"
  using assms by (simp_all add: remoteOk_def)

text \<open>An operation on an object and the object it leaves.\<close>

lemma emits_bind_inv:
  assumes "emits C m" "\<And>w a w'. run_state m w = (a, w') \<Longrightarrow> P a" "\<And>a. P a \<Longrightarrow> emits C (f a)"
  shows "emits C (State_Monad.bind m f)"
  by (rule emits_bind_dep [OF assms(1)]) (rule assms(3), rule assms(2))

text \<open>The writes that every controller makes.\<close>

lemma own_update_added:
  assumes "finalizer_laws A" "\<not> isDeleting m"
  shows "emits (ownCall kind fin m) (updateObj A kind (ca_AddFinalizer A m fin))"
  by (rule emits_updateObj)
    (use assms(2) in \<open>auto simp: ownObject_def AddFinalizer_fields [OF assms(1)] finalizer_sets [OF assms(1)]\<close>)

lemma own_update_removed:
  assumes "finalizer_laws A" "isDeleting m"
  shows "emits (ownCall kind fin m) (updateObj A kind (ca_RemoveFinalizer A m fin))"
  by (rule emits_updateObj)
    (use assms(2) in \<open>auto simp: ownObject_def RemoveFinalizer_fields [OF assms(1)] finalizer_sets [OF assms(1)]\<close>)

lemma own_write:
  "om_Namespace (meta ob) = om_Namespace m \<Longrightarrow> om_Name (meta ob) = om_Name m \<Longrightarrow>
     emits (ownCall kind fin m) (writeStatus A kind meta ob r)"
  by (rule emits_writeStatus) (simp add: ownObject_def)

section \<open>Namespaces\<close>

lemma own_ensureNamespaceRegistered:
  assumes "remoteOk C"
  shows "emits C (ensureNamespaceRegistered ns (grpcNamespaceClient F a))"
  unfolding ensureNamespaceRegistered_def failoverStep_def driftStep_def redescribe_def Let_def namespaceClient_ops
  by (intro emits_rules emits_grpcNamespace remoteOkD [OF assms])

lemma applyReplicationStatus_meta: "run_state (applyReplicationStatus R ns i b) w = (ns', w') \<Longrightarrow> tn_Meta ns' = tn_Meta ns"
  by (auto simp: applyReplicationStatus_def split: option.splits if_splits)

lemma own_ns_reconcileLive:
  assumes "om_Namespace (tn_Meta ns) = om_Namespace m" "om_Name (tn_Meta ns) = om_Name m"
  shows "emits (ownCall ''TemporalNamespace'' fin m) (ns_reconcileLive R ns target (grpcNamespaceClient F a))"
proof -
  have report: "emits (ownCall ''TemporalNamespace'' fin m)
      (State_Monad.bind (applyReplicationStatus R ns1 info b) (\<lambda>ns2. writeStatus A ''TemporalNamespace'' tn_Meta (ns_setReady R ns2 st rs msg) r))"
    if "tn_Meta ns1 = tn_Meta ns" for A ns1 info b st rs msg r
    by (rule emits_bind_inv [OF emits_applyReplicationStatus, where P = "\<lambda>x. tn_Meta x = tn_Meta ns"])
      (simp_all add: applyReplicationStatus_meta that own_write assms)
  show ?thesis
    unfolding ns_reconcileLive_def ns_write_def Let_def
    apply (rule emits_if, rule own_write; simp add: assms)
    apply (rule emits_bind [OF own_ensureNamespaceRegistered [OF remoteOk_ownCall]])
    apply (rule emits_case_sum)
     apply (intro emits_rules; simp add: ownObject_def assms)
    apply (rule emits_case_prod, rule emits_bind, rule emits_cache, rule report)
    apply simp
    done
qed

lemma own_ns_finalizer:
  assumes "finalizer_laws (nr_Client R)" "isDeleting (tn_Meta ns)"
  shows "emits (ownCall ''TemporalNamespace'' namespaceFinalizer (tn_Meta ns)) (ns_removeFinalizerAndForget R ns)"
    "emits (ownCall ''TemporalNamespace'' namespaceFinalizer (tn_Meta ns)) (ns_reconcileDelete R ns (grpcNamespaceClient F a))"
  unfolding ns_removeFinalizerAndForget_def ns_reconcileDelete_def ns_dropFinalizer_def namespaceClient_ops
  by (intro emits_if emits_bind emits_case_option emits_return emits_grpcNamespace remoteOkD [OF remoteOk_ownCall]
      own_update_removed assms)+

lemma own_reconcileNamespace:
  assumes A: "finalizer_laws (nr_Client R)" and "nr_ClientFactory R = None"
  shows "emits (ownCall ''TemporalNamespace'' namespaceFinalizer (tn_Meta ns)) (reconcileNamespace R ns)"
proof -
  have client: "namespaceClientFactory R = NewNamespaceClient (nr_Frontend R)"
    using assms(2) by (simp add: namespaceClientFactory_def)
  show ?thesis
    unfolding reconcileNamespace_def client Let_def ns_write_def
    apply (rule emits_bind [OF emits_resolveTarget], simp)
    apply (rule emits_case_sum)
     apply (intro emits_if emits_bind emits_finish own_ns_finalizer own_write A; simp)
    apply (rule emits_namespaceClient, simp)
     apply (simp only: sum.case, intro emits_if emits_bind emits_finish own_ns_finalizer A; simp)
    apply (simp only: sum.case)
    apply (intro emits_if emits_bind emits_case_option emits_finish own_ns_finalizer own_ns_reconcileLive own_update_added A;
        simp add: AddFinalizer_fields [OF A] own_update_added A)
    done
qed

definition namespacesEnvironment :: "TemporalNamespaceReconciler \<Rightarrow> bool" where
  "namespacesEnvironment R \<longleftrightarrow> finalizer_laws (nr_Client R) \<and> nr_ClientFactory R = None"

interpretation namespaces: owned_resource namespacesEnvironment "''TemporalNamespace''" namespaceFinalizer tn_Meta reconcileNamespace
  by unfold_locales (simp add: namespacesEnvironment_def own_reconcileNamespace)

section \<open>Search attributes\<close>

lemma NewSearchAttributeClient_Inr:
  "run_state (NewSearchAttributeClient F a t) w = (Inr c, w') \<Longrightarrow>
     c = \<lparr>sac_List = grpcSearchAttributeList F a, sac_Add = grpcSearchAttributeAdd F a, sac_Remove = grpcSearchAttributeRemove F a\<rparr>"
  by (auto simp: NewSearchAttributeClient_def NewNamespaceClient_def dial_def split: option.splits sum.splits prod.splits)

lemma emits_searchAttributes:
  assumes "remoteOk C"
  shows "emits C (grpcSearchAttributeList F a n)" "emits C (grpcSearchAttributeAdd F a n m t)"
    "emits C (grpcSearchAttributeRemove F a n m)" "emits C (NewSearchAttributeClient F a tls)"
  unfolding grpcSearchAttributeList_def grpcSearchAttributeAdd_def grpcSearchAttributeRemove_def NewSearchAttributeClient_def
  by (intro emits_rules remoteOkD [OF assms])+

abbreviation saClient :: "frontend \<Rightarrow> string \<Rightarrow> SearchAttributeClient" where
  "saClient F a \<equiv> \<lparr>sac_List = grpcSearchAttributeList F a, sac_Add = grpcSearchAttributeAdd F a, sac_Remove = grpcSearchAttributeRemove F a\<rparr>"

lemma own_sa_reconcileLive:
  assumes "om_Namespace (sa_Object sa) = om_Namespace m" "om_Name (sa_Object sa) = om_Name m"
  shows "emits (ownCall ''TemporalSearchAttribute'' fin m) (sa_reconcileLive R sa target (saClient F a))"
proof -
  have "emits (ownCall ''TemporalSearchAttribute'' fin m) (ensureAttributeRegistered sa (saClient F a))"
    unfolding ensureAttributeRegistered_def attributeVisible_def Let_def
    by (intro emits_rules) (simp_all add: emits_searchAttributes remoteOk_ownCall)
  then show ?thesis
    unfolding sa_reconcileLive_def sa_write_def Let_def
    by (intro emits_rules) (simp_all add: ownObject_def assms sa_setReady_def)
qed

lemma own_sa_finalizer:
  assumes "finalizer_laws (sr_Client R)" "isDeleting (sa_Object sa)"
  shows "emits (ownCall ''TemporalSearchAttribute'' searchAttributeFinalizer (sa_Object sa)) (sa_removeFinalizerAndForget R sa)"
    "emits (ownCall ''TemporalSearchAttribute'' searchAttributeFinalizer (sa_Object sa)) (sa_reconcileDelete R sa (saClient F a))"
  unfolding sa_removeFinalizerAndForget_def sa_reconcileDelete_def sa_dropFinalizer_def
  by (intro emits_if emits_bind emits_case_option emits_return own_update_removed assms;
      simp add: emits_searchAttributes remoteOk_ownCall)+

lemma own_reconcileSearchAttribute:
  assumes A: "finalizer_laws (sr_Client R)" and "sr_ClientFactory R = None"
  shows "emits (ownCall ''TemporalSearchAttribute'' searchAttributeFinalizer (sa_Object sa)) (reconcileSearchAttribute R sa)"
proof -
  have client: "searchAttributeClientFactory R = NewSearchAttributeClient (sr_Frontend R)"
    using assms(2) by (simp add: searchAttributeClientFactory_def)
  show ?thesis
    unfolding reconcileSearchAttribute_def client Let_def sa_write_def
    apply (rule emits_bind [OF emits_resolveTarget], simp)
    apply (rule emits_case_sum)
     apply (intro emits_if emits_bind emits_finish own_sa_finalizer own_write A; simp add: sa_setReady_def)
    apply (rule emits_bind_client [where cl = "saClient (sr_Frontend R) (rt_Address target)" for target])
       apply (rule emits_searchAttributes [OF remoteOk_ownCall])
      apply (erule NewSearchAttributeClient_Inr)
     apply (simp only: sum.case, intro emits_if emits_bind emits_finish own_sa_finalizer A; simp)
    apply (simp only: sum.case)
    apply (intro emits_if emits_bind emits_case_option emits_finish own_sa_finalizer own_sa_reconcileLive own_update_added A;
        simp add: AddFinalizer_fields [OF A] own_update_added A)
    done
qed

definition searchAttributesEnvironment :: "TemporalSearchAttributeReconciler \<Rightarrow> bool" where
  "searchAttributesEnvironment R \<longleftrightarrow> finalizer_laws (sr_Client R) \<and> sr_ClientFactory R = None"

interpretation searchAttributes: owned_resource searchAttributesEnvironment "''TemporalSearchAttribute''" searchAttributeFinalizer sa_Object reconcileSearchAttribute
  by unfold_locales (simp add: searchAttributesEnvironment_def own_reconcileSearchAttribute)

section \<open>Schedules\<close>

lemma NewScheduleClient_Inr: "run_state (NewScheduleClient F a t) w = (Inr c, w') \<Longrightarrow> c = grpcScheduleClient F a"
  by (auto simp: NewScheduleClient_def dial_def split: option.splits)

lemma scheduleClient_ops:
  "sc_Describe (grpcScheduleClient F a) = grpcScheduleDescribe F a" "sc_Create (grpcScheduleClient F a) = grpcScheduleCreate F a"
  "sc_Update (grpcScheduleClient F a) = grpcScheduleUpdate F a" "sc_Pause (grpcScheduleClient F a) = grpcSchedulePause F a"
  "sc_Unpause (grpcScheduleClient F a) = grpcScheduleUnpause F a" "sc_Delete (grpcScheduleClient F a) = grpcScheduleDelete F a"
  by (simp_all add: grpcScheduleClient_def)

lemma emits_schedules:
  assumes "remoteOk C"
  shows "emits C (grpcScheduleDescribe F a n i)" "emits C (grpcScheduleCreate F a p)" "emits C (grpcScheduleUpdate F a p)"
    "emits C (grpcSchedulePause F a n i s)" "emits C (grpcScheduleUnpause F a n i s)" "emits C (grpcScheduleDelete F a n i)"
    "emits C (NewScheduleClient F a tls)"
  unfolding grpcScheduleDescribe_def grpcScheduleCreate_def grpcScheduleUpdate_def grpcSchedulePause_def
    grpcScheduleUnpause_def grpcSchedulePatch_def grpcScheduleDelete_def NewScheduleClient_def
  by (intro emits_rules remoteOkD [OF assms])+

lemma own_reconcileSchedule:
  assumes "remoteOk C"
  shows "emits C (reconcileSchedule R sched (grpcScheduleClient F a))"
  unfolding reconcileSchedule_def applySchedule_def reconcilePause_def Let_def scheduleClient_ops
  by (intro emits_rules emits_schedules [OF assms])

lemma applySchedule_meta: "run_state (applySchedule sched sc p h) w = ((sched', e), w') \<Longrightarrow> tsc_Meta sched' = tsc_Meta sched"
  by (auto simp: applySchedule_def Let_def split: sum.splits prod.splits if_splits option.splits)

lemma reconcileSchedule_meta:
  "run_state (reconcileSchedule R sched sc) w = ((sched', e), w') \<Longrightarrow> tsc_Meta sched' = tsc_Meta sched"
  by (auto simp: reconcileSchedule_def sched_setReady_def Let_def split: sum.splits prod.splits option.splits
      dest: applySchedule_meta)

lemma own_sched_reconcileLive:
  assumes "om_Namespace (tsc_Meta sched) = om_Namespace m" "om_Name (tsc_Meta sched) = om_Name m"
  shows "emits (ownCall ''TemporalSchedule'' fin m) (sched_reconcileLive R sched target (grpcScheduleClient F a))"
  unfolding sched_reconcileLive_def sched_write_def
  apply (rule emits_if, rule own_write; simp add: assms sched_setReady_def)
  apply (rule emits_bind_inv [OF own_reconcileSchedule [OF remoteOk_ownCall], where P = "\<lambda>x. tsc_Meta (fst x) = tsc_Meta sched"])
   apply (metis reconcileSchedule_meta prod.collapse)
  apply (rule emits_case_prod, rule emits_case_option)
   apply (rule own_write; simp add: assms)
  apply (rule emits_if, rule own_write; simp add: assms sched_setReady_def)
  apply (rule emits_finish)
  done

lemma own_sched_finalizer:
  assumes "finalizer_laws (scr_Client R)" "isDeleting (tsc_Meta sched)"
  shows "emits (ownCall ''TemporalSchedule'' scheduleFinalizer (tsc_Meta sched)) (sched_removeFinalizerAndForget R sched)"
    "emits (ownCall ''TemporalSchedule'' scheduleFinalizer (tsc_Meta sched)) (sched_reconcileDelete R sched (grpcScheduleClient F a))"
  unfolding sched_removeFinalizerAndForget_def sched_reconcileDelete_def sched_dropFinalizer_def scheduleClient_ops
  by (intro emits_if emits_bind emits_case_option emits_return own_update_removed assms emits_schedules [OF remoteOk_ownCall])+

lemma own_reconcileTemporalSchedule:
  assumes A: "finalizer_laws (scr_Client R)" and "scr_ClientFactory R = None"
  shows "emits (ownCall ''TemporalSchedule'' scheduleFinalizer (tsc_Meta sched)) (reconcileTemporalSchedule R sched)"
proof -
  have client: "scheduleClientFactory R = NewScheduleClient (scr_Frontend R)"
    using assms(2) by (simp add: scheduleClientFactory_def)
  show ?thesis
    unfolding reconcileTemporalSchedule_def client Let_def sched_write_def
    apply (rule emits_bind [OF emits_resolveTarget], simp)
    apply (rule emits_case_sum)
     apply (intro emits_if emits_bind emits_finish own_sched_finalizer own_write A; simp add: sched_setReady_def)
    apply (rule emits_bind_client [where cl = "grpcScheduleClient (scr_Frontend R) (rt_Address target)" for target])
       apply (rule emits_schedules [OF remoteOk_ownCall])
      apply (erule NewScheduleClient_Inr)
     apply (simp only: sum.case, intro emits_if emits_bind emits_finish own_sched_finalizer A; simp)
    apply (simp only: sum.case)
    apply (intro emits_if emits_bind emits_case_option emits_finish own_sched_finalizer own_sched_reconcileLive own_update_added A;
        simp add: AddFinalizer_fields [OF A] own_update_added A)
    done
qed

definition schedulesEnvironment :: "TemporalScheduleReconciler \<Rightarrow> bool" where
  "schedulesEnvironment R \<longleftrightarrow> finalizer_laws (scr_Client R) \<and> scr_ClientFactory R = None"

interpretation schedules: owned_resource schedulesEnvironment "''TemporalSchedule''" scheduleFinalizer tsc_Meta reconcileTemporalSchedule
  by unfold_locales (simp add: schedulesEnvironment_def own_reconcileTemporalSchedule)

section \<open>Workflow runs\<close>

lemma emits_workflows:
  assumes "remoteOk C"
  shows "emits C (grpcWorkflowStart F a n u p)" "emits C (grpcWorkflowDescribe F a n i r)"
    "emits C (grpcWorkflowCancel F a n i r s)" "emits C (grpcWorkflowTerminate F a n i r s)"
  unfolding grpcWorkflowStart_def grpcWorkflowCancel_def grpcWorkflowTerminate_def
  by (intro emits_rules emits_grpcWorkflowDescribe remoteOkD [OF assms])+

lemma own_startRun: "remoteOk C \<Longrightarrow> emits C (startRun R run (grpcWorkflowRunClient F a) policy)"
  unfolding startRun_def workflowClient_ops by (intro emits_rules emits_workflows)

lemma startRun_meta:
  assumes "run_state (startRun R run wc policy) w = (s, w')"
  shows "case s of Started r \<Rightarrow> wr_Meta r = wr_Meta run | NotPermitted r \<Rightarrow> wr_Meta r = wr_Meta run
    | InvalidParams r \<Rightarrow> wr_Meta r = wr_Meta run | StartFailed _ \<Rightarrow> True"
  using assms by (auto simp: startRun_def split: if_splits option.splits sum.splits prod.splits)

lemma observeRun_meta: "run_state (observeRun R run wc) w = ((run', oc), w') \<Longrightarrow> wr_Meta run' = wr_Meta run"
  by (auto simp: observeRun_def Let_def split: sum.splits prod.splits if_splits option.splits)

lemma reconcileRun_meta:
  "run_state (reconcileRun R run wc policy) w = ((run', oc), w') \<Longrightarrow> wr_Meta run' = wr_Meta run"
  by (auto simp: reconcileRun_def split: if_splits prod.splits startOutcome.splits dest!: startRun_meta observeRun_meta)

lemma own_reconcileRun:
  assumes "om_Namespace (wr_Meta run) = om_Namespace m" "om_Name (wr_Meta run) = om_Name m" "\<not> isDeleting m"
  shows "emits (ownCall ''TemporalWorkflowRun'' fin m) (reconcileRun R run (grpcWorkflowRunClient F a) policy)"
proof -
  have observe: "emits (ownCall ''TemporalWorkflowRun'' fin m) (observeRun R run1 (grpcWorkflowRunClient F a))"
    if "wr_Meta run1 = wr_Meta run" for run1
    unfolding observeRun_def Let_def workflowClient_ops
    by (intro emits_rules emits_workflows [OF remoteOk_ownCall]) (simp_all add: ownObject_def assms that)
  show ?thesis
    unfolding reconcileRun_def
    apply (rule emits_if, intro emits_rules, simp add: ownObject_def assms)
    apply (rule emits_bind_inv [OF own_startRun [OF remoteOk_ownCall] startRun_meta], assumption)
    subgoal for s by (cases s) (auto intro!: emits_rules observe simp: ownObject_def assms)
    done
qed

lemma own_run_reconcileLive:
  assumes "om_Namespace (wr_Meta run) = om_Namespace m" "om_Name (wr_Meta run) = om_Name m" "\<not> isDeleting m"
  shows "emits (ownCall ''TemporalWorkflowRun'' fin m) (run_reconcileLive R run target (grpcWorkflowRunClient F a))"
  unfolding run_reconcileLive_def
  apply (rule emits_if, intro emits_rules, simp add: ownObject_def assms)
  apply (rule emits_bind_inv [OF own_reconcileRun [OF assms], where P = "\<lambda>x. wr_Meta (fst x) = wr_Meta run"])
   apply (metis reconcileRun_meta prod.collapse)
  apply (rule emits_case_prod)+
  apply (intro emits_rules; simp add: ownObject_def assms)
  done

lemma own_run_finalizer:
  assumes "finalizer_laws (wrr_Client R)" "isDeleting (wr_Meta run)"
  shows "emits (ownCall ''TemporalWorkflowRun'' workflowRunFinalizer (wr_Meta run)) (run_removeFinalizer R run)"
    "emits (ownCall ''TemporalWorkflowRun'' workflowRunFinalizer (wr_Meta run)) (run_reconcileDelete R run (grpcWorkflowRunClient F a))"
  unfolding run_removeFinalizer_def run_reconcileDelete_def cancelRun_def Let_def workflowClient_ops
  by (intro emits_if emits_bind emits_case_option emits_return own_update_removed assms emits_workflows [OF remoteOk_ownCall])+

lemma own_reconcileWorkflowRun:
  assumes A: "finalizer_laws (wrr_Client R)" and "wrr_ClientFactory R = None"
  shows "emits (ownCall ''TemporalWorkflowRun'' workflowRunFinalizer (wr_Meta run)) (reconcileWorkflowRun R run)"
proof -
  have client: "workflowRunClientFactory R = NewWorkflowRunClient (wrr_Frontend R)"
    using assms(2) by (simp add: workflowRunClientFactory_def)
  show ?thesis
    unfolding reconcileWorkflowRun_def client Let_def run_write_def
    apply (rule emits_bind [OF emits_resolveTarget], simp)
    apply (rule emits_case_sum)
     apply (intro emits_if emits_bind emits_finish own_run_finalizer own_write A; simp)
    apply (rule emits_workflowClient, simp)
     apply (simp only: sum.case, rule emits_finish)
    apply (simp only: sum.case)
    apply (intro emits_if emits_bind emits_case_option emits_finish own_run_finalizer own_run_reconcileLive own_update_added A;
        simp add: AddFinalizer_fields [OF A] own_update_added A)
    done
qed

definition workflowRunsEnvironment :: "TemporalWorkflowRunReconciler \<Rightarrow> bool" where
  "workflowRunsEnvironment R \<longleftrightarrow> finalizer_laws (wrr_Client R) \<and> wrr_ClientFactory R = None"

interpretation workflowRuns: owned_resource workflowRunsEnvironment "''TemporalWorkflowRun''" workflowRunFinalizer wr_Meta reconcileWorkflowRun
  by unfold_locales (simp add: workflowRunsEnvironment_def own_reconcileWorkflowRun)

section \<open>Connections\<close>

text \<open>The clients of the dialed peers make remote calls only.\<close>

definition remoteClient :: "(call \<Rightarrow> bool) \<Rightarrow> RemoteClusterClient \<Rightarrow> bool" where
  "remoteClient C cl \<longleftrightarrow>
     emits C (rcc_List cl) \<and> (\<forall>a b. emits C (rcc_Upsert cl a b)) \<and> (\<forall>n. emits C (rcc_Remove cl n))"

definition remoteClients :: "(call \<Rightarrow> bool) \<Rightarrow> dialed \<Rightarrow> bool" where
  "remoteClients C locals \<longleftrightarrow> (\<forall>(n, l)\<in>set locals. remoteClient C (lp_client l))"

lemma emits_listPages: "(\<And>r. C (CTemporal a r)) \<Longrightarrow> emits C (listPages F a k acc tok)"
  by (induction k arbitrary: acc tok) (simp, intro emits_rules)+

lemma NewRemoteClusterClient_remote:
  assumes "remoteOk C" "run_state (NewRemoteClusterClient F pages a t) w = (Inr cl, w')"
  shows "remoteClient C cl"
  using assms(2)
  by (auto simp: NewRemoteClusterClient_def NewNamespaceClient_def dial_def remoteClient_def grpcUpsertRemoteCluster_def
      grpcRemoveRemoteCluster_def grpcListRemoteClusters_def split: option.splits sum.splits prod.splits
      intro!: emits_rules emits_listPages remoteOkD [OF assms(1)])

lemma own_dialLocal:
  assumes "remoteOk C" "ccr_ClientFactory R = None"
  shows "emits C (dialLocal R p)"
    "run_state (dialLocal R p) w = (Some l, w') \<Longrightarrow> remoteClient C (lp_client l)"
proof -
  have client: "remoteClusterClientFactory R = NewRemoteClusterClient (ccr_Frontend R) (ccr_Pages R)"
    using assms(2) by (simp add: remoteClusterClientFactory_def)
  have dial: "emits C (NewRemoteClusterClient (ccr_Frontend R) (ccr_Pages R) (rp_address p) (rp_tls p))"
    unfolding NewRemoteClusterClient_def by (intro emits_rules remoteOkD [OF assms(1)])
  show "emits C (dialLocal R p)"
    unfolding dialLocal_def client
    apply (rule emits_if, rule emits_return)
    apply (rule emits_bind_inv [OF dial, where P = "\<lambda>c. case c of Inl _ \<Rightarrow> True | Inr cl \<Rightarrow> remoteClient C cl"])
     apply (auto split: sum.splits dest: NewRemoteClusterClient_remote [OF assms(1)])[1]
    apply (rule emits_case_sum)
     apply (rule emits_return)
    apply (auto simp: remoteClient_def intro!: emits_rules)
    done
  show "run_state (dialLocal R p) w = (Some l, w') \<Longrightarrow> remoteClient C (lp_client l)"
    by (auto simp: dialLocal_def client split: if_splits prod.splits sum.splits dest: NewRemoteClusterClient_remote [OF assms(1)])
qed

lemma own_dialLocals:
  assumes "remoteOk C" "ccr_ClientFactory R = None"
  shows "emits C (dialLocals R ps locals)"
    "run_state (dialLocals R ps locals) w = (locals', w') \<Longrightarrow> remoteClients C locals \<Longrightarrow> remoteClients C locals'"
proof -
  show "emits C (dialLocals R ps locals)"
    by (induction ps arbitrary: locals) (simp, intro emits_rules own_dialLocal [OF assms] | assumption)+
  show "run_state (dialLocals R ps locals) w = (locals', w') \<Longrightarrow> remoteClients C locals \<Longrightarrow> remoteClients C locals'"
  proof (induction ps arbitrary: locals w)
    case (Cons p ps)
    obtain d w1 where d: "run_state (dialLocal R p) w = (d, w1)" by fastforce
    let ?acc = "case d of None \<Rightarrow> locals | Some l \<Rightarrow> AList.update (rp_name p) l locals"
    have "remoteClients C ?acc"
      using Cons.prems(2) own_dialLocal(2) [OF assms, of p w] d
      by (auto simp: remoteClients_def split: option.splits dest: set_update)
    then show ?case using Cons.IH [of ?acc w1] Cons.prems(1) d by simp
  qed simp
qed

lemma own_upsertRemote:
  assumes "remoteClient C (lp_client l)"
  shows "emits C (upsertRemote n p l)" "run_state (upsertRemote n p l) w = (l', w') \<Longrightarrow> remoteClient C (lp_client l')"
  using assms unfolding upsertRemote_def
  by (auto simp: remoteClient_def intro!: emits_rules split: if_splits option.splits prod.splits)

lemma own_upsertAll: "remoteClient C (lp_client l) \<Longrightarrow> emits C (upsertAll n ps l)"
proof (induction ps arbitrary: l)
  case (Cons p ps)
  show ?case unfolding upsertAll.simps
    by (rule emits_bind_inv [OF own_upsertRemote(1) [OF Cons.prems] own_upsertRemote(2) [OF Cons.prems]], assumption)
      (rule Cons.IH)
qed (simp add: emits_return)

lemma own_upsertRemotes: "remoteClients C locals \<Longrightarrow> emits C (upsertRemotes peers locals)"
  by (induction peers locals rule: upsertRemotes.induct) (auto simp: remoteClients_def intro!: emits_rules own_upsertAll)

lemma own_removeOthers: "remoteClient C cl \<Longrightarrow> emits C (removeOthers n cl ps)"
  by (induction ps) (auto simp: remoteClient_def intro!: emits_rules)

lemma own_removeRemotes: "remoteClients C locals \<Longrightarrow> emits C (removeRemotes peers locals)"
  by (induction peers locals rule: removeRemotes.induct) (auto simp: remoteClients_def intro!: emits_rules own_removeOthers)

text \<open>The order in which the dialed peers are visited is some order of them.\<close>

definition rangeOk :: "TemporalClusterConnectionReconciler \<Rightarrow> bool" where
  "rangeOk R \<longleftrightarrow> (\<forall>locals. mset (ccr_Range R locals) = mset locals)"

lemma own_dialed:
  assumes "rangeOk R" "ccr_ClientFactory R = None" "remoteOk C" "\<And>locals. remoteClients C locals \<Longrightarrow> emits C (f locals)"
  shows "emits C (State_Monad.bind (dialLocals R peers []) (\<lambda>locals. f (ccr_Range R locals)))"
proof (rule emits_bind_inv [OF own_dialLocals(1) [OF assms(3,2)]])
  show "remoteClients C a" if "run_state (dialLocals R peers []) w = (a, w')" for w a w'
    using own_dialLocals(2) [OF assms(3,2) that] by (simp add: remoteClients_def)
  show "emits C (f (ccr_Range R a))" if "remoteClients C a" for a
    using that assms(1) mset_eq_setD [of "ccr_Range R a" a] by (intro assms(4)) (simp add: remoteClients_def rangeOk_def)
qed

lemma own_resolvePeers: "remoteOk C \<Longrightarrow> emits C (resolvePeers R n ps)"
  by (induction ps) (auto simp: resolvePeer_def Let_def intro!: emits_rules dest: remoteOkD)

lemma own_conn_reconcileLive:
  assumes "rangeOk R" "ccr_ClientFactory R = None"
    and "om_Namespace (tcn_Meta conn) = om_Namespace m" "om_Name (tcn_Meta conn) = om_Name m"
  shows "emits (ownCall ''TemporalClusterConnection'' fin m) (conn_reconcileLive R conn peers)"
  unfolding conn_reconcileLive_def reconcilePeers_def
  by (intro emits_bind own_dialed assms remoteOk_ownCall emits_return own_upsertRemotes)
    (simp_all add: Let_def conn_setReady_def own_write assms)

lemma own_reconcileConnection:
  assumes A: "finalizer_laws (ccr_Client R)" and R: "rangeOk R" "ccr_ClientFactory R = None"
  shows "emits (ownCall ''TemporalClusterConnection'' clusterConnectionFinalizer (tcn_Meta conn)) (reconcileConnection R conn)"
proof -
  have "emits (ownCall ''TemporalClusterConnection'' clusterConnectionFinalizer (tcn_Meta conn)) (conn_reconcileDelete R conn peers)"
    if "isDeleting (tcn_Meta conn)" for peers
    unfolding conn_reconcileDelete_def
    by (intro emits_if emits_return own_dialed emits_bind R remoteOk_ownCall own_removeRemotes own_update_removed A that)
  then show ?thesis
    unfolding reconcileConnection_def Let_def
    by (intro emits_bind emits_if emits_case_option emits_finish own_resolvePeers remoteOk_ownCall own_conn_reconcileLive own_update_added A R)
      (simp_all add: AddFinalizer_fields [OF A] own_update_added A)
qed

definition connectionsEnvironment :: "TemporalClusterConnectionReconciler \<Rightarrow> bool" where
  "connectionsEnvironment R \<longleftrightarrow> finalizer_laws (ccr_Client R) \<and> ccr_ClientFactory R = None \<and> rangeOk R"

interpretation connections: owned_resource connectionsEnvironment "''TemporalClusterConnection''" clusterConnectionFinalizer tcn_Meta reconcileConnection
  by unfold_locales (simp add: connectionsEnvironment_def own_reconcileConnection)

end
