(* ===== verification/Dev_Server_Controller.thy ===== *)
theory Dev_Server_Controller
  imports Targets Cluster_Reconcile
begin

text \<open>
  The controllers of TemporalDevServers and TemporalClusterClients
  (\<^verbatim>\<open>src/internal/controller/temporaldevserver_controller.go\<close>, \<^verbatim>\<open>temporalclusterclient_controller.go\<close>).
\<close>

section \<open>Dev servers\<close>

definition dev_apply :: "crd_api \<Rightarrow> TemporalDevServer \<Rightarrow> KObj \<Rightarrow> err option act" where
  "dev_apply A dev ob =
     (case k_SetControllerReference (ca_kube A) (dev_Meta dev) ob of
        Inl e \<Rightarrow> State_Monad.return (Some e)
      | Inr owned \<Rightarrow> serverSideApply (ca_kube A) owned)"

text \<open>The objects in the order in which they are applied; the first failure ends the pass.\<close>

definition dev_objects :: "TemporalDevServer \<Rightarrow> string \<Rightarrow> KObj list" where
  "dev_objects dev img =
     (case BuildDevServerPVC dev of None \<Rightarrow> [] | Some pvc \<Rightarrow> [OPVC pvc]) @
     [OService (BuildDevServerService dev), ODeployment (BuildDevServerDeployment dev img)]"

fun dev_applyAll :: "crd_api \<Rightarrow> TemporalDevServer \<Rightarrow> KObj list \<Rightarrow> err option act" where
  "dev_applyAll A dev [] = State_Monad.return None"
| "dev_applyAll A dev (ob # obs) = do {
     e \<leftarrow> dev_apply A dev ob;
     case e of Some er \<Rightarrow> State_Monad.return (Some er) | None \<Rightarrow> dev_applyAll A dev obs
   }"

definition dev_deploymentReady :: "crd_api \<Rightarrow> TemporalDevServer \<Rightarrow> bool result act" where
  "dev_deploymentReady A dev = do {
     r \<leftarrow> getDeployment (ca_kube A) (dev_Namespace dev) (dev_Name dev);
     State_Monad.return (case r of
       Inl e \<Rightarrow> if isNotFound e then Inr False else Inl e
     | Inr d \<Rightarrow> Inr (dep_ReadyReplicas d \<ge> 1))
   }"

definition dev_setReady :: "crd_api \<Rightarrow> TemporalDevServer \<Rightarrow> ConditionStatus \<Rightarrow> string \<Rightarrow> string \<Rightarrow> TemporalDevServer" where
  "dev_setReady A dev st reason message =
     dev \<lparr>dev_Status := (dev_Status dev)
       \<lparr>devst_Conditions := setStatusCondition (ca_meta A) (devst_Conditions (dev_Status dev))
          (readyCondition (dev_Meta dev) st reason message)\<rparr>\<rparr>"

definition dev_statusUpdate :: "crd_api \<Rightarrow> TemporalDevServer \<Rightarrow> TemporalDevServer outcome act" where
  "dev_statusUpdate A dev = do {
     e \<leftarrow> statusUpdate (ca_kube A) ''TemporalDevServer'' (dev_Namespace dev) (dev_Name dev);
     State_Monad.return (case e of
       None \<Rightarrow> (Some dev, noResult, None)
     | Some er \<Rightarrow> (None, noResult, if isConflict er then None else ignoreNotFound er))
   }"

definition dev_observed :: "crd_api \<Rightarrow> TemporalDevServer \<Rightarrow> bool \<Rightarrow> TemporalDevServer" where
  "dev_observed A dev ready =
     (let dev1 = dev \<lparr>dev_Status := (dev_Status dev)
            \<lparr>devst_ObservedGeneration := om_Generation (dev_Meta dev), devst_Version := DevServerServerVersion dev,
             devst_Endpoints := \<lparr>dse_Frontend = DevServerFrontendEndpoint dev,
               dse_UI = (if devUIEnabled dev then DevServerUIEndpoint dev else [])\<rparr>,
             devst_Phase := (if ready then ''Ready'' else ''Pending'')\<rparr>\<rparr>
      in if ready then dev_setReady A dev1 ConditionTrue ''Available'' ''dev server is ready''
         else dev_setReady A dev1 ConditionFalse ''Reconciling'' ''waiting for the dev server pod to become ready'')"

definition reconcileDevServer :: "crd_api \<Rightarrow> TemporalDevServer \<Rightarrow> TemporalDevServer outcome act" where
  "reconcileDevServer A dev =
     (case DevServerImage dev of
        Inl e \<Rightarrow>
          dev_statusUpdate A (dev_setReady A (dev \<lparr>dev_Status := (dev_Status dev)
              \<lparr>devst_ObservedGeneration := om_Generation (dev_Meta dev), devst_Phase := ''Failed''\<rparr>\<rparr>)
            ConditionFalse ''VersionUnsupported'' (err_text e))
      | Inr img \<Rightarrow> do {
          ae \<leftarrow> dev_applyAll A dev (dev_objects dev img);
          case ae of
            Some e \<Rightarrow> failed e
          | None \<Rightarrow> do {
              r \<leftarrow> dev_deploymentReady A dev;
              case r of
                Inl e \<Rightarrow> failed e
              | Inr ready \<Rightarrow> dev_statusUpdate A (dev_observed A dev ready)
            }
        })"

definition ReconcileDevServer :: "crd_api \<Rightarrow> string \<Rightarrow> string \<Rightarrow> TemporalDevServer outcome act" where
  "ReconcileDevServer A nsn name = do {
     r \<leftarrow> perform (CGet ''TemporalDevServer'' nsn name) (\<lambda>tr. ca_GetDevServer A tr nsn name);
     case r of Inl e \<Rightarrow> finished noResult (ignoreNotFound e) | Inr dev \<Rightarrow> reconcileDevServer A dev
   }"

section \<open>Client credentials\<close>

definition cc_setReady ::
  "crd_api \<Rightarrow> TemporalClusterClient \<Rightarrow> ConditionStatus \<Rightarrow> string \<Rightarrow> string \<Rightarrow> TemporalClusterClient" where
  "cc_setReady A cc st reason message =
     cc \<lparr>tcc_Status := (tcc_Status cc)
       \<lparr>tccst_ObservedGeneration := om_Generation (tcc_Meta cc),
        tccst_Conditions := setStatusCondition (ca_meta A) (tccst_Conditions (tcc_Status cc))
          (readyCondition (tcc_Meta cc) st reason message)\<rparr>\<rparr>"

text \<open>Here a missing object is reported as an error.\<close>

definition cc_statusUpdate :: "crd_api \<Rightarrow> TemporalClusterClient \<Rightarrow> TemporalClusterClient outcome act" where
  "cc_statusUpdate A cc = do {
     e \<leftarrow> statusUpdate (ca_kube A) ''TemporalClusterClient'' (om_Namespace (tcc_Meta cc)) (om_Name (tcc_Meta cc));
     State_Monad.return (case e of
       None \<Rightarrow> (Some cc, noResult, None)
     | Some er \<Rightarrow> (None, noResult, if isConflict er then None else Some er))
   }"

definition cc_certificateReady :: "crd_api \<Rightarrow> TemporalClusterClient \<Rightarrow> bool act" where
  "cc_certificateReady A cc = do {
     r \<leftarrow> getCertificate (ca_kube A) (om_Namespace (tcc_Meta cc)) (om_Name (tcc_Meta cc));
     State_Monad.return (case r of
       Inl _ \<Rightarrow> False
     | Inr crt \<Rightarrow> list_ex (\<lambda>c. cc_Type c = ''Ready'' \<and> cc_Status c = ConditionTrue) (crt_Conditions crt))
   }"

definition reconcileClusterClient :: "crd_api \<Rightarrow> TemporalClusterClient \<Rightarrow> TemporalClusterClient outcome act" where
  "reconcileClusterClient A cc =
     (if cref_Kind (tcc_ClusterRef (tcc_Spec cc)) = ClusterKindTemporalDevServer then
        cc_statusUpdate A (cc_setReady A cc ConditionFalse ''DevServerUnsupported''
          ''client credentials are only available for mTLS-enabled TemporalClusters'')
      else do {
        r \<leftarrow> getCluster (ca_kube A) (om_Namespace (tcc_Meta cc)) (cref_Name (tcc_ClusterRef (tcc_Spec cc)));
        case r of
          Inl e \<Rightarrow>
            if isNotFound e then
              cc_statusUpdate A (cc_setReady A cc ConditionFalse ''ClusterNotFound'' ''referenced TemporalCluster not found'')
            else failed e
        | Inr cluster \<Rightarrow>
            if (case spec_MTLS (tc_Spec cluster) of None \<Rightarrow> True | Some m \<Rightarrow> mtls_IssuerRef m = None) then
              cc_statusUpdate A (cc_setReady A cc ConditionFalse ''ClusterMTLSDisabled'' ''cluster does not have mTLS enabled'')
            else
        (case BuildClientCertificate cc cluster of
          Inl e \<Rightarrow> failed e
        | Inr cert \<Rightarrow>
        (case k_SetControllerReference (ca_kube A) (tcc_Meta cc) (OCertificate cert) of
          Inl e \<Rightarrow> failed e
        | Inr owned \<Rightarrow> do {
            ae \<leftarrow> serverSideApply (ca_kube A) owned;
            case ae of
              Some e \<Rightarrow> failed e
            | None \<Rightarrow>
                (let cc1 = cc \<lparr>tcc_Status := (tcc_Status cc) \<lparr>tccst_SecretRef := Some (ClientSecretName cc)\<rparr>\<rparr> in do {
                   ready \<leftarrow> cc_certificateReady A cc1;
                   cc_statusUpdate A
                     (if ready then cc_setReady A cc1 ConditionTrue ''CertificateReady'' ''client credentials are ready''
                      else cc_setReady A cc1 ConditionFalse ''Reconciling'' ''waiting for the client certificate to be issued'')
                 })
          }))
      })"

definition ReconcileClusterClient :: "crd_api \<Rightarrow> string \<Rightarrow> string \<Rightarrow> TemporalClusterClient outcome act" where
  "ReconcileClusterClient A nsn name = do {
     r \<leftarrow> perform (CGet ''TemporalClusterClient'' nsn name) (\<lambda>tr. ca_GetClusterClient A tr nsn name);
     case r of Inl e \<Rightarrow> finished noResult (ignoreNotFound e) | Inr cc \<Rightarrow> reconcileClusterClient A cc
   }"

end
