(* ===== verification/Dashboard_Pages.thy ===== *)
theory Dashboard_Pages
  imports Operator_Ui
begin

text \<open>
  The pages of the dashboard (\<^verbatim>\<open>src/internal/ui/components\<close>, \<^verbatim>\<open>layouts\<close> and \<^verbatim>\<open>pages\<close>, the generated
  \<^verbatim>\<open>*_templ.go\<close>), and a scanner of the markup they write.  The runtime of the template engine is third-party
  code and a parameter: its writes, its escaping functions and its errors.  A component writes to a buffer
  and stops at its first error; every literal keeps its number, and every error its position, from the source.
  Whatever strings the view models hold, the pages are well nested, and the only scripts in them are the
  three of the layout.
\<close>

section \<open>The runtime of the templates\<close>

record templ_runtime =
  tr_WriteString :: "string \<Rightarrow> nat \<Rightarrow> string \<Rightarrow> string \<times> err option"
  tr_BufferWrite :: "string \<Rightarrow> string \<Rightarrow> string \<times> err option"
  tr_EscapeString :: "string \<Rightarrow> string"
  tr_JoinStringErrs :: "string \<Rightarrow> string result"
  tr_JoinURLErrs :: "string \<Rightarrow> string result"
  tr_ResolveAttributeValue :: "string \<Rightarrow> string result"
  tr_CSSClasses :: "string list \<Rightarrow> string"
  tr_RenderCSSItems :: "string \<Rightarrow> string list \<Rightarrow> string \<times> err option"
  tr_ReleaseBuffer :: "string \<Rightarrow> string \<times> err option"
  tr_Error :: "string \<Rightarrow> nat \<Rightarrow> nat \<Rightarrow> err \<Rightarrow> err"

text \<open>What writes to a buffer: its new contents and the error that ended the writing.\<close>

type_synonym body = "string \<Rightarrow> string \<times> err option"

text \<open>
  The context of a rendering: whether it is cancelled, which may change while the buffer grows, and the
  children of the layout.
\<close>

record page_ctx =
  px_Err :: "string \<Rightarrow> err option"
  px_Children :: "body option"

type_synonym component = "page_ctx \<Rightarrow> body"

fun steps :: "body list \<Rightarrow> body" where
  "steps [] buf = (buf, None)"
| "steps (m # ms) buf = (case m buf of (buf', Some e) \<Rightarrow> (buf', Some e) | (buf', None) \<Rightarrow> steps ms buf')"

definition markup :: "templ_runtime \<Rightarrow> nat \<Rightarrow> string \<Rightarrow> body" where
  "markup T i s buf = tr_WriteString T buf i s"

definition textValue :: "templ_runtime \<Rightarrow> (err \<Rightarrow> err) \<Rightarrow> string \<Rightarrow> body" where
  "textValue T pos s buf =
     (case tr_JoinStringErrs T s of
        Inl e \<Rightarrow> (buf, Some (pos e))
      | Inr v \<Rightarrow> tr_BufferWrite T buf (tr_EscapeString T v))"

definition urlValue :: "templ_runtime \<Rightarrow> (err \<Rightarrow> err) \<Rightarrow> string \<Rightarrow> body" where
  "urlValue T pos s buf =
     (case tr_JoinURLErrs T s of
        Inl e \<Rightarrow> (buf, Some (pos e))
      | Inr v \<Rightarrow> tr_BufferWrite T buf (tr_EscapeString T v))"

definition attrValue :: "templ_runtime \<Rightarrow> (err \<Rightarrow> err) \<Rightarrow> string \<Rightarrow> body" where
  "attrValue T pos s buf =
     (case tr_ResolveAttributeValue T s of
        Inl e \<Rightarrow> (buf, Some (pos e))
      | Inr v \<Rightarrow> tr_BufferWrite T buf v)"

definition cssItems :: "templ_runtime \<Rightarrow> string list \<Rightarrow> body" where
  "cssItems T cs buf = tr_RenderCSSItems T buf cs"

text \<open>A generated template checks the context, takes the children from it and clears them for what it renders.\<close>

definition generated :: "(body \<Rightarrow> page_ctx \<Rightarrow> body) \<Rightarrow> component" where
  "generated f ctx buf =
     (case px_Err ctx buf of
        Some e \<Rightarrow> (buf, Some e)
      | None \<Rightarrow> f (case px_Children ctx of None \<Rightarrow> steps [] | Some c \<Rightarrow> c) (ctx \<lparr>px_Children := None\<rparr>) buf)"

definition withChildren :: "body \<Rightarrow> page_ctx \<Rightarrow> page_ctx" where
  "withChildren c ctx = ctx \<lparr>px_Children := Some c\<rparr>"

text \<open>Rendering to a writer that is not a buffer: the buffer is released at the end, also after an error.\<close>

definition renderTo :: "templ_runtime \<Rightarrow> component \<Rightarrow> page_ctx \<Rightarrow> string \<times> err option" where
  "renderTo T c ctx =
     (let (buf, e) = c ctx []; (sent, be) = tr_ReleaseBuffer T buf
      in (sent, case e of None \<Rightarrow> be | Some _ \<Rightarrow> e))"

section \<open>Components\<close>

definition badge_templ :: string where
  "badge_templ = ''internal/ui/components/badge.templ''"

definition cluster_card_templ :: string where
  "cluster_card_templ = ''internal/ui/components/cluster_card.templ''"

definition service_table_templ :: string where
  "service_table_templ = ''internal/ui/components/service_table.templ''"

definition condition_list_templ :: string where
  "condition_list_templ = ''internal/ui/components/condition_list.templ''"

definition persistence_panel_templ :: string where
  "persistence_panel_templ = ''internal/ui/components/persistence_panel.templ''"

definition endpoints_panel_templ :: string where
  "endpoints_panel_templ = ''internal/ui/components/endpoints_panel.templ''"

definition related_resources_templ :: string where
  "related_resources_templ = ''internal/ui/components/related_resources.templ''"

definition base_templ :: string where
  "base_templ = ''internal/ui/layouts/base.templ''"

definition overview_templ :: string where
  "overview_templ = ''internal/ui/pages/overview.templ''"

definition cluster_detail_templ :: string where
  "cluster_detail_templ = ''internal/ui/pages/cluster_detail.templ''"

fun badgeState :: "BadgeState \<Rightarrow> string" where
  "badgeState BadgeOK = ''ok''"
| "badgeState BadgeWarn = ''warn''"
| "badgeState BadgeError = ''error''"
| "badgeState BadgePending = ''pending''"
| "badgeState BadgeUnknown = ''unknown''"

definition badgeClass :: "BadgeState \<Rightarrow> string" where
  "badgeClass s = ''badge '' @ badgeState s"

fun badgeText :: "BadgeState \<Rightarrow> string" where
  "badgeText BadgeOK = ''OK''"
| "badgeText BadgeWarn = ''Degraded''"
| "badgeText BadgeError = ''Error''"
| "badgeText BadgePending = ''Pending''"
| "badgeText BadgeUnknown = ''Unknown''"

definition replicaText :: "ServiceRow \<Rightarrow> string" where
  "replicaText r = itoa (row_Ready r) @ ''/'' @ itoa (row_Desired r)"

definition Badge :: "templ_runtime \<Rightarrow> BadgeState \<Rightarrow> component" where
  "Badge T s = generated (\<lambda>_ ctx. steps [
    cssItems T [badgeClass s],
    markup T 1 ''<span class=\"'',
    attrValue T (tr_Error T badge_templ 1 0) (tr_CSSClasses T [badgeClass s]),
    markup T 2 ''\">'',
    textValue T (tr_Error T badge_templ 41 45) (badgeText s),
    markup T 3 ''</span>''])"

definition BadgeLabel :: "templ_runtime \<Rightarrow> BadgeState \<Rightarrow> string \<Rightarrow> component" where
  "BadgeLabel T s label = generated (\<lambda>_ ctx. steps [
    cssItems T [badgeClass s],
    markup T 4 ''<span class=\"'',
    attrValue T (tr_Error T badge_templ 1 0) (tr_CSSClasses T [badgeClass s]),
    markup T 5 ''\">'',
    textValue T (tr_Error T badge_templ 45 38) label,
    markup T 6 ''</span>''])"

definition ClusterCard :: "templ_runtime \<Rightarrow> string \<Rightarrow> ClusterSummary \<Rightarrow> component" where
  "ClusterCard T basePath c = generated (\<lambda>_ ctx. steps [
    markup T 1 ''<div class=\"card\"><h3><a href=\"'',
    urlValue T (tr_Error T cluster_card_templ 28 77) (JoinPath basePath (''/clusters/'' @ cs_Namespace c @ ''/'' @ cs_Name c)),
    markup T 2 ''\">'',
    textValue T (tr_Error T cluster_card_templ 29 17) (cs_Namespace c),
    markup T 3 ''/'',
    textValue T (tr_Error T cluster_card_templ 29 28) (cs_Name c),
    markup T 4 ''</a></h3><div class=\"kv\"><div>Status</div><div>'',
    Badge T (cs_Ready c) ctx,
    markup T 5 ''<span class=\"muted\">'',
    textValue T (tr_Error T cluster_card_templ 33 70) (cs_Phase c),
    markup T 6 ''</span></div><div>Version</div><div>'',
    textValue T (tr_Error T cluster_card_templ 34 37) (cs_Version c),
    markup T 7 ''</div><div>Shards</div><div>'',
    textValue T (tr_Error T cluster_card_templ 35 54) (itoa (cs_Shards c)),
    markup T 8 ''</div><div>Persistence</div><div>'',
    Badge T (cs_Persistence c) ctx,
    markup T 9 ''</div>'',
    (if cs_MTLSEnabled c then steps [
        markup T 10 ''<div>mTLS</div><div>'',
        Badge T (cs_MTLS c) ctx,
        markup T 11 ''</div>'']
     else steps []),
    (if cs_Upgrading c then steps [
        markup T 12 ''<div>Upgrade</div><div>'',
        BadgeLabel T BadgePending ''in progress'' ctx,
        markup T 13 ''</div>'']
     else steps []),
    markup T 14 ''<div>Age</div><div class=\"muted\">'',
    textValue T (tr_Error T cluster_card_templ 43 43) (cs_Age c),
    markup T 15 ''</div></div></div>''])"

definition ServiceTable :: "templ_runtime \<Rightarrow> ServiceRow list \<Rightarrow> component" where
  "ServiceTable T rows = generated (\<lambda>_ ctx. steps [
    (if rows = [] then steps [
        markup T 1 ''<p class=\"muted\">No service status reported yet.</p>'']
     else steps [
        markup T 2 ''<table><thead><tr><th>Service</th><th>Ready</th><th>State</th></tr></thead> <tbody>'',
        steps (map (\<lambda>r. steps [
            markup T 3 ''<tr><td>'',
            textValue T (tr_Error T service_table_templ 38 18) (row_Name r),
            markup T 4 ''</td><td>'',
            textValue T (tr_Error T service_table_templ 39 26) (replicaText r),
            markup T 5 ''</td><td>'',
            Badge T (row_State r) ctx,
            markup T 6 ''</td></tr>'']) rows),
        markup T 7 ''</tbody></table>''])])"

definition ConditionList :: "templ_runtime \<Rightarrow> ConditionRow list \<Rightarrow> component" where
  "ConditionList T rows = generated (\<lambda>_ ctx. steps [
    (if rows = [] then steps [
        markup T 1 ''<p class=\"muted\">No conditions reported.</p>'']
     else steps [
        markup T 2 ''<table><thead><tr><th>Type</th><th>State</th><th>Reason</th><th>Message</th></tr></thead> <tbody>'',
        steps (map (\<lambda>r. steps [
            markup T 3 ''<tr><td>'',
            textValue T (tr_Error T condition_list_templ 30 18) (crow_Type r),
            markup T 4 ''</td><td>'',
            Badge T (crow_State r) ctx,
            markup T 5 ''</td><td class=\"muted\">'',
            textValue T (tr_Error T condition_list_templ 32 34) (crow_Reason r),
            markup T 6 ''</td><td class=\"muted\">'',
            textValue T (tr_Error T condition_list_templ 33 35) (crow_Message r),
            markup T 7 ''</td></tr>'']) rows),
        markup T 8 ''</tbody></table>''])])"

definition PersistencePanel :: "templ_runtime \<Rightarrow> PersistenceInfo \<Rightarrow> component" where
  "PersistencePanel T p = generated (\<lambda>_ ctx. steps [
    markup T 1 ''<div class=\"kv\"><div>Reachable</div><div>'',
    Badge T (pi_Reachable p) ctx,
    markup T 2 ''</div><div>Schema</div><div>'',
    Badge T (pi_SchemaReady p) ctx,
    markup T 3 ''</div></div>''])"

definition EndpointsPanel :: "templ_runtime \<Rightarrow> EndpointsInfo \<Rightarrow> component" where
  "EndpointsPanel T e = generated (\<lambda>_ ctx. steps [
    markup T 1 ''<div class=\"kv\">'',
    (if ei_Frontend e \<noteq> [] then steps [
        markup T 2 ''<div>Frontend</div><div>'',
        textValue T (tr_Error T endpoints_panel_templ 24 39) (ei_Frontend e),
        markup T 3 ''</div>'']
     else steps []),
    (if ei_UI e \<noteq> [] then steps [
        markup T 4 ''<div>UI</div><div>'',
        textValue T (tr_Error T endpoints_panel_templ 27 27) (ei_UI e),
        markup T 5 ''</div>'']
     else steps []),
    (if ei_Metrics e \<noteq> [] then steps [
        markup T 6 ''<div>Metrics</div><div>'',
        textValue T (tr_Error T endpoints_panel_templ 30 37) (ei_Metrics e),
        markup T 7 ''</div>'']
     else steps []),
    markup T 8 ''</div>''])"

definition RelatedResources :: "templ_runtime \<Rightarrow> RelatedResource list \<Rightarrow> component" where
  "RelatedResources T items = generated (\<lambda>_ ctx. steps [
    (if items = [] then steps [
        markup T 1 ''<p class=\"muted\">No related resources.</p>'']
     else steps [
        markup T 2 ''<table><thead><tr><th>Kind</th><th>Name</th><th>Ready</th><th>Detail</th></tr></thead> <tbody>'',
        steps (map (\<lambda>r. steps [
            markup T 3 ''<tr><td>'',
            textValue T (tr_Error T related_resources_templ 30 18) (rr_Kind r),
            markup T 4 ''</td><td>'',
            textValue T (tr_Error T related_resources_templ 31 18) (rr_Name r),
            markup T 5 ''</td><td>'',
            Badge T (rr_Ready r) ctx,
            markup T 6 ''</td><td class=\"muted\">'',
            textValue T (tr_Error T related_resources_templ 33 34) (rr_Detail r),
            markup T 7 ''</td></tr>'']) items),
        markup T 8 ''</tbody></table>''])])"

section \<open>The layout\<close>

record View =
  v_Title :: string
  v_BasePath :: string
  v_AssetVer :: string
  v_User :: string
  v_RefreshSecs :: int

definition asset :: "View \<Rightarrow> string \<Rightarrow> string" where
  "asset v name = JoinPath (v_BasePath v) (''/static/'' @ name) @ ''?v='' @ v_AssetVer v"

definition refreshTrigger :: "View \<Rightarrow> string" where
  "refreshTrigger v = ''every '' @ itoa (v_RefreshSecs v) @ ''s [!window.__uiLivePaused], live:resume''"

definition Base :: "templ_runtime \<Rightarrow> View \<Rightarrow> component" where
  "Base T v = generated (\<lambda>children ctx. steps [
    markup T 1 ''<!doctype html><html lang=\"en\"><head><meta charset=\"utf-8\"><meta name=\"viewport\" content=\"width=device-width, initial-scale=1\"><title>'',
    textValue T (tr_Error T base_templ 40 19) (v_Title v),
    markup T 2 ('' '' @ [CHR 0xC2, CHR 0xB7] @ '' temporal-operator</title><link rel=\"stylesheet\" href=\"''),
    urlValue T (tr_Error T base_templ 41 51) (asset v ''app.css''),
    markup T 3 ''\"><script src=\"'',
    attrValue T (tr_Error T base_templ 42 39) (asset v ''htmx.min.js''),
    markup T 4 ''\" defer></script><script src=\"'',
    attrValue T (tr_Error T base_templ 43 41) (asset v ''alpine.min.js''),
    markup T 5 ''\" defer></script><script src=\"'',
    attrValue T (tr_Error T base_templ 44 34) (asset v ''app.js''),
    markup T 6 ''\"></script></head><body><header class=\"app\"><a class=\"brand\" href=\"'',
    urlValue T (tr_Error T base_templ 48 56) (JoinPath (v_BasePath v) ''/''),
    markup T 7 (''\">temporal-operator</a><div class=\"meta\" x-data x-init=\"$store.live.stamp()\"><span class=\"live\" title=\"Auto-refresh\"><span class=\"dot\" x-bind:class=\"$store.live.paused ? 'paused' : 'on'\" aria-hidden=\"true\"></span> <span class=\"muted\">Updated <span x-text=\"$store.live.last || '' @ [CHR 0x27] @ [CHR 0xE2, CHR 0x80, CHR 0x94] @ [CHR 0x27] @ ''\"></span></span> <button type=\"button\" class=\"btn\" x-on:click=\"$store.live.toggle()\" x-bind:aria-pressed=\"$store.live.paused\" x-text=\"$store.live.paused ? 'Resume' : 'Pause'\">Pause</button></span> <span class=\"muted\">''),
    (if v_User v \<noteq> [] then steps [
        markup T 8 ''Signed in as '',
        textValue T (tr_Error T base_templ 63 28) (v_User v)]
     else steps [
        markup T 9 ''Not authenticated'']),
    markup T 10 ''</span></div></header><main>'',
    children,
    markup T 11 ''</main></body></html>''])"

section \<open>Pages\<close>

text \<open>The children of the layout see the context of the page, with its own children cleared.\<close>

definition OverviewGrid :: "templ_runtime \<Rightarrow> string \<Rightarrow> ClusterSummary list \<Rightarrow> component" where
  "OverviewGrid T basePath clusters = generated (\<lambda>_ ctx. steps [
    (if clusters = [] then steps [
        markup T 1 ''<div class=\"empty\">No TemporalClusters found.</div>'']
     else steps [
        markup T 2 ''<div class=\"grid\">'',
        steps (map (\<lambda>c. steps [
            ClusterCard T basePath c ctx]) clusters),
        markup T 3 ''</div>''])])"

definition overviewBody :: "templ_runtime \<Rightarrow> View \<Rightarrow> ClusterSummary list \<Rightarrow> page_ctx \<Rightarrow> body" where
  "overviewBody T v clusters ctx = steps [
    markup T 4 ''<h2>Clusters</h2><div data-live hx-get=\"'',
    attrValue T (tr_Error T overview_templ 45 57) (JoinPath (v_BasePath v) ''/partials/clusters''),
    markup T 5 ''\" hx-trigger=\"'',
    attrValue T (tr_Error T overview_templ 46 98) (refreshTrigger v),
    markup T 6 ''\" hx-swap=\"innerHTML\">'',
    OverviewGrid T (v_BasePath v) clusters ctx,
    markup T 7 ''</div>'']"

definition Overview :: "templ_runtime \<Rightarrow> View \<Rightarrow> ClusterSummary list \<Rightarrow> component" where
  "Overview T v clusters = generated (\<lambda>_ ctx. steps [
    Base T v (withChildren (overviewBody T v clusters ctx) ctx)])"

text \<open>The banner of a running upgrade, the first part of \<^verbatim>\<open>DetailBody\<close>.\<close>

definition upgradeBanner :: "templ_runtime \<Rightarrow> UpgradeInfo \<Rightarrow> body" where
  "upgradeBanner T u =
    (if ui_Active u then steps [
        markup T 1 ''<div class=\"banner\">Upgrading '',
        textValue T (tr_Error T cluster_detail_templ 31 36) (ui_FromVersion u),
        markup T 2 ('' '' @ [CHR 0xE2, CHR 0x86, CHR 0x92] @ '' ''),
        textValue T (tr_Error T cluster_detail_templ 31 64) (ui_ToVersion u),
        markup T 3 '' ('',
        textValue T (tr_Error T cluster_detail_templ 31 85) (ui_Phase u),
        markup T 4 ''). '',
        (if ui_Rollbackable u then steps [
            markup T 5 ''<span class=\"muted\">Rollback still possible.</span>'']
         else steps [
            markup T 6 ''<span class=\"muted\">Rollback no longer possible.</span>'']),
        markup T 7 ''</div>'']
     else steps [])"

definition DetailBody :: "templ_runtime \<Rightarrow> ClusterDetail \<Rightarrow> component" where
  "DetailBody T d = generated (\<lambda>_ ctx. steps [
    upgradeBanner T (cd_Upgrade d),
    markup T 8 ''<div class=\"card\"><h3>Overview</h3><div class=\"kv\"><div>Status</div><div>'',
    Badge T (cs_Ready (cd_Summary d)) ctx,
    markup T 9 ''<span class=\"muted\">'',
    textValue T (tr_Error T cluster_detail_templ 42 81) (cs_Phase (cd_Summary d)),
    markup T 10 ''</span></div><div>Version</div><div>'',
    textValue T (tr_Error T cluster_detail_templ 43 37) (cs_Version (cd_Summary d)),
    markup T 11 ''</div><div>Shards</div><div>'',
    textValue T (tr_Error T cluster_detail_templ 44 54) (itoa (cs_Shards (cd_Summary d))),
    markup T 12 ''</div>'',
    (if cs_MTLSEnabled (cd_Summary d) then steps [
        markup T 13 ''<div>mTLS</div><div>'',
        Badge T (cs_MTLS (cd_Summary d)) ctx,
        markup T 14 ''</div>'']
     else steps []),
    markup T 15 ''</div></div><div class=\"card\"><h3>Services</h3>'',
    ServiceTable T (cd_Services d) ctx,
    markup T 16 ''</div><div class=\"card\"><h3>Persistence</h3>'',
    PersistencePanel T (cd_Persistence d) ctx,
    markup T 17 ''</div>'',
    (if HasAny (cd_Endpoints d) then steps [
        markup T 18 ''<div class=\"card\"><h3>Endpoints</h3>'',
        EndpointsPanel T (cd_Endpoints d) ctx,
        markup T 19 ''</div>'']
     else steps []),
    markup T 20 ''<div class=\"card\"><h3>Conditions</h3>'',
    ConditionList T (cd_Conditions d) ctx,
    markup T 21 ''</div><div class=\"card\"><h3>Related resources</h3>'',
    RelatedResources T (cd_Related d) ctx,
    markup T 22 ''</div>''])"

definition clusterDetailPageBody :: "templ_runtime \<Rightarrow> View \<Rightarrow> ClusterDetail \<Rightarrow> page_ctx \<Rightarrow> body" where
  "clusterDetailPageBody T v d ctx = steps [
    markup T 23 ''<p><a href=\"'',
    urlValue T (tr_Error T cluster_detail_templ 61 43) (JoinPath (v_BasePath v) ''/''),
    markup T 24 (''\">'' @ [CHR 0xE2, CHR 0x86, CHR 0x90] @ '' All clusters</a></p><h2>''),
    textValue T (tr_Error T cluster_detail_templ 62 19) (cs_Namespace (cd_Summary d)),
    markup T 25 ''/'',
    textValue T (tr_Error T cluster_detail_templ 62 30) (cs_Name (cd_Summary d)),
    markup T 26 ''</h2><div data-live hx-get=\"'',
    attrValue T (tr_Error T cluster_detail_templ 65 87) (JoinPath (v_BasePath v) (''/partials/clusters/'' @ cs_Namespace (cd_Summary d) @ ''/'' @ cs_Name (cd_Summary d))),
    markup T 27 ''\" hx-trigger=\"'',
    attrValue T (tr_Error T cluster_detail_templ 66 98) (refreshTrigger v),
    markup T 28 ''\" hx-swap=\"innerHTML\">'',
    DetailBody T d ctx,
    markup T 29 ''</div>'']"

definition ClusterDetailPage :: "templ_runtime \<Rightarrow> View \<Rightarrow> ClusterDetail \<Rightarrow> component" where
  "ClusterDetailPage T v d = generated (\<lambda>_ ctx. steps [
    Base T v (withChildren (clusterDetailPageBody T v d ctx) ctx)])"

section \<open>A scanner of markup\<close>

text \<open>
  The scanner reads text, tags and double-quoted attribute values, and keeps the stack of the elements
  that are open and the number of scripts seen.  It rejects a closing tag that does not close the innermost
  element and stray angle brackets.
\<close>

datatype scan_mode = InText | InTag string | InAttrs string | InValue string | InClose string

type_synonym scan_state = "scan_mode \<times> string list \<times> nat"

definition voidElements :: "string list" where
  "voidElements = [''!doctype'', ''meta'', ''link'']"

definition openElement :: "string \<Rightarrow> string list \<Rightarrow> nat \<Rightarrow> scan_state option" where
  "openElement n st k =
     (if n = [] then None
      else if n \<in> set voidElements then Some (InText, st, k)
      else Some (InText, n # st, if n = ''script'' then Suc k else k))"

fun scanChar :: "scan_state \<Rightarrow> char \<Rightarrow> scan_state option" where
  "scanChar (InText, st, k) c =
     (if c = CHR ''<'' then Some (InTag [], st, k) else if c = CHR ''>'' then None else Some (InText, st, k))"
| "scanChar (InTag n, st, k) c =
     (if c = CHR ''/'' \<and> n = [] then Some (InClose [], st, k)
      else if c = CHR ''>'' then openElement n st k
      else if c = CHR '' '' then Some (InAttrs n, st, k)
      else if c = CHR ''<'' \<or> c = CHR 0x22 then None
      else Some (InTag (n @ [c]), st, k))"
| "scanChar (InAttrs n, st, k) c =
     (if c = CHR 0x22 then Some (InValue n, st, k)
      else if c = CHR ''>'' then openElement n st k
      else if c = CHR ''<'' then None
      else Some (InAttrs n, st, k))"
| "scanChar (InValue n, st, k) c =
     (if c = CHR 0x22 then Some (InAttrs n, st, k)
      else if c = CHR ''<'' \<or> c = CHR ''>'' then None
      else Some (InValue n, st, k))"
| "scanChar (InClose n, st, k) c =
     (if c = CHR ''>'' then (case st of [] \<Rightarrow> None | m # st' \<Rightarrow> if m = n then Some (InText, st', k) else None)
      else if c = CHR ''<'' then None
      else Some (InClose (n @ [c]), st, k))"

fun scan :: "scan_state \<Rightarrow> string \<Rightarrow> scan_state option" where
  "scan s [] = Some s"
| "scan s (c # cs) = (case scanChar s c of None \<Rightarrow> None | Some s' \<Rightarrow> scan s' cs)"

text \<open>Markup in which every element is closed, with the given number of scripts.\<close>

definition wellNested :: "string \<Rightarrow> nat \<Rightarrow> bool" where
  "wellNested html k \<longleftrightarrow> scan (InText, [], 0) html = Some (InText, [], k)"

lemma scan_append: "scan s (xs @ ys) = (case scan s xs of None \<Rightarrow> None | Some s' \<Rightarrow> scan s' ys)"
  by (induction xs arbitrary: s) (auto split: option.splits)

text \<open>Text without angle brackets and quotes leaves the scanner where it is.\<close>

definition clean :: "string \<Rightarrow> bool" where
  "clean s \<longleftrightarrow> CHR ''<'' \<notin> set s \<and> CHR ''>'' \<notin> set s \<and> CHR 0x22 \<notin> set s"

lemma scan_clean: "clean s \<Longrightarrow> scan (InText, st, k) s = Some (InText, st, k)" "clean s \<Longrightarrow> scan (InValue n, st, k) s = Some (InValue n, st, k)"
  by (induction s) (auto simp: clean_def)

section \<open>What a component sends\<close>

text \<open>The documented behaviour of the runtime when the writer accepts everything.\<close>

definition templ_laws :: "templ_runtime \<Rightarrow> bool" where
  "templ_laws T \<longleftrightarrow>
     (\<forall>b i s. tr_WriteString T b i s = (b @ s, None)) \<and> (\<forall>b s. tr_BufferWrite T b s = (b @ s, None)) \<and>
     (\<forall>s. clean (tr_EscapeString T s)) \<and> (\<forall>s. tr_JoinStringErrs T s = Inr s) \<and>
     (\<forall>s. \<exists>u. tr_JoinURLErrs T s = Inr u) \<and> (\<forall>s. \<exists>v. tr_ResolveAttributeValue T s = Inr v \<and> clean v) \<and>
     (\<forall>b cs. tr_RenderCSSItems T b cs = (b, None)) \<and> (\<forall>b. tr_ReleaseBuffer T b = (b, None))"

definition sends :: "body \<Rightarrow> scan_state \<Rightarrow> scan_state \<Rightarrow> bool" where
  "sends m s s' \<longleftrightarrow> (\<forall>buf. \<exists>txt. m buf = (buf @ txt, None) \<and> scan s txt = Some s')"

named_theorems sends_rules \<open>what the building blocks of a page send\<close>

lemma sends_Nil [sends_rules]: "sends (steps []) s s"
  by (simp add: sends_def)

lemma sends_Cons [sends_rules]:
  assumes "sends m s s1" "sends (steps ms) s1 s2"
  shows "sends (steps (m # ms)) s s2"
  unfolding sends_def
proof
  fix buf
  obtain t1 where t1: "m buf = (buf @ t1, None)" "scan s t1 = Some s1" using assms(1) by (auto simp: sends_def)
  obtain t2 where t2: "steps ms (buf @ t1) = ((buf @ t1) @ t2, None)" "scan s1 t2 = Some s2" using assms(2) unfolding sends_def by blast
  show "\<exists>txt. steps (m # ms) buf = (buf @ txt, None) \<and> scan s txt = Some s2"
    by (rule exI [of _ "t1 @ t2"]) (simp add: t1 t2 scan_append)
qed

lemma sends_map [sends_rules]:
  assumes "\<And>x. x \<in> set xs \<Longrightarrow> sends (f x) s s"
  shows "sends (steps (map f xs)) s s"
  using assms by (induction xs) (auto intro: sends_Nil sends_Cons)

lemma sends_if [sends_rules]: "(c \<Longrightarrow> sends m s s') \<Longrightarrow> (\<not> c \<Longrightarrow> sends m' s s') \<Longrightarrow> sends (if c then m else m') s s'"
  by simp

text \<open>A context that is not cancelled while a page is rendered.\<close>

definition live :: "page_ctx \<Rightarrow> bool" where
  "live ctx \<longleftrightarrow> (\<forall>b. px_Err ctx b = None)"

lemma live_children [sends_rules]: "live ctx \<Longrightarrow> live (ctx \<lparr>px_Children := c\<rparr>)"
  by (simp add: live_def)

lemma sends_generated [sends_rules]:
  assumes "live ctx"
    and "sends (f (case px_Children ctx of None \<Rightarrow> steps [] | Some c \<Rightarrow> c) (ctx \<lparr>px_Children := None\<rparr>)) s s'"
  shows "sends (generated f ctx) s s'"
  using assms by (simp add: sends_def generated_def live_def)

text \<open>Literals are scanned character by character; the rest of the literal need not be visited at each step.\<close>

lemma scan_cong: "s = s' \<Longrightarrow> scan s xs = scan s' xs"
  by simp

lemmas scan_simps = openElement_def voidElements_def scan_append

lemma sends_markup: "templ_laws T \<Longrightarrow> scan s txt = Some s' \<Longrightarrow> sends (markup T i txt) s s'"
  by (simp add: sends_def markup_def templ_laws_def)

lemma sends_css [sends_rules]: "templ_laws T \<Longrightarrow> sends (cssItems T cs) s s"
  by (simp add: sends_def cssItems_def templ_laws_def)

lemma sends_text [sends_rules]: "templ_laws T \<Longrightarrow> sends (textValue T pos v) (InText, st, k) (InText, st, k)"
  by (simp add: sends_def textValue_def templ_laws_def scan_clean)

lemma sends_url [sends_rules]:
  assumes "templ_laws T"
  shows "sends (urlValue T pos v) (InValue n, st, k) (InValue n, st, k)"
proof -
  have "\<exists>u. tr_JoinURLErrs T v = Inr u" using assms by (simp add: templ_laws_def)
  then obtain u where "tr_JoinURLErrs T v = Inr u" ..
  then show ?thesis using assms by (simp add: sends_def urlValue_def templ_laws_def scan_clean)
qed

lemma sends_attr [sends_rules]:
  assumes "templ_laws T"
  shows "sends (attrValue T pos v) (InValue n, st, k) (InValue n, st, k)"
proof -
  have "\<exists>u. tr_ResolveAttributeValue T v = Inr u \<and> clean u" using assms by (simp add: templ_laws_def)
  then obtain u where "tr_ResolveAttributeValue T v = Inr u" "clean u" by blast
  then show ?thesis using assms by (simp add: sends_def attrValue_def templ_laws_def scan_clean)
qed

text \<open>Every component closes what it opens and adds no script.\<close>

lemma sends_Badge [sends_rules]:
  assumes "templ_laws T" "live ctx"
  shows "sends (Badge T s ctx) (InText, st, k) (InText, st, k)"
  unfolding Badge_def
  by (rule sends_rules assms | (rule sends_markup, rule assms(1), simp add: scan_simps cong: scan_cong))+

lemma sends_BadgeLabel [sends_rules]:
  assumes "templ_laws T" "live ctx"
  shows "sends (BadgeLabel T s label ctx) (InText, st, k) (InText, st, k)"
  unfolding BadgeLabel_def
  by (rule sends_rules assms | (rule sends_markup, rule assms(1), simp add: scan_simps cong: scan_cong))+

lemma sends_ClusterCard [sends_rules]:
  assumes "templ_laws T" "live ctx"
  shows "sends (ClusterCard T basePath c ctx) (InText, st, k) (InText, st, k)"
  unfolding ClusterCard_def
  by (rule sends_rules assms | (rule sends_markup, rule assms(1), simp add: scan_simps cong: scan_cong))+

lemma sends_ServiceTable [sends_rules]:
  assumes "templ_laws T" "live ctx"
  shows "sends (ServiceTable T rows ctx) (InText, st, k) (InText, st, k)"
  unfolding ServiceTable_def
  by (rule sends_rules assms | (rule sends_markup, rule assms(1), simp add: scan_simps cong: scan_cong))+

lemma sends_ConditionList [sends_rules]:
  assumes "templ_laws T" "live ctx"
  shows "sends (ConditionList T rows ctx) (InText, st, k) (InText, st, k)"
  unfolding ConditionList_def
  by (rule sends_rules assms | (rule sends_markup, rule assms(1), simp add: scan_simps cong: scan_cong))+

lemma sends_PersistencePanel [sends_rules]:
  assumes "templ_laws T" "live ctx"
  shows "sends (PersistencePanel T p ctx) (InText, st, k) (InText, st, k)"
  unfolding PersistencePanel_def
  by (rule sends_rules assms | (rule sends_markup, rule assms(1), simp add: scan_simps cong: scan_cong))+

lemma sends_EndpointsPanel [sends_rules]:
  assumes "templ_laws T" "live ctx"
  shows "sends (EndpointsPanel T e ctx) (InText, st, k) (InText, st, k)"
  unfolding EndpointsPanel_def
  by (rule sends_rules assms | (rule sends_markup, rule assms(1), simp add: scan_simps cong: scan_cong))+

lemma sends_RelatedResources [sends_rules]:
  assumes "templ_laws T" "live ctx"
  shows "sends (RelatedResources T items ctx) (InText, st, k) (InText, st, k)"
  unfolding RelatedResources_def
  by (rule sends_rules assms | (rule sends_markup, rule assms(1), simp add: scan_simps cong: scan_cong))+

lemma sends_OverviewGrid [sends_rules]:
  assumes "templ_laws T" "live ctx"
  shows "sends (OverviewGrid T basePath clusters ctx) (InText, st, k) (InText, st, k)"
  unfolding OverviewGrid_def
  by (rule sends_rules assms | (rule sends_markup, rule assms(1), simp add: scan_simps cong: scan_cong))+

lemma sends_upgradeBanner [sends_rules]:
  assumes "templ_laws T"
  shows "sends (upgradeBanner T u) (InText, st, k) (InText, st, k)"
  unfolding upgradeBanner_def
  by (rule sends_rules assms | (rule sends_markup, rule assms(1), simp add: scan_simps cong: scan_cong))+

lemma sends_DetailBody [sends_rules]:
  assumes "templ_laws T" "live ctx"
  shows "sends (DetailBody T d ctx) (InText, st, k) (InText, st, k)"
  unfolding DetailBody_def
  by (rule sends_rules assms | (rule sends_markup, rule assms(1), simp add: scan_simps cong: scan_cong))+

text \<open>The layout adds its three scripts around whatever it is given.\<close>

lemma sends_Base:
  assumes "templ_laws T" "live ctx" "\<And>st k. sends children (InText, st, k) (InText, st, k)"
  shows "sends (Base T v (withChildren children ctx)) (InText, st, k) (InText, st, k + 3)"
proof -
  have kids: "sends (case px_Children (withChildren children ctx) of None \<Rightarrow> steps [] | Some c \<Rightarrow> c) (InText, st', k') (InText, st', k')"
    for st' k' using assms(3) by (simp add: withChildren_def)
  have "live (withChildren children ctx)" unfolding withChildren_def by (rule live_children assms)+
  then have "sends (Base T v (withChildren children ctx)) (InText, st, k) (InText, st, Suc (Suc (Suc k)))"
    unfolding Base_def
    by - (rule sends_rules assms(1) kids | assumption | (rule sends_markup, rule assms(1), simp add: scan_simps cong: scan_cong))+
  then show ?thesis by (simp add: numeral_3_eq_3)
qed

lemma sends_page:
  assumes "templ_laws T" "live ctx"
  shows "sends (Overview T v clusters ctx) (InText, st, k) (InText, st, k + 3)"
    "sends (ClusterDetailPage T v d ctx) (InText, st, k) (InText, st, k + 3)"
proof -
  have body: "sends (overviewBody T v clusters (ctx \<lparr>px_Children := None\<rparr>)) (InText, st', k') (InText, st', k')" for st' k'
    unfolding overviewBody_def
    by (rule sends_rules assms | (rule sends_markup, rule assms(1), simp add: scan_simps cong: scan_cong))+
  show "sends (Overview T v clusters ctx) (InText, st, k) (InText, st, k + 3)"
    unfolding Overview_def by (rule sends_rules sends_Base assms body)+
  have body: "sends (clusterDetailPageBody T v d (ctx \<lparr>px_Children := None\<rparr>)) (InText, st', k') (InText, st', k')" for st' k'
    unfolding clusterDetailPageBody_def
    by (rule sends_rules assms | (rule sends_markup, rule assms(1), simp add: scan_simps cong: scan_cong))+
  show "sends (ClusterDetailPage T v d ctx) (InText, st, k) (InText, st, k + 3)"
    unfolding ClusterDetailPage_def by (rule sends_rules sends_Base assms body)+
qed

lemma renderTo_wellNested:
  assumes "templ_laws T" "sends (c ctx) (InText, [], 0) (InText, [], k)"
  shows "\<exists>html. renderTo T c ctx = (html, None) \<and> wellNested html k"
proof -
  obtain html where "c ctx [] = (html, None)" "scan (InText, [], 0) html = Some (InText, [], k)"
    using assms(2) by (auto simp: sends_def dest: spec [of _ "[]"])
  then show ?thesis using assms(1) by (simp add: renderTo_def wellNested_def templ_laws_def)
qed

end
