(* ===== verification/Dashboard_Server.thy ===== *)
theory Dashboard_Server
  imports Dashboard_Pages Backends
begin

text \<open>
  The HTTP server of the dashboard (\<^verbatim>\<open>src/internal/ui/handlers.go\<close>, \<^verbatim>\<open>server.go\<close>, \<^verbatim>\<open>static.go\<close>): its
  patterns with the matching and redirecting of \<^verbatim>\<open>http.ServeMux\<close>, the authentication check, the handlers, and
  the cache headers of the embedded files.  The file server that writes an embedded file, the template
  runtime, the clock, and the status that the library's redirects use, which differs between its versions,
  are fields of the environment.  The content types that the library guesses, and that it sends no body for
  \<^verbatim>\<open>HEAD\<close>, are left out.
\<close>

section \<open>Paths\<close>

text \<open>\<^verbatim>\<open>html.EscapeString\<close>, and the same function inside \<^verbatim>\<open>net/http\<close>.\<close>

definition htmlEscape :: "string \<Rightarrow> string" where
  "htmlEscape s = concat (map (\<lambda>c.
     if c = CHR ''&'' then ''&amp;''
     else if c = CHR 0x27 then ''&#39;''
     else if c = CHR ''<'' then ''&lt;''
     else if c = CHR ''>'' then ''&gt;''
     else if c = CHR 0x22 then ''&#34;''
     else [c]) s)"

definition unescaped :: "string \<Rightarrow> string" where
  "unescaped s = (case urlUnescape s of None \<Rightarrow> s | Some u \<Rightarrow> u)"

text \<open>\<^verbatim>\<open>r.URL.Path\<close> and \<^verbatim>\<open>r.URL.RawPath\<close>, for a path that is validly encoded.\<close>

definition rq_Path :: "request \<Rightarrow> string" where
  "rq_Path r = unescaped (rq_EscapedPath r)"

definition rq_RawPath :: "request \<Rightarrow> string" where
  "rq_RawPath r = (if urlEscape EncodePath (rq_Path r) = rq_EscapedPath r then [] else rq_EscapedPath r)"

text \<open>\<^verbatim>\<open>path.Clean\<close> of a rooted path and \<^verbatim>\<open>cleanPath\<close> of \<^verbatim>\<open>net/http\<close>, which keeps a trailing slash.\<close>

definition cleanSegment :: "string list \<Rightarrow> string \<Rightarrow> string list" where
  "cleanSegment st s =
     (if s = [] \<or> s = ''.'' then st else if s = ''..'' then butlast st else st @ [s])"

definition pathClean :: "string \<Rightarrow> string" where
  "pathClean p = ''/'' @ joinWith ''/'' (foldl cleanSegment [] (split_on (CHR ''/'') p))"

definition keepSlash :: "string \<Rightarrow> string \<Rightarrow> string" where
  "keepSlash p q = (if hasSuffix p ''/'' \<and> \<not> hasSuffix q ''/'' then q @ ''/'' else q)"

definition cleanPath :: "string \<Rightarrow> string" where
  "cleanPath p =
     (if p = [] then ''/''
      else (let p' = (if hd p \<noteq> CHR ''/'' then CHR ''/'' # p else p) in keepSlash p' (pathClean p')))"

section \<open>Patterns (http.ServeMux)\<close>

text \<open>The segments of a pattern: a literal, a wildcard, the end of the path after a slash, or anything.\<close>

datatype seg = SegLit string | SegWild string | SegEnd | SegRest

definition segOf :: "string \<Rightarrow> seg option" where
  "segOf s =
     (if CHR ''{'' \<notin> set s then Some (SegLit (unescaped s))
      else if s = ''{$}'' then Some SegEnd
      else if hd s = CHR ''{'' \<and> last s = CHR ''}'' then Some (SegWild (butlast (tl s)))
      else None)"

fun parseSegs :: "string list \<Rightarrow> seg list option" where
  "parseSegs [] = Some []"
| "parseSegs [s] = (if s = [] then Some [SegRest] else map_option (\<lambda>x. [x]) (segOf s))"
| "parseSegs (s # t # ss) = (case segOf s of None \<Rightarrow> None | Some x \<Rightarrow> map_option ((#) x) (parseSegs (t # ss)))"

definition parsePattern :: "string \<Rightarrow> seg list option" where
  "parsePattern p =
     (case p of
        [] \<Rightarrow> None
      | c # rest \<Rightarrow> if c = CHR ''/'' then parseSegs (split_on (CHR ''/'') rest) else None)"

text \<open>
  The segments of a request's path, each unescaped on its own; a trailing slash is the segment \<^verbatim>\<open>/\<close>, as in the
  source, where an escaped slash that stands alone gives the same segment.
\<close>

definition lastSegment :: "string \<Rightarrow> string" where
  "lastSegment s = (if s = [] then ''/'' else unescaped s)"

definition pathSegs :: "string \<Rightarrow> string list" where
  "pathSegs path =
     (let ps = split_on (CHR ''/'') (tl path) in map unescaped (butlast ps) @ [lastSegment (last ps)])"

fun matchSegs :: "seg list \<Rightarrow> string list \<Rightarrow> (string \<times> string) list option" where
  "matchSegs [] [] = Some []"
| "matchSegs (SegLit l # ps) (s # ss) = (if s = l then matchSegs ps ss else None)"
| "matchSegs (SegEnd # ps) (s # ss) = (if s = ''/'' then matchSegs ps ss else None)"
| "matchSegs (SegWild n # ps) (s # ss) = (if s = ''/'' then None else map_option ((#) (n, s)) (matchSegs ps ss))"
| "matchSegs (SegRest # ps) (s # ss) = Some []"
| "matchSegs _ _ = None"

datatype route =
    RHealthz | RStatic | ROverview | RBase | RClustersPartial | RClusterDetail | RClusterDetailPartial

definition serverPatterns :: "string \<Rightarrow> (string \<times> route) list" where
  "serverPatterns base =
     [(base @ ''/healthz'', RHealthz), (base @ ''/static/'', RStatic), (base @ ''/{$}'', ROverview)] @
     (if base \<noteq> [] then [(base, RBase)] else []) @
     [(base @ ''/partials/clusters'', RClustersPartial), (base @ ''/clusters/{namespace}/{name}'', RClusterDetail),
      (base @ ''/partials/clusters/{namespace}/{name}'', RClusterDetailPartial)]"

text \<open>No two of the patterns match the same path, so the order in which they are tried does not matter.\<close>

fun matchRoute :: "(string \<times> route) list \<Rightarrow> string \<Rightarrow> (route \<times> seg list \<times> (string \<times> string) list) option" where
  "matchRoute [] path = None"
| "matchRoute ((p, h) # ps) path =
     (case parsePattern p of
        None \<Rightarrow> matchRoute ps path
      | Some segs \<Rightarrow>
          (case matchSegs segs (pathSegs path) of
             None \<Rightarrow> matchRoute ps path
           | Some vals \<Rightarrow> Some (h, segs, vals)))"

definition exactMatch :: "(route \<times> seg list \<times> (string \<times> string) list) option \<Rightarrow> string \<Rightarrow> bool" where
  "exactMatch m path =
     (case m of
        None \<Rightarrow> False
      | Some (_, segs, _) \<Rightarrow>
          path \<noteq> [] \<and> last path \<noteq> CHR ''/'' \<or> length segs = length (filter (\<lambda>c. c = CHR ''/'') path))"

datatype dispatch =
    DRoute route "(string \<times> string) list"
  | DRedirect string
  | DMethodNotAllowed
  | DNotFound

definition findHandler :: "(string \<times> route) list \<Rightarrow> request \<Rightarrow> dispatch" where
  "findHandler pats r =
     (let path = (if rq_Method r = ''CONNECT'' then rq_EscapedPath r else cleanPath (rq_EscapedPath r));
          lookup = (\<lambda>p. if rq_Method r = ''GET'' \<or> rq_Method r = ''HEAD'' then matchRoute pats p else None);
          m = lookup path
      in if \<not> exactMatch m path \<and> \<not> hasSuffix path ''/'' \<and> exactMatch (lookup (path @ ''/'')) (path @ ''/'')
         then DRedirect (cleanPath (rq_Path r) @ ''/'')
         else if path \<noteq> rq_EscapedPath r then DRedirect path
         else (case m of
             Some (h, _, vals) \<Rightarrow> DRoute h vals
           | None \<Rightarrow>
               if matchRoute pats path \<noteq> None \<or> \<not> hasSuffix path ''/'' \<and> matchRoute pats (path @ ''/'') \<noteq> None
               then DMethodNotAllowed else DNotFound))"

section \<open>Responses (net/http)\<close>

record response =
  rsp_Status :: int
  rsp_Header :: "string \<rightharpoonup> string"
  rsp_Body :: string

definition htmlType :: string where "htmlType = ''text/html; charset=utf-8''"

definition newline :: string where "newline = [CHR 0x0A]"

definition httpError :: "string \<Rightarrow> int \<Rightarrow> response" where
  "httpError msg code =
     \<lparr>rsp_Status = code,
      rsp_Header = [''Content-Type'' \<mapsto> ''text/plain; charset=utf-8'', ''X-Content-Type-Options'' \<mapsto> ''nosniff''],
      rsp_Body = msg @ newline\<rparr>"

definition notFound :: response where
  "notFound = httpError ''404 page not found'' 404"

definition statusText :: "int \<Rightarrow> string" where
  "statusText code =
     (if code = 301 then ''Moved Permanently'' else if code = 307 then ''Temporary Redirect''
      else if code = 308 then ''Permanent Redirect'' else [])"

definition hexEscapeNonASCII :: "string \<Rightarrow> string" where
  "hexEscapeNonASCII s = concat (map (\<lambda>c. let n = (of_char c :: nat) in
     if 128 \<le> n then [CHR ''%'', hex_digit (n div 16), hex_digit (n mod 16)] else [c]) s)"

text \<open>\<^verbatim>\<open>http.Redirect\<close> to a path of this server that starts with a slash.\<close>

definition httpRedirect :: "request \<Rightarrow> string \<Rightarrow> int \<Rightarrow> response" where
  "httpRedirect r url code =
     (let path = takeWhile (\<lambda>c. c \<noteq> CHR ''?'') url; query = dropWhile (\<lambda>c. c \<noteq> CHR ''?'') url;
          target = keepSlash path (pathClean path) @ query
      in \<lparr>rsp_Status = code,
          rsp_Header = (if rq_Method r = ''GET'' \<or> rq_Method r = ''HEAD''
            then [''Location'' \<mapsto> hexEscapeNonASCII target, ''Content-Type'' \<mapsto> htmlType]
            else [''Location'' \<mapsto> hexEscapeNonASCII target]),
          rsp_Body = (if rq_Method r = ''GET''
            then ''<a href=\"'' @ htmlEscape target @ ''\">'' @ statusText code @ ''</a>.'' @ newline @ newline
            else [])\<rparr>)"

section \<open>Embedded files (static.go)\<close>

text \<open>What a handler does with the writer of a response, and what a response writer of \<^verbatim>\<open>net/http\<close> makes of it.\<close>

datatype rw_op = SetHeader string string | WriteHeader int | WriteBytes string

record rw =
  rw_Header :: "string \<rightharpoonup> string"
  rw_Sent :: "(int \<times> (string \<rightharpoonup> string)) option"
  rw_Body :: string

text \<open>An informational status is sent at once and does not end the header.\<close>

definition rw_WriteHeader :: "int \<Rightarrow> rw \<Rightarrow> rw" where
  "rw_WriteHeader status w =
     (if rw_Sent w \<noteq> None \<or> 100 \<le> status \<and> status \<le> 199 \<and> status \<noteq> 101 then w
      else w \<lparr>rw_Sent := Some (status, rw_Header w)\<rparr>)"

definition rw_Write :: "string \<Rightarrow> rw \<Rightarrow> rw" where
  "rw_Write b w =
     (let w' = (if rw_Sent w = None then rw_WriteHeader 200 w else w) in w' \<lparr>rw_Body := rw_Body w' @ b\<rparr>)"

record cacheControlWriter =
  cc_ResponseWriter :: rw
  cc_wroteHeader :: bool

definition immutableCache :: string where "immutableCache = ''public, max-age=31536000, immutable''"

definition cc_WriteHeader :: "int \<Rightarrow> cacheControlWriter \<Rightarrow> cacheControlWriter" where
  "cc_WriteHeader status w =
     (let w1 = (if \<not> cc_wroteHeader w then
                  (let w0 = w \<lparr>cc_wroteHeader := True\<rparr>; inner = cc_ResponseWriter w0 in
                   if 200 \<le> status \<and> status < 300
                   then w0 \<lparr>cc_ResponseWriter := inner \<lparr>rw_Header := (rw_Header inner)(''Cache-Control'' \<mapsto> immutableCache)\<rparr>\<rparr>
                   else w0)
                else w)
      in w1 \<lparr>cc_ResponseWriter := rw_WriteHeader status (cc_ResponseWriter w1)\<rparr>)"

definition cc_Write :: "string \<Rightarrow> cacheControlWriter \<Rightarrow> cacheControlWriter" where
  "cc_Write b w =
     (let w1 = (if \<not> cc_wroteHeader w then cc_WriteHeader 200 w else w)
      in w1 \<lparr>cc_ResponseWriter := rw_Write b (cc_ResponseWriter w1)\<rparr>)"

fun cc_op :: "cacheControlWriter \<Rightarrow> rw_op \<Rightarrow> cacheControlWriter" where
  "cc_op w (SetHeader k v) =
     w \<lparr>cc_ResponseWriter := (cc_ResponseWriter w) \<lparr>rw_Header := (rw_Header (cc_ResponseWriter w))(k \<mapsto> v)\<rparr>\<rparr>"
| "cc_op w (WriteHeader status) = cc_WriteHeader status w"
| "cc_op w (WriteBytes b) = cc_Write b w"

definition finishResponse :: "rw \<Rightarrow> response" where
  "finishResponse w =
     (case rw_Sent w of
        None \<Rightarrow> \<lparr>rsp_Status = 200, rsp_Header = rw_Header w, rsp_Body = rw_Body w\<rparr>
      | Some (status, header) \<Rightarrow> \<lparr>rsp_Status = status, rsp_Header = header, rsp_Body = rw_Body w\<rparr>)"

definition newWriter :: cacheControlWriter where
  "newWriter = \<lparr>cc_ResponseWriter = \<lparr>rw_Header = Map.empty, rw_Sent = None, rw_Body = []\<rparr>, cc_wroteHeader = False\<rparr>"

definition cacheHeaders :: "rw_op list \<Rightarrow> response" where
  "cacheHeaders ops = finishResponse (cc_ResponseWriter (foldl cc_op newWriter ops))"

text \<open>\<^verbatim>\<open>http.StripPrefix\<close> around the file server, which gets the request and the rest of its path.\<close>

definition StaticHandler :: "(request \<Rightarrow> string \<Rightarrow> rw_op list) \<Rightarrow> string \<Rightarrow> request \<Rightarrow> response" where
  "StaticHandler fileServer prefix r =
     (let p = trimPrefix (rq_Path r) prefix; rp = trimPrefix (rq_RawPath r) prefix in
      if length p < length (rq_Path r) \<and> (rq_RawPath r = [] \<or> length rp < length (rq_RawPath r))
      then cacheHeaders (fileServer r p)
      else notFound)"

text \<open>The version of the assets: the names and contents of the embedded files, in the order of the names.\<close>

definition computeAssetVersion :: "(string \<times> string) list \<Rightarrow> string" where
  "computeAssetVersion files =
     take 12 (hexEncode (sha256 (concat (map (\<lambda>(n, b). n @ b) (sortSlice (\<lambda>x y. fst x < fst y) files)))))"

section \<open>Handlers (handlers.go, server.go)\<close>

record Server =
  srv_opts :: UiOptions
  srv_data :: reader

definition NewServer :: "UiOptions \<Rightarrow> reader \<Rightarrow> Server" where
  "NewServer opts d = \<lparr>srv_opts = Normalize opts, srv_data = d\<rparr>"

record ui_env =
  ue_Templ :: templ_runtime
  ue_Ctx :: page_ctx
  ue_Now :: gotime
  ue_Files :: "(string \<times> string) list"
  ue_FileServer :: "request \<Rightarrow> string \<Rightarrow> rw_op list"
  ue_MuxRedirect :: int

definition srv_basePath :: "Server \<Rightarrow> string" where
  "srv_basePath s = trimSuffix (uo_BasePath (srv_opts s)) ''/''"

definition authMiddleware :: "Server \<Rightarrow> (request \<Rightarrow> response) \<Rightarrow> request \<Rightarrow> response" where
  "authMiddleware s next r =
     (if uo_RequireAuth (srv_opts s) \<and> rq_Path r \<noteq> JoinPath (srv_basePath s) ''/healthz'' \<and>
         \<not> id_Authenticated (IdentityFrom (srv_opts s) r)
      then httpError ''authentication required'' 401
      else next r)"

definition srv_view :: "ui_env \<Rightarrow> Server \<Rightarrow> request \<Rightarrow> string \<Rightarrow> View" where
  "srv_view E s r title =
     \<lparr>v_Title = title, v_BasePath = trimSuffix (uo_BasePath (srv_opts s)) ''/'',
      v_AssetVer = computeAssetVersion (ue_Files E), v_User = id_User (IdentityFrom (srv_opts s) r),
      v_RefreshSecs = uo_RefreshInterval (srv_opts s) div 1000000000\<rparr>"

text \<open>An error of a rendering is logged; what was written before it has been sent.\<close>

definition srv_render :: "ui_env \<Rightarrow> component \<Rightarrow> response" where
  "srv_render E c =
     \<lparr>rsp_Status = 200, rsp_Header = [''Content-Type'' \<mapsto> htmlType],
      rsp_Body = fst (renderTo (ue_Templ E) c (ue_Ctx E))\<rparr>"

definition renderError :: "string \<Rightarrow> response" where
  "renderError action =
     \<lparr>rsp_Status = 500, rsp_Header = [''Content-Type'' \<mapsto> htmlType],
      rsp_Body = ''<div class=\"empty\">Failed to '' @ htmlEscape action @ ''. Check operator logs.</div>''\<rparr>"

definition handleOverview :: "ui_env \<Rightarrow> Server \<Rightarrow> request \<Rightarrow> response" where
  "handleOverview E s r =
     (case ui_ListClusters (srv_data s) (ue_Now E) of
        Inl _ \<Rightarrow> renderError ''load clusters''
      | Inr clusters \<Rightarrow> srv_render E (Overview (ue_Templ E) (srv_view E s r ''Clusters'') clusters))"

definition handleClustersPartial :: "ui_env \<Rightarrow> Server \<Rightarrow> request \<Rightarrow> response" where
  "handleClustersPartial E s r =
     (case ui_ListClusters (srv_data s) (ue_Now E) of
        Inl _ \<Rightarrow> renderError ''load clusters''
      | Inr clusters \<Rightarrow> srv_render E (OverviewGrid (ue_Templ E) (srv_basePath s) clusters))"

definition handleClusterDetail :: "ui_env \<Rightarrow> Server \<Rightarrow> string \<Rightarrow> string \<Rightarrow> request \<Rightarrow> response" where
  "handleClusterDetail E s nsn name r =
     (case ui_GetCluster (srv_data s) (ue_Now E) nsn name of
        Inl e \<Rightarrow> if isNotFound e then httpError ''cluster not found'' 404 else renderError ''load cluster''
      | Inr d \<Rightarrow> srv_render E (ClusterDetailPage (ue_Templ E) (srv_view E s r (cs_Name (cd_Summary d))) d))"

definition handleClusterDetailPartial :: "ui_env \<Rightarrow> Server \<Rightarrow> string \<Rightarrow> string \<Rightarrow> request \<Rightarrow> response" where
  "handleClusterDetailPartial E s nsn name r =
     (case ui_GetCluster (srv_data s) (ue_Now E) nsn name of
        Inl e \<Rightarrow> if isNotFound e then httpError ''cluster not found'' 404 else renderError ''load cluster''
      | Inr d \<Rightarrow> srv_render E (DetailBody (ue_Templ E) d))"

definition PathValue :: "(string \<times> string) list \<Rightarrow> string \<Rightarrow> string" where
  "PathValue vals n = (case map_of vals n of None \<Rightarrow> [] | Some v \<Rightarrow> v)"

definition routeBase :: "Server \<Rightarrow> string" where
  "routeBase s = (if uo_BasePath (srv_opts s) = ''/'' then [] else uo_BasePath (srv_opts s))"

fun serveRoute :: "ui_env \<Rightarrow> Server \<Rightarrow> request \<Rightarrow> route \<Rightarrow> (string \<times> string) list \<Rightarrow> response" where
  "serveRoute E s r RHealthz vals = \<lparr>rsp_Status = 200, rsp_Header = Map.empty, rsp_Body = ''ok''\<rparr>"
| "serveRoute E s r RStatic vals =
     StaticHandler (ue_FileServer E) (JoinPath (uo_BasePath (srv_opts s)) ''/static/'') r"
| "serveRoute E s r ROverview vals = handleOverview E s r"
| "serveRoute E s r RBase vals = httpRedirect r (routeBase s @ ''/'') 301"
| "serveRoute E s r RClustersPartial vals = handleClustersPartial E s r"
| "serveRoute E s r RClusterDetail vals =
     handleClusterDetail E s (PathValue vals ''namespace'') (PathValue vals ''name'') r"
| "serveRoute E s r RClusterDetailPartial vals =
     handleClusterDetailPartial E s (PathValue vals ''namespace'') (PathValue vals ''name'') r"

definition redirectURL :: "request \<Rightarrow> string \<Rightarrow> string" where
  "redirectURL r path = urlEscape EncodePath path @ (if rq_RawQuery r \<noteq> [] then ''?'' @ rq_RawQuery r else [])"

definition serveMux :: "ui_env \<Rightarrow> Server \<Rightarrow> request \<Rightarrow> response" where
  "serveMux E s r =
     (case findHandler (serverPatterns (routeBase s)) r of
        DRoute h vals \<Rightarrow> serveRoute E s r h vals
      | DRedirect path \<Rightarrow> httpRedirect r (redirectURL r path) (ue_MuxRedirect E)
      | DMethodNotAllowed \<Rightarrow>
          (let e = httpError ''Method Not Allowed'' 405 in e \<lparr>rsp_Header := (rsp_Header e)(''Allow'' \<mapsto> ''GET, HEAD'')\<rparr>)
      | DNotFound \<Rightarrow> notFound)"

definition Handler :: "ui_env \<Rightarrow> Server \<Rightarrow> request \<Rightarrow> response" where
  "Handler E s = authMiddleware s (serveMux E s)"

end
