(* ===== verification/Dashboard_Routes.thy ===== *)
theory Dashboard_Routes
  imports Dashboard_Server
begin

text \<open>
  What the server of the dashboard does with a request: which of its patterns can match a path, that the
  links of the pages lead back to the handlers they are meant for, that a request without an identity learns
  nothing about clusters, that everything sent as HTML is well nested, and that only successful responses
  are marked for the cache.
\<close>

section \<open>Paths made of segments\<close>

definition slashed :: "string list \<Rightarrow> string" where
  "slashed ss = concat (map ((#) (CHR ''/'')) ss)"

lemma slashed_simps [simp]: "slashed [] = []" "slashed (s # ss) = CHR ''/'' # s @ slashed ss" "slashed (ss @ ts) = slashed ss @ slashed ts"
  by (simp_all add: slashed_def)

lemma slashed_join: "ss \<noteq> [] \<Longrightarrow> slashed ss = CHR ''/'' # joinWith ''/'' ss"
  by (induction "''/''" ss rule: joinWith.induct) simp_all

lemma slashed_split: "path \<noteq> [] \<Longrightarrow> hd path = CHR ''/'' \<Longrightarrow> path = slashed (split_on (CHR ''/'') (tl path))"
  by (cases path) (simp_all add: slashed_join)

lemma split_slashed: "ss \<noteq> [] \<Longrightarrow> \<forall>s\<in>set ss. CHR ''/'' \<notin> set s \<Longrightarrow> split_on (CHR ''/'') (tl (slashed ss)) = ss"
  by (simp add: slashed_join split_join)

text \<open>A segment without special characters, as in a base path or in the name of a Kubernetes object.\<close>

definition plainSeg :: "string \<Rightarrow> bool" where
  "plainSeg s \<longleftrightarrow> s \<noteq> [] \<and> s \<noteq> ''.'' \<and> s \<noteq> ''..'' \<and> CHR ''/'' \<notin> set s \<and> CHR ''%'' \<notin> set s \<and> CHR ''{'' \<notin> set s"

definition plainBase :: "string \<Rightarrow> bool" where
  "plainBase base \<longleftrightarrow> base = [] \<or> hd base = CHR ''/'' \<and> list_all plainSeg (split_on (CHR ''/'') (tl base))"

lemma plainBaseE:
  assumes "plainBase base"
  obtains bs where "list_all plainSeg bs" "base = slashed bs"
proof (cases "base = []")
  case True
  then show ?thesis by (intro that [of "[]"]) simp_all
next
  case False
  then show ?thesis using assms slashed_split [of base] by (intro that) (auto simp: plainBase_def)
qed

lemma urlUnescape_plain: "CHR ''%'' \<notin> set s \<Longrightarrow> urlUnescape s = Some s"
  by (induction s) auto

lemma unescaped_plain [simp]: "CHR ''%'' \<notin> set s \<Longrightarrow> unescaped s = s"
  by (simp add: unescaped_def urlUnescape_plain)

lemma plainSeg_unescaped: "plainSeg s \<Longrightarrow> unescaped s = s"
  by (simp add: plainSeg_def)

lemma segOf_plain: "plainSeg s \<Longrightarrow> segOf s = Some (SegLit s)"
  by (simp add: plainSeg_def segOf_def)

lemma no_slash_plain: "list_all plainSeg bs \<Longrightarrow> s \<in> set bs \<Longrightarrow> CHR ''/'' \<notin> set s"
  by (auto simp: list_all_iff plainSeg_def)

lemma map_unescaped_plain: "list_all plainSeg bs \<Longrightarrow> map unescaped bs = bs"
  by (induction bs) (simp_all add: plainSeg_unescaped)

text \<open>A slash ends whatever escape was begun before it, so a path is unescaped segment by segment.\<close>

lemma urlUnescape_slash:
  "urlUnescape (p @ CHR ''/'' # s) =
     (case urlUnescape p of None \<Rightarrow> None | Some a \<Rightarrow> map_option (\<lambda>b. a @ CHR ''/'' # b) (urlUnescape s))"
proof (induction p rule: urlUnescape.induct)
  case 1
  show ?case by (cases "urlUnescape s") simp_all
next
  case (2 c p)
  have slash: "unhex (CHR ''/'') = None" by (simp add: unhex_def)
  show ?case
  proof (cases "c = CHR ''%''")
    case True
    then show ?thesis
    proof (cases p)
      case (Cons h p')
      show ?thesis
      proof (cases p')
        case (Cons l p'')
        then show ?thesis
          using True \<open>p = h # p'\<close> 2(1) [OF True \<open>p = h # p'\<close> Cons] by (cases "urlUnescape s") (auto split: option.splits)
      qed (use True Cons slash in \<open>auto split: option.splits\<close>)
    qed (use slash in \<open>auto split: option.splits list.splits\<close>)
  next
    case False
    then show ?thesis using 2(2) by (cases "urlUnescape s") (auto split: option.splits)
  qed
qed

lemma urlUnescape_slashed: "urlUnescape (slashed ps) = Some u \<Longrightarrow> u = slashed (map unescaped ps)"
proof (induction ps arbitrary: u)
  case (Cons p ps)
  show ?case
  proof (cases ps)
    case Nil
    then show ?thesis using Cons.prems by (auto simp: unescaped_def)
  next
    case (Cons q qs)
    then have split: "slashed (p # ps) = CHR ''/'' # p @ CHR ''/'' # tl (slashed ps)" by simp
    then obtain a b where ab: "urlUnescape p = Some a" "urlUnescape (tl (slashed ps)) = Some b" "u = CHR ''/'' # a @ CHR ''/'' # b"
      using Cons.prems urlUnescape_slash [of p "tl (slashed ps)"] by (auto split: option.splits)
    then have "urlUnescape (slashed ps) = Some (CHR ''/'' # b)" using Cons by simp
    then show ?thesis using Cons.IH ab(1,3) by (simp add: unescaped_def)
  qed
qed simp

section \<open>Which pattern matches\<close>

text \<open>The part of a pattern after the base path.\<close>

fun relPattern :: "route \<Rightarrow> seg list" where
  "relPattern RHealthz = [SegLit ''healthz'']"
| "relPattern RStatic = [SegLit ''static'', SegRest]"
| "relPattern ROverview = [SegEnd]"
| "relPattern RBase = []"
| "relPattern RClustersPartial = [SegLit ''partials'', SegLit ''clusters'']"
| "relPattern RClusterDetail = [SegLit ''clusters'', SegWild ''namespace'', SegWild ''name'']"
| "relPattern RClusterDetailPartial = [SegLit ''partials'', SegLit ''clusters'', SegWild ''namespace'', SegWild ''name'']"

lemma relPattern_disjoint:
  assumes "matchSegs (relPattern h) ts = Some vals" "matchSegs (relPattern h') ts = Some vals'"
  shows "h = h'"
proof -
  consider "ts = []" | a where "ts = [a]" | a b where "ts = [a, b]" | a b c where "ts = [a, b, c]" | a b c d ts' where "ts = a # b # c # d # ts'"
    by (metis list.exhaust)
  then show ?thesis using assms by cases (cases h; cases h'; auto split: if_splits)+
qed

lemma parseSegs_plain:
  "list_all plainSeg bs \<Longrightarrow> ss \<noteq> [] \<Longrightarrow> parseSegs (bs @ ss) = map_option ((@) (map SegLit bs)) (parseSegs ss)"
proof (induction bs)
  case Nil
  then show ?case by (cases "parseSegs ss") simp_all
next
  case (Cons b bs)
  then obtain t ts where t: "bs @ ss = t # ts" by (cases "bs @ ss") auto
  show ?case using Cons by (cases "parseSegs ss") (simp_all add: t [symmetric] segOf_plain, simp_all add: t segOf_plain)
qed

lemma parsePattern_slashed: "ss \<noteq> [] \<Longrightarrow> \<forall>s\<in>set ss. CHR ''/'' \<notin> set s \<Longrightarrow> parsePattern (slashed ss) = parseSegs ss"
  using split_slashed [of ss] by (cases ss) (simp_all add: parsePattern_def)

lemma pathSegs_slashed:
  assumes "ps \<noteq> []" "\<forall>s\<in>set ps. CHR ''/'' \<notin> set s"
  shows "pathSegs (slashed ps) = map unescaped (butlast ps) @ [lastSegment (last ps)]"
  using split_slashed [OF assms] by (simp add: pathSegs_def)

text \<open>The segments after the base path.\<close>

definition toks :: "string list \<Rightarrow> string list" where
  "toks ps = map unescaped (butlast ps) @ [lastSegment (last ps)]"

lemma pathSegs_base:
  assumes "list_all plainSeg bs" "ps \<noteq> []" "\<forall>s\<in>set ps. CHR ''/'' \<notin> set s"
  shows "pathSegs (slashed (bs @ ps)) = bs @ toks ps"
  using pathSegs_slashed [of "bs @ ps"] assms no_slash_plain [OF assms(1)]
  by (auto simp: toks_def butlast_append map_unescaped_plain simp del: slashed_simps)

lemma serverPatterns_parse:
  assumes bs: "list_all plainSeg bs" and ph: "(p, h) \<in> set (serverPatterns (slashed bs))"
  shows "parsePattern p = Some (map SegLit bs @ relPattern h)"
proof -
  have parse: "parsePattern (slashed bs @ slashed ss) = map_option ((@) (map SegLit bs)) (parseSegs ss)"
    if "ss \<noteq> []" "\<forall>s\<in>set ss. CHR ''/'' \<notin> set s" for ss
    using parsePattern_slashed [of "bs @ ss"] parseSegs_plain [OF bs that(1)] that no_slash_plain [OF bs] by auto
  have base: "parsePattern (slashed bs) = Some (map SegLit bs)" if "slashed bs \<noteq> []"
  proof -
    from that have "bs \<noteq> []" by auto
    then obtain bs' b where b: "bs = bs' @ [b]" by (cases bs rule: rev_cases) auto
    then have "parseSegs bs = Some (map SegLit bs)"
      using bs parseSegs_plain [of bs' "[b]"] by (simp add: segOf_plain plainSeg_def)
    then show ?thesis using parsePattern_slashed [OF \<open>bs \<noteq> []\<close>] no_slash_plain [OF bs] by auto
  qed
  show ?thesis
    using ph base parse [of "[''healthz'']"] parse [of "[''static'', []]"] parse [of "[''{$}'']"] parse [of "[''partials'', ''clusters'']"]
      parse [of "[''clusters'', ''{namespace}'', ''{name}'']"] parse [of "[''partials'', ''clusters'', ''{namespace}'', ''{name}'']"]
    by (auto simp: serverPatterns_def segOf_def split: if_splits)
qed

lemma matchSegs_lits: "matchSegs (map SegLit bs @ rest) (bs @ ts) = matchSegs rest ts"
  by (induction bs) simp_all

lemma matchSegs_litsD:
  "matchSegs (map SegLit bs @ rest) ts = Some vals \<Longrightarrow> \<exists>ts'. ts = bs @ ts' \<and> matchSegs rest ts' = Some vals"
proof (induction bs arbitrary: ts)
  case (Cons b bs)
  then show ?case by (cases ts) (auto split: if_splits)
qed simp

lemma matchRoute_Some:
  "matchRoute pats path = Some (h, segs, vals) \<Longrightarrow>
     \<exists>p. (p, h) \<in> set pats \<and> parsePattern p = Some segs \<and> matchSegs segs (pathSegs path) = Some vals"
  by (induction pats path rule: matchRoute.induct) (auto split: option.splits)

lemma matchRoute_None:
  "matchRoute pats path = None \<Longrightarrow> (p, h) \<in> set pats \<Longrightarrow> parsePattern p = Some segs \<Longrightarrow> matchSegs segs (pathSegs path) = None"
  by (induction pats path rule: matchRoute.induct) (auto split: option.splits)

lemma matchRoute_base:
  assumes "list_all plainSeg bs" "matchRoute (serverPatterns (slashed bs)) path = Some (h, segs, vals)"
  shows "\<exists>ts. pathSegs path = bs @ ts \<and> matchSegs (relPattern h) ts = Some vals"
  using matchRoute_Some [OF assms(2)] serverPatterns_parse [OF assms(1)] matchSegs_litsD [of bs "relPattern h"] by force

text \<open>A path below the base path goes to the one route whose pattern matches it.\<close>

lemma matchRoute_found:
  assumes bs: "list_all plainSeg bs" and path: "pathSegs path = bs @ ts" and m: "matchSegs (relPattern h) ts = Some vals" and "h \<noteq> RBase"
  shows "matchRoute (serverPatterns (slashed bs)) path = Some (h, map SegLit bs @ relPattern h, vals)"
proof -
  have "\<exists>p. (p, h) \<in> set (serverPatterns (slashed bs))" using \<open>h \<noteq> RBase\<close> by (cases h) (auto simp: serverPatterns_def)
  then obtain p where p: "(p, h) \<in> set (serverPatterns (slashed bs))" ..
  have "matchSegs (map SegLit bs @ relPattern h) (pathSegs path) = Some vals" by (simp add: path matchSegs_lits m)
  then obtain h' segs vals' where found: "matchRoute (serverPatterns (slashed bs)) path = Some (h', segs, vals')"
    using matchRoute_None [OF _ p serverPatterns_parse [OF bs p], of path] by (cases "matchRoute (serverPatterns (slashed bs)) path") auto
  obtain p' where p': "(p', h') \<in> set (serverPatterns (slashed bs))" "parsePattern p' = Some segs" "matchSegs segs (pathSegs path) = Some vals'"
    using matchRoute_Some [OF found] by blast
  then have segs: "segs = map SegLit bs @ relPattern h'" using serverPatterns_parse [OF bs p'(1)] by simp
  then have "matchSegs (relPattern h') ts = Some vals'" using p'(3) by (simp add: path matchSegs_lits)
  then show ?thesis using relPattern_disjoint [OF _ m] found segs m by auto
qed

section \<open>Clean paths\<close>

lemma foldl_cleanSegment: "list_all plainSeg ss \<Longrightarrow> foldl cleanSegment acc ss = acc @ ss"
  by (induction ss arbitrary: acc) (auto simp: cleanSegment_def plainSeg_def)

lemma split_on_slashed: "\<forall>s\<in>set ss. CHR ''/'' \<notin> set s \<Longrightarrow> split_on (CHR ''/'') (slashed ss) = [] # ss"
  using split_slashed [of ss] by (cases ss) auto

lemma keepSlash_same [simp]: "keepSlash p p = p"
  by (simp add: keepSlash_def)

lemma hasSuffix_slash [simp]: "hasSuffix (p @ [c]) ''/'' \<longleftrightarrow> c = CHR ''/''" "\<not> hasSuffix [] ''/''"
  by (simp_all add: hasSuffix_def hasPrefix_def)

lemma slashed_no_suffix:
  assumes "list_all plainSeg ss"
  shows "\<not> hasSuffix (slashed ss) ''/''"
proof (cases ss rule: rev_cases)
  case (snoc ss' s)
  then have "s \<noteq> []" "CHR ''/'' \<notin> set s" using assms by (auto simp: plainSeg_def)
  then obtain s' c where "s = s' @ [c]" "c \<noteq> CHR ''/''" by (cases s rule: rev_cases) auto
  then have "slashed ss = (slashed ss' @ CHR ''/'' # s') @ [c]" using snoc by simp
  then show ?thesis using \<open>c \<noteq> CHR ''/''\<close> hasSuffix_slash(1) by metis
qed simp

lemma pathClean_slashed:
  assumes "list_all plainSeg ss"
  shows "pathClean (slashed ss) = (if ss = [] then ''/'' else slashed ss)"
    "pathClean (slashed ss @ ''/'') = (if ss = [] then ''/'' else slashed ss)"
proof -
  have "pathClean (slashed ss) = CHR ''/'' # joinWith ''/'' ss"
    using split_on_slashed [of ss] no_slash_plain [OF assms]
    by (simp add: pathClean_def foldl_cleanSegment [OF assms] cleanSegment_def)
  then show "pathClean (slashed ss) = (if ss = [] then ''/'' else slashed ss)" by (simp add: slashed_join)
  have "split_on (CHR ''/'') (slashed ss @ ''/'') = [] # ss @ [[]]"
    using split_on_slashed [of "ss @ [[]]"] no_slash_plain [OF assms] by auto
  then have "pathClean (slashed ss @ ''/'') = CHR ''/'' # joinWith ''/'' ss"
    by (simp add: pathClean_def foldl_cleanSegment [OF assms] cleanSegment_def)
  then show "pathClean (slashed ss @ ''/'') = (if ss = [] then ''/'' else slashed ss)" by (simp add: slashed_join)
qed

lemma cleanPath_slashed:
  assumes "list_all plainSeg ss"
  shows "ss \<noteq> [] \<Longrightarrow> cleanPath (slashed ss) = slashed ss" "cleanPath (slashed ss @ ''/'') = slashed ss @ ''/''"
proof -
  show "cleanPath (slashed ss) = slashed ss" if "ss \<noteq> []"
    using that pathClean_slashed(1) [OF assms] by (cases ss) (simp_all add: cleanPath_def)
  have hd: "hd (slashed ss @ ''/'') = CHR ''/''" by (cases ss) simp_all
  show "cleanPath (slashed ss @ ''/'') = slashed ss @ ''/''"
    using pathClean_slashed(2) [OF assms] slashed_no_suffix [OF assms] hd
      hasSuffix_slash(1) [of "[]"] hasSuffix_slash(1) [of "slashed ss" "CHR ''/''"]
    by (cases ss) (simp_all add: cleanPath_def keepSlash_def Let_def)
qed

lemma cleanPath_rooted: "cleanPath p \<noteq> [] \<and> hd (cleanPath p) = CHR ''/''"
  by (simp add: cleanPath_def keepSlash_def pathClean_def Let_def)

section \<open>Dispatch\<close>

text \<open>A request is dispatched only on a clean path, and its segments match the pattern of the route.\<close>

lemma findHandler_route:
  assumes "list_all plainSeg bs" "findHandler (serverPatterns (slashed bs)) r = DRoute h vals"
  shows "\<exists>ps ts. rq_EscapedPath r = slashed ps \<and> ps \<noteq> [] \<and> toks ps = bs @ ts \<and> matchSegs (relPattern h) ts = Some vals"
proof -
  let ?pats = "serverPatterns (slashed bs)" and ?esc = "rq_EscapedPath r"
  have m: "\<exists>segs. matchRoute ?pats ?esc = Some (h, segs, vals)" and clean: "cleanPath ?esc = ?esc"
    using assms(2) unfolding findHandler_def Let_def
    by (auto split: if_splits option.splits)
  let ?ps = "split_on (CHR ''/'') (tl ?esc)"
  have esc: "?esc = slashed ?ps" using slashed_split cleanPath_rooted [of ?esc] clean by metis
  obtain segs where "matchRoute ?pats ?esc = Some (h, segs, vals)" using m ..
  then obtain ts where "pathSegs ?esc = bs @ ts" "matchSegs (relPattern h) ts = Some vals"
    using matchRoute_base [OF assms(1)] by blast
  moreover have "pathSegs ?esc = toks ?ps" by (simp add: pathSegs_def toks_def Let_def)
  ultimately show ?thesis using esc by (intro exI [of _ ?ps] exI [of _ ts]) simp
qed

lemma findHandler_found:
  assumes "list_all plainSeg bs" "rq_Method r = ''GET''" "cleanPath (rq_EscapedPath r) = rq_EscapedPath r"
    and path: "pathSegs (rq_EscapedPath r) = bs @ ts" and m: "matchSegs (relPattern h) ts = Some vals" "h \<noteq> RBase"
    and exact: "exactMatch (Some (h, map SegLit bs @ relPattern h, vals)) (rq_EscapedPath r)"
  shows "findHandler (serverPatterns (slashed bs)) r = DRoute h vals"
  using matchRoute_found [OF assms(1) path m] assms(2,3) exact by (simp add: findHandler_def Let_def)

text \<open>The part of a path that follows the base path.\<close>

lemma toks_append:
  assumes "toks ps = bs @ ts" "ts \<noteq> []" "ps \<noteq> []"
  shows "\<exists>ps1 ps2. ps = ps1 @ ps2 \<and> map unescaped ps1 = bs \<and> toks ps2 = ts \<and> ps2 \<noteq> []"
proof -
  have len: "length bs < length ps"
    using arg_cong [OF assms(1), of length] assms(2,3) by (cases ts) (auto simp: toks_def)
  let ?a = "take (length bs) ps" and ?b = "drop (length bs) ps"
  have ne: "?b \<noteq> []" using len by simp
  have "toks ps = map unescaped ?a @ toks ?b"
    using ne by (metis append_take_drop_id butlast_append map_append toks_def append.assoc last_appendR)
  then have "map unescaped ?a = bs \<and> toks ?b = ts" using assms(1) len by (simp add: append_eq_append_conv)
  then show ?thesis using ne by (intro exI [of _ ?a] exI [of _ ?b]) simp
qed

section \<open>Requests without an identity\<close>

definition showsClusters :: "route \<Rightarrow> bool" where
  "showsClusters h \<longleftrightarrow> h \<in> {ROverview, RClustersPartial, RClusterDetail, RClusterDetailPartial}"

lemma matchSegs_end: "matchSegs [] ts = Some vals \<longleftrightarrow> ts = [] \<and> vals = []"
  by (cases ts) auto

lemma toks_ne: "toks ps \<noteq> []"
  by (simp add: toks_def)

lemma toks_simps [simp]: "toks [x] = [lastSegment x]" "toks (x # y # zs) = unescaped x # toks (y # zs)"
  by (simp_all add: toks_def)

text \<open>The path that the middleware lets through is not one of a route that shows clusters, however it is escaped.\<close>

lemma health_path_shows_nothing:
  assumes bs: "list_all plainSeg bs" and dispatch: "findHandler (serverPatterns (slashed bs)) r = DRoute h vals"
    and path: "rq_Path r = slashed bs @ ''/healthz''"
  shows "\<not> showsClusters h"
proof
  assume h: "showsClusters h"
  obtain ps ts where ps: "rq_EscapedPath r = slashed ps" "ps \<noteq> []" "toks ps = bs @ ts" "matchSegs (relPattern h) ts = Some vals"
    using findHandler_route [OF bs dispatch] by blast
  have "ts \<noteq> []" using ps(4) h by (cases h) (auto simp: showsClusters_def)
  then obtain ps1 ps2 where split: "ps = ps1 @ ps2" "map unescaped ps1 = bs" "toks ps2 = ts" "ps2 \<noteq> []"
    using toks_append ps(2,3) by blast
  have "CHR ''%'' \<notin> set (slashed bs)" using bs by (induction bs) (auto simp: plainSeg_def)
  then have "urlUnescape (slashed ps) \<noteq> None"
    using path ps(1) urlUnescape_plain [of "slashed bs @ ''/healthz''"] by (auto simp: rq_Path_def unescaped_def split: option.splits)
  then have "rq_Path r = slashed (map unescaped ps)"
    using ps(1) urlUnescape_slashed [of ps] by (auto simp: rq_Path_def unescaped_def)
  then have rest: "slashed (map unescaped ps2) = ''/healthz''" using path split(1,2) by simp
  obtain x xs where x: "ps2 = x # xs" using split(4) by (cases ps2) auto
  show False
  proof (cases xs)
    case Nil
    then have "ts = [lastSegment x]" "unescaped x = ''healthz''" using x split(3) rest by simp_all
    then show False using ps(4) h by (cases h) (auto simp: showsClusters_def lastSegment_def split: if_splits)
  next
    case (Cons y ys)
    then have "ts = unescaped x # toks (y # ys)" using x split(3) by simp
    then have "unescaped x = ''partials'' \<or> unescaped x = ''clusters''"
      using ps(4) h toks_ne [of "y # ys"] by (cases h) (auto simp: showsClusters_def matchSegs_end split: if_splits)
    then show False using rest x by auto
  qed
qed

lemma basePath_plain:
  assumes "list_all plainSeg bs" "routeBase s = slashed bs"
  shows "srv_basePath s = slashed bs" "JoinPath (srv_basePath s) sub = slashed bs @ sub"
proof -
  show base: "srv_basePath s = slashed bs"
  proof (cases "uo_BasePath (srv_opts s) = ''/''")
    case True
    then show ?thesis using assms(2) by (simp add: srv_basePath_def routeBase_def trimSuffix_def trimPrefix_def hasPrefix_def)
  next
    case False
    then have "uo_BasePath (srv_opts s) = slashed bs" using assms(2) by (simp add: routeBase_def)
    then show ?thesis using slashed_no_suffix [OF assms(1)]
      by (simp add: srv_basePath_def trimSuffix_def trimPrefix_def hasSuffix_def)
  qed
  have "slashed bs \<noteq> ''/''" using slashed_no_suffix [OF assms(1)] hasSuffix_slash(1) [of "[]" "CHR ''/''"] by auto
  then show "JoinPath (srv_basePath s) sub = slashed bs @ sub" by (simp add: base JoinPath_def)
qed

lemma serveRoute_same:
  "\<not> showsClusters h \<Longrightarrow> serveRoute E (NewServer opts d) r h vals = serveRoute E (NewServer opts d') r h vals"
  by (cases h) (simp_all add: showsClusters_def NewServer_def routeBase_def)

lemma Normalize_UserHeader: "uo_UserHeader (Normalize (Normalize opts)) = uo_UserHeader (Normalize opts)"
  by (simp add: Normalize_def Let_def DefaultOptions_def)

text \<open>
  C27: When the dashboard requires an identity, a request that carries none gets an answer that does not
  depend on the clusters: two data sources give the same response, whatever the method, the path and its
  escaping.  Every path but that of the health check is refused.
\<close>
theorem anonymous_requests_see_no_cluster:
  assumes "plainBase (routeBase (NewServer opts d))" "uo_RequireAuth opts" "\<not> id_Authenticated (IdentityFrom opts r)"
  shows "Handler E (NewServer opts d) r = Handler E (NewServer opts d') r \<and>
    (rq_Path r \<noteq> JoinPath (srv_basePath (NewServer opts d)) ''/healthz'' \<longrightarrow> rsp_Status (Handler E (NewServer opts d) r) = 401)"
proof -
  let ?s = "NewServer opts d" and ?s' = "NewServer opts d'"
  obtain bs where bs: "list_all plainSeg bs" "routeBase ?s = slashed bs" using plainBaseE [OF assms(1)] by metis
  have same: "routeBase ?s' = routeBase ?s" "srv_basePath ?s' = srv_basePath ?s" "srv_opts ?s' = srv_opts ?s"
    by (simp_all add: NewServer_def routeBase_def srv_basePath_def)
  have anon: "uo_RequireAuth (srv_opts ?s)" "\<not> id_Authenticated (IdentityFrom (srv_opts ?s) r)"
    using assms(2,3) by (simp_all add: NewServer_def Normalize_def IdentityFrom_def Let_def DefaultOptions_def)
  show ?thesis
  proof (cases "rq_Path r = JoinPath (srv_basePath ?s) ''/healthz''")
    case True
    then have "rq_Path r = slashed bs @ ''/healthz''" using basePath_plain(2) [OF bs] by simp
    then have "serveMux E ?s r = serveMux E ?s' r"
      using health_path_shows_nothing [OF bs(1), of r] serveRoute_same [of _ E opts d r _ d']
      by (auto simp: serveMux_def same bs(2) split: dispatch.splits)
    then show ?thesis using True by (simp add: Handler_def authMiddleware_def same)
  next
    case False
    then show ?thesis using anon by (simp add: Handler_def authMiddleware_def same httpError_def)
  qed
qed

section \<open>Links\<close>

lemma exactMatch_file: "path \<noteq> [] \<Longrightarrow> last path \<noteq> CHR ''/'' \<Longrightarrow> exactMatch (Some x) path"
  by (cases x) (simp add: exactMatch_def)

text \<open>A request for a path below the base path that is made of plain segments, or of plain segments and a slash.\<close>

lemma route_file:
  assumes "list_all plainSeg bs" "list_all plainSeg ps" "ps \<noteq> []" "rq_Method r = ''GET''" "rq_EscapedPath r = slashed (bs @ ps)"
    and "matchSegs (relPattern h) ps = Some vals" "h \<noteq> RBase"
  shows "findHandler (serverPatterns (slashed bs)) r = DRoute h vals"
proof (rule findHandler_found [OF assms(1,4)])
  have all: "list_all plainSeg (bs @ ps)" using assms(1,2) by simp
  show "cleanPath (rq_EscapedPath r) = rq_EscapedPath r" using cleanPath_slashed(1) [OF all] assms(3,5) by simp
  have "toks ps = ps"
    using assms(2,3) by (induction ps rule: rev_induct) (auto simp: toks_def lastSegment_def plainSeg_def map_unescaped_plain)
  then show "pathSegs (rq_EscapedPath r) = bs @ ps"
    using pathSegs_base [OF assms(1,3)] no_slash_plain [OF assms(2)] assms(5) by auto
  have "\<not> hasSuffix (slashed (bs @ ps)) ''/''" "slashed (bs @ ps) \<noteq> []"
    using slashed_no_suffix [OF all] assms(3) by (cases ps; simp)+
  then show "exactMatch (Some (h, map SegLit bs @ relPattern h, vals)) (rq_EscapedPath r)"
    unfolding assms(5) by (intro exactMatch_file) (metis append_butlast_last_id hasSuffix_slash(1))+
qed (rule assms)+

lemma count_slashes: "list_all plainSeg bs \<Longrightarrow> length (filter (\<lambda>c. c = CHR ''/'') (slashed bs)) = length bs"
  by (induction bs) (auto simp: plainSeg_def filter_empty_conv)

lemma route_root:
  assumes "list_all plainSeg bs" "rq_Method r = ''GET''" "rq_EscapedPath r = slashed bs @ ''/''"
  shows "findHandler (serverPatterns (slashed bs)) r = DRoute ROverview []"
proof (rule findHandler_found [OF assms(1,2)])
  show "cleanPath (rq_EscapedPath r) = rq_EscapedPath r" using cleanPath_slashed(2) [OF assms(1)] assms(3) by simp
  show "pathSegs (rq_EscapedPath r) = bs @ [''/'']"
    using pathSegs_base [OF assms(1), of "[[]]"] assms(3) by (simp add: lastSegment_def)
  show "exactMatch (Some (ROverview, map SegLit bs @ relPattern ROverview, [])) (rq_EscapedPath r)"
    using count_slashes [OF assms(1)] assms(3) by (simp add: exactMatch_def)
qed simp_all


section \<open>Everything sent as HTML\<close>

lemma clean_htmlEscape: "clean (htmlEscape s)"
  by (induction s) (auto simp: clean_def htmlEscape_def)

lemma renderError_nested: "wellNested (rsp_Body (renderError action)) 0"
  by (simp add: renderError_def wellNested_def scan_simps scan_clean clean_htmlEscape)

lemma httpRedirect_nested: "wellNested (rsp_Body (httpRedirect r url code)) 0"
proof -
  have "clean (statusText code)" by (simp add: statusText_def clean_def)
  then show ?thesis by (simp add: httpRedirect_def wellNested_def scan_simps scan_clean clean_htmlEscape newline_def Let_def)
qed

lemma srv_render_nested:
  assumes "templ_laws (ue_Templ E)" "sends (c (ue_Ctx E)) (InText, [], 0) (InText, [], k)"
  shows "wellNested (rsp_Body (srv_render E c)) k"
  using renderTo_wellNested [of "ue_Templ E" c "ue_Ctx E" k] assms by (auto simp: srv_render_def)

definition pageScripts :: "route \<Rightarrow> nat" where
  "pageScripts h = (if h = ROverview \<or> h = RClusterDetail then 3 else 0)"

lemma serveRoute_nested:
  assumes "templ_laws (ue_Templ E)" "live (ue_Ctx E)" "h \<noteq> RStatic" "rsp_Header (serveRoute E s r h vals) ''Content-Type'' = Some htmlType"
  shows "wellNested (rsp_Body (serveRoute E s r h vals)) 0 \<or> wellNested (rsp_Body (serveRoute E s r h vals)) (pageScripts h)"
proof -
  have page: "wellNested (rsp_Body (srv_render E (Overview (ue_Templ E) v cs))) 3"
    "wellNested (rsp_Body (srv_render E (ClusterDetailPage (ue_Templ E) v d))) 3" for v cs d
    using srv_render_nested [OF assms(1)] sends_page [OF assms(1,2), of _ _ "[]" 0] by fastforce+
  have fragment: "wellNested (rsp_Body (srv_render E (OverviewGrid (ue_Templ E) b cs))) 0"
    "wellNested (rsp_Body (srv_render E (DetailBody (ue_Templ E) d))) 0" for b cs d
    using srv_render_nested [OF assms(1)] sends_OverviewGrid [OF assms(1,2)] sends_DetailBody [OF assms(1,2)] by blast+
  have type: "Some ''text/plain; charset=utf-8'' \<noteq> Some htmlType" by (simp add: htmlType_def)
  show ?thesis
    using assms(3,4) type page fragment renderError_nested httpRedirect_nested
    by (cases h) (auto simp: pageScripts_def handleOverview_def handleClustersPartial_def handleClusterDetail_def
      handleClusterDetailPartial_def httpError_def split: sum.splits if_splits)
qed

text \<open>
  C29: Whatever the objects of the API server contain, every response that the dashboard sends as HTML, other
  than an embedded file, is well nested: each tag closes the innermost open element and no value breaks out
  of its text or attribute.  It has no script but the three of the layout.
\<close>
theorem html_responses_well_nested:
  assumes "templ_laws (ue_Templ E)" "live (ue_Ctx E)"
    and "\<forall>vals. findHandler (serverPatterns (routeBase s)) r \<noteq> DRoute RStatic vals"
    and "rsp_Header (Handler E s r) ''Content-Type'' = Some htmlType"
  shows "\<exists>scripts. wellNested (rsp_Body (Handler E s r)) scripts \<and> scripts \<in> {0, 3}"
proof -
  have plain: "''text/plain; charset=utf-8'' \<noteq> htmlType" by (simp add: htmlType_def)
  then have mux: "Handler E s r = serveMux E s r"
    using assms(4) by (auto simp: Handler_def authMiddleware_def httpError_def split: if_splits)
  show ?thesis
  proof (cases "findHandler (serverPatterns (routeBase s)) r")
    case (DRoute h vals)
    then have route: "h \<noteq> RStatic" "Handler E s r = serveRoute E s r h vals" using assms(3) mux by (auto simp: serveMux_def)
    have "pageScripts h \<in> {0, 3}" by (simp add: pageScripts_def)
    then show ?thesis using serveRoute_nested [OF assms(1,2) route(1), of s r vals] assms(4) unfolding route(2) by blast
  next
    case (DRedirect path)
    then show ?thesis using httpRedirect_nested mux by (auto simp: serveMux_def)
  qed (use assms(4) mux plain in \<open>auto simp: serveMux_def httpError_def notFound_def Let_def\<close>)
qed

section \<open>Cache headers\<close>

text \<open>The header is set only together with a successful status, so an error is never kept for a year.\<close>

definition cacheInvariant :: "cacheControlWriter \<Rightarrow> bool" where
  "cacheInvariant w \<longleftrightarrow>
     (rw_Sent (cc_ResponseWriter w) = None \<longrightarrow> rw_Header (cc_ResponseWriter w) ''Cache-Control'' = None) \<and>
     (rw_Sent (cc_ResponseWriter w) \<noteq> None \<longrightarrow> cc_wroteHeader w) \<and>
     (\<forall>status header. rw_Sent (cc_ResponseWriter w) = Some (status, header) \<and> header ''Cache-Control'' \<noteq> None \<longrightarrow>
        200 \<le> status \<and> status < 300)"

lemma cacheInvariant_op:
  assumes "cacheInvariant w" "\<forall>v. SetHeader ''Cache-Control'' v \<noteq> op"
  shows "cacheInvariant (cc_op w op)"
proof (cases op)
  case (SetHeader k v)
  then show ?thesis using assms by (auto simp: cacheInvariant_def)
next
  case (WriteHeader status)
  then show ?thesis using assms(1) by (auto simp: cacheInvariant_def cc_WriteHeader_def rw_WriteHeader_def Let_def)
next
  case (WriteBytes b)
  then show ?thesis
    using assms(1) by (auto simp: cacheInvariant_def cc_Write_def cc_WriteHeader_def rw_Write_def rw_WriteHeader_def Let_def)
qed

lemma immutable_only_success:
  assumes "\<forall>v. SetHeader ''Cache-Control'' v \<notin> set ops" "rsp_Header (cacheHeaders ops) ''Cache-Control'' \<noteq> None"
  shows "200 \<le> rsp_Status (cacheHeaders ops) \<and> rsp_Status (cacheHeaders ops) < 300"
proof -
  have "cacheInvariant (foldl cc_op w ops)" if "cacheInvariant w" for w
    using that assms(1) by (induction ops arbitrary: w) (auto simp: cacheInvariant_op)
  moreover have "cacheInvariant newWriter" by (simp add: cacheInvariant_def newWriter_def)
  ultimately have "cacheInvariant (foldl cc_op newWriter ops)" by blast
  then show ?thesis
    using assms(2) by (auto simp: cacheHeaders_def finishResponse_def cacheInvariant_def split: option.splits prod.splits)
qed

end
