(* ===== verification/Sample_Dashboard.thy ===== *)
theory Sample_Dashboard
  imports Dashboard_Routes Samples
begin

text \<open>A dashboard under a base path that requires an identity, with one cluster, and requests to it.\<close>

definition sampleTempl :: templ_runtime where
  "sampleTempl =
     \<lparr>tr_WriteString = (\<lambda>b i s. (b @ s, None)), tr_BufferWrite = (\<lambda>b s. (b @ s, None)), tr_EscapeString = htmlEscape,
      tr_JoinStringErrs = Inr, tr_JoinURLErrs = Inr, tr_ResolveAttributeValue = (\<lambda>s. Inr (htmlEscape s)),
      tr_CSSClasses = joinWith '' '', tr_RenderCSSItems = (\<lambda>b cs. (b, None)), tr_ReleaseBuffer = (\<lambda>b. (b, None)),
      tr_Error = (\<lambda>file line col e. e)\<rparr>"

lemma sampleTempl_laws: "templ_laws sampleTempl"
  by (simp add: templ_laws_def sampleTempl_def clean_htmlEscape)

definition sampleUi :: ui_env where
  "sampleUi =
     \<lparr>ue_Templ = sampleTempl, ue_Ctx = \<lparr>px_Err = (\<lambda>_. None), px_Children = None\<rparr>, ue_Now = 0, ue_Files = [(''app.css'', ''.badge'')],
      ue_FileServer = (\<lambda>r p. [WriteBytes p]), ue_MuxRedirect = 307\<rparr>"

definition sampleReader :: reader where
  "sampleReader =
     \<lparr>rd_ListClusters = Inr [(None, sampleCluster)], rd_GetCluster = (\<lambda>_ _. Inr (None, sampleCluster)),
      rd_ListNamespaces = (\<lambda>_. Inr []), rd_ListClients = (\<lambda>_. Inr []), rd_ListAttributes = (\<lambda>_. Inr [])\<rparr>"

definition emptyReader :: reader where
  "emptyReader = sampleReader \<lparr>rd_ListClusters := Inr []\<rparr>"

definition sampleUiOptions :: UiOptions where
  "sampleUiOptions = DefaultOptions \<lparr>uo_BasePath := ''ops/'', uo_RequireAuth := True\<rparr>"

definition sampleUiServer :: Server where
  "sampleUiServer = NewServer sampleUiOptions sampleReader"

definition anonymousRequest :: request where
  "anonymousRequest = \<lparr>rq_Method = ''GET'', rq_EscapedPath = ''/ops/'', rq_RawQuery = [], rq_Header = (\<lambda>_. [])\<rparr>"

definition userRequest :: request where
  "userRequest = anonymousRequest \<lparr>rq_Header := (\<lambda>h. if h = ''Remote-User'' then ''ada'' else [])\<rparr>"

lemma sample_base: "routeBase (NewServer sampleUiOptions d) = slashed [''ops'']"
  by (simp add: routeBase_def NewServer_def sampleUiOptions_def Normalize_def DefaultOptions_def trimSlashes_def Let_def)

lemma sample_plainBase: "plainBase (slashed [''ops''])"
  by (simp add: plainBase_def plainSeg_def)

lemma sample_identity:
  "\<not> id_Authenticated (IdentityFrom sampleUiOptions anonymousRequest)"
  "id_Authenticated (IdentityFrom (srv_opts sampleUiServer) userRequest)"
  by (simp_all add: IdentityFrom_def Normalize_def sampleUiServer_def NewServer_def sampleUiOptions_def DefaultOptions_def
      anonymousRequest_def userRequest_def trimSpace_def isSpace_def Let_def)

theorem anonymous_requests_see_no_cluster_witness:
  "Handler sampleUi (NewServer sampleUiOptions sampleReader) anonymousRequest =
     Handler sampleUi (NewServer sampleUiOptions emptyReader) anonymousRequest \<and>
   rsp_Status (Handler sampleUi (NewServer sampleUiOptions sampleReader) anonymousRequest) = 401"
proof -
  have base: "routeBase (NewServer sampleUiOptions sampleReader) = slashed [''ops'']" by (rule sample_base)
  have "rq_Path anonymousRequest \<noteq> JoinPath (srv_basePath (NewServer sampleUiOptions sampleReader)) ''/healthz''"
    using basePath_plain(2) [OF _ base] by (simp add: plainSeg_def rq_Path_def anonymousRequest_def)
  moreover have "plainBase (routeBase (NewServer sampleUiOptions sampleReader))" unfolding base by (rule sample_plainBase)
  moreover have "uo_RequireAuth sampleUiOptions" by (simp add: sampleUiOptions_def)
  ultimately show ?thesis using anonymous_requests_see_no_cluster [OF _ _ sample_identity(1)] by blast
qed


lemma sample_dispatch: "findHandler (serverPatterns (routeBase sampleUiServer)) userRequest = DRoute ROverview []"
  using route_root [of "[''ops'']" userRequest]
  by (simp add: sampleUiServer_def sample_base plainSeg_def userRequest_def anonymousRequest_def)

theorem html_responses_well_nested_witness:
  "\<exists>scripts. wellNested (rsp_Body (Handler sampleUi sampleUiServer userRequest)) scripts \<and> scripts \<in> {0, 3}"
proof (rule html_responses_well_nested)
  show "templ_laws (ue_Templ sampleUi)" "live (ue_Ctx sampleUi)"
    by (simp_all add: sampleUi_def sampleTempl_laws live_def)
  show "\<forall>vals. findHandler (serverPatterns (routeBase sampleUiServer)) userRequest \<noteq> DRoute RStatic vals"
    by (simp add: sample_dispatch)
  show "rsp_Header (Handler sampleUi sampleUiServer userRequest) ''Content-Type'' = Some htmlType"
    by (simp add: Handler_def authMiddleware_def sample_identity serveMux_def sample_dispatch handleOverview_def srv_render_def
        renderError_def split: sum.splits)
qed

end
