(* ===== verification/Manager_Setup.thy ===== *)
theory Manager_Setup
  imports Cluster_Runs Object_Ownership Dev_Server_Controller
begin

text \<open>
  What the controllers register with the manager (the \<^verbatim>\<open>SetupWithManager\<close> functions of
  \<^verbatim>\<open>src/internal/controller\<close>), and which objects an event of the API server then puts on their queues: the
  object itself, the owner of an owned object, or the objects a map function finds.  Passes and
  registrations fit together: what a pass applies is watched, and what refers to a target follows it.
\<close>

section \<open>Registrations\<close>

type_synonym key = "string \<times> string"

text \<open>A watch: the kind, the map function from the metadata of an object to keys, and the predicate.\<close>

record watch =
  wa_Kind :: string
  wa_Map :: "ObjectMeta \<Rightarrow> key list"
  wa_Predicate :: "watchEvent \<Rightarrow> bool"

record controllerSpec =
  cs_For :: string
  cs_Owns :: "string list"
  cs_Watches :: "watch list"
  cs_Named :: string

definition clusters_SetupWithManager :: controllerSpec where
  "clusters_SetupWithManager =
     \<lparr>cs_For = ''TemporalCluster'',
      cs_Owns = [''Job'', ''Deployment'', ''Service'', ''Secret'', ''ConfigMap'', ''PodDisruptionBudget'', ''Ingress'',
        ''Certificate''],
      cs_Watches = [],
      cs_Named = ''temporalcluster''\<rparr>"

definition clients_SetupWithManager :: controllerSpec where
  "clients_SetupWithManager =
     \<lparr>cs_For = ''TemporalClusterClient'', cs_Owns = [''Certificate''], cs_Watches = [], cs_Named = ''temporalclusterclient''\<rparr>"

definition devServers_SetupWithManager :: controllerSpec where
  "devServers_SetupWithManager =
     \<lparr>cs_For = ''TemporalDevServer'', cs_Owns = [''Deployment'', ''Service'', ''PersistentVolumeClaim''], cs_Watches = [],
      cs_Named = ''temporaldevserver''\<rparr>"

text \<open>The map functions list the objects of a namespace; what the list returns is an argument.\<close>

definition namespaces_SetupWithManager :: "meta_api \<Rightarrow> (string \<Rightarrow> TemporalNamespace list result) \<Rightarrow> controllerSpec" where
  "namespaces_SetupWithManager M ls =
     \<lparr>cs_For = ''TemporalNamespace'', cs_Owns = [],
      cs_Watches = [
        \<lparr>wa_Kind = ''TemporalCluster'',
         wa_Map = \<lambda>m. mapClusterToNamespaces (ls (om_Namespace m)) ClusterKindTemporalCluster (om_Name m),
         wa_Predicate = clusterReadinessChanged M\<rparr>,
        \<lparr>wa_Kind = ''TemporalDevServer'',
         wa_Map = \<lambda>m. mapClusterToNamespaces (ls (om_Namespace m)) ClusterKindTemporalDevServer (om_Name m),
         wa_Predicate = clusterReadinessChanged M\<rparr>],
      cs_Named = ''temporalnamespace''\<rparr>"

definition searchAttributes_SetupWithManager ::
  "meta_api \<Rightarrow> (string \<Rightarrow> TemporalSearchAttribute list result) \<Rightarrow> controllerSpec" where
  "searchAttributes_SetupWithManager M ls =
     \<lparr>cs_For = ''TemporalSearchAttribute'', cs_Owns = [],
      cs_Watches = [
        \<lparr>wa_Kind = ''TemporalCluster'',
         wa_Map = \<lambda>m. mapClusterToSearchAttributes (ls (om_Namespace m)) ClusterKindTemporalCluster (om_Name m),
         wa_Predicate = clusterReadinessChanged M\<rparr>,
        \<lparr>wa_Kind = ''TemporalDevServer'',
         wa_Map = \<lambda>m. mapClusterToSearchAttributes (ls (om_Namespace m)) ClusterKindTemporalDevServer (om_Name m),
         wa_Predicate = clusterReadinessChanged M\<rparr>],
      cs_Named = ''temporalsearchattribute''\<rparr>"

definition schedules_SetupWithManager :: "meta_api \<Rightarrow> (string \<Rightarrow> TemporalSchedule list result) \<Rightarrow> controllerSpec" where
  "schedules_SetupWithManager M ls =
     \<lparr>cs_For = ''TemporalSchedule'', cs_Owns = [],
      cs_Watches = [
        \<lparr>wa_Kind = ''TemporalCluster'',
         wa_Map = \<lambda>m. mapClusterToSchedules (ls (om_Namespace m)) ClusterKindTemporalCluster (om_Name m),
         wa_Predicate = clusterReadinessChanged M\<rparr>,
        \<lparr>wa_Kind = ''TemporalDevServer'',
         wa_Map = \<lambda>m. mapClusterToSchedules (ls (om_Namespace m)) ClusterKindTemporalDevServer (om_Name m),
         wa_Predicate = clusterReadinessChanged M\<rparr>],
      cs_Named = ''temporalschedule''\<rparr>"

definition workflowRuns_SetupWithManager :: "meta_api \<Rightarrow> (string \<Rightarrow> TemporalWorkflowRun list result) \<Rightarrow> controllerSpec" where
  "workflowRuns_SetupWithManager M ls =
     \<lparr>cs_For = ''TemporalWorkflowRun'', cs_Owns = [],
      cs_Watches = [
        \<lparr>wa_Kind = ''TemporalCluster'',
         wa_Map = \<lambda>m. mapClusterToWorkflowRuns (ls (om_Namespace m)) ClusterKindTemporalCluster (om_Name m),
         wa_Predicate = clusterReadinessChanged M\<rparr>,
        \<lparr>wa_Kind = ''TemporalDevServer'',
         wa_Map = \<lambda>m. mapClusterToWorkflowRuns (ls (om_Namespace m)) ClusterKindTemporalDevServer (om_Name m),
         wa_Predicate = clusterReadinessChanged M\<rparr>],
      cs_Named = ''temporalworkflowrun''\<rparr>"

definition connections_SetupWithManager ::
  "meta_api \<Rightarrow> (string \<Rightarrow> TemporalClusterConnection list result) \<Rightarrow> controllerSpec" where
  "connections_SetupWithManager M ls =
     \<lparr>cs_For = ''TemporalClusterConnection'', cs_Owns = [],
      cs_Watches = [
        \<lparr>wa_Kind = ''TemporalCluster'',
         wa_Map = \<lambda>m. mapClusterToConnections (ls (om_Namespace m)) ClusterKindTemporalCluster (om_Name m),
         wa_Predicate = clusterReadinessChanged M\<rparr>,
        \<lparr>wa_Kind = ''TemporalDevServer'',
         wa_Map = \<lambda>m. mapClusterToConnections (ls (om_Namespace m)) ClusterKindTemporalDevServer (om_Name m),
         wa_Predicate = clusterReadinessChanged M\<rparr>],
      cs_Named = ''temporalclusterconnection''\<rparr>"

section \<open>Events\<close>

text \<open>
  The documented behaviour of the builder of controllers: \<^verbatim>\<open>For\<close> enqueues the object of an event, \<^verbatim>\<open>Owns\<close> the
  object that the controller reference names when it is of the controller's kind, and \<^verbatim>\<open>Watches\<close> what the map
  function gives for an event that the predicate lets through.
\<close>

record objEvent =
  oe_Kind :: string
  oe_Event :: watchEvent
  oe_Controller :: "(string \<times> string) option"

definition metaKey :: "ObjectMeta \<Rightarrow> key" where
  "metaKey m = (om_Namespace m, om_Name m)"

fun eventMetas :: "watchEvent \<Rightarrow> ObjectMeta list" where
  "eventMetas (CreateEvent w) = [watchedMeta w]"
| "eventMetas (DeleteEvent w) = [watchedMeta w]"
| "eventMetas (UpdateEvent old new) = map watchedMeta (List.map_filter id [old, new])"
| "eventMetas (GenericEvent w) = [watchedMeta w]"

definition ownerRequests :: "controllerSpec \<Rightarrow> objEvent \<Rightarrow> ObjectMeta \<Rightarrow> key list" where
  "ownerRequests spec ev m =
     (if oe_Kind ev \<notin> set (cs_Owns spec) then []
      else case oe_Controller ev of
        None \<Rightarrow> []
      | Some (kind, name) \<Rightarrow> if kind = cs_For spec then [(om_Namespace m, name)] else [])"

definition watchRequests :: "objEvent \<Rightarrow> watch \<Rightarrow> key list" where
  "watchRequests ev wa =
     (if wa_Kind wa = oe_Kind ev \<and> wa_Predicate wa (oe_Event ev)
      then concat (map (wa_Map wa) (eventMetas (oe_Event ev))) else [])"

text \<open>The keys on the queue, which holds each once.\<close>

definition requests :: "controllerSpec \<Rightarrow> objEvent \<Rightarrow> key list" where
  "requests spec ev =
     remdups
       ((if oe_Kind ev = cs_For spec then map metaKey (eventMetas (oe_Event ev)) else []) @
        concat (map (ownerRequests spec ev) (eventMetas (oe_Event ev))) @
        concat (map (watchRequests ev) (cs_Watches spec)))"

section \<open>Owned objects\<close>

text \<open>
  Setting the controller reference keeps the identity of an object and names its owner, here the object
  with metadata \<open>m\<close>; \<open>ctl\<close> reads the reference back from what was applied.
\<close>

definition setsController :: "kube \<Rightarrow> (KObj \<Rightarrow> (string \<times> string) option) \<Rightarrow> string \<Rightarrow> ObjectMeta \<Rightarrow> bool" where
  "setsController k ctl kind m \<longleftrightarrow>
     (\<forall>ob ob'. k_SetControllerReference k m ob = Inr ob' \<longrightarrow> obj_key ob' = obj_key ob \<and> ctl ob' = Some (kind, om_Name m))"

text \<open>An applied object that its owner's controller hears of: any event on it enqueues the owner, once.\<close>

definition eventOn :: "KObj \<Rightarrow> (string \<times> string) option \<Rightarrow> (watched \<Rightarrow> watchEvent) \<Rightarrow> objEvent" where
  "eventOn ob owner ev = \<lparr>oe_Kind = obj_kind ob, oe_Event = ev (WatchedOther (obj_meta ob)), oe_Controller = owner\<rparr>"

definition heard :: "controllerSpec \<Rightarrow> (KObj \<Rightarrow> (string \<times> string) option) \<Rightarrow> ObjectMeta \<Rightarrow> KObj \<Rightarrow> bool" where
  "heard spec ctl m ob \<longleftrightarrow>
     requests spec (eventOn ob (ctl ob) CreateEvent) = [metaKey m] \<and>
     requests spec (eventOn ob (ctl ob) DeleteEvent) = [metaKey m] \<and>
     requests spec (eventOn ob (ctl ob) (\<lambda>w. UpdateEvent (Some w) (Some w))) = [metaKey m]"

lemma heardI:
  assumes "obj_kind ob \<in> set (cs_Owns spec)" "om_Namespace (obj_meta ob) = om_Namespace m"
    and "ctl ob = Some (cs_For spec, om_Name m)" "cs_For spec \<notin> set (cs_Owns spec)" "cs_Watches spec = []"
  shows "heard spec ctl m ob"
  using assms by (auto simp: heard_def requests_def eventOn_def ownerRequests_def metaKey_def map_filter_def)

definition hears :: "string list \<Rightarrow> controllerSpec \<Rightarrow> (KObj \<Rightarrow> (string \<times> string) option) \<Rightarrow> ObjectMeta \<Rightarrow> call \<Rightarrow> bool" where
  "hears exempt spec ctl m call =
     (case call of CApply ob \<Rightarrow> obj_kind ob \<in> set exempt \<or> heard spec ctl m ob | _ \<Rightarrow> True)"

lemma hears_no_apply: "\<not> isApply call \<Longrightarrow> hears exempt spec ctl m call"
  by (cases call) (auto simp: hears_def)

text \<open>
  A controller that applies objects: a pass over an object applies only what the registration of the
  controller leads back to that object, some kinds excepted.
\<close>

locale applying_controller =
  fixes environment :: "(KObj \<Rightarrow> (string \<times> string) option) \<Rightarrow> 'r \<Rightarrow> 'o \<Rightarrow> bool" and exempt :: "string list"
    and spec :: controllerSpec and objectMeta :: "'o \<Rightarrow> ObjectMeta" and pass :: "'r \<Rightarrow> 'o \<Rightarrow> 'a act"
  assumes applies: "environment ctl R ob \<Longrightarrow> emits (hears exempt spec ctl (objectMeta ob)) (pass R ob)"
begin

lemma applied_heard:
  assumes "environment ctl R ob" "CApply x \<in> set (callsOf (pass R ob) w)" "obj_kind x \<notin> set exempt"
  shows "heard spec ctl (objectMeta ob) x"
  using emits_callsOf [OF applies [OF assms(1)], of w] assms(2,3) by (auto simp: hears_def list_all_iff)

end

lemma hears_owned:
  assumes "setsController k ctl (cs_For spec) m" "k_SetControllerReference k m ob = Inr ob'"
    and "obj_key ob = (kind, om_Namespace m, name)" "kind \<in> set (cs_Owns spec @ exempt)"
    and "cs_For spec \<notin> set (cs_Owns spec)" "cs_Watches spec = []"
  shows "hears exempt spec ctl m (CApply ob')"
proof -
  have "obj_key ob' = obj_key ob" "ctl ob' = Some (cs_For spec, om_Name m)"
    using assms(1,2) by (auto simp: setsController_def)
  then show ?thesis
    using assms(3-6) heardI [of ob' spec m ctl] by (auto simp: hears_def obj_key_def)
qed

subsection \<open>Clusters\<close>

definition clusterApplies :: "TemporalCluster \<Rightarrow> (KObj \<Rightarrow> (string \<times> string) option) \<Rightarrow> call \<Rightarrow> bool" where
  "clusterApplies c ctl = hears [''ServiceMonitor''] clusters_SetupWithManager ctl (tc_Meta c)"

lemma clusterApplies_simps [simp]:
  "clusterApplies c ctl (CGet a b d)" "clusterApplies c ctl (CCreate ob)" "clusterApplies c ctl (CDelete a b d)"
  "clusterApplies c ctl (CStatusUpdate a b d)" "clusterApplies c ctl (CEvent a b)" "clusterApplies c ctl (CList a b d)"
  by (simp_all add: clusterApplies_def hears_def)

lemma clusterApplies_no_apply: "\<not> isApply call \<Longrightarrow> clusterApplies c ctl call"
  unfolding clusterApplies_def by (rule hears_no_apply)

lemma clusterApplies_cong: "tc_Meta c' = tc_Meta c \<Longrightarrow> clusterApplies c' ctl = clusterApplies c ctl"
  by (simp add: clusterApplies_def)

text \<open>The keys of what a cluster's pass applies.\<close>

definition clusterKeys :: "TemporalCluster \<Rightarrow> (string \<times> string \<times> string) set" where
  "clusterKeys c = {(kind, tc_Namespace c, name) | kind name. kind \<in> set (cs_Owns clusters_SetupWithManager @ [''ServiceMonitor''])}"

lemma applyAll_hears:
  assumes "setsController (rc_Client R) ctl ''TemporalCluster'' (tc_Meta c)" "\<forall>ob\<in>set obs. obj_key ob \<in> clusterKeys c"
  shows "emits (clusterApplies c ctl) (applyAll R c obs)"
  using assms(2)
proof (induction obs)
  case (Cons ob obs)
  have one: "clusterApplies c ctl (CApply ob')" if own: "k_SetControllerReference (rc_Client R) (tc_Meta c) ob = Inr ob'" for ob'
  proof -
    obtain kind name where "obj_key ob = (kind, tc_Namespace c, name)"
      "kind \<in> set (cs_Owns clusters_SetupWithManager @ [''ServiceMonitor''])"
      using Cons.prems by (auto simp: clusterKeys_def)
    then show ?thesis
      using hears_owned [of "rc_Client R" ctl clusters_SetupWithManager, OF _ own] assms(1)
      by (auto simp: clusterApplies_def clusters_SetupWithManager_def)
  qed
  have "emits (clusterApplies c ctl) (applyOwned R c ob)"
    unfolding applyOwned_def serverSideApply_def by (auto intro!: emits_rules one split: sum.splits)
  then show ?case using Cons by (auto intro!: emits_rules)
qed (simp add: emits_return)

lemma keys_heard:
  assumes "keysOf ps = ks" "\<forall>k\<in>set ks. k \<in> clusterKeys c"
  shows "\<forall>ob\<in>set (map plo_Object ps). obj_key ob \<in> clusterKeys c"
  using assms by (auto simp: keysOf_def)

lemma owned_kinds [simp]:
  "cs_Owns clusters_SetupWithManager = [''Job'', ''Deployment'', ''Service'', ''Secret'', ''ConfigMap'', ''PodDisruptionBudget'',
     ''Ingress'', ''Certificate'']"
  by (simp add: clusters_SetupWithManager_def)

lemma clusterKeys_iff [simp]:
  "(kind, ns, name) \<in> clusterKeys c \<longleftrightarrow>
     ns = tc_Namespace c \<and> kind \<in> set (cs_Owns clusters_SetupWithManager @ [''ServiceMonitor''])"
  by (auto simp: clusterKeys_def)

lemma wireAzure_key: "obj_key (wireAzure c p) = obj_key (plo_Object p)"
  by (auto simp: wireAzure_def obj_key_def split: option.splits KObj.splits)

lemma planned_heard:
  "PlanMTLS c = Inr ps \<Longrightarrow> \<forall>ob\<in>set (map plo_Object ps). obj_key ob \<in> clusterKeys c"
  "PlanServices L c inp = Inr ps \<Longrightarrow> \<forall>ob\<in>set (map (wireAzure c) ps). obj_key ob \<in> clusterKeys c"
  "PlanUI L c = Inr ps \<Longrightarrow> \<forall>ob\<in>set (map plo_Object ps). obj_key ob \<in> clusterKeys c"
  "\<forall>ob\<in>set (map plo_Object (PlanMonitoring c)). obj_key ob \<in> clusterKeys c"
proof -
  show "\<forall>ob\<in>set (map plo_Object ps). obj_key ob \<in> clusterKeys c" if "PlanMTLS c = Inr ps"
    by (rule keys_heard [OF PlanMTLS_keys [OF that]]) auto
  show "\<forall>ob\<in>set (map (wireAzure c) ps). obj_key ob \<in> clusterKeys c" if "PlanServices L c inp = Inr ps"
    using keys_heard [OF PlanServices_keys [OF that], of c] by (simp add: wireAzure_key serviceKeys_def Let_def)
  show "\<forall>ob\<in>set (map plo_Object ps). obj_key ob \<in> clusterKeys c" if "PlanUI L c = Inr ps"
    using PlanUI_keys [OF that] keys_heard [of ps _ c] by fastforce
  show "\<forall>ob\<in>set (map plo_Object (PlanMonitoring c)). obj_key ob \<in> clusterKeys c"
    by (rule keys_heard [OF PlanMonitoring_keys]) auto
qed

lemma steps_heard:
  assumes "setsController (rc_Client R) ctl ''TemporalCluster'' (tc_Meta c)"
  shows "emits (clusterApplies c ctl) (reconcileMTLS R c)" "emits (clusterApplies c ctl) (reconcileServices R c vs)"
    "emits (clusterApplies c ctl) (reconcileUI R c)" "emits (clusterApplies c ctl) (reconcileMonitoring R c)"
    "emits (clusterApplies c ctl) (finishPass R c' res)"
proof -
  note apply_all = applyAll_hears [OF assms]
  have certs: "emits (clusterApplies c ctl) (certificatesStatus R c names)" for names
    by (rule emits_mono [OF certificatesStatus_emits clusterApplies_no_apply])
  show "emits (clusterApplies c ctl) (reconcileMTLS R c)"
    unfolding reconcileMTLS_def by (auto intro!: emits_rules certs apply_all planned_heard(1) split: sum.splits)
  have rollup: "emits (clusterApplies c ctl) (rollupLoop R x svcs b)" for x svcs b
    by (induction svcs arbitrary: x b) (auto intro!: emits_rules)
  have hash: "emits (clusterApplies c ctl) (certHashInput R x names)" for x names
    by (induction names) (auto intro!: emits_rules)
  have store: "emits (clusterApplies c ctl) (ResolveStore k ns st)" for k ns st
    by (rule emits_mono [OF emits_ResolveStore clusterApplies_no_apply])
  show "emits (clusterApplies c ctl) (reconcileServices R c vs)"
    unfolding reconcileServices_def renderConfig_def mtlsMounts_def certHash_def rollupServiceStatus_def
    by (intro emits_rules rollup hash store apply_all planned_heard(2))
  show "emits (clusterApplies c ctl) (reconcileUI R c)"
    unfolding reconcileUI_def by (auto intro!: emits_rules apply_all planned_heard(3) split: sum.splits)
  have "emits (clusterApplies c ctl) (serviceMonitorCRDInstalled R)"
    by (rule emitsI) (auto simp: serviceMonitorCRDInstalled_def)
  then show "emits (clusterApplies c ctl) (reconcileMonitoring R c)"
    unfolding reconcileMonitoring_def by (intro emits_rules apply_all planned_heard(4))
  show "emits (clusterApplies c ctl) (finishPass R c' res)"
    unfolding finishPass_def computeReadyAndPhase_def Let_def by (intro emits_rules) simp_all
qed

lemma objects_heard:
  assumes "setsController (rc_Client R) ctl ''TemporalCluster'' (tc_Meta c)"
  shows "emits (clusterApplies c ctl) (reconcileObjects R c vs)"
proof -
  have after: "emits (clusterApplies c ctl) (reconcileUI R c')" "emits (clusterApplies c ctl) (reconcileMonitoring R c')"
    if "run_state (reconcileServices R c vs) w = ((c', e), w')" for w c' e w'
    using steps_heard(3,4) [of R ctl c'] reconcileServices_same [OF that] clusterApplies_cong [of c' c] assms
    by (simp_all add: sameUpgrade_def)
  show ?thesis
    unfolding reconcileObjects_def
    by (rule emits_bind_dep [OF steps_heard(2) [OF assms]]) (auto intro!: emits_rules dest: after)
qed

definition clustersEnvironment ::
  "(KObj \<Rightarrow> (string \<times> string) option) \<Rightarrow> TemporalClusterReconciler \<Rightarrow> TemporalCluster \<Rightarrow> bool" where
  "clustersEnvironment ctl R c \<longleftrightarrow>
     meta_laws (rc_MetaApi R) \<and> rc_BackendFactory R = None \<and> setsController (rc_Client R) ctl ''TemporalCluster'' (tc_Meta c)"

lemma pass_heard:
  assumes "clustersEnvironment ctl R c"
  shows "emits (clusterApplies c ctl) (reconcileCluster R c)"
proof -
  have laws: "meta_laws (rc_MetaApi R)" "rc_BackendFactory R = None" "setsController (rc_Client R) ctl ''TemporalCluster'' (tc_Meta c)"
    using assms by (simp_all add: clustersEnvironment_def)
  have pers: "emits (clusterApplies c ctl) (reconcilePersistence R c)"
    by (rule emits_mono [OF reconcilePersistence_emits [OF laws(2)] clusterApplies_no_apply])
  have upgrade: "emits (clusterApplies c ctl) (reconcileUpgrade R x)" for x
    by (rule emits_mono [OF reconcileUpgrade_emits clusterApplies_no_apply])
  have certs: "emits (clusterApplies c ctl) (reconcileMTLS R x)" if "tc_Meta x = tc_Meta c" for x
    using steps_heard(1) [of R ctl x] laws(3) clusterApplies_cong [OF that] that by simp
  have obs: "emits (clusterApplies c ctl) (reconcileObjects R x vs)" if "tc_Meta x = tc_Meta c" for x vs
    using objects_heard [of R ctl x vs] laws(3) clusterApplies_cong [OF that] that by simp
  have step: "between (clusterApplies c ctl) w w'" if run: "run_state (reconcileCluster R c) w = (out, w')" for w out w'
    using run
  proof (cases rule: pass_steps)
    case (persistence c1 e)
    then show ?thesis using between_emits [OF pers] by blast
  next
    case (mtls c1 res w1 c2 e)
    have "tc_Meta c1 = tc_Meta c" using reconcilePersistence_same [OF laws(1) mtls(1)] by (simp add: sameUpgrade_def)
    then show ?thesis by (rule between_trans [OF between_emits [OF pers mtls(1)] between_emits [OF certs mtls(2)]])
  next
    case (objects c1 res w1 c2 w2 c3 vs w3 c4 e)
    have same: "tc_Meta c1 = tc_Meta c" "tc_Meta c2 = tc_Meta c" "tc_Meta c3 = tc_Meta c"
      using reconcilePersistence_same [OF laws(1) objects(1)] reconcileMTLS_same [OF objects(2)] pass_keeps [OF objects(3)]
      by (simp_all add: sameUpgrade_def)
    show ?thesis
      by (rule between_trans [OF between_trans [OF between_trans
            [OF between_emits [OF pers objects(1)] between_emits [OF certs [OF same(1)] objects(2)]]
            between_emits [OF upgrade objects(3)]] between_emits [OF obs [OF same(3)] objects(4)]])
  next
    case (finish c1 res w1 c2 w2 c3 vs w3 c4 w4)
    have same: "tc_Meta c1 = tc_Meta c" "tc_Meta c2 = tc_Meta c" "tc_Meta c3 = tc_Meta c"
      using reconcilePersistence_same [OF laws(1) finish(1)] reconcileMTLS_same [OF finish(2)] pass_keeps [OF finish(3)]
      by (simp_all add: sameUpgrade_def)
    show ?thesis
      by (rule between_trans [OF between_trans [OF between_trans [OF between_trans
            [OF between_emits [OF pers finish(1)] between_emits [OF certs [OF same(1)] finish(2)]]
            between_emits [OF upgrade finish(3)]] between_emits [OF obs [OF same(3)] finish(4)]]
            between_emits [OF steps_heard(5) [OF laws(3)] finish(5)]])
  qed
  then show ?thesis by (auto intro!: emitsI simp: between_def)
qed

interpretation clusterObjects: applying_controller clustersEnvironment "[''ServiceMonitor'']" clusters_SetupWithManager tc_Meta
  reconcileCluster
  by unfold_locales (use pass_heard in \<open>simp add: clusterApplies_def\<close>)

subsection \<open>Dev servers and client certificates\<close>

definition ownersEnvironment ::
  "string \<Rightarrow> ('o \<Rightarrow> ObjectMeta) \<Rightarrow> (KObj \<Rightarrow> (string \<times> string) option) \<Rightarrow> crd_api \<Rightarrow> 'o \<Rightarrow> bool" where
  "ownersEnvironment kind objectMeta ctl A ob \<longleftrightarrow> setsController (ca_kube A) ctl kind (objectMeta ob)"

lemma dev_pass_heard:
  assumes "ownersEnvironment ''TemporalDevServer'' dev_Meta ctl A dev"
  shows "emits (hears [] devServers_SetupWithManager ctl (dev_Meta dev)) (reconcileDevServer A dev)"
proof -
  let ?C = "hears [] devServers_SetupWithManager ctl (dev_Meta dev)"
  have spec: "cs_For devServers_SetupWithManager = ''TemporalDevServer''" "cs_Watches devServers_SetupWithManager = []"
    "cs_Owns devServers_SetupWithManager = [''Deployment'', ''Service'', ''PersistentVolumeClaim'']"
    by (simp_all add: devServers_SetupWithManager_def)
  have one: "emits ?C (dev_apply A dev ob)"
    if "obj_key ob = (kind, om_Namespace (dev_Meta dev), name)" "kind \<in> set (cs_Owns devServers_SetupWithManager)" for ob kind name
    unfolding dev_apply_def serverSideApply_def
    by (auto intro!: emits_rules hears_owned [OF _ _ that(1)] simp: that(2) spec split: sum.splits)
      (use assms that(2) in \<open>auto simp: ownersEnvironment_def spec\<close>)
  have "emits ?C (dev_applyAll A dev obs)"
    if "\<forall>ob\<in>set obs. \<exists>kind name. obj_key ob = (kind, om_Namespace (dev_Meta dev), name) \<and>
      kind \<in> set (cs_Owns devServers_SetupWithManager)" for obs
    using that by (induction obs) (auto intro!: emits_rules dest: one)
  moreover have "\<forall>ob\<in>set (dev_objects dev img). \<exists>kind name. obj_key ob = (kind, om_Namespace (dev_Meta dev), name) \<and>
      kind \<in> set (cs_Owns devServers_SetupWithManager)" for img
    by (auto simp: dev_objects_def obj_key_def spec BuildDevServerPVC_def BuildDevServerService_def BuildDevServerDeployment_def
        newMeta_def newDeployment_def Let_def split: option.splits if_splits)
  ultimately show ?thesis
    unfolding reconcileDevServer_def dev_statusUpdate_def dev_deploymentReady_def failed_def
    by (intro emits_rules; simp add: hears_def)
qed

interpretation devServerObjects: applying_controller "ownersEnvironment ''TemporalDevServer'' dev_Meta" "[]" devServers_SetupWithManager
  dev_Meta reconcileDevServer
  by unfold_locales (rule dev_pass_heard)

lemma client_pass_heard:
  assumes "ownersEnvironment ''TemporalClusterClient'' tcc_Meta ctl A cc"
  shows "emits (hears [] clients_SetupWithManager ctl (tcc_Meta cc)) (reconcileClusterClient A cc)"
proof -
  let ?C = "hears [] clients_SetupWithManager ctl (tcc_Meta cc)"
  have spec: "cs_For clients_SetupWithManager = ''TemporalClusterClient''" "cs_Watches clients_SetupWithManager = []"
    "cs_Owns clients_SetupWithManager = [''Certificate'']"
    by (simp_all add: clients_SetupWithManager_def)
  have key: "obj_key (OCertificate cert) = (''Certificate'', om_Namespace (tcc_Meta cc), om_Name (tcc_Meta cc))"
    if "BuildClientCertificate cc cluster = Inr cert" for cert cluster
    using that by (auto simp: BuildClientCertificate_def bindR_eq_Inr obj_key_def newMeta_def Let_def split: option.splits)
  have "?C (CApply owned)"
    if "BuildClientCertificate cc cluster = Inr cert"
      "k_SetControllerReference (ca_kube A) (tcc_Meta cc) (OCertificate cert) = Inr owned" for cert cluster owned
    using hears_owned [OF _ that(2) key [OF that(1)]] assms by (simp add: ownersEnvironment_def spec)
  then show ?thesis
    unfolding reconcileClusterClient_def cc_statusUpdate_def cc_certificateReady_def failed_def serverSideApply_def
    by (intro emits_rules; (blast | simp add: hears_def))
qed

interpretation clientObjects: applying_controller "ownersEnvironment ''TemporalClusterClient'' tcc_Meta" "[]" clients_SetupWithManager
  tcc_Meta reconcileClusterClient
  by unfold_locales (rule client_pass_heard)

section \<open>Followers of a target\<close>

text \<open>
  A controller whose objects refer to clusters or dev servers watches both kinds with the same predicate
  and a map function that finds the objects that refer to the target.
\<close>

locale target_follower =
  fixes kind :: string and register :: "meta_api \<Rightarrow> (string \<Rightarrow> 'o list result) \<Rightarrow> controllerSpec"
    and objectMeta :: "'o \<Rightarrow> ObjectMeta" and refs :: "'o \<Rightarrow> ClusterReference list"
  assumes kind: "cs_For (register M ls) = kind" "kind \<noteq> ''TemporalCluster''" "kind \<noteq> ''TemporalDevServer''"
    and owns: "cs_Owns (register M ls) = []"
    and watches: "cs_Watches (register M ls) =
      map (\<lambda>k. \<lparr>wa_Kind = k, wa_Map = \<lambda>m. mapClusterTo objectMeta refs (ls (om_Namespace m)) k (om_Name m),
        wa_Predicate = clusterReadinessChanged M\<rparr>) [''TemporalCluster'', ''TemporalDevServer'']"
begin

lemma woken:
  assumes "target \<in> {''TemporalCluster'', ''TemporalDevServer''}" "clusterReadinessChanged M ev"
    and "eventMetas ev \<noteq> []" "\<forall>m\<in>set (eventMetas ev). metaKey m = (ns, name)" "ls ns = Inr xs"
  shows "set (requests (register M ls) \<lparr>oe_Kind = target, oe_Event = ev, oe_Controller = own\<rparr>) =
    {metaKey (objectMeta x) | x. x \<in> set xs \<and> list_ex (\<lambda>r. refTargets r target name) (refs x)}" (is "set (requests _ ?ev) = ?found")
proof -
  have one: "set (mapClusterTo objectMeta refs (ls (om_Namespace m)) target (om_Name m)) = ?found" if "m \<in> set (eventMetas ev)" for m
    using assms(4,5) that by (auto simp: mapClusterTo_def metaKey_def)
  have "(\<Union>m\<in>set (eventMetas ev). set (mapClusterTo objectMeta refs (ls (om_Namespace m)) target (om_Name m))) =
    (\<Union>m\<in>set (eventMetas ev). ?found)"
    using one by (rule SUP_cong [OF refl])
  then have found: "(\<Union>m\<in>set (eventMetas ev). set (mapClusterTo objectMeta refs (ls (om_Namespace m)) target (om_Name m))) = ?found"
    using assms(3) by simp
  have "set (watchRequests ?ev wa) = (if wa_Kind wa = target then ?found else {})" if "wa \<in> set (cs_Watches (register M ls))" for wa
  proof (cases "wa_Kind wa = target")
    case True
    then have "wa_Map wa = (\<lambda>m. mapClusterTo objectMeta refs (ls (om_Namespace m)) target (om_Name m))"
      "wa_Predicate wa = clusterReadinessChanged M"
      using that by (auto simp: watches)
    then show ?thesis using True assms(2) found by (simp add: watchRequests_def)
  qed (simp add: watchRequests_def)
  then have "(\<Union>wa\<in>set (cs_Watches (register M ls)). set (watchRequests ?ev wa)) =
    (\<Union>wa\<in>set (cs_Watches (register M ls)). if wa_Kind wa = target then ?found else {})"
    by (rule SUP_cong [OF refl])
  also have "\<dots> = ?found" using assms(1) by (auto simp: watches)
  finally have "set (concat (map (watchRequests ?ev) (cs_Watches (register M ls)))) = ?found" by simp
  moreover have "concat (map (ownerRequests (register M ls) ?ev) (eventMetas ev)) = []" by (simp add: ownerRequests_def owns)
  ultimately show ?thesis using assms(1) kind by (auto simp: requests_def)
qed

end

interpretation namespaceFollowers: target_follower "''TemporalNamespace''" namespaces_SetupWithManager tn_Meta
  "\<lambda>n. [tns_ClusterRef (tn_Spec n)]"
  by unfold_locales (simp_all add: namespaces_SetupWithManager_def fun_eq_iff mapClusterToNamespaces_def
      ClusterKindTemporalCluster_def ClusterKindTemporalDevServer_def)

interpretation searchAttributeFollowers: target_follower "''TemporalSearchAttribute''" searchAttributes_SetupWithManager sa_Object
  "\<lambda>s. [tsa_ClusterRef (sa_Spec s)]"
  by unfold_locales (simp_all add: searchAttributes_SetupWithManager_def fun_eq_iff mapClusterToSearchAttributes_def
      ClusterKindTemporalCluster_def ClusterKindTemporalDevServer_def)

interpretation scheduleFollowers: target_follower "''TemporalSchedule''" schedules_SetupWithManager tsc_Meta
  "\<lambda>s. [tss_ClusterRef (tsc_Spec s)]"
  by unfold_locales (simp_all add: schedules_SetupWithManager_def fun_eq_iff mapClusterToSchedules_def
      ClusterKindTemporalCluster_def ClusterKindTemporalDevServer_def)

interpretation workflowRunFollowers: target_follower "''TemporalWorkflowRun''" workflowRuns_SetupWithManager wr_Meta
  "\<lambda>r. [wrs_ClusterRef (wr_Spec r)]"
  by unfold_locales (simp_all add: workflowRuns_SetupWithManager_def fun_eq_iff mapClusterToWorkflowRuns_def
      ClusterKindTemporalCluster_def ClusterKindTemporalDevServer_def)

interpretation connectionFollowers: target_follower "''TemporalClusterConnection''" connections_SetupWithManager tcn_Meta
  "\<lambda>c. List.map_filter ccp_ClusterRef (tccs_Peers (tcn_Spec c))"
  by unfold_locales (simp_all add: connections_SetupWithManager_def fun_eq_iff mapClusterToConnections_def
      ClusterKindTemporalCluster_def ClusterKindTemporalDevServer_def)

section \<open>Properties\<close>

text \<open>
  C0: Whatever a pass over a cluster, a dev server or a client certificate applies leads back to it: creating,
  changing or deleting the applied object puts exactly the owner on its controller's queue, so a later
  pass repairs what was changed.  ServiceMonitors are the only exception.  The API machinery is assumed to keep
  the identity of an object whose controller reference it sets.
\<close>
theorem applied_objects_wake_their_owner:
  assumes "clustersEnvironment ctl R c" "ownersEnvironment ''TemporalDevServer'' dev_Meta ctl' A dev"
    and "ownersEnvironment ''TemporalClusterClient'' tcc_Meta ctl'' A' cc"
  shows "(\<forall>ob. CApply ob \<in> set (callsOf (reconcileCluster R c) w) \<longrightarrow> obj_kind ob \<noteq> ''ServiceMonitor'' \<longrightarrow>
      heard clusters_SetupWithManager ctl (tc_Meta c) ob) \<and>
    (\<forall>ob. CApply ob \<in> set (callsOf (reconcileDevServer A dev) w) \<longrightarrow> heard devServers_SetupWithManager ctl' (dev_Meta dev) ob) \<and>
    (\<forall>ob. CApply ob \<in> set (callsOf (reconcileClusterClient A' cc) w) \<longrightarrow> heard clients_SetupWithManager ctl'' (tcc_Meta cc) ob)"
  using clusterObjects.applied_heard [OF assms(1)] devServerObjects.applied_heard [OF assms(2)]
    clientObjects.applied_heard [OF assms(3)]
  by simp

text \<open>
  C0: When the readiness of a cluster or a dev server changes, the controllers of namespaces, search attributes,
  schedules, workflow runs and connections put exactly the objects on their queues that refer to it, among
  those that the API server lists in its namespace; so what waits for a target gets a pass when the
  target becomes ready.
\<close>
theorem ready_target_wakes_dependents:
  assumes "target \<in> {''TemporalCluster'', ''TemporalDevServer''}"
    and "metaKey (watchedMeta old) = (ns, name)" "metaKey (watchedMeta new) = (ns, name)"
    and "targetReadyStatus M old \<noteq> targetReadyStatus M new"
    and "lsN ns = Inr nss" "lsA ns = Inr sas" "lsS ns = Inr scheds" "lsW ns = Inr runs" "lsC ns = Inr conns"
  defines "ev \<equiv> \<lparr>oe_Kind = target, oe_Event = UpdateEvent (Some old) (Some new), oe_Controller = None\<rparr>"
  shows "set (requests (namespaces_SetupWithManager M lsN) ev) =
      {metaKey (tn_Meta x) | x. x \<in> set nss \<and> refTargets (tns_ClusterRef (tn_Spec x)) target name} \<and>
    set (requests (searchAttributes_SetupWithManager M lsA) ev) =
      {metaKey (sa_Object x) | x. x \<in> set sas \<and> refTargets (tsa_ClusterRef (sa_Spec x)) target name} \<and>
    set (requests (schedules_SetupWithManager M lsS) ev) =
      {metaKey (tsc_Meta x) | x. x \<in> set scheds \<and> refTargets (tss_ClusterRef (tsc_Spec x)) target name} \<and>
    set (requests (workflowRuns_SetupWithManager M lsW) ev) =
      {metaKey (wr_Meta x) | x. x \<in> set runs \<and> refTargets (wrs_ClusterRef (wr_Spec x)) target name} \<and>
    set (requests (connections_SetupWithManager M lsC) ev) =
      {metaKey (tcn_Meta x) | x. x \<in> set conns \<and>
        (\<exists>p\<in>set (tccs_Peers (tcn_Spec x)). \<exists>r. ccp_ClusterRef p = Some r \<and> refTargets r target name)}"
proof -
  let ?e = "UpdateEvent (Some old) (Some new)"
  have e: "clusterReadinessChanged M ?e" "eventMetas ?e \<noteq> []" "\<forall>m\<in>set (eventMetas ?e). metaKey m = (ns, name)"
    using assms(2-4) by (simp_all add: map_filter_def)
  have peers: "list_ex (\<lambda>r. refTargets r target name) (List.map_filter ccp_ClusterRef ps) \<longleftrightarrow>
    (\<exists>p\<in>set ps. \<exists>r. ccp_ClusterRef p = Some r \<and> refTargets r target name)" for ps
    by (induction ps) (auto split: option.splits)
  show ?thesis
    using namespaceFollowers.woken [where ls = lsN, OF assms(1) e assms(5)] searchAttributeFollowers.woken [where ls = lsA, OF assms(1) e assms(6)]
      scheduleFollowers.woken [where ls = lsS, OF assms(1) e assms(7)] workflowRunFollowers.woken [where ls = lsW, OF assms(1) e assms(8)]
      connectionFollowers.woken [where ls = lsC, OF assms(1) e assms(9)]
    by (simp add: ev_def peers)
qed

text \<open>
  C0: A client certificate whose cluster does not exist yet is left alone.  The pass reports \<^verbatim>\<open>ClusterNotFound\<close> and
  asks neither for a retry nor for another run, and no event of any cluster, its creation included, puts the
  object on the queue of its controller.
\<close>
theorem missing_cluster_strands_client:
  assumes "cref_Kind (tcc_ClusterRef (tcc_Spec cc)) \<noteq> ClusterKindTemporalDevServer"
    and "k_GetCluster (ca_kube A) (w_trace w) (om_Namespace (tcc_Meta cc)) (cref_Name (tcc_ClusterRef (tcc_Spec cc))) = Inl e"
    and "isNotFound e" "run_state (reconcileClusterClient A cc) w = ((Some cc', res, er), w')"
  shows "cc' = cc_setReady A cc ConditionFalse ''ClusterNotFound'' ''referenced TemporalCluster not found'' \<and>
    res = noResult \<and> er = None \<and>
    (\<forall>ev. oe_Kind ev = ''TemporalCluster'' \<longrightarrow> requests clients_SetupWithManager ev = [])"
proof -
  have "requests clients_SetupWithManager ev = []" if "oe_Kind ev = ''TemporalCluster''" for ev
    using that by (simp add: requests_def clients_SetupWithManager_def ownerRequests_def)
  then show ?thesis
    using assms
    by (auto simp: reconcileClusterClient_def getCluster_def perform_def cc_statusUpdate_def statusUpdate_def
        split: option.splits prod.splits)
qed

end
