(* ===== verification/Operator_Start.thy ===== *)
theory Operator_Start
  imports Manager_Setup Inspect_Command Dashboard_Server
begin

text \<open>
  The start of the operator (\<^verbatim>\<open>src/cmd/main.go\<close>): the command line with the parser of Go's \<^verbatim>\<open>flag\<close> package, the
  options of the manager, and the registrations up to its start.  The manager is third-party code: what it
  answers to a registration is a parameter, and so are the flags that other packages add to the command line,
  \<^verbatim>\<open>time.ParseDuration\<close> and the \<^verbatim>\<open>inspect\<close> subcommand's environment.
\<close>

section \<open>The command line\<close>

text \<open>A flag as \<^verbatim>\<open>flag.Value\<close>: whether it is boolean, and \<^verbatim>\<open>Set\<close>, which may refuse a value.\<close>

record 'a flagVar =
  fv_IsBool :: bool
  fv_Set :: "string \<Rightarrow> 'a \<Rightarrow> 'a option"

datatype 'a parsed = Parsed 'a | HelpRequested | BadFlags

definition setFlag :: "'a flagVar \<Rightarrow> string \<Rightarrow> 'a \<Rightarrow> ('a \<Rightarrow> 'a parsed) \<Rightarrow> 'a parsed" where
  "setFlag fv v f k = (case fv_Set fv v f of None \<Rightarrow> BadFlags | Some f' \<Rightarrow> k f')"

fun parseArgs :: "(string \<Rightarrow> 'a flagVar option) \<Rightarrow> string list \<Rightarrow> 'a \<Rightarrow> 'a parsed" where
  "parseArgs flags [] f = Parsed f"
| "parseArgs flags (a # args) f =
     (case flagText a of
        None \<Rightarrow> Parsed f
      | Some t \<Rightarrow>
          if t = [] \<or> hd t = CHR ''-'' \<or> hd t = CHR ''='' then BadFlags
          else
            (case cutEquals t of (name, value) \<Rightarrow>
            (case flags name of
               None \<Rightarrow> if name = ''help'' \<or> name = ''h'' then HelpRequested else BadFlags
             | Some fv \<Rightarrow>
                 if fv_IsBool fv then setFlag fv (case value of None \<Rightarrow> ''true'' | Some v \<Rightarrow> v) f (parseArgs flags args)
                 else
                   (case value of
                      Some v \<Rightarrow> setFlag fv v f (parseArgs flags args)
                    | None \<Rightarrow> (case args of [] \<Rightarrow> BadFlags | v # rest \<Rightarrow> setFlag fv v f (parseArgs flags rest))))))"

record operatorFlags =
  of_MetricsAddr :: string
  of_ProbeAddr :: string
  of_LeaderElect :: bool
  of_SecureMetrics :: bool
  of_WebhookCertPath :: string
  of_WebhookCertName :: string
  of_WebhookCertKey :: string
  of_MetricsCertPath :: string
  of_MetricsCertName :: string
  of_MetricsCertKey :: string
  of_EnableHTTP2 :: bool
  of_UiBindAddress :: string
  of_UiRefreshInterval :: duration
  of_UiBasePath :: string
  of_UiRequireAuth :: bool

definition operatorDefaults :: operatorFlags where
  "operatorDefaults =
     \<lparr>of_MetricsAddr = ''0'', of_ProbeAddr = '':8081'', of_LeaderElect = False, of_SecureMetrics = True,
      of_WebhookCertPath = [], of_WebhookCertName = ''tls.crt'', of_WebhookCertKey = ''tls.key'',
      of_MetricsCertPath = [], of_MetricsCertName = ''tls.crt'', of_MetricsCertKey = ''tls.key'',
      of_EnableHTTP2 = False, of_UiBindAddress = [], of_UiRefreshInterval = 5 * 1000000000, of_UiBasePath = ''/'',
      of_UiRequireAuth = False\<rparr>"

definition stringVar :: "(string \<Rightarrow> 'a \<Rightarrow> 'a) \<Rightarrow> 'a flagVar" where
  "stringVar put = \<lparr>fv_IsBool = False, fv_Set = \<lambda>v f. Some (put v f)\<rparr>"

definition boolVar :: "(bool \<Rightarrow> 'a \<Rightarrow> 'a) \<Rightarrow> 'a flagVar" where
  "boolVar put = \<lparr>fv_IsBool = True, fv_Set = \<lambda>v f. map_option (\<lambda>b. put b f) (parseBool v)\<rparr>"

text \<open>
  The flags by name.  A flag of another package keeps the operator's own values; whether it is boolean and which
  values it takes is given by \<open>extra\<close>.
\<close>

definition operatorFlag ::
  "(string \<Rightarrow> duration option) \<Rightarrow> (string \<Rightarrow> (bool \<times> (string \<Rightarrow> bool)) option) \<Rightarrow> string \<Rightarrow> operatorFlags flagVar option" where
  "operatorFlag parseDuration extra name =
     (case map_of
        [(''metrics-bind-address'', stringVar (\<lambda>v f. f \<lparr>of_MetricsAddr := v\<rparr>)),
         (''health-probe-bind-address'', stringVar (\<lambda>v f. f \<lparr>of_ProbeAddr := v\<rparr>)),
         (''leader-elect'', boolVar (\<lambda>b f. f \<lparr>of_LeaderElect := b\<rparr>)),
         (''metrics-secure'', boolVar (\<lambda>b f. f \<lparr>of_SecureMetrics := b\<rparr>)),
         (''webhook-cert-path'', stringVar (\<lambda>v f. f \<lparr>of_WebhookCertPath := v\<rparr>)),
         (''webhook-cert-name'', stringVar (\<lambda>v f. f \<lparr>of_WebhookCertName := v\<rparr>)),
         (''webhook-cert-key'', stringVar (\<lambda>v f. f \<lparr>of_WebhookCertKey := v\<rparr>)),
         (''metrics-cert-path'', stringVar (\<lambda>v f. f \<lparr>of_MetricsCertPath := v\<rparr>)),
         (''metrics-cert-name'', stringVar (\<lambda>v f. f \<lparr>of_MetricsCertName := v\<rparr>)),
         (''metrics-cert-key'', stringVar (\<lambda>v f. f \<lparr>of_MetricsCertKey := v\<rparr>)),
         (''enable-http2'', boolVar (\<lambda>b f. f \<lparr>of_EnableHTTP2 := b\<rparr>)),
         (''ui-bind-address'', stringVar (\<lambda>v f. f \<lparr>of_UiBindAddress := v\<rparr>)),
         (''ui-refresh-interval'',
            \<lparr>fv_IsBool = False, fv_Set = \<lambda>v f. map_option (\<lambda>d. f \<lparr>of_UiRefreshInterval := d\<rparr>) (parseDuration v)\<rparr>),
         (''ui-base-path'', stringVar (\<lambda>v f. f \<lparr>of_UiBasePath := v\<rparr>)),
         (''ui-require-auth'', boolVar (\<lambda>b f. f \<lparr>of_UiRequireAuth := b\<rparr>))] name of
        Some fv \<Rightarrow> Some fv
      | None \<Rightarrow>
          (case extra name of
             None \<Rightarrow> None
           | Some (isBool, accepts) \<Rightarrow>
               Some \<lparr>fv_IsBool = isBool, fv_Set = \<lambda>v f. if accepts v then Some f else None\<rparr>))"

section \<open>Options of the manager\<close>

record tlsOptions =
  tls_NextProtos :: "string list"

definition disableHTTP2 :: "tlsOptions \<Rightarrow> tlsOptions" where
  "disableHTTP2 c = c \<lparr>tls_NextProtos := [''http/1.1'']\<rparr>"

definition tlsOpts :: "operatorFlags \<Rightarrow> (tlsOptions \<Rightarrow> tlsOptions) list" where
  "tlsOpts f = (if of_EnableHTTP2 f then [] else [disableHTTP2])"

record webhookOptions =
  who_TLSOpts :: "(tlsOptions \<Rightarrow> tlsOptions) list"
  who_CertDir :: string
  who_CertName :: string
  who_KeyName :: string

definition webhookServerOptions :: "operatorFlags \<Rightarrow> webhookOptions" where
  "webhookServerOptions f =
     (let o0 = \<lparr>who_TLSOpts = tlsOpts f, who_CertDir = [], who_CertName = [], who_KeyName = []\<rparr>
      in if of_WebhookCertPath f \<noteq> []
         then o0 \<lparr>who_CertDir := of_WebhookCertPath f, who_CertName := of_WebhookCertName f, who_KeyName := of_WebhookCertKey f\<rparr>
         else o0)"

datatype filterProvider = WithAuthenticationAndAuthorization

record metricsOptions =
  meo_BindAddress :: string
  meo_SecureServing :: bool
  meo_TLSOpts :: "(tlsOptions \<Rightarrow> tlsOptions) list"
  meo_FilterProvider :: "filterProvider option"
  meo_CertDir :: string
  meo_CertName :: string
  meo_KeyName :: string

definition metricsServerOptions :: "operatorFlags \<Rightarrow> metricsOptions" where
  "metricsServerOptions f =
     (let o0 = \<lparr>meo_BindAddress = of_MetricsAddr f, meo_SecureServing = of_SecureMetrics f, meo_TLSOpts = tlsOpts f,
                 meo_FilterProvider = None, meo_CertDir = [], meo_CertName = [], meo_KeyName = []\<rparr>;
          o1 = (if of_SecureMetrics f then o0 \<lparr>meo_FilterProvider := Some WithAuthenticationAndAuthorization\<rparr> else o0)
      in if of_MetricsCertPath f \<noteq> []
         then o1 \<lparr>meo_CertDir := of_MetricsCertPath f, meo_CertName := of_MetricsCertName f, meo_KeyName := of_MetricsCertKey f\<rparr>
         else o1)"

record managerOptions =
  mgo_Metrics :: metricsOptions
  mgo_WebhookServer :: webhookOptions
  mgo_HealthProbeBindAddress :: string
  mgo_LeaderElection :: bool
  mgo_LeaderElectionID :: string

definition managerOptionsOf :: "operatorFlags \<Rightarrow> managerOptions" where
  "managerOptionsOf f =
     \<lparr>mgo_Metrics = metricsServerOptions f, mgo_WebhookServer = webhookServerOptions f,
      mgo_HealthProbeBindAddress = of_ProbeAddr f, mgo_LeaderElection = of_LeaderElect f,
      mgo_LeaderElectionID = ''898d6291.bmor10.com''\<rparr>"

section \<open>Registrations\<close>

text \<open>What the webhooks register: the kind, and whether there is a validator and a defaulter.\<close>

record webhookSpec =
  whs_Kind :: string
  whs_Validator :: bool
  whs_Defaulter :: bool

definition SetupTemporalClusterWebhookWithManager :: webhookSpec where
  "SetupTemporalClusterWebhookWithManager = \<lparr>whs_Kind = ''TemporalCluster'', whs_Validator = True, whs_Defaulter = True\<rparr>"

definition SetupTemporalNamespaceWebhookWithManager :: webhookSpec where
  "SetupTemporalNamespaceWebhookWithManager = \<lparr>whs_Kind = ''TemporalNamespace'', whs_Validator = True, whs_Defaulter = False\<rparr>"

definition SetupTemporalSearchAttributeWebhookWithManager :: webhookSpec where
  "SetupTemporalSearchAttributeWebhookWithManager =
     \<lparr>whs_Kind = ''TemporalSearchAttribute'', whs_Validator = True, whs_Defaulter = False\<rparr>"

definition SetupTemporalScheduleWebhookWithManager :: webhookSpec where
  "SetupTemporalScheduleWebhookWithManager = \<lparr>whs_Kind = ''TemporalSchedule'', whs_Validator = True, whs_Defaulter = False\<rparr>"

definition SetupTemporalClusterConnectionWebhookWithManager :: webhookSpec where
  "SetupTemporalClusterConnectionWebhookWithManager =
     \<lparr>whs_Kind = ''TemporalClusterConnection'', whs_Validator = True, whs_Defaulter = False\<rparr>"

definition SetupTemporalWorkflowRunWebhookWithManager :: webhookSpec where
  "SetupTemporalWorkflowRunWebhookWithManager =
     \<lparr>whs_Kind = ''TemporalWorkflowRun'', whs_Validator = True, whs_Defaulter = False\<rparr>"

datatype setupStep =
    NewManager managerOptions
  | SetupController controllerSpec string
  | SetupWebhook webhookSpec
  | AddRunnable Server
  | AddHealthzCheck string
  | AddReadyzCheck string
  | StartManager

text \<open>What the registrations take from the manager: the condition functions, and the client that lists and reads.\<close>

record managed =
  mgd_Meta :: meta_api
  mgd_Namespaces :: "string \<Rightarrow> TemporalNamespace list result"
  mgd_SearchAttributes :: "string \<Rightarrow> TemporalSearchAttribute list result"
  mgd_Schedules :: "string \<Rightarrow> TemporalSchedule list result"
  mgd_WorkflowRuns :: "string \<Rightarrow> TemporalWorkflowRun list result"
  mgd_Connections :: "string \<Rightarrow> TemporalClusterConnection list result"
  mgd_Reader :: reader

text \<open>Only the cluster controller has an operator image; the others carry an empty one.\<close>

definition controllerSteps :: "managed \<Rightarrow> (string \<Rightarrow> string) \<Rightarrow> setupStep list" where
  "controllerSteps m getenv =
     [SetupController clusters_SetupWithManager (getenv ''OPERATOR_IMAGE''),
      SetupController clients_SetupWithManager [],
      SetupController (namespaces_SetupWithManager (mgd_Meta m) (mgd_Namespaces m)) [],
      SetupController (searchAttributes_SetupWithManager (mgd_Meta m) (mgd_SearchAttributes m)) [],
      SetupController (schedules_SetupWithManager (mgd_Meta m) (mgd_Schedules m)) [],
      SetupController devServers_SetupWithManager [],
      SetupController (connections_SetupWithManager (mgd_Meta m) (mgd_Connections m)) [],
      SetupController (workflowRuns_SetupWithManager (mgd_Meta m) (mgd_WorkflowRuns m)) []]"

definition webhookSteps :: "(string \<Rightarrow> string) \<Rightarrow> setupStep list" where
  "webhookSteps getenv =
     (if getenv ''ENABLE_WEBHOOKS'' \<noteq> ''false''
      then map SetupWebhook
        [SetupTemporalClusterWebhookWithManager, SetupTemporalNamespaceWebhookWithManager,
         SetupTemporalSearchAttributeWebhookWithManager, SetupTemporalScheduleWebhookWithManager,
         SetupTemporalClusterConnectionWebhookWithManager, SetupTemporalWorkflowRunWebhookWithManager]
      else [])"

definition uiOpts :: "operatorFlags \<Rightarrow> UiOptions" where
  "uiOpts f =
     \<lparr>uo_BindAddress = of_UiBindAddress f, uo_RefreshInterval = of_UiRefreshInterval f, uo_BasePath = of_UiBasePath f,
      uo_RequireAuth = of_UiRequireAuth f, uo_UserHeader = [], uo_GroupsHeader = [], uo_EmailHeader = []\<rparr>"

definition uiSteps :: "managed \<Rightarrow> operatorFlags \<Rightarrow> setupStep list" where
  "uiSteps m f = (if Operator_Ui.ui_Enabled (uiOpts f) then [AddRunnable (NewServer (uiOpts f) (mgd_Reader m))] else [])"

section \<open>The main function\<close>

text \<open>Each step may fail, depending on the steps before it; the first failure ends the program with code 1.\<close>

fun runSteps :: "(setupStep list \<Rightarrow> setupStep \<Rightarrow> err option) \<Rightarrow> setupStep list \<Rightarrow> setupStep list \<Rightarrow> int \<times> setupStep list" where
  "runSteps answer sofar [] = (0, sofar)"
| "runSteps answer sofar (s # ss) =
     (case answer sofar s of Some _ \<Rightarrow> (1, sofar @ [s]) | None \<Rightarrow> runSteps answer (sofar @ [s]) ss)"

definition registrations :: "managed \<Rightarrow> (string \<Rightarrow> string) \<Rightarrow> operatorFlags \<Rightarrow> setupStep list" where
  "registrations m getenv f =
     [NewManager (managerOptionsOf f)] @ controllerSteps m getenv @ webhookSteps getenv @ uiSteps m f @
     [AddHealthzCheck ''healthz'', AddReadyzCheck ''readyz'']"

record process =
  pr_Getenv :: "string \<Rightarrow> string"
  pr_ParseInt :: "string \<Rightarrow> int option"
  pr_ReadFile :: "string \<Rightarrow> string result"
  pr_Drivers :: drivers
  pr_ParseDuration :: "string \<Rightarrow> duration option"
  pr_ExtraFlags :: "string \<Rightarrow> (bool \<times> (string \<Rightarrow> bool)) option"
  pr_Managed :: managed
  pr_Answer :: "setupStep list \<Rightarrow> setupStep \<Rightarrow> err option"

text \<open>
  The exit code and the steps that were taken.  The command line is parsed with \<^verbatim>\<open>ExitOnError\<close>: asking for help exits
  with 0 and a bad flag with 2.
\<close>

definition main :: "process \<Rightarrow> string list \<Rightarrow> (int \<times> setupStep list) act" where
  "main p args =
     (if length args > 1 \<and> args ! 1 = ''inspect''
      then do {
        (code, _) \<leftarrow> runInspect (pr_ParseInt p) (pr_ReadFile p) (pr_Drivers p) (drop 2 args);
        State_Monad.return (code, [])
      }
      else State_Monad.return
        (case parseArgs (operatorFlag (pr_ParseDuration p) (pr_ExtraFlags p)) (drop 1 args) operatorDefaults of
           HelpRequested \<Rightarrow> (0, [])
         | BadFlags \<Rightarrow> (2, [])
         | Parsed f \<Rightarrow> runSteps (pr_Answer p) [] (registrations (pr_Managed p) (pr_Getenv p) f @ [StartManager])))"

section \<open>One parser for both command lines\<close>

definition inspectFlag :: "(string \<Rightarrow> int option) \<Rightarrow> string \<Rightarrow> inspectFlags flagVar option" where
  "inspectFlag parseInt name =
     (case flagKindOf name of
        None \<Rightarrow> None
      | Some StringFlag \<Rightarrow> Some (stringVar (setString name))
      | Some IntFlag \<Rightarrow> Some \<lparr>fv_IsBool = False, fv_Set = \<lambda>v f. map_option (\<lambda>i. f \<lparr>if_port := i\<rparr>) (parseInt v)\<rparr>
      | Some BoolFlag \<Rightarrow> Some (boolVar (\<lambda>b f. f \<lparr>if_tls := b\<rparr>)))"

text \<open>The parser that the subcommand was modelled with is the general one on its flag set.\<close>

lemma inspect_parser:
  "parseFlags parseInt args f = (case parseArgs (inspectFlag parseInt) args f of Parsed f' \<Rightarrow> Some f' | _ \<Rightarrow> None)"
proof (induction args arbitrary: f rule: length_induct)
  case (1 args)
  then have IH: "parseFlags parseInt xs g = (case parseArgs (inspectFlag parseInt) xs g of Parsed f' \<Rightarrow> Some f' | _ \<Rightarrow> None)"
    if "length xs < length args" for xs g
    using that by blast
  show ?case
  proof (cases args)
    case (Cons a rest)
    show ?thesis
    proof (cases "\<exists>t. flagText a = Some t \<and> t \<noteq> [] \<and> hd t \<noteq> CHR ''-'' \<and> hd t \<noteq> CHR ''=''")
      case True
      then obtain t name val where t: "flagText a = Some t" "t \<noteq> []" "hd t \<noteq> CHR ''-''" "hd t \<noteq> CHR ''=''"
        "cutEquals t = (name, val)" by fastforce
      have true: "parseBool ''true'' = Some True" by (simp add: parseBool_def)
      show ?thesis
      proof (cases "flagKindOf name")
        case (Some k)
        then have "inspectFlag parseInt name =
          (case k of
             StringFlag \<Rightarrow> Some (stringVar (setString name))
           | IntFlag \<Rightarrow> Some \<lparr>fv_IsBool = False, fv_Set = \<lambda>v f. map_option (\<lambda>i. f \<lparr>if_port := i\<rparr>) (parseInt v)\<rparr>
           | BoolFlag \<Rightarrow> Some (boolVar (\<lambda>b f. f \<lparr>if_tls := b\<rparr>)))"
          by (simp add: inspectFlag_def)
        then show ?thesis
          using Cons t IH true Some
          by (cases k; cases val) (simp_all add: setFlag_def stringVar_def boolVar_def split: option.split list.split)
      qed (use Cons t in \<open>simp add: inspectFlag_def\<close>)
    qed (use Cons in \<open>auto split: option.splits\<close>)
  qed simp
qed

section \<open>What is running when the manager starts\<close>

fun stepController :: "setupStep \<Rightarrow> string option" where
  "stepController (SetupController spec _) = Some (cs_For spec)"
| "stepController _ = None"

fun stepWebhook :: "setupStep \<Rightarrow> webhookSpec option" where
  "stepWebhook (SetupWebhook spec) = Some spec"
| "stepWebhook _ = None"

fun stepRunnable :: "setupStep \<Rightarrow> Server option" where
  "stepRunnable (AddRunnable s) = Some s"
| "stepRunnable _ = None"

fun stepOptions :: "setupStep \<Rightarrow> managerOptions option" where
  "stepOptions (NewManager o') = Some o'"
| "stepOptions _ = None"

text \<open>The protocols a server offers once its TLS options were applied to a configuration.\<close>

definition offered :: "(tlsOptions \<Rightarrow> tlsOptions) list \<Rightarrow> tlsOptions \<Rightarrow> string list" where
  "offered opts c = tls_NextProtos (fold id opts c)"

lemma runSteps_last:
  assumes "runSteps answer sofar (ss @ [s]) = (code, taken)" "s \<notin> set sofar" "s \<notin> set ss" "s \<in> set taken"
  shows "taken = sofar @ ss @ [s] \<and> code = (case answer (sofar @ ss) s of None \<Rightarrow> 0 | Some _ \<Rightarrow> 1)"
  using assms
proof (induction ss arbitrary: sofar)
  case (Cons x ss)
  then have "answer sofar x = None" by (auto split: option.splits)
  then show ?case using Cons.prems Cons.IH [of "sofar @ [x]"] by simp
qed (auto split: option.splits)

lemmas setups =
  clusters_SetupWithManager_def clients_SetupWithManager_def devServers_SetupWithManager_def namespaces_SetupWithManager_def
  searchAttributes_SetupWithManager_def schedules_SetupWithManager_def workflowRuns_SetupWithManager_def
  connections_SetupWithManager_def

lemmas webhookSetups =
  SetupTemporalClusterWebhookWithManager_def SetupTemporalNamespaceWebhookWithManager_def
  SetupTemporalSearchAttributeWebhookWithManager_def SetupTemporalScheduleWebhookWithManager_def
  SetupTemporalClusterConnectionWebhookWithManager_def SetupTemporalWorkflowRunWebhookWithManager_def

lemma registered:
  "List.map_filter stepController (registrations m getenv f) =
     [''TemporalCluster'', ''TemporalClusterClient'', ''TemporalNamespace'', ''TemporalSearchAttribute'', ''TemporalSchedule'',
      ''TemporalDevServer'', ''TemporalClusterConnection'', ''TemporalWorkflowRun'']"
  "map (\<lambda>s. (whs_Kind s, whs_Validator s, whs_Defaulter s)) (List.map_filter stepWebhook (registrations m getenv f)) =
     (if getenv ''ENABLE_WEBHOOKS'' = ''false'' then []
      else [(''TemporalCluster'', True, True), (''TemporalNamespace'', True, False), (''TemporalSearchAttribute'', True, False),
            (''TemporalSchedule'', True, False), (''TemporalClusterConnection'', True, False), (''TemporalWorkflowRun'', True, False)])"
  "map (\<lambda>s. (uo_BindAddress (srv_opts s), uo_RequireAuth (srv_opts s))) (List.map_filter stepRunnable (registrations m getenv f)) =
     (if of_UiBindAddress f = [] then [] else [(of_UiBindAddress f, of_UiRequireAuth f)])"
  "List.map_filter stepOptions (registrations m getenv f) = [managerOptionsOf f]"
  "StartManager \<notin> set (registrations m getenv f)"
  by (simp_all add: registrations_def controllerSteps_def webhookSteps_def uiSteps_def setups webhookSetups map_filter_def
      Operator_Ui.ui_Enabled_def uiOpts_def NewServer_def Normalize_def Let_def)

lemma served:
  "\<not> of_EnableHTTP2 f \<Longrightarrow> offered (who_TLSOpts (mgo_WebhookServer (managerOptionsOf f))) c = [''http/1.1'']"
  "\<not> of_EnableHTTP2 f \<Longrightarrow> offered (meo_TLSOpts (mgo_Metrics (managerOptionsOf f))) c = [''http/1.1'']"
  "meo_SecureServing (mgo_Metrics (managerOptionsOf f)) \<longleftrightarrow>
     meo_FilterProvider (mgo_Metrics (managerOptionsOf f)) = Some WithAuthenticationAndAuthorization"
  by (simp_all add: managerOptionsOf_def webhookServerOptions_def metricsServerOptions_def tlsOpts_def offered_def
      disableHTTP2_def Let_def)

text \<open>
  C0: The manager is started only when everything is registered, whatever it answered before.  When the program reaches
  the start, that is its last step; it has set up one controller for each of the eight kinds, the six
  validating webhooks and the defaulting one unless they are switched off, and the dashboard exactly when
  an address was given, with the authentication that was asked for.  Unless HTTP/2 was enabled, the webhook and the
  metrics server offer HTTP/1.1 only, and secure metrics are behind authentication.  The exit code is 0
  exactly when the manager ended without an error.
\<close>
theorem manager_starts_fully_wired:
  assumes "run_state (main p args) w = ((code, taken), w')" "StartManager \<in> set taken"
  shows "\<exists>f before mo.
    parseArgs (operatorFlag (pr_ParseDuration p) (pr_ExtraFlags p)) (drop 1 args) operatorDefaults = Parsed f \<and>
    taken = before @ [StartManager] \<and> code = (case pr_Answer p before StartManager of None \<Rightarrow> 0 | Some _ \<Rightarrow> 1) \<and>
    List.map_filter stepController before =
      [''TemporalCluster'', ''TemporalClusterClient'', ''TemporalNamespace'', ''TemporalSearchAttribute'', ''TemporalSchedule'',
       ''TemporalDevServer'', ''TemporalClusterConnection'', ''TemporalWorkflowRun''] \<and>
    map (\<lambda>s. (whs_Kind s, whs_Validator s, whs_Defaulter s)) (List.map_filter stepWebhook before) =
      (if pr_Getenv p ''ENABLE_WEBHOOKS'' = ''false'' then []
       else [(''TemporalCluster'', True, True), (''TemporalNamespace'', True, False), (''TemporalSearchAttribute'', True, False),
             (''TemporalSchedule'', True, False), (''TemporalClusterConnection'', True, False), (''TemporalWorkflowRun'', True, False)]) \<and>
    map (\<lambda>s. (uo_BindAddress (srv_opts s), uo_RequireAuth (srv_opts s))) (List.map_filter stepRunnable before) =
      (if of_UiBindAddress f = [] then [] else [(of_UiBindAddress f, of_UiRequireAuth f)]) \<and>
    List.map_filter stepOptions before = [mo] \<and>
    (\<not> of_EnableHTTP2 f \<longrightarrow> (\<forall>c. offered (who_TLSOpts (mgo_WebhookServer mo)) c = [''http/1.1''] \<and>
       offered (meo_TLSOpts (mgo_Metrics mo)) c = [''http/1.1''])) \<and>
    (meo_SecureServing (mgo_Metrics mo) \<longleftrightarrow> meo_FilterProvider (mgo_Metrics mo) = Some WithAuthenticationAndAuthorization)"
proof -
  let ?parse = "parseArgs (operatorFlag (pr_ParseDuration p) (pr_ExtraFlags p)) (drop 1 args) operatorDefaults"
  obtain f where f: "?parse = Parsed f"
    and run: "runSteps (pr_Answer p) [] (registrations (pr_Managed p) (pr_Getenv p) f @ [StartManager]) = (code, taken)"
    using assms by (auto simp: main_def split: if_splits prod.splits parsed.splits)
  let ?before = "registrations (pr_Managed p) (pr_Getenv p) f"
  have reach: "taken = ?before @ [StartManager]" "code = (case pr_Answer p ?before StartManager of None \<Rightarrow> 0 | Some _ \<Rightarrow> 1)"
    using runSteps_last [OF run] registered(5) assms(2) by simp_all
  show ?thesis
    by (intro exI [of _ f] exI [of _ ?before] exI [of _ "managerOptionsOf f"] conjI impI allI f reach registered served)
qed

end
