(* ===== verification/Sample_Start.thy ===== *)
theory Sample_Start
  imports Operator_Start Sample_Satellites Sample_Dashboard
begin

text \<open>The operator started with the arguments of its manifest, and events on what it manages.\<close>

section \<open>Applied objects and targets\<close>

definition imagedDev :: TemporalDevServer where
  "imagedDev = sampleDev \<lparr>dev_Spec := (dev_Spec sampleDev) \<lparr>dev_Image := ''temporalio/temporal:1.5.1''\<rparr>\<rparr>"

definition sampleClient :: TemporalClusterClient where
  "sampleClient =
     \<lparr>tcc_Meta = newMeta ''worker'' ''temporal'' Map.empty Map.empty,
      tcc_Spec = \<lparr>tcc_ClusterRef = \<lparr>cref_Name = ''prod'', cref_Kind = []\<rparr>, tcc_SecretName = []\<rparr>,
      tcc_Status = \<lparr>tccst_ObservedGeneration = 0, tccst_SecretRef = None, tccst_Conditions = []\<rparr>\<rparr>"

theorem applied_objects_wake_their_owner_witness:
  "clustersEnvironment (\<lambda>_. Some (''TemporalCluster'', ''prod'')) sampleReconciler sampleCluster \<and>
   CApply (OService (BuildDevServerService imagedDev)) \<in> set (callsOf (reconcileDevServer sampleApi imagedDev) sampleWorld) \<and>
   heard devServers_SetupWithManager (\<lambda>_. Some (''TemporalDevServer'', ''dev'')) (dev_Meta imagedDev)
     (OService (BuildDevServerService imagedDev))"
proof -
  have c: "clustersEnvironment (\<lambda>_. Some (''TemporalCluster'', ''prod'')) sampleReconciler sampleCluster"
    by (simp add: clustersEnvironment_def setsController_def sampleReconciler_def sampleKube_def sampleCluster_def newMeta_def
        sampleMeta_laws)
  have d: "ownersEnvironment ''TemporalDevServer'' dev_Meta (\<lambda>_. Some (''TemporalDevServer'', ''dev'')) sampleApi imagedDev"
    and cc: "ownersEnvironment ''TemporalClusterClient'' tcc_Meta (\<lambda>_. Some (''TemporalClusterClient'', ''worker'')) sampleApi sampleClient"
    by (simp_all add: ownersEnvironment_def setsController_def sampleApi_def sampleKube_def imagedDev_def sampleDev_def
        sampleClient_def newMeta_def)
  have "CApply (OService (BuildDevServerService imagedDev)) \<in> set (callsOf (reconcileDevServer sampleApi imagedDev) sampleWorld)"
    by (simp add: callsOf_def reconcileDevServer_def DevServerImage_def imagedDev_def sampleDev_def dev_objects_def
        BuildDevServerPVC_def dev_apply_def serverSideApply_def applyObj_def perform_def sampleApi_def sampleKube_def sampleWorld_def
        dev_deploymentReady_def getDeployment_def dev_statusUpdate_def statusUpdate_def)
  then show ?thesis using c applied_objects_wake_their_owner [OF c d cc] by blast
qed

definition pendingDev :: TemporalDevServer where
  "pendingDev = sampleDev \<lparr>dev_Status := (dev_Status sampleDev) \<lparr>devst_Conditions := []\<rparr>\<rparr>"

definition prodNamespace :: TemporalNamespace where
  "prodNamespace = sampleNamespace
     \<lparr>tn_Meta := newMeta ''billing'' ''temporal'' Map.empty Map.empty,
      tn_Spec := (tn_Spec sampleNamespace) \<lparr>tns_ClusterRef := \<lparr>cref_Name = ''prod'', cref_Kind = []\<rparr>\<rparr>\<rparr>"

theorem ready_target_wakes_dependents_witness:
  "set (requests (namespaces_SetupWithManager sampleMeta (\<lambda>_. Inr [sampleNamespace, prodNamespace]))
     \<lparr>oe_Kind = ''TemporalDevServer'', oe_Event = UpdateEvent (Some (WatchedDevServer pendingDev)) (Some (WatchedDevServer sampleDev)),
      oe_Controller = None\<rparr>) = {(''temporal'', ''orders'')}"
proof -
  have "metaKey (watchedMeta (WatchedDevServer pendingDev)) = (''temporal'', ''dev'')"
    "metaKey (watchedMeta (WatchedDevServer sampleDev)) = (''temporal'', ''dev'')"
    by (simp_all add: metaKey_def pendingDev_def sampleDev_def newMeta_def)
  moreover have "targetReadyStatus sampleMeta (WatchedDevServer pendingDev) \<noteq> targetReadyStatus sampleMeta (WatchedDevServer sampleDev)"
    by (simp add: readyStatusOf_def pendingDev_def sampleDev_def sampleMeta_def sampleCondition_def)
  moreover have "{metaKey (tn_Meta x) | x. x \<in> set [sampleNamespace, prodNamespace] \<and>
      refTargets (tns_ClusterRef (tn_Spec x)) ''TemporalDevServer'' ''dev''} = {(''temporal'', ''orders'')}"
    by (rule set_eqI) (auto simp: prodNamespace_def sampleNamespace_def sampleRef_def refTargets_def ClusterKindTemporalCluster_def
        ClusterKindTemporalDevServer_def metaKey_def newMeta_def intro!: exI [of _ sampleNamespace])
  ultimately show ?thesis
    using ready_target_wakes_dependents [of "''TemporalDevServer''" "WatchedDevServer pendingDev" "''temporal''" "''dev''"
        "WatchedDevServer sampleDev" sampleMeta "\<lambda>_. Inr [sampleNamespace, prodNamespace]" "[sampleNamespace, prodNamespace]"
        "\<lambda>_. Inr []" "[]" "\<lambda>_. Inr []" "[]" "\<lambda>_. Inr []" "[]" "\<lambda>_. Inr []" "[]"]
    by simp
qed

definition emptyApi :: crd_api where
  "emptyApi = sampleApi \<lparr>ca_kube := sampleKube \<lparr>k_GetCluster := \<lambda>_ _ n. Inl (ApiNotFound n)\<rparr>\<rparr>"

theorem missing_cluster_strands_client_witness:
  "\<exists>cc' w'. run_state (reconcileClusterClient emptyApi sampleClient) sampleWorld = ((Some cc', noResult, None), w') \<and>
     requests clients_SetupWithManager
       \<lparr>oe_Kind = ''TemporalCluster'', oe_Event = CreateEvent (WatchedCluster sampleCluster), oe_Controller = None\<rparr> = []"
proof -
  have k: "cref_Kind (tcc_ClusterRef (tcc_Spec sampleClient)) \<noteq> ClusterKindTemporalDevServer"
    by (simp add: sampleClient_def ClusterKindTemporalDevServer_def)
  have g: "k_GetCluster (ca_kube emptyApi) (w_trace sampleWorld) (om_Namespace (tcc_Meta sampleClient))
      (cref_Name (tcc_ClusterRef (tcc_Spec sampleClient))) = Inl (ApiNotFound (cref_Name (tcc_ClusterRef (tcc_Spec sampleClient))))"
    by (simp add: emptyApi_def)
  obtain cc' res er w' where run: "run_state (reconcileClusterClient emptyApi sampleClient) sampleWorld = ((Some cc', res, er), w')"
    using k g by (auto simp: reconcileClusterClient_def getCluster_def perform_def cc_statusUpdate_def statusUpdate_def emptyApi_def
        sampleKube_def)
  show ?thesis
    using missing_cluster_strands_client [OF k g _ run] run by auto
qed

section \<open>The start\<close>

definition sampleManaged :: managed where
  "sampleManaged =
     \<lparr>mgd_Meta = sampleMeta, mgd_Namespaces = \<lambda>_. Inr [sampleNamespace], mgd_SearchAttributes = \<lambda>_. Inr [],
      mgd_Schedules = \<lambda>_. Inr [], mgd_WorkflowRuns = \<lambda>_. Inr [], mgd_Connections = \<lambda>_. Inr [], mgd_Reader = sampleReader\<rparr>"

definition sampleProcess :: process where
  "sampleProcess =
     \<lparr>pr_Getenv = (\<lambda>_. []), pr_ParseInt = (\<lambda>_. None), pr_ReadFile = (\<lambda>n. Inl (ApiNotFound n)), pr_Drivers = sampleDrivers ''1.19'',
      pr_ParseDuration = (\<lambda>_. None), pr_ExtraFlags = (\<lambda>_. None), pr_Managed = sampleManaged, pr_Answer = (\<lambda>_ _. None)\<rparr>"

definition manifestArgs :: "string list" where
  "manifestArgs = [''/manager'', ''--leader-elect'', ''--health-probe-bind-address=:8081'', ''--ui-bind-address'', '':8082'',
     ''--ui-require-auth'']"

lemma manifest_flags:
  "parseArgs (operatorFlag d e) (drop 1 manifestArgs) operatorDefaults =
     Parsed (operatorDefaults \<lparr>of_LeaderElect := True, of_ProbeAddr := '':8081'', of_UiBindAddress := '':8082'', of_UiRequireAuth := True\<rparr>)"
  by (simp add: manifestArgs_def flagText_def cutEquals_def operatorFlag_def setFlag_def stringVar_def boolVar_def parseBool_def
      operatorDefaults_def)

theorem manager_starts_fully_wired_witness:
  "\<exists>taken. fst (run_state (main sampleProcess manifestArgs) sampleWorld) = (0, taken) \<and>
     List.map_filter stepController (butlast taken) =
       [''TemporalCluster'', ''TemporalClusterClient'', ''TemporalNamespace'', ''TemporalSearchAttribute'', ''TemporalSchedule'',
        ''TemporalDevServer'', ''TemporalClusterConnection'', ''TemporalWorkflowRun''] \<and>
     map (\<lambda>s. (uo_BindAddress (srv_opts s), uo_RequireAuth (srv_opts s))) (List.map_filter stepRunnable (butlast taken)) =
       [('':8082'', True)]"
proof -
  have all: "runSteps (\<lambda>_ _. None) sofar ss = (0, sofar @ ss)" for sofar ss
    by (induction ss arbitrary: sofar) simp_all
  have "\<not> (length manifestArgs > 1 \<and> manifestArgs ! 1 = ''inspect'')" by (simp add: manifestArgs_def)
  note operator = if_not_P [OF this]
  obtain taken w' where run: "run_state (main sampleProcess manifestArgs) sampleWorld = ((0, taken), w')"
    and start: "StartManager \<in> set taken"
    unfolding main_def operator manifest_flags parsed.case by (simp add: sampleProcess_def all)
  from manager_starts_fully_wired [OF run start] obtain f before where
    "Parsed (operatorDefaults \<lparr>of_LeaderElect := True, of_ProbeAddr := '':8081'', of_UiBindAddress := '':8082'',
       of_UiRequireAuth := True\<rparr>) = Parsed f"
    "taken = before @ [StartManager]"
    "List.map_filter stepController before =
       [''TemporalCluster'', ''TemporalClusterClient'', ''TemporalNamespace'', ''TemporalSearchAttribute'', ''TemporalSchedule'',
        ''TemporalDevServer'', ''TemporalClusterConnection'', ''TemporalWorkflowRun'']"
    "map (\<lambda>s. (uo_BindAddress (srv_opts s), uo_RequireAuth (srv_opts s))) (List.map_filter stepRunnable before) =
       (if of_UiBindAddress f = [] then [] else [(of_UiBindAddress f, of_UiRequireAuth f)])"
    unfolding manifest_flags by (elim exE conjE)
  then show ?thesis using run by auto
qed

end
