(* ===== verification/Deep_Copies.thy ===== *)
theory Deep_Copies
  imports Main
begin

text \<open>
  Go values with their memory: a value is a scalar, a reference or a struct, and a reference points to a cell
  of a heap that holds a value, the array behind a slice, or a map.  The statements that the generator of
  deep copies emits (\<^verbatim>\<open>src/api/v1alpha1/zz_generated.deepcopy.go\<close>) are combinators over such a heap.  A copy is
  deep when it has the same contents and shares no cell with the original; the contract is closed under the
  combinators.  A cell is allocated here after what it holds, in the source before it; this only permutes
  addresses.
\<close>

section \<open>Values and heaps\<close>

datatype hval = VPrim string | VRef "nat option" | VStruct "(string \<times> hval) list"

datatype cell = CVal hval | CArr "hval list" | CMap "(string \<times> hval) list"

type_synonym heap = "cell list"

text \<open>The types of values: what has no references is flat.\<close>

datatype gotype = TFlat | TPtr gotype | TSlice gotype | TMap gotype | TStruct "(string \<times> gotype) list"

fun wt :: "gotype \<Rightarrow> heap \<Rightarrow> hval \<Rightarrow> bool"
  and wtFields :: "(string \<times> gotype) list \<Rightarrow> heap \<Rightarrow> (string \<times> hval) list \<Rightarrow> bool" where
  "wt TFlat h v = (case v of VPrim _ \<Rightarrow> True | _ \<Rightarrow> False)"
| "wt (TPtr t) h v =
     (case v of
        VRef None \<Rightarrow> True
      | VRef (Some a) \<Rightarrow> a < length h \<and> (case h ! a of CVal x \<Rightarrow> wt t h x | _ \<Rightarrow> False)
      | _ \<Rightarrow> False)"
| "wt (TSlice t) h v =
     (case v of
        VRef None \<Rightarrow> True
      | VRef (Some a) \<Rightarrow> a < length h \<and> (case h ! a of CArr xs \<Rightarrow> list_all (\<lambda>x. wt t h x) xs | _ \<Rightarrow> False)
      | _ \<Rightarrow> False)"
| "wt (TMap t) h v =
     (case v of
        VRef None \<Rightarrow> True
      | VRef (Some a) \<Rightarrow> a < length h \<and> (case h ! a of CMap xs \<Rightarrow> list_all (\<lambda>x. wt t h x) (map snd xs) | _ \<Rightarrow> False)
      | _ \<Rightarrow> False)"
| "wt (TStruct fs) h v = (case v of VStruct vs \<Rightarrow> wtFields fs h vs | _ \<Rightarrow> False)"
| "wtFields [] h vs = (vs = [])"
| "wtFields ((n, t) # fs) h vs = (case vs of [] \<Rightarrow> False | (m, v) # vs' \<Rightarrow> m = n \<and> wt t h v \<and> wtFields fs h vs')"

text \<open>The contents of a value, without its addresses.\<close>

datatype contents =
    CoPrim string | CoNil | CoPtr contents | CoList "contents list" | CoMap "(string \<times> contents) list"
  | CoStruct "(string \<times> contents) list"

fun contentsOf :: "gotype \<Rightarrow> heap \<Rightarrow> hval \<Rightarrow> contents"
  and contentsOfFields :: "(string \<times> gotype) list \<Rightarrow> heap \<Rightarrow> (string \<times> hval) list \<Rightarrow> (string \<times> contents) list" where
  "contentsOf TFlat h v = (case v of VPrim s \<Rightarrow> CoPrim s | _ \<Rightarrow> CoNil)"
| "contentsOf (TPtr t) h v =
     (case v of VRef (Some a) \<Rightarrow> (case h ! a of CVal x \<Rightarrow> CoPtr (contentsOf t h x) | _ \<Rightarrow> CoNil) | _ \<Rightarrow> CoNil)"
| "contentsOf (TSlice t) h v =
     (case v of VRef (Some a) \<Rightarrow> (case h ! a of CArr xs \<Rightarrow> CoList (map (\<lambda>x. contentsOf t h x) xs) | _ \<Rightarrow> CoNil) | _ \<Rightarrow> CoNil)"
| "contentsOf (TMap t) h v =
     (case v of
        VRef (Some a) \<Rightarrow>
          (case h ! a of CMap xs \<Rightarrow> CoMap (zip (map fst xs) (map (\<lambda>x. contentsOf t h x) (map snd xs))) | _ \<Rightarrow> CoNil)
      | _ \<Rightarrow> CoNil)"
| "contentsOf (TStruct fs) h v = (case v of VStruct vs \<Rightarrow> CoStruct (contentsOfFields fs h vs) | _ \<Rightarrow> CoNil)"
| "contentsOfFields [] h vs = []"
| "contentsOfFields ((n, t) # fs) h vs =
     (case vs of [] \<Rightarrow> [] | (m, v) # vs' \<Rightarrow> (n, contentsOf t h v) # contentsOfFields fs h vs')"

text \<open>The cells that a value reaches.\<close>

fun reach :: "gotype \<Rightarrow> heap \<Rightarrow> hval \<Rightarrow> nat list"
  and reachFields :: "(string \<times> gotype) list \<Rightarrow> heap \<Rightarrow> (string \<times> hval) list \<Rightarrow> nat list" where
  "reach TFlat h v = []"
| "reach (TPtr t) h v =
     (case v of VRef (Some a) \<Rightarrow> a # (case h ! a of CVal x \<Rightarrow> reach t h x | _ \<Rightarrow> []) | _ \<Rightarrow> [])"
| "reach (TSlice t) h v =
     (case v of VRef (Some a) \<Rightarrow> a # (case h ! a of CArr xs \<Rightarrow> concat (map (\<lambda>x. reach t h x) xs) | _ \<Rightarrow> []) | _ \<Rightarrow> [])"
| "reach (TMap t) h v =
     (case v of VRef (Some a) \<Rightarrow> a # (case h ! a of CMap xs \<Rightarrow> concat (map (\<lambda>x. reach t h x) (map snd xs)) | _ \<Rightarrow> []) | _ \<Rightarrow> [])"
| "reach (TStruct fs) h v = (case v of VStruct vs \<Rightarrow> reachFields fs h vs | _ \<Rightarrow> [])"
| "reachFields [] h vs = []"
| "reachFields ((n, t) # fs) h vs = (case vs of [] \<Rightarrow> [] | (m, v) # vs' \<Rightarrow> reach t h v @ reachFields fs h vs')"

section \<open>The statements of a generated copy\<close>

type_synonym copier = "hval \<Rightarrow> heap \<Rightarrow> hval \<times> heap"

text \<open>\<^verbatim>\<open>out.F = in.F\<close>, which \<^verbatim>\<open>*out = *in\<close> does for every field.\<close>

definition assign :: copier where
  "assign v h = (v, h)"

text \<open>\<^verbatim>\<open>in.F.DeepCopyInto(&out.F)\<close>.\<close>

definition deepInto :: "copier \<Rightarrow> copier" where
  "deepInto f = f"

text \<open>\<^verbatim>\<open>*out = new(T); (*in).DeepCopyInto(*out)\<close> under a nil check, and \<^verbatim>\<open>**out = **in\<close> instead of the call.\<close>

definition newDeep :: "copier \<Rightarrow> copier" where
  "newDeep f v h =
     (case v of
        VRef (Some a) \<Rightarrow>
          (case h ! a of
             CVal x \<Rightarrow> (let (x', h') = f x h in (VRef (Some (length h')), h' @ [CVal x']))
           | _ \<Rightarrow> (v, h))
      | _ \<Rightarrow> (v, h))"

definition newCopy :: copier where
  "newCopy = newDeep assign"

fun copyList :: "copier \<Rightarrow> hval list \<Rightarrow> heap \<Rightarrow> hval list \<times> heap" where
  "copyList f [] h = ([], h)"
| "copyList f (x # xs) h = (let (x', h1) = f x h; (xs', h2) = copyList f xs h1 in (x' # xs', h2))"

text \<open>\<^verbatim>\<open>*out = make([]T, len(*in))\<close> with a loop over \<^verbatim>\<open>DeepCopyInto\<close>, or with \<^verbatim>\<open>copy\<close>.\<close>

definition sliceDeep :: "copier \<Rightarrow> copier" where
  "sliceDeep f v h =
     (case v of
        VRef (Some a) \<Rightarrow>
          (case h ! a of
             CArr xs \<Rightarrow> (let (xs', h') = copyList f xs h in (VRef (Some (length h')), h' @ [CArr xs']))
           | _ \<Rightarrow> (v, h))
      | _ \<Rightarrow> (v, h))"

definition sliceCopy :: copier where
  "sliceCopy = sliceDeep assign"

text \<open>\<^verbatim>\<open>*out = make(map[string]T, len(*in))\<close> with a loop over the entries.\<close>

definition mapDeep :: "copier \<Rightarrow> copier" where
  "mapDeep f v h =
     (case v of
        VRef (Some a) \<Rightarrow>
          (case h ! a of
             CMap xs \<Rightarrow>
               (let (vs', h') = copyList f (map snd xs) h in (VRef (Some (length h')), h' @ [CMap (zip (map fst xs) vs')]))
           | _ \<Rightarrow> (v, h))
      | _ \<Rightarrow> (v, h))"

definition mapCopy :: copier where
  "mapCopy = mapDeep assign"

text \<open>The statements for the fields of a struct; a field that none of them names keeps what \<^verbatim>\<open>*out = *in\<close> gave it.\<close>

definition fieldCopier :: "(string \<times> copier) list \<Rightarrow> string \<Rightarrow> copier" where
  "fieldCopier fs n = (case map_of fs n of None \<Rightarrow> assign | Some f \<Rightarrow> f)"

fun copyFields :: "(string \<times> copier) list \<Rightarrow> (string \<times> hval) list \<Rightarrow> heap \<Rightarrow> (string \<times> hval) list \<times> heap" where
  "copyFields fs [] h = ([], h)"
| "copyFields fs ((n, v) # vs) h =
     (let (v', h1) = fieldCopier fs n v h; (vs', h2) = copyFields fs vs h1 in ((n, v') # vs', h2))"

definition copyStruct :: "(string \<times> copier) list \<Rightarrow> copier" where
  "copyStruct fs v h =
     (case v of VStruct vs \<Rightarrow> (let (vs', h') = copyFields fs vs h in (VStruct vs', h')) | _ \<Rightarrow> (v, h))"

text \<open>
  The three methods of a type: \<^verbatim>\<open>DeepCopyInto\<close> copies the struct; \<^verbatim>\<open>DeepCopy\<close>, and \<^verbatim>\<open>DeepCopyObject\<close> which calls it,
  take a pointer, return nil for nil and otherwise a new struct.
\<close>

datatype copyMethod = DeepCopyInto | DeepCopy | DeepCopyObject

fun generatedCopy :: "copier \<Rightarrow> copyMethod \<Rightarrow> copier" where
  "generatedCopy f DeepCopyInto = f"
| "generatedCopy f DeepCopy = newDeep f"
| "generatedCopy f DeepCopyObject = newDeep f"

section \<open>Deep copies\<close>

definition copied :: "gotype \<Rightarrow> heap \<Rightarrow> hval \<Rightarrow> heap \<Rightarrow> hval \<Rightarrow> bool" where
  "copied t h v h' v' \<longleftrightarrow>
     take (length h) h' = h \<and> wt t h' v' \<and> contentsOf t h' v' = contentsOf t h v \<and> (\<forall>a\<in>set (reach t h' v'). length h \<le> a)"

text \<open>
  The contract of a copier at a type: the heap is only extended, the copy has the type and the contents of
  the original, and all it reaches is new.
\<close>

definition copiesDeep :: "gotype \<Rightarrow> copier \<Rightarrow> bool" where
  "copiesDeep t f \<longleftrightarrow> (\<forall>v h. wt t h v \<longrightarrow> (case f v h of (v', h') \<Rightarrow> copied t h v h' v'))"

lemma copiesDeepD: "copiesDeep t f \<Longrightarrow> wt t h v \<Longrightarrow> f v h = (v', h') \<Longrightarrow> copied t h v h' v'"
  unfolding copiesDeep_def by (drule spec [of _ v], drule spec [of _ h]) simp

named_theorems copy_rules \<open>which copiers are deep at which types\<close>

lemma concat_map_cong: "(\<And>x. x \<in> set xs \<Longrightarrow> f x = g x) \<Longrightarrow> concat (map f xs) = concat (map g xs)"
  by (induction xs) simp_all

text \<open>Extending a heap changes nothing that a well-typed value can see.\<close>

lemma extend:
  "wt t h v \<Longrightarrow> take (length h) h' = h \<Longrightarrow> wt t h' v \<and> contentsOf t h' v = contentsOf t h v \<and> reach t h' v = reach t h v"
  "wtFields fs h vs \<Longrightarrow> take (length h) h' = h \<Longrightarrow>
     wtFields fs h' vs \<and> contentsOfFields fs h' vs = contentsOfFields fs h vs \<and> reachFields fs h' vs = reachFields fs h vs"
proof (induction t h v and fs h vs rule: wt_wtFields.induct)
  case (1 h v)
  then show ?case by simp
next
  case (2 t h v)
  have same: "a < length h' \<and> h' ! a = h ! a" if "a < length h" for a
    using "2.prems"(2) that by (metis length_take min.strict_boundedE nth_take)
  show ?case using 2 same by (auto split: hval.splits option.splits cell.splits)
next
  case (3 t h v)
  have same: "a < length h' \<and> h' ! a = h ! a" if "a < length h" for a
    using "3.prems"(2) that by (metis length_take min.strict_boundedE nth_take)
  show ?case using 3 same by (auto split: hval.splits option.splits cell.splits simp: list_all_iff intro!: concat_map_cong)
next
  case (4 t h v)
  have same: "a < length h' \<and> h' ! a = h ! a" if "a < length h" for a
    using "4.prems"(2) that by (metis length_take min.strict_boundedE nth_take)
  show ?case
  proof (cases "\<exists>a xs. v = VRef (Some a) \<and> h ! a = CMap xs")
    case True
    then obtain a xs where v: "v = VRef (Some a)" "h ! a = CMap xs" by blast
    have wts: "a < length h" "\<forall>x\<in>set (map snd xs). wt t h x" using "4.prems"(1) v by (auto simp: list_all_iff)
    have each: "wt t h' x \<and> contentsOf t h' x = contentsOf t h x \<and> reach t h' x = reach t h x" if "x \<in> set (map snd xs)" for x
      using "4.IH" [OF v(1) refl v(2)] that wts(2) "4.prems"(2) by blast
    have "map (contentsOf t h') (map snd xs) = map (contentsOf t h) (map snd xs)"
      "concat (map (reach t h') (map snd xs)) = concat (map (reach t h) (map snd xs))"
      using each by (intro map_cong concat_map_cong; simp)+
    then show ?thesis using v wts each same by (simp add: list_all_iff del: map_map map_eq_conv)
  qed (use "4.prems" same in \<open>auto split: hval.splits option.splits cell.splits\<close>)
next
  case (5 fs h v)
  then show ?case by (auto split: hval.splits)
next
  case (6 h vs)
  then show ?case by simp
next
  case (7 n t fs h vs)
  then show ?case by (auto split: list.splits prod.splits)
qed

lemma take_trans: "take (length h) h1 = h \<Longrightarrow> take (length h1) h2 = h1 \<Longrightarrow> take (length h) h2 = h"
  by (metis length_take min.cobounded1 min_def take_take)

lemma take_length: "take (length h) h' = h \<Longrightarrow> length h \<le> length h'"
  by (metis length_take min.cobounded1)

text \<open>A copy stays a copy when the heap grows.\<close>

lemma copied_extend: "copied t h v h1 v' \<Longrightarrow> take (length h1) h2 = h1 \<Longrightarrow> copied t h v h2 v'"
  using extend(1) [of t h1 v' h2] take_trans [of h h1 h2] by (auto simp: copied_def)

text \<open>Copying what was already there in a larger heap.\<close>

lemma copied_from: "wt t h v \<Longrightarrow> take (length h) h1 = h \<Longrightarrow> copied t h1 v h2 v' \<Longrightarrow> copied t h v h2 v'"
  using extend(1) [of t h v h1] take_trans [of h h1 h2] take_length [of h h1] by (fastforce simp: copied_def)

lemma copyList_deep:
  assumes f: "copiesDeep t f" and "list_all (wt t h) xs" "copyList f xs h = (xs', h')"
  shows "take (length h) h' = h \<and> list_all2 (\<lambda>x x'. copied t h x h' x') xs xs'"
  using assms(2,3)
proof (induction xs arbitrary: h xs' h')
  case Nil
  then show ?case by simp
next
  case (Cons x xs)
  obtain x1 h1 where x1: "f x h = (x1, h1)" by fastforce
  obtain xs1 h2 where xs1: "copyList f xs h1 = (xs1, h2)" by fastforce
  have eq: "xs' = x1 # xs1" "h' = h2" using Cons.prems(2) x1 xs1 by simp_all
  have c: "copied t h x h1 x1" using copiesDeepD [OF f _ x1] Cons.prems(1) by simp
  then have t1: "take (length h) h1 = h" by (simp add: copied_def)
  have "list_all (wt t h1) xs" using Cons.prems(1) extend(1) [OF _ t1] by (simp add: list_all_iff)
  then have IH: "take (length h1) h2 = h1" "list_all2 (\<lambda>x x'. copied t h1 x h2 x') xs xs1"
    using Cons.IH xs1 by blast+
  have "list_all2 (\<lambda>x x'. copied t h x h2 x') xs xs1"
    using IH(2) Cons.prems(1) copied_from [OF _ t1] by (auto simp: list_all2_conv_all_nth list_all_length)
  then show ?case using take_trans [OF t1 IH(1)] copied_extend [OF c IH(1)] eq by simp
qed

lemma copied_new:
  assumes "take (length h) h' = h"
  shows "take (length h) (h' @ [c]) = h" "length h \<le> length h'"
  using assms take_length [OF assms] by simp_all

lemma copiesDeep_newDeep [copy_rules]:
  assumes "copiesDeep t f"
  shows "copiesDeep (TPtr t) (newDeep f)"
  unfolding copiesDeep_def
proof (intro allI impI)
  fix v h assume wt: "wt (TPtr t) h v"
  show "case newDeep f v h of (v', h') \<Rightarrow> copied (TPtr t) h v h' v'"
  proof (cases "\<exists>a. v = VRef (Some a)")
    case True
    then obtain a where a1: "v = VRef (Some a)" ..
    then obtain x where a: "v = VRef (Some a)" "h ! a = CVal x" "wt t h x" using wt by (cases "h ! a") auto
    obtain x' h' where x': "f x h = (x', h')" by fastforce
    have c: "copied t h x h' x'" by (rule copiesDeepD [OF assms a(3) x'])
    then have t: "take (length h) h' = h" by (simp add: copied_def)
    show ?thesis
      using a x' c extend(1) [of t h' x' "h' @ [CVal x']"] copied_new [OF t]
      by (auto simp: newDeep_def copied_def nth_append)
  qed (use wt in \<open>auto simp: newDeep_def copied_def split: hval.splits option.splits\<close>)
qed

lemma list_copied:
  assumes "list_all2 (\<lambda>x x'. copied t h x h' x') xs xs'" "take (length h') h2 = h'"
  shows "list_all (wt t h2) xs'" "map (contentsOf t h2) xs' = map (contentsOf t h) xs"
    "\<forall>a\<in>set (concat (map (reach t h2) xs')). length h \<le> a"
  using assms by (induction rule: list_all2_induct) (auto simp: copied_def dest: extend(1) [OF _ assms(2)])

lemma copiesDeep_sliceDeep [copy_rules]:
  assumes "copiesDeep t f"
  shows "copiesDeep (TSlice t) (sliceDeep f)"
  unfolding copiesDeep_def
proof (intro allI impI)
  fix v h assume wt: "wt (TSlice t) h v"
  show "case sliceDeep f v h of (v', h') \<Rightarrow> copied (TSlice t) h v h' v'"
  proof (cases "\<exists>a. v = VRef (Some a)")
    case True
    then obtain a where a1: "v = VRef (Some a)" ..
    then obtain xs where a: "v = VRef (Some a)" "h ! a = CArr xs" "list_all (wt t h) xs" using wt by (cases "h ! a") auto
    obtain xs' h' where xs': "copyList f xs h = (xs', h')" by fastforce
    note c = copyList_deep [OF assms a(3) xs']
    then have t: "take (length h) h' = h" by simp
    have "take (length h') (h' @ [CArr xs']) = h'" by simp
    then show ?thesis
      using a xs' copied_new [OF t] list_copied [OF conjunct2 [OF c], of "h' @ [CArr xs']"]
      by (auto simp: sliceDeep_def copied_def nth_append)
  qed (use wt in \<open>auto simp: sliceDeep_def copied_def split: hval.splits option.splits\<close>)
qed

lemma copiesDeep_mapDeep [copy_rules]:
  assumes "copiesDeep t f"
  shows "copiesDeep (TMap t) (mapDeep f)"
  unfolding copiesDeep_def
proof (intro allI impI)
  fix v h assume wt: "wt (TMap t) h v"
  show "case mapDeep f v h of (v', h') \<Rightarrow> copied (TMap t) h v h' v'"
  proof (cases "\<exists>a. v = VRef (Some a)")
    case True
    then obtain a where a1: "v = VRef (Some a)" ..
    then obtain xs where a: "v = VRef (Some a)" "h ! a = CMap xs" "list_all (wt t h) (map snd xs)" using wt by (cases "h ! a") auto
    obtain vs' h' where vs': "copyList f (map snd xs) h = (vs', h')" by fastforce
    note c = copyList_deep [OF assms a(3) vs']
    then have t: "take (length h) h' = h" and len: "length vs' = length xs" by (auto dest: list_all2_lengthD)
    let ?h = "h' @ [CMap (zip (map fst xs) vs')]"
    have "take (length h') ?h = h'" by simp
    then show ?thesis
      using a vs' len copied_new [OF t] list_copied [OF conjunct2 [OF c], of ?h]
      by (auto simp: mapDeep_def copied_def nth_append simp del: map_map dest!: set_zip_rightD)
  qed (use wt in \<open>auto simp: mapDeep_def copied_def split: hval.splits option.splits\<close>)
qed

text \<open>Assignment is a deep copy at the types without references.\<close>

fun flatType :: "gotype \<Rightarrow> bool" and flatFields :: "(string \<times> gotype) list \<Rightarrow> bool" where
  "flatType TFlat = True"
| "flatType (TPtr t) = False"
| "flatType (TSlice t) = False"
| "flatType (TMap t) = False"
| "flatType (TStruct fs) = flatFields fs"
| "flatFields [] = True"
| "flatFields ((n, t) # fs) = (flatType t \<and> flatFields fs)"

lemma flat_reach:
  "flatType t \<Longrightarrow> reach t h v = []" "flatFields fs \<Longrightarrow> reachFields fs h vs = []"
  by (induction t h v and fs h vs rule: reach_reachFields.induct) (auto split: hval.splits list.splits)

lemma copiesDeep_assign: "flatType t \<Longrightarrow> copiesDeep t assign"
  by (auto simp: copiesDeep_def copied_def assign_def flat_reach)

lemma copiesDeep_shallow:
  assumes "flatType t"
  shows "copiesDeep (TPtr t) newCopy" "copiesDeep (TSlice t) sliceCopy" "copiesDeep (TMap t) mapCopy"
  unfolding newCopy_def sliceCopy_def mapCopy_def by (intro copy_rules copiesDeep_assign assms)+

lemma copiesDeep_deepInto: "copiesDeep t f \<Longrightarrow> copiesDeep t (deepInto f)"
  by (simp add: deepInto_def)

text \<open>A struct is copied deeply when each of its fields is.\<close>

lemma copyFields_deep:
  assumes "\<forall>(n, t)\<in>set ts. copiesDeep t (fieldCopier fs n)" "wtFields ts h vs" "copyFields fs vs h = (vs', h')"
  shows "take (length h) h' = h \<and> wtFields ts h' vs' \<and> contentsOfFields ts h' vs' = contentsOfFields ts h vs \<and>
    (\<forall>a\<in>set (reachFields ts h' vs'). length h \<le> a)"
  using assms
proof (induction ts arbitrary: h vs vs' h')
  case Nil
  then show ?case by simp
next
  case (Cons nt ts)
  obtain n t where nt: "nt = (n, t)" by fastforce
  obtain v ws where vs: "vs = (n, v) # ws" "wt t h v" "wtFields ts h ws" using Cons.prems(2) nt by (auto split: list.splits)
  obtain v1 h1 where v1: "fieldCopier fs n v h = (v1, h1)" by fastforce
  obtain ws1 h2 where ws1: "copyFields fs ws h1 = (ws1, h2)" by fastforce
  have eq: "vs' = (n, v1) # ws1" "h' = h2" using Cons.prems(3) vs v1 ws1 by simp_all
  have c: "copied t h v h1 v1" using copiesDeepD [of t "fieldCopier fs n" h v v1 h1] Cons.prems(1) nt vs(2) v1 by simp
  then have t1: "take (length h) h1 = h" by (simp add: copied_def)
  note keep = extend(2) [OF vs(3) t1]
  have IH: "take (length h1) h2 = h1" "wtFields ts h2 ws1" "contentsOfFields ts h2 ws1 = contentsOfFields ts h1 ws"
    "\<forall>a\<in>set (reachFields ts h2 ws1). length h1 \<le> a"
    using Cons.IH [OF _ conjunct1 [OF keep] ws1] Cons.prems(1) by auto
  have "copied t h v h2 v1" by (rule copied_extend [OF c IH(1)])
  then show ?case
    using IH keep take_trans [OF t1 IH(1)] take_length [OF t1] eq vs(1) nt by (fastforce simp: copied_def)
qed

lemma copiesDeep_struct [copy_rules]:
  assumes "\<forall>(n, t)\<in>set ts. copiesDeep t (fieldCopier fs n)"
  shows "copiesDeep (TStruct ts) (copyStruct fs)"
  unfolding copiesDeep_def
proof (intro allI impI)
  fix v h assume wt: "wt (TStruct ts) h v"
  then obtain vs where vs: "v = VStruct vs" "wtFields ts h vs" by (auto split: hval.splits)
  obtain vs' h' where vs': "copyFields fs vs h = (vs', h')" by fastforce
  show "case copyStruct fs v h of (v', h') \<Rightarrow> copied (TStruct ts) h v h' v'"
    using copyFields_deep [OF assms vs(2) vs'] vs(1) vs' by (simp add: copyStruct_def copied_def)
qed

lemma copiesDeep_generated:
  assumes "copiesDeep t f"
  shows "copiesDeep t (generatedCopy f DeepCopyInto)" "copiesDeep (TPtr t) (generatedCopy f DeepCopy)"
    "copiesDeep (TPtr t) (generatedCopy f DeepCopyObject)"
  using assms by (simp_all add: copiesDeep_newDeep)

section \<open>Original and copy\<close>

text \<open>What a value reaches lies in its heap, and writing a cell that it does not reach does not change its contents.\<close>

lemma reach_bound:
  "wt t h v \<Longrightarrow> a \<in> set (reach t h v) \<Longrightarrow> a < length h"
  "wtFields fs h vs \<Longrightarrow> a \<in> set (reachFields fs h vs) \<Longrightarrow> a < length h"
  by (induction t h v and fs h vs rule: wt_wtFields.induct)
    (auto split: hval.splits option.splits cell.splits list.splits simp: list_all_iff,
     metis (no_types, lifting) imageI snd_conv)

lemma unreached_write:
  "a \<notin> set (reach t h v) \<Longrightarrow> contentsOf t (h[a := c]) v = contentsOf t h v"
  "a \<notin> set (reachFields fs h vs) \<Longrightarrow> contentsOfFields fs (h[a := c]) vs = contentsOfFields fs h vs"
  by (induction t h v and fs h vs rule: contentsOf_contentsOfFields.induct)
    (auto split: hval.splits option.splits cell.splits list.splits simp: nth_list_update_neq,
     (rule arg_cong2 [where f = zip]; simp))

text \<open>After a deep copy no write through the copy is seen in the original, and none through the original in the copy.\<close>

lemma copied_apart:
  assumes "copied t h v h' v'" "wt t h v"
  shows "\<forall>a c. a \<in> set (reach t h' v') \<longrightarrow> contentsOf t (h'[a := c]) v = contentsOf t h v"
    "\<forall>a c. a \<in> set (reach t h' v) \<longrightarrow> contentsOf t (h'[a := c]) v' = contentsOf t h v"
proof -
  have same: "contentsOf t h' v = contentsOf t h v" "reach t h' v = reach t h v"
    using assms extend(1) [of t h v h'] by (simp_all add: copied_def)
  have apart: "a \<in> set (reach t h' v') \<Longrightarrow> a \<notin> set (reach t h v)" for a
    using assms reach_bound(1) [OF assms(2), of a] by (auto simp: copied_def)
  show "\<forall>a c. a \<in> set (reach t h' v') \<longrightarrow> contentsOf t (h'[a := c]) v = contentsOf t h v"
    using apart same unreached_write(1) [of _ t h' v] by metis
  show "\<forall>a c. a \<in> set (reach t h' v) \<longrightarrow> contentsOf t (h'[a := c]) v' = contentsOf t h v"
    using apart same unreached_write(1) [of _ t h' v'] assms(1) by (metis copied_def)
qed

end
