(* ===== verification/Api_Deep_Copies.thy ===== *)
theory Api_Deep_Copies
  imports Deep_Copies
begin

text \<open>
  The deep copies of the API types (\<^verbatim>\<open>src/api/v1alpha1/zz_generated.deepcopy.go\<close>): for each struct its type,
  with the fields that the struct declares in \<^verbatim>\<open>*_types.go\<close>, and the generated copy with its statements.  The
  structs of other packages are parameters: their types, and their own copies, which are deep; those that
  are copied by assignment have no references.
\<close>

section \<open>Structs of other packages\<close>

definition copiedExterns :: "string list" where
  "copiedExterns =
     [''apiextensionsv1.JSON'', ''corev1.Affinity'', ''corev1.ResourceRequirements'', ''corev1.Toleration'',
      ''corev1.TopologySpreadConstraint'', ''resource.Quantity'', ''runtime.RawExtension'',
      ''v1.Condition'', ''v1.ListMeta'', ''v1.ObjectMeta'', ''v1.Time'']"

definition flatExterns :: "string list" where
  "flatExterns = [''corev1.LocalObjectReference'', ''corev1.ServiceType'', ''v1.Duration'', ''v1.TypeMeta'']"

definition externs :: "(string \<Rightarrow> gotype) \<Rightarrow> (string \<Rightarrow> copier) \<Rightarrow> bool" where
  "externs E X \<longleftrightarrow>
     (\<forall>n\<in>set copiedExterns. copiesDeep (E n) (X n)) \<and> (\<forall>n\<in>set flatExterns. flatType (E n))"

lemma externs_copied:
  assumes "externs E X"
  shows "copiesDeep (E ''apiextensionsv1.JSON'') (X ''apiextensionsv1.JSON'')"
    "copiesDeep (E ''corev1.Affinity'') (X ''corev1.Affinity'')"
    "copiesDeep (E ''corev1.ResourceRequirements'') (X ''corev1.ResourceRequirements'')"
    "copiesDeep (E ''corev1.Toleration'') (X ''corev1.Toleration'')"
    "copiesDeep (E ''corev1.TopologySpreadConstraint'') (X ''corev1.TopologySpreadConstraint'')"
    "copiesDeep (E ''resource.Quantity'') (X ''resource.Quantity'')"
    "copiesDeep (E ''runtime.RawExtension'') (X ''runtime.RawExtension'')"
    "copiesDeep (E ''v1.Condition'') (X ''v1.Condition'')"
    "copiesDeep (E ''v1.ListMeta'') (X ''v1.ListMeta'')"
    "copiesDeep (E ''v1.ObjectMeta'') (X ''v1.ObjectMeta'')"
    "copiesDeep (E ''v1.Time'') (X ''v1.Time'')"
  using assms by (simp_all add: externs_def copiedExterns_def)

lemma externs_flat:
  assumes "externs E X"
  shows "flatType (E ''corev1.LocalObjectReference'')" "flatType (E ''corev1.ServiceType'')" "flatType (E ''v1.Duration'')" "flatType (E ''v1.TypeMeta'')"
  using assms by (simp_all add: externs_def flatExterns_def)

named_theorems copies \<open>the deep copies of the structs, and the structs without references\<close>

lemmas [copies] =
  copiesDeep_newDeep copiesDeep_sliceDeep copiesDeep_mapDeep copiesDeep_assign copiesDeep_shallow copiesDeep_deepInto
  externs_copied externs_flat

section \<open>The structs\<close>

definition ArchivalSpec_type :: "(string \<Rightarrow> gotype) \<Rightarrow> gotype" where
  "ArchivalSpec_type E = TStruct [
      (''History'', TPtr (E ''runtime.RawExtension'')), (''Visibility'', TPtr (E ''runtime.RawExtension''))]"

definition ArchivalSpec_copy :: "(string \<Rightarrow> copier) \<Rightarrow> copyMethod \<Rightarrow> copier" where
  "ArchivalSpec_copy X = generatedCopy (copyStruct [
      (''History'', newDeep (X ''runtime.RawExtension'')),
      (''Visibility'', newDeep (X ''runtime.RawExtension''))])"

lemma copies_ArchivalSpec [copies]:
  assumes "externs E X"
  shows "copiesDeep (ArchivalSpec_type E) (ArchivalSpec_copy X DeepCopyInto)"
  unfolding ArchivalSpec_type_def ArchivalSpec_copy_def generatedCopy.simps
  by (rule copiesDeep_struct) (use assms in \<open>simp add: fieldCopier_def copies\<close>)

definition JWTKeyProviderSpec_type :: "(string \<Rightarrow> gotype) \<Rightarrow> gotype" where
  "JWTKeyProviderSpec_type E = TStruct [
      (''KeySourceURIs'', TSlice TFlat), (''RefreshInterval'', TPtr (E ''v1.Duration''))]"

definition JWTKeyProviderSpec_copy :: "(string \<Rightarrow> copier) \<Rightarrow> copyMethod \<Rightarrow> copier" where
  "JWTKeyProviderSpec_copy X = generatedCopy (copyStruct [
      (''KeySourceURIs'', sliceCopy), (''RefreshInterval'', newCopy)])"

lemma copies_JWTKeyProviderSpec [copies]:
  assumes "externs E X"
  shows "copiesDeep (JWTKeyProviderSpec_type E) (JWTKeyProviderSpec_copy X DeepCopyInto)"
  unfolding JWTKeyProviderSpec_type_def JWTKeyProviderSpec_copy_def generatedCopy.simps
  by (rule copiesDeep_struct) (use assms in \<open>simp add: fieldCopier_def copies\<close>)

definition EntraAuthSpec_type :: "(string \<Rightarrow> gotype) \<Rightarrow> gotype" where
  "EntraAuthSpec_type E = TStruct [
      (''TenantID'', TFlat)]"

definition EntraAuthSpec_copy :: "(string \<Rightarrow> copier) \<Rightarrow> copyMethod \<Rightarrow> copier" where
  "EntraAuthSpec_copy X = generatedCopy (copyStruct [])"

lemma flat_EntraAuthSpec [copies]: "externs E X \<Longrightarrow> flatType (EntraAuthSpec_type E)"
  by (simp add: EntraAuthSpec_type_def copies)

lemma copies_EntraAuthSpec [copies]:
  assumes "externs E X"
  shows "copiesDeep (EntraAuthSpec_type E) (EntraAuthSpec_copy X DeepCopyInto)"
  unfolding EntraAuthSpec_type_def EntraAuthSpec_copy_def generatedCopy.simps
  by (rule copiesDeep_struct) (use assms in \<open>simp add: fieldCopier_def copies\<close>)

definition AuthorizationSpec_type :: "(string \<Rightarrow> gotype) \<Rightarrow> gotype" where
  "AuthorizationSpec_type E = TStruct [
      (''Authorizer'', TPtr TFlat), (''ClaimMapper'', TFlat), (''PermissionsClaimName'', TFlat),
      (''JWTKeyProvider'', TPtr (JWTKeyProviderSpec_type E)), (''Entra'', TPtr (EntraAuthSpec_type E)),
      (''Config'', TPtr (E ''runtime.RawExtension''))]"

definition AuthorizationSpec_copy :: "(string \<Rightarrow> copier) \<Rightarrow> copyMethod \<Rightarrow> copier" where
  "AuthorizationSpec_copy X = generatedCopy (copyStruct [
      (''Authorizer'', newCopy), (''JWTKeyProvider'', newDeep (JWTKeyProviderSpec_copy X DeepCopyInto)),
      (''Entra'', newCopy), (''Config'', newDeep (X ''runtime.RawExtension''))])"

lemma copies_AuthorizationSpec [copies]:
  assumes "externs E X"
  shows "copiesDeep (AuthorizationSpec_type E) (AuthorizationSpec_copy X DeepCopyInto)"
  unfolding AuthorizationSpec_type_def AuthorizationSpec_copy_def generatedCopy.simps
  by (rule copiesDeep_struct) (use assms in \<open>simp add: fieldCopier_def copies\<close>)

definition AzureWorkloadIdentitySpec_type :: "(string \<Rightarrow> gotype) \<Rightarrow> gotype" where
  "AzureWorkloadIdentitySpec_type E = TStruct [
      (''ClientID'', TFlat), (''Scope'', TFlat), (''ServiceAccountName'', TFlat), (''Image'', TFlat),
      (''RefreshInterval'', TPtr (E ''v1.Duration''))]"

definition AzureWorkloadIdentitySpec_copy :: "(string \<Rightarrow> copier) \<Rightarrow> copyMethod \<Rightarrow> copier" where
  "AzureWorkloadIdentitySpec_copy X = generatedCopy (copyStruct [
      (''RefreshInterval'', newCopy)])"

lemma copies_AzureWorkloadIdentitySpec [copies]:
  assumes "externs E X"
  shows "copiesDeep (AzureWorkloadIdentitySpec_type E) (AzureWorkloadIdentitySpec_copy X DeepCopyInto)"
  unfolding AzureWorkloadIdentitySpec_type_def AzureWorkloadIdentitySpec_copy_def generatedCopy.simps
  by (rule copiesDeep_struct) (use assms in \<open>simp add: fieldCopier_def copies\<close>)

definition CalendarRange_type :: "(string \<Rightarrow> gotype) \<Rightarrow> gotype" where
  "CalendarRange_type E = TStruct [
      (''Start'', TFlat), (''End'', TFlat), (''Step'', TFlat)]"

definition CalendarRange_copy :: "(string \<Rightarrow> copier) \<Rightarrow> copyMethod \<Rightarrow> copier" where
  "CalendarRange_copy X = generatedCopy (copyStruct [])"

lemma flat_CalendarRange [copies]: "externs E X \<Longrightarrow> flatType (CalendarRange_type E)"
  by (simp add: CalendarRange_type_def copies)

lemma copies_CalendarRange [copies]:
  assumes "externs E X"
  shows "copiesDeep (CalendarRange_type E) (CalendarRange_copy X DeepCopyInto)"
  unfolding CalendarRange_type_def CalendarRange_copy_def generatedCopy.simps
  by (rule copiesDeep_struct) (use assms in \<open>simp add: fieldCopier_def copies\<close>)

definition SecretKeyReference_type :: "(string \<Rightarrow> gotype) \<Rightarrow> gotype" where
  "SecretKeyReference_type E = TStruct [
      (''Name'', TFlat), (''Key'', TFlat)]"

definition SecretKeyReference_copy :: "(string \<Rightarrow> copier) \<Rightarrow> copyMethod \<Rightarrow> copier" where
  "SecretKeyReference_copy X = generatedCopy (copyStruct [])"

lemma flat_SecretKeyReference [copies]: "externs E X \<Longrightarrow> flatType (SecretKeyReference_type E)"
  by (simp add: SecretKeyReference_type_def copies)

lemma copies_SecretKeyReference [copies]:
  assumes "externs E X"
  shows "copiesDeep (SecretKeyReference_type E) (SecretKeyReference_copy X DeepCopyInto)"
  unfolding SecretKeyReference_type_def SecretKeyReference_copy_def generatedCopy.simps
  by (rule copiesDeep_struct) (use assms in \<open>simp add: fieldCopier_def copies\<close>)

definition DatastoreTLSSpec_type :: "(string \<Rightarrow> gotype) \<Rightarrow> gotype" where
  "DatastoreTLSSpec_type E = TStruct [
      (''Enabled'', TFlat), (''CASecretRef'', TPtr (SecretKeyReference_type E)),
      (''CertSecretRef'', TPtr (SecretKeyReference_type E)),
      (''KeySecretRef'', TPtr (SecretKeyReference_type E)), (''EnableHostVerification'', TFlat),
      (''ServerName'', TFlat)]"

definition DatastoreTLSSpec_copy :: "(string \<Rightarrow> copier) \<Rightarrow> copyMethod \<Rightarrow> copier" where
  "DatastoreTLSSpec_copy X = generatedCopy (copyStruct [
      (''CASecretRef'', newCopy), (''CertSecretRef'', newCopy), (''KeySecretRef'', newCopy)])"

lemma copies_DatastoreTLSSpec [copies]:
  assumes "externs E X"
  shows "copiesDeep (DatastoreTLSSpec_type E) (DatastoreTLSSpec_copy X DeepCopyInto)"
  unfolding DatastoreTLSSpec_type_def DatastoreTLSSpec_copy_def generatedCopy.simps
  by (rule copiesDeep_struct) (use assms in \<open>simp add: fieldCopier_def copies\<close>)

definition CassandraDatastoreSpec_type :: "(string \<Rightarrow> gotype) \<Rightarrow> gotype" where
  "CassandraDatastoreSpec_type E = TStruct [
      (''Hosts'', TSlice TFlat), (''Port'', TFlat), (''Keyspace'', TFlat), (''User'', TFlat),
      (''PasswordSecretRef'', TPtr (SecretKeyReference_type E)), (''Datacenter'', TFlat),
      (''Replicas'', TFlat), (''TLS'', TPtr (DatastoreTLSSpec_type E))]"

definition CassandraDatastoreSpec_copy :: "(string \<Rightarrow> copier) \<Rightarrow> copyMethod \<Rightarrow> copier" where
  "CassandraDatastoreSpec_copy X = generatedCopy (copyStruct [
      (''Hosts'', sliceCopy), (''PasswordSecretRef'', newCopy),
      (''TLS'', newDeep (DatastoreTLSSpec_copy X DeepCopyInto))])"

lemma copies_CassandraDatastoreSpec [copies]:
  assumes "externs E X"
  shows "copiesDeep (CassandraDatastoreSpec_type E) (CassandraDatastoreSpec_copy X DeepCopyInto)"
  unfolding CassandraDatastoreSpec_type_def CassandraDatastoreSpec_copy_def generatedCopy.simps
  by (rule copiesDeep_struct) (use assms in \<open>simp add: fieldCopier_def copies\<close>)

definition CertificateAuthoritySpec_type :: "(string \<Rightarrow> gotype) \<Rightarrow> gotype" where
  "CertificateAuthoritySpec_type E = TStruct [
      (''SecretName'', TFlat), (''Duration'', TPtr (E ''v1.Duration''))]"

definition CertificateAuthoritySpec_copy :: "(string \<Rightarrow> copier) \<Rightarrow> copyMethod \<Rightarrow> copier" where
  "CertificateAuthoritySpec_copy X = generatedCopy (copyStruct [
      (''Duration'', newCopy)])"

lemma copies_CertificateAuthoritySpec [copies]:
  assumes "externs E X"
  shows "copiesDeep (CertificateAuthoritySpec_type E) (CertificateAuthoritySpec_copy X DeepCopyInto)"
  unfolding CertificateAuthoritySpec_type_def CertificateAuthoritySpec_copy_def generatedCopy.simps
  by (rule copiesDeep_struct) (use assms in \<open>simp add: fieldCopier_def copies\<close>)

definition ClusterReference_type :: "(string \<Rightarrow> gotype) \<Rightarrow> gotype" where
  "ClusterReference_type E = TStruct [
      (''Name'', TFlat), (''Kind'', TFlat)]"

definition ClusterReference_copy :: "(string \<Rightarrow> copier) \<Rightarrow> copyMethod \<Rightarrow> copier" where
  "ClusterReference_copy X = generatedCopy (copyStruct [])"

lemma flat_ClusterReference [copies]: "externs E X \<Longrightarrow> flatType (ClusterReference_type E)"
  by (simp add: ClusterReference_type_def copies)

lemma copies_ClusterReference [copies]:
  assumes "externs E X"
  shows "copiesDeep (ClusterReference_type E) (ClusterReference_copy X DeepCopyInto)"
  unfolding ClusterReference_type_def ClusterReference_copy_def generatedCopy.simps
  by (rule copiesDeep_struct) (use assms in \<open>simp add: fieldCopier_def copies\<close>)

definition SecretReference_type :: "(string \<Rightarrow> gotype) \<Rightarrow> gotype" where
  "SecretReference_type E = TStruct [
      (''Name'', TFlat), (''CAKey'', TFlat), (''CertKey'', TFlat), (''KeyKey'', TFlat)]"

definition SecretReference_copy :: "(string \<Rightarrow> copier) \<Rightarrow> copyMethod \<Rightarrow> copier" where
  "SecretReference_copy X = generatedCopy (copyStruct [])"

lemma flat_SecretReference [copies]: "externs E X \<Longrightarrow> flatType (SecretReference_type E)"
  by (simp add: SecretReference_type_def copies)

lemma copies_SecretReference [copies]:
  assumes "externs E X"
  shows "copiesDeep (SecretReference_type E) (SecretReference_copy X DeepCopyInto)"
  unfolding SecretReference_type_def SecretReference_copy_def generatedCopy.simps
  by (rule copiesDeep_struct) (use assms in \<open>simp add: fieldCopier_def copies\<close>)

definition ClusterConnectionPeer_type :: "(string \<Rightarrow> gotype) \<Rightarrow> gotype" where
  "ClusterConnectionPeer_type E = TStruct [
      (''Name'', TFlat), (''ClusterRef'', TPtr (ClusterReference_type E)), (''FrontendAddress'', TFlat),
      (''TLSSecretRef'', TPtr (SecretReference_type E)), (''EnableConnection'', TPtr TFlat)]"

definition ClusterConnectionPeer_copy :: "(string \<Rightarrow> copier) \<Rightarrow> copyMethod \<Rightarrow> copier" where
  "ClusterConnectionPeer_copy X = generatedCopy (copyStruct [
      (''ClusterRef'', newCopy), (''TLSSecretRef'', newCopy), (''EnableConnection'', newCopy)])"

lemma copies_ClusterConnectionPeer [copies]:
  assumes "externs E X"
  shows "copiesDeep (ClusterConnectionPeer_type E) (ClusterConnectionPeer_copy X DeepCopyInto)"
  unfolding ClusterConnectionPeer_type_def ClusterConnectionPeer_copy_def generatedCopy.simps
  by (rule copiesDeep_struct) (use assms in \<open>simp add: fieldCopier_def copies\<close>)

definition ClusterMetadataSpec_type :: "(string \<Rightarrow> gotype) \<Rightarrow> gotype" where
  "ClusterMetadataSpec_type E = TStruct [
      (''EnableGlobalNamespace'', TFlat), (''FailoverVersionIncrement'', TPtr TFlat),
      (''CurrentClusterName'', TFlat), (''InitialFailoverVersion'', TPtr TFlat),
      (''MasterClusterName'', TFlat)]"

definition ClusterMetadataSpec_copy :: "(string \<Rightarrow> copier) \<Rightarrow> copyMethod \<Rightarrow> copier" where
  "ClusterMetadataSpec_copy X = generatedCopy (copyStruct [
      (''FailoverVersionIncrement'', newCopy), (''InitialFailoverVersion'', newCopy)])"

lemma copies_ClusterMetadataSpec [copies]:
  assumes "externs E X"
  shows "copiesDeep (ClusterMetadataSpec_type E) (ClusterMetadataSpec_copy X DeepCopyInto)"
  unfolding ClusterMetadataSpec_type_def ClusterMetadataSpec_copy_def generatedCopy.simps
  by (rule copiesDeep_struct) (use assms in \<open>simp add: fieldCopier_def copies\<close>)

definition SQLDatastoreSpec_type :: "(string \<Rightarrow> gotype) \<Rightarrow> gotype" where
  "SQLDatastoreSpec_type E = TStruct [
      (''PluginName'', TFlat), (''Host'', TFlat), (''Port'', TFlat), (''Database'', TFlat),
      (''User'', TFlat), (''PasswordSecretRef'', TPtr (SecretKeyReference_type E)),
      (''PasswordCommandSecretRef'', TPtr (SecretKeyReference_type E)), (''ConnectAttributes'', TMap TFlat),
      (''MaxConns'', TFlat), (''MaxIdleConns'', TFlat), (''MaxConnLifetime'', TPtr (E ''v1.Duration'')),
      (''TLS'', TPtr (DatastoreTLSSpec_type E))]"

definition SQLDatastoreSpec_copy :: "(string \<Rightarrow> copier) \<Rightarrow> copyMethod \<Rightarrow> copier" where
  "SQLDatastoreSpec_copy X = generatedCopy (copyStruct [
      (''PasswordSecretRef'', newCopy), (''PasswordCommandSecretRef'', newCopy),
      (''ConnectAttributes'', mapCopy), (''MaxConnLifetime'', newCopy),
      (''TLS'', newDeep (DatastoreTLSSpec_copy X DeepCopyInto))])"

lemma copies_SQLDatastoreSpec [copies]:
  assumes "externs E X"
  shows "copiesDeep (SQLDatastoreSpec_type E) (SQLDatastoreSpec_copy X DeepCopyInto)"
  unfolding SQLDatastoreSpec_type_def SQLDatastoreSpec_copy_def generatedCopy.simps
  by (rule copiesDeep_struct) (use assms in \<open>simp add: fieldCopier_def copies\<close>)

definition ElasticsearchDatastoreSpec_type :: "(string \<Rightarrow> gotype) \<Rightarrow> gotype" where
  "ElasticsearchDatastoreSpec_type E = TStruct [
      (''URL'', TFlat), (''Version'', TFlat), (''Username'', TFlat),
      (''PasswordSecretRef'', TPtr (SecretKeyReference_type E)), (''Indices'', TMap TFlat),
      (''TLS'', TPtr (DatastoreTLSSpec_type E))]"

definition ElasticsearchDatastoreSpec_copy :: "(string \<Rightarrow> copier) \<Rightarrow> copyMethod \<Rightarrow> copier" where
  "ElasticsearchDatastoreSpec_copy X = generatedCopy (copyStruct [
      (''PasswordSecretRef'', newCopy), (''Indices'', mapCopy),
      (''TLS'', newDeep (DatastoreTLSSpec_copy X DeepCopyInto))])"

lemma copies_ElasticsearchDatastoreSpec [copies]:
  assumes "externs E X"
  shows "copiesDeep (ElasticsearchDatastoreSpec_type E) (ElasticsearchDatastoreSpec_copy X DeepCopyInto)"
  unfolding ElasticsearchDatastoreSpec_type_def ElasticsearchDatastoreSpec_copy_def generatedCopy.simps
  by (rule copiesDeep_struct) (use assms in \<open>simp add: fieldCopier_def copies\<close>)

definition DatastoreSpec_type :: "(string \<Rightarrow> gotype) \<Rightarrow> gotype" where
  "DatastoreSpec_type E = TStruct [
      (''SQL'', TPtr (SQLDatastoreSpec_type E)), (''Cassandra'', TPtr (CassandraDatastoreSpec_type E)),
      (''Elasticsearch'', TPtr (ElasticsearchDatastoreSpec_type E)), (''SchemaVersion'', TFlat)]"

definition DatastoreSpec_copy :: "(string \<Rightarrow> copier) \<Rightarrow> copyMethod \<Rightarrow> copier" where
  "DatastoreSpec_copy X = generatedCopy (copyStruct [
      (''SQL'', newDeep (SQLDatastoreSpec_copy X DeepCopyInto)),
      (''Cassandra'', newDeep (CassandraDatastoreSpec_copy X DeepCopyInto)),
      (''Elasticsearch'', newDeep (ElasticsearchDatastoreSpec_copy X DeepCopyInto))])"

lemma copies_DatastoreSpec [copies]:
  assumes "externs E X"
  shows "copiesDeep (DatastoreSpec_type E) (DatastoreSpec_copy X DeepCopyInto)"
  unfolding DatastoreSpec_type_def DatastoreSpec_copy_def generatedCopy.simps
  by (rule copiesDeep_struct) (use assms in \<open>simp add: fieldCopier_def copies\<close>)

definition DevServerEndpoints_type :: "(string \<Rightarrow> gotype) \<Rightarrow> gotype" where
  "DevServerEndpoints_type E = TStruct [
      (''Frontend'', TFlat), (''UI'', TFlat)]"

definition DevServerEndpoints_copy :: "(string \<Rightarrow> copier) \<Rightarrow> copyMethod \<Rightarrow> copier" where
  "DevServerEndpoints_copy X = generatedCopy (copyStruct [])"

lemma flat_DevServerEndpoints [copies]: "externs E X \<Longrightarrow> flatType (DevServerEndpoints_type E)"
  by (simp add: DevServerEndpoints_type_def copies)

lemma copies_DevServerEndpoints [copies]:
  assumes "externs E X"
  shows "copiesDeep (DevServerEndpoints_type E) (DevServerEndpoints_copy X DeepCopyInto)"
  unfolding DevServerEndpoints_type_def DevServerEndpoints_copy_def generatedCopy.simps
  by (rule copiesDeep_struct) (use assms in \<open>simp add: fieldCopier_def copies\<close>)

definition DevServerStorageSpec_type :: "(string \<Rightarrow> gotype) \<Rightarrow> gotype" where
  "DevServerStorageSpec_type E = TStruct [
      (''Type'', TFlat), (''Size'', TPtr (E ''resource.Quantity'')), (''StorageClassName'', TPtr TFlat)]"

definition DevServerStorageSpec_copy :: "(string \<Rightarrow> copier) \<Rightarrow> copyMethod \<Rightarrow> copier" where
  "DevServerStorageSpec_copy X = generatedCopy (copyStruct [
      (''Size'', newDeep (X ''resource.Quantity'')), (''StorageClassName'', newCopy)])"

lemma copies_DevServerStorageSpec [copies]:
  assumes "externs E X"
  shows "copiesDeep (DevServerStorageSpec_type E) (DevServerStorageSpec_copy X DeepCopyInto)"
  unfolding DevServerStorageSpec_type_def DevServerStorageSpec_copy_def generatedCopy.simps
  by (rule copiesDeep_struct) (use assms in \<open>simp add: fieldCopier_def copies\<close>)

definition DevServerUISpec_type :: "(string \<Rightarrow> gotype) \<Rightarrow> gotype" where
  "DevServerUISpec_type E = TStruct [
      (''Enabled'', TFlat)]"

definition DevServerUISpec_copy :: "(string \<Rightarrow> copier) \<Rightarrow> copyMethod \<Rightarrow> copier" where
  "DevServerUISpec_copy X = generatedCopy (copyStruct [])"

lemma flat_DevServerUISpec [copies]: "externs E X \<Longrightarrow> flatType (DevServerUISpec_type E)"
  by (simp add: DevServerUISpec_type_def copies)

lemma copies_DevServerUISpec [copies]:
  assumes "externs E X"
  shows "copiesDeep (DevServerUISpec_type E) (DevServerUISpec_copy X DeepCopyInto)"
  unfolding DevServerUISpec_type_def DevServerUISpec_copy_def generatedCopy.simps
  by (rule copiesDeep_struct) (use assms in \<open>simp add: fieldCopier_def copies\<close>)

definition DynamicConfigConstraints_type :: "(string \<Rightarrow> gotype) \<Rightarrow> gotype" where
  "DynamicConfigConstraints_type E = TStruct [
      (''Namespace'', TFlat), (''TaskQueueName'', TFlat), (''TaskQueueType'', TFlat)]"

definition DynamicConfigConstraints_copy :: "(string \<Rightarrow> copier) \<Rightarrow> copyMethod \<Rightarrow> copier" where
  "DynamicConfigConstraints_copy X = generatedCopy (copyStruct [])"

lemma flat_DynamicConfigConstraints [copies]: "externs E X \<Longrightarrow> flatType (DynamicConfigConstraints_type E)"
  by (simp add: DynamicConfigConstraints_type_def copies)

lemma copies_DynamicConfigConstraints [copies]:
  assumes "externs E X"
  shows "copiesDeep (DynamicConfigConstraints_type E) (DynamicConfigConstraints_copy X DeepCopyInto)"
  unfolding DynamicConfigConstraints_type_def DynamicConfigConstraints_copy_def generatedCopy.simps
  by (rule copiesDeep_struct) (use assms in \<open>simp add: fieldCopier_def copies\<close>)

definition DynamicConfigValue_type :: "(string \<Rightarrow> gotype) \<Rightarrow> gotype" where
  "DynamicConfigValue_type E = TStruct [
      (''Value'', E ''apiextensionsv1.JSON''), (''Constraints'', TPtr (DynamicConfigConstraints_type E))]"

definition DynamicConfigValue_copy :: "(string \<Rightarrow> copier) \<Rightarrow> copyMethod \<Rightarrow> copier" where
  "DynamicConfigValue_copy X = generatedCopy (copyStruct [
      (''Value'', deepInto (X ''apiextensionsv1.JSON'')), (''Constraints'', newCopy)])"

lemma copies_DynamicConfigValue [copies]:
  assumes "externs E X"
  shows "copiesDeep (DynamicConfigValue_type E) (DynamicConfigValue_copy X DeepCopyInto)"
  unfolding DynamicConfigValue_type_def DynamicConfigValue_copy_def generatedCopy.simps
  by (rule copiesDeep_struct) (use assms in \<open>simp add: fieldCopier_def copies\<close>)

definition DynamicConfigSpec_type :: "(string \<Rightarrow> gotype) \<Rightarrow> gotype" where
  "DynamicConfigSpec_type E = TStruct [
      (''Values'', TMap (TSlice (DynamicConfigValue_type E)))]"

definition DynamicConfigSpec_copy :: "(string \<Rightarrow> copier) \<Rightarrow> copyMethod \<Rightarrow> copier" where
  "DynamicConfigSpec_copy X = generatedCopy (copyStruct [
      (''Values'', mapDeep (sliceDeep (DynamicConfigValue_copy X DeepCopyInto)))])"

lemma copies_DynamicConfigSpec [copies]:
  assumes "externs E X"
  shows "copiesDeep (DynamicConfigSpec_type E) (DynamicConfigSpec_copy X DeepCopyInto)"
  unfolding DynamicConfigSpec_type_def DynamicConfigSpec_copy_def generatedCopy.simps
  by (rule copiesDeep_struct) (use assms in \<open>simp add: fieldCopier_def copies\<close>)

definition EndpointsStatus_type :: "(string \<Rightarrow> gotype) \<Rightarrow> gotype" where
  "EndpointsStatus_type E = TStruct [
      (''Frontend'', TFlat), (''UI'', TFlat), (''Metrics'', TFlat)]"

definition EndpointsStatus_copy :: "(string \<Rightarrow> copier) \<Rightarrow> copyMethod \<Rightarrow> copier" where
  "EndpointsStatus_copy X = generatedCopy (copyStruct [])"

lemma flat_EndpointsStatus [copies]: "externs E X \<Longrightarrow> flatType (EndpointsStatus_type E)"
  by (simp add: EndpointsStatus_type_def copies)

lemma copies_EndpointsStatus [copies]:
  assumes "externs E X"
  shows "copiesDeep (EndpointsStatus_type E) (EndpointsStatus_copy X DeepCopyInto)"
  unfolding EndpointsStatus_type_def EndpointsStatus_copy_def generatedCopy.simps
  by (rule copiesDeep_struct) (use assms in \<open>simp add: fieldCopier_def copies\<close>)

definition EntraUIAuthSpec_type :: "(string \<Rightarrow> gotype) \<Rightarrow> gotype" where
  "EntraUIAuthSpec_type E = TStruct [
      (''TenantID'', TFlat)]"

definition EntraUIAuthSpec_copy :: "(string \<Rightarrow> copier) \<Rightarrow> copyMethod \<Rightarrow> copier" where
  "EntraUIAuthSpec_copy X = generatedCopy (copyStruct [])"

lemma flat_EntraUIAuthSpec [copies]: "externs E X \<Longrightarrow> flatType (EntraUIAuthSpec_type E)"
  by (simp add: EntraUIAuthSpec_type_def copies)

lemma copies_EntraUIAuthSpec [copies]:
  assumes "externs E X"
  shows "copiesDeep (EntraUIAuthSpec_type E) (EntraUIAuthSpec_copy X DeepCopyInto)"
  unfolding EntraUIAuthSpec_type_def EntraUIAuthSpec_copy_def generatedCopy.simps
  by (rule copiesDeep_struct) (use assms in \<open>simp add: fieldCopier_def copies\<close>)

definition FrontendMTLSSpec_type :: "(string \<Rightarrow> gotype) \<Rightarrow> gotype" where
  "FrontendMTLSSpec_type E = TStruct [
      (''SecretName'', TFlat), (''DNSNames'', TSlice TFlat)]"

definition FrontendMTLSSpec_copy :: "(string \<Rightarrow> copier) \<Rightarrow> copyMethod \<Rightarrow> copier" where
  "FrontendMTLSSpec_copy X = generatedCopy (copyStruct [
      (''DNSNames'', sliceCopy)])"

lemma copies_FrontendMTLSSpec [copies]:
  assumes "externs E X"
  shows "copiesDeep (FrontendMTLSSpec_type E) (FrontendMTLSSpec_copy X DeepCopyInto)"
  unfolding FrontendMTLSSpec_type_def FrontendMTLSSpec_copy_def generatedCopy.simps
  by (rule copiesDeep_struct) (use assms in \<open>simp add: fieldCopier_def copies\<close>)

definition InternalFrontendSpec_type :: "(string \<Rightarrow> gotype) \<Rightarrow> gotype" where
  "InternalFrontendSpec_type E = TStruct [
      (''Enabled'', TFlat), (''Replicas'', TPtr TFlat), (''Resources'', E ''corev1.ResourceRequirements'')]"

definition InternalFrontendSpec_copy :: "(string \<Rightarrow> copier) \<Rightarrow> copyMethod \<Rightarrow> copier" where
  "InternalFrontendSpec_copy X = generatedCopy (copyStruct [
      (''Replicas'', newCopy), (''Resources'', deepInto (X ''corev1.ResourceRequirements''))])"

lemma copies_InternalFrontendSpec [copies]:
  assumes "externs E X"
  shows "copiesDeep (InternalFrontendSpec_type E) (InternalFrontendSpec_copy X DeepCopyInto)"
  unfolding InternalFrontendSpec_type_def InternalFrontendSpec_copy_def generatedCopy.simps
  by (rule copiesDeep_struct) (use assms in \<open>simp add: fieldCopier_def copies\<close>)

definition IntervalSpec_type :: "(string \<Rightarrow> gotype) \<Rightarrow> gotype" where
  "IntervalSpec_type E = TStruct [
      (''Every'', E ''v1.Duration''), (''Offset'', TPtr (E ''v1.Duration''))]"

definition IntervalSpec_copy :: "(string \<Rightarrow> copier) \<Rightarrow> copyMethod \<Rightarrow> copier" where
  "IntervalSpec_copy X = generatedCopy (copyStruct [
      (''Every'', assign), (''Offset'', newCopy)])"

lemma copies_IntervalSpec [copies]:
  assumes "externs E X"
  shows "copiesDeep (IntervalSpec_type E) (IntervalSpec_copy X DeepCopyInto)"
  unfolding IntervalSpec_type_def IntervalSpec_copy_def generatedCopy.simps
  by (rule copiesDeep_struct) (use assms in \<open>simp add: fieldCopier_def copies\<close>)

definition IssuerReference_type :: "(string \<Rightarrow> gotype) \<Rightarrow> gotype" where
  "IssuerReference_type E = TStruct [
      (''Name'', TFlat), (''Kind'', TFlat), (''Group'', TFlat)]"

definition IssuerReference_copy :: "(string \<Rightarrow> copier) \<Rightarrow> copyMethod \<Rightarrow> copier" where
  "IssuerReference_copy X = generatedCopy (copyStruct [])"

lemma flat_IssuerReference [copies]: "externs E X \<Longrightarrow> flatType (IssuerReference_type E)"
  by (simp add: IssuerReference_type_def copies)

lemma copies_IssuerReference [copies]:
  assumes "externs E X"
  shows "copiesDeep (IssuerReference_type E) (IssuerReference_copy X DeepCopyInto)"
  unfolding IssuerReference_type_def IssuerReference_copy_def generatedCopy.simps
  by (rule copiesDeep_struct) (use assms in \<open>simp add: fieldCopier_def copies\<close>)

definition MTLSSpec_type :: "(string \<Rightarrow> gotype) \<Rightarrow> gotype" where
  "MTLSSpec_type E = TStruct [
      (''Provider'', TFlat), (''IssuerRef'', TPtr (IssuerReference_type E)),
      (''InternodeCA'', TPtr (CertificateAuthoritySpec_type E)),
      (''Frontend'', TPtr (FrontendMTLSSpec_type E)), (''RefreshInterval'', TPtr (E ''v1.Duration'')),
      (''RenewBefore'', TPtr (E ''v1.Duration''))]"

definition MTLSSpec_copy :: "(string \<Rightarrow> copier) \<Rightarrow> copyMethod \<Rightarrow> copier" where
  "MTLSSpec_copy X = generatedCopy (copyStruct [
      (''IssuerRef'', newCopy), (''InternodeCA'', newDeep (CertificateAuthoritySpec_copy X DeepCopyInto)),
      (''Frontend'', newDeep (FrontendMTLSSpec_copy X DeepCopyInto)), (''RefreshInterval'', newCopy),
      (''RenewBefore'', newCopy)])"

lemma copies_MTLSSpec [copies]:
  assumes "externs E X"
  shows "copiesDeep (MTLSSpec_type E) (MTLSSpec_copy X DeepCopyInto)"
  unfolding MTLSSpec_type_def MTLSSpec_copy_def generatedCopy.simps
  by (rule copiesDeep_struct) (use assms in \<open>simp add: fieldCopier_def copies\<close>)

definition ServiceMonitorSpec_type :: "(string \<Rightarrow> gotype) \<Rightarrow> gotype" where
  "ServiceMonitorSpec_type E = TStruct [
      (''Enabled'', TFlat), (''Interval'', TPtr (E ''v1.Duration'')), (''Labels'', TMap TFlat)]"

definition ServiceMonitorSpec_copy :: "(string \<Rightarrow> copier) \<Rightarrow> copyMethod \<Rightarrow> copier" where
  "ServiceMonitorSpec_copy X = generatedCopy (copyStruct [
      (''Interval'', newCopy), (''Labels'', mapCopy)])"

lemma copies_ServiceMonitorSpec [copies]:
  assumes "externs E X"
  shows "copiesDeep (ServiceMonitorSpec_type E) (ServiceMonitorSpec_copy X DeepCopyInto)"
  unfolding ServiceMonitorSpec_type_def ServiceMonitorSpec_copy_def generatedCopy.simps
  by (rule copiesDeep_struct) (use assms in \<open>simp add: fieldCopier_def copies\<close>)

definition MetricsSpec_type :: "(string \<Rightarrow> gotype) \<Rightarrow> gotype" where
  "MetricsSpec_type E = TStruct [
      (''Enabled'', TFlat), (''Port'', TFlat), (''ServiceMonitor'', TPtr (ServiceMonitorSpec_type E))]"

definition MetricsSpec_copy :: "(string \<Rightarrow> copier) \<Rightarrow> copyMethod \<Rightarrow> copier" where
  "MetricsSpec_copy X = generatedCopy (copyStruct [
      (''ServiceMonitor'', newDeep (ServiceMonitorSpec_copy X DeepCopyInto))])"

lemma copies_MetricsSpec [copies]:
  assumes "externs E X"
  shows "copiesDeep (MetricsSpec_type E) (MetricsSpec_copy X DeepCopyInto)"
  unfolding MetricsSpec_type_def MetricsSpec_copy_def generatedCopy.simps
  by (rule copiesDeep_struct) (use assms in \<open>simp add: fieldCopier_def copies\<close>)

definition NamespaceReplicationStatus_type :: "(string \<Rightarrow> gotype) \<Rightarrow> gotype" where
  "NamespaceReplicationStatus_type E = TStruct [
      (''IsGlobal'', TFlat), (''ActiveCluster'', TFlat), (''Clusters'', TSlice TFlat),
      (''FailoverInProgress'', TFlat), (''LastFailoverTime'', TPtr (E ''v1.Time''))]"

definition NamespaceReplicationStatus_copy :: "(string \<Rightarrow> copier) \<Rightarrow> copyMethod \<Rightarrow> copier" where
  "NamespaceReplicationStatus_copy X = generatedCopy (copyStruct [
      (''Clusters'', sliceCopy), (''LastFailoverTime'', newDeep (X ''v1.Time''))])"

lemma copies_NamespaceReplicationStatus [copies]:
  assumes "externs E X"
  shows "copiesDeep (NamespaceReplicationStatus_type E) (NamespaceReplicationStatus_copy X DeepCopyInto)"
  unfolding NamespaceReplicationStatus_type_def NamespaceReplicationStatus_copy_def generatedCopy.simps
  by (rule copiesDeep_struct) (use assms in \<open>simp add: fieldCopier_def copies\<close>)

definition PeerConnectionStatus_type :: "(string \<Rightarrow> gotype) \<Rightarrow> gotype" where
  "PeerConnectionStatus_type E = TStruct [
      (''Name'', TFlat), (''Reachable'', TFlat), (''Connected'', TFlat), (''Message'', TFlat)]"

definition PeerConnectionStatus_copy :: "(string \<Rightarrow> copier) \<Rightarrow> copyMethod \<Rightarrow> copier" where
  "PeerConnectionStatus_copy X = generatedCopy (copyStruct [])"

lemma flat_PeerConnectionStatus [copies]: "externs E X \<Longrightarrow> flatType (PeerConnectionStatus_type E)"
  by (simp add: PeerConnectionStatus_type_def copies)

lemma copies_PeerConnectionStatus [copies]:
  assumes "externs E X"
  shows "copiesDeep (PeerConnectionStatus_type E) (PeerConnectionStatus_copy X DeepCopyInto)"
  unfolding PeerConnectionStatus_type_def PeerConnectionStatus_copy_def generatedCopy.simps
  by (rule copiesDeep_struct) (use assms in \<open>simp add: fieldCopier_def copies\<close>)

definition PodTemplateOverride_type :: "(string \<Rightarrow> gotype) \<Rightarrow> gotype" where
  "PodTemplateOverride_type E = TStruct [
      (''Labels'', TMap TFlat), (''Annotations'', TMap TFlat), (''Spec'', TPtr (E ''runtime.RawExtension''))]"

definition PodTemplateOverride_copy :: "(string \<Rightarrow> copier) \<Rightarrow> copyMethod \<Rightarrow> copier" where
  "PodTemplateOverride_copy X = generatedCopy (copyStruct [
      (''Labels'', mapCopy), (''Annotations'', mapCopy), (''Spec'', newDeep (X ''runtime.RawExtension''))])"

lemma copies_PodTemplateOverride [copies]:
  assumes "externs E X"
  shows "copiesDeep (PodTemplateOverride_type E) (PodTemplateOverride_copy X DeepCopyInto)"
  unfolding PodTemplateOverride_type_def PodTemplateOverride_copy_def generatedCopy.simps
  by (rule copiesDeep_struct) (use assms in \<open>simp add: fieldCopier_def copies\<close>)

definition SchemaJobSpec_type :: "(string \<Rightarrow> gotype) \<Rightarrow> gotype" where
  "SchemaJobSpec_type E = TStruct [
      (''PodTemplate'', TPtr (PodTemplateOverride_type E))]"

definition SchemaJobSpec_copy :: "(string \<Rightarrow> copier) \<Rightarrow> copyMethod \<Rightarrow> copier" where
  "SchemaJobSpec_copy X = generatedCopy (copyStruct [
      (''PodTemplate'', newDeep (PodTemplateOverride_copy X DeepCopyInto))])"

lemma copies_SchemaJobSpec [copies]:
  assumes "externs E X"
  shows "copiesDeep (SchemaJobSpec_type E) (SchemaJobSpec_copy X DeepCopyInto)"
  unfolding SchemaJobSpec_type_def SchemaJobSpec_copy_def generatedCopy.simps
  by (rule copiesDeep_struct) (use assms in \<open>simp add: fieldCopier_def copies\<close>)

definition PersistenceSpec_type :: "(string \<Rightarrow> gotype) \<Rightarrow> gotype" where
  "PersistenceSpec_type E = TStruct [
      (''DefaultStore'', DatastoreSpec_type E), (''VisibilityStore'', DatastoreSpec_type E),
      (''SchemaJob'', TPtr (SchemaJobSpec_type E)),
      (''AzureWorkloadIdentity'', TPtr (AzureWorkloadIdentitySpec_type E))]"

definition PersistenceSpec_copy :: "(string \<Rightarrow> copier) \<Rightarrow> copyMethod \<Rightarrow> copier" where
  "PersistenceSpec_copy X = generatedCopy (copyStruct [
      (''DefaultStore'', deepInto (DatastoreSpec_copy X DeepCopyInto)),
      (''VisibilityStore'', deepInto (DatastoreSpec_copy X DeepCopyInto)),
      (''SchemaJob'', newDeep (SchemaJobSpec_copy X DeepCopyInto)),
      (''AzureWorkloadIdentity'', newDeep (AzureWorkloadIdentitySpec_copy X DeepCopyInto))])"

lemma copies_PersistenceSpec [copies]:
  assumes "externs E X"
  shows "copiesDeep (PersistenceSpec_type E) (PersistenceSpec_copy X DeepCopyInto)"
  unfolding PersistenceSpec_type_def PersistenceSpec_copy_def generatedCopy.simps
  by (rule copiesDeep_struct) (use assms in \<open>simp add: fieldCopier_def copies\<close>)

definition SchemaUpgradeRecord_type :: "(string \<Rightarrow> gotype) \<Rightarrow> gotype" where
  "SchemaUpgradeRecord_type E = TStruct [
      (''Store'', TFlat), (''FromVersion'', TFlat), (''ToVersion'', TFlat), (''Time'', E ''v1.Time'')]"

definition SchemaUpgradeRecord_copy :: "(string \<Rightarrow> copier) \<Rightarrow> copyMethod \<Rightarrow> copier" where
  "SchemaUpgradeRecord_copy X = generatedCopy (copyStruct [
      (''Time'', deepInto (X ''v1.Time''))])"

lemma copies_SchemaUpgradeRecord [copies]:
  assumes "externs E X"
  shows "copiesDeep (SchemaUpgradeRecord_type E) (SchemaUpgradeRecord_copy X DeepCopyInto)"
  unfolding SchemaUpgradeRecord_type_def SchemaUpgradeRecord_copy_def generatedCopy.simps
  by (rule copiesDeep_struct) (use assms in \<open>simp add: fieldCopier_def copies\<close>)

definition PersistenceStatus_type :: "(string \<Rightarrow> gotype) \<Rightarrow> gotype" where
  "PersistenceStatus_type E = TStruct [
      (''SchemaVersions'', TMap TFlat), (''History'', TSlice (SchemaUpgradeRecord_type E)),
      (''Reachable'', TFlat)]"

definition PersistenceStatus_copy :: "(string \<Rightarrow> copier) \<Rightarrow> copyMethod \<Rightarrow> copier" where
  "PersistenceStatus_copy X = generatedCopy (copyStruct [
      (''SchemaVersions'', mapCopy), (''History'', sliceDeep (SchemaUpgradeRecord_copy X DeepCopyInto))])"

lemma copies_PersistenceStatus [copies]:
  assumes "externs E X"
  shows "copiesDeep (PersistenceStatus_type E) (PersistenceStatus_copy X DeepCopyInto)"
  unfolding PersistenceStatus_type_def PersistenceStatus_copy_def generatedCopy.simps
  by (rule copiesDeep_struct) (use assms in \<open>simp add: fieldCopier_def copies\<close>)

definition RetryPolicySpec_type :: "(string \<Rightarrow> gotype) \<Rightarrow> gotype" where
  "RetryPolicySpec_type E = TStruct [
      (''InitialInterval'', TPtr (E ''v1.Duration'')), (''BackoffCoefficient'', TFlat),
      (''MaximumInterval'', TPtr (E ''v1.Duration'')), (''MaximumAttempts'', TFlat),
      (''NonRetryableErrorTypes'', TSlice TFlat)]"

definition RetryPolicySpec_copy :: "(string \<Rightarrow> copier) \<Rightarrow> copyMethod \<Rightarrow> copier" where
  "RetryPolicySpec_copy X = generatedCopy (copyStruct [
      (''InitialInterval'', newCopy), (''MaximumInterval'', newCopy),
      (''NonRetryableErrorTypes'', sliceCopy)])"

lemma copies_RetryPolicySpec [copies]:
  assumes "externs E X"
  shows "copiesDeep (RetryPolicySpec_type E) (RetryPolicySpec_copy X DeepCopyInto)"
  unfolding RetryPolicySpec_type_def RetryPolicySpec_copy_def generatedCopy.simps
  by (rule copiesDeep_struct) (use assms in \<open>simp add: fieldCopier_def copies\<close>)

definition StartWorkflowAction_type :: "(string \<Rightarrow> gotype) \<Rightarrow> gotype" where
  "StartWorkflowAction_type E = TStruct [
      (''WorkflowType'', TFlat), (''TaskQueue'', TFlat), (''WorkflowID'', TFlat),
      (''Args'', TSlice (E ''runtime.RawExtension'')),
      (''WorkflowExecutionTimeout'', TPtr (E ''v1.Duration'')),
      (''WorkflowRunTimeout'', TPtr (E ''v1.Duration'')),
      (''WorkflowTaskTimeout'', TPtr (E ''v1.Duration'')), (''WorkflowIDReusePolicy'', TFlat),
      (''RetryPolicy'', TPtr (RetryPolicySpec_type E)), (''Memo'', TMap (E ''runtime.RawExtension'')),
      (''SearchAttributes'', TMap (E ''runtime.RawExtension''))]"

definition StartWorkflowAction_copy :: "(string \<Rightarrow> copier) \<Rightarrow> copyMethod \<Rightarrow> copier" where
  "StartWorkflowAction_copy X = generatedCopy (copyStruct [
      (''Args'', sliceDeep (X ''runtime.RawExtension'')), (''WorkflowExecutionTimeout'', newCopy),
      (''WorkflowRunTimeout'', newCopy), (''WorkflowTaskTimeout'', newCopy),
      (''RetryPolicy'', newDeep (RetryPolicySpec_copy X DeepCopyInto)),
      (''Memo'', mapDeep (X ''runtime.RawExtension'')),
      (''SearchAttributes'', mapDeep (X ''runtime.RawExtension''))])"

lemma copies_StartWorkflowAction [copies]:
  assumes "externs E X"
  shows "copiesDeep (StartWorkflowAction_type E) (StartWorkflowAction_copy X DeepCopyInto)"
  unfolding StartWorkflowAction_type_def StartWorkflowAction_copy_def generatedCopy.simps
  by (rule copiesDeep_struct) (use assms in \<open>simp add: fieldCopier_def copies\<close>)

definition ScheduleActionSpec_type :: "(string \<Rightarrow> gotype) \<Rightarrow> gotype" where
  "ScheduleActionSpec_type E = TStruct [
      (''StartWorkflow'', StartWorkflowAction_type E)]"

definition ScheduleActionSpec_copy :: "(string \<Rightarrow> copier) \<Rightarrow> copyMethod \<Rightarrow> copier" where
  "ScheduleActionSpec_copy X = generatedCopy (copyStruct [
      (''StartWorkflow'', deepInto (StartWorkflowAction_copy X DeepCopyInto))])"

lemma copies_ScheduleActionSpec [copies]:
  assumes "externs E X"
  shows "copiesDeep (ScheduleActionSpec_type E) (ScheduleActionSpec_copy X DeepCopyInto)"
  unfolding ScheduleActionSpec_type_def ScheduleActionSpec_copy_def generatedCopy.simps
  by (rule copiesDeep_struct) (use assms in \<open>simp add: fieldCopier_def copies\<close>)

definition SchedulePoliciesSpec_type :: "(string \<Rightarrow> gotype) \<Rightarrow> gotype" where
  "SchedulePoliciesSpec_type E = TStruct [
      (''OverlapPolicy'', TFlat), (''CatchupWindow'', TPtr (E ''v1.Duration'')),
      (''PauseOnFailure'', TFlat), (''KeepOriginalWorkflowID'', TFlat)]"

definition SchedulePoliciesSpec_copy :: "(string \<Rightarrow> copier) \<Rightarrow> copyMethod \<Rightarrow> copier" where
  "SchedulePoliciesSpec_copy X = generatedCopy (copyStruct [
      (''CatchupWindow'', newCopy)])"

lemma copies_SchedulePoliciesSpec [copies]:
  assumes "externs E X"
  shows "copiesDeep (SchedulePoliciesSpec_type E) (SchedulePoliciesSpec_copy X DeepCopyInto)"
  unfolding SchedulePoliciesSpec_type_def SchedulePoliciesSpec_copy_def generatedCopy.simps
  by (rule copiesDeep_struct) (use assms in \<open>simp add: fieldCopier_def copies\<close>)

definition StructuredCalendarSpec_type :: "(string \<Rightarrow> gotype) \<Rightarrow> gotype" where
  "StructuredCalendarSpec_type E = TStruct [
      (''Second'', TSlice (CalendarRange_type E)), (''Minute'', TSlice (CalendarRange_type E)),
      (''Hour'', TSlice (CalendarRange_type E)), (''DayOfMonth'', TSlice (CalendarRange_type E)),
      (''Month'', TSlice (CalendarRange_type E)), (''Year'', TSlice (CalendarRange_type E)),
      (''DayOfWeek'', TSlice (CalendarRange_type E)), (''Comment'', TFlat)]"

definition StructuredCalendarSpec_copy :: "(string \<Rightarrow> copier) \<Rightarrow> copyMethod \<Rightarrow> copier" where
  "StructuredCalendarSpec_copy X = generatedCopy (copyStruct [
      (''Second'', sliceCopy), (''Minute'', sliceCopy), (''Hour'', sliceCopy), (''DayOfMonth'', sliceCopy),
      (''Month'', sliceCopy), (''Year'', sliceCopy), (''DayOfWeek'', sliceCopy)])"

lemma copies_StructuredCalendarSpec [copies]:
  assumes "externs E X"
  shows "copiesDeep (StructuredCalendarSpec_type E) (StructuredCalendarSpec_copy X DeepCopyInto)"
  unfolding StructuredCalendarSpec_type_def StructuredCalendarSpec_copy_def generatedCopy.simps
  by (rule copiesDeep_struct) (use assms in \<open>simp add: fieldCopier_def copies\<close>)

definition ScheduleSpec_type :: "(string \<Rightarrow> gotype) \<Rightarrow> gotype" where
  "ScheduleSpec_type E = TStruct [
      (''Calendars'', TSlice TFlat), (''Intervals'', TSlice (IntervalSpec_type E)),
      (''StructuredCalendar'', TSlice (StructuredCalendarSpec_type E)),
      (''ExcludeStructuredCalendar'', TSlice (StructuredCalendarSpec_type E)),
      (''StartTime'', TPtr (E ''v1.Time'')), (''EndTime'', TPtr (E ''v1.Time'')),
      (''Jitter'', TPtr (E ''v1.Duration'')), (''TimezoneName'', TFlat)]"

definition ScheduleSpec_copy :: "(string \<Rightarrow> copier) \<Rightarrow> copyMethod \<Rightarrow> copier" where
  "ScheduleSpec_copy X = generatedCopy (copyStruct [
      (''Calendars'', sliceCopy), (''Intervals'', sliceDeep (IntervalSpec_copy X DeepCopyInto)),
      (''StructuredCalendar'', sliceDeep (StructuredCalendarSpec_copy X DeepCopyInto)),
      (''ExcludeStructuredCalendar'', sliceDeep (StructuredCalendarSpec_copy X DeepCopyInto)),
      (''StartTime'', newDeep (X ''v1.Time'')), (''EndTime'', newDeep (X ''v1.Time'')),
      (''Jitter'', newCopy)])"

lemma copies_ScheduleSpec [copies]:
  assumes "externs E X"
  shows "copiesDeep (ScheduleSpec_type E) (ScheduleSpec_copy X DeepCopyInto)"
  unfolding ScheduleSpec_type_def ScheduleSpec_copy_def generatedCopy.simps
  by (rule copiesDeep_struct) (use assms in \<open>simp add: fieldCopier_def copies\<close>)

definition ScheduleStateSpec_type :: "(string \<Rightarrow> gotype) \<Rightarrow> gotype" where
  "ScheduleStateSpec_type E = TStruct [
      (''Paused'', TFlat), (''Notes'', TFlat), (''LimitedActions'', TFlat), (''RemainingActions'', TFlat)]"

definition ScheduleStateSpec_copy :: "(string \<Rightarrow> copier) \<Rightarrow> copyMethod \<Rightarrow> copier" where
  "ScheduleStateSpec_copy X = generatedCopy (copyStruct [])"

lemma flat_ScheduleStateSpec [copies]: "externs E X \<Longrightarrow> flatType (ScheduleStateSpec_type E)"
  by (simp add: ScheduleStateSpec_type_def copies)

lemma copies_ScheduleStateSpec [copies]:
  assumes "externs E X"
  shows "copiesDeep (ScheduleStateSpec_type E) (ScheduleStateSpec_copy X DeepCopyInto)"
  unfolding ScheduleStateSpec_type_def ScheduleStateSpec_copy_def generatedCopy.simps
  by (rule copiesDeep_struct) (use assms in \<open>simp add: fieldCopier_def copies\<close>)

definition ServiceExposureSpec_type :: "(string \<Rightarrow> gotype) \<Rightarrow> gotype" where
  "ServiceExposureSpec_type E = TStruct [
      (''Type'', E ''corev1.ServiceType''), (''Annotations'', TMap TFlat)]"

definition ServiceExposureSpec_copy :: "(string \<Rightarrow> copier) \<Rightarrow> copyMethod \<Rightarrow> copier" where
  "ServiceExposureSpec_copy X = generatedCopy (copyStruct [
      (''Annotations'', mapCopy)])"

lemma copies_ServiceExposureSpec [copies]:
  assumes "externs E X"
  shows "copiesDeep (ServiceExposureSpec_type E) (ServiceExposureSpec_copy X DeepCopyInto)"
  unfolding ServiceExposureSpec_type_def ServiceExposureSpec_copy_def generatedCopy.simps
  by (rule copiesDeep_struct) (use assms in \<open>simp add: fieldCopier_def copies\<close>)

definition ServiceOverrides_type :: "(string \<Rightarrow> gotype) \<Rightarrow> gotype" where
  "ServiceOverrides_type E = TStruct [
      (''PodTemplate'', TPtr (PodTemplateOverride_type E))]"

definition ServiceOverrides_copy :: "(string \<Rightarrow> copier) \<Rightarrow> copyMethod \<Rightarrow> copier" where
  "ServiceOverrides_copy X = generatedCopy (copyStruct [
      (''PodTemplate'', newDeep (PodTemplateOverride_copy X DeepCopyInto))])"

lemma copies_ServiceOverrides [copies]:
  assumes "externs E X"
  shows "copiesDeep (ServiceOverrides_type E) (ServiceOverrides_copy X DeepCopyInto)"
  unfolding ServiceOverrides_type_def ServiceOverrides_copy_def generatedCopy.simps
  by (rule copiesDeep_struct) (use assms in \<open>simp add: fieldCopier_def copies\<close>)

definition ServiceSpec_type :: "(string \<Rightarrow> gotype) \<Rightarrow> gotype" where
  "ServiceSpec_type E = TStruct [
      (''Replicas'', TPtr TFlat), (''Resources'', E ''corev1.ResourceRequirements''),
      (''PodTemplate'', TPtr (PodTemplateOverride_type E)),
      (''Service'', TPtr (ServiceExposureSpec_type E)), (''NodeSelector'', TMap TFlat),
      (''Tolerations'', TSlice (E ''corev1.Toleration'')), (''Affinity'', TPtr (E ''corev1.Affinity'')),
      (''TopologySpreadConstraints'', TSlice (E ''corev1.TopologySpreadConstraint''))]"

definition ServiceSpec_copy :: "(string \<Rightarrow> copier) \<Rightarrow> copyMethod \<Rightarrow> copier" where
  "ServiceSpec_copy X = generatedCopy (copyStruct [
      (''Replicas'', newCopy), (''Resources'', deepInto (X ''corev1.ResourceRequirements'')),
      (''PodTemplate'', newDeep (PodTemplateOverride_copy X DeepCopyInto)),
      (''Service'', newDeep (ServiceExposureSpec_copy X DeepCopyInto)), (''NodeSelector'', mapCopy),
      (''Tolerations'', sliceDeep (X ''corev1.Toleration'')),
      (''Affinity'', newDeep (X ''corev1.Affinity'')),
      (''TopologySpreadConstraints'', sliceDeep (X ''corev1.TopologySpreadConstraint''))])"

lemma copies_ServiceSpec [copies]:
  assumes "externs E X"
  shows "copiesDeep (ServiceSpec_type E) (ServiceSpec_copy X DeepCopyInto)"
  unfolding ServiceSpec_type_def ServiceSpec_copy_def generatedCopy.simps
  by (rule copiesDeep_struct) (use assms in \<open>simp add: fieldCopier_def copies\<close>)

definition ServiceStatus_type :: "(string \<Rightarrow> gotype) \<Rightarrow> gotype" where
  "ServiceStatus_type E = TStruct [
      (''Ready'', TFlat), (''Desired'', TFlat), (''Version'', TFlat)]"

definition ServiceStatus_copy :: "(string \<Rightarrow> copier) \<Rightarrow> copyMethod \<Rightarrow> copier" where
  "ServiceStatus_copy X = generatedCopy (copyStruct [])"

lemma flat_ServiceStatus [copies]: "externs E X \<Longrightarrow> flatType (ServiceStatus_type E)"
  by (simp add: ServiceStatus_type_def copies)

lemma copies_ServiceStatus [copies]:
  assumes "externs E X"
  shows "copiesDeep (ServiceStatus_type E) (ServiceStatus_copy X DeepCopyInto)"
  unfolding ServiceStatus_type_def ServiceStatus_copy_def generatedCopy.simps
  by (rule copiesDeep_struct) (use assms in \<open>simp add: fieldCopier_def copies\<close>)

definition ServicesSpec_type :: "(string \<Rightarrow> gotype) \<Rightarrow> gotype" where
  "ServicesSpec_type E = TStruct [
      (''Frontend'', TPtr (ServiceSpec_type E)), (''History'', TPtr (ServiceSpec_type E)),
      (''Matching'', TPtr (ServiceSpec_type E)), (''Worker'', TPtr (ServiceSpec_type E)),
      (''InternalFrontend'', TPtr (InternalFrontendSpec_type E)),
      (''Overrides'', TPtr (ServiceOverrides_type E))]"

definition ServicesSpec_copy :: "(string \<Rightarrow> copier) \<Rightarrow> copyMethod \<Rightarrow> copier" where
  "ServicesSpec_copy X = generatedCopy (copyStruct [
      (''Frontend'', newDeep (ServiceSpec_copy X DeepCopyInto)),
      (''History'', newDeep (ServiceSpec_copy X DeepCopyInto)),
      (''Matching'', newDeep (ServiceSpec_copy X DeepCopyInto)),
      (''Worker'', newDeep (ServiceSpec_copy X DeepCopyInto)),
      (''InternalFrontend'', newDeep (InternalFrontendSpec_copy X DeepCopyInto)),
      (''Overrides'', newDeep (ServiceOverrides_copy X DeepCopyInto))])"

lemma copies_ServicesSpec [copies]:
  assumes "externs E X"
  shows "copiesDeep (ServicesSpec_type E) (ServicesSpec_copy X DeepCopyInto)"
  unfolding ServicesSpec_type_def ServicesSpec_copy_def generatedCopy.simps
  by (rule copiesDeep_struct) (use assms in \<open>simp add: fieldCopier_def copies\<close>)

definition UIIngressSpec_type :: "(string \<Rightarrow> gotype) \<Rightarrow> gotype" where
  "UIIngressSpec_type E = TStruct [
      (''Enabled'', TFlat), (''IngressClassName'', TFlat), (''Host'', TFlat), (''Annotations'', TMap TFlat),
      (''TLSSecretName'', TFlat)]"

definition UIIngressSpec_copy :: "(string \<Rightarrow> copier) \<Rightarrow> copyMethod \<Rightarrow> copier" where
  "UIIngressSpec_copy X = generatedCopy (copyStruct [
      (''Annotations'', mapCopy)])"

lemma copies_UIIngressSpec [copies]:
  assumes "externs E X"
  shows "copiesDeep (UIIngressSpec_type E) (UIIngressSpec_copy X DeepCopyInto)"
  unfolding UIIngressSpec_type_def UIIngressSpec_copy_def generatedCopy.simps
  by (rule copiesDeep_struct) (use assms in \<open>simp add: fieldCopier_def copies\<close>)

definition UIAuthSpec_type :: "(string \<Rightarrow> gotype) \<Rightarrow> gotype" where
  "UIAuthSpec_type E = TStruct [
      (''Enabled'', TFlat), (''Entra'', TPtr (EntraUIAuthSpec_type E)), (''ProviderURL'', TFlat),
      (''ClientID'', TFlat), (''ClientSecretRef'', TPtr (SecretKeyReference_type E)),
      (''Scopes'', TSlice TFlat), (''CallbackURL'', TFlat),
      (''ExtraEnv'', TPtr (E ''runtime.RawExtension''))]"

definition UIAuthSpec_copy :: "(string \<Rightarrow> copier) \<Rightarrow> copyMethod \<Rightarrow> copier" where
  "UIAuthSpec_copy X = generatedCopy (copyStruct [
      (''Entra'', newCopy), (''ClientSecretRef'', newCopy), (''Scopes'', sliceCopy),
      (''ExtraEnv'', newDeep (X ''runtime.RawExtension''))])"

lemma copies_UIAuthSpec [copies]:
  assumes "externs E X"
  shows "copiesDeep (UIAuthSpec_type E) (UIAuthSpec_copy X DeepCopyInto)"
  unfolding UIAuthSpec_type_def UIAuthSpec_copy_def generatedCopy.simps
  by (rule copiesDeep_struct) (use assms in \<open>simp add: fieldCopier_def copies\<close>)

definition UICodecServerSpec_type :: "(string \<Rightarrow> gotype) \<Rightarrow> gotype" where
  "UICodecServerSpec_type E = TStruct [
      (''Endpoint'', TFlat), (''PassAccessToken'', TFlat), (''IncludeCredentials'', TFlat)]"

definition UICodecServerSpec_copy :: "(string \<Rightarrow> copier) \<Rightarrow> copyMethod \<Rightarrow> copier" where
  "UICodecServerSpec_copy X = generatedCopy (copyStruct [])"

lemma flat_UICodecServerSpec [copies]: "externs E X \<Longrightarrow> flatType (UICodecServerSpec_type E)"
  by (simp add: UICodecServerSpec_type_def copies)

lemma copies_UICodecServerSpec [copies]:
  assumes "externs E X"
  shows "copiesDeep (UICodecServerSpec_type E) (UICodecServerSpec_copy X DeepCopyInto)"
  unfolding UICodecServerSpec_type_def UICodecServerSpec_copy_def generatedCopy.simps
  by (rule copiesDeep_struct) (use assms in \<open>simp add: fieldCopier_def copies\<close>)

definition UISpec_type :: "(string \<Rightarrow> gotype) \<Rightarrow> gotype" where
  "UISpec_type E = TStruct [
      (''Enabled'', TFlat), (''Version'', TFlat), (''Replicas'', TPtr TFlat),
      (''Ingress'', TPtr (UIIngressSpec_type E)), (''Auth'', TPtr (UIAuthSpec_type E)),
      (''CodecServer'', TPtr (UICodecServerSpec_type E))]"

definition UISpec_copy :: "(string \<Rightarrow> copier) \<Rightarrow> copyMethod \<Rightarrow> copier" where
  "UISpec_copy X = generatedCopy (copyStruct [
      (''Replicas'', newCopy), (''Ingress'', newDeep (UIIngressSpec_copy X DeepCopyInto)),
      (''Auth'', newDeep (UIAuthSpec_copy X DeepCopyInto)), (''CodecServer'', newCopy)])"

lemma copies_UISpec [copies]:
  assumes "externs E X"
  shows "copiesDeep (UISpec_type E) (UISpec_copy X DeepCopyInto)"
  unfolding UISpec_type_def UISpec_copy_def generatedCopy.simps
  by (rule copiesDeep_struct) (use assms in \<open>simp add: fieldCopier_def copies\<close>)

definition WorkflowRunPolicy_type :: "(string \<Rightarrow> gotype) \<Rightarrow> gotype" where
  "WorkflowRunPolicy_type E = TStruct [
      (''Enabled'', TFlat), (''AllowedNamespaces'', TSlice TFlat), (''AllowedTaskQueues'', TSlice TFlat)]"

definition WorkflowRunPolicy_copy :: "(string \<Rightarrow> copier) \<Rightarrow> copyMethod \<Rightarrow> copier" where
  "WorkflowRunPolicy_copy X = generatedCopy (copyStruct [
      (''AllowedNamespaces'', sliceCopy), (''AllowedTaskQueues'', sliceCopy)])"

lemma copies_WorkflowRunPolicy [copies]:
  assumes "externs E X"
  shows "copiesDeep (WorkflowRunPolicy_type E) (WorkflowRunPolicy_copy X DeepCopyInto)"
  unfolding WorkflowRunPolicy_type_def WorkflowRunPolicy_copy_def generatedCopy.simps
  by (rule copiesDeep_struct) (use assms in \<open>simp add: fieldCopier_def copies\<close>)

definition TemporalClusterSpec_type :: "(string \<Rightarrow> gotype) \<Rightarrow> gotype" where
  "TemporalClusterSpec_type E = TStruct [
      (''Version'', TFlat), (''NumHistoryShards'', TFlat), (''Image'', TFlat),
      (''ImagePullSecrets'', TSlice (E ''corev1.LocalObjectReference'')),
      (''Services'', ServicesSpec_type E), (''Persistence'', PersistenceSpec_type E),
      (''MTLS'', TPtr (MTLSSpec_type E)), (''DynamicConfig'', TPtr (DynamicConfigSpec_type E)),
      (''UI'', TPtr (UISpec_type E)), (''Metrics'', TPtr (MetricsSpec_type E)),
      (''Archival'', TPtr (ArchivalSpec_type E)), (''Authorization'', TPtr (AuthorizationSpec_type E)),
      (''ClusterMetadata'', TPtr (ClusterMetadataSpec_type E)), (''PreventDeletion'', TFlat),
      (''WorkflowRunPolicy'', TPtr (WorkflowRunPolicy_type E))]"

definition TemporalClusterSpec_copy :: "(string \<Rightarrow> copier) \<Rightarrow> copyMethod \<Rightarrow> copier" where
  "TemporalClusterSpec_copy X = generatedCopy (copyStruct [
      (''ImagePullSecrets'', sliceCopy), (''Services'', deepInto (ServicesSpec_copy X DeepCopyInto)),
      (''Persistence'', deepInto (PersistenceSpec_copy X DeepCopyInto)),
      (''MTLS'', newDeep (MTLSSpec_copy X DeepCopyInto)),
      (''DynamicConfig'', newDeep (DynamicConfigSpec_copy X DeepCopyInto)),
      (''UI'', newDeep (UISpec_copy X DeepCopyInto)),
      (''Metrics'', newDeep (MetricsSpec_copy X DeepCopyInto)),
      (''Archival'', newDeep (ArchivalSpec_copy X DeepCopyInto)),
      (''Authorization'', newDeep (AuthorizationSpec_copy X DeepCopyInto)),
      (''ClusterMetadata'', newDeep (ClusterMetadataSpec_copy X DeepCopyInto)),
      (''WorkflowRunPolicy'', newDeep (WorkflowRunPolicy_copy X DeepCopyInto))])"

lemma copies_TemporalClusterSpec [copies]:
  assumes "externs E X"
  shows "copiesDeep (TemporalClusterSpec_type E) (TemporalClusterSpec_copy X DeepCopyInto)"
  unfolding TemporalClusterSpec_type_def TemporalClusterSpec_copy_def generatedCopy.simps
  by (rule copiesDeep_struct) (use assms in \<open>simp add: fieldCopier_def copies\<close>)

definition UpgradeStatus_type :: "(string \<Rightarrow> gotype) \<Rightarrow> gotype" where
  "UpgradeStatus_type E = TStruct [
      (''FromVersion'', TFlat), (''ToVersion'', TFlat), (''Phase'', TFlat), (''Rollbackable'', TFlat),
      (''StartedAt'', TPtr (E ''v1.Time''))]"

definition UpgradeStatus_copy :: "(string \<Rightarrow> copier) \<Rightarrow> copyMethod \<Rightarrow> copier" where
  "UpgradeStatus_copy X = generatedCopy (copyStruct [
      (''StartedAt'', newDeep (X ''v1.Time''))])"

lemma copies_UpgradeStatus [copies]:
  assumes "externs E X"
  shows "copiesDeep (UpgradeStatus_type E) (UpgradeStatus_copy X DeepCopyInto)"
  unfolding UpgradeStatus_type_def UpgradeStatus_copy_def generatedCopy.simps
  by (rule copiesDeep_struct) (use assms in \<open>simp add: fieldCopier_def copies\<close>)

definition TemporalClusterStatus_type :: "(string \<Rightarrow> gotype) \<Rightarrow> gotype" where
  "TemporalClusterStatus_type E = TStruct [
      (''Phase'', TFlat), (''ObservedGeneration'', TFlat), (''Conditions'', TSlice (E ''v1.Condition'')),
      (''Version'', TFlat), (''NumHistoryShards'', TFlat), (''Services'', TMap (ServiceStatus_type E)),
      (''Persistence'', PersistenceStatus_type E), (''Endpoints'', EndpointsStatus_type E),
      (''Upgrade'', TPtr (UpgradeStatus_type E))]"

definition TemporalClusterStatus_copy :: "(string \<Rightarrow> copier) \<Rightarrow> copyMethod \<Rightarrow> copier" where
  "TemporalClusterStatus_copy X = generatedCopy (copyStruct [
      (''Conditions'', sliceDeep (X ''v1.Condition'')), (''Services'', mapCopy),
      (''Persistence'', deepInto (PersistenceStatus_copy X DeepCopyInto)), (''Endpoints'', assign),
      (''Upgrade'', newDeep (UpgradeStatus_copy X DeepCopyInto))])"

lemma copies_TemporalClusterStatus [copies]:
  assumes "externs E X"
  shows "copiesDeep (TemporalClusterStatus_type E) (TemporalClusterStatus_copy X DeepCopyInto)"
  unfolding TemporalClusterStatus_type_def TemporalClusterStatus_copy_def generatedCopy.simps
  by (rule copiesDeep_struct) (use assms in \<open>simp add: fieldCopier_def copies\<close>)

definition TemporalCluster_type :: "(string \<Rightarrow> gotype) \<Rightarrow> gotype" where
  "TemporalCluster_type E = TStruct [
      (''TypeMeta'', E ''v1.TypeMeta''), (''ObjectMeta'', E ''v1.ObjectMeta''),
      (''Spec'', TemporalClusterSpec_type E), (''Status'', TemporalClusterStatus_type E)]"

definition TemporalCluster_copy :: "(string \<Rightarrow> copier) \<Rightarrow> copyMethod \<Rightarrow> copier" where
  "TemporalCluster_copy X = generatedCopy (copyStruct [
      (''TypeMeta'', assign), (''ObjectMeta'', deepInto (X ''v1.ObjectMeta'')),
      (''Spec'', deepInto (TemporalClusterSpec_copy X DeepCopyInto)),
      (''Status'', deepInto (TemporalClusterStatus_copy X DeepCopyInto))])"

lemma copies_TemporalCluster [copies]:
  assumes "externs E X"
  shows "copiesDeep (TemporalCluster_type E) (TemporalCluster_copy X DeepCopyInto)"
  unfolding TemporalCluster_type_def TemporalCluster_copy_def generatedCopy.simps
  by (rule copiesDeep_struct) (use assms in \<open>simp add: fieldCopier_def copies\<close>)

definition TemporalClusterClientSpec_type :: "(string \<Rightarrow> gotype) \<Rightarrow> gotype" where
  "TemporalClusterClientSpec_type E = TStruct [
      (''ClusterRef'', ClusterReference_type E), (''SecretName'', TFlat)]"

definition TemporalClusterClientSpec_copy :: "(string \<Rightarrow> copier) \<Rightarrow> copyMethod \<Rightarrow> copier" where
  "TemporalClusterClientSpec_copy X = generatedCopy (copyStruct [
      (''ClusterRef'', assign)])"

lemma flat_TemporalClusterClientSpec [copies]: "externs E X \<Longrightarrow> flatType (TemporalClusterClientSpec_type E)"
  by (simp add: TemporalClusterClientSpec_type_def copies)

lemma copies_TemporalClusterClientSpec [copies]:
  assumes "externs E X"
  shows "copiesDeep (TemporalClusterClientSpec_type E) (TemporalClusterClientSpec_copy X DeepCopyInto)"
  unfolding TemporalClusterClientSpec_type_def TemporalClusterClientSpec_copy_def generatedCopy.simps
  by (rule copiesDeep_struct) (use assms in \<open>simp add: fieldCopier_def copies\<close>)

definition TemporalClusterClientStatus_type :: "(string \<Rightarrow> gotype) \<Rightarrow> gotype" where
  "TemporalClusterClientStatus_type E = TStruct [
      (''ObservedGeneration'', TFlat), (''SecretRef'', TPtr (E ''corev1.LocalObjectReference'')),
      (''Conditions'', TSlice (E ''v1.Condition''))]"

definition TemporalClusterClientStatus_copy :: "(string \<Rightarrow> copier) \<Rightarrow> copyMethod \<Rightarrow> copier" where
  "TemporalClusterClientStatus_copy X = generatedCopy (copyStruct [
      (''SecretRef'', newCopy), (''Conditions'', sliceDeep (X ''v1.Condition''))])"

lemma copies_TemporalClusterClientStatus [copies]:
  assumes "externs E X"
  shows "copiesDeep (TemporalClusterClientStatus_type E) (TemporalClusterClientStatus_copy X DeepCopyInto)"
  unfolding TemporalClusterClientStatus_type_def TemporalClusterClientStatus_copy_def generatedCopy.simps
  by (rule copiesDeep_struct) (use assms in \<open>simp add: fieldCopier_def copies\<close>)

definition TemporalClusterClient_type :: "(string \<Rightarrow> gotype) \<Rightarrow> gotype" where
  "TemporalClusterClient_type E = TStruct [
      (''TypeMeta'', E ''v1.TypeMeta''), (''ObjectMeta'', E ''v1.ObjectMeta''),
      (''Spec'', TemporalClusterClientSpec_type E), (''Status'', TemporalClusterClientStatus_type E)]"

definition TemporalClusterClient_copy :: "(string \<Rightarrow> copier) \<Rightarrow> copyMethod \<Rightarrow> copier" where
  "TemporalClusterClient_copy X = generatedCopy (copyStruct [
      (''TypeMeta'', assign), (''ObjectMeta'', deepInto (X ''v1.ObjectMeta'')), (''Spec'', assign),
      (''Status'', deepInto (TemporalClusterClientStatus_copy X DeepCopyInto))])"

lemma copies_TemporalClusterClient [copies]:
  assumes "externs E X"
  shows "copiesDeep (TemporalClusterClient_type E) (TemporalClusterClient_copy X DeepCopyInto)"
  unfolding TemporalClusterClient_type_def TemporalClusterClient_copy_def generatedCopy.simps
  by (rule copiesDeep_struct) (use assms in \<open>simp add: fieldCopier_def copies\<close>)

definition TemporalClusterClientList_type :: "(string \<Rightarrow> gotype) \<Rightarrow> gotype" where
  "TemporalClusterClientList_type E = TStruct [
      (''TypeMeta'', E ''v1.TypeMeta''), (''ListMeta'', E ''v1.ListMeta''),
      (''Items'', TSlice (TemporalClusterClient_type E))]"

definition TemporalClusterClientList_copy :: "(string \<Rightarrow> copier) \<Rightarrow> copyMethod \<Rightarrow> copier" where
  "TemporalClusterClientList_copy X = generatedCopy (copyStruct [
      (''TypeMeta'', assign), (''ListMeta'', deepInto (X ''v1.ListMeta'')),
      (''Items'', sliceDeep (TemporalClusterClient_copy X DeepCopyInto))])"

lemma copies_TemporalClusterClientList [copies]:
  assumes "externs E X"
  shows "copiesDeep (TemporalClusterClientList_type E) (TemporalClusterClientList_copy X DeepCopyInto)"
  unfolding TemporalClusterClientList_type_def TemporalClusterClientList_copy_def generatedCopy.simps
  by (rule copiesDeep_struct) (use assms in \<open>simp add: fieldCopier_def copies\<close>)

definition TemporalClusterConnectionSpec_type :: "(string \<Rightarrow> gotype) \<Rightarrow> gotype" where
  "TemporalClusterConnectionSpec_type E = TStruct [
      (''Peers'', TSlice (ClusterConnectionPeer_type E))]"

definition TemporalClusterConnectionSpec_copy :: "(string \<Rightarrow> copier) \<Rightarrow> copyMethod \<Rightarrow> copier" where
  "TemporalClusterConnectionSpec_copy X = generatedCopy (copyStruct [
      (''Peers'', sliceDeep (ClusterConnectionPeer_copy X DeepCopyInto))])"

lemma copies_TemporalClusterConnectionSpec [copies]:
  assumes "externs E X"
  shows "copiesDeep (TemporalClusterConnectionSpec_type E) (TemporalClusterConnectionSpec_copy X DeepCopyInto)"
  unfolding TemporalClusterConnectionSpec_type_def TemporalClusterConnectionSpec_copy_def generatedCopy.simps
  by (rule copiesDeep_struct) (use assms in \<open>simp add: fieldCopier_def copies\<close>)

definition TemporalClusterConnectionStatus_type :: "(string \<Rightarrow> gotype) \<Rightarrow> gotype" where
  "TemporalClusterConnectionStatus_type E = TStruct [
      (''ObservedGeneration'', TFlat), (''Peers'', TSlice (PeerConnectionStatus_type E)),
      (''Conditions'', TSlice (E ''v1.Condition''))]"

definition TemporalClusterConnectionStatus_copy :: "(string \<Rightarrow> copier) \<Rightarrow> copyMethod \<Rightarrow> copier" where
  "TemporalClusterConnectionStatus_copy X = generatedCopy (copyStruct [
      (''Peers'', sliceCopy), (''Conditions'', sliceDeep (X ''v1.Condition''))])"

lemma copies_TemporalClusterConnectionStatus [copies]:
  assumes "externs E X"
  shows "copiesDeep (TemporalClusterConnectionStatus_type E) (TemporalClusterConnectionStatus_copy X DeepCopyInto)"
  unfolding TemporalClusterConnectionStatus_type_def TemporalClusterConnectionStatus_copy_def generatedCopy.simps
  by (rule copiesDeep_struct) (use assms in \<open>simp add: fieldCopier_def copies\<close>)

definition TemporalClusterConnection_type :: "(string \<Rightarrow> gotype) \<Rightarrow> gotype" where
  "TemporalClusterConnection_type E = TStruct [
      (''TypeMeta'', E ''v1.TypeMeta''), (''ObjectMeta'', E ''v1.ObjectMeta''),
      (''Spec'', TemporalClusterConnectionSpec_type E), (''Status'', TemporalClusterConnectionStatus_type E)]"

definition TemporalClusterConnection_copy :: "(string \<Rightarrow> copier) \<Rightarrow> copyMethod \<Rightarrow> copier" where
  "TemporalClusterConnection_copy X = generatedCopy (copyStruct [
      (''TypeMeta'', assign), (''ObjectMeta'', deepInto (X ''v1.ObjectMeta'')),
      (''Spec'', deepInto (TemporalClusterConnectionSpec_copy X DeepCopyInto)),
      (''Status'', deepInto (TemporalClusterConnectionStatus_copy X DeepCopyInto))])"

lemma copies_TemporalClusterConnection [copies]:
  assumes "externs E X"
  shows "copiesDeep (TemporalClusterConnection_type E) (TemporalClusterConnection_copy X DeepCopyInto)"
  unfolding TemporalClusterConnection_type_def TemporalClusterConnection_copy_def generatedCopy.simps
  by (rule copiesDeep_struct) (use assms in \<open>simp add: fieldCopier_def copies\<close>)

definition TemporalClusterConnectionList_type :: "(string \<Rightarrow> gotype) \<Rightarrow> gotype" where
  "TemporalClusterConnectionList_type E = TStruct [
      (''TypeMeta'', E ''v1.TypeMeta''), (''ListMeta'', E ''v1.ListMeta''),
      (''Items'', TSlice (TemporalClusterConnection_type E))]"

definition TemporalClusterConnectionList_copy :: "(string \<Rightarrow> copier) \<Rightarrow> copyMethod \<Rightarrow> copier" where
  "TemporalClusterConnectionList_copy X = generatedCopy (copyStruct [
      (''TypeMeta'', assign), (''ListMeta'', deepInto (X ''v1.ListMeta'')),
      (''Items'', sliceDeep (TemporalClusterConnection_copy X DeepCopyInto))])"

lemma copies_TemporalClusterConnectionList [copies]:
  assumes "externs E X"
  shows "copiesDeep (TemporalClusterConnectionList_type E) (TemporalClusterConnectionList_copy X DeepCopyInto)"
  unfolding TemporalClusterConnectionList_type_def TemporalClusterConnectionList_copy_def generatedCopy.simps
  by (rule copiesDeep_struct) (use assms in \<open>simp add: fieldCopier_def copies\<close>)

definition TemporalClusterList_type :: "(string \<Rightarrow> gotype) \<Rightarrow> gotype" where
  "TemporalClusterList_type E = TStruct [
      (''TypeMeta'', E ''v1.TypeMeta''), (''ListMeta'', E ''v1.ListMeta''),
      (''Items'', TSlice (TemporalCluster_type E))]"

definition TemporalClusterList_copy :: "(string \<Rightarrow> copier) \<Rightarrow> copyMethod \<Rightarrow> copier" where
  "TemporalClusterList_copy X = generatedCopy (copyStruct [
      (''TypeMeta'', assign), (''ListMeta'', deepInto (X ''v1.ListMeta'')),
      (''Items'', sliceDeep (TemporalCluster_copy X DeepCopyInto))])"

lemma copies_TemporalClusterList [copies]:
  assumes "externs E X"
  shows "copiesDeep (TemporalClusterList_type E) (TemporalClusterList_copy X DeepCopyInto)"
  unfolding TemporalClusterList_type_def TemporalClusterList_copy_def generatedCopy.simps
  by (rule copiesDeep_struct) (use assms in \<open>simp add: fieldCopier_def copies\<close>)

definition TemporalDevServerSpec_type :: "(string \<Rightarrow> gotype) \<Rightarrow> gotype" where
  "TemporalDevServerSpec_type E = TStruct [
      (''Version'', TFlat), (''Image'', TFlat),
      (''ImagePullSecrets'', TSlice (E ''corev1.LocalObjectReference'')), (''Namespaces'', TSlice TFlat),
      (''UI'', TPtr (DevServerUISpec_type E)), (''Storage'', TPtr (DevServerStorageSpec_type E)),
      (''Service'', TPtr (ServiceExposureSpec_type E)), (''Resources'', E ''corev1.ResourceRequirements''),
      (''NodeSelector'', TMap TFlat), (''Tolerations'', TSlice (E ''corev1.Toleration'')),
      (''Affinity'', TPtr (E ''corev1.Affinity'')), (''WorkflowRunPolicy'', TPtr (WorkflowRunPolicy_type E))]"

definition TemporalDevServerSpec_copy :: "(string \<Rightarrow> copier) \<Rightarrow> copyMethod \<Rightarrow> copier" where
  "TemporalDevServerSpec_copy X = generatedCopy (copyStruct [
      (''ImagePullSecrets'', sliceCopy), (''Namespaces'', sliceCopy), (''UI'', newCopy),
      (''Storage'', newDeep (DevServerStorageSpec_copy X DeepCopyInto)),
      (''Service'', newDeep (ServiceExposureSpec_copy X DeepCopyInto)),
      (''Resources'', deepInto (X ''corev1.ResourceRequirements'')), (''NodeSelector'', mapCopy),
      (''Tolerations'', sliceDeep (X ''corev1.Toleration'')),
      (''Affinity'', newDeep (X ''corev1.Affinity'')),
      (''WorkflowRunPolicy'', newDeep (WorkflowRunPolicy_copy X DeepCopyInto))])"

lemma copies_TemporalDevServerSpec [copies]:
  assumes "externs E X"
  shows "copiesDeep (TemporalDevServerSpec_type E) (TemporalDevServerSpec_copy X DeepCopyInto)"
  unfolding TemporalDevServerSpec_type_def TemporalDevServerSpec_copy_def generatedCopy.simps
  by (rule copiesDeep_struct) (use assms in \<open>simp add: fieldCopier_def copies\<close>)

definition TemporalDevServerStatus_type :: "(string \<Rightarrow> gotype) \<Rightarrow> gotype" where
  "TemporalDevServerStatus_type E = TStruct [
      (''Phase'', TFlat), (''ObservedGeneration'', TFlat), (''Conditions'', TSlice (E ''v1.Condition'')),
      (''Endpoints'', DevServerEndpoints_type E), (''Version'', TFlat)]"

definition TemporalDevServerStatus_copy :: "(string \<Rightarrow> copier) \<Rightarrow> copyMethod \<Rightarrow> copier" where
  "TemporalDevServerStatus_copy X = generatedCopy (copyStruct [
      (''Conditions'', sliceDeep (X ''v1.Condition'')), (''Endpoints'', assign)])"

lemma copies_TemporalDevServerStatus [copies]:
  assumes "externs E X"
  shows "copiesDeep (TemporalDevServerStatus_type E) (TemporalDevServerStatus_copy X DeepCopyInto)"
  unfolding TemporalDevServerStatus_type_def TemporalDevServerStatus_copy_def generatedCopy.simps
  by (rule copiesDeep_struct) (use assms in \<open>simp add: fieldCopier_def copies\<close>)

definition TemporalDevServer_type :: "(string \<Rightarrow> gotype) \<Rightarrow> gotype" where
  "TemporalDevServer_type E = TStruct [
      (''TypeMeta'', E ''v1.TypeMeta''), (''ObjectMeta'', E ''v1.ObjectMeta''),
      (''Spec'', TemporalDevServerSpec_type E), (''Status'', TemporalDevServerStatus_type E)]"

definition TemporalDevServer_copy :: "(string \<Rightarrow> copier) \<Rightarrow> copyMethod \<Rightarrow> copier" where
  "TemporalDevServer_copy X = generatedCopy (copyStruct [
      (''TypeMeta'', assign), (''ObjectMeta'', deepInto (X ''v1.ObjectMeta'')),
      (''Spec'', deepInto (TemporalDevServerSpec_copy X DeepCopyInto)),
      (''Status'', deepInto (TemporalDevServerStatus_copy X DeepCopyInto))])"

lemma copies_TemporalDevServer [copies]:
  assumes "externs E X"
  shows "copiesDeep (TemporalDevServer_type E) (TemporalDevServer_copy X DeepCopyInto)"
  unfolding TemporalDevServer_type_def TemporalDevServer_copy_def generatedCopy.simps
  by (rule copiesDeep_struct) (use assms in \<open>simp add: fieldCopier_def copies\<close>)

definition TemporalDevServerList_type :: "(string \<Rightarrow> gotype) \<Rightarrow> gotype" where
  "TemporalDevServerList_type E = TStruct [
      (''TypeMeta'', E ''v1.TypeMeta''), (''ListMeta'', E ''v1.ListMeta''),
      (''Items'', TSlice (TemporalDevServer_type E))]"

definition TemporalDevServerList_copy :: "(string \<Rightarrow> copier) \<Rightarrow> copyMethod \<Rightarrow> copier" where
  "TemporalDevServerList_copy X = generatedCopy (copyStruct [
      (''TypeMeta'', assign), (''ListMeta'', deepInto (X ''v1.ListMeta'')),
      (''Items'', sliceDeep (TemporalDevServer_copy X DeepCopyInto))])"

lemma copies_TemporalDevServerList [copies]:
  assumes "externs E X"
  shows "copiesDeep (TemporalDevServerList_type E) (TemporalDevServerList_copy X DeepCopyInto)"
  unfolding TemporalDevServerList_type_def TemporalDevServerList_copy_def generatedCopy.simps
  by (rule copiesDeep_struct) (use assms in \<open>simp add: fieldCopier_def copies\<close>)

definition TemporalNamespaceSpec_type :: "(string \<Rightarrow> gotype) \<Rightarrow> gotype" where
  "TemporalNamespaceSpec_type E = TStruct [
      (''ClusterRef'', ClusterReference_type E), (''RetentionPeriod'', TPtr (E ''v1.Duration'')),
      (''Description'', TFlat), (''OwnerEmail'', TFlat), (''AllowDeletion'', TFlat),
      (''DriftDetection'', TFlat), (''IsGlobal'', TFlat), (''Clusters'', TSlice TFlat),
      (''ActiveCluster'', TFlat)]"

definition TemporalNamespaceSpec_copy :: "(string \<Rightarrow> copier) \<Rightarrow> copyMethod \<Rightarrow> copier" where
  "TemporalNamespaceSpec_copy X = generatedCopy (copyStruct [
      (''ClusterRef'', assign), (''RetentionPeriod'', newCopy), (''Clusters'', sliceCopy)])"

lemma copies_TemporalNamespaceSpec [copies]:
  assumes "externs E X"
  shows "copiesDeep (TemporalNamespaceSpec_type E) (TemporalNamespaceSpec_copy X DeepCopyInto)"
  unfolding TemporalNamespaceSpec_type_def TemporalNamespaceSpec_copy_def generatedCopy.simps
  by (rule copiesDeep_struct) (use assms in \<open>simp add: fieldCopier_def copies\<close>)

definition TemporalNamespaceStatus_type :: "(string \<Rightarrow> gotype) \<Rightarrow> gotype" where
  "TemporalNamespaceStatus_type E = TStruct [
      (''ObservedGeneration'', TFlat), (''Registered'', TFlat), (''NamespaceID'', TFlat),
      (''LastUpdated'', TPtr (E ''v1.Time'')), (''Conditions'', TSlice (E ''v1.Condition'')),
      (''Replication'', TPtr (NamespaceReplicationStatus_type E))]"

definition TemporalNamespaceStatus_copy :: "(string \<Rightarrow> copier) \<Rightarrow> copyMethod \<Rightarrow> copier" where
  "TemporalNamespaceStatus_copy X = generatedCopy (copyStruct [
      (''LastUpdated'', newDeep (X ''v1.Time'')), (''Conditions'', sliceDeep (X ''v1.Condition'')),
      (''Replication'', newDeep (NamespaceReplicationStatus_copy X DeepCopyInto))])"

lemma copies_TemporalNamespaceStatus [copies]:
  assumes "externs E X"
  shows "copiesDeep (TemporalNamespaceStatus_type E) (TemporalNamespaceStatus_copy X DeepCopyInto)"
  unfolding TemporalNamespaceStatus_type_def TemporalNamespaceStatus_copy_def generatedCopy.simps
  by (rule copiesDeep_struct) (use assms in \<open>simp add: fieldCopier_def copies\<close>)

definition TemporalNamespace_type :: "(string \<Rightarrow> gotype) \<Rightarrow> gotype" where
  "TemporalNamespace_type E = TStruct [
      (''TypeMeta'', E ''v1.TypeMeta''), (''ObjectMeta'', E ''v1.ObjectMeta''),
      (''Spec'', TemporalNamespaceSpec_type E), (''Status'', TemporalNamespaceStatus_type E)]"

definition TemporalNamespace_copy :: "(string \<Rightarrow> copier) \<Rightarrow> copyMethod \<Rightarrow> copier" where
  "TemporalNamespace_copy X = generatedCopy (copyStruct [
      (''TypeMeta'', assign), (''ObjectMeta'', deepInto (X ''v1.ObjectMeta'')),
      (''Spec'', deepInto (TemporalNamespaceSpec_copy X DeepCopyInto)),
      (''Status'', deepInto (TemporalNamespaceStatus_copy X DeepCopyInto))])"

lemma copies_TemporalNamespace [copies]:
  assumes "externs E X"
  shows "copiesDeep (TemporalNamespace_type E) (TemporalNamespace_copy X DeepCopyInto)"
  unfolding TemporalNamespace_type_def TemporalNamespace_copy_def generatedCopy.simps
  by (rule copiesDeep_struct) (use assms in \<open>simp add: fieldCopier_def copies\<close>)

definition TemporalNamespaceList_type :: "(string \<Rightarrow> gotype) \<Rightarrow> gotype" where
  "TemporalNamespaceList_type E = TStruct [
      (''TypeMeta'', E ''v1.TypeMeta''), (''ListMeta'', E ''v1.ListMeta''),
      (''Items'', TSlice (TemporalNamespace_type E))]"

definition TemporalNamespaceList_copy :: "(string \<Rightarrow> copier) \<Rightarrow> copyMethod \<Rightarrow> copier" where
  "TemporalNamespaceList_copy X = generatedCopy (copyStruct [
      (''TypeMeta'', assign), (''ListMeta'', deepInto (X ''v1.ListMeta'')),
      (''Items'', sliceDeep (TemporalNamespace_copy X DeepCopyInto))])"

lemma copies_TemporalNamespaceList [copies]:
  assumes "externs E X"
  shows "copiesDeep (TemporalNamespaceList_type E) (TemporalNamespaceList_copy X DeepCopyInto)"
  unfolding TemporalNamespaceList_type_def TemporalNamespaceList_copy_def generatedCopy.simps
  by (rule copiesDeep_struct) (use assms in \<open>simp add: fieldCopier_def copies\<close>)

definition TemporalScheduleSpec_type :: "(string \<Rightarrow> gotype) \<Rightarrow> gotype" where
  "TemporalScheduleSpec_type E = TStruct [
      (''ClusterRef'', ClusterReference_type E), (''Namespace'', TFlat), (''ScheduleID'', TFlat),
      (''AllowDeletion'', TFlat), (''Schedule'', ScheduleSpec_type E),
      (''Action'', ScheduleActionSpec_type E), (''Policies'', TPtr (SchedulePoliciesSpec_type E)),
      (''State'', TPtr (ScheduleStateSpec_type E))]"

definition TemporalScheduleSpec_copy :: "(string \<Rightarrow> copier) \<Rightarrow> copyMethod \<Rightarrow> copier" where
  "TemporalScheduleSpec_copy X = generatedCopy (copyStruct [
      (''ClusterRef'', assign), (''Schedule'', deepInto (ScheduleSpec_copy X DeepCopyInto)),
      (''Action'', deepInto (ScheduleActionSpec_copy X DeepCopyInto)),
      (''Policies'', newDeep (SchedulePoliciesSpec_copy X DeepCopyInto)), (''State'', newCopy)])"

lemma copies_TemporalScheduleSpec [copies]:
  assumes "externs E X"
  shows "copiesDeep (TemporalScheduleSpec_type E) (TemporalScheduleSpec_copy X DeepCopyInto)"
  unfolding TemporalScheduleSpec_type_def TemporalScheduleSpec_copy_def generatedCopy.simps
  by (rule copiesDeep_struct) (use assms in \<open>simp add: fieldCopier_def copies\<close>)

definition TemporalScheduleStatus_type :: "(string \<Rightarrow> gotype) \<Rightarrow> gotype" where
  "TemporalScheduleStatus_type E = TStruct [
      (''ObservedGeneration'', TFlat), (''ScheduleID'', TFlat), (''Created'', TFlat), (''Paused'', TFlat),
      (''Notes'', TFlat), (''LastAppliedSpecHash'', TFlat), (''NextActionTimes'', TSlice (E ''v1.Time'')),
      (''RunningWorkflows'', TFlat), (''LastUpdated'', TPtr (E ''v1.Time'')),
      (''Conditions'', TSlice (E ''v1.Condition''))]"

definition TemporalScheduleStatus_copy :: "(string \<Rightarrow> copier) \<Rightarrow> copyMethod \<Rightarrow> copier" where
  "TemporalScheduleStatus_copy X = generatedCopy (copyStruct [
      (''NextActionTimes'', sliceDeep (X ''v1.Time'')), (''LastUpdated'', newDeep (X ''v1.Time'')),
      (''Conditions'', sliceDeep (X ''v1.Condition''))])"

lemma copies_TemporalScheduleStatus [copies]:
  assumes "externs E X"
  shows "copiesDeep (TemporalScheduleStatus_type E) (TemporalScheduleStatus_copy X DeepCopyInto)"
  unfolding TemporalScheduleStatus_type_def TemporalScheduleStatus_copy_def generatedCopy.simps
  by (rule copiesDeep_struct) (use assms in \<open>simp add: fieldCopier_def copies\<close>)

definition TemporalSchedule_type :: "(string \<Rightarrow> gotype) \<Rightarrow> gotype" where
  "TemporalSchedule_type E = TStruct [
      (''TypeMeta'', E ''v1.TypeMeta''), (''ObjectMeta'', E ''v1.ObjectMeta''),
      (''Spec'', TemporalScheduleSpec_type E), (''Status'', TemporalScheduleStatus_type E)]"

definition TemporalSchedule_copy :: "(string \<Rightarrow> copier) \<Rightarrow> copyMethod \<Rightarrow> copier" where
  "TemporalSchedule_copy X = generatedCopy (copyStruct [
      (''TypeMeta'', assign), (''ObjectMeta'', deepInto (X ''v1.ObjectMeta'')),
      (''Spec'', deepInto (TemporalScheduleSpec_copy X DeepCopyInto)),
      (''Status'', deepInto (TemporalScheduleStatus_copy X DeepCopyInto))])"

lemma copies_TemporalSchedule [copies]:
  assumes "externs E X"
  shows "copiesDeep (TemporalSchedule_type E) (TemporalSchedule_copy X DeepCopyInto)"
  unfolding TemporalSchedule_type_def TemporalSchedule_copy_def generatedCopy.simps
  by (rule copiesDeep_struct) (use assms in \<open>simp add: fieldCopier_def copies\<close>)

definition TemporalScheduleList_type :: "(string \<Rightarrow> gotype) \<Rightarrow> gotype" where
  "TemporalScheduleList_type E = TStruct [
      (''TypeMeta'', E ''v1.TypeMeta''), (''ListMeta'', E ''v1.ListMeta''),
      (''Items'', TSlice (TemporalSchedule_type E))]"

definition TemporalScheduleList_copy :: "(string \<Rightarrow> copier) \<Rightarrow> copyMethod \<Rightarrow> copier" where
  "TemporalScheduleList_copy X = generatedCopy (copyStruct [
      (''TypeMeta'', assign), (''ListMeta'', deepInto (X ''v1.ListMeta'')),
      (''Items'', sliceDeep (TemporalSchedule_copy X DeepCopyInto))])"

lemma copies_TemporalScheduleList [copies]:
  assumes "externs E X"
  shows "copiesDeep (TemporalScheduleList_type E) (TemporalScheduleList_copy X DeepCopyInto)"
  unfolding TemporalScheduleList_type_def TemporalScheduleList_copy_def generatedCopy.simps
  by (rule copiesDeep_struct) (use assms in \<open>simp add: fieldCopier_def copies\<close>)

definition TemporalSearchAttributeSpec_type :: "(string \<Rightarrow> gotype) \<Rightarrow> gotype" where
  "TemporalSearchAttributeSpec_type E = TStruct [
      (''ClusterRef'', ClusterReference_type E), (''Namespace'', TFlat), (''Name'', TFlat),
      (''Type'', TFlat), (''AllowDeletion'', TFlat)]"

definition TemporalSearchAttributeSpec_copy :: "(string \<Rightarrow> copier) \<Rightarrow> copyMethod \<Rightarrow> copier" where
  "TemporalSearchAttributeSpec_copy X = generatedCopy (copyStruct [
      (''ClusterRef'', assign)])"

lemma flat_TemporalSearchAttributeSpec [copies]: "externs E X \<Longrightarrow> flatType (TemporalSearchAttributeSpec_type E)"
  by (simp add: TemporalSearchAttributeSpec_type_def copies)

lemma copies_TemporalSearchAttributeSpec [copies]:
  assumes "externs E X"
  shows "copiesDeep (TemporalSearchAttributeSpec_type E) (TemporalSearchAttributeSpec_copy X DeepCopyInto)"
  unfolding TemporalSearchAttributeSpec_type_def TemporalSearchAttributeSpec_copy_def generatedCopy.simps
  by (rule copiesDeep_struct) (use assms in \<open>simp add: fieldCopier_def copies\<close>)

definition TemporalSearchAttributeStatus_type :: "(string \<Rightarrow> gotype) \<Rightarrow> gotype" where
  "TemporalSearchAttributeStatus_type E = TStruct [
      (''ObservedGeneration'', TFlat), (''Registered'', TFlat), (''RegisteredAt'', TPtr (E ''v1.Time'')),
      (''Conditions'', TSlice (E ''v1.Condition''))]"

definition TemporalSearchAttributeStatus_copy :: "(string \<Rightarrow> copier) \<Rightarrow> copyMethod \<Rightarrow> copier" where
  "TemporalSearchAttributeStatus_copy X = generatedCopy (copyStruct [
      (''RegisteredAt'', newDeep (X ''v1.Time'')), (''Conditions'', sliceDeep (X ''v1.Condition''))])"

lemma copies_TemporalSearchAttributeStatus [copies]:
  assumes "externs E X"
  shows "copiesDeep (TemporalSearchAttributeStatus_type E) (TemporalSearchAttributeStatus_copy X DeepCopyInto)"
  unfolding TemporalSearchAttributeStatus_type_def TemporalSearchAttributeStatus_copy_def generatedCopy.simps
  by (rule copiesDeep_struct) (use assms in \<open>simp add: fieldCopier_def copies\<close>)

definition TemporalSearchAttribute_type :: "(string \<Rightarrow> gotype) \<Rightarrow> gotype" where
  "TemporalSearchAttribute_type E = TStruct [
      (''TypeMeta'', E ''v1.TypeMeta''), (''ObjectMeta'', E ''v1.ObjectMeta''),
      (''Spec'', TemporalSearchAttributeSpec_type E), (''Status'', TemporalSearchAttributeStatus_type E)]"

definition TemporalSearchAttribute_copy :: "(string \<Rightarrow> copier) \<Rightarrow> copyMethod \<Rightarrow> copier" where
  "TemporalSearchAttribute_copy X = generatedCopy (copyStruct [
      (''TypeMeta'', assign), (''ObjectMeta'', deepInto (X ''v1.ObjectMeta'')), (''Spec'', assign),
      (''Status'', deepInto (TemporalSearchAttributeStatus_copy X DeepCopyInto))])"

lemma copies_TemporalSearchAttribute [copies]:
  assumes "externs E X"
  shows "copiesDeep (TemporalSearchAttribute_type E) (TemporalSearchAttribute_copy X DeepCopyInto)"
  unfolding TemporalSearchAttribute_type_def TemporalSearchAttribute_copy_def generatedCopy.simps
  by (rule copiesDeep_struct) (use assms in \<open>simp add: fieldCopier_def copies\<close>)

definition TemporalSearchAttributeList_type :: "(string \<Rightarrow> gotype) \<Rightarrow> gotype" where
  "TemporalSearchAttributeList_type E = TStruct [
      (''TypeMeta'', E ''v1.TypeMeta''), (''ListMeta'', E ''v1.ListMeta''),
      (''Items'', TSlice (TemporalSearchAttribute_type E))]"

definition TemporalSearchAttributeList_copy :: "(string \<Rightarrow> copier) \<Rightarrow> copyMethod \<Rightarrow> copier" where
  "TemporalSearchAttributeList_copy X = generatedCopy (copyStruct [
      (''TypeMeta'', assign), (''ListMeta'', deepInto (X ''v1.ListMeta'')),
      (''Items'', sliceDeep (TemporalSearchAttribute_copy X DeepCopyInto))])"

lemma copies_TemporalSearchAttributeList [copies]:
  assumes "externs E X"
  shows "copiesDeep (TemporalSearchAttributeList_type E) (TemporalSearchAttributeList_copy X DeepCopyInto)"
  unfolding TemporalSearchAttributeList_type_def TemporalSearchAttributeList_copy_def generatedCopy.simps
  by (rule copiesDeep_struct) (use assms in \<open>simp add: fieldCopier_def copies\<close>)

definition TemporalWorkflowRunSpec_type :: "(string \<Rightarrow> gotype) \<Rightarrow> gotype" where
  "TemporalWorkflowRunSpec_type E = TStruct [
      (''ClusterRef'', ClusterReference_type E), (''Namespace'', TFlat),
      (''Workflow'', StartWorkflowAction_type E), (''TTLSecondsAfterFinished'', TPtr TFlat),
      (''CancellationPolicy'', TFlat)]"

definition TemporalWorkflowRunSpec_copy :: "(string \<Rightarrow> copier) \<Rightarrow> copyMethod \<Rightarrow> copier" where
  "TemporalWorkflowRunSpec_copy X = generatedCopy (copyStruct [
      (''ClusterRef'', assign), (''Workflow'', deepInto (StartWorkflowAction_copy X DeepCopyInto)),
      (''TTLSecondsAfterFinished'', newCopy)])"

lemma copies_TemporalWorkflowRunSpec [copies]:
  assumes "externs E X"
  shows "copiesDeep (TemporalWorkflowRunSpec_type E) (TemporalWorkflowRunSpec_copy X DeepCopyInto)"
  unfolding TemporalWorkflowRunSpec_type_def TemporalWorkflowRunSpec_copy_def generatedCopy.simps
  by (rule copiesDeep_struct) (use assms in \<open>simp add: fieldCopier_def copies\<close>)

definition WorkflowRunFailure_type :: "(string \<Rightarrow> gotype) \<Rightarrow> gotype" where
  "WorkflowRunFailure_type E = TStruct [
      (''Message'', TFlat), (''Type'', TFlat)]"

definition WorkflowRunFailure_copy :: "(string \<Rightarrow> copier) \<Rightarrow> copyMethod \<Rightarrow> copier" where
  "WorkflowRunFailure_copy X = generatedCopy (copyStruct [])"

lemma flat_WorkflowRunFailure [copies]: "externs E X \<Longrightarrow> flatType (WorkflowRunFailure_type E)"
  by (simp add: WorkflowRunFailure_type_def copies)

lemma copies_WorkflowRunFailure [copies]:
  assumes "externs E X"
  shows "copiesDeep (WorkflowRunFailure_type E) (WorkflowRunFailure_copy X DeepCopyInto)"
  unfolding WorkflowRunFailure_type_def WorkflowRunFailure_copy_def generatedCopy.simps
  by (rule copiesDeep_struct) (use assms in \<open>simp add: fieldCopier_def copies\<close>)

definition TemporalWorkflowRunStatus_type :: "(string \<Rightarrow> gotype) \<Rightarrow> gotype" where
  "TemporalWorkflowRunStatus_type E = TStruct [
      (''ObservedGeneration'', TFlat), (''Phase'', TFlat), (''WorkflowID'', TFlat), (''RunID'', TFlat),
      (''WorkflowType'', TFlat), (''TaskQueue'', TFlat), (''StartTime'', TPtr (E ''v1.Time'')),
      (''CloseTime'', TPtr (E ''v1.Time'')), (''CompletionTime'', TPtr (E ''v1.Time'')),
      (''HistoryLength'', TFlat), (''Failure'', TPtr (WorkflowRunFailure_type E)),
      (''Conditions'', TSlice (E ''v1.Condition''))]"

definition TemporalWorkflowRunStatus_copy :: "(string \<Rightarrow> copier) \<Rightarrow> copyMethod \<Rightarrow> copier" where
  "TemporalWorkflowRunStatus_copy X = generatedCopy (copyStruct [
      (''StartTime'', newDeep (X ''v1.Time'')), (''CloseTime'', newDeep (X ''v1.Time'')),
      (''CompletionTime'', newDeep (X ''v1.Time'')), (''Failure'', newCopy),
      (''Conditions'', sliceDeep (X ''v1.Condition''))])"

lemma copies_TemporalWorkflowRunStatus [copies]:
  assumes "externs E X"
  shows "copiesDeep (TemporalWorkflowRunStatus_type E) (TemporalWorkflowRunStatus_copy X DeepCopyInto)"
  unfolding TemporalWorkflowRunStatus_type_def TemporalWorkflowRunStatus_copy_def generatedCopy.simps
  by (rule copiesDeep_struct) (use assms in \<open>simp add: fieldCopier_def copies\<close>)

definition TemporalWorkflowRun_type :: "(string \<Rightarrow> gotype) \<Rightarrow> gotype" where
  "TemporalWorkflowRun_type E = TStruct [
      (''TypeMeta'', E ''v1.TypeMeta''), (''ObjectMeta'', E ''v1.ObjectMeta''),
      (''Spec'', TemporalWorkflowRunSpec_type E), (''Status'', TemporalWorkflowRunStatus_type E)]"

definition TemporalWorkflowRun_copy :: "(string \<Rightarrow> copier) \<Rightarrow> copyMethod \<Rightarrow> copier" where
  "TemporalWorkflowRun_copy X = generatedCopy (copyStruct [
      (''TypeMeta'', assign), (''ObjectMeta'', deepInto (X ''v1.ObjectMeta'')),
      (''Spec'', deepInto (TemporalWorkflowRunSpec_copy X DeepCopyInto)),
      (''Status'', deepInto (TemporalWorkflowRunStatus_copy X DeepCopyInto))])"

lemma copies_TemporalWorkflowRun [copies]:
  assumes "externs E X"
  shows "copiesDeep (TemporalWorkflowRun_type E) (TemporalWorkflowRun_copy X DeepCopyInto)"
  unfolding TemporalWorkflowRun_type_def TemporalWorkflowRun_copy_def generatedCopy.simps
  by (rule copiesDeep_struct) (use assms in \<open>simp add: fieldCopier_def copies\<close>)

definition TemporalWorkflowRunList_type :: "(string \<Rightarrow> gotype) \<Rightarrow> gotype" where
  "TemporalWorkflowRunList_type E = TStruct [
      (''TypeMeta'', E ''v1.TypeMeta''), (''ListMeta'', E ''v1.ListMeta''),
      (''Items'', TSlice (TemporalWorkflowRun_type E))]"

definition TemporalWorkflowRunList_copy :: "(string \<Rightarrow> copier) \<Rightarrow> copyMethod \<Rightarrow> copier" where
  "TemporalWorkflowRunList_copy X = generatedCopy (copyStruct [
      (''TypeMeta'', assign), (''ListMeta'', deepInto (X ''v1.ListMeta'')),
      (''Items'', sliceDeep (TemporalWorkflowRun_copy X DeepCopyInto))])"

lemma copies_TemporalWorkflowRunList [copies]:
  assumes "externs E X"
  shows "copiesDeep (TemporalWorkflowRunList_type E) (TemporalWorkflowRunList_copy X DeepCopyInto)"
  unfolding TemporalWorkflowRunList_type_def TemporalWorkflowRunList_copy_def generatedCopy.simps
  by (rule copiesDeep_struct) (use assms in \<open>simp add: fieldCopier_def copies\<close>)

section \<open>The registered kinds\<close>

text \<open>What the \<^verbatim>\<open>init\<close> functions of the API types register: each kind and its list, with type and methods.\<close>

definition registeredKinds ::
  "(string \<Rightarrow> gotype) \<Rightarrow> (string \<Rightarrow> copier) \<Rightarrow> (string \<times> gotype \<times> (copyMethod \<Rightarrow> copier)) list" where
  "registeredKinds E X = [
      (''TemporalCluster'', TemporalCluster_type E, TemporalCluster_copy X),
      (''TemporalClusterList'', TemporalClusterList_type E, TemporalClusterList_copy X),
      (''TemporalClusterClient'', TemporalClusterClient_type E, TemporalClusterClient_copy X),
      (''TemporalClusterClientList'', TemporalClusterClientList_type E, TemporalClusterClientList_copy X),
      (''TemporalClusterConnection'', TemporalClusterConnection_type E, TemporalClusterConnection_copy X),
      (''TemporalClusterConnectionList'', TemporalClusterConnectionList_type E, TemporalClusterConnectionList_copy X),
      (''TemporalDevServer'', TemporalDevServer_type E, TemporalDevServer_copy X),
      (''TemporalDevServerList'', TemporalDevServerList_type E, TemporalDevServerList_copy X),
      (''TemporalNamespace'', TemporalNamespace_type E, TemporalNamespace_copy X),
      (''TemporalNamespaceList'', TemporalNamespaceList_type E, TemporalNamespaceList_copy X),
      (''TemporalSchedule'', TemporalSchedule_type E, TemporalSchedule_copy X),
      (''TemporalScheduleList'', TemporalScheduleList_type E, TemporalScheduleList_copy X),
      (''TemporalSearchAttribute'', TemporalSearchAttribute_type E, TemporalSearchAttribute_copy X),
      (''TemporalSearchAttributeList'', TemporalSearchAttributeList_type E, TemporalSearchAttributeList_copy X),
      (''TemporalWorkflowRun'', TemporalWorkflowRun_type E, TemporalWorkflowRun_copy X),
      (''TemporalWorkflowRunList'', TemporalWorkflowRunList_type E, TemporalWorkflowRunList_copy X)]"

lemma registered_deep:
  assumes "externs E X" "m \<in> {DeepCopy, DeepCopyObject}"
  shows "\<forall>(k, t, c)\<in>set (registeredKinds E X). copiesDeep (TPtr t) (c m)"
proof -
  have object: "copiesDeep (TPtr t) (c m)" if "c = generatedCopy f" "copiesDeep t (c DeepCopyInto)" for t c f
    using that copiesDeep_generated [of t f] assms(2) by auto
  show ?thesis
    using object [OF TemporalCluster_copy_def copies_TemporalCluster [OF assms(1)]]
      object [OF TemporalClusterList_copy_def copies_TemporalClusterList [OF assms(1)]]
      object [OF TemporalClusterClient_copy_def copies_TemporalClusterClient [OF assms(1)]]
      object [OF TemporalClusterClientList_copy_def copies_TemporalClusterClientList [OF assms(1)]]
      object [OF TemporalClusterConnection_copy_def copies_TemporalClusterConnection [OF assms(1)]]
      object [OF TemporalClusterConnectionList_copy_def copies_TemporalClusterConnectionList [OF assms(1)]]
      object [OF TemporalDevServer_copy_def copies_TemporalDevServer [OF assms(1)]]
      object [OF TemporalDevServerList_copy_def copies_TemporalDevServerList [OF assms(1)]]
      object [OF TemporalNamespace_copy_def copies_TemporalNamespace [OF assms(1)]]
      object [OF TemporalNamespaceList_copy_def copies_TemporalNamespaceList [OF assms(1)]]
      object [OF TemporalSchedule_copy_def copies_TemporalSchedule [OF assms(1)]]
      object [OF TemporalScheduleList_copy_def copies_TemporalScheduleList [OF assms(1)]]
      object [OF TemporalSearchAttribute_copy_def copies_TemporalSearchAttribute [OF assms(1)]]
      object [OF TemporalSearchAttributeList_copy_def copies_TemporalSearchAttributeList [OF assms(1)]]
      object [OF TemporalWorkflowRun_copy_def copies_TemporalWorkflowRun [OF assms(1)]]
      object [OF TemporalWorkflowRunList_copy_def copies_TemporalWorkflowRunList [OF assms(1)]]
    by (simp add: registeredKinds_def)
qed

text \<open>
  C30: Deep copies of API objects are independent of their originals.  For every registered kind and its list,
  and every object of it in memory, nil included, \<^verbatim>\<open>DeepCopy\<close> and \<^verbatim>\<open>DeepCopyObject\<close> return an object with the same
  contents and leave the original as it was; whatever cell the copy reaches may then be overwritten without
  the original changing, and whatever cell the original reaches without the copy changing.
\<close>
theorem deep_copies_are_apart:
  assumes "externs E X" "(k, t, copier) \<in> set (registeredKinds E X)" "m \<in> {DeepCopy, DeepCopyObject}"
    and "wt (TPtr t) h v" "copier m v h = (v', h')"
  shows "contentsOf (TPtr t) h' v' = contentsOf (TPtr t) h v \<and>
    contentsOf (TPtr t) h' v = contentsOf (TPtr t) h v \<and>
    (\<forall>a c. a \<in> set (reach (TPtr t) h' v') \<longrightarrow> contentsOf (TPtr t) (h'[a := c]) v = contentsOf (TPtr t) h v) \<and>
    (\<forall>a c. a \<in> set (reach (TPtr t) h' v) \<longrightarrow> contentsOf (TPtr t) (h'[a := c]) v' = contentsOf (TPtr t) h v)"
proof -
  have "copiesDeep (TPtr t) (copier m)" using registered_deep [OF assms(1,3)] assms(2) by blast
  then have c: "copied (TPtr t) h v h' v'" using copiesDeepD assms(4,5) by blast
  note deep = c [unfolded copied_def]
  show ?thesis
    using deep extend(1) [OF assms(4) conjunct1 [OF deep]] copied_apart [OF c assms(4)] by blast
qed

text \<open>A search attribute with a condition: its condition array and the object itself are copied.\<close>

definition sampleHeap :: heap where
  "sampleHeap = [
     CArr [VPrim ''Ready''],
     CVal (VStruct [(''TypeMeta'', VPrim ''TemporalSearchAttribute''), (''ObjectMeta'', VPrim ''region''),
       (''Spec'', VStruct [(''ClusterRef'', VStruct [(''Name'', VPrim ''x''), (''Kind'', VPrim ''x'')]),
          (''Namespace'', VPrim ''default''), (''Name'', VPrim ''Region''), (''Type'', VPrim ''Keyword''),
          (''AllowDeletion'', VPrim ''false'')]),
       (''Status'', VStruct [(''ObservedGeneration'', VPrim ''1''), (''Registered'', VPrim ''true''),
          (''RegisteredAt'', VRef None), (''Conditions'', VRef (Some 0))])])]"

lemmas attribute_types =
  TemporalSearchAttribute_type_def TemporalSearchAttributeSpec_type_def TemporalSearchAttributeStatus_type_def
  ClusterReference_type_def

theorem deep_copies_are_apart_witness:
  "externs (\<lambda>_. TFlat) (\<lambda>_. assign) \<and>
   wt (TPtr (TemporalSearchAttribute_type (\<lambda>_. TFlat))) sampleHeap (VRef (Some 1)) \<and>
   (case TemporalSearchAttribute_copy (\<lambda>_. assign) DeepCopyObject (VRef (Some 1)) sampleHeap of
      (v', h') \<Rightarrow>
        v' = VRef (Some 3) \<and> h' ! 2 = h' ! 0 \<and>
        contentsOf (TPtr (TemporalSearchAttribute_type (\<lambda>_. TFlat))) (h'[2 := CArr []]) (VRef (Some 1)) =
          contentsOf (TPtr (TemporalSearchAttribute_type (\<lambda>_. TFlat))) sampleHeap (VRef (Some 1)))"
proof -
  let ?t = "TemporalSearchAttribute_type (\<lambda>_. TFlat)" and ?c = "TemporalSearchAttribute_copy (\<lambda>_. assign)"
  have e: "externs (\<lambda>_. TFlat) (\<lambda>_. assign)"
    by (simp add: externs_def copiedExterns_def flatExterns_def copiesDeep_assign)
  have r: "(''TemporalSearchAttribute'', ?t, ?c) \<in> set (registeredKinds (\<lambda>_. TFlat) (\<lambda>_. assign))"
    by (simp add: registeredKinds_def)
  have w: "wt (TPtr ?t) sampleHeap (VRef (Some 1))"
    by (simp add: sampleHeap_def attribute_types)
  obtain v' h' where c: "?c DeepCopyObject (VRef (Some 1)) sampleHeap = (v', h')" by fastforce
  have n: "v' = VRef (Some 3)" "h' ! 2 = h' ! 0" "2 \<in> set (reach (TPtr ?t) h' v')"
    using c by (auto simp: sampleHeap_def attribute_types TemporalSearchAttribute_copy_def
        TemporalSearchAttributeStatus_copy_def newDeep_def sliceDeep_def copyStruct_def fieldCopier_def assign_def deepInto_def)
  have "contentsOf (TPtr ?t) (h'[2 := CArr []]) (VRef (Some 1)) = contentsOf (TPtr ?t) sampleHeap (VRef (Some 1))"
    using deep_copies_are_apart [OF e r _ w c] n(3) by blast
  then show ?thesis unfolding c prod.case using e w n(1,2) by blast
qed

end
