(* ===== verification/Spec2Isabelle.thy ===== *)
theory Spec2Isabelle
  imports Sample_Runs Admitted_Clusters Sample_Satellites Sample_Preview Cluster_References
    Object_Ownership Dev_Server_Controller Sample_Dashboard Sample_Start Api_Deep_Copies
begin

text \<open>
  A verification library of the Temporal operator, a Kubernetes operator written in Go that runs
  Temporal clusters and manages what lives in them.

  \<^bold>\<open>The program.\<close>  A \<^verbatim>\<open>TemporalCluster\<close> object is defaulted and validated by admission webhooks.  A
  controller then reconciles it in passes: it probes the datastores and brings their schemas up to date
  with Jobs, issues certificates, drives the phases of an upgrade, applies the Deployments, Services and
  configuration of every Temporal service, the UI and the monitoring objects, and writes the status.
  Seven smaller resources refer to a cluster or to a dev server: namespaces, search attributes,
  schedules, workflow runs, cluster connections, client certificates, and the dev server itself; their
  controllers talk gRPC to the Temporal frontend.  A dashboard shows clusters and what belongs to them,
  a preview renders the objects of a manifest in the browser, and a subcommand inspects a database from
  a Job.

  \<^bold>\<open>How the model is built.\<close>  Structs are records and enums datatypes; pointers are options; Go maps are
  maps, or association lists where their order is visible.  Errors are values of the datatype \<open>err\<close> in a
  sum type, with wrapping and \<^verbatim>\<open>errors.Is\<close> as the source has them; a nil dereference is the error \<open>Panic\<close>.
  Code with effects is a state monad over a world that holds the trace of the calls made so far
  (\<open>World.thy\<close>); what the API server, the databases and the frontend answer are functions of that trace,
  so they may change in any way from call to call.  \<open>emits C m\<close> says that every call of an operation
  satisfies \<open>C\<close>; the collection \<open>emits_rules\<close> decomposes such a claim along the code.

  \<^bold>\<open>The theories, and the code under src/ they follow.\<close>
  \<^item> \<open>Go_Prelude\<close>: Go's strings, errors, numbers and URLs.  \<open>Sha256\<close>: the hash function.  \<open>Json_Valid\<close>: the
    scanner of \<^verbatim>\<open>json.Valid\<close>.  \<open>Versions\<close>: internal/temporal/versions.go and its generated table.
    \<open>Schema_Version\<close>: internal/persistence/schema.go.
  \<^item> \<open>Api_Types\<close>, \<open>Satellite_Types\<close>: api/v1alpha1.  \<open>Kube_Objects\<close>: the fields of Kubernetes objects in use.
    \<open>Protos\<close>: the messages of the frontend.
  \<^item> \<open>Resources\<close>, \<open>Deployments\<close>, \<open>Schema_Jobs\<close>, \<open>Ui_Resources\<close>, \<open>Dev_Servers\<close>: internal/resources.
    \<open>Config_Data\<close>: internal/temporal/configtemplate.go and dynamicconfig.go.  \<open>Plan\<close>: internal/plan.
  \<^item> \<open>Backends\<close>: internal/persistence, with the contract of a backend as the locale \<open>backend_contract\<close>.
  \<^item> \<open>Cluster_Persistence\<close>, \<open>Cluster_Upgrade\<close>, \<open>Cluster_Reconcile\<close>: the cluster controller
    (internal/controller/temporalcluster_*.go).  \<open>Cluster_Webhook\<close>: its webhook.
  \<^item> \<open>Temporal_Client\<close>, \<open>Temporal_Schedule\<close>, \<open>Temporal_Workflow\<close>: the gRPC clients (internal/temporal).
    \<open>Targets\<close>: target.go, temporal_tls.go and cluster_watch.go of internal/controller.
  \<^item> \<open>Namespace_Controller\<close>, \<open>Search_Attribute_Controller\<close>, \<open>Schedule_Controller\<close>, \<open>Workflow_Run_Controller\<close>,
    \<open>Connection_Controller\<close>, \<open>Dev_Server_Controller\<close>: the controllers of the same names and the one of
    client certificates.  \<open>Satellite_Webhooks\<close>: the webhooks of five of the resources.
  \<^item> \<open>Operator_Ui\<close>: internal/ui.  \<open>Preview\<close>: cmd/preview-wasm.  \<open>Inspect_Command\<close>: cmd/inspect.go.

  \<^bold>\<open>What is shown.\<close>
  \<^item> Upgrades (\<open>Upgrade_Runs\<close>, \<open>Cluster_Runs\<close>, \<open>Rollout\<close>): a pass refines an abstract phase machine; services
    get the new version in order, each after the ones before it were seen rolled out; a steady
    environment finishes an upgrade; the written status is consistent; an applied Deployment passes the
    rollout test for its version.
  \<^item> Schemas (\<open>Schema_Readiness\<close>, \<open>Cluster_Runs\<close>): a ready schema satisfies the version that is asked for, and
    no service is deployed before it.
  \<^item> Admission (\<open>Admitted_Clusters\<close>, \<open>Schedule_Runs\<close>): what stays true of a stored cluster along every sequence
    of admitted edits; an admitted schedule converts to a well-typed message.
  \<^item> Satellites (\<open>Namespace_Runs\<close>, \<open>Namespace_Service\<close>, \<open>Workflow_Runs\<close>, \<open>Connection_Runs\<close>): which remote calls a
    pass may make, that a namespace converges against a frontend that behaves as documented, that a
    workflow is started with one fixed request, that a ready connection is a mesh, that deletion is not
    blocked by peers, and that paging ends.
  \<^item> Builders, plan and parsers: round trips, distinctness of planned objects, determinism, agreement of
    the dashboard, the watches and the controllers on references (\<open>Cluster_References\<close>).
  \<^item> Some theorems state a behaviour that is hardly intended: two quick edits skip a minor version, a
    non-finite backoff coefficient is admitted and then stops every pass, the inspector drops the
    verification of the host, a relabelled pod never counts as rolled out, and a plan with Elasticsearch
    panics.
  The theories \<open>Samples\<close>, \<open>Sample_Builders\<close>, \<open>Sample_Runs\<close>, \<open>Sample_Satellites\<close> and \<open>Sample_Preview\<close> hold a concrete
  cluster, environment and frontend at which the hypotheses of the theorems hold.

  \<^bold>\<open>Parameters.\<close>  Third-party code is a parameter with its documented behaviour as a hypothesis where a
  theorem needs it: the condition functions (\<open>meta_laws\<close>), the finalizer functions (\<open>finalizer_laws\<close>), the
  strategic merge patch, the YAML and text template engines, the bytes of \<^verbatim>\<open>json.Marshal\<close>, \<^verbatim>\<open>ParseFloat\<close>, the
  syntax of \<^verbatim>\<open>ParseInt\<close> in base 0, X.509 parsing, semantic equality, the database drivers, and the iteration
  order of a Go map (any permutation).

  \<^bold>\<open>Bounds.\<close>  The paged listing of remote clusters has the number of calls as fuel; \<open>remote_listing_terminates\<close>
  shows that the number of pages is enough, and every bound above it gives the same result.  The other
  loops of the source are structural recursions.  Times and durations are integers in nanoseconds; where
  a product could leave 64 bits the bound is part of the theorem (\<open>ttl_cleanup_bounds\<close>), and \<open>int32\<close> and \<open>int64\<close>
  conversions are written out.

  \<^bold>\<open>Not modelled.\<close>  The generated deep copies (a copy is the identity here), the generated HTML templates of
  the dashboard with its routes and static files, the start of the program and the registration of
  controllers, webhooks and watches with the manager, the registration of the API types, the text of the
  server configuration template, the generators under hack, logging, metrics and events other than their
  emission, and the closing of connections.  Concurrency between passes is left to the trace: two passes over the same
  object do not overlap, as the manager guarantees, but between two calls of a pass the environment may
  change.
\<close>

section \<open>The controllers around a cluster\<close>

text \<open>
  C13: Whatever the API server and the frontends answer, a pass of the controller of namespaces, search
  attributes, schedules, workflow runs or cluster connections writes to the API server only the object it
  was called for.  It creates and applies nothing; it deletes the object only while the object is not
  being deleted already; and each update of the object keeps the finalizers of others, has the
  controller's finalizer exactly when the object is not being deleted, and so never gives up a live object.
\<close>
theorem satellites_touch_only_themselves:
  assumes "namespacesEnvironment Rn" "searchAttributesEnvironment Ra" "schedulesEnvironment Rs"
    and "workflowRunsEnvironment Rw" "connectionsEnvironment Rc"
  shows "list_all (ownCall ''TemporalNamespace'' namespaceFinalizer (tn_Meta ns)) (callsOf (reconcileNamespace Rn ns) w) \<and>
    list_all (ownCall ''TemporalSearchAttribute'' searchAttributeFinalizer (sa_Object sa))
      (callsOf (reconcileSearchAttribute Ra sa) w) \<and>
    list_all (ownCall ''TemporalSchedule'' scheduleFinalizer (tsc_Meta sched)) (callsOf (reconcileTemporalSchedule Rs sched) w) \<and>
    list_all (ownCall ''TemporalWorkflowRun'' workflowRunFinalizer (wr_Meta run)) (callsOf (reconcileWorkflowRun Rw run) w) \<and>
    list_all (ownCall ''TemporalClusterConnection'' clusterConnectionFinalizer (tcn_Meta conn))
      (callsOf (reconcileConnection Rc conn) w)"
  by (intro conjI namespaces.pass_calls searchAttributes.pass_calls schedules.pass_calls workflowRuns.pass_calls
      connections.pass_calls assms)

definition sampleAttribute :: TemporalSearchAttribute where
  "sampleAttribute = \<lparr>sa_Object = newMeta ''customer'' ''temporal'' Map.empty Map.empty,
     sa_Spec = \<lparr>tsa_ClusterRef = sampleRef, tsa_Namespace = ''orders'', tsa_Name = ''Customer'', tsa_Type = ''Keyword'',
       tsa_AllowDeletion = True\<rparr>,
     sa_Status = \<lparr>tsast_ObservedGeneration = 0, tsast_Registered = False, tsast_RegisteredAt = None, tsast_Conditions = []\<rparr>\<rparr>"

definition sampleAttributes :: TemporalSearchAttributeReconciler where
  "sampleAttributes = \<lparr>sr_Client = sampleApi, sr_ClientFactory = None, sr_Frontend = sampleServer\<rparr>"

definition sampleSchedules :: TemporalScheduleReconciler where
  "sampleSchedules = nanSchedules \<lparr>scr_Client := sampleApi, scr_ClientFactory := None\<rparr>"

theorem satellites_touch_only_themselves_witness:
  "list_all (ownCall ''TemporalNamespace'' namespaceFinalizer (tn_Meta sampleNamespace))
     (callsOf (reconcileNamespace sampleNamespaces sampleNamespace) sampleWorld) \<and>
   list_all (ownCall ''TemporalSearchAttribute'' searchAttributeFinalizer (sa_Object sampleAttribute))
     (callsOf (reconcileSearchAttribute sampleAttributes sampleAttribute) sampleWorld) \<and>
   list_all (ownCall ''TemporalSchedule'' scheduleFinalizer (tsc_Meta sampleSchedule))
     (callsOf (reconcileTemporalSchedule sampleSchedules sampleSchedule) sampleWorld) \<and>
   list_all (ownCall ''TemporalWorkflowRun'' workflowRunFinalizer (wr_Meta sampleRun))
     (callsOf (reconcileWorkflowRun sampleRuns sampleRun) sampleWorld) \<and>
   list_all (ownCall ''TemporalClusterConnection'' clusterConnectionFinalizer (tcn_Meta deletedConnection))
     (callsOf (reconcileConnection sampleConnections deletedConnection) sampleWorld)"
  by (rule satellites_touch_only_themselves)
    (simp_all add: namespacesEnvironment_def searchAttributesEnvironment_def schedulesEnvironment_def
      workflowRunsEnvironment_def connectionsEnvironment_def rangeOk_def sampleApi_laws sampleNamespaces_def sampleAttributes_def
      sampleSchedules_def nanSchedules_def sampleRuns_def sampleConnections_def)

end
